(* ===== verification/SP_Prelude.thy ===== *)
theory SP_Prelude
  imports Main "HOL-Library.AList" "HOL-Library.Sublist" "HOL-Library.Char_ord"
    "HOL-Library.List_Lexorder"
begin

text \<open>
  The shared vocabulary of the development: results of fallible code, the Python string and
  dictionary operations the sources use, association-list tables, and the generic lemmas on them.
  A Python \<open>dict\<close> is an association list with distinct keys in insertion order
  (\<open>AList.update\<close> keeps the place of a key that is present and appends a new one, as
  \<open>d[k] = v\<close> does). A Python \<open>str\<close> is a \<open>string\<close>; the characters are ASCII.
\<close>

named_theorems sp_res \<open>simplification of result-returning code\<close>
named_theorems sp_frame \<open>what an operation leaves unchanged\<close>

type_synonym time = int \<comment> \<open>microseconds since the epoch, UTC\<close>
type_synonym 'v dict = "(string \<times> 'v) list"
type_synonym conf = "string dict" \<comment> \<open>a Spark configuration, \<open>dict[str, str]\<close>\<close>

subsection \<open>Results\<close>

definition rbind :: "'e + 'a \<Rightarrow> ('a \<Rightarrow> 'e + 'b) \<Rightarrow> 'e + 'b" where
  "rbind m f = (case m of Inl e \<Rightarrow> Inl e | Inr x \<Rightarrow> f x)"

definition guard_err :: "bool \<Rightarrow> 'e \<Rightarrow> 'e + unit" where
  "guard_err b e = (if b then Inl e else Inr ())"

definition is_ok :: "'e + 'a \<Rightarrow> bool" where
  "is_ok m = (case m of Inl _ \<Rightarrow> False | Inr _ \<Rightarrow> True)"

lemma rbind_simps [simp, sp_res]:
  "rbind (Inl e) f = Inl e"
  "rbind (Inr x) f = f x"
  by (simp_all add: rbind_def)

lemma is_ok_simps [simp, sp_res]: "is_ok (Inl e) = False" "is_ok (Inr x) = True"
  by (simp_all add: is_ok_def)

lemma rbind_Inr_iff [sp_res]: "rbind m f = Inr y \<longleftrightarrow> (\<exists>x. m = Inr x \<and> f x = Inr y)"
  by (cases m) auto

lemma rbind_Inl_iff [sp_res]:
  "rbind m f = Inl e \<longleftrightarrow> m = Inl e \<or> (\<exists>x. m = Inr x \<and> f x = Inl e)"
  by (cases m) auto

lemma guard_err_Inr_iff [simp, sp_res]: "guard_err b e = Inr u \<longleftrightarrow> \<not> b"
  by (simp add: guard_err_def)

lemma guard_err_Inl_iff [simp, sp_res]: "guard_err b e = Inl e' \<longleftrightarrow> b \<and> e = e'"
  by (auto simp: guard_err_def)

text \<open>Mapping a fallible function over a list stops at the first error, as a loop that raises.\<close>

fun mapM :: "('a \<Rightarrow> 'e + 'b) \<Rightarrow> 'a list \<Rightarrow> 'e + 'b list" where
  "mapM f [] = Inr []"
| "mapM f (x # xs) = rbind (f x) (\<lambda>y. rbind (mapM f xs) (\<lambda>ys. Inr (y # ys)))"

lemma mapM_Inr_list_all2:
  "mapM f xs = Inr ys \<Longrightarrow> list_all2 (\<lambda>x y. f x = Inr y) xs ys"
  by (induction xs arbitrary: ys) (auto simp: rbind_Inr_iff)

lemma mapM_length: "mapM f xs = Inr ys \<Longrightarrow> length ys = length xs"
  by (drule mapM_Inr_list_all2) (simp add: list_all2_lengthD)

lemma mapM_set: "mapM f xs = Inr ys \<Longrightarrow> y \<in> set ys \<Longrightarrow> \<exists>x \<in> set xs. f x = Inr y"
  by (induction xs arbitrary: ys) (auto simp: rbind_Inr_iff)

subsection \<open>Strings\<close>

definition is_space :: "char \<Rightarrow> bool" where
  "is_space c = (let n = (of_char c :: nat) in (9 \<le> n \<and> n \<le> 13) \<or> (28 \<le> n \<and> n \<le> 32))"

definition is_digit :: "char \<Rightarrow> bool" where
  "is_digit c = (let n = (of_char c :: nat) in 48 \<le> n \<and> n \<le> 57)"

definition lower_char :: "char \<Rightarrow> char" where
  "lower_char c = (let n = (of_char c :: nat) in if 65 \<le> n \<and> n \<le> 90 then char_of (n + 32) else c)"

definition py_lower :: "string \<Rightarrow> string" where
  "py_lower s = map lower_char s"

definition py_strip :: "string \<Rightarrow> string" where
  "py_strip s = rev (dropWhile is_space (rev (dropWhile is_space s)))"

text \<open>\<open>rstrip(ch)\<close> for a one-character argument.\<close>

definition py_rstrip_char :: "char \<Rightarrow> string \<Rightarrow> string" where
  "py_rstrip_char c s = rev (dropWhile (\<lambda>x. x = c) (rev s))"

text \<open>\<open>p in s\<close> on strings.\<close>

fun contains_sub :: "string \<Rightarrow> string \<Rightarrow> bool" where
  "contains_sub p [] = (p = [])"
| "contains_sub p (c # cs) = (prefix p (c # cs) \<or> contains_sub p cs)"

fun join :: "string \<Rightarrow> string list \<Rightarrow> string" where
  "join sep [] = []"
| "join sep [x] = x"
| "join sep (x # y # ys) = x @ sep @ join sep (y # ys)"

definition split_at :: "char \<Rightarrow> string \<Rightarrow> string list" where
  "split_at c s = foldr (\<lambda>x acc. if x = c then [] # acc else
      (case acc of [] \<Rightarrow> [[x]] | w # ws \<Rightarrow> (x # w) # ws)) s [[]]"

definition digit_char :: "nat \<Rightarrow> char" where
  "digit_char n = char_of (48 + n)"

fun show_nat :: "nat \<Rightarrow> string" where
  "show_nat n = (if n < 10 then [digit_char n] else show_nat (n div 10) @ [digit_char (n mod 10)])"

declare show_nat.simps [simp del]

definition show_int :: "int \<Rightarrow> string" where
  "show_int i = (if i < 0 then ''-'' @ show_nat (nat (- i)) else show_nat (nat i))"

text \<open>The same digits from an \<open>int\<close>, which evaluates fast.\<close>

function int_digits :: "int \<Rightarrow> string" where
  "int_digits i = (if i < 10 then [digit_char (nat i)] else int_digits (i div 10) @ [digit_char (nat (i mod 10))])"
  by pat_completeness auto

termination by (relation "measure nat") auto

declare int_digits.simps [simp del]

lemma int_digits: "int_digits i = show_nat (nat i)"
proof (induction i rule: int_digits.induct)
  case (1 i)
  show ?case
  proof (cases "i < 10")
    case True
    then show ?thesis by (simp add: int_digits.simps [of i] show_nat.simps [of "nat i"] nat_less_iff)
  next
    case False
    then have "nat (i div 10) = nat i div 10" "nat (i mod 10) = nat i mod 10" "\<not> nat i < 10"
      by (simp_all add: nat_div_distrib nat_mod_distrib)
    then show ?thesis using 1 False by (simp add: int_digits.simps [of i] show_nat.simps [of "nat i"])
  qed
qed

lemma show_int_code [code]: "show_int i = (if i < 0 then ''-'' @ int_digits (- i) else int_digits i)"
  by (simp add: show_int_def int_digits)

definition zero_pad :: "nat \<Rightarrow> string \<Rightarrow> string" where
  "zero_pad w s = replicate (w - length s) (CHR ''0'') @ s"

lemma contains_sub_iff: "contains_sub p s \<longleftrightarrow> sublist p s"
  by (induction s) (auto simp: sublist_Cons_right)

lemma dropWhile_idem: "dropWhile P (dropWhile P xs) = dropWhile P xs"
  by (induction xs) auto

lemma hd_dropWhile_rev_dropWhile:
  "dropWhile P (rev (dropWhile P (rev (dropWhile P s)))) = rev (dropWhile P (rev (dropWhile P s)))"
proof -
  define t where "t = dropWhile P s"
  obtain k where k: "rev (dropWhile P (rev t)) = take k t"
    by (metis dropWhile_eq_drop drop_rev rev_rev_ident)
  have t: "t = [] \<or> \<not> P (hd t)"
    unfolding t_def using hd_dropWhile [of P s] by blast
  have "dropWhile P (take k t) = take k t"
    using t by (cases t; cases k) auto
  then show ?thesis using k by (simp add: t_def)
qed

lemma py_strip_idem [simp]: "py_strip (py_strip s) = py_strip s"
  unfolding py_strip_def by (simp add: hd_dropWhile_rev_dropWhile dropWhile_idem)

lemma length_py_strip: "length (py_strip s) \<le> length s"
  unfolding py_strip_def
  by (metis length_dropWhile_le length_rev order_trans)

lemma show_nat_nonempty [simp]: "show_nat n \<noteq> []"
  by (subst show_nat.simps) simp

subsection \<open>Dictionaries\<close>

abbreviation dset :: "string \<Rightarrow> 'v \<Rightarrow> 'v dict \<Rightarrow> 'v dict" where
  "dset \<equiv> AList.update"

definition dget :: "'v dict \<Rightarrow> string \<Rightarrow> 'v \<Rightarrow> 'v" where
  "dget d k dflt = (case map_of d k of None \<Rightarrow> dflt | Some v \<Rightarrow> v)"

definition dkeys :: "'v dict \<Rightarrow> string list" where
  "dkeys d = map fst d"

text \<open>\<open>{**a, **b}\<close>: the entries of the second dictionary override those of the first.\<close>

definition dmerge :: "'v dict \<Rightarrow> 'v dict \<Rightarrow> 'v dict" where
  "dmerge a b = fold (\<lambda>(k, v) d. dset k v d) b a"

definition wf_dict :: "'v dict \<Rightarrow> bool" where
  "wf_dict d = distinct (dkeys d)"

lemma map_of_dset [simp]: "map_of (dset k v d) = (map_of d)(k \<mapsto> v)"
  by (rule update_conv')

lemma wf_dset: "wf_dict d \<Longrightarrow> wf_dict (dset k v d)"
  by (simp add: wf_dict_def dkeys_def distinct_update)

lemma fst_mem_dset: "fst ` set (dset k v d) = insert k (fst ` set d)"
  by (induction d) auto

lemma map_of_dmerge:
  assumes "wf_dict b"
  shows "map_of (dmerge a b) = map_of a ++ map_of b"
  using assms
proof (induction b arbitrary: a)
  case Nil
  then show ?case by (simp add: dmerge_def)
next
  case (Cons p b)
  obtain k v where p: "p = (k, v)" by force
  from Cons.prems have k: "k \<notin> fst ` set b" and wf: "wf_dict b"
    by (auto simp: wf_dict_def dkeys_def p)
  have step: "dmerge a (p # b) = dmerge (dset k v a) b"
    by (simp add: dmerge_def p)
  have "map_of (dmerge (dset k v a) b) = (map_of a)(k \<mapsto> v) ++ map_of b"
    by (subst Cons.IH [OF wf]) (simp only: map_of_dset)
  also have "\<dots> = map_of a ++ map_of (p # b)"
  proof -
    from k have "map_of b k = None" by (simp add: map_of_eq_None_iff)
    then show ?thesis by (auto simp: p fun_eq_iff map_add_def split: option.splits)
  qed
  finally show ?case unfolding step .
qed

lemma wf_dmerge: "wf_dict a \<Longrightarrow> wf_dict (dmerge a b)"
proof (induction b arbitrary: a)
  case Nil
  then show ?case by (simp add: dmerge_def)
next
  case (Cons p b)
  then have "wf_dict (dmerge (dset (fst p) (snd p) a) b)"
    by (simp add: wf_dset)
  then show ?case by (simp add: dmerge_def split_def)
qed

lemma dkeys_dmerge: "set (dkeys (dmerge a b)) = set (dkeys a) \<union> set (dkeys b)"
proof (induction b arbitrary: a)
  case Nil
  then show ?case by (simp add: dmerge_def dkeys_def)
next
  case (Cons p b)
  have "set (dkeys (dmerge (dset (fst p) (snd p) a) b)) =
      insert (fst p) (fst ` set a) \<union> set (dkeys b)"
    using Cons.IH by (simp add: dkeys_def fst_mem_dset)
  then show ?case by (auto simp: dmerge_def dkeys_def split_def)
qed

subsection \<open>Lists as tables\<close>

text \<open>
  A database table is the list of its rows in insertion order. \<open>find_row\<close> is
  \<open>db.get(Model, id)\<close>, \<open>modify_row\<close> an update of the row with that key.
\<close>

definition find_row :: "('r \<Rightarrow> string) \<Rightarrow> string \<Rightarrow> 'r list \<Rightarrow> 'r option" where
  "find_row key i t = find (\<lambda>r. key r = i) t"

definition modify_row :: "('r \<Rightarrow> string) \<Rightarrow> string \<Rightarrow> ('r \<Rightarrow> 'r) \<Rightarrow> 'r list \<Rightarrow> 'r list" where
  "modify_row key i f t = map (\<lambda>r. if key r = i then f r else r) t"

lemma find_row_Some: "find_row key i t = Some r \<Longrightarrow> r \<in> set t \<and> key r = i"
  by (auto simp: find_row_def find_Some_iff)

lemma find_row_None: "find_row key i t = None \<longleftrightarrow> i \<notin> key ` set t"
  by (auto simp: find_row_def find_None_iff)

lemma find_row_append:
  "find_row key i (t @ u) = (case find_row key i t of None \<Rightarrow> find_row key i u | Some r \<Rightarrow> Some r)"
  by (induction t) (auto simp: find_row_def)

lemma find_row_modify_other:
  assumes "i \<noteq> j" and "\<And>r. key (f r) = key r"
  shows "find_row key j (modify_row key i f t) = find_row key j t"
  using assms by (induction t) (auto simp: find_row_def modify_row_def)

lemma find_row_modify_same:
  assumes "\<And>r. key (f r) = key r"
  shows "find_row key i (modify_row key i f t) = map_option f (find_row key i t)"
  using assms by (induction t) (auto simp: find_row_def modify_row_def)

lemma map_key_modify:
  assumes "\<And>r. key (f r) = key r"
  shows "map key (modify_row key i f t) = map key t"
  using assms by (simp add: modify_row_def)

lemma find_row_unique:
  assumes "distinct (map key t)" and "r \<in> set t"
  shows "find_row key (key r) t = Some r"
  using assms by (induction t) (auto simp: find_row_def)

lemma set_modify_row:
  "set (modify_row key i f t) =
     (\<lambda>r. if key r = i then f r else r) ` set t"
  by (simp add: modify_row_def)

lemma modify_row_not_in: "i \<notin> key ` set t \<Longrightarrow> modify_row key i f t = t"
  by (induction t) (auto simp: modify_row_def)

lemma length_modify_row [simp]: "length (modify_row key i f t) = length t"
  by (simp add: modify_row_def)

text \<open>\<open>LIMIT\<close> and \<open>OFFSET\<close> of a query.\<close>

definition page :: "nat \<Rightarrow> nat \<Rightarrow> 'r list \<Rightarrow> 'r list" where
  "page lim off rows = take lim (drop off rows)"

text \<open>\<open>ORDER BY k DESC\<close>; ties keep the order of the table.\<close>

definition sort_desc :: "('r \<Rightarrow> int) \<Rightarrow> 'r list \<Rightarrow> 'r list" where
  "sort_desc k rows = sort_key (\<lambda>r. - k r) rows"

lemma set_sort_desc [simp]: "set (sort_desc k rows) = set rows"
  by (simp add: sort_desc_def)

lemma length_page: "length (page lim off rows) \<le> lim"
  by (simp add: page_def)

lemma set_page: "set (page lim off rows) \<subseteq> set rows"
  unfolding page_def by (meson in_set_dropD in_set_takeD subsetI)

lemma find_append_None: "find P xs = None \<Longrightarrow> find P (xs @ ys) = find P ys"
  by (induction xs) (auto split: if_splits)

lemma find_append: "find P (xs @ ys) = (case find P xs of None \<Rightarrow> find P ys | Some x \<Rightarrow> Some x)"
  by (induction xs) auto

lemma find_None_ex: "find P xs \<noteq> None \<longleftrightarrow> (\<exists>x \<in> set xs. P x)"
  by (auto simp: find_None_iff)

lemma list_all2_mem:
  "list_all2 P xs ys \<Longrightarrow> x \<in> set xs \<Longrightarrow> \<exists>y \<in> set ys. P x y"
  by (induction rule: list_all2_induct) auto

subsection \<open>Sums over filtered lists\<close>

lemma sum_list_filter_modify_le:
  fixes v :: "'r \<Rightarrow> int"
  assumes "\<And>r. r \<in> set t \<Longrightarrow> P (g r) \<Longrightarrow> P r \<and> v (g r) = v r"
    and "\<And>r. r \<in> set t \<Longrightarrow> P r \<Longrightarrow> 0 \<le> v r"
  shows "sum_list (map v (filter P (map g t))) \<le> sum_list (map v (filter P t))"
  using assms
proof (induction t)
  case Nil
  then show ?case by simp
next
  case (Cons x t)
  have IH: "sum_list (map v (filter P (map g t))) \<le> sum_list (map v (filter P t))"
    by (rule Cons.IH) (use Cons.prems in auto)
  have x: "P (g x) \<Longrightarrow> P x \<and> v (g x) = v x" and nn: "P x \<Longrightarrow> 0 \<le> v x"
    using Cons.prems by auto
  show ?case using IH x nn by auto
qed

lemma length_filter_modify_le:
  assumes "\<And>r. r \<in> set t \<Longrightarrow> P (g r) \<Longrightarrow> P r"
  shows "length (filter P (map g t)) \<le> length (filter P t)"
  using assms by (induction t) auto

lemma length_filter_key:
  "distinct (map key t) \<Longrightarrow> length (filter (\<lambda>x. key x = k) t) = (if k \<in> key ` set t then 1 else 0)"
proof (induction t)
  case Nil
  then show ?case by simp
next
  case (Cons x t)
  then have "key x = k \<Longrightarrow> filter (\<lambda>x. key x = k) t = []" by (auto simp: filter_empty_conv)
  then show ?case using Cons by auto
qed

end
