(* ===== verification/SP_Errors.thy ===== *)
theory SP_Errors
  imports SP_Prelude
begin

text \<open>
  The exception hierarchy of \<open>exceptions.py\<close>, the built-in exceptions the sources raise, and the
  formatting helpers of \<open>error_handling.py\<close>.
\<close>

datatype error =
    EntityNotFoundError string
  | ConflictError string
  | GoneError string
  | ValidationError string
  | QuotaExceededError string
  | ProvisioningError string
  | ProvisioningPermanentError string
  | HTTPException int string
  | ValueError string
  | TypeError string
  | AttributeError string
  | IntegrityError string

text \<open>The status code a response carries: the domain errors have their own, anything else is a 500.\<close>

fun status_code :: "error \<Rightarrow> int" where
  "status_code (EntityNotFoundError d) = 404"
| "status_code (ConflictError d) = 409"
| "status_code (GoneError d) = 410"
| "status_code (ValidationError d) = 422"
| "status_code (QuotaExceededError d) = 429"
| "status_code (ProvisioningError d) = 500"
| "status_code (ProvisioningPermanentError d) = 500"
| "status_code (HTTPException c d) = c"
| "status_code _ = 500"

fun is_sparkpilot_error :: "error \<Rightarrow> bool" where
  "is_sparkpilot_error (EntityNotFoundError d) = True"
| "is_sparkpilot_error (ConflictError d) = True"
| "is_sparkpilot_error (GoneError d) = True"
| "is_sparkpilot_error (ValidationError d) = True"
| "is_sparkpilot_error (QuotaExceededError d) = True"
| "is_sparkpilot_error (ProvisioningError d) = True"
| "is_sparkpilot_error (ProvisioningPermanentError d) = True"
| "is_sparkpilot_error _ = False"

fun detail :: "error \<Rightarrow> string" where
  "detail (EntityNotFoundError d) = d"
| "detail (ConflictError d) = d"
| "detail (GoneError d) = d"
| "detail (ValidationError d) = d"
| "detail (QuotaExceededError d) = d"
| "detail (ProvisioningError d) = d"
| "detail (ProvisioningPermanentError d) = d"
| "detail (HTTPException c d) = d"
| "detail (ValueError d) = d"
| "detail (TypeError d) = d"
| "detail (AttributeError d) = d"
| "detail (IntegrityError d) = d"

text \<open>
  An exception as a worker catches it: its class name, its text, the error code of a botocore
  response where it has one, and whether it is a \<open>ClientError\<close> or \<open>BotoCoreError\<close>.
\<close>

record exn =
  exn_class :: string
  exn_text :: string
  exn_code :: "string option"
  exn_aws :: bool

definition value_error :: "string \<Rightarrow> exn" where
  "value_error msg = \<lparr>exn_class = ''ValueError'', exn_text = msg, exn_code = None, exn_aws = False\<rparr>"

text \<open>An \<open>except ValueError\<close> also catches its subclasses.\<close>

definition is_value_error :: "exn \<Rightarrow> bool" where
  "is_value_error e \<longleftrightarrow> exn_class e \<in> {''ValueError'', ''JSONDecodeError'', ''UnicodeDecodeError''}"

definition error_type :: "exn \<Rightarrow> string" where
  "error_type e = exn_class e"

definition error_message :: "exn \<Rightarrow> bool \<Rightarrow> string" where
  "error_message e include_type =
     (let message = exn_text e in
      if include_type then ''['' @ error_type e @ ''] '' @ message else message)"

definition error_details :: "exn \<Rightarrow> bool \<Rightarrow> string dict" where
  "error_details e include_type =
     (let details = [(''error'', error_message e False)] in
      if include_type then dset ''error_type'' (error_type e) details else details)"

lemma status_code_sparkpilot:
  "is_sparkpilot_error e \<Longrightarrow> status_code e \<in> {404, 409, 410, 422, 429, 500}"
  by (cases e) auto

end
