(* ===== verification/SP_Json.thy ===== *)
theory SP_Json
  imports SP_Prelude SP_Errors
begin

text \<open>
  JSON columns and the Python conversions the sources apply to them: \<open>int(x)\<close>, \<open>str(x)\<close>,
  truth tests, \<open>x in y\<close> and \<open>', '.join(x)\<close>. A number with a fraction is the decimal
  literal \<open>JFloat m n\<close>, the value \<open>m / 10 ^ n\<close>.
\<close>

datatype json =
    JNull
  | JBool bool
  | JInt int
  | JFloat int nat
  | JStr string
  | JArr "json list"
  | JObj "(string \<times> json) list"

fun truthy :: "json \<Rightarrow> bool" where
  "truthy JNull = False"
| "truthy (JBool b) = b"
| "truthy (JInt i) = (i \<noteq> 0)"
| "truthy (JFloat m n) = (m \<noteq> 0)"
| "truthy (JStr s) = (s \<noteq> [])"
| "truthy (JArr xs) = (xs \<noteq> [])"
| "truthy (JObj kvs) = (kvs \<noteq> [])"

subsection \<open>\<open>int(x)\<close>\<close>

definition digit_val :: "char \<Rightarrow> int" where
  "digit_val c = int (of_char c) - 48"

text \<open>
  Digits with single underscores between them, as \<open>int\<close> accepts them; the flag says that
  the character before was a digit.
\<close>

fun digits_ok :: "bool \<Rightarrow> string \<Rightarrow> bool" where
  "digits_ok d [] = d"
| "digits_ok d (c # cs) = (if is_digit c then digits_ok True cs
     else if c = CHR ''_'' then d \<and> digits_ok False cs else False)"

definition digits_val :: "string \<Rightarrow> int" where
  "digits_val s = foldl (\<lambda>a c. 10 * a + digit_val c) 0 (filter is_digit s)"

definition int_of_str :: "string \<Rightarrow> int option" where
  "int_of_str s = (let t = py_strip s in
     (case t of
        [] \<Rightarrow> None
      | c # cs \<Rightarrow>
          if c = CHR ''-'' then (if digits_ok False cs then Some (- digits_val cs) else None)
          else if c = CHR ''+'' then (if digits_ok False cs then Some (digits_val cs) else None)
          else if digits_ok False t then Some (digits_val t) else None))"

fun py_int :: "json \<Rightarrow> error + int" where
  "py_int JNull = Inl (TypeError ''int() argument must be a string, a bytes-like object or a real number, not 'NoneType' '')"
| "py_int (JBool b) = Inr (if b then 1 else 0)"
| "py_int (JInt i) = Inr i"
| "py_int (JFloat m n) = Inr (sgn m * (\<bar>m\<bar> div 10 ^ n))"
| "py_int (JStr s) = (case int_of_str s of
      None \<Rightarrow> Inl (ValueError (''invalid literal for int() with base 10: '' @ s))
    | Some i \<Rightarrow> Inr i)"
| "py_int (JArr xs) = Inl (TypeError ''int() argument must be a string, a bytes-like object or a real number, not 'list' '')"
| "py_int (JObj kvs) = Inl (TypeError ''int() argument must be a string, a bytes-like object or a real number, not 'dict' '')"

subsection \<open>\<open>str(x)\<close>\<close>

text \<open>
  \<open>str\<close> of a decimal prints the sign, the integral part and the \<open>n\<close> decimals. A string
  inside a list or dictionary is printed between single quotes (its escapes are not modelled).
\<close>

definition show_decimal :: "int \<Rightarrow> nat \<Rightarrow> string" where
  "show_decimal m n = (if m < 0 then ''-'' else []) @ show_int (\<bar>m\<bar> div 10 ^ n) @ ''.'' @
     (if n = 0 then ''0'' else zero_pad n (show_int (\<bar>m\<bar> mod 10 ^ n)))"

fun py_repr :: "json \<Rightarrow> string" where
  "py_repr JNull = ''None''"
| "py_repr (JBool b) = (if b then ''True'' else ''False'')"
| "py_repr (JInt i) = show_int i"
| "py_repr (JFloat m n) = show_decimal m n"
| "py_repr (JStr s) = [CHR 0x27] @ s @ [CHR 0x27]"
| "py_repr (JArr xs) = ''['' @ join '', '' (map py_repr xs) @ '']''"
| "py_repr (JObj kvs) = ''{'' @ join '', '' (map (\<lambda>(k, v). [CHR 0x27] @ k @ [CHR 0x27] @ '': '' @ py_repr v) kvs) @ ''}''"

definition py_str :: "json \<Rightarrow> string" where
  "py_str j = (case j of JStr s \<Rightarrow> s | _ \<Rightarrow> py_repr j)"

subsection \<open>\<open>s in x\<close>, \<open>', '.join(x)\<close> and iteration\<close>

fun py_in :: "string \<Rightarrow> json \<Rightarrow> error + bool" where
  "py_in s (JArr xs) = Inr (JStr s \<in> set xs)"
| "py_in s (JObj kvs) = Inr (s \<in> fst ` set kvs)"
| "py_in s (JStr t) = Inr (contains_sub s t)"
| "py_in s _ = Inl (TypeError ''argument is not iterable'')"

fun as_str :: "json \<Rightarrow> error + string" where
  "as_str (JStr s) = Inr s"
| "as_str _ = Inl (TypeError ''sequence item: expected str instance'')"

fun py_join :: "json \<Rightarrow> error + string" where
  "py_join (JArr xs) = rbind (mapM as_str xs) (\<lambda>ss. Inr (join '', '' ss))"
| "py_join (JObj kvs) = Inr (join '', '' (map fst kvs))"
| "py_join (JStr t) = Inr (join '', '' (map (\<lambda>c. [c]) t))"
| "py_join _ = Inl (TypeError ''can only join an iterable'')"

fun py_items :: "json \<Rightarrow> error + (string \<times> json) list" where
  "py_items (JObj kvs) = Inr kvs"
| "py_items _ = Inl (AttributeError ''object has no attribute 'items' '')"

definition jstr_opt :: "string option \<Rightarrow> json" where
  "jstr_opt x = (case x of None \<Rightarrow> JNull | Some s \<Rightarrow> JStr s)"

subsection \<open>Lemmas\<close>

lemma py_int_ok_cases:
  "py_int j = Inr i \<Longrightarrow> (\<exists>b. j = JBool b) \<or> j = JInt i \<or> (\<exists>m n. j = JFloat m n) \<or> (\<exists>s. j = JStr s \<and> int_of_str s = Some i)"
  by (cases j) (auto split: option.splits)

lemma mapM_as_str_map: "mapM as_str (map JStr ss) = Inr ss"
  by (induction ss) auto

lemma py_join_strs [simp]: "py_join (JArr (map JStr ss)) = Inr (join '', '' ss)"
  by (simp add: mapM_as_str_map)

lemma py_in_strs [simp]: "py_in s (JArr (map JStr ss)) = Inr (s \<in> set ss)"
  by (auto simp: image_iff)

lemma digits_ok_show_nat_append: "digits_ok True (show_nat n @ s) = digits_ok True s"
proof (induction n arbitrary: s rule: show_nat.induct)
  case (1 n)
  have d: "\<And>k. k < 10 \<Longrightarrow> is_digit (digit_char k)"
    by (simp add: is_digit_def digit_char_def)
  show ?case
  proof (cases "n < 10")
    case True
    then show ?thesis by (subst show_nat.simps) (simp add: d)
  next
    case False
    then show ?thesis using "1.IH" [OF False, of "digit_char (n mod 10) # s"]
      by (subst show_nat.simps) (simp add: d)
  qed
qed

lemma is_digit_digit_char: "k < 10 \<Longrightarrow> is_digit (digit_char k)"
  by (simp add: is_digit_def digit_char_def)

lemma set_show_nat_digits: "c \<in> set (show_nat n) \<Longrightarrow> is_digit c"
proof (induction n rule: show_nat.induct)
  case (1 n)
  show ?case
  proof (cases "n < 10")
    case True
    with "1.prems" show ?thesis by (subst (asm) show_nat.simps) (simp add: is_digit_digit_char)
  next
    case False
    with "1.prems" have "c \<in> set (show_nat (n div 10)) \<or> c = digit_char (n mod 10)"
      by (subst (asm) show_nat.simps) auto
    then show ?thesis using "1.IH" [OF False] by (auto simp: is_digit_digit_char)
  qed
qed

lemma digits_ok_True: "(\<forall>c \<in> set s. is_digit c) \<Longrightarrow> digits_ok True s"
  by (induction s) auto

lemma digits_ok_all: "s \<noteq> [] \<Longrightarrow> (\<forall>c \<in> set s. is_digit c) \<Longrightarrow> digits_ok d s"
  by (cases s) (auto simp: digits_ok_True)

lemma digits_val_snoc: "is_digit c \<Longrightarrow> digits_val (s @ [c]) = 10 * digits_val s + digit_val c"
  by (simp add: digits_val_def)

lemma digits_val_show_nat: "digits_val (show_nat n) = int n"
proof (induction n rule: show_nat.induct)
  case (1 n)
  have dv: "\<And>k. k < 10 \<Longrightarrow> digit_val (digit_char k) = int k"
    by (simp add: digit_val_def digit_char_def)
  show ?case
  proof (cases "n < 10")
    case True
    then show ?thesis
      by (subst show_nat.simps) (simp add: digits_val_def is_digit_digit_char dv)
  next
    case False
    then have "digits_val (show_nat n) = 10 * int (n div 10) + int (n mod 10)"
      using "1.IH" [OF False]
      by (subst show_nat.simps) (simp add: digits_val_snoc is_digit_digit_char dv)
    then show ?thesis by presburger
  qed
qed

lemma digit_not_space: "is_digit c \<Longrightarrow> \<not> is_space c"
  unfolding is_digit_def is_space_def Let_def by linarith

lemma py_strip_no_space: "(\<forall>c \<in> set s. \<not> is_space c) \<Longrightarrow> py_strip s = s"
proof -
  assume a: "\<forall>c \<in> set s. \<not> is_space c"
  have d: "\<And>t. (\<forall>c \<in> set t. \<not> is_space c) \<Longrightarrow> dropWhile is_space t = t"
    by (case_tac t) auto
  have "dropWhile is_space s = s" and "dropWhile is_space (rev s) = rev s"
    using a by (simp_all add: d)
  then show ?thesis by (simp add: py_strip_def)
qed

text \<open>Printing an integer and reading it back.\<close>

lemma int_of_str_show_int: "int_of_str (show_int i) = Some i"
proof (cases "i < 0")
  case True
  define s where "s = show_nat (nat (- i))"
  have s: "s \<noteq> []" "\<forall>c \<in> set s. is_digit c" "digits_val s = - i"
    using True by (auto simp: s_def set_show_nat_digits digits_val_show_nat)
  have "py_strip (CHR ''-'' # s) = CHR ''-'' # s"
  proof (rule py_strip_no_space)
    have "\<not> is_space (CHR ''-'')" by (simp add: is_space_def)
    then show "\<forall>c \<in> set (CHR ''-'' # s). \<not> is_space c" using s(2) digit_not_space by auto
  qed
  then show ?thesis
    using True s by (simp add: show_int_def s_def [symmetric] int_of_str_def digits_ok_all)
next
  case False
  define s where "s = show_nat (nat i)"
  have s: "s \<noteq> []" "\<forall>c \<in> set s. is_digit c" "digits_val s = i"
    using False by (auto simp: s_def set_show_nat_digits digits_val_show_nat)
  have st: "py_strip s = s"
    by (rule py_strip_no_space) (use s(2) digit_not_space in auto)
  obtain c cs where c: "s = c # cs" using s(1) by (cases s) auto
  have "c \<noteq> CHR ''-''" "c \<noteq> CHR ''+''"
    using s(2) c by (auto simp: is_digit_def)
  moreover have "digits_ok False s" using s by (simp add: digits_ok_all)
  ultimately show ?thesis
    using False s(3) st c
    by (simp add: show_int_def s_def [symmetric] int_of_str_def del: digits_ok.simps)
qed

end
