(* ===== verification/SP_Store.thy ===== *)
theory SP_Store
  imports SP_Prelude
begin

text \<open>
  The contract of one table of the session: \<open>db.get\<close> by primary key, \<open>db.add\<close>, and the
  change of one row. \<open>upd\<close> is what a change \<open>f\<close> really does to a row: the mapper adds the
  \<open>onupdate\<close> columns. The laws say what the list of rows becomes; the lemmas are the lookup
  laws every component uses.
\<close>

locale entity_store =
  fixes rows :: "'db \<Rightarrow> 'r list"
    and rowid :: "'r \<Rightarrow> string"
    and get :: "'db \<Rightarrow> string \<Rightarrow> 'r option"
    and add :: "'r \<Rightarrow> 'db \<Rightarrow> 'db"
    and upd :: "('r \<Rightarrow> 'r) \<Rightarrow> 'r \<Rightarrow> 'r"
    and modify :: "string \<Rightarrow> ('r \<Rightarrow> 'r) \<Rightarrow> 'db \<Rightarrow> 'db"
  assumes get_rows: "get d i = find_row rowid i (rows d)"
    and rows_add: "rows (add r d) = rows d @ [r]"
    and rows_modify: "rows (modify i f d) = modify_row rowid i (upd f) (rows d)"
    and rowid_upd: "rowid (f r) = rowid r \<Longrightarrow> rowid (upd f r) = rowid r"
begin

lemma get_Some: "get d i = Some r \<Longrightarrow> r \<in> set (rows d) \<and> rowid r = i"
  by (simp add: get_rows find_row_Some)

lemma get_add_same: "get d (rowid r) = None \<Longrightarrow> get (add r d) (rowid r) = Some r"
  by (simp add: get_rows rows_add find_row_append) (simp add: find_row_def)

lemma get_add_other: "rowid r \<noteq> i \<Longrightarrow> get (add r d) i = get d i"
  unfolding get_rows rows_add find_row_append by (simp add: find_row_def split: option.splits)

lemma get_modify_same:
  assumes "\<And>r. rowid (f r) = rowid r"
  shows "get (modify i f d) i = map_option (upd f) (get d i)"
  unfolding get_rows rows_modify
  by (rule find_row_modify_same) (simp add: assms rowid_upd)

lemma get_modify_other:
  assumes "i \<noteq> j" and "\<And>r. rowid (f r) = rowid r"
  shows "get (modify i f d) j = get d j"
  unfolding get_rows rows_modify
  by (rule find_row_modify_other [OF assms(1)]) (simp add: assms rowid_upd)

lemma ids_modify:
  assumes "\<And>r. rowid (f r) = rowid r"
  shows "map rowid (rows (modify i f d)) = map rowid (rows d)"
  unfolding rows_modify by (rule map_key_modify) (simp add: assms rowid_upd)

lemma distinct_ids_add:
  "distinct (map rowid (rows d)) \<Longrightarrow> get d (rowid r) = None \<Longrightarrow> distinct (map rowid (rows (add r d)))"
  by (auto simp: rows_add get_rows find_row_None)

lemma get_in_rows:
  "distinct (map rowid (rows d)) \<Longrightarrow> r \<in> set (rows d) \<Longrightarrow> get d (rowid r) = Some r"
  by (simp add: get_rows find_row_unique)

lemma rows_modify_set:
  "r' \<in> set (rows (modify i f d)) \<longleftrightarrow>
     (\<exists>r \<in> set (rows d). r' = (if rowid r = i then upd f r else r))"
  unfolding rows_modify set_modify_row by (simp only: image_iff)

end

end
