(* ===== verification/SP_Models.thy ===== *)
theory SP_Models
  imports SP_Json SP_Store
begin

text \<open>
  The rows of \<open>models.py\<close>, one record per mapped class with the columns of the class (an
  \<open>id\<close> no code refers to and the relationship attributes are left out), the state literals
  of \<open>schemas.py\<close> as datatypes, and the database as the record of its tables. A column
  declared nullable is an option. Times are microseconds since the epoch; all stored times are UTC,
  so \<open>_as_utc\<close> does not change them.
\<close>

subsection \<open>State literals\<close>

datatype env_state = EProvisioning | EReady | EDegraded | EUpgrading | EDeleting | EDeleted | EFailed

datatype prov_state = PQueued | PValidatingBootstrap | PNetwork | PEks | PEmr | PValidatingRuntime
  | PReady | PFailed

datatype run_state = RQueued | RDispatching | RAccepted | RRunning | RSucceeded | RFailed
  | RCancelled | RTimedOut

fun env_state_str :: "env_state \<Rightarrow> string" where
  "env_state_str EProvisioning = ''provisioning''"
| "env_state_str EReady = ''ready''"
| "env_state_str EDegraded = ''degraded''"
| "env_state_str EUpgrading = ''upgrading''"
| "env_state_str EDeleting = ''deleting''"
| "env_state_str EDeleted = ''deleted''"
| "env_state_str EFailed = ''failed''"

fun prov_state_str :: "prov_state \<Rightarrow> string" where
  "prov_state_str PQueued = ''queued''"
| "prov_state_str PValidatingBootstrap = ''validating_bootstrap''"
| "prov_state_str PNetwork = ''provisioning_network''"
| "prov_state_str PEks = ''provisioning_eks''"
| "prov_state_str PEmr = ''provisioning_emr''"
| "prov_state_str PValidatingRuntime = ''validating_runtime''"
| "prov_state_str PReady = ''ready''"
| "prov_state_str PFailed = ''failed''"

fun run_state_str :: "run_state \<Rightarrow> string" where
  "run_state_str RQueued = ''queued''"
| "run_state_str RDispatching = ''dispatching''"
| "run_state_str RAccepted = ''accepted''"
| "run_state_str RRunning = ''running''"
| "run_state_str RSucceeded = ''succeeded''"
| "run_state_str RFailed = ''failed''"
| "run_state_str RCancelled = ''cancelled''"
| "run_state_str RTimedOut = ''timed_out''"

lemma run_state_str_inject [simp]: "run_state_str a = run_state_str b \<longleftrightarrow> a = b"
  by (cases a; cases b) simp_all

lemma prov_state_str_inject [simp]: "prov_state_str a = prov_state_str b \<longleftrightarrow> a = b"
  by (cases a; cases b) simp_all

subsection \<open>Rows\<close>

record tenant =
  ten_id :: string
  ten_name :: string
  ten_federation_type :: string
  ten_idp_metadata :: "json option"
  ten_created_at :: time
  ten_updated_at :: time

record team =
  team_id :: string
  team_tenant_id :: string
  team_name :: string
  team_created_at :: time
  team_updated_at :: time

record user =
  usr_id :: string
  usr_tenant_id :: string
  usr_email :: string
  usr_role :: string
  usr_invited_at :: "time option"
  usr_invite_consumed_at :: "time option"
  usr_last_login_at :: "time option"
  usr_created_at :: time
  usr_updated_at :: time

record user_identity =
  uid_id :: string
  uid_user_id :: "string option"
  uid_actor :: string
  uid_role :: string
  uid_tenant_id :: "string option"
  uid_team_id :: "string option"
  uid_active :: bool
  uid_created_at :: time
  uid_updated_at :: time

record magic_link_token =
  mlt_id :: string
  mlt_token_hash :: string
  mlt_user_id :: string
  mlt_tenant_id :: string
  mlt_purpose :: string
  mlt_expires_at :: time
  mlt_consumed_at :: "time option"
  mlt_callback_consumed_at :: "time option"
  mlt_created_at :: time
  mlt_created_by :: string

record magic_link_log =
  mll_user_id :: string
  mll_tenant_id :: string
  mll_purpose :: string
  mll_url :: string
  mll_created_by :: string
  mll_created_at :: time

record team_env_scope =
  tes_id :: string
  tes_team_id :: string
  tes_environment_id :: string
  tes_created_at :: time

record environment =
  env_id :: string
  env_tenant_id :: string
  env_cloud :: string
  env_region :: string
  env_engine :: string
  env_provisioning_mode :: string
  env_status :: env_state
  env_instance_architecture :: string
  env_customer_role_arn :: string
  env_assume_role_external_id :: "string option"
  env_eks_cluster_arn :: "string option"
  env_eks_namespace :: "string option"
  env_emr_virtual_cluster_id :: "string option"
  env_emr_serverless_application_id :: "string option"
  env_emr_on_ec2_cluster_id :: "string option"
  env_warm_pool_enabled :: bool
  env_max_concurrent_runs :: int
  env_max_vcpu :: int
  env_max_run_seconds :: int
  env_spark_history_server_url :: "string option"
  env_event_log_s3_uri :: "string option"
  env_yunikorn_queue :: "string option"
  env_yunikorn_queue_guaranteed_vcpu :: "int option"
  env_yunikorn_queue_max_vcpu :: "int option"
  env_databricks_workspace_url :: "string option"
  env_databricks_cluster_policy_id :: "string option"
  env_databricks_instance_pool_id :: "string option"
  env_lake_formation_enabled :: bool
  env_lf_catalog_id :: "string option"
  env_lf_data_access_scope :: "json option"
  env_identity_mode :: "string option"
  env_security_configuration_id :: "string option"
  env_created_at :: time
  env_updated_at :: time

record prov_op =
  op_id :: string
  op_environment_id :: string
  op_state :: prov_state
  op_step :: prov_state
  op_message :: "string option"
  op_logs_uri :: "string option"
  op_started_at :: time
  op_ended_at :: "time option"
  op_idempotency_key :: string
  op_claim_token :: "string option"
  op_claimed_at :: "time option"
  op_created_at :: time
  op_updated_at :: time

record job =
  job_id :: string
  job_environment_id :: string
  job_name :: string
  job_artifact_uri :: string
  job_artifact_digest :: string
  job_entrypoint :: string
  job_args :: "string list"
  job_spark_conf :: conf
  job_retry_max_attempts :: int
  job_timeout_seconds :: int
  job_created_at :: time
  job_updated_at :: time

record golden_path =
  gp_id :: string
  gp_environment_id :: "string option"
  gp_name :: string
  gp_description :: string
  gp_spark_conf :: conf
  gp_requested_resources :: "int dict"
  gp_instance_architecture :: string
  gp_capacity_type :: string
  gp_max_runtime_minutes :: int
  gp_tags :: "string dict"
  gp_recommended_instance_types :: "string list"
  gp_data_access_scope :: "json option"
  gp_created_at :: time
  gp_updated_at :: time

record run =
  run_id :: string
  run_job_id :: string
  run_environment_id :: string
  run_state :: run_state
  run_attempt :: int
  run_idempotency_key :: string
  run_requested_resources :: "int dict"
  run_args_overrides :: "string list"
  run_spark_conf_overrides :: conf
  run_timeout_seconds :: int
  run_job_template_id :: "string option"
  run_emr_job_run_id :: "string option"
  run_backend_job_run_id :: "string option"
  run_cancellation_requested :: bool
  run_log_group :: "string option"
  run_log_stream_prefix :: "string option"
  run_driver_log_uri :: "string option"
  run_spark_ui_uri :: "string option"
  run_created_by_actor :: "string option"
  run_claim_token :: "string option"
  run_claimed_at :: "time option"
  run_error_message :: "string option"
  run_started_at :: "time option"
  run_last_heartbeat_at :: "time option"
  run_ended_at :: "time option"
  run_created_at :: time
  run_updated_at :: time

record run_diagnostic =
  rd_run_id :: string
  rd_category :: string
  rd_description :: string
  rd_remediation :: string
  rd_log_snippet :: "string option"
  rd_created_at :: time

record usage_record =
  ur_tenant_id :: string
  ur_run_id :: string
  ur_vcpu_seconds :: int
  ur_memory_gb_seconds :: int
  ur_estimated_cost_usd_micros :: int
  ur_recorded_at :: time

record cost_allocation =
  ca_run_id :: string
  ca_environment_id :: string
  ca_tenant_id :: string
  ca_team :: string
  ca_cost_center :: string
  ca_billing_period :: string
  ca_estimated_vcpu_seconds :: int
  ca_estimated_memory_gb_seconds :: int
  ca_estimated_cost_usd_micros :: int
  ca_actual_cost_usd_micros :: "int option"
  ca_cur_reconciled_at :: "time option"
  ca_created_at :: time
  ca_updated_at :: time

record team_budget =
  tb_team :: string
  tb_monthly_budget_usd_micros :: int
  tb_warn_threshold_pct :: int
  tb_block_threshold_pct :: int
  tb_created_at :: time
  tb_updated_at :: time

record emr_release =
  rel_label :: string
  rel_lifecycle_status :: string
  rel_graviton_supported :: bool
  rel_lake_formation_supported :: bool
  rel_upgrade_target :: "string option"
  rel_source :: string
  rel_last_synced_at :: time
  rel_created_at :: time
  rel_updated_at :: time

record audit_event =
  au_tenant_id :: "string option"
  au_actor :: string
  au_action :: string
  au_source_ip :: "string option"
  au_entity_type :: string
  au_entity_id :: string
  au_details :: "json dict"
  au_aws_request_id :: "string option"
  au_cloudtrail_event_id :: "string option"
  au_created_at :: time

record idempotency_record =
  idem_scope :: string
  idem_key :: string
  idem_fingerprint :: string
  idem_response :: json
  idem_status_code :: int
  idem_resource_type :: "string option"
  idem_resource_id :: "string option"
  idem_created_at :: time

record policy =
  pol_id :: string
  pol_name :: string
  pol_scope :: string
  pol_scope_id :: "string option"
  pol_rule_type :: string
  pol_config :: "json dict"
  pol_enforcement :: string
  pol_active :: bool
  pol_created_by_actor :: "string option"
  pol_created_at :: time
  pol_updated_at :: time

subsection \<open>The database\<close>

record database =
  db_tenants :: "tenant list"
  db_teams :: "team list"
  db_users :: "user list"
  db_identities :: "user_identity list"
  db_tokens :: "magic_link_token list"
  db_token_logs :: "magic_link_log list"
  db_scopes :: "team_env_scope list"
  db_envs :: "environment list"
  db_ops :: "prov_op list"
  db_jobs :: "job list"
  db_golden :: "golden_path list"
  db_runs :: "run list"
  db_diags :: "run_diagnostic list"
  db_usage :: "usage_record list"
  db_allocs :: "cost_allocation list"
  db_budgets :: "team_budget list"
  db_releases :: "emr_release list"
  db_audit :: "audit_event list"
  db_idem :: "idempotency_record list"
  db_policies :: "policy list"

definition empty_db :: database where
  "empty_db = \<lparr>db_tenants = [], db_teams = [], db_users = [], db_identities = [], db_tokens = [],
     db_token_logs = [], db_scopes = [], db_envs = [], db_ops = [], db_jobs = [], db_golden = [],
     db_runs = [], db_diags = [], db_usage = [], db_allocs = [], db_budgets = [], db_releases = [],
     db_audit = [], db_idem = [], db_policies = []\<rparr>"

subsection \<open>Access to the tables\<close>

text \<open>
  \<open>get_X\<close> is \<open>db.get(X, id)\<close>, \<open>add_X\<close> is \<open>db.add\<close>, and \<open>modify_X now i f\<close> is the change
  \<open>f\<close> of the attributes of one row as the session writes it: when a column really changes,
  the \<open>onupdate\<close> of \<open>updated_at\<close> sets it to the current time.
\<close>

definition get_tenant :: "database \<Rightarrow> string \<Rightarrow> tenant option" where
  "get_tenant d i = find_row ten_id i (db_tenants d)"

definition add_tenant :: "tenant \<Rightarrow> database \<Rightarrow> database" where
  "add_tenant r d = d\<lparr>db_tenants := db_tenants d @ [r]\<rparr>"

definition upd_tenant :: "time \<Rightarrow> (tenant \<Rightarrow> tenant) \<Rightarrow> tenant \<Rightarrow> tenant" where
  "upd_tenant now f r = (let r' = f r in if r' = r then r else r'\<lparr>ten_updated_at := now\<rparr>)"

definition modify_tenant :: "time \<Rightarrow> string \<Rightarrow> (tenant \<Rightarrow> tenant) \<Rightarrow> database \<Rightarrow> database" where
  "modify_tenant now i f d = d\<lparr>db_tenants := modify_row ten_id i (upd_tenant now f) (db_tenants d)\<rparr>"

interpretation tenant_store: entity_store db_tenants ten_id get_tenant add_tenant
  "upd_tenant now" "modify_tenant now" for now
  by unfold_locales
    (simp_all add: get_tenant_def add_tenant_def modify_tenant_def upd_tenant_def Let_def)

definition get_team :: "database \<Rightarrow> string \<Rightarrow> team option" where
  "get_team d i = find_row team_id i (db_teams d)"

definition add_team :: "team \<Rightarrow> database \<Rightarrow> database" where
  "add_team r d = d\<lparr>db_teams := db_teams d @ [r]\<rparr>"

definition upd_team :: "time \<Rightarrow> (team \<Rightarrow> team) \<Rightarrow> team \<Rightarrow> team" where
  "upd_team now f r = (let r' = f r in if r' = r then r else r'\<lparr>team_updated_at := now\<rparr>)"

definition modify_team :: "time \<Rightarrow> string \<Rightarrow> (team \<Rightarrow> team) \<Rightarrow> database \<Rightarrow> database" where
  "modify_team now i f d = d\<lparr>db_teams := modify_row team_id i (upd_team now f) (db_teams d)\<rparr>"

interpretation team_store: entity_store db_teams team_id get_team add_team
  "upd_team now" "modify_team now" for now
  by unfold_locales
    (simp_all add: get_team_def add_team_def modify_team_def upd_team_def Let_def)

definition get_user :: "database \<Rightarrow> string \<Rightarrow> user option" where
  "get_user d i = find_row usr_id i (db_users d)"

definition add_user :: "user \<Rightarrow> database \<Rightarrow> database" where
  "add_user r d = d\<lparr>db_users := db_users d @ [r]\<rparr>"

definition upd_user :: "time \<Rightarrow> (user \<Rightarrow> user) \<Rightarrow> user \<Rightarrow> user" where
  "upd_user now f r = (let r' = f r in if r' = r then r else r'\<lparr>usr_updated_at := now\<rparr>)"

definition modify_user :: "time \<Rightarrow> string \<Rightarrow> (user \<Rightarrow> user) \<Rightarrow> database \<Rightarrow> database" where
  "modify_user now i f d = d\<lparr>db_users := modify_row usr_id i (upd_user now f) (db_users d)\<rparr>"

interpretation user_store: entity_store db_users usr_id get_user add_user
  "upd_user now" "modify_user now" for now
  by unfold_locales
    (simp_all add: get_user_def add_user_def modify_user_def upd_user_def Let_def)

definition get_identity :: "database \<Rightarrow> string \<Rightarrow> user_identity option" where
  "get_identity d i = find_row uid_id i (db_identities d)"

definition add_identity :: "user_identity \<Rightarrow> database \<Rightarrow> database" where
  "add_identity r d = d\<lparr>db_identities := db_identities d @ [r]\<rparr>"

definition upd_identity :: "time \<Rightarrow> (user_identity \<Rightarrow> user_identity) \<Rightarrow> user_identity \<Rightarrow> user_identity" where
  "upd_identity now f r = (let r' = f r in if r' = r then r else r'\<lparr>uid_updated_at := now\<rparr>)"

definition modify_identity :: "time \<Rightarrow> string \<Rightarrow> (user_identity \<Rightarrow> user_identity) \<Rightarrow> database \<Rightarrow> database" where
  "modify_identity now i f d = d\<lparr>db_identities := modify_row uid_id i (upd_identity now f) (db_identities d)\<rparr>"

interpretation identity_store: entity_store db_identities uid_id get_identity add_identity
  "upd_identity now" "modify_identity now" for now
  by unfold_locales
    (simp_all add: get_identity_def add_identity_def modify_identity_def upd_identity_def Let_def)

definition get_token :: "database \<Rightarrow> string \<Rightarrow> magic_link_token option" where
  "get_token d i = find_row mlt_id i (db_tokens d)"

definition add_token :: "magic_link_token \<Rightarrow> database \<Rightarrow> database" where
  "add_token r d = d\<lparr>db_tokens := db_tokens d @ [r]\<rparr>"

definition modify_token :: "string \<Rightarrow> (magic_link_token \<Rightarrow> magic_link_token) \<Rightarrow> database \<Rightarrow> database" where
  "modify_token i f d = d\<lparr>db_tokens := modify_row mlt_id i f (db_tokens d)\<rparr>"

interpretation token_store: entity_store db_tokens mlt_id get_token add_token "\<lambda>f. f" modify_token
  by unfold_locales (simp_all add: get_token_def add_token_def modify_token_def)

definition get_environment :: "database \<Rightarrow> string \<Rightarrow> environment option" where
  "get_environment d i = find_row env_id i (db_envs d)"

definition add_environment :: "environment \<Rightarrow> database \<Rightarrow> database" where
  "add_environment r d = d\<lparr>db_envs := db_envs d @ [r]\<rparr>"

definition upd_environment :: "time \<Rightarrow> (environment \<Rightarrow> environment) \<Rightarrow> environment \<Rightarrow> environment" where
  "upd_environment now f r = (let r' = f r in if r' = r then r else r'\<lparr>env_updated_at := now\<rparr>)"

definition modify_environment :: "time \<Rightarrow> string \<Rightarrow> (environment \<Rightarrow> environment) \<Rightarrow> database \<Rightarrow> database" where
  "modify_environment now i f d = d\<lparr>db_envs := modify_row env_id i (upd_environment now f) (db_envs d)\<rparr>"

interpretation environment_store: entity_store db_envs env_id get_environment add_environment
  "upd_environment now" "modify_environment now" for now
  by unfold_locales
    (simp_all add: get_environment_def add_environment_def modify_environment_def upd_environment_def Let_def)

definition get_operation :: "database \<Rightarrow> string \<Rightarrow> prov_op option" where
  "get_operation d i = find_row op_id i (db_ops d)"

definition add_operation :: "prov_op \<Rightarrow> database \<Rightarrow> database" where
  "add_operation r d = d\<lparr>db_ops := db_ops d @ [r]\<rparr>"

definition upd_operation :: "time \<Rightarrow> (prov_op \<Rightarrow> prov_op) \<Rightarrow> prov_op \<Rightarrow> prov_op" where
  "upd_operation now f r = (let r' = f r in if r' = r then r else r'\<lparr>op_updated_at := now\<rparr>)"

definition modify_operation :: "time \<Rightarrow> string \<Rightarrow> (prov_op \<Rightarrow> prov_op) \<Rightarrow> database \<Rightarrow> database" where
  "modify_operation now i f d = d\<lparr>db_ops := modify_row op_id i (upd_operation now f) (db_ops d)\<rparr>"

interpretation operation_store: entity_store db_ops op_id get_operation add_operation
  "upd_operation now" "modify_operation now" for now
  by unfold_locales
    (simp_all add: get_operation_def add_operation_def modify_operation_def upd_operation_def Let_def)

definition get_job :: "database \<Rightarrow> string \<Rightarrow> job option" where
  "get_job d i = find_row job_id i (db_jobs d)"

definition add_job :: "job \<Rightarrow> database \<Rightarrow> database" where
  "add_job r d = d\<lparr>db_jobs := db_jobs d @ [r]\<rparr>"

definition upd_job :: "time \<Rightarrow> (job \<Rightarrow> job) \<Rightarrow> job \<Rightarrow> job" where
  "upd_job now f r = (let r' = f r in if r' = r then r else r'\<lparr>job_updated_at := now\<rparr>)"

definition modify_job :: "time \<Rightarrow> string \<Rightarrow> (job \<Rightarrow> job) \<Rightarrow> database \<Rightarrow> database" where
  "modify_job now i f d = d\<lparr>db_jobs := modify_row job_id i (upd_job now f) (db_jobs d)\<rparr>"

interpretation job_store: entity_store db_jobs job_id get_job add_job
  "upd_job now" "modify_job now" for now
  by unfold_locales
    (simp_all add: get_job_def add_job_def modify_job_def upd_job_def Let_def)

definition get_golden_path :: "database \<Rightarrow> string \<Rightarrow> golden_path option" where
  "get_golden_path d i = find_row gp_id i (db_golden d)"

definition add_golden_path :: "golden_path \<Rightarrow> database \<Rightarrow> database" where
  "add_golden_path r d = d\<lparr>db_golden := db_golden d @ [r]\<rparr>"

definition upd_golden_path :: "time \<Rightarrow> (golden_path \<Rightarrow> golden_path) \<Rightarrow> golden_path \<Rightarrow> golden_path" where
  "upd_golden_path now f r = (let r' = f r in if r' = r then r else r'\<lparr>gp_updated_at := now\<rparr>)"

definition modify_golden_path :: "time \<Rightarrow> string \<Rightarrow> (golden_path \<Rightarrow> golden_path) \<Rightarrow> database \<Rightarrow> database" where
  "modify_golden_path now i f d = d\<lparr>db_golden := modify_row gp_id i (upd_golden_path now f) (db_golden d)\<rparr>"

interpretation golden_path_store: entity_store db_golden gp_id get_golden_path add_golden_path
  "upd_golden_path now" "modify_golden_path now" for now
  by unfold_locales
    (simp_all add: get_golden_path_def add_golden_path_def modify_golden_path_def upd_golden_path_def Let_def)

definition get_run :: "database \<Rightarrow> string \<Rightarrow> run option" where
  "get_run d i = find_row run_id i (db_runs d)"

definition add_run :: "run \<Rightarrow> database \<Rightarrow> database" where
  "add_run r d = d\<lparr>db_runs := db_runs d @ [r]\<rparr>"

definition upd_run :: "time \<Rightarrow> (run \<Rightarrow> run) \<Rightarrow> run \<Rightarrow> run" where
  "upd_run now f r = (let r' = f r in if r' = r then r else r'\<lparr>run_updated_at := now\<rparr>)"

definition modify_run :: "time \<Rightarrow> string \<Rightarrow> (run \<Rightarrow> run) \<Rightarrow> database \<Rightarrow> database" where
  "modify_run now i f d = d\<lparr>db_runs := modify_row run_id i (upd_run now f) (db_runs d)\<rparr>"

interpretation run_store: entity_store db_runs run_id get_run add_run
  "upd_run now" "modify_run now" for now
  by unfold_locales
    (simp_all add: get_run_def add_run_def modify_run_def upd_run_def Let_def)

definition get_policy :: "database \<Rightarrow> string \<Rightarrow> policy option" where
  "get_policy d i = find_row pol_id i (db_policies d)"

definition add_policy :: "policy \<Rightarrow> database \<Rightarrow> database" where
  "add_policy r d = d\<lparr>db_policies := db_policies d @ [r]\<rparr>"

definition upd_policy :: "time \<Rightarrow> (policy \<Rightarrow> policy) \<Rightarrow> policy \<Rightarrow> policy" where
  "upd_policy now f r = (let r' = f r in if r' = r then r else r'\<lparr>pol_updated_at := now\<rparr>)"

definition modify_policy :: "time \<Rightarrow> string \<Rightarrow> (policy \<Rightarrow> policy) \<Rightarrow> database \<Rightarrow> database" where
  "modify_policy now i f d = d\<lparr>db_policies := modify_row pol_id i (upd_policy now f) (db_policies d)\<rparr>"

interpretation policy_store: entity_store db_policies pol_id get_policy add_policy
  "upd_policy now" "modify_policy now" for now
  by unfold_locales
    (simp_all add: get_policy_def add_policy_def modify_policy_def upd_policy_def Let_def)

text \<open>A change of a row reads back as written, whatever the stamp.\<close>

lemma upd_environment_sel [simp]:
  "env_id (upd_environment now f r) = env_id (f r)"
  "env_tenant_id (upd_environment now f r) = env_tenant_id (f r)"
  "env_cloud (upd_environment now f r) = env_cloud (f r)"
  "env_region (upd_environment now f r) = env_region (f r)"
  "env_engine (upd_environment now f r) = env_engine (f r)"
  "env_provisioning_mode (upd_environment now f r) = env_provisioning_mode (f r)"
  "env_status (upd_environment now f r) = env_status (f r)"
  "env_instance_architecture (upd_environment now f r) = env_instance_architecture (f r)"
  "env_customer_role_arn (upd_environment now f r) = env_customer_role_arn (f r)"
  "env_assume_role_external_id (upd_environment now f r) = env_assume_role_external_id (f r)"
  "env_eks_cluster_arn (upd_environment now f r) = env_eks_cluster_arn (f r)"
  "env_eks_namespace (upd_environment now f r) = env_eks_namespace (f r)"
  "env_emr_virtual_cluster_id (upd_environment now f r) = env_emr_virtual_cluster_id (f r)"
  "env_emr_serverless_application_id (upd_environment now f r) = env_emr_serverless_application_id (f r)"
  "env_emr_on_ec2_cluster_id (upd_environment now f r) = env_emr_on_ec2_cluster_id (f r)"
  "env_warm_pool_enabled (upd_environment now f r) = env_warm_pool_enabled (f r)"
  "env_max_concurrent_runs (upd_environment now f r) = env_max_concurrent_runs (f r)"
  "env_max_vcpu (upd_environment now f r) = env_max_vcpu (f r)"
  "env_max_run_seconds (upd_environment now f r) = env_max_run_seconds (f r)"
  "env_spark_history_server_url (upd_environment now f r) = env_spark_history_server_url (f r)"
  "env_event_log_s3_uri (upd_environment now f r) = env_event_log_s3_uri (f r)"
  "env_yunikorn_queue (upd_environment now f r) = env_yunikorn_queue (f r)"
  "env_yunikorn_queue_guaranteed_vcpu (upd_environment now f r) = env_yunikorn_queue_guaranteed_vcpu (f r)"
  "env_yunikorn_queue_max_vcpu (upd_environment now f r) = env_yunikorn_queue_max_vcpu (f r)"
  "env_databricks_workspace_url (upd_environment now f r) = env_databricks_workspace_url (f r)"
  "env_databricks_cluster_policy_id (upd_environment now f r) = env_databricks_cluster_policy_id (f r)"
  "env_databricks_instance_pool_id (upd_environment now f r) = env_databricks_instance_pool_id (f r)"
  "env_lake_formation_enabled (upd_environment now f r) = env_lake_formation_enabled (f r)"
  "env_lf_catalog_id (upd_environment now f r) = env_lf_catalog_id (f r)"
  "env_lf_data_access_scope (upd_environment now f r) = env_lf_data_access_scope (f r)"
  "env_identity_mode (upd_environment now f r) = env_identity_mode (f r)"
  "env_security_configuration_id (upd_environment now f r) = env_security_configuration_id (f r)"
  "env_created_at (upd_environment now f r) = env_created_at (f r)"
  by (cases "f r = r"; simp add: upd_environment_def Let_def)+

lemma upd_operation_sel [simp]:
  "op_id (upd_operation now f r) = op_id (f r)"
  "op_environment_id (upd_operation now f r) = op_environment_id (f r)"
  "op_state (upd_operation now f r) = op_state (f r)"
  "op_step (upd_operation now f r) = op_step (f r)"
  "op_message (upd_operation now f r) = op_message (f r)"
  "op_logs_uri (upd_operation now f r) = op_logs_uri (f r)"
  "op_started_at (upd_operation now f r) = op_started_at (f r)"
  "op_ended_at (upd_operation now f r) = op_ended_at (f r)"
  "op_idempotency_key (upd_operation now f r) = op_idempotency_key (f r)"
  "op_claim_token (upd_operation now f r) = op_claim_token (f r)"
  "op_claimed_at (upd_operation now f r) = op_claimed_at (f r)"
  "op_created_at (upd_operation now f r) = op_created_at (f r)"
  by (cases "f r = r"; simp add: upd_operation_def Let_def)+

lemma upd_run_sel [simp]:
  "run_id (upd_run now f r) = run_id (f r)"
  "run_job_id (upd_run now f r) = run_job_id (f r)"
  "run_environment_id (upd_run now f r) = run_environment_id (f r)"
  "run_state (upd_run now f r) = run_state (f r)"
  "run_attempt (upd_run now f r) = run_attempt (f r)"
  "run_idempotency_key (upd_run now f r) = run_idempotency_key (f r)"
  "run_requested_resources (upd_run now f r) = run_requested_resources (f r)"
  "run_args_overrides (upd_run now f r) = run_args_overrides (f r)"
  "run_spark_conf_overrides (upd_run now f r) = run_spark_conf_overrides (f r)"
  "run_timeout_seconds (upd_run now f r) = run_timeout_seconds (f r)"
  "run_job_template_id (upd_run now f r) = run_job_template_id (f r)"
  "run_emr_job_run_id (upd_run now f r) = run_emr_job_run_id (f r)"
  "run_backend_job_run_id (upd_run now f r) = run_backend_job_run_id (f r)"
  "run_cancellation_requested (upd_run now f r) = run_cancellation_requested (f r)"
  "run_log_group (upd_run now f r) = run_log_group (f r)"
  "run_log_stream_prefix (upd_run now f r) = run_log_stream_prefix (f r)"
  "run_driver_log_uri (upd_run now f r) = run_driver_log_uri (f r)"
  "run_spark_ui_uri (upd_run now f r) = run_spark_ui_uri (f r)"
  "run_created_by_actor (upd_run now f r) = run_created_by_actor (f r)"
  "run_claim_token (upd_run now f r) = run_claim_token (f r)"
  "run_claimed_at (upd_run now f r) = run_claimed_at (f r)"
  "run_error_message (upd_run now f r) = run_error_message (f r)"
  "run_started_at (upd_run now f r) = run_started_at (f r)"
  "run_last_heartbeat_at (upd_run now f r) = run_last_heartbeat_at (f r)"
  "run_ended_at (upd_run now f r) = run_ended_at (f r)"
  "run_created_at (upd_run now f r) = run_created_at (f r)"
  by (cases "f r = r"; simp add: upd_run_def Let_def)+

lemmas modify_defs = modify_tenant_def modify_team_def modify_user_def modify_identity_def
  modify_token_def modify_environment_def modify_operation_def modify_job_def
  modify_golden_path_def modify_run_def modify_policy_def

lemmas add_defs = add_tenant_def add_team_def add_user_def add_identity_def add_token_def
  add_environment_def add_operation_def add_job_def add_golden_path_def add_run_def add_policy_def

end
