(* ===== verification/SP_Helpers.thy ===== *)
theory SP_Helpers
  imports SP_Models
begin

text \<open>
  \<open>services/_helpers.py\<close> and \<open>audit.py\<close>: the run-state sets, the entity lookups that raise 404, the
  Spark configuration policy, and the append-only audit log.
\<close>

subsection \<open>Run-state sets\<close>

definition terminal_run_states :: "run_state list" where
  "terminal_run_states = [RSucceeded, RFailed, RCancelled, RTimedOut]"

definition active_run_states :: "run_state list" where
  "active_run_states = [RQueued, RDispatching, RAccepted, RRunning]"

abbreviation terminal :: "run_state \<Rightarrow> bool" where
  "terminal s \<equiv> s \<in> set terminal_run_states"

abbreviation active :: "run_state \<Rightarrow> bool" where
  "active s \<equiv> s \<in> set active_run_states"

lemma active_iff_not_terminal: "active s \<longleftrightarrow> \<not> terminal s"
  by (cases s) (simp_all add: active_run_states_def terminal_run_states_def)

lemma terminal_simps [simp]:
  "terminal RSucceeded" "terminal RFailed" "terminal RCancelled" "terminal RTimedOut"
  "\<not> terminal RQueued" "\<not> terminal RDispatching" "\<not> terminal RAccepted" "\<not> terminal RRunning"
  by (simp_all add: terminal_run_states_def)

lemma active_simps [simp]:
  "\<not> active RSucceeded" "\<not> active RFailed" "\<not> active RCancelled" "\<not> active RTimedOut"
  "active RQueued" "active RDispatching" "active RAccepted" "active RRunning"
  by (simp_all add: active_run_states_def)

subsection \<open>Entity lookups\<close>

definition require_entity ::
    "(database \<Rightarrow> string \<Rightarrow> 'r option) \<Rightarrow> database \<Rightarrow> string \<Rightarrow> string \<Rightarrow> error + 'r" where
  "require_entity get d i dtl =
     (case get d i of None \<Rightarrow> Inl (EntityNotFoundError dtl) | Some r \<Rightarrow> Inr r)"

definition require_tenant :: "database \<Rightarrow> string \<Rightarrow> error + tenant" where
  "require_tenant d i = require_entity get_tenant d i ''Tenant not found.''"

definition require_team :: "database \<Rightarrow> string \<Rightarrow> error + team" where
  "require_team d i = require_entity get_team d i ''Team not found.''"

definition require_environment :: "database \<Rightarrow> string \<Rightarrow> error + environment" where
  "require_environment d i = require_entity get_environment d i ''Environment not found.''"

definition require_job :: "database \<Rightarrow> string \<Rightarrow> error + job" where
  "require_job d i = require_entity get_job d i ''Job not found.''"

definition require_run :: "database \<Rightarrow> string \<Rightarrow> error + run" where
  "require_run d i = require_entity get_run d i ''Run not found.''"

lemma require_entity_Inr [simp]: "require_entity get d i dtl = Inr r \<longleftrightarrow> get d i = Some r"
  by (simp add: require_entity_def split: option.splits)

lemma require_entity_Inl [simp]:
  "require_entity get d i dtl = Inl e \<longleftrightarrow> get d i = None \<and> e = EntityNotFoundError dtl"
  by (auto simp: require_entity_def split: option.splits)

lemmas require_defs = require_tenant_def require_team_def require_environment_def require_job_def
  require_run_def

subsection \<open>Spark configuration policy\<close>

definition forbidden_spark_conf_prefixes :: "string list" where
  "forbidden_spark_conf_prefixes =
     [''spark.kubernetes.authenticate.'',
      ''spark.kubernetes.driver.serviceAccountName'',
      ''spark.kubernetes.executor.serviceAccountName'']"

definition forbidden_key :: "string \<Rightarrow> bool" where
  "forbidden_key k = list_ex (\<lambda>p. prefix p k) forbidden_spark_conf_prefixes"

definition validate_custom_spark_conf_policy :: "conf \<Rightarrow> string list" where
  "validate_custom_spark_conf_policy c = sort (remdups (filter forbidden_key (dkeys c)))"

lemma set_validate_custom_spark_conf_policy:
  "set (validate_custom_spark_conf_policy c) = {k \<in> set (dkeys c). forbidden_key k}"
  by (auto simp: validate_custom_spark_conf_policy_def)

lemma validate_custom_spark_conf_policy_Nil:
  "validate_custom_spark_conf_policy c = [] \<longleftrightarrow> (\<forall>k \<in> set (dkeys c). \<not> forbidden_key k)"
  using set_validate_custom_spark_conf_policy [of c] by (metis (mono_tags, lifting) empty_Collect_eq list.set(1) set_empty)

lemma validate_custom_spark_conf_policy_sorted:
  "sorted (validate_custom_spark_conf_policy c) \<and> distinct (validate_custom_spark_conf_policy c)"
  by (simp add: validate_custom_spark_conf_policy_def)

subsection \<open>Audit log\<close>

definition write_audit_event ::
    "time \<Rightarrow> string \<Rightarrow> string \<Rightarrow> string \<Rightarrow> string \<Rightarrow> string option \<Rightarrow> string option \<Rightarrow> json dict
     \<Rightarrow> string option \<Rightarrow> database \<Rightarrow> database" where
  "write_audit_event now actor action entity_type entity_id tenant_id source_ip details aws_request_id d =
     d\<lparr>db_audit := db_audit d @
       [\<lparr>au_tenant_id = tenant_id, au_actor = actor, au_action = action, au_source_ip = source_ip,
         au_entity_type = entity_type, au_entity_id = entity_id, au_details = details,
         au_aws_request_id = aws_request_id, au_cloudtrail_event_id = None, au_created_at = now\<rparr>]\<rparr>"

text \<open>What the audit log leaves alone: every table but its own.\<close>

lemma write_audit_event_frame [simp, sp_frame]:
  "db_tenants (write_audit_event now a act et eid t ip dt aws d) = db_tenants d"
  "db_teams (write_audit_event now a act et eid t ip dt aws d) = db_teams d"
  "db_users (write_audit_event now a act et eid t ip dt aws d) = db_users d"
  "db_identities (write_audit_event now a act et eid t ip dt aws d) = db_identities d"
  "db_tokens (write_audit_event now a act et eid t ip dt aws d) = db_tokens d"
  "db_scopes (write_audit_event now a act et eid t ip dt aws d) = db_scopes d"
  "db_envs (write_audit_event now a act et eid t ip dt aws d) = db_envs d"
  "db_ops (write_audit_event now a act et eid t ip dt aws d) = db_ops d"
  "db_jobs (write_audit_event now a act et eid t ip dt aws d) = db_jobs d"
  "db_golden (write_audit_event now a act et eid t ip dt aws d) = db_golden d"
  "db_runs (write_audit_event now a act et eid t ip dt aws d) = db_runs d"
  "db_diags (write_audit_event now a act et eid t ip dt aws d) = db_diags d"
  "db_usage (write_audit_event now a act et eid t ip dt aws d) = db_usage d"
  "db_allocs (write_audit_event now a act et eid t ip dt aws d) = db_allocs d"
  "db_budgets (write_audit_event now a act et eid t ip dt aws d) = db_budgets d"
  "db_releases (write_audit_event now a act et eid t ip dt aws d) = db_releases d"
  "db_idem (write_audit_event now a act et eid t ip dt aws d) = db_idem d"
  "db_policies (write_audit_event now a act et eid t ip dt aws d) = db_policies d"
  by (simp_all add: write_audit_event_def)

lemma write_audit_event_append:
  "\<exists>e. db_audit (write_audit_event now a act et eid t ip dt aws d) = db_audit d @ [e] \<and>
       au_actor e = a \<and> au_action e = act \<and> au_entity_id e = eid \<and> au_details e = dt"
  by (simp add: write_audit_event_def)

lemma get_write_audit_event [simp, sp_frame]:
  "get_run (write_audit_event now a act et eid t ip dt aws d) = get_run d"
  "get_environment (write_audit_event now a act et eid t ip dt aws d) = get_environment d"
  "get_operation (write_audit_event now a act et eid t ip dt aws d) = get_operation d"
  "get_job (write_audit_event now a act et eid t ip dt aws d) = get_job d"
  "get_tenant (write_audit_event now a act et eid t ip dt aws d) = get_tenant d"
  "get_team (write_audit_event now a act et eid t ip dt aws d) = get_team d"
  "get_policy (write_audit_event now a act et eid t ip dt aws d) = get_policy d"
  "get_user (write_audit_event now a act et eid t ip dt aws d) = get_user d"
  by (simp_all add: fun_eq_iff get_run_def get_environment_def get_operation_def get_job_def
      get_tenant_def get_team_def get_policy_def get_user_def)

end
