(* ===== verification/SP_Policy.thy ===== *)
theory SP_Policy
  imports SP_Helpers
begin

text \<open>
  \<open>policy_engine.py\<close>: the policies of a scope, one evaluator per rule type, and the evaluation of all
  policies that apply to an environment with its audit trail. An evaluator may raise (a limit that is
  not a number), which the model keeps as the left summand.
\<close>

subsection \<open>Evaluators\<close>

record eval_result =
  er_passed :: bool
  er_message :: string
  er_remediation :: "string option"

definition pass_res :: "string \<Rightarrow> error + eval_result" where
  "pass_res m = Inr \<lparr>er_passed = True, er_message = m, er_remediation = None\<rparr>"

definition fail_res :: "string \<Rightarrow> string \<Rightarrow> error + eval_result" where
  "fail_res m rem = Inr \<lparr>er_passed = False, er_message = m, er_remediation = Some rem\<rparr>"

text \<open>The keyword arguments of the evaluators; \<open>None\<close> for a dictionary is the empty one.\<close>

record eval_ctx =
  ctx_timeout :: "int option"
  ctx_resources :: "int dict"
  ctx_spark_conf :: conf
  ctx_golden_path :: "string option"
  ctx_release_label :: "string option"
  ctx_security_configuration_id :: "string option"

definition effective_timeout :: "int option \<Rightarrow> int" where
  "effective_timeout t = (case t of None \<Rightarrow> 7200 | Some s \<Rightarrow> if s = 0 then 7200 else s)"

definition evaluate_max_runtime_seconds :: "json dict \<Rightarrow> int option \<Rightarrow> error + eval_result" where
  "evaluate_max_runtime_seconds cfg timeout_seconds =
     rbind (py_int (dget cfg ''max_seconds'' (JInt 0))) (\<lambda>limit.
       if limit \<le> 0 then pass_res ''max_runtime_seconds policy has no effective limit.''
       else let effective = effective_timeout timeout_seconds in
         if effective > limit then
           fail_res (''Run timeout ('' @ show_int effective @ ''s) exceeds policy limit ('' @ show_int limit @ ''s).'')
             (''Set timeout_seconds to '' @ show_int limit @ '' or less, or request a policy exception.'')
         else pass_res (''Run timeout ('' @ show_int effective @ ''s) is within policy limit ('' @ show_int limit @ ''s).''))"

definition requested_total_vcpu :: "int dict \<Rightarrow> int" where
  "requested_total_vcpu resources =
     dget resources ''driver_vcpu'' 1 + dget resources ''executor_vcpu'' 1 * dget resources ''executor_instances'' 1"

definition evaluate_max_vcpu :: "json dict \<Rightarrow> int dict \<Rightarrow> error + eval_result" where
  "evaluate_max_vcpu cfg resources =
     rbind (py_int (dget cfg ''max_vcpu'' (JInt 0))) (\<lambda>limit.
       if limit \<le> 0 then pass_res ''max_vcpu policy has no effective limit.''
       else let total_vcpu = requested_total_vcpu resources in
         if total_vcpu > limit then
           fail_res (''Requested vCPU ('' @ show_int total_vcpu @ '') exceeds policy limit ('' @ show_int limit @ '').'')
             (''Reduce total vCPU to '' @ show_int limit @ '' or less.'')
         else pass_res (''Requested vCPU ('' @ show_int total_vcpu @ '') is within policy limit ('' @ show_int limit @ '').''))"

definition requested_total_memory :: "int dict \<Rightarrow> int" where
  "requested_total_memory resources =
     dget resources ''driver_memory_gb'' 4
       + dget resources ''executor_memory_gb'' 4 * dget resources ''executor_instances'' 1"

definition evaluate_max_memory_gb :: "json dict \<Rightarrow> int dict \<Rightarrow> error + eval_result" where
  "evaluate_max_memory_gb cfg resources =
     rbind (py_int (dget cfg ''max_memory_gb'' (JInt 0))) (\<lambda>limit.
       if limit \<le> 0 then pass_res ''max_memory_gb policy has no effective limit.''
       else let total_mem = requested_total_memory resources in
         if total_mem > limit then
           fail_res (''Requested memory ('' @ show_int total_mem @ ''GB) exceeds policy limit ('' @ show_int limit @ ''GB).'')
             (''Reduce total memory to '' @ show_int limit @ ''GB or less.'')
         else pass_res (''Requested memory ('' @ show_int total_mem @ ''GB) is within policy limit ('' @ show_int limit @ ''GB).''))"

definition driver_label_key :: "string \<Rightarrow> string" where
  "driver_label_key tag = ''spark.kubernetes.driver.label.'' @ tag"

definition missing_tag :: "conf \<Rightarrow> string \<times> json \<Rightarrow> string list" where
  "missing_tag c kv = (case kv of (tag_key, expected_value) \<Rightarrow>
     let actual = dget c (driver_label_key tag_key) [] in
     if truthy expected_value \<and> JStr actual \<noteq> expected_value
     then [tag_key @ ''='' @ py_str expected_value]
     else if \<not> truthy expected_value \<and> actual = [] then [tag_key] else [])"

definition evaluate_required_tags :: "json dict \<Rightarrow> conf \<Rightarrow> error + eval_result" where
  "evaluate_required_tags cfg c =
     (let required = dget cfg ''tags'' (JObj []) in
      if \<not> truthy required then pass_res ''No required tags configured.''
      else rbind (py_items required) (\<lambda>items.
        let missing = concat (map (missing_tag c) items) in
        if missing \<noteq> [] then
          fail_res (''Missing required tags: '' @ join '', '' missing @ ''.'')
            ''Add required tags to spark_conf as spark.kubernetes.driver.label.<tag>.''
        else pass_res ''All required tags present.''))"

definition opt_empty :: "string option \<Rightarrow> bool" where
  "opt_empty x = (case x of None \<Rightarrow> True | Some s \<Rightarrow> s = [])"

definition evaluate_allowed_golden_paths :: "json dict \<Rightarrow> string option \<Rightarrow> error + eval_result" where
  "evaluate_allowed_golden_paths cfg golden_path =
     (let allowed = dget cfg ''allowed'' (JArr []) in
      if \<not> truthy allowed then pass_res ''No golden path restrictions configured.''
      else if opt_empty golden_path then
        (if truthy (dget cfg ''require_golden_path'' (JBool False)) then
           rbind (py_join allowed) (\<lambda>names.
             fail_res ''A golden path is required by policy.'' (''Specify one of: '' @ names @ ''.''))
         else pass_res ''No golden path specified (not required).'')
      else rbind (py_in (the golden_path) allowed) (\<lambda>mem.
        if \<not> mem then rbind (py_join allowed) (\<lambda>names.
          fail_res (''Golden path '' @ [CHR 0x27] @ the golden_path @ [CHR 0x27] @ '' is not in the allowed list.'')
            (''Use one of: '' @ names @ ''.''))
        else pass_res (''Golden path '' @ [CHR 0x27] @ the golden_path @ [CHR 0x27] @ '' is allowed.'')))"

definition evaluate_allowed_release_labels :: "json dict \<Rightarrow> string option \<Rightarrow> error + eval_result" where
  "evaluate_allowed_release_labels cfg release_label =
     (let allowed = dget cfg ''allowed'' (JArr []) in
      if \<not> truthy allowed then pass_res ''No release label restrictions configured.''
      else if opt_empty release_label then pass_res ''No explicit release label specified.''
      else rbind (py_in (the release_label) allowed) (\<lambda>mem.
        if \<not> mem then rbind (py_join allowed) (\<lambda>names.
          fail_res (''Release label '' @ [CHR 0x27] @ the release_label @ [CHR 0x27] @ '' is not allowed by policy.'')
            (''Use one of: '' @ names @ ''.''))
        else pass_res (''Release label '' @ [CHR 0x27] @ the release_label @ [CHR 0x27] @ '' is allowed.'')))"

definition node_selector_key :: string where
  "node_selector_key = ''spark.kubernetes.node.selector.node.kubernetes.io/instance-type''"

definition evaluate_allowed_instance_types :: "json dict \<Rightarrow> conf \<Rightarrow> error + eval_result" where
  "evaluate_allowed_instance_types cfg c =
     (let allowed = dget cfg ''allowed'' (JArr []) in
      if \<not> truthy allowed then pass_res ''No instance type restrictions configured.''
      else let instance_type = dget c node_selector_key [] in
        if instance_type = [] then pass_res ''No explicit instance type selector specified.''
        else rbind (py_in instance_type allowed) (\<lambda>mem.
          if \<not> mem then rbind (py_join allowed) (\<lambda>names.
            fail_res (''Instance type '' @ [CHR 0x27] @ instance_type @ [CHR 0x27] @ '' is not allowed by policy.'')
              (''Use one of: '' @ names @ ''.''))
          else pass_res (''Instance type '' @ [CHR 0x27] @ instance_type @ [CHR 0x27] @ '' is allowed.'')))"

definition evaluate_allowed_security_configurations :: "json dict \<Rightarrow> string option \<Rightarrow> error + eval_result" where
  "evaluate_allowed_security_configurations cfg scid =
     (let allowed = dget cfg ''allowed'' (JArr []);
          required = truthy (dget cfg ''require_security_configuration'' (JBool False)) in
      if \<not> truthy allowed \<and> \<not> required then pass_res ''No security configuration restrictions configured.''
      else if opt_empty scid then
        (if required then
           (if truthy allowed then rbind (py_join allowed) (\<lambda>names.
              fail_res ''A security configuration is required by policy.'' (''Associate one of: '' @ names @ ''.''))
            else fail_res ''A security configuration is required by policy.'' ''Associate a security configuration.'')
         else pass_res ''No security configuration specified (not required).'')
      else if truthy allowed then rbind (py_in (the scid) allowed) (\<lambda>mem.
        if \<not> mem then rbind (py_join allowed) (\<lambda>names.
          fail_res (''Security configuration '' @ [CHR 0x27] @ the scid @ [CHR 0x27] @ '' is not in the allowed list.'')
            (''Use one of: '' @ names @ ''.''))
        else pass_res (''Security configuration '' @ [CHR 0x27] @ the scid @ [CHR 0x27] @ '' is allowed.''))
      else pass_res (''Security configuration '' @ [CHR 0x27] @ the scid @ [CHR 0x27] @ '' is allowed.''))"

subsection \<open>The table of evaluators\<close>

definition policy_rule_types :: "string list" where
  "policy_rule_types =
     [''max_runtime_seconds'', ''max_vcpu'', ''max_memory_gb'', ''required_tags'',
      ''allowed_golden_paths'', ''allowed_release_labels'', ''allowed_instance_types'',
      ''allowed_security_configurations'']"

definition rule_evaluators :: "(string \<times> (json dict \<Rightarrow> eval_ctx \<Rightarrow> error + eval_result)) list" where
  "rule_evaluators =
     [(''max_runtime_seconds'', \<lambda>cfg x. evaluate_max_runtime_seconds cfg (ctx_timeout x)),
      (''max_vcpu'', \<lambda>cfg x. evaluate_max_vcpu cfg (ctx_resources x)),
      (''max_memory_gb'', \<lambda>cfg x. evaluate_max_memory_gb cfg (ctx_resources x)),
      (''required_tags'', \<lambda>cfg x. evaluate_required_tags cfg (ctx_spark_conf x)),
      (''allowed_golden_paths'', \<lambda>cfg x. evaluate_allowed_golden_paths cfg (ctx_golden_path x)),
      (''allowed_release_labels'', \<lambda>cfg x. evaluate_allowed_release_labels cfg (ctx_release_label x)),
      (''allowed_instance_types'', \<lambda>cfg x. evaluate_allowed_instance_types cfg (ctx_spark_conf x)),
      (''allowed_security_configurations'',
         \<lambda>cfg x. evaluate_allowed_security_configurations cfg (ctx_security_configuration_id x))]"

subsection \<open>Evaluation of all policies that apply\<close>

definition policy_applies :: "environment \<Rightarrow> policy \<Rightarrow> bool" where
  "policy_applies env p \<longleftrightarrow> pol_active p \<and>
     (pol_scope p = ''global''
      \<or> (pol_scope p = ''tenant'' \<and> pol_scope_id p = Some (env_tenant_id env))
      \<or> (pol_scope p = ''environment'' \<and> pol_scope_id p = Some (env_id env)))"

definition resolve_applicable_policies :: "database \<Rightarrow> environment \<Rightarrow> policy list" where
  "resolve_applicable_policies d env = filter (policy_applies env) (db_policies d)"

record policy_entry =
  pe_policy_id :: string
  pe_policy_name :: string
  pe_rule_type :: string
  pe_enforcement :: string
  pe_result :: eval_result

fun evaluate_each ::
    "time \<Rightarrow> string \<Rightarrow> string option \<Rightarrow> environment \<Rightarrow> eval_ctx \<Rightarrow> policy list \<Rightarrow> database
     \<Rightarrow> error + policy_entry list \<times> database" where
  "evaluate_each now actor ip env x [] d = Inr ([], d)"
| "evaluate_each now actor ip env x (p # ps) d =
     (case map_of rule_evaluators (pol_rule_type p) of
        None \<Rightarrow> evaluate_each now actor ip env x ps d
      | Some evaluator \<Rightarrow>
          rbind (evaluator (pol_config p) x) (\<lambda>result.
            let entry = \<lparr>pe_policy_id = pol_id p, pe_policy_name = pol_name p, pe_rule_type = pol_rule_type p,
                         pe_enforcement = pol_enforcement p, pe_result = result\<rparr>;
                d' = write_audit_event now actor ''policy.evaluated'' ''policy'' (pol_id p) None ip
                  [(''policy_name'', JStr (pol_name p)), (''rule_type'', JStr (pol_rule_type p)),
                   (''enforcement'', JStr (pol_enforcement p)), (''passed'', JBool (er_passed result)),
                   (''environment_id'', JStr (env_id env))] None d
            in rbind (evaluate_each now actor ip env x ps d') (\<lambda>(es, d''). Inr (entry # es, d''))))"

definition evaluate_policies ::
    "time \<Rightarrow> string \<Rightarrow> string option \<Rightarrow> environment \<Rightarrow> eval_ctx \<Rightarrow> database
     \<Rightarrow> error + policy_entry list \<times> database" where
  "evaluate_policies now actor ip env x d =
     evaluate_each now actor ip env x (resolve_applicable_policies d env) d"

definition hard_failures :: "policy_entry list \<Rightarrow> policy_entry list" where
  "hard_failures es = filter (\<lambda>e. \<not> er_passed (pe_result e) \<and> pe_enforcement e = ''hard'') es"


subsection \<open>Policies\<close>

definition create_policy ::
    "time \<Rightarrow> string \<Rightarrow> string \<Rightarrow> string \<Rightarrow> string option \<Rightarrow> string \<Rightarrow> json dict \<Rightarrow> string \<Rightarrow> bool
     \<Rightarrow> string option \<Rightarrow> string option \<Rightarrow> database \<Rightarrow> error + policy \<times> database" where
  "create_policy now new_id name scp scp_id rule_type cfg enforcement act actor ip d =
     (if rule_type \<notin> set policy_rule_types
      then Inl (ValueError (''Unknown policy rule_type '' @ [CHR 0x27] @ rule_type @ [CHR 0x27] @ ''.''))
      else if scp \<notin> {''global'', ''tenant'', ''environment''} then Inl (IntegrityError ''ck_policies_scope'')
      else if enforcement \<notin> {''hard'', ''soft''} then Inl (IntegrityError ''ck_policies_enforcement'')
      else
        let p = \<lparr>pol_id = new_id, pol_name = name, pol_scope = scp, pol_scope_id = scp_id,
                 pol_rule_type = rule_type, pol_config = cfg, pol_enforcement = enforcement,
                 pol_active = act, pol_created_by_actor = actor, pol_created_at = now,
                 pol_updated_at = now\<rparr>;
            d1 = add_policy p d;
            d2 = write_audit_event now (if opt_empty actor then ''system'' else the actor) ''policy.created''
                   ''policy'' new_id None ip
                   [(''name'', JStr name), (''rule_type'', JStr rule_type), (''scope'', JStr scp),
                    (''enforcement'', JStr enforcement)] None d1
        in Inr (p, d2))"

definition list_policies ::
    "string option \<Rightarrow> string option \<Rightarrow> bool \<Rightarrow> nat \<Rightarrow> nat \<Rightarrow> database \<Rightarrow> policy list" where
  "list_policies scp scp_id active_only lim off d =
     page lim off (sort_desc pol_created_at (filter (\<lambda>p.
       (opt_empty scp \<or> scp = Some (pol_scope p)) \<and>
       (opt_empty scp_id \<or> scp_id = pol_scope_id p) \<and>
       (active_only \<longrightarrow> pol_active p)) (db_policies d)))"

definition delete_policy ::
    "time \<Rightarrow> string \<Rightarrow> string option \<Rightarrow> string option \<Rightarrow> database \<Rightarrow> bool \<times> database" where
  "delete_policy now policy_id actor ip d =
     (case get_policy d policy_id of
        None \<Rightarrow> (False, d)
      | Some p \<Rightarrow>
          (True, write_audit_event now (if opt_empty actor then ''system'' else the actor)
             ''policy.deactivated'' ''policy'' policy_id None ip
             [(''name'', JStr (pol_name p)), (''rule_type'', JStr (pol_rule_type p))] None
             (modify_policy now policy_id (\<lambda>p. p\<lparr>pol_active := False\<rparr>) d)))"

definition policy_to_dict :: "policy \<Rightarrow> json dict" where
  "policy_to_dict p =
     [(''id'', JStr (pol_id p)), (''name'', JStr (pol_name p)), (''scope'', JStr (pol_scope p)),
      (''scope_id'', jstr_opt (pol_scope_id p)), (''rule_type'', JStr (pol_rule_type p)),
      (''config'', JObj (pol_config p)), (''enforcement'', JStr (pol_enforcement p)),
      (''active'', JBool (pol_active p)), (''created_by_actor'', jstr_opt (pol_created_by_actor p)),
      (''created_at'', JInt (pol_created_at p)), (''updated_at'', JInt (pol_updated_at p))]"

end
