(* ===== verification/SP_PolicyRules.thy ===== *)
theory SP_PolicyRules
  imports SP_Policy
begin

text \<open>
  What the policy engine promises. Three of the rules bound a demand by a configured limit and two
  restrict a value to a configured list; each family is one locale, interpreted at every evaluator
  that belongs to it. Then the evaluation of all policies and the policy records.
\<close>

named_theorems eval_defs \<open>definitions of the rule evaluators\<close>

lemmas [eval_defs] = evaluate_max_runtime_seconds_def evaluate_max_vcpu_def evaluate_max_memory_gb_def
  evaluate_required_tags_def evaluate_allowed_golden_paths_def evaluate_allowed_release_labels_def
  evaluate_allowed_instance_types_def evaluate_allowed_security_configurations_def
  pass_res_def fail_res_def Let_def

subsection \<open>Limit rules\<close>

locale limit_rule =
  fixes ckey :: string
    and evaluate :: "json dict \<Rightarrow> 'p \<Rightarrow> error + eval_result"
    and demand :: "'p \<Rightarrow> int"
  assumes ok: "py_int (dget cfg ckey (JInt 0)) = Inr limit \<Longrightarrow>
      \<exists>r. evaluate cfg p = Inr r \<and> (er_passed r \<longleftrightarrow> limit \<le> 0 \<or> demand p \<le> limit) \<and>
          (er_remediation r = None \<longleftrightarrow> er_passed r)"
    and raises: "py_int (dget cfg ckey (JInt 0)) = Inl e \<Longrightarrow> evaluate cfg p = Inl e"
begin

lemma evaluate_Inl_iff: "evaluate cfg p = Inl e \<longleftrightarrow> py_int (dget cfg ckey (JInt 0)) = Inl e"
proof (cases "py_int (dget cfg ckey (JInt 0))")
  case (Inl e')
  then show ?thesis using raises [OF Inl, of p] by simp
next
  case (Inr limit)
  then show ?thesis using ok [OF Inr, of p] by auto
qed

lemma passed_iff:
  assumes "evaluate cfg p = Inr r" and "py_int (dget cfg ckey (JInt 0)) = Inr limit"
  shows "er_passed r \<longleftrightarrow> limit \<le> 0 \<or> demand p \<le> limit"
  using ok [OF assms(2), of p] assms(1) by auto

lemma unconfigured_passes:
  assumes "map_of cfg ckey = None" shows "\<exists>r. evaluate cfg p = Inr r \<and> er_passed r"
  using ok [of cfg 0 p] assms by (auto simp: dget_def)

lemma remediation_iff: "evaluate cfg p = Inr r \<Longrightarrow> (er_remediation r = None) = er_passed r"
proof (cases "py_int (dget cfg ckey (JInt 0))")
  case (Inl e)
  assume "evaluate cfg p = Inr r"
  then show ?thesis using raises [OF Inl, of p] by simp
next
  case (Inr limit)
  assume "evaluate cfg p = Inr r"
  then show ?thesis using ok [OF Inr, of p] by auto
qed

lemma smaller_demand_passes:
  assumes "demand p \<le> demand q" and "evaluate cfg q = Inr s" and "er_passed s"
  shows "\<exists>r. evaluate cfg p = Inr r \<and> er_passed r"
proof (cases "py_int (dget cfg ckey (JInt 0))")
  case (Inl e)
  then show ?thesis using raises [of cfg e q] assms(2) by simp
next
  case (Inr limit)
  then show ?thesis using ok [OF Inr, of p] passed_iff [OF assms(2) Inr] assms by auto
qed

end

interpretation max_runtime: limit_rule "''max_seconds''" evaluate_max_runtime_seconds effective_timeout
  by unfold_locales (auto simp: eval_defs)

interpretation max_vcpu: limit_rule "''max_vcpu''" evaluate_max_vcpu requested_total_vcpu
  by unfold_locales (auto simp: eval_defs)

interpretation max_memory: limit_rule "''max_memory_gb''" evaluate_max_memory_gb requested_total_memory
  by unfold_locales (auto simp: eval_defs)

subsection \<open>Allow lists\<close>

text \<open>
  The policy lists names; the rule looks at one value of the request, absent or empty meaning that
  the request does not choose.
\<close>

locale allow_list_rule =
  fixes evaluate :: "json dict \<Rightarrow> 'p \<Rightarrow> error + eval_result"
    and chosen :: "'p \<Rightarrow> string option"
  assumes on_list: "map_of cfg ''allowed'' = Some (JArr (map JStr names)) \<Longrightarrow>
      \<exists>r. evaluate cfg p = Inr r \<and>
        (er_passed r \<longleftrightarrow> names = [] \<or> opt_empty (chosen p) \<or> the (chosen p) \<in> set names)"
    and no_list: "map_of cfg ''allowed'' = None \<Longrightarrow> \<exists>r. evaluate cfg p = Inr r \<and> er_passed r"
begin

lemma passed_iff:
  assumes "map_of cfg ''allowed'' = Some (JArr (map JStr names))" and "evaluate cfg p = Inr r"
  shows "er_passed r \<longleftrightarrow> names = [] \<or> opt_empty (chosen p) \<or> the (chosen p) \<in> set names"
  using on_list [OF assms(1), of p] assms(2) by auto

lemma never_raises:
  assumes "map_of cfg ''allowed'' = Some (JArr (map JStr names)) \<or> map_of cfg ''allowed'' = None"
  shows "is_ok (evaluate cfg p)"
  using assms on_list [of cfg names p] no_list [of cfg p] by auto

lemma blocked_is_off_list:
  assumes "map_of cfg ''allowed'' = Some (JArr (map JStr names))" and "evaluate cfg p = Inr r" and "\<not> er_passed r"
  shows "\<exists>v. chosen p = Some v \<and> v \<noteq> [] \<and> v \<notin> set names"
  using passed_iff [OF assms(1,2)] assms(3) by (auto simp: opt_empty_def split: option.splits)

end

interpretation release_labels: allow_list_rule evaluate_allowed_release_labels "\<lambda>p. p"
  by unfold_locales (auto simp: eval_defs dget_def simp del: py_in.simps py_join.simps)

interpretation instance_types: allow_list_rule evaluate_allowed_instance_types
  "\<lambda>c. Some (dget c node_selector_key [])"
  by unfold_locales (auto simp: eval_defs dget_def opt_empty_def simp del: py_in.simps py_join.simps)

subsection \<open>The other rules\<close>

text \<open>A required tag is satisfied when the label has the expected value, or any value if none is given.\<close>

definition tag_satisfied :: "conf \<Rightarrow> string \<times> json \<Rightarrow> bool" where
  "tag_satisfied c kv \<longleftrightarrow>
     (if truthy (snd kv) then JStr (dget c (driver_label_key (fst kv)) []) = snd kv
      else dget c (driver_label_key (fst kv)) [] \<noteq> [])"

lemma missing_tag_Nil: "missing_tag c kv = [] \<longleftrightarrow> tag_satisfied c kv"
  by (cases kv) (simp add: missing_tag_def tag_satisfied_def Let_def)

lemma required_tags_passed_iff:
  assumes "map_of cfg ''tags'' = Some (JObj kvs)"
  shows "\<exists>r. evaluate_required_tags cfg c = Inr r \<and> (er_passed r \<longleftrightarrow> (\<forall>kv \<in> set kvs. tag_satisfied c kv))"
  using assms by (auto simp: eval_defs dget_def missing_tag_Nil)

lemma golden_paths_passed_iff:
  assumes "map_of cfg ''allowed'' = Some (JArr (map JStr names))" and "names \<noteq> []"
  shows "\<exists>r. evaluate_allowed_golden_paths cfg g = Inr r \<and>
    (er_passed r \<longleftrightarrow>
      (if opt_empty g then \<not> truthy (dget cfg ''require_golden_path'' (JBool False))
       else the g \<in> set names))"
  using assms by (auto simp: eval_defs dget_def simp del: py_in.simps py_join.simps)

lemma security_configurations_passed_iff:
  assumes "map_of cfg ''allowed'' = Some (JArr (map JStr names))"
  shows "\<exists>r. evaluate_allowed_security_configurations cfg s = Inr r \<and>
    (er_passed r \<longleftrightarrow>
      (if opt_empty s then \<not> truthy (dget cfg ''require_security_configuration'' (JBool False))
       else names = [] \<or> the s \<in> set names))"
  using assms by (auto simp: eval_defs dget_def simp del: py_in.simps py_join.simps)

subsection \<open>Evaluation\<close>

lemma rule_types_have_evaluators: "map fst rule_evaluators = policy_rule_types"
  by (simp add: rule_evaluators_def policy_rule_types_def)

lemma rule_evaluator_exists_iff:
  "t \<in> set policy_rule_types \<longleftrightarrow> (\<exists>ev. map_of rule_evaluators t = Some ev)"
  unfolding rule_types_have_evaluators [symmetric]
  by (metis (no_types, lifting) image_set map_of_eq_None_iff not_None_eq)

lemma evaluate_each_frame:
  "evaluate_each now actor ip env x ps d = Inr (es, d') \<Longrightarrow>
     (\<exists>a. d' = d\<lparr>db_audit := a\<rparr>)"
proof (induction ps arbitrary: d es d')
  case Nil
  then show ?case by (auto intro: exI [where x = "db_audit d"])
next
  case (Cons p ps)
  then show ?case
    by (fastforce simp: rbind_Inr_iff Let_def write_audit_event_def split: option.splits prod.splits)
qed

lemma evaluate_each_results:
  "evaluate_each now actor ip env x ps d = Inr (es, d') \<Longrightarrow>
     list_all2 (\<lambda>p e. pe_policy_id e = pol_id p \<and> pe_policy_name e = pol_name p \<and>
        pe_rule_type e = pol_rule_type p \<and> pe_enforcement e = pol_enforcement p \<and>
        (\<exists>ev. map_of rule_evaluators (pol_rule_type p) = Some ev \<and> ev (pol_config p) x = Inr (pe_result e)))
      (filter (\<lambda>p. map_of rule_evaluators (pol_rule_type p) \<noteq> None) ps) es"
proof (induction ps arbitrary: d es d')
  case Nil
  then show ?case by simp
next
  case (Cons p ps)
  show ?case
  proof (cases "map_of rule_evaluators (pol_rule_type p)")
    case None
    then show ?thesis using Cons by simp
  next
    case (Some ev)
    with Cons.prems obtain r es' d1 where r: "ev (pol_config p) x = Inr r"
      and rest: "evaluate_each now actor ip env x ps d1 = Inr (es', d')"
      and es: "es = \<lparr>pe_policy_id = pol_id p, pe_policy_name = pol_name p,
        pe_rule_type = pol_rule_type p, pe_enforcement = pol_enforcement p, pe_result = r\<rparr> # es'"
      by (auto simp: rbind_Inr_iff Let_def split: prod.splits)
    show ?thesis using Cons.IH [OF rest] Some r es by simp
  qed
qed

lemma evaluate_policies_frame:
  "evaluate_policies now actor ip env x d = Inr (es, d') \<Longrightarrow> \<exists>a. d' = d\<lparr>db_audit := a\<rparr>"
  unfolding evaluate_policies_def by (rule evaluate_each_frame)

lemma evaluate_each_audits:
  "evaluate_each now actor ip env x ps d = Inr (es, d') \<Longrightarrow>
     \<exists>new. db_audit d' = db_audit d @ new \<and> map au_entity_id new = map pe_policy_id es \<and>
       (\<forall>a \<in> set new. au_action a = ''policy.evaluated'')"
proof (induction ps arbitrary: d es d')
  case Nil
  then show ?case by simp
next
  case (Cons p ps)
  show ?case
  proof (cases "map_of rule_evaluators (pol_rule_type p)")
    case None
    then show ?thesis using Cons by simp
  next
    case (Some ev)
    with Cons.prems obtain r es' a where "ev (pol_config p) x = Inr r"
      and rest: "evaluate_each now actor ip env x ps (d\<lparr>db_audit := db_audit d @ [a]\<rparr>) = Inr (es', d')"
      and a: "au_entity_id a = pol_id p" "au_action a = ''policy.evaluated''"
      and es: "map pe_policy_id es = pol_id p # map pe_policy_id es'"
      by (auto simp: rbind_Inr_iff Let_def write_audit_event_def split: prod.splits)
    from Cons.IH [OF rest] obtain new where "db_audit d' = db_audit d @ [a] @ new"
      "map au_entity_id new = map pe_policy_id es'" "\<forall>a \<in> set new. au_action a = ''policy.evaluated''"
      by auto
    then show ?thesis using a es by (intro exI [where x = "a # new"]) auto
  qed
qed

lemma hard_failure_blocks:
  assumes ev: "evaluate_policies now actor ip env x d = Inr (es, d')"
    and p: "p \<in> set (db_policies d)" "policy_applies env p" "pol_enforcement p = ''hard''"
    and rule: "map_of rule_evaluators (pol_rule_type p) = Some f" "f (pol_config p) x = Inr r" "\<not> er_passed r"
  shows "hard_failures es \<noteq> []"
proof -
  have "p \<in> set (filter (\<lambda>p. map_of rule_evaluators (pol_rule_type p) \<noteq> None) (resolve_applicable_policies d env))"
    using p rule by (simp add: resolve_applicable_policies_def)
  then obtain e where "e \<in> set es" "pe_enforcement e = pol_enforcement p"
    "\<exists>g. map_of rule_evaluators (pol_rule_type p) = Some g \<and> g (pol_config p) x = Inr (pe_result e)"
    using list_all2_mem [OF evaluate_each_results [OF ev [unfolded evaluate_policies_def]]] by blast
  then show ?thesis
    using p(3) rule by (auto simp: hard_failures_def filter_empty_conv)
qed

lemma hard_policies_pass:
  assumes ev: "evaluate_policies now actor ip env x d = Inr (es, d')" and none: "hard_failures es = []"
    and p: "p \<in> set (db_policies d)" "policy_applies env p" "pol_enforcement p = ''hard''"
    and rule: "map_of rule_evaluators (pol_rule_type p) = Some f"
  shows "\<exists>r. f (pol_config p) x = Inr r \<and> er_passed r"
proof -
  have "p \<in> set (filter (\<lambda>p. map_of rule_evaluators (pol_rule_type p) \<noteq> None) (resolve_applicable_policies d env))"
    using p rule by (simp add: resolve_applicable_policies_def)
  then obtain e where e: "e \<in> set es" "pe_enforcement e = pol_enforcement p" "f (pol_config p) x = Inr (pe_result e)"
    using list_all2_mem [OF evaluate_each_results [OF ev [unfolded evaluate_policies_def]]] rule by fastforce
  then show ?thesis using none p(3) by (auto simp: hard_failures_def filter_empty_conv)
qed

subsection \<open>Policy records\<close>

lemma create_policy_applicable:
  assumes "create_policy now i name scp sid rt cfg enf act actor ip d = Inr (p, d')"
    and "get_policy d i = None"
  shows "get_policy d' i = Some p \<and> rt \<in> set policy_rule_types \<and>
    (policy_applies env p \<longrightarrow> p \<in> set (resolve_applicable_policies d' env))"
proof -
  from assms(1) have rt: "rt \<in> set policy_rule_types"
    by (simp add: create_policy_def split: if_splits)
  from assms(1) have p: "pol_id p = i" and tab: "db_policies d' = db_policies d @ [p]"
    and get: "get_policy d' = get_policy (add_policy p d)"
    by (auto simp: create_policy_def Let_def add_policy_def split: if_splits)
  have "get_policy d' i = Some p"
    using policy_store.get_add_same [of d p] assms(2) p get by simp
  then show ?thesis
    using rt tab by (simp add: resolve_applicable_policies_def)
qed

lemma delete_policy_not_applicable:
  assumes del: "delete_policy now i actor ip d = (True, d')"
    and p: "p \<in> set (resolve_applicable_policies d' env)"
  shows "pol_id p \<noteq> i \<and> p \<in> set (resolve_applicable_policies d env)"
proof -
  let ?f = "\<lambda>p. p\<lparr>pol_active := False\<rparr>"
  from del have tab: "db_policies d' = db_policies (modify_policy now i ?f d)"
    by (auto simp: delete_policy_def split: option.splits)
  from p have ap: "policy_applies env p" and mem: "p \<in> set (db_policies d')"
    by (auto simp: resolve_applicable_policies_def)
  from mem obtain q where q: "q \<in> set (db_policies d)"
    and pq: "p = (if pol_id q = i then upd_policy now ?f q else q)"
    unfolding tab policy_store.rows_modify_set by blast
  have "\<not> pol_active (upd_policy now ?f q)"
    by (cases "?f q = q") (auto simp: upd_policy_def Let_def dest: arg_cong [of _ _ pol_active])
  with ap pq have "pol_id q \<noteq> i" by (auto simp: policy_applies_def)
  then show ?thesis using q pq ap by (simp add: resolve_applicable_policies_def)
qed

end
