(* ===== verification/SP_Quota.thy ===== *)
theory SP_Quota
  imports SP_Helpers
begin

text \<open>
  \<open>quota.py\<close>: the vCPU demand of a run, the environment lookup that takes the row lock, and the
  admission check against the limits of the environment.
\<close>

definition run_vcpu :: "int dict \<Rightarrow> int" where
  "run_vcpu resources =
     (let driver = dget resources ''driver_vcpu'' 0;
          executor = dget resources ''executor_vcpu'' 0;
          cnt = dget resources ''executor_instances'' 0
      in driver + executor * cnt)"

definition lock_environment_for_quota :: "database \<Rightarrow> string \<Rightarrow> error + environment" where
  "lock_environment_for_quota d environment_id =
     (case get_environment d environment_id of
        None \<Rightarrow> Inl (EntityNotFoundError ''Environment not found.'')
      | Some env \<Rightarrow> Inr env)"

text \<open>The runs of an environment that count against its quota.\<close>

definition counted_in :: "string \<Rightarrow> run \<Rightarrow> bool" where
  "counted_in eid r \<longleftrightarrow> run_environment_id r = eid \<and> active (run_state r)"

definition active_runs_of :: "database \<Rightarrow> string \<Rightarrow> run list" where
  "active_runs_of d eid = filter (counted_in eid) (db_runs d)"

definition active_vcpu :: "database \<Rightarrow> string \<Rightarrow> int" where
  "active_vcpu d eid = sum_list (map (\<lambda>r. run_vcpu (run_requested_resources r)) (active_runs_of d eid))"

definition enforce_quota_for_run :: "database \<Rightarrow> environment \<Rightarrow> int dict \<Rightarrow> error + unit" where
  "enforce_quota_for_run d env requested_resources =
     (let active_count = int (length (active_runs_of d (env_id env))) in
      if active_count \<ge> env_max_concurrent_runs env
      then Inl (QuotaExceededError (''Concurrent run limit reached ('' @ show_int (env_max_concurrent_runs env) @ '').''))
      else if active_vcpu d (env_id env) + run_vcpu requested_resources > env_max_vcpu env
      then Inl (QuotaExceededError (''vCPU quota exceeded ('' @ show_int (env_max_vcpu env) @ '').''))
      else Inr ())"

lemma enforce_quota_ok_iff:
  "enforce_quota_for_run d env req = Inr () \<longleftrightarrow>
     int (length (active_runs_of d (env_id env))) < env_max_concurrent_runs env \<and>
     active_vcpu d (env_id env) + run_vcpu req \<le> env_max_vcpu env"
  by (auto simp: enforce_quota_for_run_def Let_def)

lemma enforce_quota_error:
  "enforce_quota_for_run d env req = Inl e \<Longrightarrow> status_code e = 429"
  by (auto simp: enforce_quota_for_run_def Let_def split: if_splits)

text \<open>An environment is within its limits.\<close>

definition within_quota :: "database \<Rightarrow> environment \<Rightarrow> bool" where
  "within_quota d env \<longleftrightarrow>
     int (length (active_runs_of d (env_id env))) \<le> env_max_concurrent_runs env \<and>
     active_vcpu d (env_id env) \<le> env_max_vcpu env"

lemma active_runs_of_audit [simp]:
  "active_runs_of (write_audit_event now a act et eid t ip dt aws d) = active_runs_of d"
  by (simp add: active_runs_of_def fun_eq_iff)

lemma active_vcpu_cong: "db_runs d' = db_runs d \<Longrightarrow> active_vcpu d' = active_vcpu d"
  by (simp add: active_vcpu_def active_runs_of_def fun_eq_iff)

lemma within_quota_cong: "db_runs d' = db_runs d \<Longrightarrow> within_quota d' = within_quota d"
  by (simp add: within_quota_def active_vcpu_def active_runs_of_def fun_eq_iff)

text \<open>Admission of one more run keeps the environment within its limits.\<close>

lemma admit_within_quota:
  assumes q: "enforce_quota_for_run d env req = Inr ()"
    and runs: "db_runs d' = db_runs d @ [r]"
    and r: "run_environment_id r = env_id env" "run_requested_resources r = req" "active (run_state r)"
  shows "within_quota d' env"
proof -
  have "active_runs_of d' (env_id env) = active_runs_of d (env_id env) @ [r]"
    using r(3) by (simp add: active_runs_of_def runs counted_in_def r(1))
  then show ?thesis
    using q r(2) by (simp add: enforce_quota_ok_iff within_quota_def active_vcpu_def)
qed

lemma admit_other_environment:
  assumes "db_runs d' = db_runs d @ [r]" and "run_environment_id r \<noteq> env_id e"
  shows "within_quota d' e = within_quota d e"
  using assms by (simp add: within_quota_def active_vcpu_def active_runs_of_def counted_in_def)

text \<open>
  A change of the runs that never makes a run count that did not, nor changes what it asks for,
  keeps every environment within its limits.
\<close>

definition nonneg_resources :: "run \<Rightarrow> bool" where
  "nonneg_resources r \<longleftrightarrow> 0 \<le> run_vcpu (run_requested_resources r)"

definition deactivating :: "run \<Rightarrow> run \<Rightarrow> bool" where
  "deactivating r r' \<longleftrightarrow> run_environment_id r' = run_environment_id r \<and>
     run_requested_resources r' = run_requested_resources r \<and>
     (active (run_state r') \<longrightarrow> active (run_state r))"

lemma deactivating_refl [simp]: "deactivating r r"
  by (simp add: deactivating_def)

lemma deactivating_trans: "deactivating a b \<Longrightarrow> deactivating b c \<Longrightarrow> deactivating a c"
  by (simp add: deactivating_def)

lemma within_quota_map:
  assumes runs: "db_runs d' = map g (db_runs d)"
    and g: "\<And>r. r \<in> set (db_runs d) \<Longrightarrow> deactivating r (g r)"
    and nn: "\<And>r. r \<in> set (db_runs d) \<Longrightarrow> nonneg_resources r"
    and q: "within_quota d env"
  shows "within_quota d' env"
proof -
  let ?P = "counted_in (env_id env)" and ?v = "\<lambda>r. run_vcpu (run_requested_resources r)"
  have imp: "\<And>r. r \<in> set (db_runs d) \<Longrightarrow> ?P (g r) \<Longrightarrow> ?P r \<and> ?v (g r) = ?v r"
    using g by (auto simp: deactivating_def counted_in_def)
  have "length (filter ?P (map g (db_runs d))) \<le> length (filter ?P (db_runs d))"
    by (rule length_filter_modify_le) (use imp in blast)
  moreover have "sum_list (map ?v (filter ?P (map g (db_runs d)))) \<le> sum_list (map ?v (filter ?P (db_runs d)))"
    by (rule sum_list_filter_modify_le) (use imp nn in \<open>auto simp: nonneg_resources_def\<close>)
  ultimately show ?thesis
    using q by (simp add: within_quota_def active_vcpu_def active_runs_of_def runs)
qed

end
