(* ===== verification/SP_GoldenPaths.thy ===== *)
theory SP_GoldenPaths
  imports SP_Helpers
begin

text \<open>
  \<open>services/golden_paths.py\<close>: the default templates, their seeding, the records and their
  resolution for a run. \<open>environment_id\<close> is null for a global path, and the queries order by it,
  descending: where nulls go is up to the database, so it is an argument (\<open>nulls_first\<close>: true on
  PostgreSQL, false on SQLite).
\<close>

record golden_path_spec =
  gs_name :: string
  gs_description :: string
  gs_spark_conf :: conf
  gs_requested_resources :: "int dict"
  gs_instance_architecture :: string
  gs_capacity_type :: string
  gs_max_runtime_minutes :: int
  gs_tags :: "string dict"
  gs_recommended_instance_types :: "string list"

definition spot_conf :: conf where
  "spot_conf =
     [(''spark.kubernetes.executor.node.selector.eks.amazonaws.com/capacityType'', ''SPOT''),
      (''spark.kubernetes.executor.tolerations'', ''spot=true:NoSchedule'')]"

definition resources_of :: "int \<Rightarrow> int \<Rightarrow> int \<Rightarrow> int \<Rightarrow> int \<Rightarrow> int dict" where
  "resources_of dv dm ev em n =
     [(''driver_vcpu'', dv), (''driver_memory_gb'', dm), (''executor_vcpu'', ev),
      (''executor_memory_gb'', em), (''executor_instances'', n)]"

definition default_golden_path_specs :: "golden_path_spec list" where
  "default_golden_path_specs =
     [\<lparr>gs_name = ''small'', gs_description = ''Small Spark job profile (2 vCPU, 8GB total).'',
       gs_spark_conf = spot_conf, gs_requested_resources = resources_of 1 2 1 6 1,
       gs_instance_architecture = ''mixed'', gs_capacity_type = ''spot'', gs_max_runtime_minutes = 120,
       gs_tags = [(''sparkpilot.default'', ''true''), (''size'', ''small'')],
       gs_recommended_instance_types = [''m7g.large'', ''m7i.large'', ''r7g.large'']\<rparr>,
      \<lparr>gs_name = ''medium'', gs_description = ''Medium Spark job profile (8 vCPU, 32GB total).'',
       gs_spark_conf = spot_conf, gs_requested_resources = resources_of 2 4 2 7 3,
       gs_instance_architecture = ''mixed'', gs_capacity_type = ''spot'', gs_max_runtime_minutes = 180,
       gs_tags = [(''sparkpilot.default'', ''true''), (''size'', ''medium'')],
       gs_recommended_instance_types = [''m7g.xlarge'', ''m7i.xlarge'', ''r7g.xlarge'']\<rparr>,
      \<lparr>gs_name = ''large'', gs_description = ''Large Spark job profile (32 vCPU, 128GB total).'',
       gs_spark_conf = spot_conf, gs_requested_resources = resources_of 4 16 4 14 7,
       gs_instance_architecture = ''mixed'', gs_capacity_type = ''spot'', gs_max_runtime_minutes = 240,
       gs_tags = [(''sparkpilot.default'', ''true''), (''size'', ''large'')],
       gs_recommended_instance_types = [''m7g.2xlarge'', ''m7i.2xlarge'', ''r7g.2xlarge'']\<rparr>,
      \<lparr>gs_name = ''gpu'', gs_description = ''GPU Spark profile placeholder for GPU-enabled clusters.'',
       gs_spark_conf =
         [(''spark.kubernetes.executor.node.selector.eks.amazonaws.com/capacityType'', ''ON_DEMAND''),
          (''spark.executor.resource.gpu.amount'', ''1''),
          (''spark.task.resource.gpu.amount'', ''0.125'')],
       gs_requested_resources = resources_of 4 16 8 32 2,
       gs_instance_architecture = ''x86_64'', gs_capacity_type = ''on_demand'', gs_max_runtime_minutes = 240,
       gs_tags = [(''sparkpilot.default'', ''true''), (''size'', ''gpu'')],
       gs_recommended_instance_types = [''g5.xlarge'', ''g5.2xlarge'']\<rparr>]"

definition golden_path_of_spec :: "time \<Rightarrow> string \<Rightarrow> golden_path_spec \<Rightarrow> golden_path" where
  "golden_path_of_spec now new_id spec =
     \<lparr>gp_id = new_id, gp_environment_id = None, gp_name = gs_name spec, gp_description = gs_description spec,
      gp_spark_conf = gs_spark_conf spec, gp_requested_resources = gs_requested_resources spec,
      gp_instance_architecture = gs_instance_architecture spec, gp_capacity_type = gs_capacity_type spec,
      gp_max_runtime_minutes = gs_max_runtime_minutes spec, gp_tags = gs_tags spec,
      gp_recommended_instance_types = gs_recommended_instance_types spec, gp_data_access_scope = None,
      gp_created_at = now, gp_updated_at = now\<rparr>"

definition find_golden_path :: "database \<Rightarrow> string option \<Rightarrow> string \<Rightarrow> golden_path option" where
  "find_golden_path d eid name = find (\<lambda>g. gp_environment_id g = eid \<and> gp_name g = name) (db_golden d)"

text \<open>
  The insert under a savepoint: the unique indexes on (environment, name) and on the name of a
  global path refuse a duplicate, and only the insert is undone.
\<close>

definition flush_golden_path :: "golden_path \<Rightarrow> database \<Rightarrow> error + database" where
  "flush_golden_path g d =
     (case find_golden_path d (gp_environment_id g) (gp_name g) of
        Some _ \<Rightarrow> Inl (IntegrityError ''uq_golden_paths_env_name'')
      | None \<Rightarrow> Inr (add_golden_path g d))"

text \<open>\<open>other n\<close> is what other transactions commit between the query for the name \<open>n\<close> and the insert.\<close>

fun ensure_golden_paths ::
    "time \<Rightarrow> (string \<Rightarrow> string) \<Rightarrow> (string \<Rightarrow> database \<Rightarrow> database) \<Rightarrow> golden_path_spec list \<Rightarrow> database
     \<Rightarrow> nat \<times> database" where
  "ensure_golden_paths now new_id other [] d = (0, d)"
| "ensure_golden_paths now new_id other (spec # specs) d =
     (case find_golden_path d None (gs_name spec) of
        Some _ \<Rightarrow> ensure_golden_paths now new_id other specs d
      | None \<Rightarrow>
          (let d1 = other (gs_name spec) d in
           case flush_golden_path (golden_path_of_spec now (new_id (gs_name spec)) spec) d1 of
             Inl _ \<Rightarrow> ensure_golden_paths now new_id other specs d1
           | Inr d2 \<Rightarrow>
               (case ensure_golden_paths now new_id other specs d2 of (n, d3) \<Rightarrow> (n + 1, d3))))"

definition ensure_default_golden_paths ::
    "time \<Rightarrow> (string \<Rightarrow> string) \<Rightarrow> (string \<Rightarrow> database \<Rightarrow> database) \<Rightarrow> database \<Rightarrow> nat \<times> database" where
  "ensure_default_golden_paths now new_id other d =
     ensure_golden_paths now new_id other default_golden_path_specs d"

subsection \<open>Response payload\<close>

record golden_path_response =
  gr_id :: string
  gr_environment_id :: "string option"
  gr_name :: string
  gr_description :: string
  gr_spark_config :: conf
  gr_driver_vcpu :: int
  gr_driver_memory_gb :: int
  gr_executor_vcpu :: int
  gr_executor_memory_gb :: int
  gr_executor_count :: int
  gr_instance_architecture :: string
  gr_capacity_type :: string
  gr_max_runtime_minutes :: int
  gr_tags :: "string dict"
  gr_recommended_instance_types :: "string list"
  gr_data_access_scope :: "json option"
  gr_created_at :: time
  gr_updated_at :: time

definition golden_path_to_response_payload :: "golden_path \<Rightarrow> golden_path_response" where
  "golden_path_to_response_payload g =
     (let resources = gp_requested_resources g in
      \<lparr>gr_id = gp_id g, gr_environment_id = gp_environment_id g, gr_name = gp_name g,
       gr_description = gp_description g, gr_spark_config = gp_spark_conf g,
       gr_driver_vcpu = dget resources ''driver_vcpu'' 1,
       gr_driver_memory_gb = dget resources ''driver_memory_gb'' 4,
       gr_executor_vcpu = dget resources ''executor_vcpu'' 1,
       gr_executor_memory_gb = dget resources ''executor_memory_gb'' 4,
       gr_executor_count = dget resources ''executor_instances'' 1,
       gr_instance_architecture = gp_instance_architecture g, gr_capacity_type = gp_capacity_type g,
       gr_max_runtime_minutes = gp_max_runtime_minutes g, gr_tags = gp_tags g,
       gr_recommended_instance_types = gp_recommended_instance_types g,
       gr_data_access_scope = gp_data_access_scope g, gr_created_at = gp_created_at g,
       gr_updated_at = gp_updated_at g\<rparr>)"

subsection \<open>Records\<close>

record resource_spec =
  rs_vcpu :: int
  rs_memory_gb :: int

record golden_path_create =
  gc_environment_id :: "string option"
  gc_name :: string
  gc_description :: string
  gc_spark_config :: conf
  gc_driver_resources :: resource_spec
  gc_executor_resources :: resource_spec
  gc_executor_count :: int
  gc_instance_architecture :: string
  gc_capacity_type :: string
  gc_max_runtime_minutes :: int
  gc_tags :: "string dict"
  gc_recommended_instance_types :: "string list"
  gc_data_access_scope :: "json option"

definition golden_path_of_request :: "time \<Rightarrow> string \<Rightarrow> golden_path_create \<Rightarrow> golden_path" where
  "golden_path_of_request now new_id req =
     \<lparr>gp_id = new_id, gp_environment_id = gc_environment_id req, gp_name = gc_name req,
      gp_description = gc_description req, gp_spark_conf = gc_spark_config req,
      gp_requested_resources = resources_of (rs_vcpu (gc_driver_resources req)) (rs_memory_gb (gc_driver_resources req))
        (rs_vcpu (gc_executor_resources req)) (rs_memory_gb (gc_executor_resources req)) (gc_executor_count req),
      gp_instance_architecture = gc_instance_architecture req, gp_capacity_type = gc_capacity_type req,
      gp_max_runtime_minutes = gc_max_runtime_minutes req, gp_tags = gc_tags req,
      gp_recommended_instance_types = gc_recommended_instance_types req,
      gp_data_access_scope = gc_data_access_scope req, gp_created_at = now, gp_updated_at = now\<rparr>"

definition create_golden_path ::
    "time \<Rightarrow> string \<Rightarrow> golden_path_create \<Rightarrow> database \<Rightarrow> error + golden_path \<times> database" where
  "create_golden_path now new_id req d =
     rbind (case gc_environment_id req of
              None \<Rightarrow> Inr ()
            | Some eid \<Rightarrow> if eid = [] then Inr () else rbind (require_environment d eid) (\<lambda>_. Inr ())) (\<lambda>_.
     case find_golden_path d (gc_environment_id req) (gc_name req) of
       Some _ \<Rightarrow> Inl (ConflictError ''Golden path name already exists.'')
     | None \<Rightarrow>
         let g = golden_path_of_request now new_id req in Inr (g, add_golden_path g d))"

definition order_environment_desc :: "bool \<Rightarrow> golden_path list \<Rightarrow> golden_path list" where
  "order_environment_desc nulls_first rows =
     (let nulls = filter (\<lambda>g. gp_environment_id g = None) rows;
          others = rev (sort_key (\<lambda>g. the (gp_environment_id g)) (rev (filter (\<lambda>g. gp_environment_id g \<noteq> None) rows)))
      in if nulls_first then nulls @ others else others @ nulls)"

definition list_golden_paths ::
    "bool \<Rightarrow> string option \<Rightarrow> nat \<Rightarrow> nat \<Rightarrow> string list option \<Rightarrow> database \<Rightarrow> golden_path list" where
  "list_golden_paths nulls_first environment_id lim off allowed_environment_ids d =
     page lim off (order_environment_desc nulls_first (sort_key gp_name (filter (\<lambda>g.
       (case environment_id of None \<Rightarrow> True
        | Some e \<Rightarrow> e = [] \<or> gp_environment_id g = Some e \<or> gp_environment_id g = None) \<and>
       (case allowed_environment_ids of None \<Rightarrow> True
        | Some ids \<Rightarrow> (case gp_environment_id g of None \<Rightarrow> True | Some e \<Rightarrow> e \<in> set ids))) (db_golden d))))"

definition get_golden_path_or_404 :: "database \<Rightarrow> string \<Rightarrow> error + golden_path" where
  "get_golden_path_or_404 d i = require_entity get_golden_path d i ''Golden path not found.''"

definition resolve_golden_path_for_run ::
    "bool \<Rightarrow> database \<Rightarrow> environment \<Rightarrow> string \<Rightarrow> error + golden_path" where
  "resolve_golden_path_for_run nulls_first d env name =
     (case order_environment_desc nulls_first (filter (\<lambda>g. gp_name g = name \<and>
             (gp_environment_id g = Some (env_id env) \<or> gp_environment_id g = None)) (db_golden d)) of
        [] \<Rightarrow> Inl (ValidationError (''Golden path '' @ [CHR 0x27] @ name @ [CHR 0x27] @ '' was not found for this environment.''))
      | g # _ \<Rightarrow> Inr g)"

subsection \<open>Lemmas\<close>

lemma set_order_environment_desc [simp]: "set (order_environment_desc nf rows) = set rows"
  by (auto simp: order_environment_desc_def Let_def)

lemma order_environment_desc_Nil: "order_environment_desc nf rows = [] \<longleftrightarrow> rows = []"
  by (metis set_empty set_order_environment_desc)

lemma resolve_golden_path_sound:
  "resolve_golden_path_for_run nf d env name = Inr g \<Longrightarrow>
     g \<in> set (db_golden d) \<and> gp_name g = name \<and> (gp_environment_id g = Some (env_id env) \<or> gp_environment_id g = None)"
proof -
  let ?rows = "filter (\<lambda>g. gp_name g = name \<and>
     (gp_environment_id g = Some (env_id env) \<or> gp_environment_id g = None)) (db_golden d)"
  assume "resolve_golden_path_for_run nf d env name = Inr g"
  then have "g \<in> set (order_environment_desc nf ?rows)"
    unfolding resolve_golden_path_for_run_def
    by (cases "order_environment_desc nf ?rows") (simp_all del: set_order_environment_desc)
  then show ?thesis by auto
qed

lemma resolve_golden_path_fails_iff:
  "(\<exists>e. resolve_golden_path_for_run nf d env name = Inl e) \<longleftrightarrow>
     (\<forall>g \<in> set (db_golden d). gp_name g = name \<longrightarrow>
        gp_environment_id g \<noteq> Some (env_id env) \<and> gp_environment_id g \<noteq> None)"
proof -
  let ?rows = "filter (\<lambda>g. gp_name g = name \<and>
     (gp_environment_id g = Some (env_id env) \<or> gp_environment_id g = None)) (db_golden d)"
  have "(\<exists>e. resolve_golden_path_for_run nf d env name = Inl e) \<longleftrightarrow> order_environment_desc nf ?rows = []"
    by (cases "order_environment_desc nf ?rows") (simp_all add: resolve_golden_path_for_run_def)
  then show ?thesis by (auto simp: order_environment_desc_Nil filter_empty_conv)
qed

text \<open>
  A path of the environment shadows the global one of the same name when nulls sort last, and is
  shadowed by it when they sort first.
\<close>

lemma hd_order_environment_desc:
  "hd (order_environment_desc nf rows) = g \<Longrightarrow> rows \<noteq> [] \<Longrightarrow>
     (nf \<longrightarrow> (\<exists>h \<in> set rows. gp_environment_id h = None) \<longrightarrow> gp_environment_id g = None) \<and>
     (\<not> nf \<longrightarrow> (\<exists>h \<in> set rows. gp_environment_id h \<noteq> None) \<longrightarrow> gp_environment_id g \<noteq> None)"
proof -
  let ?n = "filter (\<lambda>g. gp_environment_id g = None) rows"
  let ?o = "rev (sort_key (\<lambda>g. the (gp_environment_id g)) (rev (filter (\<lambda>g. gp_environment_id g \<noteq> None) rows)))"
  assume g: "hd (order_environment_desc nf rows) = g" and "rows \<noteq> []"
  have n: "?n \<noteq> [] \<Longrightarrow> gp_environment_id (hd ?n) = None"
    using hd_in_set [of ?n] by auto
  have so: "set ?o = {h \<in> set rows. gp_environment_id h \<noteq> None}" by auto
  then have o: "?o \<noteq> [] \<Longrightarrow> gp_environment_id (hd ?o) \<noteq> None"
    by (metis (mono_tags, lifting) hd_in_set mem_Collect_eq)
  show ?thesis
  proof (intro conjI impI)
    assume nf: nf and "\<exists>h \<in> set rows. gp_environment_id h = None"
    then have ne: "?n \<noteq> []" by (auto simp: filter_empty_conv)
    have "hd (?n @ ?o) = hd ?n" using ne by (rule hd_append2)
    then show "gp_environment_id g = None"
      using g nf n [OF ne] by (simp add: order_environment_desc_def Let_def)
  next
    assume nf: "\<not> nf" and "\<exists>h \<in> set rows. gp_environment_id h \<noteq> None"
    then have "set ?o \<noteq> {}" unfolding so by auto
    then have ne: "?o \<noteq> []" by force
    have "hd (?o @ ?n) = hd ?o" using ne by (rule hd_append2)
    then show "gp_environment_id g \<noteq> None"
      using g nf o [OF ne] by (simp add: order_environment_desc_def Let_def)
  qed
qed

lemma resolve_golden_path_precedence:
  assumes r: "resolve_golden_path_for_run nf d env name = Inr g"
    and e: "find_golden_path d (Some (env_id env)) name \<noteq> None" and n: "find_golden_path d None name \<noteq> None"
  shows "gp_environment_id g = (if nf then None else Some (env_id env))"
proof -
  let ?rows = "filter (\<lambda>g. gp_name g = name \<and>
     (gp_environment_id g = Some (env_id env) \<or> gp_environment_id g = None)) (db_golden d)"
  have ex: "\<exists>h \<in> set ?rows. gp_environment_id h = Some (env_id env)" "\<exists>h \<in> set ?rows. gp_environment_id h = None"
    using e n by (auto simp: find_golden_path_def find_None_iff)
  then have "?rows \<noteq> []" by fastforce
  moreover have "hd (order_environment_desc nf ?rows) = g"
    using r by (auto simp: resolve_golden_path_for_run_def split: list.splits)
  moreover have "gp_environment_id g = Some (env_id env) \<or> gp_environment_id g = None"
    using resolve_golden_path_sound [OF r] by simp
  ultimately show ?thesis using hd_order_environment_desc [of nf ?rows g] ex by auto
qed

lemma find_golden_path_add:
  "find_golden_path (add_golden_path g d) eid name =
     (case find_golden_path d eid name of Some x \<Rightarrow> Some x
      | None \<Rightarrow> if gp_environment_id g = eid \<and> gp_name g = name then Some g else None)"
  by (simp add: find_golden_path_def add_golden_path_def find_append split: option.splits)

subsection \<open>Seeding\<close>

lemma ensure_present:
  "(\<And>s. s \<in> set specs \<Longrightarrow> find_golden_path d None (gs_name s) \<noteq> None) \<Longrightarrow>
     ensure_golden_paths now new_id other specs d = (0, d)"
proof (induction specs)
  case Nil
  then show ?case by simp
next
  case (Cons s specs)
  then obtain g where "find_golden_path d None (gs_name s) = Some g" by auto
  then show ?case using Cons by simp
qed

definition keeps_golden :: "(database \<Rightarrow> database) \<Rightarrow> bool" where
  "keeps_golden f \<longleftrightarrow> (\<forall>d e n. find_golden_path d e n \<noteq> None \<longrightarrow> find_golden_path (f d) e n \<noteq> None)"

lemma flush_golden_path_found:
  "find_golden_path (case flush_golden_path g d of Inl _ \<Rightarrow> d | Inr d' \<Rightarrow> d') (gp_environment_id g) (gp_name g) \<noteq> None"
  by (auto simp: flush_golden_path_def find_golden_path_add split: option.splits)

lemma flush_golden_path_keeps:
  "flush_golden_path g d = Inr d' \<Longrightarrow> find_golden_path d e n \<noteq> None \<Longrightarrow> find_golden_path d' e n \<noteq> None"
  by (auto simp: flush_golden_path_def find_golden_path_add split: option.splits)

lemma ensure_golden_paths_keeps:
  assumes "\<And>n. keeps_golden (other n)"
  shows "find_golden_path d e n \<noteq> None \<Longrightarrow>
    find_golden_path (snd (ensure_golden_paths now new_id other specs d)) e n \<noteq> None"
proof (induction specs arbitrary: d)
  case Nil
  then show ?case by simp
next
  case (Cons s specs)
  have "find_golden_path (other (gs_name s) d) e n \<noteq> None"
    using assms Cons.prems by (simp add: keeps_golden_def)
  then show ?case using Cons flush_golden_path_keeps
    by (auto simp: Let_def case_prod_beta split: option.splits sum.splits)
qed

lemma ensure_golden_paths_complete:
  assumes "\<And>n. keeps_golden (other n)"
  shows "s \<in> set specs \<Longrightarrow>
    find_golden_path (snd (ensure_golden_paths now new_id other specs d)) None (gs_name s) \<noteq> None"
proof (induction specs arbitrary: d)
  case Nil
  then show ?case by simp
next
  case (Cons t specs)
  let ?E = "\<lambda>d. snd (ensure_golden_paths now new_id other specs d)"
  show ?case
  proof (cases "s \<in> set specs")
    case True
    then show ?thesis using Cons.IH by (auto simp: Let_def case_prod_beta split: option.splits sum.splits)
  next
    case False
    then have st: "s = t" using Cons.prems by simp
    note keeps = ensure_golden_paths_keeps [OF assms, of _ None "gs_name t"]
    let ?g = "golden_path_of_spec now (new_id (gs_name t)) t"
    have g: "gp_environment_id ?g = None" "gp_name ?g = gs_name t" by (simp_all add: golden_path_of_spec_def)
    have "find_golden_path (?E (case flush_golden_path ?g (other (gs_name t) d) of Inl _ \<Rightarrow> other (gs_name t) d | Inr d' \<Rightarrow> d'))
        None (gs_name t) \<noteq> None"
      by (rule keeps) (use flush_golden_path_found [where g = ?g and d = "other (gs_name t) d"] g in simp)
    then show ?thesis using keeps [of d] st
      by (auto simp: Let_def case_prod_beta split: option.splits sum.splits)
  qed
qed

text \<open>After seeding every default is there, and seeding again changes nothing.\<close>

lemma ensure_default_golden_paths_again:
  assumes "\<And>n. keeps_golden (other n)"
  shows "ensure_default_golden_paths now' new_id' other' (snd (ensure_default_golden_paths now new_id other d)) =
    (0, snd (ensure_default_golden_paths now new_id other d))"
  unfolding ensure_default_golden_paths_def
  by (rule ensure_present) (rule ensure_golden_paths_complete [OF assms])

end
