(* ===== verification/SP_CostCenter.thy ===== *)
theory SP_CostCenter
  imports SP_Helpers
begin

text \<open>
  \<open>cost_center.py\<close>: parsing of the cost-center policy and the resolution of the cost center of an
  environment. The decoder \<open>loads\<close> (\<open>json.loads\<close>) is an argument: \<open>Inl\<close> carries the message
  of a \<open>JSONDecodeError\<close>. The cache around the parser does not change its result.
\<close>

definition max_cost_center_length :: nat where
  "max_cost_center_length = 255"

definition supported_policy_keys :: "string list" where
  "supported_policy_keys =
     [''by_namespace'', ''by_virtual_cluster_id'', ''by_virtual_cluster'', ''by_team'', ''default'']"

record cost_center_policy =
  by_namespace :: "string dict"
  by_virtual_cluster_id :: "string dict"
  by_team :: "string dict"
  default_center :: "string option"

record resolution_inputs =
  in_tenant_id :: string
  in_namespace :: string
  in_virtual_cluster_id :: string
  in_environment_id :: string

definition normalize_value :: "json \<Rightarrow> string \<Rightarrow> error + string" where
  "normalize_value v field_name =
     (let text = py_strip (py_str v) in
      if text = [] then Inl (ValueError (field_name @ '' values must be non-empty strings.''))
      else Inr (take max_cost_center_length text))"

definition opt_text :: "string option \<Rightarrow> string" where
  "opt_text x = (case x of None \<Rightarrow> [] | Some s \<Rightarrow> py_strip s)"

definition normalize_resolution_inputs :: "environment \<Rightarrow> resolution_inputs" where
  "normalize_resolution_inputs env =
     \<lparr>in_tenant_id = py_strip (env_tenant_id env), in_namespace = opt_text (env_eks_namespace env),
      in_virtual_cluster_id = opt_text (env_emr_virtual_cluster_id env),
      in_environment_id = py_strip (env_id env)\<rparr>"

fun validate_items :: "string \<Rightarrow> (string \<times> json) list \<Rightarrow> string dict \<Rightarrow> error + string dict" where
  "validate_items key_name [] out = Inr out"
| "validate_items key_name ((raw_key, raw_value) # rest) out =
     (let key = py_strip raw_key in
      if key = [] then Inl (ValueError (key_name @ '' keys must be non-empty strings.''))
      else rbind (normalize_value raw_value (key_name @ ''.'' @ key)) (\<lambda>v.
        validate_items key_name rest (dset key v out)))"

fun validate_mapping :: "json \<Rightarrow> string \<Rightarrow> error + string dict" where
  "validate_mapping JNull key_name = Inr []"
| "validate_mapping (JObj kvs) key_name = validate_items key_name kvs []"
| "validate_mapping _ key_name =
     Inl (ValueError (key_name @ '' must be a JSON object of string->string mappings.''))"

definition empty_policy :: cost_center_policy where
  "empty_policy = \<lparr>by_namespace = [], by_virtual_cluster_id = [], by_team = [], default_center = None\<rparr>"

definition parse_payload :: "(string \<times> json) list \<Rightarrow> error + cost_center_policy" where
  "parse_payload payload =
     (let extra = sort (remdups (filter (\<lambda>k. k \<notin> set supported_policy_keys) (dkeys payload))) in
      if extra \<noteq> [] then Inl (ValueError (''contains unsupported keys: '' @ join '', '' extra @ ''.''))
      else
        rbind (validate_mapping (dget payload ''by_namespace'' JNull) ''by_namespace'') (\<lambda>ns.
        rbind (validate_mapping
            (dget payload ''by_virtual_cluster_id'' (dget payload ''by_virtual_cluster'' JNull))
            ''by_virtual_cluster_id'') (\<lambda>vc.
        rbind (validate_mapping (dget payload ''by_team'' JNull) ''by_team'') (\<lambda>team.
        let default_raw = dget payload ''default'' JNull in
        rbind (if default_raw = JNull then Inr None
               else rbind (normalize_value default_raw ''default'') (\<lambda>v. Inr (Some v))) (\<lambda>dflt.
        Inr \<lparr>by_namespace = ns, by_virtual_cluster_id = vc, by_team = team, default_center = dflt\<rparr>)))))"

definition parse_cost_center_policy :: "(string \<Rightarrow> string + json) \<Rightarrow> string \<Rightarrow> error + cost_center_policy" where
  "parse_cost_center_policy loads raw_policy =
     (let raw = py_strip raw_policy in
      if raw = [] then Inr empty_policy
      else (case loads raw of
          Inl msg \<Rightarrow> Inl (ValueError (''must be valid JSON: '' @ msg))
        | Inr (JObj payload) \<Rightarrow> parse_payload payload
        | Inr _ \<Rightarrow> Inl (ValueError ''must be a JSON object.'')))"

fun first_match :: "(string \<times> string dict) list \<Rightarrow> string option" where
  "first_match [] = None"
| "first_match ((key, mapping) # rest) =
     (if key \<noteq> [] \<and> map_of mapping key \<noteq> None then map_of mapping key else first_match rest)"

definition resolve_cost_center_from_policy :: "cost_center_policy \<Rightarrow> resolution_inputs \<Rightarrow> string option" where
  "resolve_cost_center_from_policy p i =
     (case first_match [(in_virtual_cluster_id i, by_virtual_cluster_id p),
                        (in_namespace i, by_namespace p), (in_tenant_id i, by_team p)] of
        Some c \<Rightarrow> Some c
      | None \<Rightarrow> default_center p)"

definition resolve_cost_center_fallback :: "resolution_inputs \<Rightarrow> string" where
  "resolve_cost_center_fallback i =
     (case filter (\<lambda>f. f \<noteq> []) [in_namespace i, in_virtual_cluster_id i, in_environment_id i] of
        f # _ \<Rightarrow> take max_cost_center_length f
      | [] \<Rightarrow> ''unmapped'')"

definition resolve_cost_center_for_environment ::
    "(string \<Rightarrow> string + json) \<Rightarrow> string \<Rightarrow> environment \<Rightarrow> error + string" where
  "resolve_cost_center_for_environment loads policy_json env =
     rbind (parse_cost_center_policy loads policy_json) (\<lambda>p.
       let i = normalize_resolution_inputs env in
       case resolve_cost_center_from_policy p i of
         Some c \<Rightarrow> Inr (if c = [] then resolve_cost_center_fallback i else c)
       | None \<Rightarrow> Inr (resolve_cost_center_fallback i))"

subsection \<open>Correctness\<close>

text \<open>A center that a parsed policy can name: not empty and within the length of the column.\<close>

definition center_ok :: "string \<Rightarrow> bool" where
  "center_ok c \<longleftrightarrow> c \<noteq> [] \<and> length c \<le> max_cost_center_length"

definition policy_ok :: "cost_center_policy \<Rightarrow> bool" where
  "policy_ok p \<longleftrightarrow>
     (\<forall>m \<in> {by_namespace p, by_virtual_cluster_id p, by_team p}. \<forall>k c. map_of m k = Some c \<longrightarrow> k \<noteq> [] \<and> center_ok c) \<and>
     (\<forall>c. default_center p = Some c \<longrightarrow> center_ok c)"

lemma normalize_value_ok: "normalize_value v f = Inr c \<Longrightarrow> center_ok c"
  by (auto simp: normalize_value_def center_ok_def Let_def max_cost_center_length_def split: if_splits)

lemma validate_items_ok:
  "validate_items kn kvs out = Inr m \<Longrightarrow> \<forall>k c. map_of out k = Some c \<longrightarrow> k \<noteq> [] \<and> center_ok c \<Longrightarrow>
   \<forall>k c. map_of m k = Some c \<longrightarrow> k \<noteq> [] \<and> center_ok c"
proof (induction kn kvs out rule: validate_items.induct)
  case (1 kn out)
  then show ?case by simp
next
  case (2 kn rk rv rest out)
  from "2.prems"(1) obtain v where k: "py_strip rk \<noteq> []" and v: "normalize_value rv (kn @ ''.'' @ py_strip rk) = Inr v"
    and r: "validate_items kn rest (dset (py_strip rk) v out) = Inr m"
    by (auto simp: Let_def rbind_Inr_iff split: if_splits)
  have "\<forall>k c. map_of (dset (py_strip rk) v out) k = Some c \<longrightarrow> k \<noteq> [] \<and> center_ok c"
    using "2.prems"(2) k normalize_value_ok [OF v] by auto
  then show ?case using "2.IH" [OF refl k, of v] r by blast
qed

lemma validate_mapping_ok:
  "validate_mapping j kn = Inr m \<Longrightarrow> map_of m k = Some c \<Longrightarrow> k \<noteq> [] \<and> center_ok c"
  using validate_items_ok [of kn _ "[]" m] by (cases j) (auto simp del: validate_items.simps)

lemma parse_payload_ok: "parse_payload kvs = Inr p \<Longrightarrow> policy_ok p"
  by (auto simp: parse_payload_def Let_def rbind_Inr_iff policy_ok_def
      dest: validate_mapping_ok normalize_value_ok split: if_splits)

lemma parse_cost_center_policy_ok:
  "parse_cost_center_policy loads raw = Inr p \<Longrightarrow> policy_ok p"
  by (auto simp: parse_cost_center_policy_def Let_def empty_policy_def policy_ok_def [of empty_policy]
      policy_ok_def [of "\<lparr>by_namespace = [], by_virtual_cluster_id = [], by_team = [], default_center = None\<rparr>"]
      dest: parse_payload_ok split: if_splits sum.splits json.splits)

lemma first_match_Some:
  "first_match ls = Some c \<Longrightarrow> \<exists>k m. (k, m) \<in> set ls \<and> k \<noteq> [] \<and> map_of m k = Some c"
  by (induction ls rule: first_match.induct) (auto split: if_splits)

lemma resolve_from_policy_ok:
  "policy_ok p \<Longrightarrow> resolve_cost_center_from_policy p i = Some c \<Longrightarrow> center_ok c"
proof -
  let ?ls = "[(in_virtual_cluster_id i, by_virtual_cluster_id p), (in_namespace i, by_namespace p),
    (in_tenant_id i, by_team p)]"
  assume p: "policy_ok p" and r: "resolve_cost_center_from_policy p i = Some c"
  show "center_ok c"
  proof (cases "first_match ?ls")
    case None
    then show ?thesis using p r
      by (simp add: resolve_cost_center_from_policy_def policy_ok_def del: first_match.simps)
  next
    case (Some c')
    then have "c' = c" using r by (simp add: resolve_cost_center_from_policy_def del: first_match.simps)
    with first_match_Some [OF Some] p show ?thesis by (auto simp: policy_ok_def)
  qed
qed

lemma fallback_ok: "center_ok (resolve_cost_center_fallback i)"
  by (auto simp: resolve_cost_center_fallback_def center_ok_def max_cost_center_length_def
      split: list.splits dest!: arg_cong [of _ _ set])

lemma resolve_cost_center_ok:
  "resolve_cost_center_for_environment loads raw env = Inr c \<Longrightarrow> center_ok c"
  unfolding resolve_cost_center_for_environment_def Let_def rbind_Inr_iff
  by (auto split: option.splits simp: fallback_ok center_ok_def
      dest!: parse_cost_center_policy_ok resolve_from_policy_ok)
     (use fallback_ok in \<open>auto simp: center_ok_def\<close>)

text \<open>Precedence: virtual cluster, then namespace, then team, then the default, then the fallback.\<close>

lemma resolve_precedence:
  assumes "parse_cost_center_policy loads raw = Inr p" and "i = normalize_resolution_inputs env"
  shows "resolve_cost_center_for_environment loads raw env = Inr (
    if in_virtual_cluster_id i \<in> dom (map_of (by_virtual_cluster_id p))
      then the (map_of (by_virtual_cluster_id p) (in_virtual_cluster_id i))
    else if in_namespace i \<in> dom (map_of (by_namespace p))
      then the (map_of (by_namespace p) (in_namespace i))
    else if in_tenant_id i \<in> dom (map_of (by_team p))
      then the (map_of (by_team p) (in_tenant_id i))
    else case default_center p of Some c \<Rightarrow> c | None \<Rightarrow> resolve_cost_center_fallback i)"
proof -
  have ok: "policy_ok p" by (rule parse_cost_center_policy_ok [OF assms(1)])
  have ne: "\<And>m k. m \<in> {by_namespace p, by_virtual_cluster_id p, by_team p} \<Longrightarrow> map_of m k \<noteq> None \<Longrightarrow> k \<noteq> []"
    using ok by (fastforce simp: policy_ok_def)
  have nc: "\<And>c. resolve_cost_center_from_policy p i = Some c \<Longrightarrow> c \<noteq> []"
    using resolve_from_policy_ok [OF ok] by (auto simp: center_ok_def)
  have "resolve_cost_center_for_environment loads raw env =
      Inr (case resolve_cost_center_from_policy p i of Some c \<Rightarrow> c | None \<Rightarrow> resolve_cost_center_fallback i)"
    using nc by (auto simp: resolve_cost_center_for_environment_def assms Let_def split: option.splits)
  also have "\<dots> = Inr (
    if in_virtual_cluster_id i \<in> dom (map_of (by_virtual_cluster_id p))
      then the (map_of (by_virtual_cluster_id p) (in_virtual_cluster_id i))
    else if in_namespace i \<in> dom (map_of (by_namespace p))
      then the (map_of (by_namespace p) (in_namespace i))
    else if in_tenant_id i \<in> dom (map_of (by_team p))
      then the (map_of (by_team p) (in_tenant_id i))
    else case default_center p of Some c \<Rightarrow> c | None \<Rightarrow> resolve_cost_center_fallback i)"
    using ne [of "by_virtual_cluster_id p" "in_virtual_cluster_id i"] ne [of "by_namespace p" "in_namespace i"]
      ne [of "by_team p" "in_tenant_id i"]
    by (auto simp: resolve_cost_center_from_policy_def)
  finally show ?thesis .
qed

end
