(* ===== verification/SP_Float.thy ===== *)
theory SP_Float
  imports Complex_Main SP_Prelude
begin

text \<open>
  A Python \<open>float\<close> as the rational it denotes, and the rounding of IEEE-754 double precision:
  to the nearest number with a 53-bit significand, ties to even. The exponent is not bounded
  (no overflow to infinity, no subnormal numbers), which the amounts computed here never reach.
\<close>

definition pow2 :: "int \<Rightarrow> rat" where
  "pow2 k = (if 0 \<le> k then 2 ^ nat k else 1 / 2 ^ nat (- k))"

lemma pow2_code [code]: "pow2 k = (if 0 \<le> k then of_int (2 ^ nat k) else Fract 1 (2 ^ nat (- k)))"
  by (simp add: pow2_def Fract_of_int_quotient)

fun bits :: "nat \<Rightarrow> nat" where
  "bits n = (if n = 0 then 0 else 1 + bits (n div 2))"

declare bits.simps [simp del]

text \<open>The same count on \<open>int\<close>, which evaluates fast.\<close>

function int_bits :: "int \<Rightarrow> int" where
  "int_bits n = (if n \<le> 0 then 0 else 1 + int_bits (n div 2))"
  by pat_completeness auto

termination by (relation "measure nat") auto

declare int_bits.simps [simp del]

lemma int_bits: "int_bits n = int (bits (nat n))"
proof (induction n rule: int_bits.induct)
  case (1 n)
  have "nat (n div 2) = nat n div 2" by (simp add: nat_div_distrib')
  then show ?case using 1 bits.simps [of "nat n"] int_bits.simps [of n] by (cases "n \<le> 0") simp_all
qed

text \<open>\<open>ilog2 q\<close> is the exponent of the leading bit of a positive rational.\<close>

definition ilog2 :: "rat \<Rightarrow> int" where
  "ilog2 q = (case quotient_of q of (n, m) \<Rightarrow>
     (let e = int (bits (nat n)) - int (bits (nat m)) in if pow2 e \<le> q then e else e - 1))"

lemma ilog2_code [code]:
  "ilog2 q = (case quotient_of q of (n, m) \<Rightarrow> (let e = int_bits n - int_bits m in if pow2 e \<le> q then e else e - 1))"
  by (simp add: ilog2_def int_bits)

definition round_half_even :: "rat \<Rightarrow> int" where
  "round_half_even r =
     (let f = \<lfloor>r\<rfloor>; t = r - of_int f in
      if t < 1 / 2 then f else if t > 1 / 2 then f + 1 else if even f then f else f + 1)"

definition f64 :: "rat \<Rightarrow> rat" where
  "f64 q =
     (if q = 0 then 0
      else let e = ilog2 \<bar>q\<bar> - 52 in sgn q * of_int (round_half_even (\<bar>q\<bar> / pow2 e)) * pow2 e)"

abbreviation fmul :: "rat \<Rightarrow> rat \<Rightarrow> rat" where "fmul a b \<equiv> f64 (a * b)"
abbreviation fadd :: "rat \<Rightarrow> rat \<Rightarrow> rat" where "fadd a b \<equiv> f64 (a + b)"
abbreviation fsub :: "rat \<Rightarrow> rat \<Rightarrow> rat" where "fsub a b \<equiv> f64 (a - b)"
abbreviation fdiv :: "rat \<Rightarrow> rat \<Rightarrow> rat" where "fdiv a b \<equiv> f64 (a / b)"

text \<open>An integer operand is converted first; \<open>int(x)\<close> truncates.\<close>

abbreviation float_of_int :: "int \<Rightarrow> rat" where "float_of_int i \<equiv> f64 (of_int i)"

definition trunc :: "rat \<Rightarrow> int" where
  "trunc q = (if 0 \<le> q then \<lfloor>q\<rfloor> else - \<lfloor>- q\<rfloor>)"

lemma pow2_pos [simp]: "0 < pow2 k"
  by (simp add: pow2_def)

lemma pow2_nonneg [simp]: "0 \<le> pow2 k"
  using pow2_pos [of k] by linarith

lemma pow2_diff: "pow2 (int a - int b) = 2 ^ a / 2 ^ b"
proof (cases "b \<le> a")
  case True
  then have "pow2 (int a - int b) = 2 ^ (a - b)" by (simp add: pow2_def nat_diff_distrib)
  then show ?thesis using True by (simp add: power_diff)
next
  case False
  then have "pow2 (int a - int b) = 1 / 2 ^ (b - a)" by (simp add: pow2_def nat_diff_distrib)
  then show ?thesis using False by (simp add: power_diff)
qed

lemma pow2_Suc: "pow2 (k + 1) = 2 * pow2 k"
proof -
  obtain a b :: nat where k: "k = int a - int b" by (metis int_diff_cases)
  have "pow2 (int (Suc a) - int b) = 2 * pow2 (int a - int b)" by (simp only: pow2_diff) simp
  then show ?thesis by (simp add: k algebra_simps)
qed

lemma bits_bounds: "0 < n \<Longrightarrow> 2 ^ (bits n - 1) \<le> n \<and> n < 2 ^ bits n"
proof (induction n rule: bits.induct)
  case (1 n)
  show ?case
  proof (cases "n = 1")
    case True
    have "bits 1 = 1" by (simp add: bits.simps)
    then show ?thesis using True by simp
  next
    case False
    then have pos: "0 < n div 2" and n0: "n \<noteq> 0" using "1.prems" by auto
    have b: "bits n = Suc (bits (n div 2))" using n0 by (subst bits.simps) simp
    have "bits (n div 2) \<noteq> 0" using pos by (subst bits.simps) simp
    then obtain k where k: "bits (n div 2) = Suc k" by (cases "bits (n div 2)") auto
    from "1.IH" [OF n0 pos] have "2 ^ k \<le> n div 2" "n div 2 < 2 ^ Suc k" by (simp_all add: k)
    moreover have "n = 2 * (n div 2) + n mod 2" "n mod 2 < 2" by simp_all
    ultimately show ?thesis unfolding b k power_Suc diff_Suc_1 by linarith
  qed
qed

lemma ilog2_bounds:
  assumes "0 < q" shows "pow2 (ilog2 q) \<le> q" "q < 2 * pow2 (ilog2 q)"
proof -
  obtain n m where nm: "quotient_of q = (n, m)" by force
  have q: "q = of_int n / of_int m" and m: "0 < m"
    using quotient_of_div [OF nm] quotient_of_denom_pos [OF nm] by auto
  have n: "0 < n" using assms m unfolding q by (simp add: zero_less_divide_iff)
  define a where "a = bits (nat n)"
  define b where "b = bits (nat m)"
  have ab: "0 < a" "0 < b" using n m unfolding a_def b_def by (subst bits.simps, simp)+
  have na: "(2::nat) ^ (a - 1) \<le> nat n" "nat n < 2 ^ a" and mb: "(2::nat) ^ (b - 1) \<le> nat m" "nat m < 2 ^ b"
    using bits_bounds [of "nat n"] bits_bounds [of "nat m"] n m by (simp_all add: a_def b_def)
  have nR: "(2::rat) ^ (a - 1) \<le> of_int n" "of_int n < (2::rat) ^ a"
    and mR: "(2::rat) ^ (b - 1) \<le> of_int m" "of_int m < (2::rat) ^ b"
  proof -
    have of: "\<And>z k :: nat. 0 < z \<Longrightarrow> (2::rat) ^ k = of_nat (2 ^ k)" by simp
    have on: "of_int n = (of_nat (nat n) :: rat)" "of_int m = (of_nat (nat m) :: rat)" using n m by simp_all
    show "(2::rat) ^ (a - 1) \<le> of_int n" unfolding on using na(1) by (metis of_nat_le_iff of_nat_numeral of_nat_power)
    show "of_int n < (2::rat) ^ a" unfolding on using na(2) by (metis of_nat_less_iff of_nat_numeral of_nat_power)
    show "(2::rat) ^ (b - 1) \<le> of_int m" unfolding on using mb(1) by (metis of_nat_le_iff of_nat_numeral of_nat_power)
    show "of_int m < (2::rat) ^ b" unfolding on using mb(2) by (metis of_nat_less_iff of_nat_numeral of_nat_power)
  qed
  define e where "e = int a - int b"
  have up: "q < pow2 (e + 1)"
  proof -
    have "q < 2 ^ a / 2 ^ (b - 1)" unfolding q using nR mR m n
      by (intro frac_less) (auto)
    also have "\<dots> = pow2 (int a - int (b - 1))" by (simp only: pow2_diff)
    also have "int a - int (b - 1) = e + 1" using ab by (simp add: e_def)
    finally show ?thesis .
  qed
  have lo: "pow2 (e - 1) \<le> q"
  proof -
    have "pow2 (int (a - 1) - int b) = 2 ^ (a - 1) / 2 ^ b" by (simp only: pow2_diff)
    also have "\<dots> \<le> q" unfolding q using nR mR m n by (intro frac_le) auto
    finally show ?thesis using ab by (simp add: e_def algebra_simps)
  qed
  have il: "ilog2 q = (if pow2 e \<le> q then e else e - 1)"
    by (simp add: ilog2_def nm e_def a_def b_def Let_def)
  show "pow2 (ilog2 q) \<le> q" unfolding il using lo by simp
  show "q < 2 * pow2 (ilog2 q)" unfolding il pow2_Suc [symmetric] using up by (auto simp: not_le)
qed

lemma round_half_even_error: "\<bar>of_int (round_half_even r) - r\<bar> \<le> 1 / 2"
proof -
  define f where "f = \<lfloor>r\<rfloor>"
  have "of_int f \<le> r" "r < of_int f + 1" unfolding f_def by linarith+
  then show ?thesis unfolding round_half_even_def Let_def f_def [symmetric] by (auto simp: abs_le_iff)
qed

lemma round_half_even_nonneg: "0 \<le> r \<Longrightarrow> 0 \<le> round_half_even r"
proof -
  assume "0 \<le> r"
  then have "0 \<le> \<lfloor>r\<rfloor>" by simp
  then show ?thesis by (simp add: round_half_even_def Let_def)
qed

lemma f64_nonneg: "0 \<le> q \<Longrightarrow> 0 \<le> f64 q"
  by (auto simp: f64_def Let_def intro!: mult_nonneg_nonneg round_half_even_nonneg divide_nonneg_nonneg)

lemma f64_0 [simp]: "f64 0 = 0"
  by (simp add: f64_def)

text \<open>The relative error of one rounding is at most one part in two to the 53.\<close>

lemma f64_error: "\<bar>f64 q - q\<bar> \<le> \<bar>q\<bar> / 2 ^ 53"
proof (cases "q = 0")
  case True
  then show ?thesis by simp
next
  case False
  define p where "p = pow2 (ilog2 \<bar>q\<bar> - 52)"
  define k :: rat where "k = of_int (round_half_even (\<bar>q\<bar> / p))"
  have p: "0 < p" by (simp add: p_def)
  have f: "f64 q = sgn q * k * p" using False by (simp add: f64_def k_def p_def Let_def)
  have "f64 q - q = sgn q * p * (k - \<bar>q\<bar> / p)"
    unfolding f using p by (simp add: field_simps) (metis abs_mult_sgn mult.commute)
  then have "\<bar>f64 q - q\<bar> = p * \<bar>k - \<bar>q\<bar> / p\<bar>"
    using p False by (simp add: abs_mult abs_sgn_eq)
  also have "\<dots> \<le> p * (1 / 2)"
    using round_half_even_error [of "\<bar>q\<bar> / p"] p unfolding k_def by (intro mult_left_mono) simp_all
  also have "\<dots> \<le> \<bar>q\<bar> / 2 ^ 53"
  proof -
    have "pow2 (ilog2 \<bar>q\<bar>) \<le> \<bar>q\<bar>" using ilog2_bounds(1) [of "\<bar>q\<bar>"] False by simp
    moreover have "pow2 (ilog2 \<bar>q\<bar>) = p * 2 ^ 52"
    proof -
      obtain a b :: nat where ab: "ilog2 \<bar>q\<bar> = int a - int b" by (metis int_diff_cases)
      have "p = pow2 (int a - int (b + 52))" by (simp add: p_def ab algebra_simps)
      then show ?thesis by (simp only: ab pow2_diff) (simp add: power_add)
    qed
    ultimately show ?thesis by simp
  qed
  finally show ?thesis .
qed

lemma trunc_nonneg: "0 \<le> q \<Longrightarrow> 0 \<le> trunc q"
  by (simp add: trunc_def)

end
