(* ===== verification/SP_Time.thy ===== *)
theory SP_Time
  imports SP_Prelude
begin

text \<open>
  What the sources use of \<open>datetime\<close>: the calendar date of an instant (the proleptic Gregorian
  calendar, as \<open>datetime.fromordinal\<close> computes it), whole seconds of a duration, and comparison of a
  duration with a bound in seconds or minutes. Instants are microseconds since 1970-01-01 UTC.
  Durations are compared exactly: \<open>total_seconds()\<close> is a float, but bounds are whole seconds
  and the rounding of the quotient cannot cross one for spans below 200 years.
\<close>

definition us_per_day :: int where
  "us_per_day = 86400000000"

definition epoch_ordinal :: int where
  "epoch_ordinal = 719163"

definition is_leap :: "int \<Rightarrow> bool" where
  "is_leap y \<longleftrightarrow> y mod 4 = 0 \<and> (y mod 100 \<noteq> 0 \<or> y mod 400 = 0)"

definition days_before_year :: "int \<Rightarrow> int" where
  "days_before_year year = (let y = year - 1 in y * 365 + y div 4 - y div 100 + y div 400)"

fun month_table :: "int \<Rightarrow> int" where
  "month_table m = (if m \<le> 1 then 0 else if m = 2 then 31 else if m = 3 then 59 else if m = 4 then 90
     else if m = 5 then 120 else if m = 6 then 151 else if m = 7 then 181 else if m = 8 then 212
     else if m = 9 then 243 else if m = 10 then 273 else if m = 11 then 304 else if m = 12 then 334
     else 365)"

definition days_before_month :: "bool \<Rightarrow> int \<Rightarrow> int" where
  "days_before_month leap m = month_table m + (if m > 2 \<and> leap then 1 else 0)"

definition ord_to_ymd :: "int \<Rightarrow> int \<times> int \<times> int" where
  "ord_to_ymd n =
     (let n0 = n - 1; n400 = n0 div 146097; r400 = n0 mod 146097;
          n100 = r400 div 36524; r100 = r400 mod 36524;
          n4 = r100 div 1461; r4 = r100 mod 1461;
          n1 = r4 div 365; r1 = r4 mod 365;
          year = n400 * 400 + 1 + n100 * 100 + n4 * 4 + n1
      in if n1 = 4 \<or> n100 = 4 then (year - 1, 12, 31)
         else let leap = (n1 = 3 \<and> (n4 \<noteq> 24 \<or> n100 = 3));
                  month = (r1 + 50) div 32
              in if days_before_month leap month > r1
                 then (year, month - 1, r1 - days_before_month leap (month - 1) + 1)
                 else (year, month, r1 - days_before_month leap month + 1))"

definition ymd_of :: "time \<Rightarrow> int \<times> int \<times> int" where
  "ymd_of t = ord_to_ymd (t div us_per_day + epoch_ordinal)"

definition total_seconds :: "time \<Rightarrow> time \<Rightarrow> int" where
  "total_seconds later earlier =
     (if later \<ge> earlier then (later - earlier) div 1000000 else - ((earlier - later) div 1000000))"

text \<open>\<open>ymd_ord\<close> is the ordinal of a date (\<open>date.toordinal\<close>).\<close>

definition ymd_ord :: "int \<Rightarrow> int \<Rightarrow> int \<Rightarrow> int" where
  "ymd_ord y m dd = days_before_year y + days_before_month (is_leap y) m + dd"

lemma year_split:
  fixes a b c e :: int
  assumes "0 \<le> b" "b \<le> 3" "0 \<le> c" "c \<le> 24" "0 \<le> e" "e \<le> 3" "y = a * 400 + 1 + b * 100 + c * 4 + e"
  shows "days_before_year y = 146097 * a + 36524 * b + 1461 * c + 365 * e"
    and "is_leap y \<longleftrightarrow> e = 3 \<and> (c \<noteq> 24 \<or> b = 3)"
proof -
  have y: "y - 1 = a * 400 + b * 100 + c * 4 + e" using assms by simp
  have div_split: "\<And>q k m :: int. 0 \<le> k \<Longrightarrow> k < m \<Longrightarrow> (q * m + k) div m = q"
    by simp
  have "(y - 1) div 4 = a * 100 + b * 25 + c"
    using div_split [of e 4 "a * 100 + b * 25 + c"] y assms(5,6) by (simp add: algebra_simps)
  moreover have "(y - 1) div 100 = a * 4 + b"
    using div_split [of "c * 4 + e" 100 "a * 4 + b"] y assms(3-6) by (simp add: algebra_simps)
  moreover have "(y - 1) div 400 = a"
    using div_split [of "b * 100 + c * 4 + e" 400 a] y assms(1-6) by (simp add: algebra_simps)
  ultimately have "(y - 1) div 4 = a * 100 + b * 25 + c" "(y - 1) div 100 = a * 4 + b" "(y - 1) div 400 = a"
    by simp_all
  then show "days_before_year y = 146097 * a + 36524 * b + 1461 * c + 365 * e"
    unfolding days_before_year_def Let_def y by simp
  have top: "k mod m = 0 \<longleftrightarrow> k = m" if "1 \<le> k" "k \<le> m" for k m :: int
    using that by (cases "k = m") auto
  have mod_split: "\<And>q k m :: int. (q * m + k) mod m = k mod m" by simp
  have "y mod 4 = (e + 1) mod 4"
    using mod_split [of "a * 100 + b * 25 + c" 4 "e + 1"] assms(7) by (simp add: algebra_simps)
  then have m4: "y mod 4 = 0 \<longleftrightarrow> e = 3" using assms(5,6) by presburger
  have "y mod 100 = (c * 4 + e + 1) mod 100"
    using mod_split [of "a * 4 + b" 100 "c * 4 + e + 1"] assms(7) by (simp add: algebra_simps)
  then have m100: "y mod 100 = 0 \<longleftrightarrow> c * 4 + e + 1 = 100" using top [of "c * 4 + e + 1" 100] assms(3-6) by simp
  have m400: "y mod 400 = 0 \<longleftrightarrow> b = 3" if "c * 4 + e + 1 = 100"
  proof -
    have "y = a * 400 + (b * 100 + 100)" using assms(7) that by linarith
    then have "y mod 400 = (b * 100 + 100) mod 400" by (simp only: mod_split)
    then show ?thesis using top [of "b * 100 + 100" 400] assms(1,2) by simp
  qed
  have c24: "c * 4 + e + 1 = 100 \<longleftrightarrow> c = 24 \<and> e = 3" using assms(3-6) by presburger
  show "is_leap y \<longleftrightarrow> e = 3 \<and> (c \<noteq> 24 \<or> b = 3)"
    unfolding is_leap_def using m4 m100 m400 c24 by (cases "c = 24 \<and> e = 3") auto
qed

lemma month_search:
  fixes r :: int
  assumes "0 \<le> r" "r < 365" and "m = (r + 50) div 32"
    and "m' = (if days_before_month leap m > r then m - 1 else m)"
  shows "1 \<le> m'" "m' \<le> 12" "days_before_month leap m' \<le> r" "r < days_before_month leap (m' + 1)"
proof -
  have "1 \<le> m" "m \<le> 12" unfolding assms(3) using assms(1,2) by presburger+
  then have m: "m \<in> {1,2,3,4,5,6,7,8,9,10,11,12}" by (simp only: insert_iff empty_iff) presburger
  have b: "32 * m \<le> r + 50" "r + 50 < 32 * m + 32" using assms(3) by presburger+
  have "1 \<le> m' \<and> m' \<le> 12 \<and> days_before_month leap m' \<le> r \<and> r < days_before_month leap (m' + 1)"
    using m b assms(1,2,4) by (cases leap; elim insertE; simp add: days_before_month_def split: if_splits)
  then show "1 \<le> m'" "m' \<le> 12" "days_before_month leap m' \<le> r" "r < days_before_month leap (m' + 1)"
    by simp_all
qed

lemma ord_to_ymd_correct:
  assumes "ord_to_ymd n = (y, m, dd)"
  shows "ymd_ord y m dd = n" "1 \<le> m" "m \<le> 12" "1 \<le> dd"
    "dd \<le> days_before_month (is_leap y) (m + 1) - days_before_month (is_leap y) m"
proof -
  define a where "a = (n - 1) div 146097"
  define r400 where "r400 = (n - 1) mod 146097"
  define b where "b = r400 div 36524"
  define r100 where "r100 = r400 mod 36524"
  define c where "c = r100 div 1461"
  define r4 where "r4 = r100 mod 1461"
  define e where "e = r4 div 365"
  define r where "r = r4 mod 365"
  define y0 where "y0 = a * 400 + 1 + b * 100 + c * 4 + e"
  note defs = a_def r400_def b_def r100_def c_def r4_def e_def r_def y0_def
  have n: "n - 1 = 146097 * a + r400" "r400 = 36524 * b + r100" "r100 = 1461 * c + r4" "r4 = 365 * e + r"
    unfolding a_def r400_def b_def r100_def c_def r4_def e_def r_def by simp_all
  have bd: "0 \<le> r400" "r400 < 146097" "0 \<le> r100" "r100 < 36524" "0 \<le> r4" "r4 < 1461" "0 \<le> r" "r < 365"
    unfolding r400_def r100_def r4_def r_def by simp_all
  have rng: "0 \<le> b" "b \<le> 4" "0 \<le> c" "c \<le> 24" "0 \<le> e" "e \<le> 4" using n bd by linarith+
  have b4: "b = 4 \<Longrightarrow> r100 = 0 \<and> c = 0 \<and> e = 0 \<and> r = 0" using n bd rng by linarith
  have e4: "e = 4 \<Longrightarrow> r = 0" using n bd rng by linarith
  have ord: "ord_to_ymd n = (if e = 4 \<or> b = 4 then (y0 - 1, 12, 31)
     else let leap = (e = 3 \<and> (c \<noteq> 24 \<or> b = 3)); month = (r + 50) div 32
       in if days_before_month leap month > r then (y0, month - 1, r - days_before_month leap (month - 1) + 1)
          else (y0, month, r - days_before_month leap month + 1))"
    unfolding ord_to_ymd_def Let_def defs by simp
  have "ymd_ord y m dd = n \<and> 1 \<le> m \<and> m \<le> 12 \<and> 1 \<le> dd \<and>
    dd \<le> days_before_month (is_leap y) (m + 1) - days_before_month (is_leap y) m"
  proof (cases "e = 4 \<or> b = 4")
    case True
    then have ymd: "y = y0 - 1" "m = 12" "dd = 31" using assms ord by simp_all
    have "\<exists>a b c. 0 \<le> b \<and> b \<le> 3 \<and> 0 \<le> c \<and> c \<le> 24 \<and> y = a * 400 + 1 + b * 100 + c * 4 + 3 \<and>
        (c \<noteq> 24 \<or> b = 3) \<and> n = 146097 * a + 36524 * b + 1461 * c + 1095 + 366"
    proof (cases "b = 4")
      case True
      then show ?thesis using b4 n ymd by (intro exI [of _ a] exI [of _ 3] exI [of _ 24]) (simp add: y0_def)
    next
      case False
      then have e: "e = 4" "r = 0" "b \<le> 3" using \<open>e = 4 \<or> b = 4\<close> e4 rng by auto
      have "c \<noteq> 24 \<or> b = 3" using n bd e by linarith
      then show ?thesis using e n ymd rng by (intro exI [of _ a] exI [of _ b] exI [of _ c]) (simp add: y0_def)
    qed
    then obtain a b c where w: "0 \<le> b" "b \<le> 3" "0 \<le> c" "c \<le> 24" "y = a * 400 + 1 + b * 100 + c * 4 + 3"
      "c \<noteq> 24 \<or> b = 3" "n = 146097 * a + 36524 * b + 1461 * c + 1095 + 366" by blast
    have "days_before_year y = 146097 * a + 36524 * b + 1461 * c + 365 * 3" "is_leap y"
      using year_split [OF w(1-4) _ _ w(5)] w(6) by simp_all
    then show ?thesis using w(7) ymd(2,3) by (simp add: ymd_ord_def days_before_month_def)
  next
    case False
    then have le: "b \<le> 3" "e \<le> 3" using rng by auto
    define leap where "leap = (e = 3 \<and> (c \<noteq> 24 \<or> b = 3))"
    define mo where "mo = (r + 50) div 32"
    define m' where "m' = (if days_before_month leap mo > r then mo - 1 else mo)"
    have ymd: "y = y0" "m = m'" "dd = r - days_before_month leap m' + 1"
      using assms ord False unfolding leap_def mo_def m'_def Let_def by (auto split: if_splits)
    note ms = month_search [OF bd(7,8) mo_def m'_def]
    have "days_before_year y0 = 146097 * a + 36524 * b + 1461 * c + 365 * e" "is_leap y0 = leap"
      unfolding leap_def by (rule year_split [OF rng(1) le(1) rng(3,4,5) le(2) y0_def])+
    then show ?thesis using n ms unfolding ymd by (simp add: ymd_ord_def)
  qed
  then show "ymd_ord y m dd = n" "1 \<le> m" "m \<le> 12" "1 \<le> dd"
    "dd \<le> days_before_month (is_leap y) (m + 1) - days_before_month (is_leap y) m"
    by simp_all
qed

lemma total_seconds_nonneg: "earlier \<le> later \<Longrightarrow> 0 \<le> total_seconds later earlier"
  by (simp add: total_seconds_def)

end
