(* ===== verification/SP_Usage.thy ===== *)
theory SP_Usage
  imports SP_CostCenter SP_Float SP_Time "HOL-Library.Multiset"
begin

text \<open>
  \<open>services/finops.py\<close>, the part that does not talk to Athena: pricing snapshots and their cache,
  billing periods, team budgets, showback, and the recording of the usage of a finished run.
  Prices are floats: every operation on them rounds (\<open>fmul\<close>, \<open>fadd\<close>, \<dots>). The AWS pricing
  samples are an argument (\<open>sample region instance\<close>).
\<close>

subsection \<open>Pricing\<close>

record pricing_snapshot =
  vcpu_usd_per_second :: rat
  memory_gb_usd_per_second :: rat
  arm64_discount_pct :: rat
  mixed_discount_pct :: rat
  pricing_origin :: string

record pricing_settings =
  set_pricing_source :: string
  set_aws_region :: string
  set_dry_run_mode :: bool
  set_pricing_cache_seconds :: int
  set_vcpu_usd_per_second :: rat
  set_memory_gb_usd_per_second :: rat
  set_arm64_discount_pct :: rat
  set_mixed_discount_pct :: rat

definition x86_instance_pair_candidates :: "(string \<times> string) list" where
  "x86_instance_pair_candidates =
     [(''c6i.xlarge'', ''r6i.xlarge''), (''c7i.xlarge'', ''r7i.xlarge''), (''m6i.xlarge'', ''r6i.xlarge'')]"

definition arm64_instance_pair_candidates :: "(string \<times> string) list" where
  "arm64_instance_pair_candidates =
     [(''c6g.xlarge'', ''r6g.xlarge''), (''c7g.xlarge'', ''r7g.xlarge''), (''m6g.xlarge'', ''r6g.xlarge'')]"

definition clamp_discount :: "rat \<Rightarrow> rat" where
  "clamp_discount v = max 0 (min 100 v)"

definition static_pricing_snapshot :: "pricing_settings \<Rightarrow> string \<Rightarrow> pricing_snapshot" where
  "static_pricing_snapshot s src =
     \<lparr>vcpu_usd_per_second = set_vcpu_usd_per_second s, memory_gb_usd_per_second = set_memory_gb_usd_per_second s,
      arm64_discount_pct = set_arm64_discount_pct s, mixed_discount_pct = set_mixed_discount_pct s,
      pricing_origin = src\<rparr>"

type_synonym price_sample = "rat \<times> rat \<times> rat" \<comment> \<open>hourly price, vCPUs, memory\<close>

definition solve_linear_rates :: "price_sample \<Rightarrow> price_sample \<Rightarrow> exn + rat \<times> rat" where
  "solve_linear_rates a b =
     (case (a, b) of ((price_a, vcpu_a, memory_a), (price_b, vcpu_b, memory_b)) \<Rightarrow>
        let denominator = fsub (fmul vcpu_a memory_b) (fmul vcpu_b memory_a) in
        if \<bar>denominator\<bar> < f64 (1 / 10 ^ 9)
        then Inl (value_error ''Unable to derive per-resource rates from degenerate instance samples.'')
        else let vcpu_hour = fdiv (fsub (fmul price_a memory_b) (fmul price_b memory_a)) denominator;
                 memory_hour = fdiv (fsub (fmul price_b vcpu_a) (fmul price_a vcpu_b)) denominator in
          if vcpu_hour \<le> 0 \<or> memory_hour \<le> 0
          then Inl (value_error ''Derived non-positive per-resource rates from AWS pricing samples.'')
          else Inr (vcpu_hour, memory_hour))"

fun derive_architecture_rates ::
    "(string \<Rightarrow> string \<Rightarrow> exn + price_sample) \<Rightarrow> string \<Rightarrow> (string \<times> string) list \<Rightarrow> string list
     \<Rightarrow> exn + rat \<times> rat \<times> string \<times> string" where
  "derive_architecture_rates sample region [] errors =
     Inl (value_error (''Unable to derive pricing rates from AWS Pricing API samples: '' @
       join ''; '' (drop (length errors - 3) errors)))"
| "derive_architecture_rates sample region ((left, right) # rest) errors =
     (case rbind (sample region left) (\<lambda>a. rbind (sample region right) (\<lambda>b. solve_linear_rates a b)) of
        Inr (v, m) \<Rightarrow> Inr (v, m, left, right)
      | Inl e \<Rightarrow> if is_value_error e then derive_architecture_rates sample region rest (errors @ [exn_text e])
                else Inl e)"

definition fetch_pricing_api_snapshot ::
    "(string \<Rightarrow> string \<Rightarrow> exn + price_sample) \<Rightarrow> pricing_settings \<Rightarrow> exn + pricing_snapshot" where
  "fetch_pricing_api_snapshot sample s =
     rbind (derive_architecture_rates sample (set_aws_region s) x86_instance_pair_candidates []) (\<lambda>(xv, xm, xl, xr).
     rbind (derive_architecture_rates sample (set_aws_region s) arm64_instance_pair_candidates []) (\<lambda>(av, am, al, ar).
     let x86_reference_hour = fadd (fmul xv 4) (fmul xm 16);
         arm_reference_hour = fadd (fmul av 4) (fmul am 16) in
     if x86_reference_hour \<le> 0
     then Inl (value_error ''Unable to derive reference x86 hourly price from AWS Pricing API.'')
     else let arm64_discount = clamp_discount (fmul (fsub 1 (fdiv arm_reference_hour x86_reference_hour)) 100);
              mixed_discount = clamp_discount (fdiv arm64_discount 2)
          in Inr \<lparr>vcpu_usd_per_second = fdiv xv 3600, memory_gb_usd_per_second = fdiv xm 3600,
                  arm64_discount_pct = arm64_discount, mixed_discount_pct = mixed_discount,
                  pricing_origin = ''aws_pricing_api:x86='' @ xl @ ''+'' @ xr @ '':arm='' @ al @ ''+'' @ ar\<rparr>))"

text \<open>The cache maps the source and region to an expiry and a snapshot.\<close>

type_synonym pricing_cache = "(time \<times> pricing_snapshot) dict"

definition cache_hit :: "pricing_cache \<Rightarrow> string \<Rightarrow> time \<Rightarrow> pricing_snapshot option" where
  "cache_hit cache key now =
     (case map_of cache key of
        None \<Rightarrow> None
      | Some (expiry, snapshot) \<Rightarrow> if expiry > now then Some snapshot else None)"

definition current_snapshot ::
    "(string \<Rightarrow> string \<Rightarrow> exn + price_sample) \<Rightarrow> pricing_settings \<Rightarrow> exn + pricing_snapshot" where
  "current_snapshot sample s =
     (if set_pricing_source s = ''static'' then Inr (static_pricing_snapshot s ''static'')
      else if set_pricing_source s = ''auto'' \<and> set_dry_run_mode s
      then Inr (static_pricing_snapshot s ''static'')
      else case fetch_pricing_api_snapshot sample s of
          Inr p \<Rightarrow> Inr p
        | Inl e \<Rightarrow>
            if is_value_error e \<or> exn_class e = ''ClientError'' then
              (if set_pricing_source s = ''aws_pricing_api'' then Inl e
               else Inr (static_pricing_snapshot s ''static-fallback''))
            else Inl e)"

definition resolve_runtime_pricing ::
    "(string \<Rightarrow> string \<Rightarrow> exn + price_sample) \<Rightarrow> time \<Rightarrow> pricing_settings \<Rightarrow> pricing_cache
     \<Rightarrow> (exn + pricing_snapshot) \<times> pricing_cache" where
  "resolve_runtime_pricing sample now s cache =
     (let cache_key = set_pricing_source s @ '':'' @ set_aws_region s in
      case cache_hit cache cache_key now of
        Some snapshot \<Rightarrow> (Inr snapshot, cache)
      | None \<Rightarrow>
          (case current_snapshot sample s of
             Inl e \<Rightarrow> (Inl e, cache)
           | Inr p \<Rightarrow> (Inr p, dset cache_key (now + set_pricing_cache_seconds s * 1000000, p) cache)))"

subsection \<open>Billing periods and team spend\<close>

definition billing_period :: "time \<Rightarrow> string" where
  "billing_period t =
     (case ymd_of t of (y, m, _) \<Rightarrow> zero_pad 4 (show_int y) @ ''-'' @ zero_pad 2 (show_int m))"

definition team_key_for_environment :: "environment \<Rightarrow> string" where
  "team_key_for_environment env = env_tenant_id env"

definition allocations_for :: "database \<Rightarrow> string \<Rightarrow> string \<Rightarrow> cost_allocation list" where
  "allocations_for d tm period = filter (\<lambda>a. ca_team a = tm \<and> ca_billing_period a = period) (db_allocs d)"

definition actual_or_zero :: "cost_allocation \<Rightarrow> int" where
  "actual_or_zero a = (case ca_actual_cost_usd_micros a of Some v \<Rightarrow> v | None \<Rightarrow> 0)"

definition effective_cost :: "cost_allocation \<Rightarrow> int" where
  "effective_cost a = (case ca_actual_cost_usd_micros a of Some v \<Rightarrow> v | None \<Rightarrow> ca_estimated_cost_usd_micros a)"

definition team_spend_for_period :: "database \<Rightarrow> string \<Rightarrow> string \<Rightarrow> int \<times> int \<times> int" where
  "team_spend_for_period d tm period =
     (let rows = allocations_for d tm period in
      (sum_list (map ca_estimated_cost_usd_micros rows), sum_list (map actual_or_zero rows),
       sum_list (map effective_cost rows)))"

subsection \<open>Budgets\<close>

definition find_budget :: "database \<Rightarrow> string \<Rightarrow> team_budget option" where
  "find_budget d tm = find (\<lambda>b. tb_team b = tm) (db_budgets d)"

definition upd_budget :: "time \<Rightarrow> (team_budget \<Rightarrow> team_budget) \<Rightarrow> team_budget \<Rightarrow> team_budget" where
  "upd_budget now f r = (let r' = f r in if r' = r then r else r'\<lparr>tb_updated_at := now\<rparr>)"

definition create_or_update_team_budget ::
    "time \<Rightarrow> string \<Rightarrow> int \<Rightarrow> int \<Rightarrow> int \<Rightarrow> database \<Rightarrow> error + database" where
  "create_or_update_team_budget now tm budget warn_pct block_pct d =
     (if warn_pct > block_pct
      then Inl (ValidationError ''warn_threshold_pct must be less than or equal to block_threshold_pct.'')
      else Inr (case find_budget d tm of
          None \<Rightarrow> d\<lparr>db_budgets := db_budgets d @
            [\<lparr>tb_team = tm, tb_monthly_budget_usd_micros = budget, tb_warn_threshold_pct = warn_pct,
              tb_block_threshold_pct = block_pct, tb_created_at = now, tb_updated_at = now\<rparr>]\<rparr>
        | Some _ \<Rightarrow> d\<lparr>db_budgets := modify_row tb_team tm (upd_budget now (\<lambda>b.
            b\<lparr>tb_monthly_budget_usd_micros := budget, tb_warn_threshold_pct := warn_pct,
              tb_block_threshold_pct := block_pct\<rparr>)) (db_budgets d)\<rparr>))"

definition get_team_budget :: "database \<Rightarrow> string \<Rightarrow> error + team_budget" where
  "get_team_budget d tm =
     (case find_budget d tm of
        None \<Rightarrow> Inl (EntityNotFoundError ''Team budget not found.'')
      | Some b \<Rightarrow> Inr b)"

subsection \<open>Showback\<close>

record showback_item =
  si_run_id :: string
  si_environment_id :: string
  si_team :: string
  si_cost_center :: string
  si_estimated :: int
  si_actual :: "int option"
  si_effective :: int
  si_billing_period :: string
  si_cur_reconciled_at :: "time option"

record showback =
  sb_team :: string
  sb_period :: string
  sb_total_estimated :: int
  sb_total_actual :: int
  sb_total_effective :: int
  sb_items :: "showback_item list"

definition showback_item_of :: "cost_allocation \<Rightarrow> showback_item" where
  "showback_item_of a =
     (let estimated = ca_estimated_cost_usd_micros a;
          actual = ca_actual_cost_usd_micros a;
          effective = (case actual of Some v \<Rightarrow> v | None \<Rightarrow> estimated)
      in \<lparr>si_run_id = ca_run_id a, si_environment_id = ca_environment_id a, si_team = ca_team a,
          si_cost_center = ca_cost_center a, si_estimated = estimated, si_actual = actual,
          si_effective = effective, si_billing_period = ca_billing_period a,
          si_cur_reconciled_at = ca_cur_reconciled_at a\<rparr>)"

definition get_cost_showback :: "database \<Rightarrow> string \<Rightarrow> string \<Rightarrow> nat \<Rightarrow> nat \<Rightarrow> showback" where
  "get_cost_showback d tm period lmt off =
     (let rows = allocations_for d tm period in
      \<lparr>sb_team = tm, sb_period = period,
       sb_total_estimated = sum_list (map ca_estimated_cost_usd_micros rows),
       sb_total_actual = sum_list (map actual_or_zero rows),
       sb_total_effective = sum_list (map effective_cost rows),
       sb_items = map showback_item_of (page lmt off (sort_desc ca_created_at rows))\<rparr>)"

subsection \<open>Usage of a run\<close>

record requested_resources =
  rr_driver_vcpu :: int
  rr_driver_memory_gb :: int
  rr_executor_vcpu :: int
  rr_executor_memory_gb :: int
  rr_executor_instances :: int

definition resources_ok :: "requested_resources \<Rightarrow> bool" where
  "resources_ok r \<longleftrightarrow> 1 \<le> rr_driver_vcpu r \<and> rr_driver_vcpu r \<le> 64
     \<and> 1 \<le> rr_driver_memory_gb r \<and> rr_driver_memory_gb r \<le> 512
     \<and> 1 \<le> rr_executor_vcpu r \<and> rr_executor_vcpu r \<le> 64
     \<and> 1 \<le> rr_executor_memory_gb r \<and> rr_executor_memory_gb r \<le> 512
     \<and> 0 \<le> rr_executor_instances r \<and> rr_executor_instances r \<le> 1000"

text \<open>\<open>RequestedResources(**d)\<close>: the defaults of missing fields and the bounds the model validates.\<close>

definition requested_resources_of :: "int dict \<Rightarrow> exn + requested_resources" where
  "requested_resources_of d =
     (let r = \<lparr>rr_driver_vcpu = dget d ''driver_vcpu'' 1, rr_driver_memory_gb = dget d ''driver_memory_gb'' 4,
               rr_executor_vcpu = dget d ''executor_vcpu'' 2, rr_executor_memory_gb = dget d ''executor_memory_gb'' 8,
               rr_executor_instances = dget d ''executor_instances'' 2\<rparr>
      in if resources_ok r then Inr r
         else Inl \<lparr>exn_class = ''ValidationError'', exn_text = ''validation errors for RequestedResources'',
                   exn_code = None, exn_aws = False\<rparr>)"

definition total_vcpu :: "requested_resources \<Rightarrow> int" where
  "total_vcpu r = rr_driver_vcpu r + rr_executor_vcpu r * rr_executor_instances r"

definition resources_dump :: "requested_resources \<Rightarrow> int dict" where
  "resources_dump r =
     [(''driver_vcpu'', rr_driver_vcpu r), (''driver_memory_gb'', rr_driver_memory_gb r),
      (''executor_vcpu'', rr_executor_vcpu r), (''executor_memory_gb'', rr_executor_memory_gb r),
      (''executor_instances'', rr_executor_instances r)]"

definition run_duration_seconds :: "run \<Rightarrow> int" where
  "run_duration_seconds r =
     (case (run_started_at r, run_ended_at r) of
        (Some s, Some e) \<Rightarrow> max 0 (total_seconds e s)
      | _ \<Rightarrow> 0)"

definition architecture_multiplier :: "environment \<Rightarrow> pricing_snapshot \<Rightarrow> rat" where
  "architecture_multiplier env pricing =
     (if env_instance_architecture env = ''arm64''
      then max 0 (fsub 1 (fdiv (arm64_discount_pct pricing) 100))
      else if env_instance_architecture env = ''mixed''
      then max 0 (fsub 1 (fdiv (mixed_discount_pct pricing) 100))
      else 1)"

definition estimated_cost_usd_micros ::
    "pricing_snapshot \<Rightarrow> environment \<Rightarrow> int \<Rightarrow> int \<Rightarrow> int" where
  "estimated_cost_usd_micros pricing env vcpu_seconds memory_gb_seconds =
     (let estimated_cost_usd =
        fmul (fadd (fmul (float_of_int vcpu_seconds) (vcpu_usd_per_second pricing))
                   (fmul (float_of_int memory_gb_seconds) (memory_gb_usd_per_second pricing)))
             (architecture_multiplier env pricing)
      in trunc (fmul estimated_cost_usd 1000000))"

definition exn_of_error :: "error \<Rightarrow> exn" where
  "exn_of_error e =
     \<lparr>exn_class = (case e of ValueError _ \<Rightarrow> ''ValueError'' | TypeError _ \<Rightarrow> ''TypeError'' | _ \<Rightarrow> ''Exception''),
      exn_text = detail e, exn_code = None, exn_aws = False\<rparr>"

definition usage_row :: "time \<Rightarrow> pricing_snapshot \<Rightarrow> requested_resources \<Rightarrow> run \<Rightarrow> environment \<Rightarrow> usage_record" where
  "usage_row now p resources r env =
     (let duration_seconds = run_duration_seconds r;
          vcpu_seconds = duration_seconds * total_vcpu resources;
          memory_total = rr_driver_memory_gb resources + rr_executor_memory_gb resources * rr_executor_instances resources;
          memory_gb_seconds = duration_seconds * memory_total
      in \<lparr>ur_tenant_id = env_tenant_id env, ur_run_id = run_id r, ur_vcpu_seconds = vcpu_seconds,
          ur_memory_gb_seconds = memory_gb_seconds,
          ur_estimated_cost_usd_micros = estimated_cost_usd_micros p env vcpu_seconds memory_gb_seconds,
          ur_recorded_at = now\<rparr>)"

definition allocation_row :: "time \<Rightarrow> string \<Rightarrow> usage_record \<Rightarrow> run \<Rightarrow> environment \<Rightarrow> cost_allocation" where
  "allocation_row now center u r env =
     \<lparr>ca_run_id = run_id r, ca_environment_id = env_id env, ca_tenant_id = env_tenant_id env,
      ca_team = team_key_for_environment env, ca_cost_center = center,
      ca_billing_period = billing_period (case run_ended_at r of Some e \<Rightarrow> e | None \<Rightarrow> now),
      ca_estimated_vcpu_seconds = ur_vcpu_seconds u, ca_estimated_memory_gb_seconds = ur_memory_gb_seconds u,
      ca_estimated_cost_usd_micros = ur_estimated_cost_usd_micros u, ca_actual_cost_usd_micros = None,
      ca_cur_reconciled_at = None, ca_created_at = now, ca_updated_at = now\<rparr>"

text \<open>
  \<open>pricing\<close> is what \<open>_resolve_runtime_pricing\<close> answers at that moment, \<open>cost_center\<close> what
  \<open>_cost_center_for_environment\<close> does.
\<close>

definition record_usage_if_needed ::
    "time \<Rightarrow> exn + pricing_snapshot \<Rightarrow> (environment \<Rightarrow> error + string) \<Rightarrow> run \<Rightarrow> environment \<Rightarrow> database
     \<Rightarrow> exn + database" where
  "record_usage_if_needed now pricing cost_center r env d =
     (if \<exists>u \<in> set (db_usage d). ur_run_id u = run_id r then Inr d
      else
        rbind (requested_resources_of (run_requested_resources r)) (\<lambda>resources.
        rbind pricing (\<lambda>p.
        let u = usage_row now p resources r env;
            d1 = d\<lparr>db_usage := db_usage d @ [u]\<rparr>
        in if \<exists>a \<in> set (db_allocs d1). ca_run_id a = run_id r then Inr d1
           else case cost_center env of
               Inl e \<Rightarrow> Inl (exn_of_error e)
             | Inr center \<Rightarrow>
                 Inr (d1\<lparr>db_allocs := db_allocs d1 @ [allocation_row now center u r env]\<rparr>))))"

text \<open>The same in pieces that evaluate one after another.\<close>

definition bill_priced ::
    "time \<Rightarrow> (environment \<Rightarrow> error + string) \<Rightarrow> run \<Rightarrow> environment \<Rightarrow> database \<Rightarrow> requested_resources
     \<Rightarrow> pricing_snapshot \<Rightarrow> exn + database" where
  "bill_priced now cost_center r env d resources p =
     (let u = usage_row now p resources r env;
          d1 = d\<lparr>db_usage := db_usage d @ [u]\<rparr>
      in if \<exists>a \<in> set (db_allocs d1). ca_run_id a = run_id r then Inr d1
         else case cost_center env of
             Inl e \<Rightarrow> Inl (exn_of_error e)
           | Inr center \<Rightarrow>
               Inr (d1\<lparr>db_allocs := db_allocs d1 @ [allocation_row now center u r env]\<rparr>))"

definition bill_resources ::
    "time \<Rightarrow> exn + pricing_snapshot \<Rightarrow> (environment \<Rightarrow> error + string) \<Rightarrow> run \<Rightarrow> environment \<Rightarrow> database
     \<Rightarrow> requested_resources \<Rightarrow> exn + database" where
  "bill_resources now pricing cost_center r env d resources =
     rbind pricing (bill_priced now cost_center r env d resources)"

lemma record_usage_code [code]:
  "record_usage_if_needed now pricing cost_center r env d =
     (if \<exists>u \<in> set (db_usage d). ur_run_id u = run_id r then Inr d
      else rbind (requested_resources_of (run_requested_resources r)) (bill_resources now pricing cost_center r env d))"
  unfolding record_usage_if_needed_def bill_resources_def [abs_def] bill_priced_def [abs_def] ..

subsection \<open>Pricing lemmas\<close>

definition snapshot_ok :: "pricing_snapshot \<Rightarrow> bool" where
  "snapshot_ok p \<longleftrightarrow> 0 \<le> vcpu_usd_per_second p \<and> 0 \<le> memory_gb_usd_per_second p \<and>
     0 \<le> arm64_discount_pct p \<and> arm64_discount_pct p \<le> 100 \<and>
     0 \<le> mixed_discount_pct p \<and> mixed_discount_pct p \<le> 100"

definition pricing_settings_ok :: "pricing_settings \<Rightarrow> bool" where
  "pricing_settings_ok s \<longleftrightarrow> snapshot_ok (static_pricing_snapshot s ''static'')"

lemma clamp_discount_bounds: "0 \<le> clamp_discount v" "clamp_discount v \<le> 100"
  by (simp_all add: clamp_discount_def)

lemma solve_linear_rates_pos: "solve_linear_rates a b = Inr (v, m) \<Longrightarrow> 0 < v \<and> 0 < m"
  by (auto simp: solve_linear_rates_def Let_def split: prod.splits if_splits)

lemma derive_architecture_rates_pos:
  "derive_architecture_rates sample region cands errs = Inr (v, m, l, r) \<Longrightarrow> 0 < v \<and> 0 < m \<and> (l, r) \<in> set cands"
  by (induction sample region cands errs rule: derive_architecture_rates.induct)
    (auto simp: rbind_Inr_iff dest: solve_linear_rates_pos split: sum.splits if_splits prod.splits)

lemma fetch_pricing_api_snapshot_ok: "fetch_pricing_api_snapshot sample s = Inr p \<Longrightarrow> snapshot_ok p"
  by (auto simp: fetch_pricing_api_snapshot_def rbind_Inr_iff Let_def snapshot_ok_def clamp_discount_bounds
      dest!: derive_architecture_rates_pos intro!: f64_nonneg split: if_splits prod.splits)

definition cache_ok :: "pricing_cache \<Rightarrow> bool" where
  "cache_ok c \<longleftrightarrow> (\<forall>k t p. map_of c k = Some (t, p) \<longrightarrow> snapshot_ok p)"

lemma static_pricing_snapshot_ok: "pricing_settings_ok s \<Longrightarrow> snapshot_ok (static_pricing_snapshot s src)"
  by (simp add: pricing_settings_ok_def snapshot_ok_def static_pricing_snapshot_def)

lemma current_snapshot_ok:
  assumes "current_snapshot sample s = Inr p" "pricing_settings_ok s" shows "snapshot_ok p"
  using assms(1) static_pricing_snapshot_ok [OF assms(2)]
  by (auto simp: current_snapshot_def dest: fetch_pricing_api_snapshot_ok split: if_splits sum.splits)

lemma resolve_runtime_pricing_ok:
  assumes "resolve_runtime_pricing sample now s cache = (res, cache')" "pricing_settings_ok s" "cache_ok cache"
  shows "cache_ok cache' \<and> (\<forall>p. res = Inr p \<longrightarrow> snapshot_ok p)"
proof (cases "cache_hit cache (set_pricing_source s @ '':'' @ set_aws_region s) now")
  case None
  show ?thesis
  proof (cases "current_snapshot sample s")
    case (Inl e)
    then show ?thesis using assms None by (auto simp: resolve_runtime_pricing_def)
  next
    case (Inr p)
    then have "snapshot_ok p" using assms(2) by (rule current_snapshot_ok)
    then show ?thesis using assms None Inr
      by (auto simp: resolve_runtime_pricing_def cache_ok_def split: if_splits)
  qed
next
  case (Some p)
  then have "snapshot_ok p" using assms(3)
    by (auto simp: cache_hit_def cache_ok_def split: option.splits prod.splits if_splits)
  then show ?thesis using assms Some by (auto simp: resolve_runtime_pricing_def)
qed

text \<open>Within the life of a cache entry the price does not change and AWS is not asked.\<close>

lemma resolve_runtime_pricing_cached:
  assumes run: "resolve_runtime_pricing sample now s cache = (Inr p, cache')"
    and miss: "cache_hit cache (set_pricing_source s @ '':'' @ set_aws_region s) now = None"
    and now': "now' < now + set_pricing_cache_seconds s * 1000000"
  shows "resolve_runtime_pricing sample' now' s cache' = (Inr p, cache')"
proof -
  have "cache' = dset (set_pricing_source s @ '':'' @ set_aws_region s) (now + set_pricing_cache_seconds s * 1000000, p) cache"
    using run miss by (cases "current_snapshot sample s") (simp_all add: resolve_runtime_pricing_def Let_def)
  then have "cache_hit cache' (set_pricing_source s @ '':'' @ set_aws_region s) now' = Some p"
    using now' by (simp add: cache_hit_def)
  then show ?thesis by (simp add: resolve_runtime_pricing_def)
qed

subsection \<open>Costs\<close>

lemma estimated_cost_nonneg:
  assumes "snapshot_ok p" "0 \<le> v" "0 \<le> m"
  shows "0 \<le> estimated_cost_usd_micros p env v m"
  using assms unfolding estimated_cost_usd_micros_def Let_def architecture_multiplier_def snapshot_ok_def
  by (intro trunc_nonneg f64_nonneg mult_nonneg_nonneg add_nonneg_nonneg) (auto intro: f64_nonneg)

lemma run_duration_nonneg: "0 \<le> run_duration_seconds r"
  by (auto simp: run_duration_seconds_def split: option.splits)

subsection \<open>Recording\<close>

definition recorded :: "database \<Rightarrow> string \<Rightarrow> bool" where
  "recorded d rid \<longleftrightarrow> (\<exists>u \<in> set (db_usage d). ur_run_id u = rid)"

text \<open>One usage record and one allocation per run, as the unique columns require.\<close>

definition billing_unique :: "database \<Rightarrow> bool" where
  "billing_unique d \<longleftrightarrow> distinct (map ur_run_id (db_usage d)) \<and> distinct (map ca_run_id (db_allocs d))"

lemma record_usage_cases:
  assumes "record_usage_if_needed now pricing cc r env d = Inr d'"
  obtains (again) "recorded d (run_id r)" "d' = d"
  | (usage) p res where "\<not> recorded d (run_id r)" "pricing = Inr p"
      "requested_resources_of (run_requested_resources r) = Inr res"
      "\<exists>a \<in> set (db_allocs d). ca_run_id a = run_id r"
      "d' = d\<lparr>db_usage := db_usage d @ [usage_row now p res r env]\<rparr>"
  | (both) p res center where "\<not> recorded d (run_id r)" "pricing = Inr p"
      "requested_resources_of (run_requested_resources r) = Inr res"
      "\<forall>a \<in> set (db_allocs d). ca_run_id a \<noteq> run_id r" "cc env = Inr center"
      "d' = d\<lparr>db_usage := db_usage d @ [usage_row now p res r env],
             db_allocs := db_allocs d @ [allocation_row now center (usage_row now p res r env) r env]\<rparr>"
proof (cases "recorded d (run_id r)")
  case True
  then have "d' = d" using assms by (simp add: record_usage_if_needed_def recorded_def)
  with True show thesis by (rule again)
next
  case fresh: False
  note run = assms [unfolded record_usage_if_needed_def if_not_P [OF fresh [unfolded recorded_def]] Let_def]
  from run obtain res p where res: "requested_resources_of (run_requested_resources r) = Inr res" and p: "pricing = Inr p"
    unfolding rbind_Inr_iff by blast
  note run' = run [unfolded res p rbind_simps]
  show thesis
  proof (cases "\<exists>a \<in> set (db_allocs d). ca_run_id a = run_id r")
    case True
    then have "d' = d\<lparr>db_usage := db_usage d @ [usage_row now p res r env]\<rparr>" using run' by simp
    with fresh p res True show thesis by (rule usage)
  next
    case False
    obtain center where c: "cc env = Inr center" using run' False by (cases "cc env") simp_all
    have "d' = d\<lparr>db_usage := db_usage d @ [usage_row now p res r env],
        db_allocs := db_allocs d @ [allocation_row now center (usage_row now p res r env) r env]\<rparr>"
      using run' False c by simp
    with fresh p res _ c show thesis by (rule both) (use False in blast)
  qed
qed

lemma usage_row_sel [simp]: "ur_run_id (usage_row now p res r env) = run_id r"
  "ur_tenant_id (usage_row now p res r env) = env_tenant_id env"
  by (simp_all add: usage_row_def Let_def)

lemma allocation_row_sel [simp]: "ca_run_id (allocation_row now c u r env) = run_id r"
  "ca_team (allocation_row now c u r env) = team_key_for_environment env"
  "ca_billing_period (allocation_row now c u r env) = billing_period (case run_ended_at r of Some e \<Rightarrow> e | None \<Rightarrow> now)"
  "ca_estimated_cost_usd_micros (allocation_row now c u r env) = ur_estimated_cost_usd_micros u"
  "ca_actual_cost_usd_micros (allocation_row now c u r env) = None"
  "ca_cost_center (allocation_row now c u r env) = c"
  by (simp_all add: allocation_row_def)

lemma record_usage_frame:
  assumes "record_usage_if_needed now pricing cc r env d = Inr d'"
  shows "\<exists>u a. d' = d\<lparr>db_usage := u, db_allocs := a\<rparr>"
  using assms
proof (cases rule: record_usage_cases)
  case again
  then show ?thesis by (intro exI [where x = "db_usage d"] exI [where x = "db_allocs d"]) simp
next
  case (usage p res)
  then show ?thesis
    by (intro exI [where x = "db_usage d @ [usage_row now p res r env]"] exI [where x = "db_allocs d"]) simp
next
  case (both p res center)
  then show ?thesis by blast
qed

lemma record_usage_recorded:
  assumes "record_usage_if_needed now pricing cc r env d = Inr d'" shows "recorded d' (run_id r)"
  using assms by (cases rule: record_usage_cases) (auto simp: recorded_def)

lemma record_usage_once:
  assumes "record_usage_if_needed now pricing cc r env d = Inr d'" and "run_id r' = run_id r"
  shows "record_usage_if_needed now' pricing' cc' r' env' d' = Inr d'"
  using record_usage_recorded [OF assms(1)] assms(2) by (simp add: record_usage_if_needed_def recorded_def)

lemma record_usage_unique:
  assumes "record_usage_if_needed now pricing cc r env d = Inr d'" and "billing_unique d"
  shows "billing_unique d'"
  using assms(1) by (cases rule: record_usage_cases) (use assms(2) in \<open>auto simp: billing_unique_def recorded_def\<close>)

subsection \<open>Team spend\<close>

lemma team_spend_add:
  assumes "db_allocs d' = db_allocs d @ [a]" "ca_actual_cost_usd_micros a = None"
    "team_spend_for_period d tm period = (e, ac, ef)"
  shows "team_spend_for_period d' tm period =
    (if ca_team a = tm \<and> ca_billing_period a = period
     then (e + ca_estimated_cost_usd_micros a, ac, ef + ca_estimated_cost_usd_micros a) else (e, ac, ef))"
  using assms by (auto simp: team_spend_for_period_def allocations_for_def Let_def actual_or_zero_def effective_cost_def)

text \<open>
  The first recording of a run adds its estimate to the spend of its team in the month the run
  ended, and changes no other team or month.
\<close>

lemma record_usage_spend:
  assumes run: "record_usage_if_needed now pricing cc r env d = Inr d'"
    and fresh: "\<not> recorded d (run_id r)" "\<forall>a \<in> set (db_allocs d). ca_run_id a \<noteq> run_id r"
    and sp: "team_spend_for_period d tm period = (e, ac, ef)"
  shows "\<exists>u \<in> set (db_usage d'). ur_run_id u = run_id r \<and> team_spend_for_period d' tm period =
    (if tm = team_key_for_environment env \<and>
        period = billing_period (case run_ended_at r of Some t \<Rightarrow> t | None \<Rightarrow> now)
     then (e + ur_estimated_cost_usd_micros u, ac, ef + ur_estimated_cost_usd_micros u) else (e, ac, ef))"
  using run
proof (cases rule: record_usage_cases)
  case again
  then show ?thesis using fresh by simp
next
  case (usage p res)
  then show ?thesis using fresh by blast
next
  case (both p res center)
  let ?u = "usage_row now p res r env"
  have "db_allocs d' = db_allocs d @ [allocation_row now center ?u r env]" by (simp add: both)
  from team_spend_add [OF this _ sp] show ?thesis
    by (intro bexI [of _ ?u]) (auto simp: both)
qed

lemma showback_totals:
  "(sb_total_estimated s, sb_total_actual s, sb_total_effective s) = team_spend_for_period d tm period"
  if "s = get_cost_showback d tm period lmt off"
  using that by (simp add: get_cost_showback_def team_spend_for_period_def Let_def)

lemma sum_list_sort_desc: "sum_list (map f (sort_desc k xs)) = (sum_list (map f xs) :: int)"
proof -
  have "mset (map f (sort_desc k xs)) = mset (map f xs)" by (simp add: sort_desc_def)
  then show ?thesis by (metis sum_mset_sum_list)
qed

text \<open>A page that holds every row adds up to the totals.\<close>

lemma showback_items_sum:
  assumes "s = get_cost_showback d tm period lmt 0" and "length (allocations_for d tm period) \<le> lmt"
  shows "sum_list (map si_effective (sb_items s)) = sb_total_effective s"
proof -
  have "length (sort_desc ca_created_at (allocations_for d tm period)) \<le> lmt"
    using assms(2) by (simp add: sort_desc_def)
  then have "sb_items s = map showback_item_of (sort_desc ca_created_at (allocations_for d tm period))"
    by (simp add: assms(1) get_cost_showback_def Let_def page_def)
  moreover have "si_effective \<circ> showback_item_of = effective_cost"
    by (auto simp: fun_eq_iff showback_item_of_def effective_cost_def Let_def split: option.splits)
  ultimately show ?thesis
    by (simp add: sum_list_sort_desc assms(1) get_cost_showback_def Let_def)
qed

subsection \<open>Budget lemmas\<close>

lemma upd_budget_sel [simp]:
  "tb_team (upd_budget now f b) = tb_team (f b)"
  "tb_monthly_budget_usd_micros (upd_budget now f b) = tb_monthly_budget_usd_micros (f b)"
  "tb_warn_threshold_pct (upd_budget now f b) = tb_warn_threshold_pct (f b)"
  "tb_block_threshold_pct (upd_budget now f b) = tb_block_threshold_pct (f b)"
  by (cases "f b = b"; simp add: upd_budget_def Let_def)+

lemma budget_upsert_get:
  assumes "create_or_update_team_budget now tm b w k d = Inr d'"
  shows "\<exists>x. get_team_budget d' tm = Inr x \<and> tb_monthly_budget_usd_micros x = b \<and>
    tb_warn_threshold_pct x = w \<and> tb_block_threshold_pct x = k \<and> w \<le> k"
proof (cases "find_budget d tm")
  case None
  then show ?thesis using assms
    by (auto simp: create_or_update_team_budget_def get_team_budget_def find_budget_def find_append split: if_splits)
next
  case (Some x)
  have "find_row tb_team tm (db_budgets d') =
      map_option (upd_budget now (\<lambda>x. x\<lparr>tb_monthly_budget_usd_micros := b, tb_warn_threshold_pct := w,
        tb_block_threshold_pct := k\<rparr>)) (find_row tb_team tm (db_budgets d))"
    using assms Some by (auto simp: create_or_update_team_budget_def find_row_modify_same split: if_splits)
  then show ?thesis using assms Some
    by (auto simp: get_team_budget_def find_budget_def find_row_def create_or_update_team_budget_def split: if_splits)
qed

lemma budget_upsert_other:
  assumes "create_or_update_team_budget now tm b w k d = Inr d'" and "tm' \<noteq> tm"
  shows "get_team_budget d' tm' = get_team_budget d tm'"
proof (cases "find_budget d tm")
  case None
  then show ?thesis using assms
    by (auto simp: create_or_update_team_budget_def get_team_budget_def find_budget_def find_append
        split: if_splits option.splits)
next
  case (Some x)
  have "find_row tb_team tm' (db_budgets d') = find_row tb_team tm' (db_budgets d)"
    using assms Some by (auto simp: create_or_update_team_budget_def find_row_modify_other split: if_splits)
  then show ?thesis by (simp add: get_team_budget_def find_budget_def find_row_def)
qed

end
