(* ===== verification/SP_Runs.thy ===== *)
theory SP_Runs
  imports SP_PolicyRules SP_Quota SP_GoldenPaths SP_Usage
begin

text \<open>
  \<open>services/crud.py\<close>, jobs and runs: creation, listing, cancellation and the log window. Row ids
  that the mapper draws are arguments. \<open>lf env\<close> is what \<open>get_lf_permission_context\<close> returns
  or raises; a failure there is only logged.
\<close>

subsection \<open>Requests\<close>

record job_create =
  jc_environment_id :: string
  jc_name :: string
  jc_artifact_uri :: string
  jc_artifact_digest :: string
  jc_entrypoint :: string
  jc_args :: "string list"
  jc_spark_conf :: conf
  jc_retry_max_attempts :: int
  jc_timeout_seconds :: int

record run_create =
  rq_args :: "string list option"
  rq_spark_conf :: "conf option"
  rq_golden_path :: "string option"
  rq_requested_resources :: requested_resources
  rq_timeout_seconds :: "int option"

definition job_row :: "time \<Rightarrow> string \<Rightarrow> job_create \<Rightarrow> job" where
  "job_row now new_id req =
     \<lparr>job_id = new_id, job_environment_id = jc_environment_id req, job_name = jc_name req,
      job_artifact_uri = jc_artifact_uri req, job_artifact_digest = jc_artifact_digest req,
      job_entrypoint = jc_entrypoint req, job_args = jc_args req, job_spark_conf = jc_spark_conf req,
      job_retry_max_attempts = jc_retry_max_attempts req, job_timeout_seconds = jc_timeout_seconds req,
      job_created_at = now, job_updated_at = now\<rparr>"

definition create_job ::
    "time \<Rightarrow> string \<Rightarrow> job_create \<Rightarrow> string \<Rightarrow> string option \<Rightarrow> database \<Rightarrow> error + job \<times> database" where
  "create_job now new_id req actor source_ip d =
     rbind (require_environment d (jc_environment_id req)) (\<lambda>env.
     if env_status env = EDeleted then Inl (ConflictError ''Environment is deleted.'')
     else let j = job_row now new_id req in
       Inr (j, write_audit_event now actor ''job.create'' ''job'' new_id (Some (env_tenant_id env)) source_ip
         [(''name'', JStr (job_name j)), (''artifact_uri'', JStr (job_artifact_uri j)),
          (''artifact_digest'', JStr (job_artifact_digest j))] None (add_job j d)))"

definition list_jobs :: "database \<Rightarrow> string option \<Rightarrow> nat \<Rightarrow> nat \<Rightarrow> string list option \<Rightarrow> job list" where
  "list_jobs d environment_id lmt off environment_ids =
     page lmt off (filter (\<lambda>j.
       (case environment_id of None \<Rightarrow> True | Some e \<Rightarrow> e = [] \<or> job_environment_id j = e) \<and>
       (case environment_ids of None \<Rightarrow> True | Some ids \<Rightarrow> job_environment_id j \<in> set ids))
       (sort_desc job_created_at (db_jobs d)))"

subsection \<open>Configuration and time limit of a run\<close>

definition executor_arch_key :: string where
  "executor_arch_key = ''spark.kubernetes.executor.node.selector.kubernetes.io/arch''"

definition driver_arch_key :: string where
  "driver_arch_key = ''spark.kubernetes.driver.node.selector.kubernetes.io/arch''"

definition with_architecture :: "string \<Rightarrow> conf \<Rightarrow> conf" where
  "with_architecture arch c =
     (if arch = ''arm64'' then dset driver_arch_key ''arm64'' (dset executor_arch_key ''arm64'' c)
      else if arch = ''x86_64'' then dset driver_arch_key ''amd64'' (dset executor_arch_key ''amd64'' c)
      else c)"

definition resolve_run_configuration ::
    "bool \<Rightarrow> database \<Rightarrow> environment \<Rightarrow> run_create \<Rightarrow> error + golden_path option \<times> int dict \<times> conf" where
  "resolve_run_configuration nulls_first d env req =
     (if \<not> opt_empty (rq_golden_path req) \<and> rq_spark_conf req \<noteq> None
      then Inl (ValidationError ''Provide either golden_path or spark_conf overrides, not both.'')
      else if opt_empty (rq_golden_path req)
      then Inr (None, resources_dump (rq_requested_resources req),
                case rq_spark_conf req of Some c \<Rightarrow> c | None \<Rightarrow> [])
      else rbind (resolve_golden_path_for_run nulls_first d env (the (rq_golden_path req))) (\<lambda>g.
        Inr (Some g, gp_requested_resources g, with_architecture (gp_instance_architecture g) (gp_spark_conf g))))"

definition requested_or_default_timeout :: "run_create \<Rightarrow> job \<Rightarrow> int" where
  "requested_or_default_timeout req j =
     (case rq_timeout_seconds req of Some t \<Rightarrow> if t = 0 then job_timeout_seconds j else t
      | None \<Rightarrow> job_timeout_seconds j)"

definition resolve_timeout_seconds ::
    "run_create \<Rightarrow> job \<Rightarrow> environment \<Rightarrow> golden_path option \<Rightarrow> error + int" where
  "resolve_timeout_seconds req j env selected_golden_path =
     (let t0 = requested_or_default_timeout req j;
          timeout_seconds = (case selected_golden_path of
             None \<Rightarrow> t0 | Some g \<Rightarrow> min t0 (gp_max_runtime_minutes g * 60))
      in if timeout_seconds > env_max_run_seconds env
         then Inl (ValidationError (''Run timeout exceeds environment max_run_seconds ('' @
                show_int (env_max_run_seconds env) @ '').''))
         else Inr timeout_seconds)"

subsection \<open>Creation\<close>

definition find_run_by_key :: "database \<Rightarrow> string \<Rightarrow> string \<Rightarrow> run option" where
  "find_run_by_key d jid ky = find (\<lambda>r. run_job_id r = jid \<and> run_idempotency_key r = ky) (db_runs d)"

definition run_row ::
    "time \<Rightarrow> string \<Rightarrow> job \<Rightarrow> environment \<Rightarrow> string \<Rightarrow> int dict \<Rightarrow> string list \<Rightarrow> conf \<Rightarrow> int \<Rightarrow> string \<Rightarrow> run" where
  "run_row now new_id j env ky requested args c timeout_seconds actor =
     \<lparr>run_id = new_id, run_job_id = job_id j, run_environment_id = env_id env, run_state = RQueued,
      run_attempt = 1, run_idempotency_key = ky, run_requested_resources = requested,
      run_args_overrides = args, run_spark_conf_overrides = c, run_timeout_seconds = timeout_seconds,
      run_job_template_id = None, run_emr_job_run_id = None, run_backend_job_run_id = None,
      run_cancellation_requested = False, run_log_group = None, run_log_stream_prefix = None,
      run_driver_log_uri = None, run_spark_ui_uri = None, run_created_by_actor = Some actor,
      run_claim_token = None, run_claimed_at = None, run_error_message = None, run_started_at = None,
      run_last_heartbeat_at = None, run_ended_at = None, run_created_at = now, run_updated_at = now\<rparr>"

definition policy_context :: "run_create \<Rightarrow> int dict \<Rightarrow> conf \<Rightarrow> eval_ctx" where
  "policy_context req requested c =
     \<lparr>ctx_timeout = rq_timeout_seconds req, ctx_resources = requested, ctx_spark_conf = c,
      ctx_golden_path = rq_golden_path req, ctx_release_label = None, ctx_security_configuration_id = None\<rparr>"

definition check_spark_conf :: "conf \<Rightarrow> error + unit" where
  "check_spark_conf c =
     (let policy_violations = validate_custom_spark_conf_policy c in
      guard_err (policy_violations \<noteq> [])
        (ValidationError (''Spark config violates environment policy. Blocked keys: '' @ join '', '' policy_violations)))"

definition check_policies :: "policy_entry list \<Rightarrow> error + unit" where
  "check_policies policy_results =
     (let failures = hard_failures policy_results in
      guard_err (failures \<noteq> [])
        (ValidationError (''Policy violation(s): '' @ join ''; ''
          (map (\<lambda>f. ''['' @ pe_policy_name f @ ''] '' @ er_message (pe_result f)) failures))))"

definition record_lf_context ::
    "time \<Rightarrow> (environment \<Rightarrow> exn + json dict) \<Rightarrow> string \<Rightarrow> string option \<Rightarrow> string \<Rightarrow> environment \<Rightarrow> database \<Rightarrow> database" where
  "record_lf_context now lf actor source_ip rid env d =
     (if env_lake_formation_enabled env then
        (case lf env of
           Inl _ \<Rightarrow> d
         | Inr ctx \<Rightarrow> write_audit_event now actor ''run.lf_permission_context'' ''run'' rid
             (Some (env_tenant_id env)) source_ip ctx None d)
      else d)"

text \<open>The last step: the run that has the key already, or a new one.\<close>

definition insert_run ::
    "(environment \<Rightarrow> exn + json dict) \<Rightarrow> time \<Rightarrow> string \<Rightarrow> job \<Rightarrow> environment \<Rightarrow> string \<Rightarrow> golden_path option
     \<Rightarrow> int dict \<Rightarrow> string list \<Rightarrow> conf \<Rightarrow> int \<Rightarrow> string \<Rightarrow> string option \<Rightarrow> database \<Rightarrow> run \<times> database" where
  "insert_run lf now new_id j env idempotency_key selected_golden_path requested args run_spark_conf
       timeout_seconds actor source_ip d =
     (case find_run_by_key d (job_id j) idempotency_key of
       Some existing \<Rightarrow> (existing, d)
     | None \<Rightarrow>
         let r = run_row now new_id j env idempotency_key requested args run_spark_conf timeout_seconds actor;
             d2 = write_audit_event now actor ''run.create'' ''run'' new_id (Some (env_tenant_id env)) source_ip
               [(''job_id'', JStr (job_id j)),
                (''requested_resources'', JObj (map (\<lambda>(k, v). (k, JInt v)) requested)),
                (''golden_path'', case selected_golden_path of Some g \<Rightarrow> JStr (gp_name g) | None \<Rightarrow> JNull)] None
               (add_run r d)
         in (r, record_lf_context now lf actor source_ip new_id env d2))"

definition create_run ::
    "bool \<Rightarrow> (environment \<Rightarrow> exn + json dict) \<Rightarrow> time \<Rightarrow> string \<Rightarrow> string \<Rightarrow> run_create \<Rightarrow> string
     \<Rightarrow> string option \<Rightarrow> string \<Rightarrow> database \<Rightarrow> error + run \<times> database" where
  "create_run nulls_first lf now new_id jid req actor source_ip idempotency_key d =
     rbind (require_job d jid) (\<lambda>j.
     rbind (lock_environment_for_quota d (job_environment_id j)) (\<lambda>env.
     rbind (guard_err (env_status env \<noteq> EReady) (ConflictError ''Environment is not ready.'')) (\<lambda>_.
     rbind (resolve_run_configuration nulls_first d env req) (\<lambda>(selected_golden_path, requested, run_spark_conf).
     rbind (check_spark_conf run_spark_conf) (\<lambda>_.
     rbind (evaluate_policies now actor source_ip env (policy_context req requested run_spark_conf) d) (\<lambda>(policy_results, d1).
     rbind (check_policies policy_results) (\<lambda>_.
     rbind (enforce_quota_for_run d1 env requested) (\<lambda>_.
     rbind (resolve_timeout_seconds req j env selected_golden_path) (\<lambda>timeout_seconds.
     Inr (insert_run lf now new_id j env idempotency_key selected_golden_path requested
            (case rq_args req of Some a \<Rightarrow> a | None \<Rightarrow> job_args j) run_spark_conf timeout_seconds actor
            source_ip d1))))))))))"

subsection \<open>Listing, cancellation, logs\<close>

definition list_runs ::
    "database \<Rightarrow> string option \<Rightarrow> run_state option \<Rightarrow> nat \<Rightarrow> nat \<Rightarrow> string option \<Rightarrow> string list option \<Rightarrow> run list" where
  "list_runs d tenant_id st lmt off actor environment_ids =
     page lmt off (sort_desc run_created_at (filter (\<lambda>r.
       (case get_environment d (run_environment_id r) of
          None \<Rightarrow> False
        | Some env \<Rightarrow>
            (case tenant_id of None \<Rightarrow> True | Some t \<Rightarrow> t = [] \<or> env_tenant_id env = t) \<and>
            (case st of None \<Rightarrow> True | Some s \<Rightarrow> run_state r = s) \<and>
            (case actor of None \<Rightarrow> True | Some a \<Rightarrow> a = [] \<or> run_created_by_actor r = Some a) \<and>
            (case environment_ids of None \<Rightarrow> True | Some ids \<Rightarrow> env_id env \<in> set ids))) (db_runs d)))"

definition cancel_run ::
    "time \<Rightarrow> string \<Rightarrow> string \<Rightarrow> string option \<Rightarrow> database \<Rightarrow> error + run \<times> database" where
  "cancel_run now rid actor source_ip d =
     rbind (require_run d rid) (\<lambda>r.
     rbind (require_environment d (run_environment_id r)) (\<lambda>env.
     if run_state r \<in> set terminal_run_states then Inr (r, d)
     else
       let d1 = (if run_state r \<in> {RQueued, RDispatching}
                 then modify_run now rid (\<lambda>r. r\<lparr>run_state := RCancelled, run_ended_at := Some now\<rparr>) d
                 else modify_run now rid (\<lambda>r. r\<lparr>run_cancellation_requested := True\<rparr>) d);
           d2 = write_audit_event now actor ''run.cancel.request'' ''run'' rid (Some (env_tenant_id env)) source_ip
                  [] None d1
       in Inr (case get_run d2 rid of Some r' \<Rightarrow> r' | None \<Rightarrow> r, d2)))"

definition get_usage ::
    "database \<Rightarrow> string \<Rightarrow> time \<Rightarrow> time \<Rightarrow> nat \<Rightarrow> nat \<Rightarrow> error + usage_record list" where
  "get_usage d tenant_id from_ts to_ts lmt off =
     rbind (require_tenant d tenant_id) (\<lambda>_.
       Inr (page lmt off (sort_key ur_recorded_at (filter (\<lambda>u. ur_tenant_id u = tenant_id \<and>
         from_ts \<le> ur_recorded_at u \<and> ur_recorded_at u \<le> to_ts) (db_usage d)))))"

definition log_tail_window_seconds :: int where
  "log_tail_window_seconds = 1800"

definition log_start_time_ms :: "time \<Rightarrow> run \<Rightarrow> int option" where
  "log_start_time_ms now r =
     (if run_state r \<in> set active_run_states
      then Some (now div 1000 - log_tail_window_seconds * 1000)
      else case run_ended_at r of
          Some e \<Rightarrow> Some (e div 1000 - log_tail_window_seconds * 1000)
        | None \<Rightarrow> None)"

definition fetch_run_logs ::
    "(environment \<Rightarrow> run \<Rightarrow> nat \<Rightarrow> int option \<Rightarrow> error + string list) \<Rightarrow> time \<Rightarrow> database \<Rightarrow> string \<Rightarrow> nat
     \<Rightarrow> error + run \<times> string list" where
  "fetch_run_logs fetch_lines now d rid lmt =
     rbind (require_run d rid) (\<lambda>r.
     rbind (require_environment d (run_environment_id r)) (\<lambda>env.
     rbind (fetch_lines env r lmt (log_start_time_ms now r)) (\<lambda>lns. Inr (r, lns))))"

subsection \<open>Creation lemmas\<close>

lemma record_lf_context_frame: "\<exists>a. record_lf_context now lf actor ip rid env d = d\<lparr>db_audit := a\<rparr>"
proof (cases "env_lake_formation_enabled env")
  case True
  then show ?thesis
    by (cases "lf env") (auto simp: record_lf_context_def write_audit_event_def intro: exI [where x = "db_audit d"])
next
  case False
  then show ?thesis by (auto simp: record_lf_context_def intro: exI [where x = "db_audit d"])
qed

lemma add_run_audit_frame: "\<exists>a. write_audit_event now actor act et eid t ip dt aws (add_run r (d\<lparr>db_audit := x\<rparr>)) =
    d\<lparr>db_runs := db_runs d @ [r], db_audit := a\<rparr>"
  by (simp add: write_audit_event_def add_run_def) blast

text \<open>A call that succeeds returns the run that has the key already, or creates one.\<close>

lemma create_run_cases:
  assumes "create_run nf lf now new_id jid req actor ip ky d = Inr (r, d')"
  obtains (existing) a where "run_job_id r = jid" "run_idempotency_key r = ky" "r \<in> set (db_runs d)"
      "d' = d\<lparr>db_audit := a\<rparr>"
  | (created) j env g requested c t entries a b where
      "get_job d jid = Some j" "get_environment d (job_environment_id j) = Some env" "env_status env = EReady"
      "resolve_run_configuration nf d env req = Inr (g, requested, c)"
      "validate_custom_spark_conf_policy c = []"
      "evaluate_policies now actor ip env (policy_context req requested c) d = Inr (entries, d\<lparr>db_audit := b\<rparr>)"
      "hard_failures entries = []"
      "enforce_quota_for_run d env requested = Inr ()"
      "resolve_timeout_seconds req j env g = Inr t"
      "find_run_by_key d jid ky = None"
      "r = run_row now new_id j env ky requested (case rq_args req of Some a \<Rightarrow> a | None \<Rightarrow> job_args j) c t actor"
      "d' = d\<lparr>db_runs := db_runs d @ [r], db_audit := a\<rparr>"
proof -
  from assms obtain j env u g requested c v entries d1 w x t where
    "require_job d jid = Inr j" "lock_environment_for_quota d (job_environment_id j) = Inr env"
    "guard_err (env_status env \<noteq> EReady) (ConflictError ''Environment is not ready.'') = Inr u"
    and cfg: "resolve_run_configuration nf d env req = Inr (g, requested, c)"
    and "check_spark_conf c = Inr v"
    and ev: "evaluate_policies now actor ip env (policy_context req requested c) d = Inr (entries, d1)"
    and "check_policies entries = Inr w"
    and "enforce_quota_for_run d1 env requested = Inr x"
    and t: "resolve_timeout_seconds req j env g = Inr t"
    and ins: "insert_run lf now new_id j env ky g requested (case rq_args req of Some a \<Rightarrow> a | None \<Rightarrow> job_args j)
      c t actor ip d1 = (r, d')"
    unfolding create_run_def rbind_Inr_iff split_paired_Ex prod.case sum.inject by blast
  then have j: "get_job d jid = Some j" and env: "get_environment d (job_environment_id j) = Some env"
    and ready: "env_status env = EReady" and conf: "validate_custom_spark_conf_policy c = []"
    and hard: "hard_failures entries = []" and q: "enforce_quota_for_run d1 env requested = Inr ()"
    by (simp_all add: require_job_def lock_environment_for_quota_def check_spark_conf_def check_policies_def
        Let_def split: option.splits)
  obtain b where d1: "d1 = d\<lparr>db_audit := b\<rparr>" using evaluate_policies_frame [OF ev] by blast
  have runs: "db_runs d1 = db_runs d" by (simp add: d1)
  have jid: "job_id j = jid" using job_store.get_Some [OF j] by simp
  show thesis
  proof (cases "find_run_by_key d jid ky")
    case (Some x)
    then have "r = x" "d' = d\<lparr>db_audit := b\<rparr>"
      using ins runs d1 jid by (simp_all add: find_run_by_key_def insert_run_def)
    moreover have "x \<in> set (db_runs d) \<and> run_job_id x = jid \<and> run_idempotency_key x = ky"
      using Some by (auto simp: find_run_by_key_def find_Some_iff)
    ultimately show thesis by (intro existing) simp_all
  next
    case None
    let ?args = "case rq_args req of Some a \<Rightarrow> a | None \<Rightarrow> job_args j"
    have none: "find_run_by_key d1 (job_id j) ky = None" using None runs jid by (simp add: find_run_by_key_def)
    have r: "r = run_row now new_id j env ky requested ?args c t actor"
      using ins none by (simp add: insert_run_def Let_def)
    have "\<exists>x. d' = record_lf_context now lf actor ip new_id env
        (write_audit_event now actor ''run.create'' ''run'' new_id (Some (env_tenant_id env)) ip
         x None (add_run r (d\<lparr>db_audit := b\<rparr>)))"
      using ins none r d1 by (auto simp: insert_run_def Let_def)
    then obtain a where "d' = record_lf_context now lf actor ip new_id env (d\<lparr>db_runs := db_runs d @ [r], db_audit := a\<rparr>)"
      using add_run_audit_frame by metis
    then obtain a' where d': "d' = d\<lparr>db_runs := db_runs d @ [r], db_audit := a'\<rparr>"
      using record_lf_context_frame [of now lf actor ip new_id env "d\<lparr>db_runs := db_runs d @ [r], db_audit := a\<rparr>"] by auto
    have "enforce_quota_for_run d env requested = Inr ()"
      using q by (simp add: enforce_quota_ok_iff active_vcpu_def active_runs_of_def runs)
    from created [OF j env ready cfg conf ev [unfolded d1] hard this t None r d'] show thesis .
  qed
qed

lemma run_row_sel [simp]:
  "run_id (run_row now i j env ky rq a c t actor) = i"
  "run_environment_id (run_row now i j env ky rq a c t actor) = env_id env"
  "run_job_id (run_row now i j env ky rq a c t actor) = job_id j"
  "run_idempotency_key (run_row now i j env ky rq a c t actor) = ky"
  "run_requested_resources (run_row now i j env ky rq a c t actor) = rq"
  "run_state (run_row now i j env ky rq a c t actor) = RQueued"
  "run_spark_conf_overrides (run_row now i j env ky rq a c t actor) = c"
  "run_timeout_seconds (run_row now i j env ky rq a c t actor) = t"
  "run_claim_token (run_row now i j env ky rq a c t actor) = None"
  "run_attempt (run_row now i j env ky rq a c t actor) = 1"
  "run_started_at (run_row now i j env ky rq a c t actor) = None"
  "run_ended_at (run_row now i j env ky rq a c t actor) = None"
  "run_cancellation_requested (run_row now i j env ky rq a c t actor) = False"
  by (simp_all add: run_row_def)

lemma resolve_timeout_bound: "resolve_timeout_seconds req j env g = Inr t \<Longrightarrow> t \<le> env_max_run_seconds env"
  by (auto simp: resolve_timeout_seconds_def Let_def split: if_splits)

lemma resolve_timeout_golden:
  "resolve_timeout_seconds req j env (Some g) = Inr t \<Longrightarrow> t \<le> gp_max_runtime_minutes g * 60"
  by (auto simp: resolve_timeout_seconds_def Let_def split: if_splits)

text \<open>Admission keeps the environment of the new run, and every other, within its limits.\<close>

lemma create_run_within_quota:
  assumes run: "create_run nf lf now new_id jid req actor ip ky d = Inr (r, d')"
    and e: "within_quota d e" and uniq: "\<And>j env. get_environment d j = Some env \<Longrightarrow> env_id env = env_id e \<Longrightarrow> env = e"
  shows "within_quota d' e"
  using run
proof (cases rule: create_run_cases)
  case (existing a)
  then have "db_runs d' = db_runs d" by simp
  then show ?thesis using e within_quota_cong by metis
next
  case (created j env g requested c t entries a b)
  have runs: "db_runs d' = db_runs d @ [r]" by (simp add: created)
  show ?thesis
  proof (cases "env_id env = env_id e")
    case True
    then have "env = e" using uniq created by blast
    then show ?thesis using created by (intro admit_within_quota [OF _ runs]) simp_all
  next
    case False
    then show ?thesis using e admit_other_environment [OF runs, of e] created by simp
  qed
qed

text \<open>A hard policy that applies and fails refuses the run.\<close>

lemma create_run_hard_policy:
  assumes p: "p \<in> set (db_policies d)" "policy_applies env p" "pol_enforcement p = ''hard''"
    and job: "get_job d jid = Some j" "get_environment d (job_environment_id j) = Some env"
    and cfg: "resolve_run_configuration nf d env req = Inr (g, requested, c)"
    and rule: "map_of rule_evaluators (pol_rule_type p) = Some f"
      "f (pol_config p) (policy_context req requested c) = Inr res" "\<not> er_passed res"
    and new: "find_run_by_key d jid ky = None"
  shows "\<exists>e. create_run nf lf now new_id jid req actor ip ky d = Inl e"
proof (cases "create_run nf lf now new_id jid req actor ip ky d")
  case (Inl e)
  then show ?thesis by blast
next
  case (Inr rd)
  obtain r d' where "create_run nf lf now new_id jid req actor ip ky d = Inr (r, d')" using Inr by (cases rd) auto
  then show ?thesis
  proof (cases rule: create_run_cases)
    case (existing a)
    then show ?thesis using new by (auto simp: find_run_by_key_def find_None_iff)
  next
    case (created j' env' g' requested' c' t entries a b)
    have "j' = j" "env' = env" using created(1,2) job by simp_all
    then have "requested' = requested" "c' = c" using created(4) cfg by simp_all
    then have ev: "evaluate_policies now actor ip env (policy_context req requested c) d = Inr (entries, d\<lparr>db_audit := b\<rparr>)"
      using created(6) \<open>env' = env\<close> by simp
    show ?thesis using hard_failure_blocks [OF ev p rule] created(7) by simp
  qed
qed

subsection \<open>Cancellation lemmas\<close>

lemma cancel_run_cases:
  assumes "cancel_run now rid actor ip d = Inr (r', d')"
  obtains (terminal) r where "get_run d rid = Some r" "terminal (run_state r)" "r' = r" "d' = d"
  | (cancelled) r where "get_run d rid = Some r" "run_state r \<in> {RQueued, RDispatching}"
      "\<exists>a. d' = (modify_run now rid (\<lambda>r. r\<lparr>run_state := RCancelled, run_ended_at := Some now\<rparr>) d)\<lparr>db_audit := a\<rparr>"
      "run_state r' = RCancelled"
  | (requested) r where "get_run d rid = Some r" "run_state r \<in> {RAccepted, RRunning}"
      "\<exists>a. d' = (modify_run now rid (\<lambda>r. r\<lparr>run_cancellation_requested := True\<rparr>) d)\<lparr>db_audit := a\<rparr>"
      "run_state r' = run_state r" "run_cancellation_requested r'"
proof -
  from assms obtain r env where r: "get_run d rid = Some r" and env: "get_environment d (run_environment_id r) = Some env"
    by (auto simp: cancel_run_def rbind_Inr_iff require_run_def require_environment_def)
  have run: "(if run_state r \<in> set terminal_run_states then Inr (r, d)
     else
       let d1 = (if run_state r \<in> {RQueued, RDispatching}
                 then modify_run now rid (\<lambda>r. r\<lparr>run_state := RCancelled, run_ended_at := Some now\<rparr>) d
                 else modify_run now rid (\<lambda>r. r\<lparr>run_cancellation_requested := True\<rparr>) d);
           d2 = write_audit_event now actor ''run.cancel.request'' ''run'' rid (Some (env_tenant_id env)) ip
                  [] None d1
       in Inr (case get_run d2 rid of Some r' \<Rightarrow> r' | None \<Rightarrow> r, d2)) = (Inr (r', d') :: error + run \<times> database)"
    using assms r env by (simp add: cancel_run_def require_run_def require_environment_def require_entity_def)
  show thesis
  proof (cases "terminal (run_state r)")
    case True
    then show thesis using run by (intro terminal [OF r]) simp_all
  next
    case nt: False
    show thesis
    proof (cases "run_state r \<in> {RQueued, RDispatching}")
      case True
      let ?f = "\<lambda>r. r\<lparr>run_state := RCancelled, run_ended_at := Some now\<rparr>"
      have g: "get_run (modify_run now rid ?f d) rid = Some (upd_run now ?f r)"
        using run_store.get_modify_same [where f = ?f and d = d and i = rid and now = now] r by simp
      from run nt True g have "r' = upd_run now ?f r" "\<exists>a. d' = (modify_run now rid ?f d)\<lparr>db_audit := a\<rparr>"
        by (auto simp: Let_def write_audit_event_def get_run_def)
      then show thesis by (intro cancelled [OF r True]) simp_all
    next
      case False
      let ?f = "\<lambda>r. r\<lparr>run_cancellation_requested := True\<rparr>"
      have g: "get_run (modify_run now rid ?f d) rid = Some (upd_run now ?f r)"
        using run_store.get_modify_same [where f = ?f and d = d and i = rid and now = now] r by simp
      from run nt False g have "r' = upd_run now ?f r" "\<exists>a. d' = (modify_run now rid ?f d)\<lparr>db_audit := a\<rparr>"
        by (auto simp: Let_def write_audit_event_def get_run_def)
      moreover have "run_state r \<in> {RAccepted, RRunning}" using nt False by (cases "run_state r") auto
      ultimately show thesis by (intro requested [OF r]) simp_all
    qed
  qed
qed

end
