(* ===== verification/SP_Claims.thy ===== *)
theory SP_Claims
  imports SP_Helpers
begin

text \<open>
  \<open>services/workers_common.py\<close>: workers claim rows by a conditional update, with a token and the
  time of the claim; a claim older than the time to live is stale and may be taken over. Then the
  test for a transient dispatch error.

  A candidate list is read first and every update repeats the condition, so the conditional update
  (\<open>claim_run_row\<close>, \<open>claim_operation_row\<close>) is the atomic step. \<open>clk\<close> gives the time at which
  the update of each row happens.
\<close>

definition worker_claim_ttl_seconds :: int where
  "worker_claim_ttl_seconds = 1800"

definition claim_cutoff_time :: "time \<Rightarrow> time" where
  "claim_cutoff_time now = now - worker_claim_ttl_seconds * 1000000"

definition provisioning_claim_available :: "time \<Rightarrow> prov_op \<Rightarrow> bool" where
  "provisioning_claim_available cutoff_time r \<longleftrightarrow>
     op_claim_token r = None \<or> op_claimed_at r = None \<or>
     (case op_claimed_at r of None \<Rightarrow> False | Some t \<Rightarrow> t < cutoff_time)"

definition run_claim_available :: "time \<Rightarrow> run \<Rightarrow> bool" where
  "run_claim_available cutoff_time r \<longleftrightarrow>
     run_claim_token r = None \<or> run_claimed_at r = None \<or>
     (case run_claimed_at r of None \<Rightarrow> False | Some t \<Rightarrow> t < cutoff_time)"

text \<open>The loop over the candidates keeps the keys whose update matched exactly one row.\<close>

fun claim_each :: "(string \<Rightarrow> 'db \<Rightarrow> bool \<times> 'db) \<Rightarrow> string list \<Rightarrow> 'db \<Rightarrow> string list \<times> 'db" where
  "claim_each attempt [] d = ([], d)"
| "claim_each attempt (i # is) d =
     (case attempt i d of (claimed, d1) \<Rightarrow>
        (case claim_each attempt is d1 of (ids, d2) \<Rightarrow> (if claimed then i # ids else ids, d2)))"

definition claim_operation_row ::
    "prov_state list \<Rightarrow> time \<Rightarrow> string \<Rightarrow> time \<Rightarrow> string \<Rightarrow> database \<Rightarrow> bool \<times> database" where
  "claim_operation_row states cutoff_time claim_token now op_id' d =
     (let hit = (\<lambda>r. op_id r = op_id' \<and> op_state r \<in> set states \<and> provisioning_claim_available cutoff_time r)
      in (length (filter hit (db_ops d)) = 1,
          d\<lparr>db_ops := map (\<lambda>r. if hit r
              then upd_operation now (\<lambda>r. r\<lparr>op_claim_token := Some claim_token, op_claimed_at := Some now\<rparr>) r
              else r) (db_ops d)\<rparr>))"

definition claim_provisioning_operations ::
    "time \<Rightarrow> (string \<Rightarrow> time) \<Rightarrow> string \<Rightarrow> prov_state list \<Rightarrow> database \<Rightarrow> prov_op list \<times> database" where
  "claim_provisioning_operations now clk claim_token provisioning_steps d =
     (let states = PQueued # provisioning_steps;
          cutoff_time = claim_cutoff_time now;
          candidate_ids = map op_id (sort_key op_created_at
            (filter (\<lambda>r. op_state r \<in> set states \<and> provisioning_claim_available cutoff_time r) (db_ops d)))
      in case claim_each (\<lambda>i. claim_operation_row states cutoff_time claim_token (clk i) i) candidate_ids d of
           (claimed_ids, d') \<Rightarrow>
             (if claimed_ids = [] then []
              else sort_key op_created_at (filter (\<lambda>r. op_id r \<in> set claimed_ids) (db_ops d')), d'))"

definition claim_run_row ::
    "run_state list \<Rightarrow> time \<Rightarrow> string \<Rightarrow> time \<Rightarrow> string \<Rightarrow> database \<Rightarrow> bool \<times> database" where
  "claim_run_row states cutoff_time claim_token now run_id' d =
     (let hit = (\<lambda>r. run_id r = run_id' \<and> run_state r \<in> set states \<and> run_claim_available cutoff_time r)
      in (length (filter hit (db_runs d)) = 1,
          d\<lparr>db_runs := map (\<lambda>r. if hit r
              then upd_run now (\<lambda>r. r\<lparr>run_claim_token := Some claim_token, run_claimed_at := Some now\<rparr>) r
              else r) (db_runs d)\<rparr>))"

definition claim_runs ::
    "time \<Rightarrow> (string \<Rightarrow> time) \<Rightarrow> string \<Rightarrow> run_state list \<Rightarrow> nat \<Rightarrow> (run \<Rightarrow> time) \<Rightarrow> database
     \<Rightarrow> run list \<times> database" where
  "claim_runs now clk claim_token states lim order_by_column d =
     (let cutoff_time = claim_cutoff_time now;
          candidate_ids = map run_id (take lim (sort_key order_by_column
            (filter (\<lambda>r. run_state r \<in> set states \<and> run_claim_available cutoff_time r) (db_runs d))))
      in case claim_each (\<lambda>i. claim_run_row states cutoff_time claim_token (clk i) i) candidate_ids d of
           (claimed_ids, d') \<Rightarrow>
             (if claimed_ids = [] then []
              else sort_key order_by_column (filter (\<lambda>r. run_id r \<in> set claimed_ids) (db_runs d')), d'))"

definition release_operation_claim :: "prov_op \<Rightarrow> prov_op" where
  "release_operation_claim r = r\<lparr>op_claim_token := None, op_claimed_at := None\<rparr>"

definition release_run_claim :: "run \<Rightarrow> run" where
  "release_run_claim r = r\<lparr>run_claim_token := None, run_claimed_at := None\<rparr>"

subsection \<open>Transient dispatch errors\<close>

definition transient_dispatch_error_codes :: "string list" where
  "transient_dispatch_error_codes =
     [''Throttling'', ''ThrottlingException'', ''TooManyRequestsException'',
      ''ServiceUnavailableException'', ''InternalServerException'', ''RequestTimeout'',
      ''RequestTimeoutException'', ''ProvisionedThroughputExceededException'']"

definition transient_dispatch_error_classnames :: "string list" where
  "transient_dispatch_error_classnames =
     [''EndpointConnectionError'', ''ConnectTimeoutError'', ''ReadTimeoutError'']"

definition transient_dispatch_error_tokens :: "string list" where
  "transient_dispatch_error_tokens =
     [''throttl'', ''rate exceeded'', ''too many requests'', ''timeout'', ''temporarily unavailable'',
      ''connection reset'', ''connection aborted'']"

definition extract_aws_error_code :: "exn \<Rightarrow> string option" where
  "extract_aws_error_code e = exn_code e"

definition is_transient_dispatch_error :: "exn \<Rightarrow> bool" where
  "is_transient_dispatch_error e =
     (case extract_aws_error_code e of
        Some code \<Rightarrow> if code \<noteq> [] \<and> code \<in> set transient_dispatch_error_codes then True
          else exn_class e \<in> set transient_dispatch_error_classnames \<or>
            list_ex (\<lambda>tok. contains_sub tok (py_lower (exn_text e))) transient_dispatch_error_tokens
      | None \<Rightarrow> exn_class e \<in> set transient_dispatch_error_classnames \<or>
          list_ex (\<lambda>tok. contains_sub tok (py_lower (exn_text e))) transient_dispatch_error_tokens)"

subsection \<open>The contract of a claim\<close>

text \<open>
  \<open>attempt c tk t i\<close> is the conditional update of the row \<open>i\<close> at time \<open>t\<close>. \<open>mark\<close> is what it does
  to a row it matches.
\<close>

locale claim_store =
  fixes rows :: "'db \<Rightarrow> 'r list"
    and rid :: "'r \<Rightarrow> string"
    and tok :: "'r \<Rightarrow> string option"
    and since :: "'r \<Rightarrow> time option"
    and eligible :: "'r \<Rightarrow> bool"
    and free :: "time \<Rightarrow> 'r \<Rightarrow> bool"
    and mark :: "time \<Rightarrow> string \<Rightarrow> 'r \<Rightarrow> 'r"
    and attempt :: "time \<Rightarrow> string \<Rightarrow> time \<Rightarrow> string \<Rightarrow> 'db \<Rightarrow> bool \<times> 'db"
  assumes free_iff: "free c r \<longleftrightarrow> tok r = None \<or> since r = None \<or> the (since r) < c"
    and mark_simps: "rid (mark t tk r) = rid r" "tok (mark t tk r) = Some tk"
      "since (mark t tk r) = Some t" "eligible (mark t tk r) = eligible r"
    and attempt_fst: "fst (attempt c tk t i d) \<longleftrightarrow>
      length (filter (\<lambda>r. rid r = i \<and> eligible r \<and> free c r) (rows d)) = 1"
    and attempt_rows: "rows (snd (attempt c tk t i d)) =
      map (\<lambda>r. if rid r = i \<and> eligible r \<and> free c r then mark t tk r else r) (rows d)"
begin

definition locked :: "time \<Rightarrow> string \<Rightarrow> 'db \<Rightarrow> bool" where
  "locked t0 i d \<longleftrightarrow> (\<forall>r \<in> set (rows d). rid r = i \<longrightarrow>
     eligible r \<longrightarrow> tok r \<noteq> None \<and> (\<exists>t. since r = Some t \<and> t0 \<le> t))"

lemma ids_attempt: "map rid (rows (snd (attempt c tk t i d))) = map rid (rows d)"
  by (simp add: attempt_rows mark_simps cong: if_cong)

lemma locked_not_free: "locked t0 i d \<Longrightarrow> r \<in> set (rows d) \<Longrightarrow> rid r = i \<Longrightarrow> eligible r \<Longrightarrow> c \<le> t0 \<Longrightarrow> \<not> free c r"
  by (fastforce simp: locked_def free_iff)

lemma locked_blocks: "locked t0 i d \<Longrightarrow> c \<le> t0 \<Longrightarrow> \<not> fst (attempt c tk t i d)"
proof -
  assume a: "locked t0 i d" "c \<le> t0"
  have "filter (\<lambda>r. rid r = i \<and> eligible r \<and> free c r) (rows d) = []"
    using locked_not_free [OF a(1) _ _ _ a(2)] by (auto simp: filter_empty_conv)
  then show ?thesis unfolding attempt_fst by simp
qed

lemma locked_attempt: "locked t0 i d \<Longrightarrow> t0 \<le> t \<Longrightarrow> locked t0 i (snd (attempt c tk t j d))"
  by (auto simp: locked_def attempt_rows mark_simps split: if_splits)

text \<open>A row is never claimed by two updates whose cutoff lies before both.\<close>

lemma attempt_locks: "fst (attempt c tk t i d) \<Longrightarrow> distinct (map rid (rows d)) \<Longrightarrow> t0 \<le> t \<Longrightarrow> locked t0 i (snd (attempt c tk t i d))"
proof -
  assume f: "fst (attempt c tk t i d)" and dist: "distinct (map rid (rows d))" and t: "t0 \<le> t"
  from f [unfolded attempt_fst] obtain r where "filter (\<lambda>r. rid r = i \<and> eligible r \<and> free c r) (rows d) = [r]"
    by (metis One_nat_def length_0_conv length_Suc_conv)
  then have r: "r \<in> set (rows d)" "rid r = i" "eligible r" "free c r"
    by (auto simp: filter_eq_Cons_iff)
  show ?thesis
    unfolding locked_def
  proof (intro ballI impI)
    fix r' assume r': "r' \<in> set (rows (snd (attempt c tk t i d)))" "rid r' = i" "eligible r'"
    then obtain q where q: "q \<in> set (rows d)"
      and r'q: "r' = (if rid q = i \<and> eligible q \<and> free c q then mark t tk q else q)"
      by (auto simp: attempt_rows)
    have "rid q = i" using r'(2) r'q by (auto simp: mark_simps split: if_splits)
    then have "q = r" using q r(1,2) dist by (metis inj_on_contraD distinct_map)
    then have "r' = mark t tk r" using r'q r by simp
    then show "tok r' \<noteq> None \<and> (\<exists>t. since r' = Some t \<and> t0 \<le> t)" using t by (simp add: mark_simps)
  qed
qed

fun attempts :: "(time \<times> string \<times> time \<times> string) list \<Rightarrow> 'db \<Rightarrow> bool list \<times> 'db" where
  "attempts [] d = ([], d)"
| "attempts ((c, tk, t, i) # as) d =
     (case attempt c tk t i d of (b, d1) \<Rightarrow> (case attempts as d1 of (bs, d2) \<Rightarrow> (b # bs, d2)))"

definition wins :: "string \<Rightarrow> (time \<times> string \<times> time \<times> string) list \<Rightarrow> bool list \<Rightarrow> nat" where
  "wins i as bs = length (filter (\<lambda>((c, tk, t, j), b). b \<and> j = i) (zip as bs))"

definition within_ttl :: "time \<Rightarrow> (time \<times> string \<times> time \<times> string) list \<Rightarrow> bool" where
  "within_ttl t0 as \<longleftrightarrow> (\<forall>(c, tk, t, j) \<in> set as. c \<le> t0 \<and> t0 \<le> t)"

lemma locked_no_wins: "locked t0 i d \<Longrightarrow> within_ttl t0 as \<Longrightarrow> wins i as (fst (attempts as d)) = 0"
proof (induction as arbitrary: d)
  case Nil
  then show ?case by (simp add: wins_def)
next
  case (Cons a as)
  obtain c tk t j where a: "a = (c, tk, t, j)" by (metis surj_pair)
  have t: "c \<le> t0" "t0 \<le> t" "within_ttl t0 as"
    using Cons.prems(2) by (auto simp: within_ttl_def a)
  have lk: "locked t0 i (snd (attempt c tk t j d))" by (rule locked_attempt [OF Cons.prems(1) t(2)])
  have "\<not> (fst (attempt c tk t j d) \<and> j = i)" using locked_blocks [OF Cons.prems(1) t(1)] by auto
  then show ?case using Cons.IH [OF lk t(3)]
    by (auto simp: wins_def a split: prod.splits)
qed

lemma at_most_one_winner:
  "distinct (map rid (rows d)) \<Longrightarrow> within_ttl t0 as \<Longrightarrow> wins i as (fst (attempts as d)) \<le> 1"
proof (induction as arbitrary: d)
  case Nil
  then show ?case by (simp add: wins_def)
next
  case (Cons a as)
  obtain c tk t j where a: "a = (c, tk, t, j)" by (metis surj_pair)
  have t: "c \<le> t0" "t0 \<le> t" "within_ttl t0 as"
    using Cons.prems(2) by (auto simp: within_ttl_def a)
  have dist: "distinct (map rid (rows (snd (attempt c tk t j d))))" using Cons.prems(1) by (simp add: ids_attempt)
  show ?case
  proof (cases "fst (attempt c tk t j d) \<and> j = i")
    case True
    then have "locked t0 i (snd (attempt c tk t j d))"
      using attempt_locks [of c tk t i d t0] Cons.prems(1) t by auto
    from locked_no_wins [OF this t(3)] show ?thesis
      using True by (auto simp: wins_def a split: prod.splits)
  next
    case False
    then show ?thesis using Cons.IH [OF dist t(3)]
      by (auto simp: wins_def a split: prod.splits)
  qed
qed

text \<open>The loop over the candidates, all with the token and cutoff of one pass.\<close>

abbreviation each :: "time \<Rightarrow> string \<Rightarrow> (string \<Rightarrow> time) \<Rightarrow> string list \<Rightarrow> 'db \<Rightarrow> string list \<times> 'db" where
  "each c tk clk \<equiv> claim_each (\<lambda>i. attempt c tk (clk i) i)"

lemma each_rows:
  "distinct is \<Longrightarrow> rows (snd (each c tk clk is d)) =
     map (\<lambda>r. if rid r \<in> set is \<and> eligible r \<and> free c r then mark (clk (rid r)) tk r else r) (rows d)"
proof (induction "is" arbitrary: d)
  case Nil
  then show ?case by simp
next
  case (Cons i "is")
  have "rows (snd (each c tk clk (i # is) d)) = rows (snd (each c tk clk is (snd (attempt c tk (clk i) i d))))"
    by (simp split: prod.splits)
  also have "\<dots> = map (\<lambda>r. if rid r \<in> set is \<and> eligible r \<and> free c r then mark (clk (rid r)) tk r else r)
      (map (\<lambda>r. if rid r = i \<and> eligible r \<and> free c r then mark (clk i) tk r else r) (rows d))"
    using Cons by (simp add: attempt_rows)
  also have "\<dots> = map (\<lambda>r. if rid r \<in> set (i # is) \<and> eligible r \<and> free c r then mark (clk (rid r)) tk r else r) (rows d)"
    using Cons.prems by (auto simp: mark_simps)
  finally show ?case .
qed

lemma each_ids:
  "distinct (map rid (rows d)) \<Longrightarrow> distinct is \<Longrightarrow> fst (each c tk clk is d) =
     filter (\<lambda>i. \<exists>r \<in> set (rows d). rid r = i \<and> eligible r \<and> free c r) is"
proof (induction "is" arbitrary: d)
  case Nil
  then show ?case by simp
next
  case (Cons i "is")
  let ?P = "\<lambda>r. rid r = i \<and> eligible r \<and> free c r"
  let ?d = "snd (attempt c tk (clk i) i d)"
  have one: "fst (attempt c tk (clk i) i d) \<longleftrightarrow> (\<exists>r \<in> set (rows d). ?P r)"
  proof
    assume "fst (attempt c tk (clk i) i d)"
    then have "filter ?P (rows d) \<noteq> []" by (auto simp: attempt_fst)
    then show "\<exists>r \<in> set (rows d). ?P r" by (auto simp: filter_empty_conv)
  next
    assume "\<exists>r \<in> set (rows d). ?P r"
    then obtain r where r: "r \<in> set (rows d)" "?P r" by blast
    have "distinct (map rid (filter ?P (rows d)))" using Cons.prems(1) by (rule distinct_map_filter)
    moreover have "set (map rid (filter ?P (rows d))) = {i}" using r by auto
    ultimately have "length (map rid (filter ?P (rows d))) = 1" by (metis card.empty card_insert_disjoint distinct_card empty_iff finite.emptyI One_nat_def)
    then show "fst (attempt c tk (clk i) i d)" by (simp add: attempt_fst)
  qed
  have other: "(\<exists>r \<in> set (rows ?d). rid r = j \<and> eligible r \<and> free c r) \<longleftrightarrow>
      (\<exists>r \<in> set (rows d). rid r = j \<and> eligible r \<and> free c r)" if "j \<in> set is" for j
  proof -
    have "j \<noteq> i" using that Cons.prems(2) by auto
    then show ?thesis by (auto simp: attempt_rows mark_simps)
  qed
  have "fst (each c tk clk is ?d) = filter (\<lambda>j. \<exists>r \<in> set (rows d). rid r = j \<and> eligible r \<and> free c r) is"
    using Cons.IH [of ?d] Cons.prems other by (simp add: ids_attempt cong: filter_cong)
  then show ?case using one by (auto simp: case_prod_beta)
qed

lemma ids_each: "distinct is \<Longrightarrow> map rid (rows (snd (each c tk clk is d))) = map rid (rows d)"
  by (simp add: each_rows mark_simps)

text \<open>All candidates a pass selects are claimed when no other transaction comes between.\<close>

lemma each_selected:
  assumes "distinct (map rid (rows d))" "distinct is"
    and "\<And>i. i \<in> set is \<Longrightarrow> \<exists>r \<in> set (rows d). rid r = i \<and> eligible r \<and> free c r"
  shows "fst (each c tk clk is d) = is"
  using each_ids [OF assms(1,2)] assms(3) by (simp add: filter_id_conv)

lemma each_claimed:
  assumes dist: "distinct (map rid (rows d))" "distinct is"
    and r': "r' \<in> set (rows (snd (each c tk clk is d)))" "rid r' \<in> set (fst (each c tk clk is d))"
  shows "\<exists>r \<in> set (rows d). r' = mark (clk (rid r)) tk r \<and> rid r' = rid r \<and> rid r \<in> set is \<and> eligible r \<and> free c r"
proof -
  from r'(1) obtain r where r: "r \<in> set (rows d)"
    and r'r: "r' = (if rid r \<in> set is \<and> eligible r \<and> free c r then mark (clk (rid r)) tk r else r)"
    by (auto simp: each_rows [OF dist(2)])
  have rid: "rid r' = rid r" using r'r by (simp add: mark_simps)
  from r'(2) obtain q where q: "q \<in> set (rows d)" "rid q = rid r'" "eligible q" "free c q" "rid r' \<in> set is"
    by (auto simp: each_ids [OF dist])
  have "q = r" using q r dist(1) rid by (metis inj_on_contraD distinct_map)
  then show ?thesis using q r r'r rid by auto
qed

end

interpretation run_claims: claim_store db_runs run_id run_claim_token run_claimed_at
    "\<lambda>r. run_state r \<in> set states" run_claim_available
    "\<lambda>t tk. upd_run t (\<lambda>r. r\<lparr>run_claim_token := Some tk, run_claimed_at := Some t\<rparr>)"
    "claim_run_row states"
  for states
  by unfold_locales
    (auto simp: run_claim_available_def claim_run_row_def split: option.splits)

interpretation op_claims: claim_store db_ops op_id op_claim_token op_claimed_at
    "\<lambda>r. op_state r \<in> set states" provisioning_claim_available
    "\<lambda>t tk. upd_operation t (\<lambda>r. r\<lparr>op_claim_token := Some tk, op_claimed_at := Some t\<rparr>)"
    "claim_operation_row states"
  for states
  by unfold_locales
    (auto simp: provisioning_claim_available_def claim_operation_row_def
      split: option.splits)

subsection \<open>What a pass claims\<close>

lemma distinct_claim_candidates:
  "distinct (map rid t) \<Longrightarrow> distinct (map rid (take n (sort_key k (filter P t))))"
proof -
  assume d: "distinct (map rid t)"
  have "set (take n (sort_key k (filter P t))) \<subseteq> set t" by (auto dest: in_set_takeD)
  moreover have "distinct (take n (sort_key k (filter P t)))"
    using d by (simp add: distinct_map)
  ultimately show ?thesis
    using d inj_on_subset by (auto simp only: distinct_map)
qed

text \<open>Every run a pass returns was in a listed state and free, and now carries the token of the pass.\<close>

lemma claim_runs_claimed:
  assumes dist: "distinct (map run_id (db_runs d))"
    and cl: "claim_runs now clk tk states lim col d = (rs, d')" and r': "r' \<in> set rs"
  shows "\<exists>r \<in> set (db_runs d). r' = upd_run (clk (run_id r)) (\<lambda>q. q\<lparr>run_claim_token := Some tk, run_claimed_at := Some (clk (run_id r))\<rparr>) r
    \<and> run_state r \<in> set states \<and> run_claim_available (claim_cutoff_time now) r \<and> r' \<in> set (db_runs d')"
proof -
  let ?c = "claim_cutoff_time now"
  let ?is = "map run_id (take lim (sort_key col (filter (\<lambda>r. run_state r \<in> set states \<and> run_claim_available ?c r) (db_runs d))))"
  let ?e = "claim_each (\<lambda>i. claim_run_row states ?c tk (clk i) i) ?is d"
  have di: "distinct ?is" by (rule distinct_claim_candidates [OF dist])
  from cl r' have d': "d' = snd ?e" and mem: "r' \<in> set (db_runs (snd ?e))" "run_id r' \<in> set (fst ?e)"
    by (auto simp: claim_runs_def Let_def split: prod.splits if_splits)
  from run_claims.each_claimed [OF dist di mem] obtain r where r: "r \<in> set (db_runs d)"
    "r' = upd_run (clk (run_id r)) (\<lambda>q. q\<lparr>run_claim_token := Some tk, run_claimed_at := Some (clk (run_id r))\<rparr>) r"
    "run_state r \<in> set states" "run_claim_available ?c r" by blast
  show ?thesis unfolding d' by (intro bexI [OF _ r(1)] conjI r(2-4) mem(1))
qed

lemma claim_runs_length:
  assumes dist: "distinct (map run_id (db_runs d))"
    and cl: "claim_runs now clk tk states lim col d = (rs, d')"
  shows "length rs \<le> lim \<and> distinct (map run_id rs)"
proof -
  let ?c = "claim_cutoff_time now"
  let ?is = "map run_id (take lim (sort_key col (filter (\<lambda>r. run_state r \<in> set states \<and> run_claim_available ?c r) (db_runs d))))"
  let ?e = "claim_each (\<lambda>i. claim_run_row states ?c tk (clk i) i) ?is d"
  have di: "distinct ?is" by (rule distinct_claim_candidates [OF dist])
  have dist': "distinct (map run_id (db_runs (snd ?e)))"
    using dist by (simp only: run_claims.ids_each [OF di])
  have rs: "rs = [] \<or> rs = sort_key col (filter (\<lambda>r. run_id r \<in> set (fst ?e)) (db_runs (snd ?e)))"
    using cl by (auto simp: claim_runs_def Let_def split: prod.splits if_splits)
  then have dr: "distinct (map run_id rs)"
    using distinct_claim_candidates [OF dist', of "length (db_runs (snd ?e))" col "\<lambda>r. run_id r \<in> set (fst ?e)"]
    by auto
  have "set (map run_id rs) \<subseteq> set ?is"
    using rs by (auto simp: run_claims.each_ids [OF dist di])
  then have "length (map run_id rs) \<le> length ?is"
    by (metis card_length card_mono distinct_card dr finite_set order_trans)
  then show ?thesis using dr by simp
qed

text \<open>A claim writes only the claim columns of runs.\<close>

lemma claim_each_frame:
  assumes "\<And>i d. \<exists>t. snd (attempt i d) = d\<lparr>db_runs := t\<rparr>"
  shows "\<exists>t. snd (claim_each attempt is d) = d\<lparr>db_runs := t\<rparr>"
proof (induction "is" arbitrary: d)
  case Nil
  then show ?case by (auto intro: exI [where x = "db_runs d"])
next
  case (Cons i "is")
  obtain t where t: "snd (attempt i d) = d\<lparr>db_runs := t\<rparr>" using assms by blast
  from Cons [of "d\<lparr>db_runs := t\<rparr>"] show ?case by (auto simp: case_prod_beta t)
qed

lemma claim_runs_frame:
  "claim_runs now clk tk states lim col d = (rs, d') \<Longrightarrow> \<exists>t. d' = d\<lparr>db_runs := t\<rparr>"
proof -
  let ?at = "\<lambda>i. claim_run_row states (claim_cutoff_time now) tk (clk i) i"
  assume cl: "claim_runs now clk tk states lim col d = (rs, d')"
  have "\<And>i d. \<exists>t. snd (?at i d) = d\<lparr>db_runs := t\<rparr>" by (auto simp: claim_run_row_def Let_def)
  note fr = claim_each_frame [of ?at, OF this]
  have "\<exists>ids. d' = snd (claim_each ?at ids d)"
    using cl unfolding claim_runs_def Let_def case_prod_beta by (intro exI) (auto dest: arg_cong [of _ _ snd])
  then obtain ids where "d' = snd (claim_each ?at ids d)" by blast
  then show ?thesis using fr by auto
qed

lemma claim_runs_rows:
  assumes dist: "distinct (map run_id (db_runs d))"
    and cl: "claim_runs now clk tk states lim col d = (rs, d')"
  shows "\<exists>P. db_runs d' = map (\<lambda>r. if P r then upd_run (clk (run_id r))
      (\<lambda>q. q\<lparr>run_claim_token := Some tk, run_claimed_at := Some (clk (run_id r))\<rparr>) r else r) (db_runs d)"
proof -
  let ?c = "claim_cutoff_time now"
  let ?is = "map run_id (take lim (sort_key col (filter (\<lambda>r. run_state r \<in> set states \<and> run_claim_available ?c r) (db_runs d))))"
  have di: "distinct ?is" by (rule distinct_claim_candidates [OF dist])
  have "d' = snd (claim_each (\<lambda>i. claim_run_row states ?c tk (clk i) i) ?is d)"
    using cl by (auto simp: claim_runs_def Let_def split: prod.splits if_splits)
  then show ?thesis using run_claims.each_rows [OF di, of states ?c tk clk d]
    by (intro exI [where x = "\<lambda>r. run_id r \<in> set ?is \<and> run_state r \<in> set states \<and> run_claim_available ?c r"]) simp
qed

subsection \<open>Races\<close>

text \<open>
  The conditional updates of several workers, in the order the database serialises them: each entry is
  the cutoff and the token of a worker, the time of the update and the id of the run.
\<close>

type_synonym claim_attempt = "time \<times> string \<times> time \<times> string"

fun race_for_runs :: "run_state list \<Rightarrow> claim_attempt list \<Rightarrow> database \<Rightarrow> bool list \<times> database" where
  "race_for_runs states [] d = ([], d)"
| "race_for_runs states ((c, tk, t, i) # as) d =
     (case claim_run_row states c tk t i d of (b, d1) \<Rightarrow>
       (case race_for_runs states as d1 of (bs, d2) \<Rightarrow> (b # bs, d2)))"

definition times_claimed :: "string \<Rightarrow> claim_attempt list \<Rightarrow> bool list \<Rightarrow> nat" where
  "times_claimed i as bs = length (filter (\<lambda>((c, tk, t, j), b). b \<and> j = i) (zip as bs))"

text \<open>No cutoff lies after \<open>t0\<close> and no update before it: the claims made in the race have not expired.\<close>

definition within_ttl_of :: "time \<Rightarrow> claim_attempt list \<Rightarrow> bool" where
  "within_ttl_of t0 as \<longleftrightarrow> (\<forall>(c, tk, t, j) \<in> set as. c \<le> t0 \<and> t0 \<le> t)"

lemma race_for_runs_attempts: "race_for_runs states as d = run_claims.attempts states as d"
  by (induction as arbitrary: d) (auto split: prod.splits)

lemma race_winners:
  assumes "distinct (map run_id (db_runs d))" "within_ttl_of t0 as"
  shows "times_claimed i as (fst (race_for_runs states as d)) \<le> 1"
  using run_claims.at_most_one_winner [of d t0 as i states] assms
  by (simp add: race_for_runs_attempts within_ttl_of_def times_claimed_def run_claims.within_ttl_def run_claims.wins_def)

end
