(* ===== verification/SP_RunSteps.thy ===== *)
theory SP_RunSteps
  imports SP_Quota SP_Claims
begin

text \<open>
  How the rows of runs may change: what every operation keeps (\<open>frozen\<close>), what a step may do to one
  row (\<open>row_step\<close>) and to the table (\<open>runs_step\<close>). These relations are reflexive and transitive, so
  the passes of the workers, which work one row after another, inherit them.
\<close>

definition frozen :: "run \<Rightarrow> run \<Rightarrow> bool" where
  "frozen r r' \<longleftrightarrow> run_id r' = run_id r \<and> run_job_id r' = run_job_id r \<and>
     run_environment_id r' = run_environment_id r \<and> run_idempotency_key r' = run_idempotency_key r \<and>
     run_requested_resources r' = run_requested_resources r \<and> run_args_overrides r' = run_args_overrides r \<and>
     run_spark_conf_overrides r' = run_spark_conf_overrides r \<and> run_timeout_seconds r' = run_timeout_seconds r \<and>
     run_created_by_actor r' = run_created_by_actor r \<and> run_created_at r' = run_created_at r"

definition started :: "run_state \<Rightarrow> bool" where
  "started s \<longleftrightarrow> s \<in> {RAccepted, RRunning}"

definition row_step :: "run \<Rightarrow> run \<Rightarrow> bool" where
  "row_step r r' \<longleftrightarrow> frozen r r' \<and> (terminal (run_state r) \<longrightarrow> r' = r) \<and>
     (started (run_state r) \<longrightarrow> started (run_state r') \<or> terminal (run_state r'))"

definition runs_step :: "(run \<Rightarrow> run \<Rightarrow> bool) \<Rightarrow> database \<Rightarrow> database \<Rightarrow> bool" where
  "runs_step R d d' \<longleftrightarrow> list_all2 R (db_runs d) (db_runs d')"

lemma frozen_refl [simp]: "frozen r r" by (simp add: frozen_def)

lemma frozen_trans: "frozen a b \<Longrightarrow> frozen b c \<Longrightarrow> frozen a c" by (simp add: frozen_def)

lemma row_step_refl [simp]: "row_step r r" by (simp add: row_step_def)

lemma row_step_trans: "row_step a b \<Longrightarrow> row_step b c \<Longrightarrow> row_step a c"
  by (auto simp: row_step_def intro: frozen_trans)

lemma row_step_deactivating: "row_step r r' \<Longrightarrow> deactivating r r'"
  by (cases "terminal (run_state r)") (auto simp: row_step_def deactivating_def frozen_def active_iff_not_terminal)

lemma runs_step_refl [simp]: "(\<And>r. R r r) \<Longrightarrow> runs_step R d d"
  by (simp add: runs_step_def list.rel_refl)

lemma runs_step_trans:
  assumes "\<And>a b c. R a b \<Longrightarrow> R b c \<Longrightarrow> R a c" "runs_step R d d1" "runs_step R d1 d2"
  shows "runs_step R d d2"
  using assms unfolding runs_step_def by (rule list_all2_trans)

lemma runs_step_row_trans: "runs_step row_step a b \<Longrightarrow> runs_step row_step b c \<Longrightarrow> runs_step row_step a c"
  using row_step_trans by (rule runs_step_trans)

lemma runs_step_same: "(\<And>r. R r r) \<Longrightarrow> db_runs d' = db_runs d \<Longrightarrow> runs_step R d d'"
  by (simp add: runs_step_def list.rel_refl)

lemma runs_step_map:
  "db_runs d' = map g (db_runs d) \<Longrightarrow> (\<And>r. r \<in> set (db_runs d) \<Longrightarrow> R r (g r)) \<Longrightarrow> runs_step R d d'"
  by (simp add: runs_step_def list_all2_conv_all_nth)

lemma runs_step_modify:
  assumes "db_runs d' = modify_row run_id i g (db_runs d)" "\<And>r. R r r"
    and "\<And>r. r \<in> set (db_runs d) \<Longrightarrow> run_id r = i \<Longrightarrow> R r (g r)"
  shows "runs_step R d d'"
  by (rule runs_step_map [OF assms(1) [unfolded modify_row_def]]) (use assms(2,3) in auto)

lemma modify_row_comp:
  "(\<And>r. key (g r) = key r) \<Longrightarrow> modify_row key i f (modify_row key i g t) = modify_row key i (\<lambda>r. f (g r)) t"
  by (simp add: modify_row_def)

lemma modify_row_cong:
  "(\<And>r. r \<in> set t \<Longrightarrow> key r = i \<Longrightarrow> f r = g r) \<Longrightarrow> modify_row key i f t = modify_row key i g t"
  by (simp add: modify_row_def)

lemma db_runs_modify_run [simp]: "db_runs (modify_run now i f d) = modify_row run_id i (upd_run now f) (db_runs d)"
  by (simp add: modify_run_def)

lemma modify_run_frame [simp, sp_frame]:
  "db_envs (modify_run now i f d) = db_envs d" "db_jobs (modify_run now i f d) = db_jobs d"
  "db_usage (modify_run now i f d) = db_usage d" "db_allocs (modify_run now i f d) = db_allocs d"
  "db_diags (modify_run now i f d) = db_diags d" "db_audit (modify_run now i f d) = db_audit d"
  "db_ops (modify_run now i f d) = db_ops d" "db_policies (modify_run now i f d) = db_policies d"
  "db_idem (modify_run now i f d) = db_idem d" "db_golden (modify_run now i f d) = db_golden d"
  "db_tenants (modify_run now i f d) = db_tenants d" "db_budgets (modify_run now i f d) = db_budgets d"
  by (simp_all add: modify_run_def)

lemma get_cong:
  "db_envs d' = db_envs d \<Longrightarrow> get_environment d' = get_environment d"
  "db_jobs d' = db_jobs d \<Longrightarrow> get_job d' = get_job d"
  "db_runs d' = db_runs d \<Longrightarrow> get_run d' = get_run d"
  by (simp_all add: fun_eq_iff get_environment_def get_job_def get_run_def)

lemma runs_step_get:
  assumes st: "runs_step R d d'" and id: "\<And>r r'. R r r' \<Longrightarrow> run_id r' = run_id r"
    and r: "get_run d i = Some r"
  shows "\<exists>r'. get_run d' i = Some r' \<and> R r r'"
  using st [unfolded runs_step_def] r [unfolded get_run_def] unfolding get_run_def
proof (induction rule: list_all2_induct)
  case Nil
  then show ?case by (simp add: find_row_def)
next
  case (Cons x xs y ys)
  then show ?case using id [of x y] by (cases "run_id x = i") (auto simp: find_row_def)
qed

lemma runs_step_ids:
  assumes "runs_step R d d'" "\<And>r r'. R r r' \<Longrightarrow> run_id r' = run_id r"
  shows "map run_id (db_runs d') = map run_id (db_runs d)"
proof -
  have "list_all2 R xs ys \<Longrightarrow> map run_id ys = map run_id xs" for xs ys
    by (induction rule: list_all2_induct) (simp_all add: assms(2))
  then show ?thesis using assms(1) by (simp add: runs_step_def)
qed

lemma row_step_id: "row_step r r' \<Longrightarrow> run_id r' = run_id r"
  by (simp add: row_step_def frozen_def)

lemma row_step_resources: "row_step r r' \<Longrightarrow> nonneg_resources r \<Longrightarrow> nonneg_resources r'"
  by (simp add: row_step_def frozen_def nonneg_resources_def)

text \<open>A step of the table by \<open>row_step\<close> keeps every environment within its limits.\<close>

lemma within_quota_step:
  assumes st: "runs_step row_step d d'" and nn: "\<And>r. r \<in> set (db_runs d) \<Longrightarrow> nonneg_resources r"
    and q: "within_quota d env"
  shows "within_quota d' env"
proof -
  let ?P = "counted_in (env_id env)" and ?v = "\<lambda>r. run_vcpu (run_requested_resources r)"
  have "list_all2 row_step xs ys \<Longrightarrow> (\<forall>r \<in> set xs. nonneg_resources r) \<Longrightarrow>
      length (filter ?P ys) \<le> length (filter ?P xs) \<and>
      sum_list (map ?v (filter ?P ys)) \<le> sum_list (map ?v (filter ?P xs))" for xs ys
  proof (induction rule: list_all2_induct)
    case Nil
    then show ?case by simp
  next
    case (Cons x xs y ys)
    have "?P y \<Longrightarrow> ?P x" "?v y = ?v x"
      using row_step_deactivating [OF Cons(1)] by (auto simp: deactivating_def counted_in_def)
    moreover have "0 \<le> ?v x" using Cons.prems by (simp add: nonneg_resources_def)
    ultimately show ?case using Cons by auto
  qed
  from this [OF st [unfolded runs_step_def]] have
    "length (active_runs_of d' (env_id env)) \<le> length (active_runs_of d (env_id env))"
    "active_vcpu d' (env_id env) \<le> active_vcpu d (env_id env)"
    using nn unfolding active_vcpu_def active_runs_of_def by blast+
  then show ?thesis using q unfolding within_quota_def by linarith
qed

subsection \<open>Claims as steps\<close>

lemma frozen_upd: "frozen r (f r) \<Longrightarrow> frozen r (upd_run now f r)"
  by (simp add: frozen_def)

lemma claim_runs_step:
  assumes dist: "distinct (map run_id (db_runs d))"
    and cl: "claim_runs now clk tk states lmt col d = (rs, d')" and act: "\<And>s. s \<in> set states \<Longrightarrow> \<not> terminal s"
  shows "runs_step row_step d d'"
proof -
  let ?c = "claim_cutoff_time now"
  let ?is = "map run_id (take lmt (sort_key col (filter (\<lambda>r. run_state r \<in> set states \<and> run_claim_available ?c r) (db_runs d))))"
  have di: "distinct ?is" by (rule distinct_claim_candidates [OF dist])
  have d': "d' = snd (claim_each (\<lambda>i. claim_run_row states ?c tk (clk i) i) ?is d)"
    using cl by (auto simp: claim_runs_def Let_def split: prod.splits if_splits)
  show ?thesis
    by (rule runs_step_map [OF run_claims.each_rows [OF di, of states ?c tk clk d, folded d']])
      (use act in \<open>auto simp: row_step_def frozen_def started_def\<close>)
qed

text \<open>A claimed run keeps its state and carries the token.\<close>

lemma claim_runs_state:
  assumes dist: "distinct (map run_id (db_runs d))"
    and cl: "claim_runs now clk tk states lmt col d = (rs, d')" and r: "r \<in> set rs"
  shows "run_state r \<in> set states" "get_run d' (run_id r) = Some r" "run_claim_token r = Some tk"
proof -
  from claim_runs_claimed [OF dist cl r] obtain q where q: "q \<in> set (db_runs d)"
    "r = upd_run (clk (run_id q)) (\<lambda>x. x\<lparr>run_claim_token := Some tk, run_claimed_at := Some (clk (run_id q))\<rparr>) q"
    "run_state q \<in> set states" "r \<in> set (db_runs d')" by blast
  show "run_state r \<in> set states" "run_claim_token r = Some tk" using q by simp_all
  have "map run_id (db_runs d') = map run_id (db_runs d)"
    using claim_runs_rows [OF dist cl] by (auto simp: comp_def intro: map_cong)
  then show "get_run d' (run_id r) = Some r"
    using q(4) dist run_store.get_in_rows by metis
qed

subsection \<open>Operations that write runs and the audit log only\<close>

definition only_runs :: "database \<Rightarrow> database \<Rightarrow> bool" where
  "only_runs d d' \<longleftrightarrow> (\<exists>t a. d' = d\<lparr>db_runs := t, db_audit := a\<rparr>)"

lemma only_runs_refl [simp]: "only_runs d d"
  unfolding only_runs_def by (intro exI [where x = "db_runs d"] exI [where x = "db_audit d"]) simp

lemma only_runs_trans: "only_runs a b \<Longrightarrow> only_runs b c \<Longrightarrow> only_runs a c"
  by (auto simp: only_runs_def) blast

lemma only_runs_modify [simp]: "only_runs d (modify_run now i f d)"
  unfolding only_runs_def modify_run_def
  by (intro exI [where x = "modify_row run_id i (upd_run now f) (db_runs d)"] exI [where x = "db_audit d"]) simp

lemma only_runs_audit [simp]: "only_runs d (write_audit_event now a act et eid t ip dt aws d)"
  unfolding only_runs_def write_audit_event_def by (intro exI [where x = "db_runs d"] exI) simp

lemma only_runs_set_audit [simp]: "only_runs d (d\<lparr>db_audit := a\<rparr>)"
  unfolding only_runs_def by (intro exI [where x = "db_runs d"] exI) simp

lemma only_runs_claim: "claim_runs now clk tk states lmt col d = (rs, d') \<Longrightarrow> only_runs d d'"
proof -
  assume "claim_runs now clk tk states lmt col d = (rs, d')"
  then obtain t where t: "d' = d\<lparr>db_runs := t\<rparr>" using claim_runs_frame by blast
  show ?thesis unfolding only_runs_def t by (intro exI [where x = t] exI [where x = "db_audit d"]) simp
qed

lemma only_runs_gets:
  "only_runs d d' \<Longrightarrow> get_environment d' = get_environment d \<and> get_job d' = get_job d"
  by (auto simp: only_runs_def fun_eq_iff get_environment_def get_job_def)

subsection \<open>Operations on one row\<close>

text \<open>
  \<open>touches F i R\<close>: of the runs only the row \<open>i\<close> changes, as \<open>R\<close> allows, and the rest of the
  database changes as the frame \<open>F\<close> allows.
\<close>

definition touches ::
    "(database \<Rightarrow> database \<Rightarrow> bool) \<Rightarrow> string \<Rightarrow> (run \<Rightarrow> run \<Rightarrow> bool) \<Rightarrow> database \<Rightarrow> database \<Rightarrow> bool" where
  "touches F i R d d' \<longleftrightarrow> F d d' \<and>
     (\<exists>g. db_runs d' = modify_row run_id i g (db_runs d) \<and> (\<forall>q. run_id q = i \<longrightarrow> R q (g q)))"

lemma touches_mono: "touches F i R d d' \<Longrightarrow> (\<And>q q'. R q q' \<Longrightarrow> S q q') \<Longrightarrow> touches F i S d d'"
  unfolding touches_def by blast

lemma touches_other:
  assumes "touches F i R d d'" "\<And>q q'. R q q' \<Longrightarrow> run_id q' = run_id q" "j \<noteq> i"
  shows "get_run d' j = get_run d j"
proof -
  from assms(1) obtain g where g: "db_runs d' = modify_row run_id i g (db_runs d)" "\<And>q. run_id q = i \<Longrightarrow> R q (g q)"
    by (auto simp: touches_def)
  have "find_row run_id j (modify_row run_id i g t) = find_row run_id j t" for t
    using g(2) assms(2,3) by (induction t) (auto simp: find_row_def modify_row_def)
  then show ?thesis by (simp add: get_run_def g(1))
qed

lemma touches_get:
  assumes "touches F i R d d'" "\<And>q q'. R q q' \<Longrightarrow> run_id q' = run_id q" "get_run d i = Some q"
  shows "\<exists>q'. get_run d' i = Some q' \<and> R q q'"
proof -
  from assms(1) obtain g where g: "db_runs d' = modify_row run_id i g (db_runs d)" "\<And>q. run_id q = i \<Longrightarrow> R q (g q)"
    by (auto simp: touches_def)
  have "find_row run_id i (modify_row run_id i g t) = map_option g (find_row run_id i t)" for t
    using g(2) assms(2) by (induction t) (auto simp: find_row_def modify_row_def)
  then have "get_run d' i = Some (g q)" using assms(3) by (simp add: get_run_def g(1))
  moreover have "R q (g q)" using g(2) run_store.get_Some [OF assms(3)] by simp
  ultimately show ?thesis by blast
qed

lemma touches_rows:
  assumes "touches F i R d d'" "distinct (map run_id (db_runs d))" "get_run d i = Some r" "r' \<in> set (db_runs d')"
    and "\<And>q q'. R q q' \<Longrightarrow> run_id q' = run_id q"
  shows "(r' \<in> set (db_runs d) \<and> run_id r' \<noteq> i) \<or> R r r'"
proof -
  from assms(1) obtain g where g: "db_runs d' = modify_row run_id i g (db_runs d)" "\<And>q. run_id q = i \<Longrightarrow> R q (g q)"
    by (auto simp: touches_def)
  from assms(4) obtain q where q: "q \<in> set (db_runs d)" "r' = (if run_id q = i then g q else q)"
    by (auto simp: g(1) set_modify_row)
  show ?thesis
  proof (cases "run_id q = i")
    case True
    then have "q = r" using run_store.get_in_rows [OF assms(2) q(1)] assms(3) by simp
    then show ?thesis using q True g(2) by simp
  qed (use q in simp)
qed

lemma touches_runs_step:
  assumes "touches F i R d d'" "distinct (map run_id (db_runs d))" "get_run d i = Some r"
    and "\<And>q'. R r q' \<Longrightarrow> row_step r q'"
  shows "runs_step row_step d d'"
proof -
  from assms(1) obtain g where g: "db_runs d' = modify_row run_id i g (db_runs d)" "\<And>q. run_id q = i \<Longrightarrow> R q (g q)"
    by (auto simp: touches_def)
  show ?thesis
  proof (rule runs_step_modify [OF g(1)])
    fix q assume q: "q \<in> set (db_runs d)" "run_id q = i"
    then have "get_run d i = Some q" using run_store.get_in_rows [OF assms(2) q(1)] by simp
    then show "row_step q (g q)" using assms(3,4) g(2) q(2) by simp
  qed simp
qed

text \<open>A frame that allows changes of runs and new audit events, and composes.\<close>

locale run_frame =
  fixes F :: "database \<Rightarrow> database \<Rightarrow> bool"
  assumes refl: "F d d"
    and trans: "F a b \<Longrightarrow> F b c \<Longrightarrow> F a c"
    and modify: "F d (modify_run now i f d)"
    and set_audit: "F d (d\<lparr>db_audit := x\<rparr>)"
    and gets: "F d d' \<Longrightarrow> get_environment d' = get_environment d \<and> get_job d' = get_job d"
begin

lemma audit: "F d (write_audit_event now a act et eid t ip dt aws d)"
  unfolding write_audit_event_def by (rule set_audit)

lemma touches_audit:
  "touches F i R d d' \<Longrightarrow> touches F i R d (write_audit_event now a act et eid t ip dt aws d')"
  unfolding touches_def by (auto intro: trans audit)

lemma touches_modify:
  "(\<And>q. run_id q = i \<Longrightarrow> R q (upd_run now f q)) \<Longrightarrow> touches F i R d (modify_run now i f d)"
  unfolding touches_def using modify by auto

lemma touches_modify2:
  assumes t: "touches F i R d d'" and R: "\<And>q q'. R q q' \<Longrightarrow> S q (upd_run now f q')"
    and id: "\<And>q q'. R q q' \<Longrightarrow> run_id q' = run_id q"
  shows "touches F i S d (modify_run now i f d')"
proof -
  from t obtain g where g: "db_runs d' = modify_row run_id i g (db_runs d)" "\<And>q. run_id q = i \<Longrightarrow> R q (g q)"
    by (auto simp: touches_def)
  have "db_runs (modify_run now i f d') = modify_row run_id i (\<lambda>q. upd_run now f (g q)) (db_runs d)"
    using g id by (auto simp: modify_row_def)
  moreover have "F d (modify_run now i f d')" using t trans modify unfolding touches_def by blast
  ultimately show ?thesis using R g(2) unfolding touches_def by blast
qed

lemma touches_frame: "touches F i R d d' \<Longrightarrow> F d' d'' \<Longrightarrow> db_runs d'' = db_runs d' \<Longrightarrow> touches F i R d d''"
  unfolding touches_def using trans by auto

lemma touches_id: "F d d' \<Longrightarrow> db_runs d' = db_runs d \<Longrightarrow> touches F i (\<lambda>q q'. q' = q) d d'"
  unfolding touches_def by (auto intro!: exI [where x = "\<lambda>q. q"] simp: modify_row_def)

end

interpretation only_runs: run_frame only_runs
  using only_runs_gets by unfold_locales (auto intro: only_runs_trans)

text \<open>Foreign keys: the environment and the job of every run exist.\<close>

definition fk_ok :: "database \<Rightarrow> bool" where
  "fk_ok d \<longleftrightarrow> (\<forall>r \<in> set (db_runs d). (\<exists>env. get_environment d (run_environment_id r) = Some env) \<and>
     (\<exists>j. get_job d (run_job_id r) = Some j))"

lemma runs_step_mem:
  assumes "runs_step R d d'" "r' \<in> set (db_runs d')" shows "\<exists>r \<in> set (db_runs d). R r r'"
  using assms unfolding runs_step_def by (metis in_set_conv_nth list_all2_conv_all_nth)

lemma fk_ok_step:
  assumes fk: "fk_ok d" and "get_environment d' = get_environment d \<and> get_job d' = get_job d" and st: "runs_step row_step d d'"
  shows "fk_ok d'"
  unfolding fk_ok_def
proof
  fix r' assume "r' \<in> set (db_runs d')"
  then obtain r where r: "r \<in> set (db_runs d)" "row_step r r'" using runs_step_mem [OF st] by blast
  then have "run_environment_id r' = run_environment_id r" "run_job_id r' = run_job_id r"
    by (auto simp: row_step_def frozen_def)
  then show "(\<exists>env. get_environment d' (run_environment_id r') = Some env) \<and> (\<exists>j. get_job d' (run_job_id r') = Some j)"
    using assms(2) fk r(1) by (simp add: fk_ok_def)
qed

subsection \<open>A pass over claimed runs\<close>

text \<open>
  A worker handles the claimed rows one after another. \<open>step i\<close> handles the row \<open>i\<close> (on a state
  that holds the database), \<open>elig\<close> is the state in which a row is claimed, \<open>out i r\<close> what the
  handling makes of the claimed row \<open>r\<close>; the jobs and environments are those of \<open>d0\<close> throughout.
\<close>

locale claimed_pass = run_frame F for F +
  fixes dbof :: "'s \<Rightarrow> database"
    and step :: "string \<Rightarrow> 's \<Rightarrow> 's"
    and elig :: "run \<Rightarrow> bool"
    and out :: "string \<Rightarrow> run \<Rightarrow> run \<Rightarrow> run \<Rightarrow> bool"
    and d0 :: database
  assumes step_touches: "get_run (dbof st) i = Some r \<Longrightarrow> elig r \<Longrightarrow> fk_ok (dbof st) \<Longrightarrow>
      get_environment (dbof st) = get_environment d0 \<and> get_job (dbof st) = get_job d0 \<Longrightarrow>
      touches F i (out i r) (dbof st) (dbof (step i st))"
    and out_step: "out i r r q \<Longrightarrow> elig r \<Longrightarrow> row_step r q"
    and out_id: "out i r q q' \<Longrightarrow> run_id q' = run_id q"
begin

text \<open>One step, and what the rest of the pass may rely on after it.\<close>

definition ready_for :: "run list \<Rightarrow> 's \<Rightarrow> bool" where
  "ready_for rs st \<longleftrightarrow> distinct (map run_id (db_runs (dbof st))) \<and> distinct (map run_id rs) \<and> fk_ok (dbof st) \<and>
     get_environment (dbof st) = get_environment d0 \<and> get_job (dbof st) = get_job d0 \<and>
     (\<forall>r \<in> set rs. get_run (dbof st) (run_id r) = Some r \<and> elig r)"

lemma one_step:
  assumes rd: "ready_for (r # rs) st"
  defines "st1 \<equiv> step (run_id r) st"
  shows "F (dbof st) (dbof st1)" "runs_step row_step (dbof st) (dbof st1)"
    "\<And>i. i \<noteq> run_id r \<Longrightarrow> get_run (dbof st1) i = get_run (dbof st) i"
    "\<exists>r1. get_run (dbof st1) (run_id r) = Some r1 \<and> out (run_id r) r r r1"
    "ready_for rs st1"
proof -
  have r: "get_run (dbof st) (run_id r) = Some r" "elig r" and ids: "distinct (map run_id (db_runs (dbof st)))"
    and fk: "fk_ok (dbof st)" and g: "get_environment (dbof st) = get_environment d0 \<and> get_job (dbof st) = get_job d0"
    using rd by (auto simp: ready_for_def)
  note t = step_touches [OF r fk g, folded st1_def]
  show f1: "F (dbof st) (dbof st1)" using t by (simp add: touches_def)
  show s1: "runs_step row_step (dbof st) (dbof st1)"
    by (rule touches_runs_step [OF t ids r(1)]) (use r(2) out_step in blast)
  show other: "get_run (dbof st1) i = get_run (dbof st) i" if "i \<noteq> run_id r" for i
    using that by (intro touches_other [OF t]) (auto dest: out_id)
  show "\<exists>r1. get_run (dbof st1) (run_id r) = Some r1 \<and> out (run_id r) r r r1"
    using touches_get [OF t _ r(1)] out_id by blast
  have nr: "run_id r \<notin> run_id ` set rs" using rd by (simp add: ready_for_def)
  have "\<forall>x \<in> set rs. get_run (dbof st1) (run_id x) = Some x \<and> elig x"
  proof
    fix x assume x: "x \<in> set rs"
    then have "run_id x \<noteq> run_id r" using nr by (metis image_eqI)
    then show "get_run (dbof st1) (run_id x) = Some x \<and> elig x" using rd x other by (simp add: ready_for_def)
  qed
  then show "ready_for rs st1"
    using rd runs_step_ids [OF s1 row_step_id] fk_ok_step [OF fk gets [OF f1] s1] gets [OF f1] g
    by (simp add: ready_for_def)
qed

lemma pass_outcome:
  "ready_for rs st \<Longrightarrow> st' = fold (\<lambda>r. step (run_id r)) rs st \<Longrightarrow>
    F (dbof st) (dbof st') \<and> runs_step row_step (dbof st) (dbof st') \<and>
    (\<forall>i. i \<notin> run_id ` set rs \<longrightarrow> get_run (dbof st') i = get_run (dbof st) i) \<and>
    (\<forall>r \<in> set rs. \<exists>r'. get_run (dbof st') (run_id r) = Some r' \<and> out (run_id r) r r r')"
proof (induction rs arbitrary: st)
  case Nil
  then show ?case by (simp add: refl)
next
  case (Cons r rs)
  note one = one_step [OF Cons.prems(1)]
  obtain r1 where r1: "get_run (dbof (step (run_id r) st)) (run_id r) = Some r1" "out (run_id r) r r r1"
    using one(4) by blast
  have nr: "run_id r \<notin> run_id ` set rs" using Cons.prems(1) by (simp add: ready_for_def)
  note IH = Cons.IH [OF one(5) Cons.prems(2) [unfolded list.simps fold_simps]]
  have last: "get_run (dbof st') (run_id r) = Some r1" using IH nr r1(1) by auto
  show ?case
  proof (intro conjI ballI allI impI)
    show "F (dbof st) (dbof st')" using IH one(1) trans by blast
    show "runs_step row_step (dbof st) (dbof st')" using IH one(2) runs_step_row_trans by blast
  next
    fix i assume "i \<notin> run_id ` set (r # rs)"
    then show "get_run (dbof st') i = get_run (dbof st) i" using IH one(3) by auto
  next
    fix x assume x: "x \<in> set (r # rs)"
    show "\<exists>r'. get_run (dbof st') (run_id x) = Some r' \<and> out (run_id x) x x r'"
      using x IH last r1(2) by (cases "x = r") auto
  qed
qed

text \<open>What every step keeps, the pass keeps.\<close>

lemma pass_invariant:
  assumes "\<And>st i r. I (dbof st) \<Longrightarrow> distinct (map run_id (db_runs (dbof st))) \<Longrightarrow> get_run (dbof st) i = Some r \<Longrightarrow>
      elig r \<Longrightarrow> fk_ok (dbof st) \<Longrightarrow> get_job (dbof st) = get_job d0 \<Longrightarrow> I (dbof (step i st))"
  shows "ready_for rs st \<Longrightarrow> I (dbof st) \<Longrightarrow> I (dbof (fold (\<lambda>r. step (run_id r)) rs st))"
proof (induction rs arbitrary: st)
  case Nil
  then show ?case by simp
next
  case (Cons r rs)
  have "I (dbof (step (run_id r) st))"
    by (rule assms [OF Cons.prems(2)]) (use Cons.prems(1) in \<open>auto simp: ready_for_def\<close>)
  then show ?case using Cons.IH [OF one_step(5) [OF Cons.prems(1)]] by simp
qed

text \<open>A pass with its claims.\<close>

lemma claims_ready:
  assumes dist: "distinct (map run_id (db_runs d0))" and fk: "fk_ok d0"
    and cl: "claim_runs now clk tk states lmt col d0 = (rs, dbof st)" and only: "F d0 (dbof st)"
    and states: "\<And>r. elig r \<longleftrightarrow> run_state r \<in> set states" "\<And>s. s \<in> set states \<Longrightarrow> \<not> terminal s"
  shows "ready_for rs st" "runs_step row_step d0 (dbof st)" "length rs \<le> lmt"
proof -
  show s1: "runs_step row_step d0 (dbof st)" by (rule claim_runs_step [OF dist cl states(2)])
  have "distinct (map run_id (db_runs (dbof st)))" using runs_step_ids [OF s1 row_step_id] dist by simp
  then show "ready_for rs st" "length rs \<le> lmt"
    using claim_runs_state [OF dist cl] states(1) claim_runs_length [OF dist cl] gets [OF only]
      fk_ok_step [OF fk gets [OF only] s1]
    by (simp_all add: ready_for_def)
qed

lemma claimed_pass_outcome:
  assumes dist: "distinct (map run_id (db_runs d0))" and fk: "fk_ok d0"
    and cl: "claim_runs now clk tk states lmt col d0 = (rs, dbof st)" and only: "F d0 (dbof st)"
    and states: "\<And>r. elig r \<longleftrightarrow> run_state r \<in> set states" "\<And>s. s \<in> set states \<Longrightarrow> \<not> terminal s"
    and st': "st' = fold (\<lambda>r. step (run_id r)) rs st"
  shows "F d0 (dbof st')" "runs_step row_step d0 (dbof st')" "length rs \<le> lmt"
    "\<And>i. i \<notin> run_id ` set rs \<Longrightarrow> get_run (dbof st') i = get_run (dbof st) i"
    "\<And>r. r \<in> set rs \<Longrightarrow> \<exists>r'. get_run (dbof st') (run_id r) = Some r' \<and> out (run_id r) r r r'"
proof -
  note c = claims_ready [OF dist fk cl only states]
  note p = pass_outcome [OF c(1) st']
  show "F d0 (dbof st')" using p only trans by blast
  show "runs_step row_step d0 (dbof st')" using p c(2) runs_step_row_trans by blast
  show "length rs \<le> lmt" by (rule c(3))
  show "\<And>i. i \<notin> run_id ` set rs \<Longrightarrow> get_run (dbof st') i = get_run (dbof st) i" using p by blast
  show "\<And>r. r \<in> set rs \<Longrightarrow> \<exists>r'. get_run (dbof st') (run_id r) = Some r' \<and> out (run_id r) r r r'" using p by blast
qed

end

end
