(* ===== verification/SP_Preflight.thy ===== *)
theory SP_Preflight
  imports SP_PolicyRules
begin

text \<open>
  \<open>services/preflight.py\<close>: the list of checks and how a check is merged into it, the policy checks,
  the result of a preflight, its cache, its summary, and the test whether a run has had one. The other
  check emitters (configuration, AWS and Kubernetes probes) are the arguments \<open>before\<close> and \<open>after\<close>:
  they list the checks they add, or raise.
\<close>

subsection \<open>Checks\<close>

record preflight_check =
  ck_code :: string
  ck_status :: string
  ck_message :: string
  ck_remediation :: "string option"
  ck_details :: "json dict"

definition preflight_audit_actions :: "string list" where
  "preflight_audit_actions = [''run.preflight_passed'', ''run.preflight_failed'', ''run.preflight_diagnostic'']"

definition check_status_priority :: "string \<Rightarrow> nat" where
  "check_status_priority st =
     (let s = py_lower st in if s = ''warning'' then 1 else if s = ''fail'' then 2 else 0)"

definition preflight_check_merge_key :: "string \<Rightarrow> json dict \<Rightarrow> string" where
  "preflight_check_merge_key code details =
     (if prefix ''policy.'' code then
        (let policy_id = dget details ''policy_id'' JNull in
         if policy_id \<noteq> JNull \<and> policy_id \<noteq> JStr [] then code @ '':'' @ py_str policy_id else code)
      else code)"

definition merge_key :: "preflight_check \<Rightarrow> string" where
  "merge_key c = preflight_check_merge_key (ck_code c) (ck_details c)"

text \<open>\<open>dict.setdefault\<close> for every entry of the second dictionary.\<close>

definition dsetdefaults :: "'v dict \<Rightarrow> 'v dict \<Rightarrow> 'v dict" where
  "dsetdefaults base extra =
     fold (\<lambda>(k, v) d. if map_of d k = None then d @ [(k, v)] else d) extra base"

definition text_empty :: "string option \<Rightarrow> bool" where
  "text_empty x = (case x of None \<Rightarrow> True | Some s \<Rightarrow> s = [])"

definition merge_equal :: "preflight_check \<Rightarrow> preflight_check \<Rightarrow> preflight_check" where
  "merge_equal existing incoming =
     existing\<lparr>ck_message := (if ck_message existing = [] then ck_message incoming else ck_message existing),
       ck_remediation := (if \<not> text_empty (ck_remediation incoming) \<and> text_empty (ck_remediation existing)
                          then ck_remediation incoming else ck_remediation existing),
       ck_details := dsetdefaults (ck_details existing) (ck_details incoming)\<rparr>"

definition merge_check :: "preflight_check \<Rightarrow> preflight_check \<Rightarrow> preflight_check" where
  "merge_check existing incoming =
     (let existing_priority = check_status_priority (ck_status existing);
          incoming_priority = check_status_priority (ck_status incoming)
      in if incoming_priority > existing_priority then incoming
         else if incoming_priority = existing_priority then merge_equal existing incoming
         else existing)"

fun upsert_preflight_check :: "preflight_check \<Rightarrow> preflight_check list \<Rightarrow> preflight_check list" where
  "upsert_preflight_check incoming [] = [incoming]"
| "upsert_preflight_check incoming (existing # rest) =
     (if merge_key existing = merge_key incoming then merge_check existing incoming # rest
      else existing # upsert_preflight_check incoming rest)"

subsection \<open>Policy checks\<close>

definition preflight_policy_context :: "environment \<Rightarrow> conf option \<Rightarrow> run option \<Rightarrow> eval_ctx" where
  "preflight_policy_context env spark_conf r =
     \<lparr>ctx_timeout = (case r of None \<Rightarrow> None | Some r \<Rightarrow> Some (run_timeout_seconds r)),
      ctx_resources = (case r of None \<Rightarrow> [] | Some r \<Rightarrow> run_requested_resources r),
      ctx_spark_conf = (case spark_conf of None \<Rightarrow> [] | Some c \<Rightarrow> c),
      ctx_golden_path = None, ctx_release_label = None,
      ctx_security_configuration_id = env_security_configuration_id env\<rparr>"

definition policy_check :: "policy_entry \<Rightarrow> preflight_check" where
  "policy_check e =
     \<lparr>ck_code = ''policy.'' @ pe_rule_type e,
      ck_status = (if er_passed (pe_result e) then ''pass''
                   else if pe_enforcement e = ''hard'' then ''fail'' else ''warning''),
      ck_message = er_message (pe_result e),
      ck_remediation = (if er_passed (pe_result e) then None else er_remediation (pe_result e)),
      ck_details = [(''policy_id'', JStr (pe_policy_id e)), (''policy_name'', JStr (pe_policy_name e))]\<rparr>"

text \<open>The session after the evaluation loop: an evaluator that raises leaves the audit events before it.\<close>

fun evaluated_db ::
    "time \<Rightarrow> string \<Rightarrow> string option \<Rightarrow> environment \<Rightarrow> eval_ctx \<Rightarrow> policy list \<Rightarrow> database \<Rightarrow> database" where
  "evaluated_db now actor ip env x [] d = d"
| "evaluated_db now actor ip env x (p # ps) d =
     (case map_of rule_evaluators (pol_rule_type p) of
        None \<Rightarrow> evaluated_db now actor ip env x ps d
      | Some evaluator \<Rightarrow>
          (case evaluator (pol_config p) x of
             Inl e \<Rightarrow> d
           | Inr result \<Rightarrow>
               evaluated_db now actor ip env x ps
                 (write_audit_event now actor ''policy.evaluated'' ''policy'' (pol_id p) None ip
                   [(''policy_name'', JStr (pol_name p)), (''rule_type'', JStr (pol_rule_type p)),
                    (''enforcement'', JStr (pol_enforcement p)), (''passed'', JBool (er_passed result)),
                    (''environment_id'', JStr (env_id env))] None d)))"

definition exn_of_policy_error :: "error \<Rightarrow> exn" where
  "exn_of_policy_error e =
     \<lparr>exn_class = (case e of ValueError _ \<Rightarrow> ''ValueError'' | TypeError _ \<Rightarrow> ''TypeError''
        | AttributeError _ \<Rightarrow> ''AttributeError'' | _ \<Rightarrow> ''Exception''),
      exn_text = detail e, exn_code = None, exn_aws = False\<rparr>"

definition policy_engine_checks ::
    "time \<Rightarrow> environment \<Rightarrow> conf option \<Rightarrow> run option \<Rightarrow> database \<Rightarrow> (exn + preflight_check list) \<times> database" where
  "policy_engine_checks now env spark_conf r d =
     (let x = preflight_policy_context env spark_conf r;
          d' = evaluated_db now ''system'' None env x (resolve_applicable_policies d env) d
      in (case evaluate_policies now ''system'' None env x d of
            Inl e \<Rightarrow> Inl (exn_of_policy_error e)
          | Inr (entries, _) \<Rightarrow> Inr (map policy_check entries), d'))"

subsection \<open>The preflight\<close>

record preflight =
  pf_environment_id :: string
  pf_run_id :: "string option"
  pf_ready :: bool
  pf_generated_at :: time
  pf_checks :: "preflight_check list"

type_synonym emitter = "environment \<Rightarrow> run option \<Rightarrow> conf option \<Rightarrow> database \<Rightarrow> exn + preflight_check list"

definition add_checks :: "preflight_check list \<Rightarrow> preflight_check list \<Rightarrow> preflight_check list" where
  "add_checks new checks = fold upsert_preflight_check new checks"

definition build_preflight ::
    "emitter \<Rightarrow> emitter \<Rightarrow> time \<Rightarrow> environment \<Rightarrow> string option \<Rightarrow> conf option \<Rightarrow> database
     \<Rightarrow> (exn + preflight) \<times> database" where
  "build_preflight before after now env rid spark_conf d =
     (let r = (case rid of None \<Rightarrow> None | Some i \<Rightarrow> get_run d i) in
      case before env r spark_conf d of
        Inl e \<Rightarrow> (Inl e, d)
      | Inr early \<Rightarrow>
          (case policy_engine_checks now env spark_conf r d of
             (Inl e, d1) \<Rightarrow> (Inl e, d1)
           | (Inr pol, d1) \<Rightarrow>
               (case after env r spark_conf d1 of
                  Inl e \<Rightarrow> (Inl e, d1)
                | Inr late \<Rightarrow>
                    (let checks = add_checks late (add_checks pol (add_checks early []))
                     in (Inr \<lparr>pf_environment_id = env_id env, pf_run_id = rid,
                              pf_ready = list_all (\<lambda>c. ck_status c \<noteq> ''fail'') checks,
                              pf_generated_at = now, pf_checks = checks\<rparr>, d1)))))"

subsection \<open>The cache\<close>

definition preflight_cache_ttl_seconds :: int where
  "preflight_cache_ttl_seconds = 300"

definition preflight_cache_max_entries :: nat where
  "preflight_cache_max_entries = 1024"

type_synonym preflight_cache = "(time \<times> preflight) dict" \<comment> \<open>oldest use first\<close>

definition fresh_entry :: "time \<Rightarrow> time \<times> preflight \<Rightarrow> bool" where
  "fresh_entry tick e \<longleftrightarrow> tick - fst e < preflight_cache_ttl_seconds * 1000000"

definition trim_preflight_cache :: "time \<Rightarrow> preflight_cache \<Rightarrow> preflight_cache" where
  "trim_preflight_cache tick cache =
     (let kept = filter (\<lambda>(k, e). fresh_entry tick e) cache
      in drop (length kept - preflight_cache_max_entries) kept)"

definition move_to_end :: "string \<Rightarrow> 'v dict \<Rightarrow> 'v dict" where
  "move_to_end k d =
     (case map_of d k of None \<Rightarrow> d | Some v \<Rightarrow> filter (\<lambda>(k', v'). k' \<noteq> k) d @ [(k, v)])"

text \<open>
  \<open>key\<close> is the fingerprint of the environment and the configuration (two SHA-256 digests), \<open>tick\<close> the
  monotonic clock.
\<close>

definition build_preflight_cached ::
    "(environment \<Rightarrow> conf \<Rightarrow> string) \<Rightarrow> emitter \<Rightarrow> emitter \<Rightarrow> time \<Rightarrow> time \<Rightarrow> environment \<Rightarrow> string \<Rightarrow> conf
     \<Rightarrow> database \<times> preflight_cache \<Rightarrow> (exn + preflight) \<times> database \<times> preflight_cache" where
  "build_preflight_cached key before after now tick env rid spark_conf st =
     (case st of (d, cache) \<Rightarrow>
       let cache_key = key env spark_conf;
           cache1 = trim_preflight_cache tick cache
       in case (case map_of cache1 cache_key of
                  None \<Rightarrow> None | Some e \<Rightarrow> if fresh_entry tick e then Some (snd e) else None) of
            Some cached_result \<Rightarrow>
              (Inr (cached_result\<lparr>pf_run_id := Some rid, pf_generated_at := now\<rparr>), d, move_to_end cache_key cache1)
          | None \<Rightarrow>
              (case build_preflight before after now env (Some rid) (Some spark_conf) d of
                 (Inl e, d1) \<Rightarrow> (Inl e, d1, cache1)
               | (Inr result, d1) \<Rightarrow>
                   (Inr result, d1,
                    trim_preflight_cache tick (move_to_end cache_key
                      (dset cache_key (tick, result) (trim_preflight_cache tick cache1))))))"

subsection \<open>Summary and audit\<close>

definition check_json :: "preflight_check \<Rightarrow> json" where
  "check_json c =
     JObj [(''code'', JStr (ck_code c)), (''status'', JStr (ck_status c)), (''message'', JStr (ck_message c)),
           (''remediation'', jstr_opt (ck_remediation c)), (''details'', JObj (ck_details c))]"

definition summary_line :: "bool \<Rightarrow> preflight_check \<Rightarrow> string" where
  "summary_line include_remediation c =
     ck_code c @ '': '' @ ck_message c @
       (if include_remediation \<and> \<not> text_empty (ck_remediation c)
        then '' Remediation: '' @ the (ck_remediation c) else [])"

definition preflight_summary :: "preflight_check list \<Rightarrow> bool \<Rightarrow> bool \<Rightarrow> string" where
  "preflight_summary checks include_warnings include_remediation =
     (let statuses = ''fail'' # (if include_warnings then [''warning''] else []);
          selected = map (summary_line include_remediation) (filter (\<lambda>c. ck_status c \<in> set statuses) checks)
      in if selected \<noteq> [] then join ''; '' selected else ''all checks passed'')"

definition has_preflight_audit :: "database \<Rightarrow> string \<Rightarrow> bool" where
  "has_preflight_audit d rid \<longleftrightarrow>
     list_ex (\<lambda>a. au_entity_type a = ''run'' \<and> au_entity_id a = rid \<and>
       au_action a \<in> set preflight_audit_actions) (db_audit d)"

subsection \<open>Merging lemmas\<close>

definition std_status :: "preflight_check \<Rightarrow> bool" where
  "std_status c \<longleftrightarrow> ck_status c \<in> {''pass'', ''warning'', ''fail''}"

lemma priority_std [simp]:
  "check_status_priority ''pass'' = 0" "check_status_priority ''warning'' = 1" "check_status_priority ''fail'' = 2"
  by (simp_all add: check_status_priority_def py_lower_def lower_char_def)

lemma merge_equal_status [simp]: "ck_status (merge_equal a b) = ck_status a"
  "ck_code (merge_equal a b) = ck_code a"
  by (simp_all add: merge_equal_def)

lemma merge_check_cases: "merge_check a b = a \<or> merge_check a b = b \<or> merge_check a b = merge_equal a b"
  by (simp add: merge_check_def Let_def)

lemma merge_check_fail:
  assumes "std_status a" "std_status b"
  shows "ck_status (merge_check a b) = ''fail'' \<longleftrightarrow> ck_status a = ''fail'' \<or> ck_status b = ''fail''"
  using assms by (auto simp: std_status_def merge_check_def Let_def)

lemma merge_check_std: "std_status a \<Longrightarrow> std_status b \<Longrightarrow> std_status (merge_check a b)"
  using merge_check_cases [of a b] by (auto simp: std_status_def)

lemma merge_check_priority:
  "check_status_priority (ck_status (merge_check a b)) =
     max (check_status_priority (ck_status a)) (check_status_priority (ck_status b))"
  by (auto simp: merge_check_def Let_def)

lemma upsert_std: "std_status c \<Longrightarrow> \<forall>x \<in> set cs. std_status x \<Longrightarrow> \<forall>x \<in> set (upsert_preflight_check c cs). std_status x"
  by (induction cs) (auto simp: merge_check_std)

definition any_fail :: "preflight_check list \<Rightarrow> bool" where
  "any_fail cs \<longleftrightarrow> (\<exists>c \<in> set cs. ck_status c = ''fail'')"

lemma upsert_any_fail:
  assumes "std_status c" "\<forall>x \<in> set cs. std_status x"
  shows "any_fail (upsert_preflight_check c cs) \<longleftrightarrow> ck_status c = ''fail'' \<or> any_fail cs"
  using assms(2)
proof (induction cs)
  case Nil
  then show ?case by (simp add: any_fail_def)
next
  case (Cons x xs)
  then show ?case using merge_check_fail [OF _ assms(1), of x] by (auto simp: any_fail_def)
qed

lemma add_checks_any_fail:
  "\<forall>x \<in> set new. std_status x \<Longrightarrow> \<forall>x \<in> set cs. std_status x \<Longrightarrow>
     (any_fail (add_checks new cs) \<longleftrightarrow> any_fail new \<or> any_fail cs) \<and> (\<forall>x \<in> set (add_checks new cs). std_status x)"
proof (induction new arbitrary: cs)
  case Nil
  then show ?case by (simp add: add_checks_def any_fail_def)
next
  case (Cons c new)
  have std: "\<forall>x \<in> set (upsert_preflight_check c cs). std_status x" using Cons.prems by (intro upsert_std) auto
  have "any_fail (add_checks new (upsert_preflight_check c cs)) \<longleftrightarrow> any_fail new \<or> ck_status c = ''fail'' \<or> any_fail cs"
    using Cons.IH [OF _ std] Cons.prems upsert_any_fail [of c cs] by auto
  moreover have "\<forall>x \<in> set (add_checks new (upsert_preflight_check c cs)). std_status x"
    using Cons.IH [OF _ std] Cons.prems by auto
  ultimately show ?case by (auto simp: add_checks_def any_fail_def)
qed

text \<open>One row per merge key, for codes without a colon (as all codes of the source are).\<close>

definition plain_code :: "preflight_check \<Rightarrow> bool" where
  "plain_code c \<longleftrightarrow> CHR '':'' \<notin> set (ck_code c)"

lemma append_sep_inject:
  "c \<notin> set a \<Longrightarrow> c \<notin> set b \<Longrightarrow> a @ c # x = b @ c # y \<longleftrightarrow> a = b \<and> x = y"
proof (induction a arbitrary: b)
  case Nil
  then show ?case by (cases b) auto
next
  case (Cons h a)
  then show ?case by (cases b) auto
qed

definition policy_ref :: "preflight_check \<Rightarrow> json option" where
  "policy_ref c =
     (if prefix ''policy.'' (ck_code c) \<and> dget (ck_details c) ''policy_id'' JNull \<notin> {JNull, JStr []}
      then Some (dget (ck_details c) ''policy_id'' JNull) else None)"

lemma merge_key_eq:
  "merge_key c = (case policy_ref c of None \<Rightarrow> ck_code c | Some j \<Rightarrow> ck_code c @ CHR '':'' # py_str j)"
  by (simp add: merge_key_def preflight_check_merge_key_def policy_ref_def Let_def)

lemma merge_key_inject:
  assumes "plain_code a" "plain_code b" "merge_key a = merge_key b"
  shows "ck_code a = ck_code b \<and> map_option py_str (policy_ref a) = map_option py_str (policy_ref b)"
proof (cases "policy_ref a"; cases "policy_ref b")
  fix j k assume jk: "policy_ref a = Some j" "policy_ref b = Some k"
  then have "ck_code a @ CHR '':'' # py_str j = ck_code b @ CHR '':'' # py_str k"
    using assms(3) by (simp add: merge_key_eq)
  then have "ck_code a = ck_code b \<and> py_str j = py_str k"
    using assms(1,2) by (subst (asm) append_sep_inject) (simp_all add: plain_code_def)
  then show ?thesis using jk by simp
qed (use assms in \<open>auto simp: merge_key_eq plain_code_def dest!: arg_cong [where f = set]\<close>)

lemma map_of_dsetdefaults:
  "map_of (dsetdefaults base extra) k = (case map_of base k of Some v \<Rightarrow> Some v | None \<Rightarrow> map_of extra k)"
proof (induction extra arbitrary: base)
  case Nil
  then show ?case by (simp add: dsetdefaults_def split: option.splits)
next
  case (Cons p extra)
  obtain a b where p: "p = (a, b)" by force
  have "dsetdefaults base (p # extra) = dsetdefaults (if map_of base a = None then base @ [(a, b)] else base) extra"
    by (simp add: dsetdefaults_def p)
  then show ?case using Cons.IH by (auto simp: p map_add_def split: option.splits)
qed

lemma merge_key_merge_check:
  assumes "plain_code a" "plain_code b" "merge_key a = merge_key b"
  shows "merge_key (merge_check a b) = merge_key a \<and> plain_code (merge_check a b)"
proof -
  have same: "ck_code a = ck_code b" "map_option py_str (policy_ref a) = map_option py_str (policy_ref b)"
    using merge_key_inject [OF assms] by auto
  let ?m = "merge_equal a b"
  have det: "ck_details ?m = dsetdefaults (ck_details a) (ck_details b)" by (simp add: merge_equal_def)
  have "map_option py_str (policy_ref ?m) = map_option py_str (policy_ref a)"
  proof (cases "map_of (ck_details a) ''policy_id''")
    case (Some v)
    then have "dget (ck_details ?m) ''policy_id'' JNull = dget (ck_details a) ''policy_id'' JNull"
      by (simp add: det dget_def map_of_dsetdefaults)
    then show ?thesis by (simp add: policy_ref_def)
  next
    case None
    then have "policy_ref a = None" by (simp add: policy_ref_def dget_def)
    moreover have "dget (ck_details ?m) ''policy_id'' JNull = dget (ck_details b) ''policy_id'' JNull"
      using None by (simp add: det dget_def map_of_dsetdefaults)
    moreover have "ck_code ?m = ck_code b" using same by simp
    ultimately have "policy_ref ?m = policy_ref b" unfolding policy_ref_def by simp
    then show ?thesis using same by simp
  qed
  then have "merge_key ?m = merge_key a"
    by (cases "policy_ref ?m"; cases "policy_ref a") (simp_all add: merge_key_eq)
  moreover have "plain_code ?m" using assms(1) by (simp add: plain_code_def)
  ultimately show ?thesis using merge_check_cases [of a b] assms by auto
qed

lemma upsert_merge_keys:
  assumes "plain_code c"
  shows "\<forall>x \<in> set cs. plain_code x \<Longrightarrow>
    map merge_key (upsert_preflight_check c cs) =
      (if merge_key c \<in> set (map merge_key cs) then map merge_key cs else map merge_key cs @ [merge_key c]) \<and>
    (\<forall>x \<in> set (upsert_preflight_check c cs). plain_code x)"
proof (induction cs)
  case Nil
  then show ?case using assms by simp
next
  case (Cons x cs)
  then show ?case using merge_key_merge_check [of x c] assms by auto
qed

lemma add_checks_distinct:
  "\<forall>x \<in> set new. plain_code x \<Longrightarrow> \<forall>x \<in> set cs. plain_code x \<Longrightarrow> distinct (map merge_key cs) \<Longrightarrow>
     distinct (map merge_key (add_checks new cs)) \<and> (\<forall>x \<in> set (add_checks new cs). plain_code x)"
proof (induction new arbitrary: cs)
  case Nil
  then show ?case by (simp add: add_checks_def)
next
  case (Cons c new)
  have "map merge_key (upsert_preflight_check c cs) =
      (if merge_key c \<in> set (map merge_key cs) then map merge_key cs else map merge_key cs @ [merge_key c])"
    and pl: "\<forall>x \<in> set (upsert_preflight_check c cs). plain_code x"
    using upsert_merge_keys [of c cs] Cons.prems by auto
  then have "distinct (map merge_key (upsert_preflight_check c cs))" using Cons.prems(3) by simp
  from Cons.IH [OF _ pl this] Cons.prems(1) show ?case by (simp add: add_checks_def)
qed

subsection \<open>Preflight lemmas\<close>

lemma evaluated_db_frame: "\<exists>a. evaluated_db now actor ip env x ps d = d\<lparr>db_audit := a\<rparr>"
proof (induction ps arbitrary: d)
  case Nil
  then show ?case by (auto intro: exI [where x = "db_audit d"])
next
  case (Cons p ps)
  show ?case
  proof (cases "map_of rule_evaluators (pol_rule_type p)")
    case None
    then show ?thesis using Cons by simp
  next
    case (Some ev)
    show ?thesis
    proof (cases "ev (pol_config p) x")
      case (Inl e)
      then show ?thesis using Some by (auto intro: exI [where x = "db_audit d"])
    next
      case (Inr res)
      then show ?thesis using Some Cons.IH [of "d\<lparr>db_audit := y\<rparr>" for y] by (simp add: write_audit_event_def)
    qed
  qed
qed

lemma evaluated_db_ok:
  "evaluate_each now actor ip env x ps d = Inr (es, d') \<Longrightarrow> evaluated_db now actor ip env x ps d = d'"
  by (induction ps arbitrary: d es) (auto simp: rbind_Inr_iff Let_def split: option.splits)


lemma policy_engine_checks_frame: "\<exists>a. snd (policy_engine_checks now env c r d) = d\<lparr>db_audit := a\<rparr>"
  unfolding policy_engine_checks_def Let_def snd_conv by (rule evaluated_db_frame)

lemma build_preflight_frame: "\<exists>a. snd (build_preflight before after now env rid c d) = d\<lparr>db_audit := a\<rparr>"
proof -
  let ?r = "case rid of None \<Rightarrow> None | Some i \<Rightarrow> get_run d i"
  obtain a where a: "snd (policy_engine_checks now env c ?r d) = d\<lparr>db_audit := a\<rparr>"
    using policy_engine_checks_frame by blast
  have "snd (build_preflight before after now env rid c d) \<in> {d, snd (policy_engine_checks now env c ?r d)}"
    by (simp add: build_preflight_def Let_def split: sum.splits prod.splits)
  moreover have "d = d\<lparr>db_audit := db_audit d\<rparr>" by simp
  ultimately show ?thesis using a by (metis insertE singletonD)
qed

lemma policy_check_std: "std_status (policy_check e)"
  by (simp add: std_status_def policy_check_def)

text \<open>A preflight is ready exactly when no check that was emitted failed: merging hides no failure.\<close>

lemma build_preflight_ready_iff:
  assumes run: "build_preflight before after now env rid c d = (Inr p, d')"
    and early: "before env r c d = Inr xs" and r: "r = (case rid of None \<Rightarrow> None | Some i \<Rightarrow> get_run d i)"
    and pol: "policy_engine_checks now env c r d = (Inr ys, d1)" and late: "after env r c d1 = Inr zs"
    and std: "\<forall>x \<in> set xs \<union> set zs. std_status x"
  shows "pf_ready p \<longleftrightarrow> (\<forall>x \<in> set xs \<union> set ys \<union> set zs. ck_status x \<noteq> ''fail'')"
proof -
  let ?c = "add_checks zs (add_checks ys (add_checks xs []))"
  have ys: "\<forall>x \<in> set ys. std_status x"
    using pol by (auto simp: policy_engine_checks_def Let_def policy_check_std split: sum.splits)
  have p: "pf_ready p \<longleftrightarrow> \<not> any_fail ?c"
  proof -
    define cs where "cs = ?c"
    have "build_preflight before after now env rid c d =
        (Inr \<lparr>pf_environment_id = env_id env, pf_run_id = rid, pf_ready = list_all (\<lambda>c. ck_status c \<noteq> ''fail'') cs,
              pf_generated_at = now, pf_checks = cs\<rparr>, d1)"
      unfolding build_preflight_def Let_def r [symmetric] early pol sum.case prod.case late cs_def by (rule refl)
    then have "pf_ready p = list_all (\<lambda>c. ck_status c \<noteq> ''fail'') cs" using run by auto
    then have "pf_ready p = list_all (\<lambda>c. ck_status c \<noteq> ''fail'') ?c" unfolding cs_def .
    then show ?thesis by (auto simp: any_fail_def list_all_iff)
  qed
  have "any_fail ?c \<longleftrightarrow> any_fail zs \<or> any_fail ys \<or> any_fail xs \<or> any_fail []"
  proof -
    have xz: "\<forall>x \<in> set xs. std_status x" "\<forall>x \<in> set zs. std_status x" using std by blast+
    have a: "any_fail (add_checks xs []) \<longleftrightarrow> any_fail xs \<or> any_fail []" "\<forall>x \<in> set (add_checks xs []). std_status x"
      using add_checks_any_fail [OF xz(1), of "[]"] by simp_all
    have b: "any_fail (add_checks ys (add_checks xs [])) \<longleftrightarrow> any_fail ys \<or> any_fail (add_checks xs [])"
        "\<forall>x \<in> set (add_checks ys (add_checks xs [])). std_status x"
      using add_checks_any_fail [OF ys a(2)] by blast+
    show ?thesis using add_checks_any_fail [OF xz(2) b(2)] a(1) b(1) by blast
  qed
  then show ?thesis unfolding p by (auto simp: any_fail_def)
qed

text \<open>A hard policy that demands a golden path can never be satisfied: a run carries no name of one.\<close>

lemma required_golden_path_never_passes:
  assumes p: "p \<in> set (db_policies d)" "policy_applies env p" "pol_rule_type p = ''allowed_golden_paths''"
      "pol_enforcement p = ''hard''"
    and cfg: "map_of (pol_config p) ''allowed'' = Some (JArr (map JStr names))" "names \<noteq> []"
      "truthy (dget (pol_config p) ''require_golden_path'' (JBool False))"
    and pol: "policy_engine_checks now env c r d = (Inr ys, d1)"
  shows "\<exists>x \<in> set ys. ck_status x = ''fail'' \<and> ck_code x = ''policy.allowed_golden_paths''"
proof -
  let ?x = "preflight_policy_context env c r"
  from pol obtain entries d2 where ev: "evaluate_policies now ''system'' None env ?x d = Inr (entries, d2)"
    and ys: "ys = map policy_check entries"
    by (auto simp: policy_engine_checks_def Let_def split: sum.splits)
  have mem: "p \<in> set (filter (\<lambda>p. map_of rule_evaluators (pol_rule_type p) \<noteq> None) (resolve_applicable_policies d env))"
    using p by (simp add: resolve_applicable_policies_def rule_evaluators_def)
  then obtain e where e: "e \<in> set entries" "pe_rule_type e = pol_rule_type p" "pe_enforcement e = pol_enforcement p"
    and res: "\<exists>g. map_of rule_evaluators (pol_rule_type p) = Some g \<and> g (pol_config p) ?x = Inr (pe_result e)"
    using list_all2_mem [OF evaluate_each_results [OF ev [unfolded evaluate_policies_def]] mem] by blast
  from res have "evaluate_allowed_golden_paths (pol_config p) (ctx_golden_path ?x) = Inr (pe_result e)"
    by (simp add: p rule_evaluators_def)
  then have "\<not> er_passed (pe_result e)"
    using golden_paths_passed_iff [OF cfg(1,2), of None] cfg(3)
    by (auto simp: preflight_policy_context_def opt_empty_def)
  then have "ck_status (policy_check e) = ''fail''" "ck_code (policy_check e) = ''policy.allowed_golden_paths''"
    using e p by (simp_all add: policy_check_def)
  then show ?thesis using e(1) ys by auto
qed

lemma policy_checks_pass:
  assumes pol: "policy_engine_checks now env c r d = (Inr ys, d1)" and ok: "\<forall>y \<in> set ys. ck_status y \<noteq> ''fail''"
    and p: "p \<in> set (db_policies d)" "policy_applies env p" "pol_enforcement p = ''hard''"
    and rule: "map_of rule_evaluators (pol_rule_type p) = Some f"
  shows "\<exists>res. f (pol_config p) (preflight_policy_context env c r) = Inr res \<and> er_passed res"
proof -
  obtain es d2 where ev: "evaluate_policies now ''system'' None env (preflight_policy_context env c r) d = Inr (es, d2)"
    and ys: "ys = map policy_check es"
    using pol by (auto simp: policy_engine_checks_def Let_def split: sum.splits)
  have "hard_failures es = []" using ok by (auto simp: ys hard_failures_def filter_empty_conv policy_check_def)
  then show ?thesis by (rule hard_policies_pass [OF ev _ p rule])
qed

subsection \<open>Cache lemmas\<close>

lemma trim_length: "length (trim_preflight_cache tick cache) \<le> preflight_cache_max_entries"
  by (simp add: trim_preflight_cache_def Let_def)

lemma set_trim: "set (trim_preflight_cache tick cache) \<subseteq> {x \<in> set cache. fresh_entry tick (snd x)}"
  by (auto simp: trim_preflight_cache_def Let_def dest: in_set_dropD)

lemma wf_dict_move_to_end: "wf_dict d \<Longrightarrow> wf_dict (move_to_end k d)"
  by (auto simp: wf_dict_def dkeys_def move_to_end_def distinct_map_filter split: option.splits)

lemma map_of_filter_key: "k' \<noteq> k \<Longrightarrow> map_of (filter (\<lambda>(x, v). x \<noteq> k) d) k' = map_of d k'"
  by (induction d) auto

lemma map_of_filter_same: "map_of (filter (\<lambda>(x, v). x \<noteq> k) d) k = None"
  by (induction d) auto

lemma map_of_move_to_end [simp]: "map_of (move_to_end k d) = map_of d"
proof
  fix k'
  show "map_of (move_to_end k d) k' = map_of d k'"
    by (cases "k' = k")
      (auto simp: move_to_end_def map_add_def map_of_filter_key map_of_filter_same split: option.splits)
qed

lemma length_move_to_end: "wf_dict d \<Longrightarrow> length (move_to_end k d) = length d"
proof (cases "map_of d k")
  case None
  then show ?thesis by (simp add: move_to_end_def)
next
  case (Some v)
  assume wf: "wf_dict d"
  then have "distinct (map fst (move_to_end k d))"
    using wf_dict_move_to_end by (simp add: wf_dict_def dkeys_def)
  moreover have "set (map fst (move_to_end k d)) = set (map fst d)"
    by (metis dom_map_of_conv_image_fst list.set_map map_of_move_to_end)
  ultimately have "length (map fst (move_to_end k d)) = length (map fst d)"
    using wf by (metis distinct_card dkeys_def wf_dict_def)
  then show ?thesis by simp
qed

lemma wf_trim: "wf_dict cache \<Longrightarrow> wf_dict (trim_preflight_cache tick cache)"
  by (simp add: wf_dict_def dkeys_def trim_preflight_cache_def Let_def drop_map [symmetric] distinct_map_filter)

text \<open>The cache stays a dictionary of at most 1024 entries, and no answer is older than five minutes.\<close>

lemma build_preflight_cached_bound:
  assumes "build_preflight_cached key before after now tick env rid c (d, cache) = (res, d', cache')" "wf_dict cache"
  shows "wf_dict cache' \<and> length cache' \<le> preflight_cache_max_entries"
proof -
  let ?t = "trim_preflight_cache tick cache"
  have t: "wf_dict ?t" "length ?t \<le> preflight_cache_max_entries" using assms(2) by (simp_all add: wf_trim trim_length)
  have "cache' = move_to_end (key env c) ?t \<or> cache' = ?t \<or>
      (\<exists>x. cache' = trim_preflight_cache tick (move_to_end (key env c) (dset (key env c) x (trim_preflight_cache tick ?t))))"
    using assms(1) by (auto simp: build_preflight_cached_def Let_def split: option.splits if_splits prod.splits sum.splits)
  then show ?thesis using t
    by (elim disjE exE) (simp_all add: wf_dict_move_to_end length_move_to_end wf_trim trim_length wf_dset)
qed

lemma build_preflight_cached_frame:
  assumes "build_preflight_cached key before after now tick env rid c (d, cache) = (res, d', cache')"
  shows "\<exists>a. d' = d\<lparr>db_audit := a\<rparr>"
proof -
  have "d' = d \<or> d' = snd (build_preflight before after now env (Some rid) (Some c) d)"
    using assms by (auto simp: build_preflight_cached_def Let_def split: option.splits if_splits prod.splits sum.splits)
  moreover have "d = d\<lparr>db_audit := db_audit d\<rparr>" by simp
  ultimately show ?thesis using build_preflight_frame by metis
qed

text \<open>
  Within the time to live, a preflight of the same environment and configuration answers as the first
  one did, whatever the run asks for: the run-level checks are not evaluated again.
\<close>

lemma map_of_trim:
  assumes "wf_dict cache" "length cache \<le> preflight_cache_max_entries" "map_of cache k = Some e" "fresh_entry tick e"
  shows "map_of (trim_preflight_cache tick cache) k = Some e"
proof -
  let ?k = "filter (\<lambda>(k, e). fresh_entry tick e) cache"
  have "length ?k \<le> preflight_cache_max_entries" using assms(2) by (meson length_filter_le order_trans)
  then have "trim_preflight_cache tick cache = ?k" by (simp add: trim_preflight_cache_def Let_def)
  moreover have "(k, e) \<in> set ?k" using assms(3,4) by (auto dest: map_of_SomeD)
  moreover have "distinct (map fst ?k)" using assms(1) by (simp add: wf_dict_def dkeys_def distinct_map_filter)
  ultimately show ?thesis by simp
qed

lemma map_of_trim_last:
  assumes "wf_dict (xs @ [(k, e)])" "fresh_entry tick e"
  shows "map_of (trim_preflight_cache tick (xs @ [(k, e)])) k = Some e"
proof -
  let ?t = "trim_preflight_cache tick (xs @ [(k, e)])"
  have "preflight_cache_max_entries > 0" by (simp add: preflight_cache_max_entries_def)
  then have "(k, e) \<in> set ?t" using assms(2) by (simp add: trim_preflight_cache_def Let_def)
  moreover have "distinct (map fst ?t)" using wf_trim [OF assms(1)] by (simp add: wf_dict_def dkeys_def)
  ultimately show ?thesis by simp
qed

lemma build_preflight_cached_stores:
  assumes run: "build_preflight_cached key before after now tick env rid c (d, cache) = (Inr p, d1, cache1)"
    and miss: "map_of (trim_preflight_cache tick cache) (key env c) = None" and wf: "wf_dict cache"
  shows "map_of cache1 (key env c) = Some (tick, p)"
proof -
  let ?k = "key env c"
  let ?t = "trim_preflight_cache tick (trim_preflight_cache tick cache)"
  have c1: "cache1 = trim_preflight_cache tick (move_to_end ?k (dset ?k (tick, p) ?t))"
    using run miss by (auto simp: build_preflight_cached_def Let_def split: prod.splits sum.splits)
  have "\<exists>xs. move_to_end ?k (dset ?k (tick, p) ?t) = xs @ [(?k, (tick, p))]"
    by (simp add: move_to_end_def)
  then obtain xs where xs: "move_to_end ?k (dset ?k (tick, p) ?t) = xs @ [(?k, (tick, p))]" by blast
  have "wf_dict (xs @ [(?k, (tick, p))])"
    unfolding xs [symmetric] using wf by (simp add: wf_dict_move_to_end wf_dset wf_trim)
  then show ?thesis unfolding c1 xs
    by (rule map_of_trim_last) (simp add: fresh_entry_def preflight_cache_ttl_seconds_def)
qed

lemma build_preflight_cached_reuses:
  assumes first: "build_preflight_cached key before after now tick env rid c (d, cache) = (Inr p, d1, cache1)"
    and miss: "map_of (trim_preflight_cache tick cache) (key env c) = None" and wf: "wf_dict cache"
    and later: "tick' - tick < preflight_cache_ttl_seconds * 1000000" "key env' c' = key env c"
  shows "\<exists>cache3. build_preflight_cached key before' after' now' tick' env' rid' c' (d2, cache1) =
    (Inr (p\<lparr>pf_run_id := Some rid', pf_generated_at := now'\<rparr>), d2, cache3)"
proof -
  have fr: "fresh_entry tick' (tick, p)" using later(1) by (simp add: fresh_entry_def)
  have "map_of (trim_preflight_cache tick' cache1) (key env' c') = Some (tick, p)"
    unfolding later(2)
    by (rule map_of_trim [OF _ _ build_preflight_cached_stores [OF first miss wf] fr])
      (use build_preflight_cached_bound [OF first wf] in simp_all)
  then show ?thesis using fr by (simp add: build_preflight_cached_def Let_def)
qed

end
