(* ===== verification/SP_Scheduler.thy ===== *)
theory SP_Scheduler
  imports SP_RunSteps SP_Preflight
begin

text \<open>
  \<open>services/workers_scheduling.py\<close> and \<open>databricks_client.py\<close>: one pass of the scheduler claims
  queued runs, checks each one, hands it to the back end of its engine and writes the outcome. The
  EMR clients and the HTTP calls to Databricks are functions that answer or raise; so is the preflight,
  which also threads its cache.
\<close>

subsection \<open>Dispatch results\<close>

text \<open>
  The three EMR results carry the same fields under different names for the id (\<open>emr_job_run_id\<close>,
  \<open>job_run_id\<close>, \<open>step_id\<close>).
\<close>

record emr_dispatch =
  ed_job_id :: string
  ed_log_group :: string
  ed_log_stream_prefix :: string
  ed_driver_log_uri :: "string option"
  ed_spark_ui_uri :: "string option"
  ed_aws_request_id :: "string option"

datatype dispatch_result =
    EmrDispatchResult emr_dispatch
  | DatabricksDispatchResult int "string option"

definition dispatch_aws_request_id :: "dispatch_result \<Rightarrow> string option" where
  "dispatch_aws_request_id res =
     (case res of EmrDispatchResult e \<Rightarrow> ed_aws_request_id e | DatabricksDispatchResult _ _ \<Rightarrow> None)"

record clients =
  cl_emr_eks :: "environment \<Rightarrow> job \<Rightarrow> run \<Rightarrow> exn + emr_dispatch"
  cl_emr_serverless :: "environment \<Rightarrow> job \<Rightarrow> run \<Rightarrow> exn + emr_dispatch"
  cl_emr_ec2 :: "environment \<Rightarrow> job \<Rightarrow> run \<Rightarrow> exn + emr_dispatch"
  cl_post :: "string \<Rightarrow> string \<Rightarrow> json \<Rightarrow> exn + json"
  cl_get :: "string \<Rightarrow> string \<Rightarrow> json \<Rightarrow> exn + json"

subsection \<open>Databricks\<close>

definition py_exn :: "string \<Rightarrow> string \<Rightarrow> exn" where
  "py_exn cls msg = \<lparr>exn_class = cls, exn_text = msg, exn_code = None, exn_aws = False\<rparr>"

definition databricks_cluster :: "string option \<Rightarrow> string option \<Rightarrow> json" where
  "databricks_cluster cluster_policy_id instance_pool_id =
     JObj ([(''spark_version'', JStr ''13.3.x-scala2.12''), (''num_workers'', JInt 2)]
       @ (if opt_empty cluster_policy_id then [] else [(''policy_id'', JStr (the cluster_policy_id))])
       @ (if opt_empty instance_pool_id then [(''node_type_id'', JStr ''i3.xlarge'')]
          else [(''instance_pool_id'', JStr (the instance_pool_id))]))"

definition databricks_task :: "string \<Rightarrow> string \<Rightarrow> string list \<Rightarrow> json" where
  "databricks_task artifact_uri entrypoint args =
     JObj [(''python_file'', JStr (if prefix ''s3://'' entrypoint then entrypoint
              else artifact_uri @ ''/'' @ entrypoint)),
           (''parameters'', JArr (map JStr args)),
           (''source'', JStr (if contains_sub ''github'' (py_lower artifact_uri) then ''GIT'' else ''S3''))]"

definition databricks_payload ::
    "string \<Rightarrow> string \<Rightarrow> string list \<Rightarrow> conf \<Rightarrow> string option \<Rightarrow> string option \<Rightarrow> string \<Rightarrow> string option \<Rightarrow> json" where
  "databricks_payload artifact_uri entrypoint args spark_conf cluster_policy_id instance_pool_id run_name
       idempotency_token =
     JObj ([(''run_name'', JStr run_name),
            (''new_cluster'', databricks_cluster cluster_policy_id instance_pool_id),
            (''spark_python_task'', databricks_task artifact_uri entrypoint args),
            (''spark_conf'', JObj (map (\<lambda>(k, v). (k, JStr v)) spark_conf))]
       @ (if opt_empty idempotency_token then []
          else [(''idempotency_token'', JStr (the idempotency_token))]))"

definition json_field :: "json \<Rightarrow> string \<Rightarrow> exn + json" where
  "json_field j k =
     (case j of JObj kvs \<Rightarrow> (case map_of kvs k of Some v \<Rightarrow> Inr v | None \<Rightarrow> Inl (py_exn ''KeyError'' ([CHR 0x27] @ k @ [CHR 0x27])))
      | _ \<Rightarrow> Inl (py_exn ''TypeError'' ''object is not subscriptable''))"

definition submit_run :: "clients \<Rightarrow> string \<Rightarrow> json \<Rightarrow> exn + dispatch_result" where
  "submit_run cl workspace_url payload =
     rbind (cl_post cl workspace_url ''/api/2.1/jobs/runs/submit'' payload) (\<lambda>response.
     rbind (json_field response ''run_id'') (\<lambda>raw.
     rbind (case py_int raw of Inl e \<Rightarrow> Inl (py_exn ''ValueError'' (detail e)) | Inr i \<Rightarrow> Inr i) (\<lambda>rid.
     rbind (cl_get cl workspace_url ''/api/2.1/jobs/runs/get'' (JObj [(''run_id'', JInt rid)])) (\<lambda>details.
     (case details of
        JObj kvs \<Rightarrow>
          Inr (DatabricksDispatchResult rid (case dget kvs ''run_page_url''
              (JStr (workspace_url @ ''/#job/'' @ show_int rid @ ''/run/'' @ show_int rid)) of
            JNull \<Rightarrow> None | v \<Rightarrow> Some (py_str v)))
      | _ \<Rightarrow> Inl (py_exn ''AttributeError'' ''object has no attribute get''))))))"

subsection \<open>Dispatch\<close>

definition dispatch_run :: "clients \<Rightarrow> environment \<Rightarrow> job \<Rightarrow> run \<Rightarrow> exn + dispatch_result" where
  "dispatch_run cl env j r =
     (let engine = env_engine env in
      if engine = ''emr_on_eks'' then rbind (cl_emr_eks cl env j r) (\<lambda>x. Inr (EmrDispatchResult x))
      else if engine = ''emr_serverless'' then rbind (cl_emr_serverless cl env j r) (\<lambda>x. Inr (EmrDispatchResult x))
      else if engine = ''emr_on_ec2'' then rbind (cl_emr_ec2 cl env j r) (\<lambda>x. Inr (EmrDispatchResult x))
      else if engine = ''databricks'' then
        (case env_databricks_workspace_url env of
           None \<Rightarrow> Inl (py_exn ''AttributeError'' ''NoneType object has no attribute rstrip'')
         | Some url \<Rightarrow> submit_run cl (py_rstrip_char (CHR ''/'') url)
             (databricks_payload (job_artifact_uri j) (job_entrypoint j) (job_args j @ run_args_overrides r)
               (dmerge (job_spark_conf j) (run_spark_conf_overrides r)) (env_databricks_cluster_policy_id env)
               (env_databricks_instance_pool_id env) (''sparkpilot-'' @ take 12 (run_id r))
               (Some (run_idempotency_key r))))
      else Inl (value_error (''Unsupported engine: '' @ engine)))"

text \<open>What \<open>_dispatch_run\<close> writes on the run itself: for Databricks the id and the page of the run.\<close>

definition dispatched_fields :: "dispatch_result \<Rightarrow> run \<Rightarrow> run" where
  "dispatched_fields res r =
     (case res of
        DatabricksDispatchResult rid url \<Rightarrow> r\<lparr>run_backend_job_run_id := Some (show_int rid), run_spark_ui_uri := url\<rparr>
      | EmrDispatchResult _ \<Rightarrow> r)"

definition apply_dispatch_result :: "time \<Rightarrow> environment \<Rightarrow> dispatch_result \<Rightarrow> run \<Rightarrow> run" where
  "apply_dispatch_result now env res r =
     (let r1 = r\<lparr>run_state := RAccepted, run_started_at := Some now, run_last_heartbeat_at := Some now\<rparr> in
      if env_engine env = ''databricks'' then r1
      else case res of
          DatabricksDispatchResult _ _ \<Rightarrow> r1
        | EmrDispatchResult e \<Rightarrow>
            (let r2 = r1\<lparr>run_log_group := Some (ed_log_group e), run_log_stream_prefix := Some (ed_log_stream_prefix e),
                        run_driver_log_uri := ed_driver_log_uri e, run_spark_ui_uri := ed_spark_ui_uri e\<rparr> in
             if env_engine env = ''emr_on_eks''
             then r2\<lparr>run_emr_job_run_id := Some (ed_job_id e), run_backend_job_run_id := Some (ed_job_id e)\<rparr>
             else if env_engine env = ''emr_serverless'' \<or> env_engine env = ''emr_on_ec2''
             then r2\<lparr>run_backend_job_run_id := Some (ed_job_id e)\<rparr>
             else r2))"

definition json_of_strings :: "string dict \<Rightarrow> json dict" where
  "json_of_strings d = map (\<lambda>(k, v). (k, JStr v)) d"

definition handle_dispatch_failure ::
    "time \<Rightarrow> string \<Rightarrow> run \<Rightarrow> environment \<Rightarrow> job \<Rightarrow> exn \<Rightarrow> database \<Rightarrow> database" where
  "handle_dispatch_failure now actor r env j e d =
     (let transient = is_transient_dispatch_error e in
      if transient \<and> run_attempt r < job_retry_max_attempts j then
        let attempt = run_attempt r + 1;
            d1 = modify_run now (run_id r) (\<lambda>r. r\<lparr>run_attempt := attempt, run_state := RQueued,
                   run_error_message := Some (''Transient dispatch failure on attempt '' @ show_int (attempt - 1) @
                     '' of '' @ show_int (job_retry_max_attempts j) @ '': '' @ error_message e False @
                     ''. Retry scheduled as attempt '' @ show_int attempt @ ''.'')\<rparr>) d
        in write_audit_event now actor ''run.dispatch_retry_scheduled'' ''run'' (run_id r) (Some (env_tenant_id env)) None
             (json_of_strings (error_details e True) @
              [(''attempt'', JInt attempt), (''max_attempts'', JInt (job_retry_max_attempts j))]) None d1
      else
        let d1 = modify_run now (run_id r) (\<lambda>r. r\<lparr>run_state := RFailed,
                   run_error_message := Some (error_message e (\<not> exn_aws e)), run_ended_at := Some now\<rparr>) d
        in write_audit_event now actor ''run.dispatch_failed'' ''run'' (run_id r) (Some (env_tenant_id env)) None
             (json_of_strings (error_details e True) @ [(''transient'', JBool transient)]) None d1)"

subsection \<open>One pass\<close>

definition preflight_details :: "bool \<Rightarrow> environment \<Rightarrow> preflight \<Rightarrow> json dict" where
  "preflight_details ready env p =
     [(''ready'', JBool ready), (''summary'', JStr (preflight_summary (pf_checks p) True False)),
      (''environment_id'', JStr (env_id env)), (''checks'', JArr (map check_json (pf_checks p)))]"

text \<open>The part of the loop body after a preflight that is ready.\<close>

definition dispatch_ready_run ::
    "clients \<Rightarrow> time \<Rightarrow> string \<Rightarrow> run \<Rightarrow> environment \<Rightarrow> job \<Rightarrow> database \<Rightarrow> database" where
  "dispatch_ready_run cl now actor r env j d =
     (let d1 = modify_run now (run_id r) (\<lambda>r. r\<lparr>run_state := RDispatching\<rparr>) d in
      case dispatch_run cl env j (r\<lparr>run_state := RDispatching\<rparr>) of
        Inl e \<Rightarrow> handle_dispatch_failure now actor r env j e d1
      | Inr res \<Rightarrow>
          let d2 = modify_run now (run_id r) (\<lambda>r. apply_dispatch_result now env res (dispatched_fields res r)) d1
          in write_audit_event now actor ''run.dispatched'' ''run'' (run_id r) (Some (env_tenant_id env)) None
               [(''backend_job_run_id'', case get_run d2 (run_id r) of None \<Rightarrow> JNull
                   | Some r2 \<Rightarrow> jstr_opt (run_backend_job_run_id r2)),
                (''engine'', JStr (env_engine env))]
               (dispatch_aws_request_id res) d2)"

type_synonym 'c cached_preflight =
  "environment \<Rightarrow> string \<Rightarrow> conf \<Rightarrow> database \<times> 'c \<Rightarrow> (exn + preflight) \<times> database \<times> 'c"

definition schedule_run ::
    "clients \<Rightarrow> 'c cached_preflight \<Rightarrow> time \<Rightarrow> string \<Rightarrow> run \<Rightarrow> environment \<Rightarrow> job \<Rightarrow> database \<times> 'c \<Rightarrow> database \<times> 'c" where
  "schedule_run cl pf now actor r env j st =
     (let spark_conf = dmerge (job_spark_conf j) (run_spark_conf_overrides r) in
      if run_cancellation_requested r then
        (modify_run now (run_id r) (\<lambda>r. r\<lparr>run_state := RCancelled, run_ended_at := Some now\<rparr>) (fst st), snd st)
      else case pf env (run_id r) spark_conf st of
          (Inl e, d1, c1) \<Rightarrow> (handle_dispatch_failure now actor r env j e d1, c1)
        | (Inr p, d1, c1) \<Rightarrow>
            if \<not> pf_ready p then
              (write_audit_event now actor ''run.preflight_failed'' ''run'' (run_id r) (Some (env_tenant_id env)) None
                 (preflight_details False env p) None
                 (modify_run now (run_id r) (\<lambda>r. r\<lparr>run_state := RFailed,
                    run_error_message := Some (''Preflight failed: '' @ preflight_summary (pf_checks p) False False),
                    run_ended_at := Some now\<rparr>) d1), c1)
            else
              (dispatch_ready_run cl now actor r env j
                 (write_audit_event now actor ''run.preflight_passed'' ''run'' (run_id r) (Some (env_tenant_id env)) None
                   (preflight_details True env p) None d1), c1))"

text \<open>
  The body with its \<open>finally\<close>: the run's job and environment exist, as the foreign keys demand.
\<close>

definition schedule_claimed ::
    "clients \<Rightarrow> 'c cached_preflight \<Rightarrow> (string \<Rightarrow> time) \<Rightarrow> string \<Rightarrow> string \<Rightarrow> database \<times> 'c \<Rightarrow> database \<times> 'c" where
  "schedule_claimed cl pf clk actor rid st =
     (case get_run (fst st) rid of
        None \<Rightarrow> st
      | Some r \<Rightarrow>
          (case (get_environment (fst st) (run_environment_id r), get_job (fst st) (run_job_id r)) of
             (Some env, Some j) \<Rightarrow>
               (case schedule_run cl pf (clk rid) actor r env j st of
                  (d1, c1) \<Rightarrow> (modify_run (clk rid) rid release_run_claim d1, c1))
           | _ \<Rightarrow> st))"

definition process_scheduler_once ::
    "clients \<Rightarrow> 'c cached_preflight \<Rightarrow> time \<Rightarrow> (string \<Rightarrow> time) \<Rightarrow> string \<Rightarrow> string \<Rightarrow> nat \<Rightarrow> database \<times> 'c
     \<Rightarrow> nat \<times> database \<times> 'c" where
  "process_scheduler_once cl pf now clk claim_token actor lmt st =
     (case claim_runs now clk claim_token [RQueued] lmt run_created_at (fst st) of
        (queued_runs, d1) \<Rightarrow>
          (length queued_runs,
           fold (\<lambda>r. schedule_claimed cl pf clk actor (run_id r)) queued_runs (d1, snd st)))"

subsection \<open>Outcome of one run\<close>

definition audit_only :: "'c cached_preflight \<Rightarrow> bool" where
  "audit_only pf \<longleftrightarrow> (\<forall>env rid c st. \<exists>a. fst (snd (pf env rid c st)) = (fst st)\<lparr>db_audit := a\<rparr>)"

text \<open>What the processing of the claimed run \<open>r\<close> may make of its row.\<close>

definition sched_outcome :: "time \<Rightarrow> run \<Rightarrow> job \<Rightarrow> run \<Rightarrow> run \<Rightarrow> bool" where
  "sched_outcome now r j q q' \<longleftrightarrow> frozen q q' \<and>
     (run_state q' = RQueued \<and> run_attempt q' = run_attempt r + 1 \<and> run_attempt r < job_retry_max_attempts j \<and>
        run_started_at q' = run_started_at q
      \<or> run_state q' \<in> {RCancelled, RFailed} \<and> run_ended_at q' = Some now \<and> run_attempt q' = run_attempt q \<and>
        run_started_at q' = run_started_at q
      \<or> run_state q' = RAccepted \<and> run_started_at q' = Some now \<and> run_last_heartbeat_at q' = Some now \<and>
        run_attempt q' = run_attempt q)"

lemma sched_outcome_id: "sched_outcome now r j q q' \<Longrightarrow> run_id q' = run_id q"
  by (simp add: sched_outcome_def frozen_def)

lemmas frozen_defs = sched_outcome_def frozen_def

lemma handle_dispatch_failure_touches:
  assumes d: "touches only_runs (run_id r) (\<lambda>q q'. frozen q q' \<and> run_attempt q' = run_attempt q \<and> run_started_at q' = run_started_at q) d0 d"
  shows "touches only_runs (run_id r) (sched_outcome now r j) d0 (handle_dispatch_failure now actor r env j e d)"
  unfolding handle_dispatch_failure_def Let_def
  by (cases "is_transient_dispatch_error e \<and> run_attempt r < job_retry_max_attempts j")
    (auto intro!: only_runs.touches_audit only_runs.touches_modify2 [OF d] simp: frozen_defs)

lemma dispatch_ready_touches:
  assumes d: "touches only_runs (run_id r) (\<lambda>q q'. q' = q) d0 d"
  shows "touches only_runs (run_id r) (sched_outcome now r j) d0 (dispatch_ready_run cl now actor r env j d)"
proof -
  let ?d1 = "modify_run now (run_id r) (\<lambda>r. r\<lparr>run_state := RDispatching\<rparr>) d"
  have t: "touches only_runs (run_id r) (\<lambda>q q'. frozen q q' \<and> run_attempt q' = run_attempt q \<and> run_started_at q' = run_started_at q) d0 ?d1"
    by (rule only_runs.touches_modify2 [OF d]) (simp_all add: frozen_def)
  show ?thesis
  proof (cases "dispatch_run cl env j (r\<lparr>run_state := RDispatching\<rparr>)")
    case (Inl e)
    then show ?thesis using handle_dispatch_failure_touches [OF t] by (simp add: dispatch_ready_run_def Let_def)
  next
    case (Inr res)
    have "touches only_runs (run_id r) (sched_outcome now r j) d0
        (modify_run now (run_id r) (\<lambda>r. apply_dispatch_result now env res (dispatched_fields res r)) ?d1)"
      by (rule only_runs.touches_modify2 [OF t])
        (auto simp: frozen_defs apply_dispatch_result_def dispatched_fields_def Let_def split: dispatch_result.splits)
    then show ?thesis using Inr by (simp add: dispatch_ready_run_def Let_def only_runs.touches_audit)
  qed
qed

lemma schedule_run_touches:
  assumes pf: "audit_only pf"
  shows "touches only_runs (run_id r) (sched_outcome now r j) (fst st) (fst (schedule_run cl pf now actor r env j st))"
proof (cases "run_cancellation_requested r")
  case True
  then show ?thesis
    by (auto simp: schedule_run_def Let_def intro!: only_runs.touches_modify simp: frozen_defs)
next
  case False
  obtain res d1 c1 where p: "pf env (run_id r) (dmerge (job_spark_conf j) (run_spark_conf_overrides r)) st = (res, d1, c1)"
    by (metis surj_pair)
  obtain a where "d1 = (fst st)\<lparr>db_audit := a\<rparr>" using pf p unfolding audit_only_def by (metis fst_conv snd_conv)
  then have t: "touches only_runs (run_id r) (\<lambda>q q'. q' = q) (fst st) d1"
    by (intro only_runs.touches_id) simp_all
  then have t': "touches only_runs (run_id r) (\<lambda>q q'. frozen q q' \<and> run_attempt q' = run_attempt q \<and> run_started_at q' = run_started_at q) (fst st) d1"
    by (rule touches_mono) simp
  show ?thesis
  proof (cases res)
    case (Inl e)
    then show ?thesis using False p handle_dispatch_failure_touches [OF t'] by (simp add: schedule_run_def Let_def)
  next
    case (Inr q)
    show ?thesis
    proof (cases "pf_ready q")
      case True
      then show ?thesis using False p Inr dispatch_ready_touches [OF only_runs.touches_audit [OF t]]
        by (simp add: schedule_run_def Let_def)
    next
      case nr: False
      have "touches only_runs (run_id r) (sched_outcome now r j) (fst st)
          (modify_run now (run_id r) (\<lambda>r. r\<lparr>run_state := RFailed,
              run_error_message := Some (''Preflight failed: '' @ preflight_summary (pf_checks q) False False),
              run_ended_at := Some now\<rparr>) d1)"
        by (rule only_runs.touches_modify2 [OF t]) (simp_all add: frozen_defs)
      then show ?thesis using False p Inr nr by (simp add: schedule_run_def Let_def only_runs.touches_audit)
    qed
  qed
qed

definition claimed_outcome :: "time \<Rightarrow> run \<Rightarrow> job \<Rightarrow> run \<Rightarrow> run \<Rightarrow> bool" where
  "claimed_outcome now r j q q' \<longleftrightarrow> sched_outcome now r j q q' \<and> run_claim_token q' = None \<and> run_claimed_at q' = None"

lemma schedule_claimed_touches:
  assumes pf: "audit_only pf" and r: "get_run (fst st) i = Some r"
    and fk: "get_environment (fst st) (run_environment_id r) = Some env" "get_job (fst st) (run_job_id r) = Some j"
  shows "touches only_runs i (claimed_outcome (clk i) r j) (fst st) (fst (schedule_claimed cl pf clk actor i st))"
proof -
  have id: "run_id r = i" using run_store.get_Some [OF r] by simp
  obtain d1 c1 where s: "schedule_run cl pf (clk i) actor r env j st = (d1, c1)" by force
  have "touches only_runs i (sched_outcome (clk i) r j) (fst st) d1"
    using schedule_run_touches [OF pf, of r "clk i" j st cl actor env] s id by simp
  then have "touches only_runs i (claimed_outcome (clk i) r j) (fst st) (modify_run (clk i) i release_run_claim d1)"
    by (rule only_runs.touches_modify2) (auto simp: claimed_outcome_def frozen_defs release_run_claim_def)
  then show ?thesis using r fk s by (simp add: schedule_claimed_def)
qed

subsection \<open>A pass over all claimed runs\<close>

lemma claimed_outcome_step: "claimed_outcome now r j q q' \<Longrightarrow> run_state q = RQueued \<Longrightarrow> row_step q q'"
  by (auto simp: claimed_outcome_def sched_outcome_def row_step_def started_def)

lemma claimed_outcome_id: "claimed_outcome now r j q q' \<Longrightarrow> run_id q' = run_id q"
  by (auto simp: claimed_outcome_def dest: sched_outcome_id)

text \<open>The outcome of a claimed run, with its job in \<open>d0\<close>.\<close>

definition scheduled :: "database \<Rightarrow> (string \<Rightarrow> time) \<Rightarrow> string \<Rightarrow> run \<Rightarrow> run \<Rightarrow> run \<Rightarrow> bool" where
  "scheduled d0 clk i r q q' \<longleftrightarrow> (\<exists>j. get_job d0 (run_job_id r) = Some j \<and> claimed_outcome (clk i) r j q q')"

lemma scheduler_pass:
  assumes pf: "audit_only pf"
  shows "claimed_pass only_runs fst (schedule_claimed cl pf clk actor) (\<lambda>r. run_state r = RQueued) (scheduled d0 clk) d0"
proof
  fix st :: "database \<times> 'a" and i r
  assume r: "get_run (fst st) i = Some r" and fk: "fk_ok (fst st)"
    and g: "get_environment (fst st) = get_environment d0 \<and> get_job (fst st) = get_job d0"
  from fk run_store.get_Some [OF r] obtain env j where e: "get_environment (fst st) (run_environment_id r) = Some env"
    and j: "get_job (fst st) (run_job_id r) = Some j" unfolding fk_ok_def by blast
  show "touches only_runs i (scheduled d0 clk i r) (fst st) (fst (schedule_claimed cl pf clk actor i st))"
    by (rule touches_mono [OF schedule_claimed_touches [OF pf r e j]]) (use j g in \<open>auto simp: scheduled_def\<close>)
next
  fix i r q assume "scheduled d0 clk i r r q" "run_state r = RQueued"
  then show "row_step r q" by (auto simp: scheduled_def dest: claimed_outcome_step)
next
  fix i r q q' assume "scheduled d0 clk i r q q'"
  then show "run_id q' = run_id q" by (auto simp: scheduled_def dest: claimed_outcome_id)
qed

text \<open>
  A pass: every claimed run leaves the queue, is queued again for another attempt, or has ended; no
  claim of the pass remains; every other run is as it was.
\<close>

lemma process_scheduler_once_outcome:
  assumes pf: "audit_only pf" and dist: "distinct (map run_id (db_runs d))" and fk: "fk_ok d"
    and run: "process_scheduler_once cl pf now clk tk actor lmt (d, c) = (n, d', c')"
  obtains rs d1 where "claim_runs now clk tk [RQueued] lmt run_created_at d = (rs, d1)" "n = length rs" "n \<le> lmt"
    "only_runs d d'" "runs_step row_step d d'"
    "\<And>i. i \<notin> run_id ` set rs \<Longrightarrow> get_run d' i = get_run d1 i"
    "\<And>r. r \<in> set rs \<Longrightarrow> \<exists>r'. get_run d' (run_id r) = Some r' \<and> scheduled d clk (run_id r) r r r'"
proof -
  obtain rs d1 where cl: "claim_runs now clk tk [RQueued] lmt run_created_at d = (rs, d1)" by force
  have st': "(d', c') = fold (\<lambda>r. schedule_claimed cl pf clk actor (run_id r)) rs (d1, c)" and n: "n = length rs"
    using run cl by (simp_all add: process_scheduler_once_def)
  note o = claimed_pass.claimed_pass_outcome [OF scheduler_pass [OF pf, of cl clk actor d],
      of now clk tk "[RQueued]" lmt run_created_at rs "(d1, c)" "(d', c')",
      unfolded fst_conv, OF dist fk cl only_runs_claim [OF cl] _ _ st']
  show thesis using that [OF cl n] o n by simp
qed

subsection \<open>With the cached preflight\<close>

definition cached_preflight ::
    "(environment \<Rightarrow> conf \<Rightarrow> string) \<Rightarrow> emitter \<Rightarrow> emitter \<Rightarrow> (string \<Rightarrow> time) \<Rightarrow> (string \<Rightarrow> time)
     \<Rightarrow> preflight_cache cached_preflight" where
  "cached_preflight key before after clk tick =
     (\<lambda>env rid. build_preflight_cached key before after (clk rid) (tick rid) env rid)"

lemma cached_preflight_audit_only: "audit_only (cached_preflight key before after clk tick)"
  unfolding audit_only_def
proof (intro allI)
  fix env rid c and st :: "database \<times> preflight_cache"
  obtain d cache where st: "st = (d, cache)" by force
  obtain res d' cache' where "build_preflight_cached key before after (clk rid) (tick rid) env rid c st = (res, d', cache')"
    by (metis surj_pair)
  then show "\<exists>a. fst (snd (cached_preflight key before after clk tick env rid c st)) = (fst st)\<lparr>db_audit := a\<rparr>"
    using build_preflight_cached_frame unfolding st cached_preflight_def by (metis fst_conv snd_conv)
qed

interpretation scheduler: claimed_pass only_runs fst
    "schedule_claimed cl (cached_preflight key before after clk tick) clk actor"
    "\<lambda>r. run_state r = RQueued" "scheduled d0 clk" d0
  for cl key before after clk tick actor d0
  by (rule scheduler_pass [OF cached_preflight_audit_only])

end
