(* ===== verification/SP_Diagnostics.thy ===== *)
theory SP_Diagnostics
  imports SP_Helpers
begin

text \<open>
  \<open>services/diagnostics.py\<close>: the catalogue of failure patterns, the analysis of log lines, and the
  recording of the diagnostics of a failed run. \<open>fetch\<close> is the answer of the CloudWatch proxy for
  the log of the run, or the exception it raised.
\<close>

record diag_pattern =
  pat_category :: string
  pat_tokens :: "string list"
  pat_description :: string
  pat_remediation :: string

definition diagnostic_patterns :: "diag_pattern list" where
  "diagnostic_patterns =
     [\<lparr>pat_category = ''oom'',
       pat_tokens = [''outofmemoryerror'', ''java heap space'', ''container killed by yarn for exceeding memory limits''],
       pat_description = ''Spark driver or executor ran out of memory.'',
       pat_remediation = ''Increase driver/executor memory, reduce partition size, or tune shuffle/storage settings.''\<rparr>,
      \<lparr>pat_category = ''shuffle_fetch_failure'',
       pat_tokens = [''fetchfailed'', ''metadata fetch failed'', ''shuffle block fetch failed''],
       pat_description = ''Shuffle fetch failure detected.'',
       pat_remediation = ''Check executor churn/network instability and increase shuffle retry/timeout settings.''\<rparr>,
      \<lparr>pat_category = ''s3_access_denied'',
       pat_tokens = [''accessdenied'', ''403 forbidden'', ''amazon s3'', ''s3a''],
       pat_description = ''S3 access denied during Spark run.'',
       pat_remediation = ''Verify execution role S3 permissions and bucket policy for input/output prefixes.''\<rparr>,
      \<lparr>pat_category = ''schema_mismatch'',
       pat_tokens = [''analysisexception'', ''cannot resolve'', ''schema mismatch''],
       pat_description = ''Schema mismatch or unresolved column detected.'',
       pat_remediation = ''Validate input schema evolution and update query/transform logic accordingly.''\<rparr>,
      \<lparr>pat_category = ''timeout'',
       pat_tokens = [''timed out'', ''timeout'', ''run exceeded timeout_seconds''],
       pat_description = ''Run exceeded timeout or stalled beyond configured threshold.'',
       pat_remediation = ''Increase timeout or reduce workload size/resources per run.''\<rparr>,
      \<lparr>pat_category = ''spot_interruption'',
       pat_tokens = [''spot interruption'', ''termination notice'', ''executor lost'', ''node was drained''],
       pat_description = ''Spot interruption or eviction pattern detected.'',
       pat_remediation = ''Increase Spot diversification and retry/fault-tolerance configuration for executors.''\<rparr>]"

definition first_matching_line :: "string list \<Rightarrow> string list \<Rightarrow> string option" where
  "first_matching_line lns tokens =
     (let lowered_tokens = map py_lower tokens in
      map_option (take 500) (find (\<lambda>line. list_ex (\<lambda>tok. contains_sub tok (py_lower line)) lowered_tokens) lns))"

record diag_item =
  di_category :: string
  di_description :: string
  di_remediation :: string
  di_log_snippet :: "string option"

fun scan_patterns :: "string list \<Rightarrow> string list \<Rightarrow> diag_pattern list \<Rightarrow> diag_item list" where
  "scan_patterns all_lines seen [] = []"
| "scan_patterns all_lines seen (p # ps) =
     (case first_matching_line all_lines (pat_tokens p) of
        None \<Rightarrow> scan_patterns all_lines seen ps
      | Some snippet \<Rightarrow>
          if pat_category p \<in> set seen then scan_patterns all_lines seen ps
          else \<lparr>di_category = pat_category p, di_description = pat_description p,
                di_remediation = pat_remediation p, di_log_snippet = Some snippet\<rparr>
               # scan_patterns all_lines (pat_category p # seen) ps)"

definition has_text :: "string option \<Rightarrow> bool" where
  "has_text x = (case x of None \<Rightarrow> False | Some s \<Rightarrow> s \<noteq> [])"

definition diagnostics_from_log_lines :: "string list \<Rightarrow> string option \<Rightarrow> diag_item list" where
  "diagnostics_from_log_lines lns err_msg =
     (let all_lines = lns @ (if has_text err_msg then [the err_msg] else []);
          diagnostics = scan_patterns all_lines [] diagnostic_patterns
      in if diagnostics = [] \<and> has_text err_msg then
           [\<lparr>di_category = ''unknown_failure'',
             di_description = ''Run failed but no known diagnostic pattern matched.'',
             di_remediation = ''Review full driver/executor logs and EMR job details for root cause.'',
             di_log_snippet = Some (take 500 (the err_msg))\<rparr>]
         else diagnostics)"

definition log_collection_item :: "string \<Rightarrow> diag_item" where
  "log_collection_item log_fetch_error =
     \<lparr>di_category = ''log_collection_error'',
      di_description = ''CloudWatch diagnostic log collection failed.'',
      di_remediation = ''Verify customer role permissions for CloudWatch Logs and inspect worker logs for fetch errors.'',
      di_log_snippet = Some (take 500 log_fetch_error)\<rparr>"

definition diagnostic_row :: "time \<Rightarrow> string \<Rightarrow> diag_item \<Rightarrow> run_diagnostic" where
  "diagnostic_row now rid item =
     \<lparr>rd_run_id = rid, rd_category = di_category item, rd_description = di_description item,
      rd_remediation = di_remediation item, rd_log_snippet = di_log_snippet item, rd_created_at = now\<rparr>"

definition diagnostic_items :: "exn + string list \<Rightarrow> string option \<Rightarrow> diag_item list" where
  "diagnostic_items fetched err_msg =
     (let lns = (case fetched of Inl e \<Rightarrow> [] | Inr ls \<Rightarrow> ls);
          log_fetch_error = (case fetched of Inl e \<Rightarrow> Some (exn_text e) | Inr ls \<Rightarrow> None);
          diagnostics = diagnostics_from_log_lines lns err_msg
      in if has_text log_fetch_error then log_collection_item (the log_fetch_error) # diagnostics
         else diagnostics)"

definition record_run_diagnostics_if_needed ::
    "time \<Rightarrow> (run \<Rightarrow> environment \<Rightarrow> exn + string list) \<Rightarrow> run \<Rightarrow> environment \<Rightarrow> database \<Rightarrow> database" where
  "record_run_diagnostics_if_needed now fetch r env d =
     (if run_state r \<notin> {RFailed, RTimedOut, RCancelled} then d
      else if (\<exists>x \<in> set (db_diags d). rd_run_id x = run_id r) then d
      else
        let fetched = (if has_text (run_log_group r) \<and> has_text (run_log_stream_prefix r)
                       then fetch r env else Inr [])
        in d\<lparr>db_diags := db_diags d @
             map (diagnostic_row now (run_id r)) (diagnostic_items fetched (run_error_message r))\<rparr>)"

definition list_run_diagnostics :: "database \<Rightarrow> string \<Rightarrow> nat \<Rightarrow> nat \<Rightarrow> error + run_diagnostic list" where
  "list_run_diagnostics d rid lim off =
     rbind (require_run d rid) (\<lambda>_.
       Inr (page lim off (sort_key rd_created_at (filter (\<lambda>x. rd_run_id x = rid) (db_diags d)))))"

subsection \<open>Analysis of log lines\<close>

definition line_matches :: "string list \<Rightarrow> string \<Rightarrow> bool" where
  "line_matches tokens line \<longleftrightarrow> (\<exists>tok \<in> set tokens. contains_sub (py_lower tok) (py_lower line))"

lemma first_matching_line_None:
  "first_matching_line lns tokens = None \<longleftrightarrow> (\<forall>l \<in> set lns. \<not> line_matches tokens l)"
  by (auto simp: first_matching_line_def line_matches_def find_None_iff list_ex_iff Let_def)

lemma first_matching_line_Some:
  "first_matching_line lns tokens = Some s \<Longrightarrow> \<exists>l \<in> set lns. line_matches tokens l \<and> s = take 500 l"
  by (auto simp: first_matching_line_def line_matches_def find_Some_iff list_ex_iff Let_def)

lemma scan_patterns_categories:
  "distinct (map pat_category ps) \<Longrightarrow> set seen \<inter> pat_category ` set ps = {} \<Longrightarrow>
     map di_category (scan_patterns ls seen ps) =
     map pat_category (filter (\<lambda>p. \<exists>l \<in> set ls. line_matches (pat_tokens p) l) ps)"
proof (induction ps arbitrary: seen)
  case Nil
  then show ?case by simp
next
  case (Cons p ps)
  have d: "distinct (map pat_category ps)" and fresh: "pat_category p \<notin> set seen"
    and s1: "set seen \<inter> pat_category ` set ps = {}"
    and s2: "set (pat_category p # seen) \<inter> pat_category ` set ps = {}"
    using Cons.prems by auto
  show ?case
  proof (cases "first_matching_line ls (pat_tokens p)")
    case None
    then show ?thesis using Cons.IH [OF d s1] first_matching_line_None [of ls "pat_tokens p"] by simp
  next
    case (Some s)
    then have "\<exists>l \<in> set ls. line_matches (pat_tokens p) l" using first_matching_line_Some by blast
    then show ?thesis using Cons.IH [OF d s2] Some fresh by simp
  qed
qed

lemma scan_patterns_item:
  "x \<in> set (scan_patterns ls seen ps) \<Longrightarrow>
     \<exists>p \<in> set ps. \<exists>l \<in> set ls. line_matches (pat_tokens p) l \<and> di_category x = pat_category p \<and>
       di_description x = pat_description p \<and> di_remediation x = pat_remediation p \<and>
       di_log_snippet x = Some (take 500 l)"
proof (induction ps arbitrary: seen)
  case Nil
  then show ?case by simp
next
  case (Cons p ps)
  then show ?case
    by (auto split: option.splits if_splits dest!: first_matching_line_Some)
qed

lemma distinct_pattern_categories: "distinct (map pat_category diagnostic_patterns)"
  by (simp add: diagnostic_patterns_def)

definition analysed_lines :: "string list \<Rightarrow> string option \<Rightarrow> string list" where
  "analysed_lines lns msg = lns @ (if has_text msg then [the msg] else [])"

text \<open>The categories reported are those of the patterns that occur, in the order of the catalogue.\<close>

lemma diagnostics_categories:
  assumes "\<exists>p \<in> set diagnostic_patterns. \<exists>l \<in> set (analysed_lines lns msg). line_matches (pat_tokens p) l"
  shows "map di_category (diagnostics_from_log_lines lns msg) =
    map pat_category (filter (\<lambda>p. \<exists>l \<in> set (analysed_lines lns msg). line_matches (pat_tokens p) l) diagnostic_patterns)"
proof -
  have c: "map di_category (scan_patterns (analysed_lines lns msg) [] diagnostic_patterns) =
    map pat_category (filter (\<lambda>p. \<exists>l \<in> set (analysed_lines lns msg). line_matches (pat_tokens p) l) diagnostic_patterns)"
    by (rule scan_patterns_categories [OF distinct_pattern_categories]) simp
  then have "scan_patterns (analysed_lines lns msg) [] diagnostic_patterns \<noteq> []"
    using assms by (metis (mono_tags, lifting) filter_empty_conv list.map_disc_iff)
  then show ?thesis using c by (simp add: diagnostics_from_log_lines_def analysed_lines_def Let_def)
qed

lemma diagnostics_nonempty: "has_text msg \<Longrightarrow> diagnostics_from_log_lines lns msg \<noteq> []"
  by (simp add: diagnostics_from_log_lines_def Let_def)

lemma diagnostic_items_nonempty: "has_text msg \<Longrightarrow> diagnostic_items x msg \<noteq> []"
  by (simp add: diagnostic_items_def diagnostics_nonempty Let_def)

lemma diagnostics_snippet:
  assumes "x \<in> set (diagnostics_from_log_lines lns msg)"
  shows "\<exists>l \<in> set (analysed_lines lns msg). di_log_snippet x = Some (take 500 l)"
proof (cases "x \<in> set (scan_patterns (analysed_lines lns msg) [] diagnostic_patterns)")
  case True
  then show ?thesis by (blast dest: scan_patterns_item)
next
  case False
  then show ?thesis using assms
    by (auto simp: diagnostics_from_log_lines_def analysed_lines_def Let_def split: if_splits)
qed

subsection \<open>Recording\<close>

lemma record_run_diagnostics_cases:
  "record_run_diagnostics_if_needed now fetch r env d = d \<or>
   (\<exists>items. record_run_diagnostics_if_needed now fetch r env d =
      d\<lparr>db_diags := db_diags d @ map (diagnostic_row now (run_id r)) items\<rparr>)"
  unfolding record_run_diagnostics_if_needed_def Let_def by (cases "run_state r") auto

lemma record_run_diagnostics_frame:
  "\<exists>t. record_run_diagnostics_if_needed now fetch r env d = d\<lparr>db_diags := t\<rparr>"
  using record_run_diagnostics_cases [of now fetch r env d]
proof
  assume "record_run_diagnostics_if_needed now fetch r env d = d"
  then show ?thesis by (intro exI [where x = "db_diags d"]) simp
qed blast

lemma record_run_diagnostics_other:
  "rid \<noteq> run_id r \<Longrightarrow>
     filter (\<lambda>x. rd_run_id x = rid) (db_diags (record_run_diagnostics_if_needed now fetch r env d)) =
     filter (\<lambda>x. rd_run_id x = rid) (db_diags d)"
  using record_run_diagnostics_cases [of now fetch r env d] by (auto simp: filter_empty_conv diagnostic_row_def)

text \<open>A second recording adds nothing once the first one has added a row.\<close>

lemma record_run_diagnostics_once:
  assumes "d' = record_run_diagnostics_if_needed now fetch r env d" and "db_diags d' \<noteq> db_diags d"
    and "run_id r' = run_id r"
  shows "record_run_diagnostics_if_needed now' fetch' r' env' d' = d'"
proof -
  have "\<exists>x \<in> set (db_diags d'). rd_run_id x = run_id r"
    using assms(1,2)
    by (auto simp: record_run_diagnostics_if_needed_def Let_def diagnostic_row_def neq_Nil_conv split: if_splits)
  then show ?thesis using assms(3) by (simp add: record_run_diagnostics_if_needed_def)
qed

lemma record_run_diagnostics_failed:
  assumes "run_state r \<in> {RFailed, RTimedOut, RCancelled}" and "has_text (run_error_message r)"
  shows "\<exists>x \<in> set (db_diags (record_run_diagnostics_if_needed now fetch r env d)). rd_run_id x = run_id r"
proof (cases "\<exists>x \<in> set (db_diags d). rd_run_id x = run_id r")
  case True
  then show ?thesis by (simp add: record_run_diagnostics_if_needed_def)
next
  case False
  obtain x where "db_diags (record_run_diagnostics_if_needed now fetch r env d) =
      db_diags d @ map (diagnostic_row now (run_id r)) (diagnostic_items x (run_error_message r))"
    using assms(1) False by (auto simp: record_run_diagnostics_if_needed_def Let_def)
  moreover obtain i "is" where "diagnostic_items x (run_error_message r) = i # is"
    using diagnostic_items_nonempty [OF assms(2)] by (meson neq_Nil_conv)
  ultimately show ?thesis by (simp add: diagnostic_row_def)
qed

end
