(* ===== verification/SP_Reconciler.thy ===== *)
theory SP_Reconciler
  imports SP_RunSteps SP_Preflight SP_Usage SP_Diagnostics
begin

text \<open>
  \<open>services/workers_reconciliation.py\<close>, with \<open>describe_job_run\<close> and \<open>cancel_job_run\<close> of
  \<open>aws_clients.EmrEksClient\<close>: one pass of the reconciler claims accepted and running runs, asks EMR for
  their state and records it. Each run is handled under a savepoint: an exception undoes what was written
  for that run. The AWS calls, the preflight, the price lookup and the log fetch are the fields of
  \<open>reconciler_env\<close>.
\<close>

record reconciler_env =
  rc_dry_run_mode :: bool
  rc_session :: "environment \<Rightarrow> exn option" \<comment> \<open>the exception of \<open>session_for_environment\<close>, if any\<close>
  rc_describe_api :: "environment \<Rightarrow> string \<Rightarrow> exn + string option \<times> string option"
  rc_cancel_api :: "environment \<Rightarrow> string \<Rightarrow> exn + string option"
  rc_preflight :: "environment \<Rightarrow> string \<Rightarrow> conf \<Rightarrow> database \<Rightarrow> (exn + preflight) \<times> database"
  rc_pricing :: "string \<Rightarrow> exn + pricing_snapshot"
  rc_cost_center :: "environment \<Rightarrow> error + string"
  rc_fetch_logs :: "run \<Rightarrow> environment \<Rightarrow> exn + string list"
  rc_submitted_stale_minutes :: int
  rc_accepted_stale_minutes :: int

subsection \<open>The EMR client\<close>

definition describe_job_run ::
    "reconciler_env \<Rightarrow> time \<Rightarrow> environment \<Rightarrow> run \<Rightarrow> exn + string \<times> string option" where
  "describe_job_run rc now env r =
     (if run_cancellation_requested r then Inr (''CANCELLED'', None)
      else if rc_dry_run_mode rc then
        (case run_started_at r of
           None \<Rightarrow> Inr (''PENDING'', None)
         | Some s \<Rightarrow>
             let elapsed = now - s in
             if elapsed < 10 * 1000000 then Inr (''SUBMITTED'', None)
             else if elapsed < 40 * 1000000 then Inr (''RUNNING'', None)
             else Inr (''COMPLETED'', None))
      else if opt_empty (run_emr_job_run_id r) then Inr (''FAILED'', Some ''Missing EMR job id.'')
      else case rc_session rc env of
          Some e \<Rightarrow> Inl e
        | None \<Rightarrow>
            (case rc_describe_api rc env (the (run_emr_job_run_id r)) of
               Inl e \<Rightarrow> if exn_class e = ''ClientError'' then Inr (''FAILED'', Some (exn_text e)) else Inl e
             | Inr (st, failure) \<Rightarrow> Inr (case st of Some s \<Rightarrow> s | None \<Rightarrow> ''FAILED'', failure)))"

definition cancel_job_run :: "reconciler_env \<Rightarrow> environment \<Rightarrow> run \<Rightarrow> exn + string option" where
  "cancel_job_run rc env r =
     (if rc_dry_run_mode rc then Inr None
      else if opt_empty (run_emr_job_run_id r) then Inr None
      else case rc_session rc env of
          Some e \<Rightarrow> Inl e
        | None \<Rightarrow> rc_cancel_api rc env (the (run_emr_job_run_id r)))"

definition emr_to_platform_state :: "(string \<times> run_state) list" where
  "emr_to_platform_state =
     [(''PENDING'', RAccepted), (''SUBMITTED'', RAccepted), (''RUNNING'', RRunning),
      (''COMPLETED'', RSucceeded), (''FAILED'', RFailed), (''CANCELLED'', RCancelled),
      (''CANCEL_PENDING'', RRunning)]"

definition mapped_state_of :: "string \<Rightarrow> run_state" where
  "mapped_state_of emr_state =
     (case map_of emr_to_platform_state emr_state of Some s \<Rightarrow> s | None \<Rightarrow> RFailed)"

subsection \<open>Steps for one run\<close>

definition emit_preflight_diagnostic_if_missing ::
    "reconciler_env \<Rightarrow> time \<Rightarrow> string \<Rightarrow> run \<Rightarrow> environment \<Rightarrow> job \<Rightarrow> database \<Rightarrow> exn + database" where
  "emit_preflight_diagnostic_if_missing rc now actor r env j d =
     (if has_preflight_audit d (run_id r) then Inr d
      else case rc_preflight rc env (run_id r) (dmerge (job_spark_conf j) (run_spark_conf_overrides r)) d of
          (Inl e, _) \<Rightarrow> Inl e
        | (Inr diagnostic, d1) \<Rightarrow>
            Inr (write_audit_event now actor ''run.preflight_diagnostic'' ''run'' (run_id r)
              (Some (env_tenant_id env)) None
              [(''ready'', JBool (pf_ready diagnostic)),
               (''summary'', JStr (preflight_summary (pf_checks diagnostic) True False)),
               (''environment_id'', JStr (env_id env))] None d1))"

definition timed_out :: "time \<Rightarrow> run \<Rightarrow> bool" where
  "timed_out now r =
     (case run_started_at r of None \<Rightarrow> False | Some s \<Rightarrow> now - s > run_timeout_seconds r * 1000000)"

definition finish_timed_out :: "time \<Rightarrow> run \<Rightarrow> run" where
  "finish_timed_out now r =
     r\<lparr>run_cancellation_requested := True, run_state := RTimedOut,
       run_error_message := Some ''Run exceeded timeout_seconds.'', run_ended_at := Some now\<rparr>"

definition mark_run_timed_out ::
    "reconciler_env \<Rightarrow> time \<Rightarrow> string \<Rightarrow> run \<Rightarrow> environment \<Rightarrow> database \<Rightarrow> exn + database" where
  "mark_run_timed_out rc now actor r env d =
     rbind (if opt_empty (run_emr_job_run_id r) then Inr d
            else rbind (cancel_job_run rc env r) (\<lambda>aws_request_id.
              Inr (write_audit_event now actor ''run.timeout_cancel.dispatched'' ''run'' (run_id r)
                (Some (env_tenant_id env)) None [] aws_request_id d))) (\<lambda>d1.
     let d2 = modify_run now (run_id r) (finish_timed_out now) d1;
         r2 = finish_timed_out now r in
     rbind (record_usage_if_needed now (rc_pricing rc (run_id r)) (rc_cost_center rc) r2 env d2) (\<lambda>d3.
     Inr (write_audit_event now actor ''run.timed_out'' ''run'' (run_id r) (Some (env_tenant_id env)) None [] None
       (record_run_diagnostics_if_needed now (rc_fetch_logs rc) r2 env d3))))"

definition dispatch_run_cancel_if_requested ::
    "reconciler_env \<Rightarrow> time \<Rightarrow> string \<Rightarrow> run \<Rightarrow> environment \<Rightarrow> database \<Rightarrow> exn + database" where
  "dispatch_run_cancel_if_requested rc now actor r env d =
     (if \<not> (run_cancellation_requested r \<and> \<not> opt_empty (run_emr_job_run_id r)) then Inr d
      else rbind (cancel_job_run rc env r) (\<lambda>aws_request_id.
        Inr (write_audit_event now actor ''run.cancel.dispatched'' ''run'' (run_id r)
          (Some (env_tenant_id env)) None [] aws_request_id d)))"

definition apply_reconciler_stale_overrides ::
    "reconciler_env \<Rightarrow> time \<Rightarrow> run \<Rightarrow> string \<Rightarrow> run_state \<Rightarrow> string option \<Rightarrow> run_state \<times> string option" where
  "apply_reconciler_stale_overrides rc now r emr_state mapped_state err =
     (case run_started_at r of
        None \<Rightarrow> (mapped_state, err)
      | Some s \<Rightarrow>
          let elapsed = now - s in
          if emr_state = ''SUBMITTED'' \<and> elapsed > rc_submitted_stale_minutes rc * 60000000
          then (RFailed, Some (''Run remained in EMR SUBMITTED for more than '' @
                  show_int (rc_submitted_stale_minutes rc) @
                  '' minutes. Check IRSA/OIDC trust and pod scheduling events.''))
          else if mapped_state = RAccepted \<and> elapsed > rc_accepted_stale_minutes rc * 60000000
          then (RFailed, Some (''Run remained in accepted state for more than '' @
                  show_int (rc_accepted_stale_minutes rc) @
                  '' minutes. Check scheduler dispatch, EMR job state, and Kubernetes events.''))
          else (mapped_state, err))"

text \<open>What the recording of a state writes on the run.\<close>

definition reconciled_row :: "time \<Rightarrow> run_state \<Rightarrow> string option \<Rightarrow> run \<Rightarrow> run" where
  "reconciled_row now mapped_state err r =
     (let r1 = (if opt_empty err then r else r\<lparr>run_error_message := err\<rparr>)\<lparr>run_state := mapped_state\<rparr>;
          r2 = (if mapped_state \<in> {RAccepted, RRunning} then r1\<lparr>run_last_heartbeat_at := Some now\<rparr> else r1)
      in if mapped_state \<in> set terminal_run_states \<and> run_ended_at r2 = None
         then r2\<lparr>run_ended_at := Some now\<rparr> else r2)"

definition history_link :: "environment \<Rightarrow> run_state \<Rightarrow> run \<Rightarrow> run" where
  "history_link env mapped_state r =
     (if mapped_state = RSucceeded \<and> opt_empty (run_spark_ui_uri r) \<and>
         \<not> opt_empty (env_spark_history_server_url env) \<and> \<not> opt_empty (run_emr_job_run_id r)
      then r\<lparr>run_spark_ui_uri := Some (py_rstrip_char (CHR ''/'') (the (env_spark_history_server_url env)) @
               ''/history/'' @ the (run_emr_job_run_id r))\<rparr>
      else r)"

definition record_reconciled_run_state ::
    "reconciler_env \<Rightarrow> time \<Rightarrow> string \<Rightarrow> run \<Rightarrow> environment \<Rightarrow> string \<Rightarrow> run_state \<Rightarrow> string option \<Rightarrow> database
     \<Rightarrow> exn + database" where
  "record_reconciled_run_state rc now actor r env emr_state mapped_state err d =
     (let d1 = modify_run now (run_id r) (reconciled_row now mapped_state err) d;
          r1 = reconciled_row now mapped_state err r in
      rbind (if mapped_state \<in> set terminal_run_states then
               rbind (record_usage_if_needed now (rc_pricing rc (run_id r)) (rc_cost_center rc) r1 env d1) (\<lambda>d2.
               Inr (modify_run now (run_id r) (history_link env mapped_state)
                 (record_run_diagnostics_if_needed now (rc_fetch_logs rc) r1 env d2)))
             else Inr d1) (\<lambda>d3.
      Inr (write_audit_event now actor ''run.reconciled'' ''run'' (run_id r) (Some (env_tenant_id env)) None
        [(''emr_state'', JStr emr_state), (''state'', JStr (run_state_str mapped_state))] None d3)))"

definition reconcile_run ::
    "reconciler_env \<Rightarrow> time \<Rightarrow> string \<Rightarrow> run \<Rightarrow> environment \<Rightarrow> job \<Rightarrow> database \<Rightarrow> exn + database" where
  "reconcile_run rc now actor r env j d =
     rbind (emit_preflight_diagnostic_if_missing rc now actor r env j d) (\<lambda>d1.
     if timed_out now r then mark_run_timed_out rc now actor r env d1
     else
       rbind (dispatch_run_cancel_if_requested rc now actor r env d1) (\<lambda>d2.
       rbind (describe_job_run rc now env r) (\<lambda>(emr_state, err).
       case apply_reconciler_stale_overrides rc now r emr_state (mapped_state_of emr_state) err of
         (mapped_state, err') \<Rightarrow>
           record_reconciled_run_state rc now actor r env emr_state mapped_state err' d2)))"

text \<open>The loop body: an exception rolls back to the savepoint, and the claim is released in any case.\<close>

definition reconcile_claimed ::
    "reconciler_env \<Rightarrow> (string \<Rightarrow> time) \<Rightarrow> string \<Rightarrow> string \<Rightarrow> database \<Rightarrow> database" where
  "reconcile_claimed rc clk actor rid d =
     (case get_run d rid of
        None \<Rightarrow> d
      | Some r \<Rightarrow>
          (case (get_environment d (run_environment_id r), get_job d (run_job_id r)) of
             (Some env, Some j) \<Rightarrow>
               modify_run (clk rid) rid release_run_claim
                 (case reconcile_run rc (clk rid) actor r env j d of Inl e \<Rightarrow> d | Inr d1 \<Rightarrow> d1)
           | _ \<Rightarrow> d))"

definition process_reconciler_once ::
    "reconciler_env \<Rightarrow> time \<Rightarrow> (string \<Rightarrow> time) \<Rightarrow> string \<Rightarrow> string \<Rightarrow> nat \<Rightarrow> database \<Rightarrow> nat \<times> database" where
  "process_reconciler_once rc now clk claim_token actor lmt d =
     (case claim_runs now clk claim_token [RAccepted, RRunning] lmt run_updated_at d of
        (active_runs, d1) \<Rightarrow>
          (length active_runs, fold (\<lambda>r. reconcile_claimed rc clk actor (run_id r)) active_runs d1))"

subsection \<open>What a run becomes\<close>

text \<open>The frame: runs and the audit log change, billing and diagnostic rows are only added.\<close>

definition only_worker :: "database \<Rightarrow> database \<Rightarrow> bool" where
  "only_worker d d' \<longleftrightarrow> (\<exists>t g u l a. d' = d\<lparr>db_runs := t, db_diags := db_diags d @ g, db_usage := db_usage d @ u,
     db_allocs := db_allocs d @ l, db_audit := a\<rparr>)"

lemma only_workerI:
  assumes "d' = d\<lparr>db_runs := db_runs d', db_diags := db_diags d', db_usage := db_usage d', db_allocs := db_allocs d',
          db_audit := db_audit d'\<rparr>"
    and "prefix (db_diags d) (db_diags d')" "prefix (db_usage d) (db_usage d')" "prefix (db_allocs d) (db_allocs d')"
  shows "only_worker d d'"
proof -
  from assms(2-4) obtain g u l where "db_diags d' = db_diags d @ g" "db_usage d' = db_usage d @ u" "db_allocs d' = db_allocs d @ l"
    by (auto simp: prefix_def)
  then show ?thesis using assms(1) unfolding only_worker_def by metis
qed

lemma only_worker_refl [simp]: "only_worker d d"
  by (rule only_workerI) simp_all

lemma only_worker_trans:
  assumes "only_worker a b" "only_worker b c" shows "only_worker a c"
proof -
  from assms(1) obtain t g u l x where b: "b = a\<lparr>db_runs := t, db_diags := db_diags a @ g, db_usage := db_usage a @ u,
     db_allocs := db_allocs a @ l, db_audit := x\<rparr>" by (auto simp: only_worker_def)
  from assms(2) obtain t' g' u' l' x' where c: "c = b\<lparr>db_runs := t', db_diags := db_diags b @ g',
     db_usage := db_usage b @ u', db_allocs := db_allocs b @ l', db_audit := x'\<rparr>" by (auto simp: only_worker_def)
  show ?thesis unfolding c b by (rule only_workerI) simp_all
qed

lemma only_runs_worker: "only_runs d d' \<Longrightarrow> only_worker d d'"
  unfolding only_runs_def by (elim exE) (rule only_workerI, simp_all)

lemma only_worker_gets: "only_worker d d' \<Longrightarrow> get_environment d' = get_environment d \<and> get_job d' = get_job d"
  by (auto simp: only_worker_def fun_eq_iff get_environment_def get_job_def)

interpretation worker: run_frame only_worker
  using only_worker_gets by unfold_locales (auto intro: only_worker_trans only_runs_worker)

lemma record_usage_worker:
  assumes "record_usage_if_needed now p cc r env d = Inr d'"
  shows "only_worker d d' \<and> db_runs d' = db_runs d"
  using assms by (cases rule: record_usage_cases) (auto intro!: only_workerI)

lemma record_diagnostics_worker:
  "only_worker d (record_run_diagnostics_if_needed now f r env d) \<and>
   db_runs (record_run_diagnostics_if_needed now f r env d) = db_runs d"
  using record_run_diagnostics_cases [of now f r env d] by (auto intro!: only_workerI)

lemma only_worker_recorded: "only_worker d d' \<Longrightarrow> recorded d i \<Longrightarrow> recorded d' i"
  by (auto simp: only_worker_def recorded_def)

definition reconciled :: "run \<Rightarrow> run \<Rightarrow> bool" where
  "reconciled q q' \<longleftrightarrow> frozen q q' \<and> run_attempt q' = run_attempt q \<and> run_started_at q' = run_started_at q \<and>
     (started (run_state q') \<or> terminal (run_state q') \<and> run_ended_at q' \<noteq> None)"

lemma mapped_state_of_range: "mapped_state_of s \<notin> {RQueued, RDispatching}"
  by (auto simp: mapped_state_of_def emr_to_platform_state_def split: option.splits dest!: map_of_SomeD)

lemma stale_override_range:
  "apply_reconciler_stale_overrides rc now r s m e = (m', e') \<Longrightarrow> m' = m \<or> m' = RFailed"
  by (auto simp: apply_reconciler_stale_overrides_def Let_def split: option.splits if_splits)

lemma reconciled_row_reconciled:
  assumes "m \<notin> {RQueued, RDispatching}" shows "reconciled q (upd_run now (reconciled_row now m e) q)"
proof -
  have "started m \<or> terminal m" using assms by (cases m) (simp_all add: started_def)
  then show ?thesis by (auto simp: reconciled_def reconciled_row_def frozen_def started_def Let_def)
qed

lemma emit_preflight_frame:
  assumes "\<And>env rid c d. \<exists>a. snd (rc_preflight rc env rid c d) = d\<lparr>db_audit := a\<rparr>"
    and "emit_preflight_diagnostic_if_missing rc now actor r env j d = Inr d'"
  shows "\<exists>a. d' = d\<lparr>db_audit := a\<rparr>"
proof (cases "has_preflight_audit d (run_id r)")
  case True
  then have "d' = d" using assms(2) by (simp add: emit_preflight_diagnostic_if_missing_def)
  then show ?thesis by (intro exI [where x = "db_audit d"]) simp
next
  case False
  obtain res d1 where p: "rc_preflight rc env (run_id r) (dmerge (job_spark_conf j) (run_spark_conf_overrides r)) d = (res, d1)"
    by force
  then obtain a where "d1 = d\<lparr>db_audit := a\<rparr>" using assms(1) by (metis snd_conv)
  then show ?thesis using assms(2) False p
    by (auto simp: emit_preflight_diagnostic_if_missing_def write_audit_event_def split: sum.splits)
qed

lemma dispatch_cancel_frame:
  "dispatch_run_cancel_if_requested rc now actor r env d = Inr d' \<Longrightarrow> \<exists>a. d' = d\<lparr>db_audit := a\<rparr>"
  by (auto simp: dispatch_run_cancel_if_requested_def rbind_Inr_iff write_audit_event_def split: if_splits
      intro: exI [where x = "db_audit d"])

lemma mark_run_timed_out_touches:
  assumes "mark_run_timed_out rc now actor r env d = Inr d'"
  shows "touches only_worker (run_id r) reconciled d d'"
proof -
  from assms obtain d1 d3 where c: "(if opt_empty (run_emr_job_run_id r) then Inr d
            else rbind (cancel_job_run rc env r) (\<lambda>aws_request_id.
              Inr (write_audit_event now actor ''run.timeout_cancel.dispatched'' ''run'' (run_id r)
                (Some (env_tenant_id env)) None [] aws_request_id d))) = Inr d1"
    and u: "record_usage_if_needed now (rc_pricing rc (run_id r)) (rc_cost_center rc) (finish_timed_out now r) env
        (modify_run now (run_id r) (finish_timed_out now) d1) = Inr d3"
    and d': "d' = write_audit_event now actor ''run.timed_out'' ''run'' (run_id r) (Some (env_tenant_id env)) None [] None
       (record_run_diagnostics_if_needed now (rc_fetch_logs rc) (finish_timed_out now r) env d3)"
    unfolding mark_run_timed_out_def rbind_Inr_iff Let_def by blast
  have "d1 = d \<or> (\<exists>aws. d1 = write_audit_event now actor ''run.timeout_cancel.dispatched'' ''run'' (run_id r)
                (Some (env_tenant_id env)) None [] aws d)"
    using c by (auto simp: rbind_Inr_iff split: if_splits)
  then have "touches only_worker (run_id r) (\<lambda>q q'. q' = q) d d1"
    using worker.touches_id [OF worker.refl] worker.touches_id [OF worker.audit] by auto
  then have "touches only_worker (run_id r) reconciled d (modify_run now (run_id r) (finish_timed_out now) d1)"
    by (rule worker.touches_modify2) (simp_all add: reconciled_def frozen_def finish_timed_out_def)
  then have "touches only_worker (run_id r) reconciled d d3"
    using record_usage_worker [OF u] worker.touches_frame by blast
  then have "touches only_worker (run_id r) reconciled d
      (record_run_diagnostics_if_needed now (rc_fetch_logs rc) (finish_timed_out now r) env d3)"
    using record_diagnostics_worker [of d3] worker.touches_frame by blast
  then show ?thesis unfolding d' by (rule worker.touches_audit)
qed

lemma record_reconciled_touches:
  assumes run: "record_reconciled_run_state rc now actor r env s m e d = Inr d'"
    and m: "m \<notin> {RQueued, RDispatching}"
  shows "touches only_worker (run_id r) reconciled d d'"
proof -
  let ?d1 = "modify_run now (run_id r) (reconciled_row now m e) d"
  let ?r1 = "reconciled_row now m e r"
  have t1: "touches only_worker (run_id r) reconciled d ?d1"
    by (rule worker.touches_modify) (rule reconciled_row_reconciled [OF m])
  from run obtain d3 where d3: "(if m \<in> set terminal_run_states then
               rbind (record_usage_if_needed now (rc_pricing rc (run_id r)) (rc_cost_center rc) ?r1 env ?d1) (\<lambda>d2.
               Inr (modify_run now (run_id r) (history_link env m)
                 (record_run_diagnostics_if_needed now (rc_fetch_logs rc) ?r1 env d2)))
             else Inr ?d1) = Inr d3"
    and d': "d' = write_audit_event now actor ''run.reconciled'' ''run'' (run_id r) (Some (env_tenant_id env)) None
        [(''emr_state'', JStr s), (''state'', JStr (run_state_str m))] None d3"
    unfolding record_reconciled_run_state_def rbind_Inr_iff Let_def by blast
  have "touches only_worker (run_id r) reconciled d d3"
  proof (cases "m \<in> set terminal_run_states")
    case False
    then show ?thesis using d3 t1 by simp
  next
    case True
    then obtain d2 where u: "record_usage_if_needed now (rc_pricing rc (run_id r)) (rc_cost_center rc) ?r1 env ?d1 = Inr d2"
      and e: "d3 = modify_run now (run_id r) (history_link env m)
                 (record_run_diagnostics_if_needed now (rc_fetch_logs rc) ?r1 env d2)"
      using d3 by (auto simp: rbind_Inr_iff)
    have "touches only_worker (run_id r) reconciled d (record_run_diagnostics_if_needed now (rc_fetch_logs rc) ?r1 env d2)"
      using record_usage_worker [OF u] record_diagnostics_worker [of d2] worker.touches_frame t1 by blast
    then show ?thesis unfolding e
      by (rule worker.touches_modify2) (auto simp: reconciled_def frozen_def history_link_def)
  qed
  then show ?thesis unfolding d' by (rule worker.touches_audit)
qed

definition preflight_audit_only :: "reconciler_env \<Rightarrow> bool" where
  "preflight_audit_only rc \<longleftrightarrow> (\<forall>env rid c d. \<exists>a. snd (rc_preflight rc env rid c d) = d\<lparr>db_audit := a\<rparr>)"

lemma touches_reconciled_trans_id:
  assumes "only_worker d d1" "db_runs d1 = db_runs d" "touches only_worker i reconciled d1 d'"
  shows "touches only_worker i reconciled d d'"
  using assms unfolding touches_def by (auto intro: only_worker_trans)

lemma reconcile_run_touches:
  assumes pf: "preflight_audit_only rc" and run: "reconcile_run rc now actor r env j d = Inr d'"
  shows "touches only_worker (run_id r) reconciled d d'"
proof -
  from run obtain d1 where e: "emit_preflight_diagnostic_if_missing rc now actor r env j d = Inr d1"
    and rest: "(if timed_out now r then mark_run_timed_out rc now actor r env d1
     else
       rbind (dispatch_run_cancel_if_requested rc now actor r env d1) (\<lambda>d2.
       rbind (describe_job_run rc now env r) (\<lambda>(emr_state, err).
       case apply_reconciler_stale_overrides rc now r emr_state (mapped_state_of emr_state) err of
         (mapped_state, err') \<Rightarrow>
           record_reconciled_run_state rc now actor r env emr_state mapped_state err' d2))) = Inr d'"
    unfolding reconcile_run_def rbind_Inr_iff by blast
  obtain a where d1: "d1 = d\<lparr>db_audit := a\<rparr>" using emit_preflight_frame [OF _ e] pf unfolding preflight_audit_only_def by blast
  show ?thesis
  proof (cases "timed_out now r")
    case True
    then have "touches only_worker (run_id r) reconciled d1 d'" using rest mark_run_timed_out_touches by simp
    then show ?thesis by (rule touches_reconciled_trans_id [rotated 2]) (simp_all add: d1 only_workerI)
  next
    case False
    then obtain d2 s err where c: "dispatch_run_cancel_if_requested rc now actor r env d1 = Inr d2"
      and "describe_job_run rc now env r = Inr (s, err)"
      and rec: "(case apply_reconciler_stale_overrides rc now r s (mapped_state_of s) err of
         (mapped_state, err') \<Rightarrow> record_reconciled_run_state rc now actor r env s mapped_state err' d2) = Inr d'"
      using rest by (auto simp: rbind_Inr_iff)
    obtain m err' where o: "apply_reconciler_stale_overrides rc now r s (mapped_state_of s) err = (m, err')" by force
    have m: "m \<notin> {RQueued, RDispatching}" using stale_override_range [OF o] mapped_state_of_range [of s] by auto
    have "touches only_worker (run_id r) reconciled d2 d'"
      by (rule record_reconciled_touches [OF _ m]) (use rec o in simp)
    moreover obtain b where "d2 = d1\<lparr>db_audit := b\<rparr>" using dispatch_cancel_frame [OF c] by blast
    ultimately show ?thesis
      by (intro touches_reconciled_trans_id [of d d2]) (simp_all add: d1 only_workerI)
  qed
qed

subsection \<open>Billing\<close>

text \<open>A run that the handling ends has a usage record; otherwise it is still accepted or running.\<close>

definition still_started :: "run \<Rightarrow> run \<Rightarrow> bool" where
  "still_started q q' \<longleftrightarrow> run_id q' = run_id q \<and> started (run_state q')"

lemma mark_run_timed_out_recorded:
  assumes "mark_run_timed_out rc now actor r env d = Inr d'" shows "recorded d' (run_id r)"
proof -
  from assms obtain d1 d3 where u: "record_usage_if_needed now (rc_pricing rc (run_id r)) (rc_cost_center rc)
        (finish_timed_out now r) env (modify_run now (run_id r) (finish_timed_out now) d1) = Inr d3"
    and d': "d' = write_audit_event now actor ''run.timed_out'' ''run'' (run_id r) (Some (env_tenant_id env)) None [] None
       (record_run_diagnostics_if_needed now (rc_fetch_logs rc) (finish_timed_out now r) env d3)"
    unfolding mark_run_timed_out_def rbind_Inr_iff Let_def by blast
  have "recorded d3 (run_id r)" using record_usage_recorded [OF u] by (simp add: finish_timed_out_def)
  then have "recorded (record_run_diagnostics_if_needed now (rc_fetch_logs rc) (finish_timed_out now r) env d3) (run_id r)"
    using record_diagnostics_worker only_worker_recorded by blast
  then show ?thesis by (simp add: d' recorded_def)
qed

lemma record_reconciled_recorded:
  assumes run: "record_reconciled_run_state rc now actor r env s m e d = Inr d'"
    and m: "m \<notin> {RQueued, RDispatching}"
  shows "recorded d' (run_id r) \<or> touches only_worker (run_id r) still_started d d'"
proof (cases "m \<in> set terminal_run_states")
  case True
  let ?r1 = "reconciled_row now m e r"
  have id: "run_id ?r1 = run_id r" by (simp add: reconciled_row_def Let_def)
  from run True obtain d2 where
    u: "record_usage_if_needed now (rc_pricing rc (run_id r)) (rc_cost_center rc) ?r1 env
        (modify_run now (run_id r) (reconciled_row now m e) d) = Inr d2"
    and d': "d' = write_audit_event now actor ''run.reconciled'' ''run'' (run_id r) (Some (env_tenant_id env)) None
        [(''emr_state'', JStr s), (''state'', JStr (run_state_str m))] None
        (modify_run now (run_id r) (history_link env m)
          (record_run_diagnostics_if_needed now (rc_fetch_logs rc) ?r1 env d2))"
    by (auto simp: record_reconciled_run_state_def rbind_Inr_iff Let_def)
  have "recorded d2 (run_id r)" using record_usage_recorded [OF u] id by simp
  then have "recorded (record_run_diagnostics_if_needed now (rc_fetch_logs rc) ?r1 env d2) (run_id r)"
    using record_diagnostics_worker only_worker_recorded by blast
  then show ?thesis by (simp add: d' recorded_def)
next
  case False
  then have "started m" using m by (cases m) (simp_all add: started_def)
  then have "touches only_worker (run_id r) still_started d (modify_run now (run_id r) (reconciled_row now m e) d)"
    by (intro worker.touches_modify) (auto simp: still_started_def reconciled_row_def Let_def)
  then show ?thesis using run False
    by (auto simp: record_reconciled_run_state_def Let_def intro: worker.touches_audit)
qed

lemma reconcile_run_recorded:
  assumes run: "reconcile_run rc now actor r env j d = Inr d'" and pf: "preflight_audit_only rc"
  shows "recorded d' (run_id r) \<or> touches only_worker (run_id r) still_started d d'"
proof -
  from run obtain d1 where e: "emit_preflight_diagnostic_if_missing rc now actor r env j d = Inr d1"
    and rest: "(if timed_out now r then mark_run_timed_out rc now actor r env d1
     else
       rbind (dispatch_run_cancel_if_requested rc now actor r env d1) (\<lambda>d2.
       rbind (describe_job_run rc now env r) (\<lambda>(emr_state, err).
       case apply_reconciler_stale_overrides rc now r emr_state (mapped_state_of emr_state) err of
         (mapped_state, err') \<Rightarrow>
           record_reconciled_run_state rc now actor r env emr_state mapped_state err' d2))) = Inr d'"
    unfolding reconcile_run_def rbind_Inr_iff by blast
  obtain a where d1: "d1 = d\<lparr>db_audit := a\<rparr>" using emit_preflight_frame [OF _ e] pf unfolding preflight_audit_only_def by blast
  show ?thesis
  proof (cases "timed_out now r")
    case True
    then show ?thesis using rest mark_run_timed_out_recorded by simp
  next
    case False
    then obtain d2 s err where c: "dispatch_run_cancel_if_requested rc now actor r env d1 = Inr d2"
      and rec: "(case apply_reconciler_stale_overrides rc now r s (mapped_state_of s) err of
         (mapped_state, err') \<Rightarrow> record_reconciled_run_state rc now actor r env s mapped_state err' d2) = Inr d'"
      using rest by (auto simp: rbind_Inr_iff)
    obtain m err' where o: "apply_reconciler_stale_overrides rc now r s (mapped_state_of s) err = (m, err')" by force
    have m: "m \<notin> {RQueued, RDispatching}" using stale_override_range [OF o] mapped_state_of_range [of s] by auto
    obtain b where d2: "d2 = d1\<lparr>db_audit := b\<rparr>" using dispatch_cancel_frame [OF c] by blast
    have "recorded d' (run_id r) \<or> touches only_worker (run_id r) still_started d2 d'"
      by (rule record_reconciled_recorded [OF _ m]) (use rec o in simp)
    moreover have "touches only_worker (run_id r) still_started d d'" if "touches only_worker (run_id r) still_started d2 d'"
      using that unfolding touches_def d2 d1 by (auto intro: worker.trans [OF worker.set_audit])
    ultimately show ?thesis by blast
  qed
qed

text \<open>Recording keeps one usage record and one allocation per run.\<close>

lemma billing_unique_cong:
  "db_usage d' = db_usage d \<Longrightarrow> db_allocs d' = db_allocs d \<Longrightarrow> billing_unique d' = billing_unique d"
  by (simp add: billing_unique_def)

lemma diagnostics_billing:
  "billing_unique (record_run_diagnostics_if_needed now f r env d) = billing_unique d"
  using record_run_diagnostics_cases [of now f r env d] by (auto simp: billing_unique_def)

lemma mark_run_timed_out_unique:
  assumes "mark_run_timed_out rc now actor r env d = Inr d'" and u: "billing_unique d" shows "billing_unique d'"
proof -
  from assms(1) obtain d1 d3 where c: "(if opt_empty (run_emr_job_run_id r) then Inr d
            else rbind (cancel_job_run rc env r) (\<lambda>aws_request_id.
              Inr (write_audit_event now actor ''run.timeout_cancel.dispatched'' ''run'' (run_id r)
                (Some (env_tenant_id env)) None [] aws_request_id d))) = Inr d1"
    and us: "record_usage_if_needed now (rc_pricing rc (run_id r)) (rc_cost_center rc)
        (finish_timed_out now r) env (modify_run now (run_id r) (finish_timed_out now) d1) = Inr d3"
    and d': "d' = write_audit_event now actor ''run.timed_out'' ''run'' (run_id r) (Some (env_tenant_id env)) None [] None
       (record_run_diagnostics_if_needed now (rc_fetch_logs rc) (finish_timed_out now r) env d3)"
    unfolding mark_run_timed_out_def rbind_Inr_iff Let_def by blast
  have "db_usage d1 = db_usage d" "db_allocs d1 = db_allocs d" using c by (auto simp: rbind_Inr_iff split: if_splits)
  then have "billing_unique (modify_run now (run_id r) (finish_timed_out now) d1)"
    using u by (simp add: billing_unique_def)
  then have "billing_unique d3" by (rule record_usage_unique [OF us])
  then have "billing_unique (record_run_diagnostics_if_needed now (rc_fetch_logs rc) (finish_timed_out now r) env d3)"
    by (simp only: diagnostics_billing)
  then show ?thesis unfolding d' by (simp add: billing_unique_def)
qed

lemma record_reconciled_unique:
  assumes run: "record_reconciled_run_state rc now actor r env s m e d = Inr d'" and u: "billing_unique d"
  shows "billing_unique d'"
proof (cases "m \<in> set terminal_run_states")
  case True
  let ?r1 = "reconciled_row now m e r"
  from run True obtain d2 where
    us: "record_usage_if_needed now (rc_pricing rc (run_id r)) (rc_cost_center rc) ?r1 env
        (modify_run now (run_id r) (reconciled_row now m e) d) = Inr d2"
    and d': "d' = write_audit_event now actor ''run.reconciled'' ''run'' (run_id r) (Some (env_tenant_id env)) None
        [(''emr_state'', JStr s), (''state'', JStr (run_state_str m))] None
        (modify_run now (run_id r) (history_link env m)
          (record_run_diagnostics_if_needed now (rc_fetch_logs rc) ?r1 env d2))"
    by (auto simp: record_reconciled_run_state_def rbind_Inr_iff Let_def)
  have "billing_unique (modify_run now (run_id r) (reconciled_row now m e) d)" using u by (simp add: billing_unique_def)
  from record_usage_unique [OF us this] show ?thesis
    unfolding d' diagnostics_billing [symmetric, of d2 now "rc_fetch_logs rc" ?r1 env] by (simp add: billing_unique_def)
next
  case False
  then show ?thesis using run u by (auto simp: record_reconciled_run_state_def Let_def billing_unique_def)
qed

lemma reconcile_run_unique:
  assumes run: "reconcile_run rc now actor r env j d = Inr d'" and pf: "preflight_audit_only rc" and u: "billing_unique d"
  shows "billing_unique d'"
proof -
  from run obtain d1 where e: "emit_preflight_diagnostic_if_missing rc now actor r env j d = Inr d1"
    and rest: "(if timed_out now r then mark_run_timed_out rc now actor r env d1
     else
       rbind (dispatch_run_cancel_if_requested rc now actor r env d1) (\<lambda>d2.
       rbind (describe_job_run rc now env r) (\<lambda>(emr_state, err).
       case apply_reconciler_stale_overrides rc now r emr_state (mapped_state_of emr_state) err of
         (mapped_state, err') \<Rightarrow>
           record_reconciled_run_state rc now actor r env emr_state mapped_state err' d2))) = Inr d'"
    unfolding reconcile_run_def rbind_Inr_iff by blast
  have u1: "billing_unique d1"
    using emit_preflight_frame [OF _ e] pf u unfolding preflight_audit_only_def by (auto simp: billing_unique_def)
  show ?thesis
  proof (cases "timed_out now r")
    case True
    then show ?thesis using rest mark_run_timed_out_unique [OF _ u1] by simp
  next
    case False
    then obtain d2 s err where c: "dispatch_run_cancel_if_requested rc now actor r env d1 = Inr d2"
      and rec0: "(case apply_reconciler_stale_overrides rc now r s (mapped_state_of s) err of
         (mapped_state, err') \<Rightarrow> record_reconciled_run_state rc now actor r env s mapped_state err' d2) = Inr d'"
      using rest by (auto simp: rbind_Inr_iff)
    obtain m err' where "apply_reconciler_stale_overrides rc now r s (mapped_state_of s) err = (m, err')" by force
    then have rec: "record_reconciled_run_state rc now actor r env s m err' d2 = Inr d'" using rec0 by simp
    have "billing_unique d2" using dispatch_cancel_frame [OF c] u1 by (auto simp: billing_unique_def)
    then show ?thesis by (rule record_reconciled_unique [OF rec])
  qed
qed

subsection \<open>A pass over all claimed runs\<close>

definition settled :: "string \<Rightarrow> run \<Rightarrow> run \<Rightarrow> run \<Rightarrow> bool" where
  "settled i r q q' \<longleftrightarrow> run_claim_token q' = None \<and> run_claimed_at q' = None \<and>
     frozen q q' \<and> run_attempt q' = run_attempt q \<and> run_started_at q' = run_started_at q \<and>
     (run_state q' = run_state q \<or> started (run_state q') \<or> terminal (run_state q') \<and> run_ended_at q' \<noteq> None)"

lemma reconcile_claimed_touches:
  assumes pf: "preflight_audit_only rc" and r: "get_run d i = Some r"
    and fk: "get_environment d (run_environment_id r) = Some env" "get_job d (run_job_id r) = Some j"
  shows "touches only_worker i (settled i r) d (reconcile_claimed rc clk actor i d)"
proof -
  have id: "run_id r = i" using run_store.get_Some [OF r] by simp
  define d1 where "d1 = (case reconcile_run rc (clk i) actor r env j d of Inl e \<Rightarrow> d | Inr d1 \<Rightarrow> d1)"
  have "touches only_worker i (\<lambda>q q'. q' = q \<or> reconciled q q') d d1"
  proof (cases "reconcile_run rc (clk i) actor r env j d")
    case (Inl e)
    then show ?thesis unfolding d1_def
      by (auto intro: touches_mono [OF worker.touches_id [OF worker.refl]])
  next
    case (Inr d2)
    then show ?thesis using reconcile_run_touches [OF pf Inr] id unfolding d1_def by (auto elim: touches_mono)
  qed
  then have "touches only_worker i (settled i r) d (modify_run (clk i) i release_run_claim d1)"
    by (rule worker.touches_modify2) (auto simp: settled_def reconciled_def frozen_def release_run_claim_def)
  then show ?thesis using r fk by (simp add: reconcile_claimed_def d1_def)
qed

lemma reconciler_pass:
  assumes pf: "preflight_audit_only rc"
  shows "claimed_pass only_worker (\<lambda>d. d) (reconcile_claimed rc clk actor) (\<lambda>r. started (run_state r)) settled d0"
proof
  fix st i r
  assume r: "get_run st i = Some r" and fk: "fk_ok st"
  from fk run_store.get_Some [OF r] obtain env j where "get_environment st (run_environment_id r) = Some env"
    "get_job st (run_job_id r) = Some j" unfolding fk_ok_def by blast
  then show "touches only_worker i (settled i r) st (reconcile_claimed rc clk actor i st)"
    by (rule reconcile_claimed_touches [OF pf r])
next
  fix i r q assume "settled i r r q" "started (run_state r)"
  then show "row_step r q" by (auto simp: settled_def row_step_def started_def)
next
  fix i r q q' assume "settled i r q q'"
  then show "run_id q' = run_id q" by (simp add: settled_def frozen_def)
qed

lemma process_reconciler_once_outcome:
  assumes pf: "preflight_audit_only rc" and dist: "distinct (map run_id (db_runs d))" and fk: "fk_ok d"
    and run: "process_reconciler_once rc now clk tk actor lmt d = (n, d')"
  obtains rs d1 where "claim_runs now clk tk [RAccepted, RRunning] lmt run_updated_at d = (rs, d1)" "n = length rs"
    "n \<le> lmt" "only_worker d d'" "runs_step row_step d d'"
    "\<And>i. i \<notin> run_id ` set rs \<Longrightarrow> get_run d' i = get_run d1 i"
    "\<And>r. r \<in> set rs \<Longrightarrow> \<exists>r'. get_run d' (run_id r) = Some r' \<and> settled (run_id r) r r r'"
proof -
  obtain rs d1 where cl: "claim_runs now clk tk [RAccepted, RRunning] lmt run_updated_at d = (rs, d1)" by force
  have st': "d' = fold (\<lambda>r. reconcile_claimed rc clk actor (run_id r)) rs d1" and n: "n = length rs"
    using run cl by (simp_all add: process_reconciler_once_def)
  have el: "\<And>r. started (run_state r) \<longleftrightarrow> run_state r \<in> set [RAccepted, RRunning]" by (simp add: started_def)
  have nt: "\<And>s. s \<in> set [RAccepted, RRunning] \<Longrightarrow> \<not> terminal s" by auto
  note o = claimed_pass.claimed_pass_outcome [OF reconciler_pass [OF pf, of clk actor d],
      of now clk tk "[RAccepted, RRunning]" lmt run_updated_at rs d1 d', OF dist fk cl
      only_runs_worker [OF only_runs_claim [OF cl]] el nt st']
  show thesis using that [OF cl n] o n by simp
qed

subsection \<open>With the preflight\<close>

definition with_preflight :: "emitter \<Rightarrow> emitter \<Rightarrow> time \<Rightarrow> reconciler_env \<Rightarrow> reconciler_env" where
  "with_preflight before after now rc =
     rc\<lparr>rc_preflight := (\<lambda>env rid c d. build_preflight before after now env (Some rid) (Some c) d)\<rparr>"

lemma with_preflight_audit_only: "preflight_audit_only (with_preflight before after now rc)"
  using build_preflight_frame by (simp add: preflight_audit_only_def with_preflight_def)

interpretation reconciler: claimed_pass only_worker "\<lambda>d. d"
    "reconcile_claimed (with_preflight before after now rc) clk actor" "\<lambda>r. started (run_state r)" settled d0
  for before after now rc clk actor d0
  by (rule reconciler_pass [OF with_preflight_audit_only])

end
