(* ===== verification/SP_Environments.thy ===== *)
theory SP_Environments
  imports SP_Helpers
begin

text \<open>
  \<open>services/crud.py\<close>, the tenants, teams, identities, team scopes and environments: creation,
  listing, retry of provisioning and deletion. Row ids drawn by the mapper are arguments; \<open>settings\<close>
  are the fields of the configuration the code reads. A unique constraint cannot be hit inside one
  transaction, as the code looks for the row first.
\<close>

record env_settings =
  es_dry_run_mode :: bool
  es_enable_full_byoc_mode :: bool
  es_terraform_root_exists :: bool
  es_terraform_root :: string
  es_ops_s3_bucket :: string

definition provisioning_log_uri :: "env_settings \<Rightarrow> string \<Rightarrow> string \<Rightarrow> string" where
  "provisioning_log_uri settings eid uuid =
     ''s3://'' @ es_ops_s3_bucket settings @ ''/provisioning/'' @ eid @ ''/'' @ uuid @ ''.log''"

definition falsy :: "string option \<Rightarrow> bool" where
  "falsy x = (case x of None \<Rightarrow> True | Some s \<Rightarrow> s = [])"

subsection \<open>Tenants\<close>

record tenant_create =
  tc_name :: string
  tc_federation_type :: string
  tc_idp_metadata :: "json option"

definition find_tenant_by_name :: "database \<Rightarrow> string \<Rightarrow> tenant option" where
  "find_tenant_by_name d name = find (\<lambda>t. ten_name t = name) (db_tenants d)"

definition create_tenant ::
    "time \<Rightarrow> string \<Rightarrow> tenant_create \<Rightarrow> string \<Rightarrow> string option \<Rightarrow> database \<Rightarrow> error + tenant \<times> database" where
  "create_tenant now new_id req actor source_ip d =
     (case find_tenant_by_name d (tc_name req) of
        Some _ \<Rightarrow> Inl (ConflictError ''Tenant name already exists.'')
      | None \<Rightarrow>
          let t = \<lparr>ten_id = new_id, ten_name = tc_name req, ten_federation_type = tc_federation_type req,
                   ten_idp_metadata = tc_idp_metadata req, ten_created_at = now, ten_updated_at = now\<rparr>
          in Inr (t, write_audit_event now actor ''tenant.create'' ''tenant'' new_id (Some new_id) source_ip
               [(''name'', JStr (ten_name t)), (''federation_type'', JStr (ten_federation_type t))] None
               (add_tenant t d)))"

subsection \<open>Teams\<close>

definition find_team :: "database \<Rightarrow> string \<Rightarrow> string \<Rightarrow> team option" where
  "find_team d tenant_id name = find (\<lambda>t. team_tenant_id t = tenant_id \<and> team_name t = name) (db_teams d)"

definition create_team ::
    "time \<Rightarrow> string \<Rightarrow> string \<Rightarrow> string \<Rightarrow> string \<Rightarrow> string option \<Rightarrow> database \<Rightarrow> error + team \<times> database" where
  "create_team now new_id tenant_id name actor source_ip d =
     rbind (require_tenant d tenant_id) (\<lambda>_.
     case find_team d tenant_id name of
       Some _ \<Rightarrow> Inl (ConflictError ''Team name already exists for tenant.'')
     | None \<Rightarrow>
         let t = \<lparr>team_id = new_id, team_tenant_id = tenant_id, team_name = name, team_created_at = now,
                  team_updated_at = now\<rparr>
         in Inr (t, write_audit_event now actor ''team.create'' ''team'' new_id (Some tenant_id) source_ip
              [(''team_name'', JStr name)] None (add_team t d)))"

definition list_teams :: "database \<Rightarrow> string option \<Rightarrow> nat \<Rightarrow> nat \<Rightarrow> team list" where
  "list_teams d tenant_id lmt off =
     page lmt off (filter (\<lambda>t. falsy tenant_id \<or> tenant_id = Some (team_tenant_id t))
       (sort_desc team_created_at (db_teams d)))"

subsection \<open>Identities\<close>

record identity_create =
  ic_actor :: string
  ic_role :: string
  ic_tenant_id :: "string option"
  ic_team_id :: "string option"
  ic_active :: bool

definition find_identity :: "database \<Rightarrow> string \<Rightarrow> user_identity option" where
  "find_identity d actor = find (\<lambda>i. uid_actor i = actor) (db_identities d)"

definition check_identity_request :: "identity_create \<Rightarrow> database \<Rightarrow> error + unit" where
  "check_identity_request req d =
     (if ic_role req \<in> {''operator'', ''user''} \<and> (falsy (ic_tenant_id req) \<or> falsy (ic_team_id req))
      then Inl (ValidationError ''tenant_id and team_id are required for operator/user roles.'')
      else
        rbind (if falsy (ic_tenant_id req) then Inr ()
               else rbind (require_tenant d (the (ic_tenant_id req))) (\<lambda>_. Inr ())) (\<lambda>_.
        if falsy (ic_team_id req) then Inr ()
        else rbind (require_team d (the (ic_team_id req))) (\<lambda>tm.
          guard_err (\<not> falsy (ic_tenant_id req) \<and> Some (team_tenant_id tm) \<noteq> ic_tenant_id req)
            (ValidationError ''team_id must belong to tenant_id.''))))"

definition identity_fields :: "identity_create \<Rightarrow> user_identity \<Rightarrow> user_identity" where
  "identity_fields req i =
     i\<lparr>uid_role := ic_role req, uid_tenant_id := ic_tenant_id req, uid_team_id := ic_team_id req,
       uid_active := ic_active req\<rparr>"

definition create_or_update_user_identity ::
    "time \<Rightarrow> string \<Rightarrow> identity_create \<Rightarrow> string \<Rightarrow> string option \<Rightarrow> database \<Rightarrow> error + user_identity \<times> database" where
  "create_or_update_user_identity now new_id req actor source_ip d =
     rbind (check_identity_request req d) (\<lambda>_.
     let found = find_identity d (ic_actor req);
         action = (case found of None \<Rightarrow> ''user_identity.create'' | Some _ \<Rightarrow> ''user_identity.update'');
         blank = \<lparr>uid_id = new_id, uid_user_id = None, uid_actor = ic_actor req, uid_role = ic_role req,
                  uid_tenant_id = None, uid_team_id = None, uid_active = True, uid_created_at = now,
                  uid_updated_at = now\<rparr>;
         d1 = (case found of None \<Rightarrow> add_identity blank d | Some _ \<Rightarrow> d);
         rid = (case found of None \<Rightarrow> new_id | Some i \<Rightarrow> uid_id i);
         d2 = modify_identity now rid (identity_fields req) d1;
         i = identity_fields req (case found of None \<Rightarrow> blank | Some i \<Rightarrow> i)
     in Inr (case get_identity d2 rid of Some i' \<Rightarrow> i' | None \<Rightarrow> i,
          write_audit_event now actor action ''user_identity'' rid (ic_tenant_id req) source_ip
            [(''actor'', JStr (uid_actor i)), (''role'', JStr (uid_role i)),
             (''tenant_id'', jstr_opt (uid_tenant_id i)), (''team_id'', jstr_opt (uid_team_id i)),
             (''active'', JBool (uid_active i))] None d2))"

definition list_user_identities :: "database \<Rightarrow> nat \<Rightarrow> nat \<Rightarrow> user_identity list" where
  "list_user_identities d lmt off = page lmt off (sort_desc uid_created_at (db_identities d))"

subsection \<open>Team scopes\<close>

definition find_scope :: "database \<Rightarrow> string \<Rightarrow> string \<Rightarrow> team_env_scope option" where
  "find_scope d tid eid = find (\<lambda>s. tes_team_id s = tid \<and> tes_environment_id s = eid) (db_scopes d)"

definition add_team_environment_scope ::
    "time \<Rightarrow> string \<Rightarrow> string \<Rightarrow> string \<Rightarrow> string \<Rightarrow> string option \<Rightarrow> database \<Rightarrow> error + team_env_scope \<times> database" where
  "add_team_environment_scope now new_id tid eid actor source_ip d =
     rbind (require_team d tid) (\<lambda>tm.
     rbind (require_environment d eid) (\<lambda>env.
     if team_tenant_id tm \<noteq> env_tenant_id env
     then Inl (ValidationError ''Team and environment must belong to the same tenant.'')
     else case find_scope d tid eid of
         Some s \<Rightarrow> Inr (s, d)
       | None \<Rightarrow>
           let s = \<lparr>tes_id = new_id, tes_team_id = tid, tes_environment_id = eid, tes_created_at = now\<rparr>
           in Inr (s, write_audit_event now actor ''team_environment_scope.create'' ''team_environment_scope''
                new_id (Some (team_tenant_id tm)) source_ip
                [(''team_id'', JStr tid), (''team_name'', JStr (team_name tm)), (''environment_id'', JStr eid)] None
                (d\<lparr>db_scopes := db_scopes d @ [s]\<rparr>))))"

text \<open>
  The exception for a missing scope is built with two positional arguments, one more than its
  constructor takes: building it raises a \<open>TypeError\<close>.
\<close>

definition remove_team_environment_scope ::
    "time \<Rightarrow> string \<Rightarrow> string \<Rightarrow> string \<Rightarrow> string option \<Rightarrow> database \<Rightarrow> error + database" where
  "remove_team_environment_scope now tid eid actor source_ip d =
     rbind (require_team d tid) (\<lambda>tm.
     case find_scope d tid eid of
       None \<Rightarrow> Inl (TypeError ''EntityNotFoundError.__init__() takes 2 positional arguments but 3 were given'')
     | Some s \<Rightarrow>
         Inr (write_audit_event now actor ''team_environment_scope.delete'' ''team_environment_scope'' (tes_id s)
           (Some (team_tenant_id tm)) source_ip
           [(''team_id'', JStr tid), (''team_name'', JStr (team_name tm)), (''environment_id'', JStr eid)] None
           (d\<lparr>db_scopes := filter (\<lambda>x. tes_id x \<noteq> tes_id s) (db_scopes d)\<rparr>)))"

definition list_team_environment_scopes ::
    "database \<Rightarrow> string \<Rightarrow> nat \<Rightarrow> nat \<Rightarrow> error + team_env_scope list" where
  "list_team_environment_scopes d tid lmt off =
     rbind (require_team d tid) (\<lambda>_.
       Inr (page lmt off (sort_key tes_created_at (filter (\<lambda>s. tes_team_id s = tid) (db_scopes d)))))"

subsection \<open>Environments\<close>

record environment_create =
  ec_tenant_id :: string
  ec_engine :: string
  ec_provisioning_mode :: string
  ec_region :: string
  ec_instance_architecture :: string
  ec_customer_role_arn :: string
  ec_assume_role_external_id :: "string option"
  ec_eks_cluster_arn :: "string option"
  ec_eks_namespace :: "string option"
  ec_warm_pool_enabled :: bool
  ec_lake_formation_enabled :: bool
  ec_lf_catalog_id :: "string option"
  ec_lf_data_access_scope :: "json option"
  ec_security_configuration_id :: "string option"
  ec_max_concurrent_runs :: int
  ec_max_vcpu :: int
  ec_max_run_seconds :: int

definition list_environments :: "database \<Rightarrow> string option \<Rightarrow> nat \<Rightarrow> nat \<Rightarrow> environment list" where
  "list_environments d tenant_id lmt off =
     page lmt off (filter (\<lambda>e. falsy tenant_id \<or> tenant_id = Some (env_tenant_id e))
       (sort_desc env_created_at (db_envs d)))"

definition check_environment_request :: "env_settings \<Rightarrow> environment_create \<Rightarrow> error + unit" where
  "check_environment_request settings req =
     (if ec_engine req = ''emr_on_eks'' then
        (if ec_provisioning_mode req = ''byoc_lite'' \<and> falsy (ec_eks_cluster_arn req)
         then Inl (ValidationError ''eks_cluster_arn is required for byoc_lite.'')
         else if ec_provisioning_mode req = ''byoc_lite'' \<and> falsy (ec_eks_namespace req)
         then Inl (ValidationError ''eks_namespace is required for byoc_lite.'')
         else if ec_provisioning_mode req = ''full'' \<and> \<not> es_enable_full_byoc_mode settings
         then Inl (ValidationError (''Full provisioning mode is disabled for this deployment. '' @
           ''Set SPARKPILOT_ENABLE_FULL_BYOC_MODE=true only after full-BYOC infrastructure is deployed.''))
         else if ec_provisioning_mode req = ''full'' \<and> \<not> es_terraform_root_exists settings
         then Inl (ValidationError (''Full provisioning mode is unavailable for this deployment: '' @
           ''missing Terraform modules at '' @ [CHR 0x27] @ es_terraform_root settings @ [CHR 0x27] @ ''. '' @
           ''Use provisioning_mode=byoc_lite or deploy full-BYOC Terraform modules.''))
         else Inr ())
      else if \<not> es_dry_run_mode settings
      then Inl (ValidationError (''Engine '' @ [CHR 0x27] @ ec_engine req @ [CHR 0x27] @
        '' can only be created when SPARKPILOT_DRY_RUN_MODE=true.''))
      else if ec_provisioning_mode req \<noteq> ''byoc_lite''
      then Inl (ValidationError (''Engine '' @ [CHR 0x27] @ ec_engine req @ [CHR 0x27] @
        '' only supports provisioning_mode=byoc_lite in dry-run mode.''))
      else Inr ())"

definition environment_row :: "time \<Rightarrow> string \<Rightarrow> environment_create \<Rightarrow> environment" where
  "environment_row now new_id req =
     \<lparr>env_id = new_id, env_tenant_id = ec_tenant_id req, env_cloud = ''aws'', env_region = ec_region req,
      env_engine = ec_engine req, env_provisioning_mode = ec_provisioning_mode req, env_status = EProvisioning,
      env_instance_architecture = ec_instance_architecture req, env_customer_role_arn = ec_customer_role_arn req,
      env_assume_role_external_id = (if falsy (ec_assume_role_external_id req) then None else ec_assume_role_external_id req),
      env_eks_cluster_arn = ec_eks_cluster_arn req, env_eks_namespace = ec_eks_namespace req,
      env_emr_virtual_cluster_id = None, env_emr_serverless_application_id = None,
      env_emr_on_ec2_cluster_id = None, env_warm_pool_enabled = ec_warm_pool_enabled req,
      env_max_concurrent_runs = ec_max_concurrent_runs req, env_max_vcpu = ec_max_vcpu req,
      env_max_run_seconds = ec_max_run_seconds req, env_spark_history_server_url = None,
      env_event_log_s3_uri = None, env_yunikorn_queue = None, env_yunikorn_queue_guaranteed_vcpu = None,
      env_yunikorn_queue_max_vcpu = None, env_databricks_workspace_url = None,
      env_databricks_cluster_policy_id = None, env_databricks_instance_pool_id = None,
      env_lake_formation_enabled = ec_lake_formation_enabled req, env_lf_catalog_id = ec_lf_catalog_id req,
      env_lf_data_access_scope = ec_lf_data_access_scope req, env_identity_mode = None,
      env_security_configuration_id = ec_security_configuration_id req, env_created_at = now, env_updated_at = now\<rparr>"

definition queued_operation ::
    "time \<Rightarrow> string \<Rightarrow> string \<Rightarrow> string \<Rightarrow> string \<Rightarrow> string \<Rightarrow> prov_op" where
  "queued_operation now new_id eid ky message logs_uri =
     \<lparr>op_id = new_id, op_environment_id = eid, op_state = PQueued, op_step = PQueued, op_message = Some message,
      op_logs_uri = Some logs_uri, op_started_at = now, op_ended_at = None, op_idempotency_key = ky,
      op_claim_token = None, op_claimed_at = None, op_created_at = now, op_updated_at = now\<rparr>"

definition create_environment ::
    "env_settings \<Rightarrow> time \<Rightarrow> string \<Rightarrow> string \<Rightarrow> string \<Rightarrow> environment_create \<Rightarrow> string \<Rightarrow> string option \<Rightarrow> string
     \<Rightarrow> database \<Rightarrow> error + (environment \<times> prov_op) \<times> database" where
  "create_environment settings now env_uuid op_uuid log_uuid req actor source_ip idempotency_key d =
     rbind (require_tenant d (ec_tenant_id req)) (\<lambda>_.
     rbind (check_environment_request settings req) (\<lambda>_.
     let env = environment_row now env_uuid req;
         opr = queued_operation now op_uuid env_uuid idempotency_key ''Queued for provisioning.''
                 (provisioning_log_uri settings env_uuid log_uuid);
         d1 = add_operation opr (add_environment env d)
     in Inr ((env, opr), write_audit_event now actor ''environment.create'' ''environment'' env_uuid
          (Some (env_tenant_id env)) source_ip
          [(''engine'', JStr (env_engine env)), (''region'', JStr (env_region env)),
           (''provisioning_mode'', JStr (env_provisioning_mode env)),
           (''instance_architecture'', JStr (env_instance_architecture env)),
           (''eks_cluster_arn'', JStr (case env_eks_cluster_arn env of Some s \<Rightarrow> s | None \<Rightarrow> [])),
           (''eks_namespace'', JStr (case env_eks_namespace env of Some s \<Rightarrow> s | None \<Rightarrow> [])),
           (''warm_pool_enabled'', JBool (env_warm_pool_enabled env)),
           (''max_concurrent_runs'', JInt (env_max_concurrent_runs env)),
           (''max_vcpu'', JInt (env_max_vcpu env)), (''max_run_seconds'', JInt (env_max_run_seconds env))] None d1)))"

definition active_operation_states :: "prov_state list" where
  "active_operation_states = [PQueued, PValidatingBootstrap, PNetwork, PEks, PEmr, PValidatingRuntime]"

definition has_active_operation :: "database \<Rightarrow> string \<Rightarrow> bool" where
  "has_active_operation d eid \<longleftrightarrow>
     list_ex (\<lambda>r. op_environment_id r = eid \<and> op_state r \<in> set active_operation_states) (db_ops d)"

definition has_active_run :: "database \<Rightarrow> string \<Rightarrow> bool" where
  "has_active_run d eid \<longleftrightarrow>
     list_ex (\<lambda>r. run_environment_id r = eid \<and> run_state r \<in> set active_run_states) (db_runs d)"

definition get_provisioning_operation :: "database \<Rightarrow> string \<Rightarrow> error + prov_op" where
  "get_provisioning_operation d i = require_entity get_operation d i ''Provisioning operation not found.''"

text \<open>The id of the new operation is drawn when it is flushed, after the audit details are built.\<close>

definition retry_environment_provisioning ::
    "env_settings \<Rightarrow> time \<Rightarrow> string \<Rightarrow> string \<Rightarrow> string \<Rightarrow> string \<Rightarrow> string option \<Rightarrow> string \<Rightarrow> database
     \<Rightarrow> error + prov_op \<times> database" where
  "retry_environment_provisioning settings now op_uuid log_uuid eid actor source_ip idempotency_key d =
     rbind (require_environment d eid) (\<lambda>env.
     if env_status env = EDeleted then Inl (ConflictError ''Environment is deleted and cannot be retried.'')
     else if has_active_operation d eid
     then Inl (ConflictError ''An active provisioning operation already exists for this environment.'')
     else
       let d1 = modify_environment now eid (\<lambda>e. e\<lparr>env_status := EProvisioning, env_updated_at := now\<rparr>) d;
           opr = queued_operation now op_uuid eid idempotency_key ''Queued for provisioning retry.''
                   (provisioning_log_uri settings eid log_uuid)
       in Inr (opr, write_audit_event now actor ''environment.retry_provisioning'' ''environment'' eid
            (Some (env_tenant_id env)) source_ip [(''operation_id'', JNull)] None (add_operation opr d1)))"

definition delete_environment ::
    "time \<Rightarrow> string \<Rightarrow> string \<Rightarrow> string option \<Rightarrow> database \<Rightarrow> error + database" where
  "delete_environment now eid actor source_ip d =
     rbind (require_environment d eid) (\<lambda>env.
     if env_status env = EDeleted then Inr d
     else if has_active_run d eid
     then Inl (ConflictError ''Environment has active or in-flight runs. Cancel/wait for completion before delete.'')
     else if has_active_operation d eid
     then Inl (ConflictError ''Environment has an active provisioning operation. Retry later.'')
     else Inr (write_audit_event now actor ''environment.delete'' ''environment'' eid (Some (env_tenant_id env))
       source_ip [(''status'', JStr (env_state_str EDeleted))] None
       (modify_environment now eid (\<lambda>e. e\<lparr>env_status := EDeleted, env_updated_at := now\<rparr>) d)))"

subsection \<open>What the calls do\<close>

lemma create_environment_Inr:
  assumes "create_environment settings now eid oid lid req actor ip ky d = Inr ((env, opr), d')"
  shows "env = environment_row now eid req"
    "opr = queued_operation now oid eid ky ''Queued for provisioning.'' (provisioning_log_uri settings eid lid)"
    "\<exists>a. d' = d\<lparr>db_envs := db_envs d @ [env], db_ops := db_ops d @ [opr], db_audit := a\<rparr>"
    "get_tenant d (ec_tenant_id req) \<noteq> None" "check_environment_request settings req = Inr ()"
  using assms
  by (auto simp: create_environment_def rbind_Inr_iff Let_def require_tenant_def add_operation_def
      add_environment_def write_audit_event_def)

lemma retry_provisioning_Inr:
  assumes "retry_environment_provisioning settings now oid lid eid actor ip ky d = Inr (opr, d')"
  obtains env a where "get_environment d eid = Some env" "env_status env \<noteq> EDeleted" "\<not> has_active_operation d eid"
    "opr = queued_operation now oid eid ky ''Queued for provisioning retry.'' (provisioning_log_uri settings eid lid)"
    "d' = (modify_environment now eid (\<lambda>e. e\<lparr>env_status := EProvisioning, env_updated_at := now\<rparr>) d)
       \<lparr>db_ops := db_ops d @ [opr], db_audit := a\<rparr>"
  using assms
  by (auto simp: retry_environment_provisioning_def rbind_Inr_iff Let_def require_environment_def add_operation_def
      modify_environment_def write_audit_event_def split: if_splits)

lemma delete_environment_Inr:
  assumes "delete_environment now eid actor ip d = Inr d'"
  obtains (already) env where "get_environment d eid = Some env" "env_status env = EDeleted" "d' = d"
  | (deleted) env a where "get_environment d eid = Some env" "env_status env \<noteq> EDeleted" "\<not> has_active_run d eid"
      "\<not> has_active_operation d eid"
      "d' = (modify_environment now eid (\<lambda>e. e\<lparr>env_status := EDeleted, env_updated_at := now\<rparr>) d)\<lparr>db_audit := a\<rparr>"
proof -
  from assms obtain env where e: "get_environment d eid = Some env"
    by (auto simp: delete_environment_def rbind_Inr_iff require_environment_def)
  note run = assms [unfolded delete_environment_def require_environment_def require_entity_def e option.case rbind_simps]
  show thesis
  proof (cases "env_status env = EDeleted")
    case True
    then show thesis using run by (intro already [OF e]) simp_all
  next
    case False
    then show thesis using run
      by (intro deleted [OF e]) (auto simp: modify_environment_def write_audit_event_def split: if_splits)
  qed
qed

text \<open>Deleting does not raise for an environment that is at rest, and the deleted one stays in the table.\<close>

lemma delete_environment_total:
  "get_environment d eid = Some env \<Longrightarrow> \<not> has_active_run d eid \<Longrightarrow> \<not> has_active_operation d eid \<Longrightarrow>
     \<exists>d'. delete_environment now eid actor ip d = Inr d'"
  by (simp add: delete_environment_def require_environment_def require_entity_def)

lemma delete_environment_conflict:
  assumes "get_environment d eid = Some env" "env_status env \<noteq> EDeleted" "has_active_run d eid \<or> has_active_operation d eid"
  shows "\<exists>msg. delete_environment now eid actor ip d = Inl (ConflictError msg)"
  using assms by (auto simp: delete_environment_def require_environment_def require_entity_def)

subsection \<open>Tenant isolation\<close>

text \<open>A scope joins a team and an environment of one tenant; so does an identity its team and its tenant.\<close>

definition scopes_in_tenant :: "database \<Rightarrow> bool" where
  "scopes_in_tenant d \<longleftrightarrow> (\<forall>s \<in> set (db_scopes d). \<exists>tm env. get_team d (tes_team_id s) = Some tm \<and>
     get_environment d (tes_environment_id s) = Some env \<and> team_tenant_id tm = env_tenant_id env)"

definition scopes_unique :: "database \<Rightarrow> bool" where
  "scopes_unique d \<longleftrightarrow> distinct (map (\<lambda>s. (tes_team_id s, tes_environment_id s)) (db_scopes d))"

lemma find_scope_None:
  "find_scope d tid eid = None \<longleftrightarrow> (tid, eid) \<notin> (\<lambda>s. (tes_team_id s, tes_environment_id s)) ` set (db_scopes d)"
  by (auto simp: find_scope_def find_None_iff)

lemma find_scope_Some:
  "find_scope d tid eid = Some s \<Longrightarrow> s \<in> set (db_scopes d) \<and> tes_team_id s = tid \<and> tes_environment_id s = eid"
  by (auto simp: find_scope_def find_Some_iff)

lemma add_scope_cases:
  assumes "add_team_environment_scope now new_id tid eid actor ip d = Inr (s, d')"
  obtains (existing) "find_scope d tid eid = Some s" "d' = d"
  | (created) tm env a where "get_team d tid = Some tm" "get_environment d eid = Some env"
      "team_tenant_id tm = env_tenant_id env" "find_scope d tid eid = None"
      "s = \<lparr>tes_id = new_id, tes_team_id = tid, tes_environment_id = eid, tes_created_at = now\<rparr>"
      "d' = d\<lparr>db_scopes := db_scopes d @ [s], db_audit := a\<rparr>"
proof -
  from assms obtain tm env where t: "get_team d tid = Some tm" and e: "get_environment d eid = Some env"
    by (auto simp: add_team_environment_scope_def rbind_Inr_iff require_environment_def require_team_def)
  note run = assms [unfolded add_team_environment_scope_def require_environment_def require_team_def require_entity_def t e
      option.case rbind_simps]
  have same: "team_tenant_id tm = env_tenant_id env" using run by (simp split: if_splits)
  show thesis
  proof (cases "find_scope d tid eid")
    case None
    then show thesis using run same
      by (intro created [OF t e same None]) (auto simp: Let_def write_audit_event_def)
  next
    case (Some x)
    then show thesis using run same by (intro existing) simp_all
  qed
qed

lemma add_scope_keeps:
  assumes add: "add_team_environment_scope now new_id tid eid actor ip d = Inr (s, d')"
    and ok: "scopes_in_tenant d" "scopes_unique d"
  shows "scopes_in_tenant d' \<and> scopes_unique d' \<and> s \<in> set (db_scopes d') \<and> tes_team_id s = tid \<and> tes_environment_id s = eid"
  using add
proof (cases rule: add_scope_cases)
  case existing
  then show ?thesis using ok find_scope_Some by blast
next
  case (created tm env a)
  then have "get_team d' = get_team d" "get_environment d' = get_environment d"
    by (simp_all add: fun_eq_iff get_team_def get_environment_def)
  then show ?thesis using ok created by (auto simp: scopes_in_tenant_def scopes_unique_def find_scope_None)
qed

lemma find_filter: "(\<And>x. x \<in> set xs \<Longrightarrow> P x \<Longrightarrow> Q x) \<Longrightarrow> find P (filter Q xs) = find P xs"
  by (induction xs) auto

lemma remove_scope_removes:
  assumes rm: "remove_team_environment_scope now tid eid actor ip d = Inr d'"
    and u: "scopes_unique d" "distinct (map tes_id (db_scopes d))"
  shows "find_scope d' tid eid = None"
    "\<And>t e. (t, e) \<noteq> (tid, eid) \<Longrightarrow> find_scope d' t e = find_scope d t e"
proof -
  from rm obtain s where s: "find_scope d tid eid = Some s"
    and d': "db_scopes d' = filter (\<lambda>x. tes_id x \<noteq> tes_id s) (db_scopes d)"
    by (auto simp: remove_team_environment_scope_def rbind_Inr_iff split: option.splits)
  have same: "x = s" if "x \<in> set (db_scopes d)" "tes_team_id x = tid" "tes_environment_id x = eid" for x
    using that find_scope_Some [OF s] u(1) unfolding scopes_unique_def by (auto simp: distinct_map inj_on_def)
  have id: "x = s" if "x \<in> set (db_scopes d)" "tes_id x = tes_id s" for x
    using that find_scope_Some [OF s] u(2) by (auto simp: distinct_map inj_on_def)
  show "find_scope d' tid eid = None" using same by (auto simp: find_scope_def find_None_iff d')
  show "find_scope d' t e = find_scope d t e" if "(t, e) \<noteq> (tid, eid)" for t e
  proof -
    have "tes_id x \<noteq> tes_id s" if "x \<in> set (db_scopes d)" "tes_team_id x = t \<and> tes_environment_id x = e" for x
      using id [OF that(1)] that(2) find_scope_Some [OF s] \<open>(t, e) \<noteq> (tid, eid)\<close> by auto
    then show ?thesis unfolding find_scope_def d' by (rule find_filter)
  qed
qed

text \<open>A missing scope makes the removal fail with a \<open>TypeError\<close>, which is answered as a server error.\<close>

lemma remove_missing_scope:
  "get_team d tid = Some tm \<Longrightarrow> find_scope d tid eid = None \<Longrightarrow>
     \<exists>msg. remove_team_environment_scope now tid eid actor ip d = Inl (TypeError msg)"
  by (simp add: remove_team_environment_scope_def require_team_def require_entity_def)

definition identity_in_tenant :: "database \<Rightarrow> user_identity \<Rightarrow> bool" where
  "identity_in_tenant d i \<longleftrightarrow> (uid_role i \<in> {''operator'', ''user''} \<longrightarrow>
     (\<exists>tm. \<not> falsy (uid_team_id i) \<and> get_team d (the (uid_team_id i)) = Some tm \<and> Some (team_tenant_id tm) = uid_tenant_id i))"

lemma check_identity_request_ok:
  "check_identity_request req d = Inr () \<Longrightarrow> identity_in_tenant d (identity_fields req i)"
  by (auto simp: check_identity_request_def identity_in_tenant_def identity_fields_def rbind_Inr_iff require_team_def
      split: if_splits)

lemma upd_identity_sel [simp]:
  "uid_id (upd_identity now f r) = uid_id (f r)" "uid_actor (upd_identity now f r) = uid_actor (f r)"
  "uid_role (upd_identity now f r) = uid_role (f r)" "uid_tenant_id (upd_identity now f r) = uid_tenant_id (f r)"
  "uid_team_id (upd_identity now f r) = uid_team_id (f r)" "uid_active (upd_identity now f r) = uid_active (f r)"
  by (cases "f r = r"; simp add: upd_identity_def Let_def)+

lemma identity_upsert:
  assumes run: "create_or_update_user_identity now new_id req actor ip d = Inr (i, d')"
    and fresh: "get_identity d new_id = None" and dist: "distinct (map uid_id (db_identities d))"
  shows "uid_actor i = ic_actor req" "uid_role i = ic_role req" "identity_in_tenant d i"
    "get_identity d' (uid_id i) = Some i"
proof -
  let ?blank = "\<lparr>uid_id = new_id, uid_user_id = None, uid_actor = ic_actor req, uid_role = ic_role req,
                  uid_tenant_id = None, uid_team_id = None, uid_active = True, uid_created_at = now,
                  uid_updated_at = now\<rparr>"
  define d1 where "d1 = (case find_identity d (ic_actor req) of None \<Rightarrow> add_identity ?blank d | Some _ \<Rightarrow> d)"
  define rid where "rid = (case find_identity d (ic_actor req) of None \<Rightarrow> new_id | Some i \<Rightarrow> uid_id i)"
  define i0 where "i0 = (case find_identity d (ic_actor req) of None \<Rightarrow> ?blank | Some i \<Rightarrow> i)"
  have g1: "get_identity d1 rid = Some i0" "uid_actor i0 = ic_actor req" "uid_id i0 = rid"
  proof -
    show "get_identity d1 rid = Some i0" "uid_actor i0 = ic_actor req" "uid_id i0 = rid"
    proof (atomize (full), cases "find_identity d (ic_actor req)")
      case None
      then show "get_identity d1 rid = Some i0 \<and> uid_actor i0 = ic_actor req \<and> uid_id i0 = rid"
        using identity_store.get_add_same [of d ?blank] fresh by (simp add: d1_def rid_def i0_def)
    next
      case (Some x)
      then have "x \<in> set (db_identities d)" "uid_actor x = ic_actor req" by (auto simp: find_identity_def find_Some_iff)
      then show "get_identity d1 rid = Some i0 \<and> uid_actor i0 = ic_actor req \<and> uid_id i0 = rid"
        using Some identity_store.get_in_rows [OF dist, of x] by (simp add: d1_def rid_def i0_def)
    qed
  qed
  have chk: "check_identity_request req d = Inr ()" using run by (auto simp: create_or_update_user_identity_def rbind_Inr_iff)
  have g2: "get_identity (modify_identity now rid (identity_fields req) d1) rid = Some (upd_identity now (identity_fields req) i0)"
    using identity_store.get_modify_same [of "identity_fields req" now rid d1] g1 by (simp add: identity_fields_def)
  have i: "i = upd_identity now (identity_fields req) i0"
    using run g2 by (auto simp: create_or_update_user_identity_def rbind_Inr_iff Let_def d1_def [symmetric]
        rid_def [symmetric] i0_def [symmetric])
  have dd: "get_identity d' = get_identity (modify_identity now rid (identity_fields req) d1)"
    using run by (auto simp: create_or_update_user_identity_def rbind_Inr_iff Let_def d1_def [symmetric]
        rid_def [symmetric] i0_def [symmetric] fun_eq_iff get_identity_def)
  have sel: "uid_id i = rid" "uid_actor i = ic_actor req" "uid_role i = ic_role req" "uid_tenant_id i = ic_tenant_id req"
    "uid_team_id i = ic_team_id req"
    using g1 by (simp_all add: i identity_fields_def)
  show "uid_actor i = ic_actor req" "uid_role i = ic_role req" by (rule sel)+
  show "get_identity d' (uid_id i) = Some i" using g2 i dd sel by simp
  show "identity_in_tenant d i"
    using check_identity_request_ok [OF chk, of i0] sel by (simp add: identity_in_tenant_def identity_fields_def)
qed

end
