(* ===== verification/SP_StateExn.thy ===== *)
theory SP_StateExn
  imports SP_Errors
begin

text \<open>
  Code that changes a state and may raise: what was written before an exception stays. A command is a
  function from the state to the outcome and the new state; \<open>sbind\<close> runs two in a row and
  \<open>stry\<close> is \<open>try ... except\<close>. \<open>skeeps R m\<close> says that \<open>m\<close> changes the state only as \<open>R\<close> allows,
  whether it raises or not.
\<close>

type_synonym ('s, 'a) cmd = "'s \<Rightarrow> (exn + 'a) \<times> 's"

named_theorems skeeps_rules \<open>composition of commands under a relation on states\<close>

definition sreturn :: "'a \<Rightarrow> ('s, 'a) cmd" where
  "sreturn x s = (Inr x, s)"

definition sraise :: "exn \<Rightarrow> ('s, 'a) cmd" where
  "sraise e s = (Inl e, s)"

definition sbind :: "('s, 'a) cmd \<Rightarrow> ('a \<Rightarrow> ('s, 'b) cmd) \<Rightarrow> ('s, 'b) cmd" where
  "sbind m f s = (case m s of (Inl e, s') \<Rightarrow> (Inl e, s') | (Inr x, s') \<Rightarrow> f x s')"

definition sget :: "('s \<Rightarrow> 'a) \<Rightarrow> ('s, 'a) cmd" where
  "sget f s = (Inr (f s), s)"

definition smod :: "('s \<Rightarrow> 's) \<Rightarrow> ('s, unit) cmd" where
  "smod f s = (Inr (), f s)"

definition swhen :: "bool \<Rightarrow> ('s, unit) cmd \<Rightarrow> ('s, unit) cmd" where
  "swhen b m = (if b then m else sreturn ())"

definition stry :: "('s, 'a) cmd \<Rightarrow> (exn \<Rightarrow> ('s, 'a) cmd) \<Rightarrow> ('s, 'a) cmd" where
  "stry m h s = (case m s of (Inl e, s') \<Rightarrow> h e s' | (Inr x, s') \<Rightarrow> (Inr x, s'))"

text \<open>A call that leaves the state alone: an answer or an exception.\<close>

definition scall :: "exn + 'a \<Rightarrow> ('s, 'a) cmd" where
  "scall r s = (r, s)"

fun sfold :: "('x \<Rightarrow> 'a \<Rightarrow> ('s, 'a) cmd) \<Rightarrow> 'x list \<Rightarrow> 'a \<Rightarrow> ('s, 'a) cmd" where
  "sfold f [] a = sreturn a"
| "sfold f (x # xs) a = sbind (f x a) (sfold f xs)"

lemmas cmd_defs = sreturn_def sraise_def sbind_def sget_def smod_def swhen_def stry_def scall_def

lemma sbind_Inr: "sbind m f s = (Inr y, s'') \<longleftrightarrow> (\<exists>x s'. m s = (Inr x, s') \<and> f x s' = (Inr y, s''))"
  by (auto simp: sbind_def split: prod.splits sum.splits)

lemma sbind_cases:
  assumes "sbind m f s = (r, s'')"
  obtains (raised) e where "m s = (Inl e, s'')" "r = Inl e"
  | (went_on) x s' where "m s = (Inr x, s')" "f x s' = (r, s'')"
  using assms by (auto simp: sbind_def split: prod.splits sum.splits)

definition skeeps :: "('s \<Rightarrow> 's \<Rightarrow> bool) \<Rightarrow> ('s, 'a) cmd \<Rightarrow> bool" where
  "skeeps R m \<longleftrightarrow> (\<forall>s. R s (snd (m s)))"

lemma skeepsD: "skeeps R m \<Longrightarrow> m s = (r, s') \<Longrightarrow> R s s'"
  by (metis skeeps_def snd_conv)

lemma skeeps_basic [skeeps_rules]:
  assumes "reflp R"
  shows "skeeps R (sreturn x)" "skeeps R (sraise e)" "skeeps R (sget f)" "skeeps R (scall r)"
  using assms by (simp_all add: skeeps_def sreturn_def sraise_def sget_def scall_def reflp_def)

lemma skeeps_mod [skeeps_rules]: "(\<And>s. R s (f s)) \<Longrightarrow> skeeps R (smod f)"
  by (simp add: skeeps_def smod_def)

lemma skeeps_bind [skeeps_rules]:
  assumes "transp R" "skeeps R m" "\<And>x. skeeps R (f x)" shows "skeeps R (sbind m f)"
  unfolding skeeps_def
proof
  fix s
  obtain r s' where m: "m s = (r, s')" by force
  have "R s s'" using skeepsD [OF assms(2) m] .
  moreover have "R s' (snd (f x s'))" for x using assms(3) by (simp add: skeeps_def)
  ultimately show "R s (snd (sbind m f s))"
    using m assms(1) by (cases r) (auto simp: sbind_def dest: transpD)
qed

lemma skeeps_try [skeeps_rules]:
  assumes "transp R" "skeeps R m" "\<And>e. skeeps R (h e)" shows "skeeps R (stry m h)"
  unfolding skeeps_def
proof
  fix s
  obtain r s' where m: "m s = (r, s')" by force
  have "R s s'" using skeepsD [OF assms(2) m] .
  moreover have "R s' (snd (h e s'))" for e using assms(3) by (simp add: skeeps_def)
  ultimately show "R s (snd (stry m h s))"
    using m assms(1) by (cases r) (auto simp: stry_def dest: transpD)
qed

lemma skeeps_when [skeeps_rules]: "reflp R \<Longrightarrow> skeeps R m \<Longrightarrow> skeeps R (swhen b m)"
  by (simp add: swhen_def skeeps_basic)

lemma skeeps_if [skeeps_rules]: "(b \<Longrightarrow> skeeps R m) \<Longrightarrow> (\<not> b \<Longrightarrow> skeeps R n) \<Longrightarrow> skeeps R (if b then m else n)"
  by simp

lemma skeeps_fold [skeeps_rules]:
  assumes "reflp R" "transp R" "\<And>x a. skeeps R (f x a)" shows "skeeps R (sfold f xs a)"
  by (induction xs arbitrary: a) (simp_all add: skeeps_basic [OF assms(1)] skeeps_bind [OF assms(2)] assms(3))

lemma sfold_append: "sfold f (xs @ ys) a = sbind (sfold f xs a) (sfold f ys)"
proof (induction xs arbitrary: a)
  case Nil
  then show ?case by (auto simp: fun_eq_iff sbind_def sreturn_def)
next
  case (Cons x xs)
  then show ?case by (auto simp: fun_eq_iff sbind_def split: prod.splits sum.splits)
qed

end
