(* ===== verification/SP_Terraform.thy ===== *)
theory SP_Terraform
  imports SP_Models SP_StateExn
begin

text \<open>
  \<open>terraform_orchestrator.py\<close>: the context of one stage, and the plan, apply, init and output commands.
  The machine the process runs on is \<open>tf_host\<close>: whether the binary and the directory exist, what a
  command answers after the commands run so far, and \<open>json.loads\<close>. The state is the list of commands
  run by the process and the contexts that are initialised.
\<close>

definition full_byoc_terraform_root :: string where
  "full_byoc_terraform_root = ''infra/terraform/full-byoc''"

definition full_byoc_state_prefix :: string where
  "full_byoc_state_prefix = ''sparkpilot/full-byoc''"

record stage_context =
  sc_operation_id :: string
  sc_environment_id :: string
  sc_tenant_id :: string
  sc_stage :: string
  sc_region :: string
  sc_workspace :: string
  sc_state_key :: string
  sc_working_dir :: string
  sc_attempt :: int
  sc_var_overrides :: "string dict"

record plan_result =
  pr_ok :: bool
  pr_command :: "string list"
  pr_plan_path :: "string option"
  pr_stdout_excerpt :: string
  pr_stderr_excerpt :: string
  pr_error :: "string option"

record apply_result =
  ar_ok :: bool
  ar_command :: "string list"
  ar_stdout_excerpt :: string
  ar_stderr_excerpt :: string
  ar_error :: "string option"
  ar_outputs :: "json dict"

record orchestrator =
  tfo_binary :: string
  tfo_enable_subprocess :: bool
  tfo_timeout_seconds :: int
  tfo_backend_bucket :: string
  tfo_backend_region :: string
  tfo_backend_lock_table :: string
  tfo_backend_role_arn :: string

datatype run_outcome = Completed int string string | NotStarted string | Expired

record tf_host =
  host_which :: "string \<Rightarrow> bool"
  host_dir_exists :: "string \<Rightarrow> bool"
  host_resolve :: "string \<Rightarrow> string"
  host_run :: "string list list \<Rightarrow> string list \<Rightarrow> run_outcome"
  host_loads :: "string \<Rightarrow> json option"

record tf_state =
  tf_history :: "string list list"
  tf_initialized :: "(string \<times> string) list"

subsection \<open>Contexts\<close>

definition build_stage_context :: "prov_op \<Rightarrow> environment \<Rightarrow> string \<Rightarrow> int \<Rightarrow> stage_context" where
  "build_stage_context opr env stage attempt =
     (let workspace = ''sp-'' @ take 8 (env_tenant_id env) @ ''-'' @ take 8 (env_id env);
          state_key = full_byoc_state_prefix @ ''/'' @ env_tenant_id env @ ''/'' @ env_id env @ ''/terraform.tfstate'';
          base = [(''tenant_id'', env_tenant_id env), (''environment_id'', env_id env), (''region'', env_region env),
                  (''stage'', stage), (''workspace'', workspace), (''state_key'', state_key),
                  (''customer_role_arn'', env_customer_role_arn env),
                  (''assume_role_external_id'',
                     case env_assume_role_external_id env of None \<Rightarrow> [] | Some x \<Rightarrow> x)];
          var_overrides = (case env_eks_namespace env of
              None \<Rightarrow> base | Some ns \<Rightarrow> if ns = [] then base else dset ''eks_namespace'' ns base)
      in \<lparr>sc_operation_id = op_id opr, sc_environment_id = env_id env, sc_tenant_id = env_tenant_id env,
          sc_stage = stage, sc_region = env_region env, sc_workspace = workspace, sc_state_key = state_key,
          sc_working_dir = full_byoc_terraform_root, sc_attempt = attempt, sc_var_overrides = var_overrides\<rparr>)"

definition plan_path_of :: "stage_context \<Rightarrow> string" where
  "plan_path_of ctx = sc_working_dir ctx @ ''/'' @ sc_operation_id ctx @ ''-'' @ sc_stage ctx @ ''.tfplan''"

definition build_plan_command :: "orchestrator \<Rightarrow> stage_context \<Rightarrow> string \<Rightarrow> string list" where
  "build_plan_command tf ctx plan_path =
     [tfo_binary tf, ''plan'', ''-input=false'', ''-no-color'', ''-out'', plan_path] @
     concat (map (\<lambda>(k, v). [''-var'', k @ ''='' @ v]) (sort_key fst (sc_var_overrides ctx)))"

definition excerpt :: "string \<Rightarrow> string" where
  "excerpt v = (let text = py_strip v in if length text \<le> 2000 then text else take 2000 text @ ''...[truncated]'')"

subsection \<open>Commands\<close>

definition run_command :: "tf_host \<Rightarrow> orchestrator \<Rightarrow> string list \<Rightarrow> (tf_state, int \<times> string \<times> string) cmd" where
  "run_command host tf command s =
     (let s' = s\<lparr>tf_history := tf_history s @ [command]\<rparr> in
      case host_run host (tf_history s) command of
        Completed code out err \<Rightarrow> (Inr (code, out, err), s')
      | NotStarted msg \<Rightarrow> (Inl (value_error (''Terraform command failed to start: '' @ msg)), s')
      | Expired \<Rightarrow> (Inl (value_error (''Terraform command timed out after '' @ show_int (tfo_timeout_seconds tf) @
          '' seconds: '' @ join '' '' command)), s'))"

definition validate_runtime_prerequisites :: "tf_host \<Rightarrow> orchestrator \<Rightarrow> stage_context \<Rightarrow> (tf_state, unit) cmd" where
  "validate_runtime_prerequisites host tf ctx =
     (if \<not> host_which host (tfo_binary tf)
      then sraise (value_error (''Terraform binary '' @ [CHR 0x27] @ tfo_binary tf @ [CHR 0x27] @
        '' was not found on PATH. Install Terraform or configure provisioning runner image with Terraform.''))
      else if \<not> host_dir_exists host (sc_working_dir ctx)
      then sraise (value_error (''Terraform working directory '' @ [CHR 0x27] @ sc_working_dir ctx @ [CHR 0x27] @
        '' does not exist. Add full-BYOC Terraform modules before enabling live full-mode provisioning.''))
      else sreturn ())"

definition init_command :: "orchestrator \<Rightarrow> stage_context \<Rightarrow> string list" where
  "init_command tf ctx =
     [tfo_binary tf, ''init'', ''-input=false'', ''-no-color'', ''-reconfigure''] @
     (if tfo_backend_bucket tf \<noteq> [] then
        [''-backend-config'', ''bucket='' @ tfo_backend_bucket tf,
         ''-backend-config'', ''key='' @ sc_state_key ctx,
         ''-backend-config'', ''region='' @ tfo_backend_region tf] @
        (if tfo_backend_lock_table tf \<noteq> [] then [''-backend-config'', ''dynamodb_table='' @ tfo_backend_lock_table tf] else []) @
        (if tfo_backend_role_arn tf \<noteq> [] then [''-backend-config'', ''role_arn='' @ tfo_backend_role_arn tf] else [])
      else [''-backend=false''])"

definition first_text :: "string \<Rightarrow> string \<Rightarrow> string" where
  "first_text a b = (if a = [] then b else a)"

definition context_key :: "tf_host \<Rightarrow> stage_context \<Rightarrow> string \<times> string" where
  "context_key host ctx = (host_resolve host (sc_working_dir ctx), sc_workspace ctx)"

definition ensure_initialized :: "tf_host \<Rightarrow> orchestrator \<Rightarrow> stage_context \<Rightarrow> (tf_state, unit) cmd" where
  "ensure_initialized host tf ctx =
     sbind (sget tf_initialized) (\<lambda>known.
     if context_key host ctx \<in> set known then sreturn ()
     else
       sbind (run_command host tf (init_command tf ctx)) (\<lambda>(code, out, err).
       if code \<noteq> 0 then sraise (value_error (''Terraform init failed: '' @ excerpt (first_text err out)))
       else
         sbind (run_command host tf [tfo_binary tf, ''workspace'', ''select'', sc_workspace ctx]) (\<lambda>(selected, _, _).
         sbind (if selected \<noteq> 0 then
                  sbind (run_command host tf [tfo_binary tf, ''workspace'', ''new'', sc_workspace ctx]) (\<lambda>(made, out', err').
                  if made \<noteq> 0
                  then sraise (value_error (''Terraform workspace setup failed: '' @ excerpt (first_text err' out')))
                  else sreturn ())
                else sreturn ()) (\<lambda>_.
         smod (\<lambda>s. s\<lparr>tf_initialized := tf_initialized s @ [context_key host ctx]\<rparr>)))))"

definition collect_outputs :: "tf_host \<Rightarrow> orchestrator \<Rightarrow> (tf_state, json dict) cmd" where
  "collect_outputs host tf =
     sbind (run_command host tf [tfo_binary tf, ''output'', ''-json'']) (\<lambda>(code, out, err).
     if code \<noteq> 0
     then sraise (value_error (''Terraform apply succeeded, but `terraform output -json` failed: '' @
       excerpt (first_text err out)))
     else case host_loads host (first_text out ''{}'') of
         None \<Rightarrow> sraise (value_error (''Terraform output JSON parsing failed. '' @
           ''Ensure outputs are valid JSON serializable values.''))
       | Some (JObj kvs) \<Rightarrow> sreturn kvs
       | Some _ \<Rightarrow> sraise (value_error ''Terraform output payload is invalid; expected JSON object.''))"

definition tf_plan :: "tf_host \<Rightarrow> orchestrator \<Rightarrow> stage_context \<Rightarrow> (tf_state, plan_result) cmd" where
  "tf_plan host tf ctx =
     (let plan_path = plan_path_of ctx; command = build_plan_command tf ctx plan_path in
      if \<not> tfo_enable_subprocess tf then
        sreturn \<lparr>pr_ok = True, pr_command = command, pr_plan_path = Some plan_path,
                 pr_stdout_excerpt = ''dry-run terraform plan'', pr_stderr_excerpt = [], pr_error = None\<rparr>
      else
        sbind (validate_runtime_prerequisites host tf ctx) (\<lambda>_.
        sbind (ensure_initialized host tf ctx) (\<lambda>_.
        sbind (run_command host tf command) (\<lambda>(code, out, err).
        sreturn \<lparr>pr_ok = (code = 0), pr_command = command, pr_plan_path = Some plan_path,
                 pr_stdout_excerpt = excerpt out, pr_stderr_excerpt = excerpt err,
                 pr_error = (if code = 0 then None else Some ''terraform plan failed'')\<rparr>))))"

definition apply_command :: "orchestrator \<Rightarrow> stage_context \<Rightarrow> plan_result \<Rightarrow> string list" where
  "apply_command tf ctx plan =
     [tfo_binary tf, ''apply'', ''-input=false'', ''-no-color'', ''-auto-approve'',
      (case pr_plan_path plan of None \<Rightarrow> plan_path_of ctx | Some p \<Rightarrow> if p = [] then plan_path_of ctx else p)]"

definition tf_apply :: "tf_host \<Rightarrow> orchestrator \<Rightarrow> stage_context \<Rightarrow> plan_result \<Rightarrow> (tf_state, apply_result) cmd" where
  "tf_apply host tf ctx plan =
     (let command = apply_command tf ctx plan in
      if \<not> tfo_enable_subprocess tf then
        sreturn \<lparr>ar_ok = True, ar_command = command, ar_stdout_excerpt = ''dry-run terraform apply'',
                 ar_stderr_excerpt = [], ar_error = None, ar_outputs = []\<rparr>
      else
        sbind (validate_runtime_prerequisites host tf ctx) (\<lambda>_.
        sbind (ensure_initialized host tf ctx) (\<lambda>_.
        sbind (run_command host tf command) (\<lambda>(code, out, err).
        sbind (if code = 0 then collect_outputs host tf else sreturn []) (\<lambda>outputs.
        sreturn \<lparr>ar_ok = (code = 0), ar_command = command, ar_stdout_excerpt = excerpt out,
                 ar_stderr_excerpt = excerpt err,
                 ar_error = (if code = 0 then None else Some ''terraform apply failed''),
                 ar_outputs = outputs\<rparr>)))))"

subsection \<open>The selected workspace\<close>

text \<open>
  Which workspace is selected in the working directory after some commands: the one that the last
  successful \<open>workspace select\<close> or \<open>workspace new\<close> names.
\<close>

definition selects :: "tf_host \<Rightarrow> string list list \<Rightarrow> string list \<Rightarrow> string option" where
  "selects host earlier c =
     (if length c = 4 \<and> c ! 1 = ''workspace'' \<and> c ! 2 \<in> {''select'', ''new''} \<and>
         (case host_run host earlier c of Completed code _ _ \<Rightarrow> code = 0 | _ \<Rightarrow> False)
      then Some (c ! 3) else None)"

fun workspace_from :: "tf_host \<Rightarrow> string list list \<Rightarrow> string option \<Rightarrow> string list list \<Rightarrow> string option" where
  "workspace_from host earlier cur [] = cur"
| "workspace_from host earlier cur (c # cs) =
     workspace_from host (earlier @ [c]) (case selects host earlier c of None \<Rightarrow> cur | Some w \<Rightarrow> Some w) cs"

definition current_workspace :: "tf_host \<Rightarrow> string list list \<Rightarrow> string option" where
  "current_workspace host history = workspace_from host [] None history"

lemma workspace_from_snoc:
  "workspace_from host e cur (cs @ [c]) =
     (case selects host (e @ cs) c of None \<Rightarrow> workspace_from host e cur cs | Some w \<Rightarrow> Some w)"
  by (induction cs arbitrary: e cur) (auto split: option.splits)

lemma current_workspace_snoc:
  "current_workspace host (h @ [c]) =
     (case selects host h c of None \<Rightarrow> current_workspace host h | Some w \<Rightarrow> Some w)"
  unfolding current_workspace_def workspace_from_snoc by simp

lemma run_command_Inr:
  "run_command host tf c s = (Inr (code, out, err), s') \<longleftrightarrow>
     host_run host (tf_history s) c = Completed code out err \<and> s' = s\<lparr>tf_history := tf_history s @ [c]\<rparr>"
  by (auto simp: run_command_def Let_def split: run_outcome.splits)

lemma run_command_state: "snd (run_command host tf c s) = s\<lparr>tf_history := tf_history s @ [c]\<rparr>"
  by (simp add: run_command_def Let_def split: run_outcome.splits)

lemma init_not_selects: "selects host h (init_command tf ctx) = None"
  by (simp add: selects_def init_command_def)

lemma plan_not_selects: "selects host h (build_plan_command tf ctx p) = None"
  by (simp add: selects_def build_plan_command_def)

lemma apply_not_selects: "selects host h (apply_command tf ctx p) = None"
  by (simp add: selects_def apply_command_def)

text \<open>Initialisation of a new context selects its workspace.\<close>

lemma ensure_initialized_selects:
  assumes run: "ensure_initialized host tf ctx s = (Inr u, s')"
    and new: "context_key host ctx \<in> set (tf_initialized s) \<Longrightarrow> current_workspace host (tf_history s) = Some (sc_workspace ctx)"
  shows "current_workspace host (tf_history s') = Some (sc_workspace ctx) \<and>
     context_key host ctx \<in> set (tf_initialized s')"
proof (cases "context_key host ctx \<in> set (tf_initialized s)")
  case True
  then show ?thesis using run new by (simp add: ensure_initialized_def cmd_defs)
next
  case False
  let ?sel = "[tfo_binary tf, ''workspace'', ''select'', sc_workspace ctx]"
  let ?new = "[tfo_binary tf, ''workspace'', ''new'', sc_workspace ctx]"
  from run False obtain out err s1 sel o2 e2 s2 u3 s3 where
    i: "run_command host tf (init_command tf ctx) s = (Inr (0, out, err), s1)"
    and w: "run_command host tf ?sel s1 = (Inr (sel, o2, e2), s2)"
    and m: "(if sel \<noteq> 0 then
                  sbind (run_command host tf ?new) (\<lambda>(made, out', err').
                  if made \<noteq> 0
                  then sraise (value_error (''Terraform workspace setup failed: '' @ excerpt (first_text err' out')))
                  else sreturn ())
                else sreturn ()) s2 = (Inr u3, s3)"
    and s': "s' = s3\<lparr>tf_initialized := tf_initialized s3 @ [context_key host ctx]\<rparr>"
    by (auto simp: ensure_initialized_def sbind_Inr sget_def smod_def sraise_def split: if_splits)
  have "current_workspace host (tf_history s3) = Some (sc_workspace ctx)"
  proof (cases "sel = 0")
    case True
    then show ?thesis using m w by (auto simp: sreturn_def run_command_Inr current_workspace_snoc selects_def)
  next
    case False
    then show ?thesis using m
      by (auto simp: sbind_Inr sreturn_def sraise_def run_command_Inr current_workspace_snoc selects_def split: if_splits)
  qed
  then show ?thesis by (simp add: s')
qed

text \<open>
  A plan or an apply that answers has run in the workspace of its context, unless the context was
  initialised earlier and another workspace was selected since.
\<close>

lemma tf_plan_workspace:
  assumes run: "tf_plan host tf ctx s = (Inr p, s')" and live: "tfo_enable_subprocess tf"
    and new: "context_key host ctx \<in> set (tf_initialized s) \<Longrightarrow> current_workspace host (tf_history s) = Some (sc_workspace ctx)"
  obtains h where "tf_history s' = h @ [pr_command p]" "current_workspace host h = Some (sc_workspace ctx)"
    "current_workspace host (tf_history s') = Some (sc_workspace ctx)"
    "pr_command p = build_plan_command tf ctx (plan_path_of ctx)" "pr_plan_path p = Some (plan_path_of ctx)"
    "context_key host ctx \<in> set (tf_initialized s')"
proof -
  from run live obtain s1 s2 code out err where
    v: "validate_runtime_prerequisites host tf ctx s = (Inr (), s1)"
    and i: "ensure_initialized host tf ctx s1 = (Inr (), s2)"
    and c: "run_command host tf (build_plan_command tf ctx (plan_path_of ctx)) s2 = (Inr (code, out, err), s')"
    and p: "pr_command p = build_plan_command tf ctx (plan_path_of ctx)" "pr_plan_path p = Some (plan_path_of ctx)"
    by (auto simp: tf_plan_def Let_def sbind_Inr sreturn_def)
  have s1: "s1 = s" using v by (simp add: validate_runtime_prerequisites_def sraise_def sreturn_def split: if_splits)
  have w: "current_workspace host (tf_history s2) = Some (sc_workspace ctx)" "context_key host ctx \<in> set (tf_initialized s2)"
    using ensure_initialized_selects [OF i [unfolded s1] new] by auto
  have s': "s' = s2\<lparr>tf_history := tf_history s2 @ [pr_command p]\<rparr>" using c by (simp add: run_command_Inr p)
  show thesis
    by (rule that [of "tf_history s2"]) (use s' w p in \<open>simp_all add: current_workspace_snoc plan_not_selects\<close>)
qed

lemma tf_apply_workspace:
  assumes run: "tf_apply host tf ctx plan s = (Inr a, s')" and live: "tfo_enable_subprocess tf"
    and new: "context_key host ctx \<in> set (tf_initialized s) \<Longrightarrow> current_workspace host (tf_history s) = Some (sc_workspace ctx)"
  obtains h rest where "tf_history s' = h @ ar_command a # rest" "current_workspace host h = Some (sc_workspace ctx)"
    "ar_command a = apply_command tf ctx plan"
proof -
  from run live obtain s1 s2 code out err s3 outs where
    v: "validate_runtime_prerequisites host tf ctx s = (Inr (), s1)"
    and i: "ensure_initialized host tf ctx s1 = (Inr (), s2)"
    and c: "run_command host tf (apply_command tf ctx plan) s2 = (Inr (code, out, err), s3)"
    and o: "(if code = 0 then collect_outputs host tf else sreturn []) s3 = (Inr outs, s')"
    and a: "ar_command a = apply_command tf ctx plan"
    by (auto simp: tf_apply_def Let_def sbind_Inr sreturn_def)
  have s1: "s1 = s" using v by (simp add: validate_runtime_prerequisites_def sraise_def sreturn_def split: if_splits)
  have w: "current_workspace host (tf_history s2) = Some (sc_workspace ctx)"
    using ensure_initialized_selects [OF i [unfolded s1] new] by auto
  have s3: "tf_history s3 = tf_history s2 @ [ar_command a]" using c by (simp add: run_command_Inr a)
  have "\<exists>rest. tf_history s' = tf_history s3 @ rest"
  proof (cases "code = 0")
    case True
    then obtain x s4 where "run_command host tf [tfo_binary tf, ''output'', ''-json''] s3 = (x, s4)" "s' = s4"
      using o by (auto simp: collect_outputs_def sbind_Inr sreturn_def sraise_def split: if_splits option.splits json.splits)
    then show ?thesis using run_command_state [of host tf "[tfo_binary tf, ''output'', ''-json'']" s3] by auto
  next
    case False
    then show ?thesis using o by (simp add: sreturn_def)
  qed
  then obtain rest where "tf_history s' = tf_history s2 @ ar_command a # rest" by (auto simp: s3)
  then show thesis using that w a by blast
qed

text \<open>An apply after a plan of the same context applies the file that the plan wrote.\<close>

lemma apply_uses_plan_file:
  assumes "tf_plan host tf ctx s = (Inr p, s')"
  shows "last (apply_command tf ctx p) = plan_path_of ctx \<and>
     prefix [tfo_binary tf, ''plan'', ''-input=false'', ''-no-color'', ''-out'', plan_path_of ctx] (pr_command p)"
proof -
  have "pr_command p = build_plan_command tf ctx (plan_path_of ctx)" "pr_plan_path p = Some (plan_path_of ctx)"
    using assms by (auto simp: tf_plan_def Let_def sbind_Inr sreturn_def split: if_splits)
  then show ?thesis by (simp add: apply_command_def plan_path_of_def build_plan_command_def)
qed

text \<open>Without subprocesses nothing runs and every stage succeeds.\<close>

lemma terraform_dry_run:
  assumes "\<not> tfo_enable_subprocess tf"
  shows "\<exists>p. tf_plan host tf ctx s = (Inr p, s) \<and> pr_ok p" "\<exists>a. tf_apply host tf ctx plan s = (Inr a, s) \<and> ar_ok a \<and> ar_outputs a = []"
  using assms by (simp_all add: tf_plan_def tf_apply_def sreturn_def Let_def)

text \<open>Every variable of the context is on the command line of the plan.\<close>

lemma plan_passes_variables:
  "(k, v) \<in> set (sc_var_overrides ctx) \<Longrightarrow>
     \<exists>l r. build_plan_command tf ctx p = l @ [''-var'', k @ ''='' @ v] @ r"
proof -
  assume "(k, v) \<in> set (sc_var_overrides ctx)"
  then obtain xs ys where "sort_key fst (sc_var_overrides ctx) = xs @ (k, v) # ys"
    by (metis in_set_conv_decomp set_sort)
  then show ?thesis unfolding build_plan_command_def
    by (intro exI [where x = "[tfo_binary tf, ''plan'', ''-input=false'', ''-no-color'', ''-out'', p] @
        concat (map (\<lambda>(k, v). [''-var'', k @ ''='' @ v]) xs)"]
        exI [where x = "concat (map (\<lambda>(k, v). [''-var'', k @ ''='' @ v]) ys)"]) simp
qed

end
