(* ===== verification/SP_Provisioning.thy ===== *)
theory SP_Provisioning
  imports SP_Claims SP_Preflight SP_Terraform
begin

text \<open>
  \<open>services/workers_provisioning.py\<close>: one pass of the provisioner claims the open operations and brings
  each environment to \<open>ready\<close> or \<open>failed\<close>. The state of one operation is the session's database, the
  two loaded rows and Terraform; what was written before an exception stays. The EMR calls and the
  preflight are the fields of \<open>provisioner\<close>.
\<close>

record provisioner =
  pv_dry_run_mode :: bool
  pv_preflight :: "bool \<Rightarrow> environment \<Rightarrow> database \<Rightarrow> (exn + preflight) \<times> database"
    \<comment> \<open>the flag is \<open>require_virtual_cluster\<close>\<close>
  pv_check_pod_identity_agent :: "environment \<Rightarrow> exn + json dict"
  pv_check_oidc_provider_association :: "environment \<Rightarrow> exn + json dict"
  pv_update_execution_role_trust_policy :: "environment \<Rightarrow> exn + json dict"
  pv_find_namespace_collision :: "environment \<Rightarrow> exn + json dict option"
  pv_create_virtual_cluster :: "environment \<Rightarrow> exn + string"
  pv_validate_virtual_cluster_reference :: "bool \<Rightarrow> environment \<Rightarrow> exn + json dict"
  pv_check_execution_role_trust_policy :: "environment \<Rightarrow> exn + json dict"
  pv_check_customer_role_dispatch_permissions :: "environment \<Rightarrow> exn + json dict"
  pv_terraform :: orchestrator
  pv_host :: tf_host

record prov_session =
  ps_db :: database
  ps_env :: environment
  ps_op :: prov_op
  ps_tf :: tf_state

type_synonym 'a pcmd = "(prov_session, 'a) cmd"

subsection \<open>Steps and checkpoints\<close>

definition provisioning_steps :: "prov_state list" where
  "provisioning_steps = [PNetwork, PEks, PEmr, PValidatingBootstrap, PValidatingRuntime]"

definition full_byoc_terraform_stages :: "prov_state list" where
  "full_byoc_terraform_stages = [PNetwork, PEks, PEmr]"

definition full_byoc_checkpoint_audit_action :: string where
  "full_byoc_checkpoint_audit_action = ''environment.full_byoc_checkpoint''"

definition known_good_vpc_endpoints :: "string list" where
  "known_good_vpc_endpoints =
     [''ec2'', ''ecr.api'', ''ecr.dkr'', ''s3'', ''logs'', ''sts'', ''eks'', ''eks-auth'', ''elasticloadbalancing'']"

definition required_full_byoc_outputs :: "string list" where
  "required_full_byoc_outputs = [''eks_cluster_arn'', ''emr_virtual_cluster_id'']"

definition full_byoc_runtime_preflight_codes :: "string list" where
  "full_byoc_runtime_preflight_codes =
     [''config.execution_role'', ''config.log_group_prefix'', ''config.emr_release_label'',
      ''environment.customer_role_arn'', ''environment.virtual_cluster'']"

definition new_full_byoc_checkpoint :: "json dict" where
  "new_full_byoc_checkpoint =
     [(''terraform_workspace'', JNull), (''terraform_state_key'', JNull), (''last_successful_stage'', JNull),
      (''attempt_count_by_stage'', JObj []), (''artifacts'', JArr [])]"

fun index_of :: "'a \<Rightarrow> 'a list \<Rightarrow> nat" where
  "index_of x [] = 0"
| "index_of x (y # ys) = (if x = y then 0 else Suc (index_of x ys))"

definition full_byoc_start_index :: "prov_op \<Rightarrow> nat" where
  "full_byoc_start_index opr =
     (if op_step opr \<in> set provisioning_steps then index_of (op_step opr) provisioning_steps
      else if op_state opr \<in> set provisioning_steps then index_of (op_state opr) provisioning_steps
      else 0)"

definition checkpoint_resume_index :: "json dict \<Rightarrow> prov_op \<Rightarrow> nat" where
  "checkpoint_resume_index checkpoint opr =
     (case dget checkpoint ''last_successful_stage'' JNull of
        JStr stage \<Rightarrow>
          if stage \<in> set (map prov_state_str provisioning_steps)
          then index_of stage (map prov_state_str provisioning_steps) + 1
          else full_byoc_start_index opr
      | _ \<Rightarrow> full_byoc_start_index opr)"

definition checkpoint_attempts :: "json dict \<Rightarrow> int dict" where
  "checkpoint_attempts checkpoint =
     (case dget checkpoint ''attempt_count_by_stage'' (JObj []) of
        JObj kvs \<Rightarrow> concat (map (\<lambda>(k, v). case py_int v of Inr i \<Rightarrow> [(k, i)] | Inl _ \<Rightarrow> []) kvs)
      | _ \<Rightarrow> [])"

definition artifacts_of :: "json dict \<Rightarrow> json list" where
  "artifacts_of checkpoint = (case dget checkpoint ''artifacts'' (JArr []) of JArr xs \<Rightarrow> xs | _ \<Rightarrow> [])"

definition checkpoint_with_updates ::
    "json dict \<Rightarrow> int dict \<Rightarrow> json \<Rightarrow> string option \<Rightarrow> string option \<Rightarrow> json dict" where
  "checkpoint_with_updates checkpoint attempts last_successful_stage workspace state_key =
     [(''terraform_workspace'', case workspace of Some w \<Rightarrow> JStr w | None \<Rightarrow> dget checkpoint ''terraform_workspace'' JNull),
      (''terraform_state_key'', case state_key of Some k \<Rightarrow> JStr k | None \<Rightarrow> dget checkpoint ''terraform_state_key'' JNull),
      (''last_successful_stage'', last_successful_stage),
      (''attempt_count_by_stage'', JObj (map (\<lambda>(k, v). (k, JInt v)) attempts)),
      (''artifacts'', JArr (artifacts_of checkpoint))]"

definition last_n :: "nat \<Rightarrow> 'a list \<Rightarrow> 'a list" where
  "last_n n xs = drop (length xs - n) xs"

definition append_artifact :: "json dict \<Rightarrow> json \<Rightarrow> json dict" where
  "append_artifact checkpoint entry =
     dset ''artifacts'' (JArr (last_n 40 (artifacts_of checkpoint @ [entry]))) checkpoint"

definition record_plan_artifact :: "json dict \<Rightarrow> prov_state \<Rightarrow> int \<Rightarrow> plan_result \<Rightarrow> json dict" where
  "record_plan_artifact checkpoint step attempt result =
     append_artifact checkpoint (JObj
       [(''stage'', JStr (prov_state_str step)), (''attempt'', JInt attempt), (''kind'', JStr ''plan''),
        (''ok'', JBool (pr_ok result)), (''command'', JStr (join '' '' (pr_command result))),
        (''error'', jstr_opt (pr_error result)), (''stdout_excerpt'', JStr (pr_stdout_excerpt result)),
        (''stderr_excerpt'', JStr (pr_stderr_excerpt result)), (''plan_path'', jstr_opt (pr_plan_path result))])"

definition record_apply_artifact :: "json dict \<Rightarrow> prov_state \<Rightarrow> int \<Rightarrow> apply_result \<Rightarrow> json dict" where
  "record_apply_artifact checkpoint step attempt result =
     append_artifact checkpoint (JObj
       [(''stage'', JStr (prov_state_str step)), (''attempt'', JInt attempt), (''kind'', JStr ''apply''),
        (''ok'', JBool (ar_ok result)), (''command'', JStr (join '' '' (ar_command result))),
        (''error'', jstr_opt (ar_error result)), (''stdout_excerpt'', JStr (ar_stdout_excerpt result)),
        (''stderr_excerpt'', JStr (ar_stderr_excerpt result))])"

definition record_full_byoc_validation_artifact ::
    "json dict \<Rightarrow> prov_state \<Rightarrow> int \<Rightarrow> bool \<Rightarrow> string \<Rightarrow> json dict \<Rightarrow> string option \<Rightarrow> json dict" where
  "record_full_byoc_validation_artifact checkpoint step attempt ok summary details err =
     append_artifact checkpoint (JObj
       [(''stage'', JStr (prov_state_str step)), (''attempt'', JInt attempt), (''kind'', JStr ''validation''),
        (''ok'', JBool ok), (''summary'', JStr summary), (''error'', jstr_opt err), (''details'', JObj details)])"

text \<open>The newest 25 checkpoint events of the environment; the newest one of this operation counts.\<close>

definition load_full_byoc_checkpoint :: "database \<Rightarrow> string \<Rightarrow> string \<Rightarrow> json dict" where
  "load_full_byoc_checkpoint d oid eid =
     (let events = take 25 (sort_desc au_created_at (filter (\<lambda>a.
            au_action a = full_byoc_checkpoint_audit_action \<and> au_entity_type a = ''environment'' \<and>
            au_entity_id a = eid) (db_audit d)));
          usable = (\<lambda>a. dget (au_details a) ''operation_id'' JNull = JStr oid \<and>
            (case dget (au_details a) ''checkpoint'' JNull of JObj _ \<Rightarrow> True | _ \<Rightarrow> False))
      in case find usable events of
           None \<Rightarrow> new_full_byoc_checkpoint
         | Some a \<Rightarrow> (case dget (au_details a) ''checkpoint'' JNull of JObj c \<Rightarrow> c | _ \<Rightarrow> new_full_byoc_checkpoint))"

subsection \<open>Writing\<close>

definition audit_env :: "time \<Rightarrow> string \<Rightarrow> string \<Rightarrow> (prov_session \<Rightarrow> json dict) \<Rightarrow> unit pcmd" where
  "audit_env now actor action details =
     smod (\<lambda>s. s\<lparr>ps_db := write_audit_event now actor action ''environment'' (env_id (ps_env s))
       (Some (env_tenant_id (ps_env s))) None (details s) None (ps_db s)\<rparr>)"

definition set_env :: "(environment \<Rightarrow> environment) \<Rightarrow> unit pcmd" where
  "set_env f = smod (\<lambda>s. s\<lparr>ps_env := f (ps_env s)\<rparr>)"

definition set_op :: "(prov_op \<Rightarrow> prov_op) \<Rightarrow> unit pcmd" where
  "set_op f = smod (\<lambda>s. s\<lparr>ps_op := f (ps_op s)\<rparr>)"

definition ask :: "(environment \<Rightarrow> exn + 'a) \<Rightarrow> 'a pcmd" where
  "ask call s = (call (ps_env s), s)"

definition with_tf :: "(tf_state, 'a) cmd \<Rightarrow> 'a pcmd" where
  "with_tf m s = (case m (ps_tf s) of (r, t) \<Rightarrow> (r, s\<lparr>ps_tf := t\<rparr>))"

definition run_preflight :: "provisioner \<Rightarrow> bool \<Rightarrow> preflight pcmd" where
  "run_preflight pv need_cluster s =
     (case pv_preflight pv need_cluster (ps_env s) (ps_db s) of (r, d) \<Rightarrow> (r, s\<lparr>ps_db := d\<rparr>))"

definition write_full_byoc_checkpoint :: "time \<Rightarrow> string \<Rightarrow> json dict \<Rightarrow> unit pcmd" where
  "write_full_byoc_checkpoint now actor checkpoint =
     audit_env now actor full_byoc_checkpoint_audit_action (\<lambda>s.
       [(''operation_id'', JStr (op_id (ps_op s))),
        (''stage'', dget checkpoint ''last_successful_stage'' JNull), (''checkpoint'', JObj checkpoint)])"

definition set_provisioning_ready ::
    "time \<Rightarrow> string \<Rightarrow> string \<Rightarrow> string \<Rightarrow> (prov_session \<Rightarrow> json dict) \<Rightarrow> unit pcmd" where
  "set_provisioning_ready now actor action message details =
     sbind (set_env (\<lambda>e. e\<lparr>env_status := EReady\<rparr>)) (\<lambda>_.
     sbind (set_op (\<lambda>r. r\<lparr>op_state := PReady, op_step := PReady, op_message := Some message, op_ended_at := Some now\<rparr>)) (\<lambda>_.
     audit_env now actor action details))"

definition set_provisioning_failed :: "time \<Rightarrow> string \<Rightarrow> bool \<Rightarrow> exn \<Rightarrow> unit pcmd" where
  "set_provisioning_failed now actor include_error_type e =
     sbind (set_env (\<lambda>r. r\<lparr>env_status := EFailed\<rparr>)) (\<lambda>_.
     sbind (set_op (\<lambda>r. r\<lparr>op_state := PFailed, op_step := PFailed,
       op_message := Some (error_message e include_error_type), op_ended_at := Some now\<rparr>)) (\<lambda>_.
     audit_env now actor ''environment.provisioning_failed'' (\<lambda>_.
       map (\<lambda>(k, v). (k, JStr v)) (error_details e include_error_type))))"

subsection \<open>Outputs of Terraform\<close>

definition extract_terraform_output :: "json dict \<Rightarrow> string \<Rightarrow> string" where
  "extract_terraform_output outputs key =
     (case (case dget outputs key JNull of JObj kvs \<Rightarrow> dget kvs ''value'' JNull | raw \<Rightarrow> raw) of
        JStr s \<Rightarrow> py_strip s
      | _ \<Rightarrow> [])"

definition account_id_from_role_arn :: "string \<Rightarrow> exn + string" where
  "account_id_from_role_arn role_arn =
     (let parts = split_at (CHR '':'') role_arn in
      if length parts \<ge> 5 \<and> length (parts ! 4) = 12 \<and> list_all is_digit (parts ! 4) then Inr (parts ! 4)
      else Inl (value_error (''Cannot extract AWS account ID from role ARN: '' @ py_repr (JStr role_arn))))"

definition empty_text :: "string option \<Rightarrow> bool" where
  "empty_text x = (case x of None \<Rightarrow> True | Some s \<Rightarrow> s = [])"

definition assign_full_byoc_outputs :: "provisioner \<Rightarrow> json dict \<Rightarrow> unit pcmd" where
  "assign_full_byoc_outputs pv outputs =
     sbind (sget ps_env) (\<lambda>env.
     let arn = extract_terraform_output outputs ''eks_cluster_arn'';
         vc = extract_terraform_output outputs ''emr_virtual_cluster_id'';
         missing = filter (\<lambda>k. extract_terraform_output outputs k = []) required_full_byoc_outputs;
         assign = (\<lambda>a v. set_env (\<lambda>e. e\<lparr>env_eks_cluster_arn := Some a, env_emr_virtual_cluster_id := Some v\<rparr>)) in
     if missing = [] then assign arn vc
     else if pv_dry_run_mode pv then
       sbind (scall (account_id_from_role_arn (env_customer_role_arn env))) (\<lambda>account_id.
       assign (if arn = [] then ''arn:aws:eks:'' @ env_region env @ '':'' @ account_id @ '':cluster/sparkpilot-'' @
                 take 8 (env_id env) else arn)
              (if vc = [] then ''vc-dryrun-'' @ take 8 (env_id env) else vc))
     else sraise (value_error (''Full BYOC Terraform apply completed but required outputs are missing: '' @
       join '', '' missing @ ''. Define these outputs in infra/terraform/full-byoc and retry provisioning.'')))"

subsection \<open>BYOC-Lite\<close>

definition cluster_details :: "prov_session \<Rightarrow> json dict" where
  "cluster_details s = [(''eks_cluster_arn'', jstr_opt (env_eks_cluster_arn (ps_env s))),
     (''eks_namespace'', jstr_opt (env_eks_namespace (ps_env s)))]"

definition text_or :: "json \<Rightarrow> string \<Rightarrow> string" where
  "text_or j dflt = (if truthy j then py_str j else dflt)"

definition pod_identity_active :: "json dict \<Rightarrow> bool" where
  "pod_identity_active res \<longleftrightarrow> truthy (dget res ''addon_installed'' JNull) \<and> dget res ''addon_status'' JNull = JStr ''ACTIVE''"

definition run_byoc_lite_oidc_and_trust_setup :: "provisioner \<Rightarrow> time \<Rightarrow> string \<Rightarrow> unit pcmd" where
  "run_byoc_lite_oidc_and_trust_setup pv now actor =
     sbind (sget ps_env) (\<lambda>env.
     let pod = (case pv_check_pod_identity_agent pv env of
                  Inr res \<Rightarrow> if pod_identity_active res then Some res else None | Inl _ \<Rightarrow> None);
         identity_mode = (case pod of Some _ \<Rightarrow> ''pod_identity'' | None \<Rightarrow> ''irsa'') in
     sbind (audit_env now actor ''environment.byoc_lite_identity_detected'' (\<lambda>_.
       (case pod of
          Some res \<Rightarrow> [(''identity_mode'', JStr ''pod_identity''), (''addon_status'', dget res ''addon_status'' JNull),
                       (''addon_version'', dget res ''addon_version'' (JStr []))]
        | None \<Rightarrow> [(''identity_mode'', JStr ''irsa''), (''reason'', JStr ''Pod Identity agent not available'')]))) (\<lambda>_.
     sbind (set_env (\<lambda>e. e\<lparr>env_identity_mode := Some identity_mode\<rparr>)) (\<lambda>_.
     sbind (ask (pv_check_oidc_provider_association pv)) (\<lambda>oidc.
     sbind (audit_env now actor ''environment.byoc_lite_oidc_checked'' (\<lambda>s. cluster_details s @ [(''result'', JObj oidc)])) (\<lambda>_.
     if \<not> truthy (dget oidc ''associated'' JNull) then
       sraise (value_error (''OIDC provider is not associated for the target EKS cluster. '' @
         ''Remediation: run `eksctl utils associate-iam-oidc-provider --cluster '' @
         text_or (dget oidc ''cluster_name'' JNull) ''<cluster-name>'' @ '' --region '' @ env_region env @
         '' --approve` in the customer account, then retry provisioning.''))
     else
       sbind (stry (ask (pv_update_execution_role_trust_policy pv)) (\<lambda>e.
         sbind (swhen (is_value_error e) (audit_env now actor ''environment.byoc_lite_trust_policy_failed'' (\<lambda>s.
           cluster_details s @ [(''error'', JStr (exn_text e))]))) (\<lambda>_.
         sraise e))) (\<lambda>trust.
       audit_env now actor ''environment.byoc_lite_trust_policy_updated'' (\<lambda>s.
         cluster_details s @ [(''result'', JObj trust)])))))))"

definition run_byoc_lite_virtual_cluster_creation :: "provisioner \<Rightarrow> time \<Rightarrow> string \<Rightarrow> unit pcmd" where
  "run_byoc_lite_virtual_cluster_creation pv now actor =
     sbind (sget ps_env) (\<lambda>env.
     sbind (ask (pv_find_namespace_collision pv)) (\<lambda>collision.
     case (case collision of None \<Rightarrow> [] | Some c \<Rightarrow> c) of
       [] \<Rightarrow>
         sbind (ask (pv_create_virtual_cluster pv)) (\<lambda>vc.
           set_env (\<lambda>e. e\<lparr>env_emr_virtual_cluster_id := Some vc\<rparr>))
     | kv # kvs \<Rightarrow>
         let c = kv # kvs; field = (\<lambda>k. dget c k JNull);
             name = (\<lambda>x. py_str (jstr_opt x)) in
         sbind (audit_env now actor ''environment.byoc_lite_namespace_collision'' (\<lambda>s. cluster_details s @
           [(''collision_virtual_cluster_id'', field ''id''), (''collision_virtual_cluster_name'', field ''name''),
            (''collision_virtual_cluster_state'', field ''state'')])) (\<lambda>_.
         sraise (value_error (''BYOC-Lite namespace collision detected: namespace '' @ [CHR 0x27] @
           name (env_eks_namespace env) @ [CHR 0x27] @ '' on cluster '' @ [CHR 0x27] @
           name (env_eks_cluster_arn env) @ [CHR 0x27] @ '' is already associated with virtual cluster '' @
           [CHR 0x27] @ py_str (field ''id'') @ [CHR 0x27] @ '' (state='' @ py_str (field ''state'') @
           ''). Remediation: use a unique namespace for this environment or delete/retire the '' @
           ''existing virtual cluster before retrying.'')))))"

definition run_byoc_lite_provisioning :: "provisioner \<Rightarrow> time \<Rightarrow> string \<Rightarrow> unit pcmd" where
  "run_byoc_lite_provisioning pv now actor =
     sbind (set_op (\<lambda>r. r\<lparr>op_state := PValidatingRuntime, op_step := PValidatingRuntime,
       op_message := Some ''Validating BYOC-Lite runtime.''\<rparr>)) (\<lambda>_.
     sbind (run_preflight pv False) (\<lambda>prerequisites.
     sbind (audit_env now actor ''environment.byoc_lite_prerequisites_evaluated'' (\<lambda>_.
       [(''ready'', JBool (pf_ready prerequisites)),
        (''summary'', JStr (preflight_summary (pf_checks prerequisites) True False)),
        (''checks'', JArr (map check_json (pf_checks prerequisites)))])) (\<lambda>_.
     if \<not> pf_ready prerequisites then
       sraise (value_error (''BYOC-Lite prerequisites failed: '' @ preflight_summary (pf_checks prerequisites) False True))
     else
       sbind (sbind (sget (\<lambda>s. env_emr_virtual_cluster_id (ps_env s) = None)) (\<lambda>b.
         swhen b (run_byoc_lite_oidc_and_trust_setup pv now actor))) (\<lambda>_.
       sbind (sbind (sget (\<lambda>s. empty_text (env_emr_virtual_cluster_id (ps_env s)))) (\<lambda>b.
         swhen b (run_byoc_lite_virtual_cluster_creation pv now actor))) (\<lambda>_.
       set_provisioning_ready now actor ''environment.byoc_lite_provisioned'' ''BYOC-Lite environment ready.'' (\<lambda>s.
         cluster_details s @ [(''emr_virtual_cluster_id'', jstr_opt (env_emr_virtual_cluster_id (ps_env s)))]))))))"

subsection \<open>Full BYOC\<close>

definition heartbeat :: "time \<Rightarrow> unit pcmd" where
  "heartbeat now = set_op (\<lambda>r. r\<lparr>op_claimed_at := Some now\<rparr>)"

definition record_full_byoc_stage_failure ::
    "time \<Rightarrow> string \<Rightarrow> prov_state \<Rightarrow> int \<Rightarrow> string \<Rightarrow> string \<Rightarrow> json dict \<Rightarrow> int dict \<Rightarrow> 'a pcmd" where
  "record_full_byoc_stage_failure now actor step stage_attempt phase failure_message checkpoint attempts =
     sbind (write_full_byoc_checkpoint now actor (checkpoint_with_updates checkpoint
       (dset (prov_state_str step) stage_attempt attempts) (dget checkpoint ''last_successful_stage'' JNull) None None)) (\<lambda>_.
     sbind (heartbeat now) (\<lambda>_.
     sraise (value_error (''Full BYOC stage '' @ [CHR 0x27] @ prov_state_str step @ [CHR 0x27] @ '' '' @ phase @
       '' failed: '' @ failure_message))))"

text \<open>The namespace that the virtual cluster reports replaces the one of the environment.\<close>

definition adopt_namespace :: "json dict \<Rightarrow> unit pcmd" where
  "adopt_namespace virtual_cluster =
     (let discovered = py_strip (text_or (dget virtual_cluster ''namespace'' JNull) []) in
      swhen (discovered \<noteq> []) (set_env (\<lambda>e. e\<lparr>env_eks_namespace := Some discovered\<rparr>)))"

definition missing_outputs :: "environment \<Rightarrow> string list" where
  "missing_outputs env =
     (if empty_text (env_eks_cluster_arn env) then [''eks_cluster_arn''] else []) @
     (if empty_text (env_emr_virtual_cluster_id env) then [''emr_virtual_cluster_id''] else [])"

definition run_full_byoc_bootstrap_validation :: "provisioner \<Rightarrow> json dict pcmd" where
  "run_full_byoc_bootstrap_validation pv =
     sbind (sbind (sget (\<lambda>s. missing_outputs (ps_env s) \<noteq> [])) (\<lambda>b.
       swhen (pv_dry_run_mode pv \<and> b) (assign_full_byoc_outputs pv []))) (\<lambda>_.
     sbind (sget (\<lambda>s. missing_outputs (ps_env s))) (\<lambda>missing.
     if missing \<noteq> [] then
       sraise (value_error (''Full BYOC bootstrap validation failed: required Terraform outputs are missing ('' @
         join '', '' missing @ ''). Remediation: ensure provisioning_emr exports these outputs and rerun provisioning.''))
     else
       sbind (ask (pv_validate_virtual_cluster_reference pv False)) (\<lambda>virtual_cluster.
       sbind (adopt_namespace virtual_cluster) (\<lambda>_.
       sbind (sget ps_env) (\<lambda>env.
       if empty_text (env_eks_namespace env) then
         sraise (value_error (''Full BYOC bootstrap validation failed: EKS namespace could not be inferred from the EMR virtual cluster. '' @
           ''Remediation: ensure provisioning_emr creates a namespace-scoped virtual cluster and surfaces namespace output.''))
       else
         sbind (ask (pv_check_oidc_provider_association pv)) (\<lambda>oidc.
         if \<not> truthy (dget oidc ''associated'' JNull) then
           sraise (value_error (''Full BYOC bootstrap validation failed: EKS OIDC provider association is missing. '' @
             ''Remediation: run `eksctl utils associate-iam-oidc-provider --cluster '' @
             text_or (dget oidc ''cluster_name'' JNull) ''<cluster-name>'' @ '' --region '' @ env_region env @
             '' --approve` in the customer account.''))
         else
           sbind (ask (pv_check_execution_role_trust_policy pv)) (\<lambda>trust.
           sbind (sget cluster_details) (\<lambda>details.
           sreturn (details @ [(''virtual_cluster'', JObj virtual_cluster), (''oidc_association'', JObj oidc),
             (''execution_role_trust'', JObj trust)])))))))))"

definition run_full_byoc_runtime_validation :: "provisioner \<Rightarrow> json dict pcmd" where
  "run_full_byoc_runtime_validation pv =
     sbind (ask (pv_validate_virtual_cluster_reference pv True)) (\<lambda>virtual_cluster.
     sbind (adopt_namespace virtual_cluster) (\<lambda>_.
     sbind (sget ps_env) (\<lambda>env.
     if empty_text (env_eks_namespace env) then
       sraise (value_error (''Full BYOC runtime validation failed: EKS namespace is missing. '' @
         ''Remediation: ensure provisioning_emr outputs a namespace-bound EMR virtual cluster.''))
     else
       sbind (run_preflight pv True) (\<lambda>preflight.
       let runtime_checks = filter (\<lambda>c. ck_code c \<in> set full_byoc_runtime_preflight_codes) (pf_checks preflight) in
       if list_ex (\<lambda>c. ck_status c = ''fail'') runtime_checks then
         sraise (value_error (''Full BYOC runtime validation failed: '' @ preflight_summary runtime_checks False True))
       else
         sbind (ask (pv_check_execution_role_trust_policy pv)) (\<lambda>trust.
         sbind (ask (pv_check_customer_role_dispatch_permissions pv)) (\<lambda>permissions.
         let dispatch_allowed = truthy (dget permissions ''dispatch_actions_allowed'' JNull);
             pass_role_allowed = truthy (dget permissions ''pass_role_allowed'' JNull);
             denied = py_strip (text_or (dget permissions ''denied_dispatch_actions'' JNull) []) in
         if \<not> dispatch_allowed \<or> \<not> pass_role_allowed then
           sraise (value_error (''Full BYOC runtime validation failed: customer role dispatch readiness is incomplete. '' @
             ''Denied dispatch actions: '' @ (if denied = [] then ''none reported'' else denied) @
             '', iam:PassRole allowed: '' @ py_str (JBool pass_role_allowed) @
             ''. Remediation: grant customer_role_arn emr-containers:StartJobRun, '' @
             ''emr-containers:DescribeJobRun, emr-containers:CancelJobRun, and iam:PassRole '' @
             ''on SPARKPILOT_EMR_EXECUTION_ROLE_ARN.''))
         else sreturn
           [(''virtual_cluster'', JObj virtual_cluster),
            (''runtime_preflight_summary'', JStr (preflight_summary runtime_checks True False)),
            (''runtime_preflight_checks'', JArr (map check_json runtime_checks)),
            (''execution_role_trust'', JObj trust), (''dispatch_permissions'', JObj permissions)]))))))"

definition run_validation_step ::
    "provisioner \<Rightarrow> time \<Rightarrow> string \<Rightarrow> prov_state \<Rightarrow> json dict \<Rightarrow> (json dict \<times> json dict) pcmd" where
  "run_validation_step pv now actor step checkpoint =
     (let attempts = checkpoint_attempts checkpoint;
          name = prov_state_str step;
          stage_attempt = dget attempts name 0 + 1 in
      sbind (set_op (\<lambda>r. r\<lparr>op_message := Some (name @ '': running full-BYOC validation checks (attempt '' @
        show_int stage_attempt @ '').'')\<rparr>)) (\<lambda>_.
      sbind (stry
        (if step = PValidatingBootstrap then
           sbind (run_full_byoc_bootstrap_validation pv) (\<lambda>details.
             sreturn (''bootstrap prerequisites validated (EKS/OIDC/trust + virtual cluster wiring).'', details))
         else if step = PValidatingRuntime then
           sbind (run_full_byoc_runtime_validation pv) (\<lambda>details.
             sreturn (''runtime readiness validated (preflight + execution-role trust + dispatch permissions).'', details))
         else sraise (value_error (''Unsupported full-BYOC validation step '' @ [CHR 0x27] @ name @ [CHR 0x27] @ ''.'')))
        (\<lambda>e. if is_value_error e then
               record_full_byoc_stage_failure now actor step stage_attempt ''validation'' (exn_text e)
                 (record_full_byoc_validation_artifact checkpoint step stage_attempt False
                   (name @ '' validation failed.'') [] (Some (exn_text e))) attempts
             else sraise e)) (\<lambda>(summary, details).
      sbind (set_op (\<lambda>r. r\<lparr>op_message := Some (name @ '': '' @ summary)\<rparr>)) (\<lambda>_.
      sreturn (checkpoint_with_updates
        (record_full_byoc_validation_artifact checkpoint step stage_attempt True summary details None)
        (dset name stage_attempt attempts) (JStr name) None None, [])))))"

definition run_terraform_step ::
    "provisioner \<Rightarrow> time \<Rightarrow> string \<Rightarrow> prov_state \<Rightarrow> json dict \<Rightarrow> (json dict \<times> json dict) pcmd" where
  "run_terraform_step pv now actor step checkpoint =
     (let attempts = checkpoint_attempts checkpoint;
          name = prov_state_str step;
          stage_attempt = dget attempts name 0 + 1 in
      sbind (sget (\<lambda>s. build_stage_context (ps_op s) (ps_env s) name stage_attempt)) (\<lambda>context.
      sbind (set_op (\<lambda>r. r\<lparr>op_message := Some (name @ '': terraform plan/apply attempt '' @ show_int stage_attempt @
        '' (workspace='' @ sc_workspace context @ '').'')\<rparr>)) (\<lambda>_.
      sbind (with_tf (tf_plan (pv_host pv) (pv_terraform pv) context)) (\<lambda>plan.
      let checkpoint1 = record_plan_artifact checkpoint step stage_attempt plan in
      if \<not> pr_ok plan then
        record_full_byoc_stage_failure now actor step stage_attempt ''plan''
          (first_text (case pr_error plan of None \<Rightarrow> [] | Some e \<Rightarrow> e) (pr_stderr_excerpt plan)) checkpoint1 attempts
      else
        sbind (with_tf (tf_apply (pv_host pv) (pv_terraform pv) context plan)) (\<lambda>applied.
        let checkpoint2 = record_apply_artifact checkpoint1 step stage_attempt applied in
        if \<not> ar_ok applied then
          record_full_byoc_stage_failure now actor step stage_attempt ''apply''
            (first_text (case ar_error applied of None \<Rightarrow> [] | Some e \<Rightarrow> e) (ar_stderr_excerpt applied)) checkpoint2 attempts
        else sreturn (checkpoint_with_updates checkpoint2 (dset name stage_attempt attempts) (JStr name)
            (Some (sc_workspace context)) (Some (sc_state_key context)), ar_outputs applied))))))"

definition run_full_byoc_step ::
    "provisioner \<Rightarrow> time \<Rightarrow> string \<Rightarrow> prov_state \<Rightarrow> json dict \<Rightarrow> (json dict \<times> json dict) pcmd" where
  "run_full_byoc_step pv now actor step checkpoint =
     sbind (set_op (\<lambda>r. r\<lparr>op_state := step, op_step := step\<rparr>)) (\<lambda>_.
     if step \<in> set full_byoc_terraform_stages then run_terraform_step pv now actor step checkpoint
     else run_validation_step pv now actor step checkpoint)"

definition provision_step ::
    "provisioner \<Rightarrow> time \<Rightarrow> string \<Rightarrow> prov_state \<Rightarrow> json dict \<times> json dict \<Rightarrow> (json dict \<times> json dict) pcmd" where
  "provision_step pv now actor step acc =
     (case acc of (checkpoint, terraform_outputs) \<Rightarrow>
       sbind (run_full_byoc_step pv now actor step checkpoint) (\<lambda>(checkpoint', step_outputs).
       let outputs = (if step_outputs = [] then terraform_outputs else dmerge terraform_outputs step_outputs) in
       sbind (swhen (step_outputs \<noteq> []) (assign_full_byoc_outputs pv outputs)) (\<lambda>_.
       sbind (write_full_byoc_checkpoint now actor checkpoint') (\<lambda>_.
       sbind (heartbeat now) (\<lambda>_.
       sreturn (checkpoint', outputs))))))"

definition run_full_byoc_provisioning :: "provisioner \<Rightarrow> time \<Rightarrow> string \<Rightarrow> unit pcmd" where
  "run_full_byoc_provisioning pv now actor =
     sbind (sget (\<lambda>s. load_full_byoc_checkpoint (ps_db s) (op_id (ps_op s)) (env_id (ps_env s)))) (\<lambda>checkpoint.
     sbind (sget (\<lambda>s. checkpoint_resume_index checkpoint (ps_op s))) (\<lambda>start_idx.
     sbind (sfold (provision_step pv now actor) (drop start_idx provisioning_steps) (checkpoint, [])) (\<lambda>(_, terraform_outputs).
     sbind (sget (\<lambda>s. missing_outputs (ps_env s) \<noteq> [])) (\<lambda>b.
     swhen b (assign_full_byoc_outputs pv terraform_outputs)))))"

subsection \<open>One pass\<close>

definition provision_body :: "provisioner \<Rightarrow> time \<Rightarrow> string \<Rightarrow> unit pcmd" where
  "provision_body pv now actor =
     sbind (sget ps_env) (\<lambda>env.
     if \<not> prefix ''arn:aws:iam::'' (env_customer_role_arn env) then sraise (value_error ''Invalid customer role ARN.'')
     else if pv_dry_run_mode pv \<and> env_engine env \<in> {''emr_serverless'', ''emr_on_ec2''} then
       set_provisioning_ready now actor ''environment.dry_run_provisioned'' (env_engine env @ '' dry-run environment ready.'')
         (\<lambda>_. [(''engine'', JStr (env_engine env)), (''dry_run_mode'', JBool True), (''preflight'', JStr ''skipped'')])
     else if env_provisioning_mode env = ''byoc_lite'' then run_byoc_lite_provisioning pv now actor
     else
       sbind (if env_provisioning_mode env = ''full'' then run_full_byoc_provisioning pv now actor
              else sraise (value_error (''Unsupported provisioning_mode '' @ [CHR 0x27] @ env_provisioning_mode env @
                [CHR 0x27] @ ''.''))) (\<lambda>_.
       set_provisioning_ready now actor ''environment.provisioned'' ''Environment provisioning complete.'' (\<lambda>s.
         [(''eks_cluster_arn'', jstr_opt (env_eks_cluster_arn (ps_env s))),
          (''emr_virtual_cluster_id'', jstr_opt (env_emr_virtual_cluster_id (ps_env s))),
          (''validated_vpc_endpoints'', JArr (map JStr known_good_vpc_endpoints))])))"

definition includes_type :: "exn \<Rightarrow> bool" where
  "includes_type e \<longleftrightarrow> exn_aws e \<or> is_value_error e \<or> exn_class e = ''ProvisioningPermanentError''"

definition provision_operation :: "provisioner \<Rightarrow> time \<Rightarrow> string \<Rightarrow> unit pcmd" where
  "provision_operation pv now actor =
     stry (provision_body pv now actor) (\<lambda>e. set_provisioning_failed now actor (includes_type e) e)"

text \<open>The loaded rows are written back with the release of the claim.\<close>

definition provision_claimed ::
    "provisioner \<Rightarrow> (string \<Rightarrow> time) \<Rightarrow> string \<Rightarrow> string \<Rightarrow> database \<times> tf_state \<Rightarrow> database \<times> tf_state" where
  "provision_claimed pv clk actor oid st =
     (case get_operation (fst st) oid of
        None \<Rightarrow> st
      | Some opr \<Rightarrow>
          (case get_environment (fst st) (op_environment_id opr) of
             None \<Rightarrow> st
           | Some env \<Rightarrow>
               (let s = snd (provision_operation pv (clk oid) actor
                          \<lparr>ps_db = fst st, ps_env = env, ps_op = opr, ps_tf = snd st\<rparr>)
                in (modify_operation (clk oid) oid (\<lambda>_. release_operation_claim (ps_op s))
                      (modify_environment (clk oid) (env_id env) (\<lambda>_. ps_env s) (ps_db s)),
                    ps_tf s))))"

definition process_provisioning_once ::
    "provisioner \<Rightarrow> time \<Rightarrow> (string \<Rightarrow> time) \<Rightarrow> string \<Rightarrow> string \<Rightarrow> database \<Rightarrow> nat \<times> database \<times> tf_state" where
  "process_provisioning_once pv now clk claim_token actor d =
     (case claim_provisioning_operations now clk claim_token provisioning_steps d of
        (pending, d1) \<Rightarrow>
          (length pending,
           fold (\<lambda>r. provision_claimed pv clk actor (op_id r)) pending
             (d1, \<lparr>tf_history = [], tf_initialized = []\<rparr>)))"

subsection \<open>What an operation may change\<close>

definition same_identity :: "environment \<Rightarrow> environment \<Rightarrow> bool" where
  "same_identity e e' \<longleftrightarrow> env_id e' = env_id e \<and> env_tenant_id e' = env_tenant_id e \<and>
     env_engine e' = env_engine e \<and> env_provisioning_mode e' = env_provisioning_mode e \<and>
     env_max_concurrent_runs e' = env_max_concurrent_runs e \<and> env_max_vcpu e' = env_max_vcpu e \<and>
     env_max_run_seconds e' = env_max_run_seconds e"

definition same_operation :: "prov_op \<Rightarrow> prov_op \<Rightarrow> bool" where
  "same_operation r r' \<longleftrightarrow> op_id r' = op_id r \<and> op_environment_id r' = op_environment_id r \<and>
     op_idempotency_key r' = op_idempotency_key r \<and> op_created_at r' = op_created_at r"

definition only_audit :: "database \<Rightarrow> database \<Rightarrow> bool" where
  "only_audit d d' \<longleftrightarrow> (\<exists>a. d' = d\<lparr>db_audit := a\<rparr>)"

lemma only_audit_refl [simp]: "only_audit d d"
  unfolding only_audit_def by (rule exI [where x = "db_audit d"]) simp

lemma only_audit_trans: "only_audit a b \<Longrightarrow> only_audit b c \<Longrightarrow> only_audit a c"
  by (auto simp: only_audit_def)

lemma only_audit_write [simp]: "only_audit d (write_audit_event now a act et eid t ip dt aws d)"
  unfolding only_audit_def write_audit_event_def by blast

definition prov_frame :: "prov_session \<Rightarrow> prov_session \<Rightarrow> bool" where
  "prov_frame s s' \<longleftrightarrow> only_audit (ps_db s) (ps_db s') \<and> same_identity (ps_env s) (ps_env s') \<and>
     same_operation (ps_op s) (ps_op s')"

definition prov_preflight_audit_only :: "provisioner \<Rightarrow> bool" where
  "prov_preflight_audit_only pv \<longleftrightarrow> (\<forall>b env d. only_audit d (snd (pv_preflight pv b env d)))"

lemma prov_frame_refl [simp]: "prov_frame s s"
  by (simp add: prov_frame_def same_identity_def same_operation_def)

lemma prov_frame_reflp [simp]: "reflp prov_frame" by (simp add: reflp_def)

lemma prov_frame_transp [simp]: "transp prov_frame"
  by (rule transpI) (auto simp: prov_frame_def same_identity_def same_operation_def intro: only_audit_trans)

lemmas pkeeps = skeeps_basic [OF prov_frame_reflp] skeeps_bind [OF prov_frame_transp] skeeps_try [OF prov_frame_transp]
  skeeps_when [OF prov_frame_reflp] skeeps_fold [OF prov_frame_reflp prov_frame_transp] skeeps_if

lemma pkeeps_audit [intro, simp]: "skeeps prov_frame (audit_env now actor action f)"
  unfolding audit_env_def by (rule skeeps_mod) (simp add: prov_frame_def same_identity_def same_operation_def)

lemma pkeeps_set_env [intro]: "(\<And>e. same_identity e (f e)) \<Longrightarrow> skeeps prov_frame (set_env f)"
  unfolding set_env_def
  by (rule skeeps_mod) (simp add: prov_frame_def same_operation_def)

lemma pkeeps_set_op [intro]: "(\<And>r. same_operation r (f r)) \<Longrightarrow> skeeps prov_frame (set_op f)"
  unfolding set_op_def
  by (rule skeeps_mod) (simp add: prov_frame_def same_identity_def)

lemma pkeeps_ask [intro, simp]: "skeeps prov_frame (ask call)"
  by (simp add: skeeps_def ask_def)

lemma pkeeps_with_tf [intro, simp]: "skeeps prov_frame (with_tf m)"
  by (simp add: skeeps_def with_tf_def prov_frame_def same_identity_def same_operation_def split: prod.splits)

lemma pkeeps_preflight: "prov_preflight_audit_only pv \<Longrightarrow> skeeps prov_frame (run_preflight pv b)"
  unfolding skeeps_def run_preflight_def prov_preflight_audit_only_def prov_frame_def same_identity_def same_operation_def
  by (auto split: prod.splits) (metis snd_conv)

lemma pkeeps_ready: "skeeps prov_frame (set_provisioning_ready now actor action message f)"
  unfolding set_provisioning_ready_def
  by (intro pkeeps pkeeps_set_env pkeeps_set_op pkeeps_audit) (simp_all add: same_identity_def same_operation_def)

lemma pkeeps_failed: "skeeps prov_frame (set_provisioning_failed now actor b e)"
  unfolding set_provisioning_failed_def
  by (intro pkeeps pkeeps_set_env pkeeps_set_op pkeeps_audit) (simp_all add: same_identity_def same_operation_def)

lemma pkeeps_heartbeat: "skeeps prov_frame (heartbeat now)"
  unfolding heartbeat_def by (intro pkeeps_set_op) (simp add: same_operation_def)

lemma pkeeps_checkpoint: "skeeps prov_frame (write_full_byoc_checkpoint now actor c)"
  unfolding write_full_byoc_checkpoint_def by (rule pkeeps_audit)

lemma pkeeps_assign: "skeeps prov_frame (assign_full_byoc_outputs pv outputs)"
  unfolding assign_full_byoc_outputs_def Let_def
  by (intro pkeeps pkeeps_set_env) (simp_all add: same_identity_def)

lemma pkeeps_adopt: "skeeps prov_frame (adopt_namespace vc)"
  unfolding adopt_namespace_def Let_def by (intro pkeeps pkeeps_set_env) (simp add: same_identity_def)

lemma pkeeps_stage_failure: "skeeps prov_frame (record_full_byoc_stage_failure now actor step n phase msg c at)"
  unfolding record_full_byoc_stage_failure_def by (intro pkeeps pkeeps_checkpoint pkeeps_heartbeat)

lemma pkeeps_oidc: "skeeps prov_frame (run_byoc_lite_oidc_and_trust_setup pv now actor)"
  unfolding run_byoc_lite_oidc_and_trust_setup_def Let_def
  by (intro pkeeps pkeeps_set_env pkeeps_audit pkeeps_ask) (simp add: same_identity_def)

lemma pkeeps_creation: "skeeps prov_frame (run_byoc_lite_virtual_cluster_creation pv now actor)"
  unfolding run_byoc_lite_virtual_cluster_creation_def Let_def
  by (intro pkeeps pkeeps_ask) (auto split: list.splits intro!: pkeeps pkeeps_set_env pkeeps_ask simp: same_identity_def)

lemma pkeeps_byoc_lite: "prov_preflight_audit_only pv \<Longrightarrow> skeeps prov_frame (run_byoc_lite_provisioning pv now actor)"
  unfolding run_byoc_lite_provisioning_def
  by (intro pkeeps pkeeps_set_op pkeeps_audit pkeeps_preflight pkeeps_oidc pkeeps_creation pkeeps_ready)
    (simp_all add: same_operation_def)

lemma pkeeps_bootstrap: "skeeps prov_frame (run_full_byoc_bootstrap_validation pv)"
  unfolding run_full_byoc_bootstrap_validation_def
  by (intro pkeeps pkeeps_assign pkeeps_adopt pkeeps_ask)

lemma pkeeps_runtime: "prov_preflight_audit_only pv \<Longrightarrow> skeeps prov_frame (run_full_byoc_runtime_validation pv)"
  unfolding run_full_byoc_runtime_validation_def Let_def
  by (intro pkeeps pkeeps_adopt pkeeps_ask pkeeps_preflight)

lemma pkeeps_validation_step:
  "prov_preflight_audit_only pv \<Longrightarrow> skeeps prov_frame (run_validation_step pv now actor step c)"
  unfolding run_validation_step_def Let_def
  by (intro pkeeps pkeeps_set_op pkeeps_bootstrap pkeeps_runtime pkeeps_stage_failure)
    (auto simp: same_operation_def split: prod.splits intro!: pkeeps pkeeps_set_op)

lemma pkeeps_terraform_step: "skeeps prov_frame (run_terraform_step pv now actor step c)"
  unfolding run_terraform_step_def Let_def
  by (intro pkeeps pkeeps_set_op pkeeps_with_tf pkeeps_stage_failure) (simp add: same_operation_def)

lemma pkeeps_full_step: "prov_preflight_audit_only pv \<Longrightarrow> skeeps prov_frame (run_full_byoc_step pv now actor step c)"
  unfolding run_full_byoc_step_def
  by (intro pkeeps pkeeps_set_op pkeeps_terraform_step pkeeps_validation_step) (simp add: same_operation_def)

lemma pkeeps_provision_step: "prov_preflight_audit_only pv \<Longrightarrow> skeeps prov_frame (provision_step pv now actor step acc)"
  unfolding provision_step_def Let_def
  by (cases acc) (auto split: prod.splits intro!: pkeeps pkeeps_full_step pkeeps_assign pkeeps_checkpoint pkeeps_heartbeat)

lemma pkeeps_full: "prov_preflight_audit_only pv \<Longrightarrow> skeeps prov_frame (run_full_byoc_provisioning pv now actor)"
  unfolding run_full_byoc_provisioning_def
  by (auto split: prod.splits intro!: pkeeps pkeeps_provision_step pkeeps_assign)

lemma pkeeps_body: "prov_preflight_audit_only pv \<Longrightarrow> skeeps prov_frame (provision_body pv now actor)"
  unfolding provision_body_def by (intro pkeeps pkeeps_ready pkeeps_byoc_lite pkeeps_full)

lemma pkeeps_operation: "prov_preflight_audit_only pv \<Longrightarrow> skeeps prov_frame (provision_operation pv now actor)"
  unfolding provision_operation_def by (intro pkeeps pkeeps_body pkeeps_failed)

subsection \<open>How an operation ends\<close>

definition settled_as :: "prov_state \<Rightarrow> env_state \<Rightarrow> time \<Rightarrow> prov_session \<Rightarrow> bool" where
  "settled_as p e now s \<longleftrightarrow> op_state (ps_op s) = p \<and> op_step (ps_op s) = p \<and> op_ended_at (ps_op s) = Some now \<and>
     env_status (ps_env s) = e"

definition ends_in :: "(prov_session \<Rightarrow> bool) \<Rightarrow> unit pcmd \<Rightarrow> bool" where
  "ends_in P m \<longleftrightarrow> (\<forall>s s'. m s = (Inr (), s') \<longrightarrow> P s')"

lemma ends_in_bind: "(\<And>x. ends_in P (f x)) \<Longrightarrow> ends_in P (sbind m f)"
  by (auto simp: ends_in_def sbind_Inr)

lemma ends_in_raise: "ends_in P (sraise e)" by (simp add: ends_in_def sraise_def)

lemma ends_in_if: "ends_in P m \<Longrightarrow> ends_in P n \<Longrightarrow> ends_in P (if b then m else n)" by simp

lemmas ends_in_rules = ends_in_bind ends_in_raise ends_in_if

lemma set_provisioning_ready_run:
  "\<exists>s'. set_provisioning_ready now actor action message f s = (Inr (), s') \<and> settled_as PReady EReady now s' \<and>
     env_eks_cluster_arn (ps_env s') = env_eks_cluster_arn (ps_env s) \<and>
     env_emr_virtual_cluster_id (ps_env s') = env_emr_virtual_cluster_id (ps_env s)"
  by (simp add: set_provisioning_ready_def set_env_def set_op_def audit_env_def cmd_defs settled_as_def)

lemma set_provisioning_failed_run:
  "\<exists>s'. set_provisioning_failed now actor b e s = (Inr (), s') \<and> settled_as PFailed EFailed now s' \<and>
     op_message (ps_op s') = Some (error_message e b)"
  by (simp add: set_provisioning_failed_def set_env_def set_op_def audit_env_def cmd_defs settled_as_def)

lemma ends_ready: "ends_in (settled_as PReady EReady now) (set_provisioning_ready now actor action message f)"
proof -
  have "\<And>s s'. set_provisioning_ready now actor action message f s = (Inr (), s') \<Longrightarrow> settled_as PReady EReady now s'"
    using set_provisioning_ready_run by (metis prod.inject)
  then show ?thesis by (simp add: ends_in_def)
qed

lemma provision_body_ready: "ends_in (settled_as PReady EReady now) (provision_body pv now actor)"
  unfolding provision_body_def run_byoc_lite_provisioning_def by (intro ends_in_rules ends_ready)

text \<open>Every operation ends: the environment is ready, or failed with the message of the exception.\<close>

lemma provision_operation_settles:
  obtains (ready) s' where "provision_body pv now actor s = (Inr (), s')" "provision_operation pv now actor s = (Inr (), s')"
      "settled_as PReady EReady now s'"
  | (failed) e s0 s' where "provision_body pv now actor s = (Inl e, s0)" "provision_operation pv now actor s = (Inr (), s')"
      "settled_as PFailed EFailed now s'" "op_message (ps_op s') = Some (error_message e (includes_type e))"
proof (cases "provision_body pv now actor s")
  case (Pair r s0)
  show thesis
  proof (cases r)
    case (Inr u)
    then have b: "provision_body pv now actor s = (Inr (), s0)" using Pair by simp
    then have "settled_as PReady EReady now s0" using provision_body_ready unfolding ends_in_def by blast
    then show thesis using ready b by (simp add: provision_operation_def stry_def)
  next
    case (Inl e)
    then show thesis
      using failed [OF Pair [unfolded Inl]] Pair set_provisioning_failed_run [of now actor "includes_type e" e s0]
      by (auto simp: provision_operation_def stry_def)
  qed
qed

text \<open>A full environment is not ready without its cluster and its virtual cluster.\<close>

lemma account_id_length: "account_id_from_role_arn arn = Inr a \<Longrightarrow> length a = 12"
  by (auto simp: account_id_from_role_arn_def Let_def split: if_splits)

lemma assign_full_byoc_outputs_complete:
  "assign_full_byoc_outputs pv outputs s = (Inr (), s') \<Longrightarrow> missing_outputs (ps_env s') = []"
  by (auto simp: assign_full_byoc_outputs_def Let_def sbind_Inr sget_def set_env_def smod_def sraise_def scall_def
      missing_outputs_def empty_text_def required_full_byoc_outputs_def split: if_splits)

lemma run_full_byoc_provisioning_complete:
  assumes "run_full_byoc_provisioning pv now actor s = (Inr (), s')"
  shows "missing_outputs (ps_env s') = []"
proof -
  from assms obtain outputs s1 where
    "(if missing_outputs (ps_env s1) \<noteq> [] then assign_full_byoc_outputs pv outputs else sreturn ()) s1 = (Inr (), s')"
    by (auto simp: run_full_byoc_provisioning_def sbind_Inr sget_def swhen_def split: prod.splits)
  then show ?thesis using assign_full_byoc_outputs_complete
    by (cases "missing_outputs (ps_env s1) = []") (auto simp: sreturn_def)
qed

lemma full_ready_has_cluster:
  assumes run: "provision_body pv now actor s = (Inr (), s')" and full: "env_provisioning_mode (ps_env s) = ''full''"
    and live: "\<not> pv_dry_run_mode pv \<or> env_engine (ps_env s) = ''emr_on_eks''"
  shows "missing_outputs (ps_env s') = []"
proof -
  from run full live obtain s1 action message f where
    f: "run_full_byoc_provisioning pv now actor s = (Inr (), s1)"
    and r: "set_provisioning_ready now actor action message f s1 = (Inr (), s')"
    by (auto simp: provision_body_def sbind_Inr sget_def sraise_def split: if_splits)
  obtain s2 where "set_provisioning_ready now actor action message f s1 = (Inr (), s2)"
    "env_eks_cluster_arn (ps_env s2) = env_eks_cluster_arn (ps_env s1)"
    "env_emr_virtual_cluster_id (ps_env s2) = env_emr_virtual_cluster_id (ps_env s1)"
    using set_provisioning_ready_run by blast
  then show ?thesis using r run_full_byoc_provisioning_complete [OF f] by (simp add: missing_outputs_def)
qed

text \<open>
  Outside dry-run mode a Terraform stage whose outputs lack one of the two ids fails the operation. The
  modules under \<open>infra/terraform\<close> give the id of the virtual cluster only in the last stage.
\<close>

lemma partial_outputs_raise:
  assumes step: "run_full_byoc_step pv now actor step c s = (Inr (c', outs), s1)" and outs: "outs \<noteq> []"
    and miss: "extract_terraform_output (dmerge prev outs) ''emr_virtual_cluster_id'' = []" and live: "\<not> pv_dry_run_mode pv"
  shows "\<exists>e. provision_step pv now actor step (c, prev) s = (Inl e, s1) \<and> is_value_error e"
  using assms
  by (simp add: provision_step_def sbind_def swhen_def assign_full_byoc_outputs_def sget_def sraise_def Let_def
      required_full_byoc_outputs_def is_value_error_def value_error_def)

lemma stage_fails_operation:
  assumes mode: "env_provisioning_mode (ps_env s) = ''full''" "prefix ''arn:aws:iam::'' (env_customer_role_arn (ps_env s))"
    and live: "\<not> pv_dry_run_mode pv"
    and cp: "cp = load_full_byoc_checkpoint (ps_db s) (op_id (ps_op s)) (env_id (ps_env s))"
    and stages: "drop (checkpoint_resume_index cp (ps_op s)) provisioning_steps = earlier @ stage # later"
    and fold: "sfold (provision_step pv now actor) earlier (cp, []) s = (Inr (c, prev), s0)"
    and step: "run_full_byoc_step pv now actor stage c s0 = (Inr (c', outs), s1)" "outs \<noteq> []"
    and miss: "extract_terraform_output (dmerge prev outs) ''emr_virtual_cluster_id'' = []"
  shows "\<exists>e s'. provision_body pv now actor s = (Inl e, s1) \<and> is_value_error e \<and> provision_operation pv now actor s = (Inr (), s') \<and>
    op_state (ps_op s') = PFailed \<and> op_ended_at (ps_op s') = Some now \<and> op_message (ps_op s') = Some (error_message e True) \<and>
    env_status (ps_env s') = EFailed"
proof -
  obtain e where e: "provision_step pv now actor stage (c, prev) s0 = (Inl e, s1)" "is_value_error e"
    using partial_outputs_raise [OF step miss live] by blast
  have "sfold (provision_step pv now actor) (earlier @ stage # later) (cp, []) s = (Inl e, s1)"
    by (simp add: sfold_append sbind_def fold e(1))
  then have "run_full_byoc_provisioning pv now actor s = (Inl e, s1)"
    by (simp add: run_full_byoc_provisioning_def sbind_def sget_def cp [symmetric] stages)
  then have body: "provision_body pv now actor s = (Inl e, s1)"
    using mode live by (simp add: provision_body_def sbind_def sget_def)
  obtain s' where s': "provision_operation pv now actor s = (Inr (), s')" "settled_as PFailed EFailed now s'"
      "op_message (ps_op s') = Some (error_message e (includes_type e))"
    using body by (cases rule: provision_operation_settles [of pv now actor s]) auto
  have "includes_type e" using e(2) by (simp add: includes_type_def)
  then show ?thesis using body e(2) s' by (auto simp: settled_as_def)
qed

subsection \<open>One claimed operation in the database\<close>

lemma provision_claimed_effect:
  assumes pf: "prov_preflight_audit_only pv" and o: "get_operation (fst st) oid = Some opr"
    and e: "get_environment (fst st) (op_environment_id opr) = Some env"
  obtains a opr' env' t where
    "provision_claimed pv clk actor oid st =
       (modify_operation (clk oid) oid (\<lambda>_. opr')
          (modify_environment (clk oid) (env_id env) (\<lambda>_. env') ((fst st)\<lparr>db_audit := a\<rparr>)), t)"
    "same_identity env env'" "same_operation opr opr'"
    "op_claim_token opr' = None" "op_claimed_at opr' = None" "op_ended_at opr' = Some (clk oid)"
    "op_state opr' = PReady \<and> env_status env' = EReady \<or> op_state opr' = PFailed \<and> env_status env' = EFailed"
proof -
  let ?s0 = "\<lparr>ps_db = fst st, ps_env = env, ps_op = opr, ps_tf = snd st\<rparr>"
  obtain s' where run: "provision_operation pv (clk oid) actor ?s0 = (Inr (), s')"
    and fin: "settled_as PReady EReady (clk oid) s' \<or> settled_as PFailed EFailed (clk oid) s'"
    using provision_operation_settles [of pv "clk oid" actor ?s0] by blast
  have fr: "prov_frame ?s0 s'" using skeepsD [OF pkeeps_operation [OF pf] run] .
  then obtain a where a: "ps_db s' = (fst st)\<lparr>db_audit := a\<rparr>" by (auto simp: prov_frame_def only_audit_def)
  show thesis
    by (rule that [of "release_operation_claim (ps_op s')" "ps_env s'" a "ps_tf s'"])
      (use o e run a fr fin in \<open>auto simp: provision_claimed_def Let_def prov_frame_def same_operation_def
         release_operation_claim_def settled_as_def\<close>)
qed

subsection \<open>The claims of a pass\<close>

abbreviation claimed_op :: "string \<Rightarrow> (string \<Rightarrow> time) \<Rightarrow> prov_op \<Rightarrow> prov_op" where
  "claimed_op tk clk r \<equiv> upd_operation (clk (op_id r)) (\<lambda>q. q\<lparr>op_claim_token := Some tk, op_claimed_at := Some (clk (op_id r))\<rparr>) r"

lemma claim_operations_frame:
  "claim_provisioning_operations now clk tk steps d = (rs, d') \<Longrightarrow> \<exists>t. d' = d\<lparr>db_ops := t\<rparr>"
proof -
  let ?at = "\<lambda>i. claim_operation_row (PQueued # steps) (claim_cutoff_time now) tk (clk i) i"
  assume cl: "claim_provisioning_operations now clk tk steps d = (rs, d')"
  have "\<exists>t. snd (claim_each ?at ids d) = d\<lparr>db_ops := t\<rparr>" for ids d
  proof (induction ids arbitrary: d)
    case Nil
    then show ?case by (auto intro: exI [where x = "db_ops d"])
  next
    case (Cons i ids)
    obtain t where t: "snd (?at i d) = d\<lparr>db_ops := t\<rparr>" by (auto simp: claim_operation_row_def Let_def)
    from Cons [of "d\<lparr>db_ops := t\<rparr>"] show ?case by (auto simp: case_prod_beta t)
  qed
  moreover have "\<exists>ids. d' = snd (claim_each ?at ids d)"
    using cl unfolding claim_provisioning_operations_def Let_def case_prod_beta
    by (intro exI) (auto dest: arg_cong [of _ _ snd])
  ultimately show ?thesis by auto
qed

lemma claim_operations:
  assumes dist: "distinct (map op_id (db_ops d))"
    and cl: "claim_provisioning_operations now clk tk steps d = (rs, d')"
  shows "\<exists>P. db_ops d' = map (\<lambda>r. if P r then claimed_op tk clk r else r) (db_ops d)"
    and "distinct (map op_id rs)"
    and "\<And>r. r \<in> set rs \<Longrightarrow> r \<in> set (db_ops d') \<and> op_state r \<in> set (PQueued # steps) \<and> op_claim_token r = Some tk"
proof -
  let ?c = "claim_cutoff_time now" and ?st = "PQueued # steps"
  let ?ok = "\<lambda>r. op_state r \<in> set ?st \<and> provisioning_claim_available ?c r"
  let ?is = "map op_id (sort_key op_created_at (filter ?ok (db_ops d)))"
  let ?e = "claim_each (\<lambda>i. claim_operation_row ?st ?c tk (clk i) i) ?is d"
  have di: "distinct ?is"
    using distinct_claim_candidates [OF dist, of "length (db_ops d)" op_created_at ?ok] by simp
  have d': "d' = snd ?e" and rs: "rs = [] \<or> rs = sort_key op_created_at (filter (\<lambda>r. op_id r \<in> set (fst ?e)) (db_ops (snd ?e)))"
    using cl by (auto simp: claim_provisioning_operations_def Let_def split: prod.splits if_splits)
  note rows = op_claims.each_rows [OF di, of ?st ?c tk clk d]
  show "\<exists>P. db_ops d' = map (\<lambda>r. if P r then claimed_op tk clk r else r) (db_ops d)"
    unfolding d' rows by (intro exI [where x = "\<lambda>r. op_id r \<in> set ?is \<and> ?ok r"]) simp
  have dist': "distinct (map op_id (db_ops (snd ?e)))"
    using dist by (simp only: op_claims.ids_each [OF di])
  show "distinct (map op_id rs)"
    using rs distinct_claim_candidates [OF dist', of "length (db_ops (snd ?e))" op_created_at "\<lambda>r. op_id r \<in> set (fst ?e)"]
    by auto
  show "r \<in> set (db_ops d') \<and> op_state r \<in> set ?st \<and> op_claim_token r = Some tk" if r: "r \<in> set rs" for r
  proof -
    from r rs have m: "r \<in> set (db_ops (snd ?e))" "op_id r \<in> set (fst ?e)" by auto
    from op_claims.each_claimed [OF dist di m] obtain q where
      "r = claimed_op tk clk q" "op_state q \<in> set ?st" by blast
    then show ?thesis using m d' by simp
  qed
qed

end
