(* ===== verification/SP_Idempotency.thy ===== *)
theory SP_Idempotency
  imports SP_Helpers
begin

text \<open>
  \<open>idempotency.py\<close>. A request carries a scope and a key; the first one reserves a row, runs, and
  stores its answer, later ones replay it. \<open>fp\<close> is the fingerprint of a payload (a SHA-256 of its
  canonical JSON). The response column holds the serialised body; the model keeps the value that
  \<open>json.loads\<close> gives back. Other transactions run between the read and the insert (\<open>other1\<close>) and
  between the rollback and the second read (\<open>other2\<close>): they are functions on the committed
  database.
\<close>

record idem_result =
  ir_status_code :: int
  ir_body :: json
  ir_replayed :: bool

type_synonym exec_result = "int \<times> json \<times> string option \<times> string option"

definition load_idempotency_record :: "database \<Rightarrow> string \<Rightarrow> string \<Rightarrow> idempotency_record option" where
  "load_idempotency_record d scp ky =
     find (\<lambda>r. idem_scope r = scp \<and> idem_key r = ky) (db_idem d)"

definition replay_or_conflict :: "idempotency_record \<Rightarrow> string \<Rightarrow> error + idem_result" where
  "replay_or_conflict existing fingerprint =
     (if idem_fingerprint existing \<noteq> fingerprint
      then Inl (HTTPException 409 ''Idempotency-Key already used with a different request body.'')
      else Inr \<lparr>ir_status_code = idem_status_code existing, ir_body = idem_response existing,
                ir_replayed = True\<rparr>)"

definition reservation :: "time \<Rightarrow> string \<Rightarrow> string \<Rightarrow> string \<Rightarrow> idempotency_record" where
  "reservation now scp ky fingerprint =
     \<lparr>idem_scope = scp, idem_key = ky, idem_fingerprint = fingerprint, idem_response = JObj [],
      idem_status_code = 0, idem_resource_type = None, idem_resource_id = None, idem_created_at = now\<rparr>"

text \<open>
  The insert of the reservation: the unique constraint \<open>uq_idempotency_scope_key\<close> refuses a second
  row with the same scope and key.
\<close>

definition flush_reservation :: "idempotency_record \<Rightarrow> database \<Rightarrow> error + database" where
  "flush_reservation r d =
     (case load_idempotency_record d (idem_scope r) (idem_key r) of
        Some _ \<Rightarrow> Inl (IntegrityError ''uq_idempotency_scope_key'')
      | None \<Rightarrow> Inr (d\<lparr>db_idem := db_idem d @ [r]\<rparr>))"

definition finish_reservation :: "string \<Rightarrow> string \<Rightarrow> exec_result \<Rightarrow> database \<Rightarrow> database" where
  "finish_reservation scp ky res d =
     (case res of (code, body, rtype, rid) \<Rightarrow>
       d\<lparr>db_idem := map (\<lambda>r. if idem_scope r = scp \<and> idem_key r = ky
           then r\<lparr>idem_response := body, idem_status_code := code, idem_resource_type := rtype,
                  idem_resource_id := rid\<rparr> else r) (db_idem d)\<rparr>)"

text \<open>
  The outcome pairs the answer with the committed database after the call: a failure rolls the
  transaction back, so what remains are the effects of the other transactions.
\<close>

definition with_idempotency ::
    "(json \<Rightarrow> string) \<Rightarrow> time \<Rightarrow> (database \<Rightarrow> database) \<Rightarrow> (database \<Rightarrow> database) \<Rightarrow> string \<Rightarrow> string \<Rightarrow> json
     \<Rightarrow> (database \<Rightarrow> error + exec_result \<times> database) \<Rightarrow> database
     \<Rightarrow> (error + idem_result) \<times> database" where
  "with_idempotency fp now other1 other2 scp ky payload execute d =
     (let fingerprint = fp payload in
      case load_idempotency_record d scp ky of
        Some existing \<Rightarrow> (replay_or_conflict existing fingerprint, d)
      | None \<Rightarrow>
         (let d1 = other1 d in
          case flush_reservation (reservation now scp ky fingerprint) d1 of
            Inl e \<Rightarrow>
              (let d2 = other2 d1 in
               case load_idempotency_record d2 scp ky of
                 None \<Rightarrow> (Inl e, d2)
               | Some existing \<Rightarrow> (replay_or_conflict existing fingerprint, d2))
          | Inr dr \<Rightarrow>
              (case execute dr of
                 Inl e \<Rightarrow> (Inl e, d1)
               | Inr ((code, body, rtype, rid), dx) \<Rightarrow>
                   (Inr \<lparr>ir_status_code = code, ir_body = body, ir_replayed = False\<rparr>,
                    finish_reservation scp ky (code, body, rtype, rid) dx))))"

definition idem_unique :: "database \<Rightarrow> bool" where
  "idem_unique d = distinct (map (\<lambda>r. (idem_scope r, idem_key r)) (db_idem d))"

text \<open>The code under \<open>execute\<close> does not touch the table of reservations.\<close>

definition keeps_idem :: "(database \<Rightarrow> error + exec_result \<times> database) \<Rightarrow> bool" where
  "keeps_idem ex \<longleftrightarrow> (\<forall>d res d'. ex d = Inr (res, d') \<longrightarrow> db_idem d' = db_idem d)"

lemma load_None_iff:
  "load_idempotency_record d s k = None \<longleftrightarrow> (s, k) \<notin> (\<lambda>r. (idem_scope r, idem_key r)) ` set (db_idem d)"
  by (auto simp: load_idempotency_record_def find_None_iff)

lemma load_SomeD:
  "load_idempotency_record d s k = Some r \<Longrightarrow> r \<in> set (db_idem d) \<and> idem_scope r = s \<and> idem_key r = k"
  by (auto simp: load_idempotency_record_def find_Some_iff)

lemma idem_keys_finish:
  "map (\<lambda>r. (idem_scope r, idem_key r)) (db_idem (finish_reservation s k res d)) =
   map (\<lambda>r. (idem_scope r, idem_key r)) (db_idem d)"
  by (cases res) (simp add: finish_reservation_def)

lemma flush_reservation_Inr:
  "flush_reservation r d = Inr d' \<longleftrightarrow>
     load_idempotency_record d (idem_scope r) (idem_key r) = None \<and> d' = d\<lparr>db_idem := db_idem d @ [r]\<rparr>"
  by (auto simp: flush_reservation_def split: option.splits)

lemma load_after_finish:
  assumes "load_idempotency_record d s k = None"
    and "db_idem dx = db_idem d @ [reservation now s k f]"
  shows "\<exists>r. load_idempotency_record (finish_reservation s k (c, b, t, i) dx) s k = Some r \<and>
     idem_fingerprint r = f \<and> idem_status_code r = c \<and> idem_response r = b"
proof -
  have none: "\<forall>r \<in> set (db_idem d). \<not> (idem_scope r = s \<and> idem_key r = k)"
    using assms(1) by (auto simp: load_None_iff)
  have same: "map (\<lambda>r. if idem_scope r = s \<and> idem_key r = k
      then r\<lparr>idem_response := b, idem_status_code := c, idem_resource_type := t,
             idem_resource_id := i\<rparr> else r) (db_idem d) = db_idem d"
    by (rule map_idI) (use none in auto)
  have "find (\<lambda>r. idem_scope r = s \<and> idem_key r = k) (db_idem d) = None"
    using assms(1) by (simp add: load_idempotency_record_def)
  note app = find_append_None [OF this]
  show ?thesis
    by (simp add: finish_reservation_def load_idempotency_record_def assms(2) same app reservation_def)
qed

subsection \<open>Correctness\<close>

text \<open>A call that succeeds leaves the finished record of its answer.\<close>

lemma with_idempotency_stores:
  assumes keep: "keeps_idem ex"
    and run: "with_idempotency fp now o1 o2 s k p ex d = (Inr res, d')" and fresh: "\<not> ir_replayed res"
  shows "\<exists>r. load_idempotency_record d' s k = Some r \<and> idem_fingerprint r = fp p \<and>
     idem_status_code r = ir_status_code res \<and> idem_response r = ir_body res"
proof -
  let ?rv = "reservation now s k (fp p)"
  have none: "load_idempotency_record d s k = None"
    using run fresh
    by (auto simp: with_idempotency_def replay_or_conflict_def Let_def split: option.splits if_splits)
  have fl: "load_idempotency_record (o1 d) s k = None"
    using run fresh none
    by (auto simp: with_idempotency_def replay_or_conflict_def flush_reservation_def reservation_def
        Let_def split: option.splits if_splits sum.splits)
  have "flush_reservation ?rv (o1 d) = Inr ((o1 d)\<lparr>db_idem := db_idem (o1 d) @ [?rv]\<rparr>)"
    using fl by (simp add: flush_reservation_Inr reservation_def)
  with run none obtain c b t i dx where
    ex: "ex ((o1 d)\<lparr>db_idem := db_idem (o1 d) @ [?rv]\<rparr>) = Inr ((c, b, t, i), dx)"
    and res: "res = \<lparr>ir_status_code = c, ir_body = b, ir_replayed = False\<rparr>"
    and d': "d' = finish_reservation s k (c, b, t, i) dx"
    by (auto simp: with_idempotency_def Let_def split: sum.splits prod.splits)
  have "db_idem dx = db_idem (o1 d) @ [?rv]"
    using keep ex by (auto simp: keeps_idem_def)
  from load_after_finish [OF fl this] show ?thesis
    by (simp add: d' res)
qed

lemma with_idempotency_replays:
  assumes "load_idempotency_record d s k = Some r" and "idem_fingerprint r = fp p"
  shows "with_idempotency fp now o1 o2 s k p ex d =
     (Inr \<lparr>ir_status_code = idem_status_code r, ir_body = idem_response r, ir_replayed = True\<rparr>, d)"
  using assms by (simp add: with_idempotency_def replay_or_conflict_def)

lemma with_idempotency_conflict:
  assumes "load_idempotency_record d s k = Some r" and "idem_fingerprint r \<noteq> fp p"
  shows "with_idempotency fp now o1 o2 s k p ex d =
     (Inl (HTTPException 409 ''Idempotency-Key already used with a different request body.''), d)"
  using assms by (simp add: with_idempotency_def replay_or_conflict_def)

lemma idem_unique_cong: "db_idem d = db_idem d' \<Longrightarrow> idem_unique d = idem_unique d'"
  by (simp add: idem_unique_def)

lemma idem_unique_flush:
  "idem_unique d \<Longrightarrow> flush_reservation r d = Inr d' \<Longrightarrow> idem_unique d'"
  by (auto simp: flush_reservation_Inr idem_unique_def load_None_iff)

lemma with_idempotency_unique:
  assumes keep: "keeps_idem ex" and u: "idem_unique d"
    and o1: "\<And>x. idem_unique x \<Longrightarrow> idem_unique (o1 x)" and o2: "\<And>x. idem_unique x \<Longrightarrow> idem_unique (o2 x)"
  shows "idem_unique (snd (with_idempotency fp now o1 o2 s k p ex d))"
proof -
  let ?rv = "reservation now s k (fp p)"
  have fin: "idem_unique (finish_reservation s k res dx) = idem_unique dx" for res dx
    by (simp add: idem_unique_def idem_keys_finish)
  show ?thesis
  proof (cases "flush_reservation ?rv (o1 d)")
    case (Inl e)
    then show ?thesis
      using u o1 o2 by (auto simp: with_idempotency_def Let_def split: option.splits)
  next
    case (Inr dr)
    then have dr: "idem_unique dr"
      using idem_unique_flush o1 [OF u] by blast
    have "idem_unique dx" if "ex dr = Inr (r, dx)" for r dx
      using that keep dr idem_unique_cong by (metis keeps_idem_def)
    then show ?thesis
      using Inr u o1
      by (auto simp: with_idempotency_def Let_def fin split: option.splits sum.splits prod.splits)
  qed
qed

text \<open>When another transaction inserted the key first, the body does not run here.\<close>

lemma with_idempotency_lost_race:
  assumes "load_idempotency_record d s k = None"
    and "load_idempotency_record (o1 d) s k \<noteq> None"
    and "load_idempotency_record (o2 (o1 d)) s k = Some r" and "idem_fingerprint r = fp p"
  shows "with_idempotency fp now o1 o2 s k p ex d =
     (Inr \<lparr>ir_status_code = idem_status_code r, ir_body = idem_response r, ir_replayed = True\<rparr>, o2 (o1 d))"
  using assms
  by (auto simp: with_idempotency_def flush_reservation_def reservation_def replay_or_conflict_def
      Let_def split: option.splits)

lemma with_idempotency_rollback:
  assumes "load_idempotency_record d s k = None" and "load_idempotency_record (o1 d) s k = None"
    and "ex ((o1 d)\<lparr>db_idem := db_idem (o1 d) @ [reservation now s k (fp p)]\<rparr>) = Inl e"
  shows "with_idempotency fp now o1 o2 s k p ex d = (Inl e, o1 d)"
proof -
  have "flush_reservation (reservation now s k (fp p)) (o1 d) =
      Inr ((o1 d)\<lparr>db_idem := db_idem (o1 d) @ [reservation now s k (fp p)]\<rparr>)"
    using assms(2) by (simp add: flush_reservation_Inr reservation_def)
  then show ?thesis using assms(1,3) by (simp add: with_idempotency_def Let_def)
qed

end
