(* ===== verification/SP_Access.thy ===== *)
theory SP_Access
  imports SP_Environments SP_Runs
begin

text \<open>
  The authorization of \<open>api.py\<close>: from the subject of a verified token to its role, tenant, team and
  environments, and the guards each endpoint applies; also the role ARNs of \<open>aws_clients.py\<close> and the
  discovery helpers, whose guard compares accounts. A set of environment ids is a list of them.
\<close>

definition forbidden :: "string \<Rightarrow> error" where
  "forbidden dtl = HTTPException 403 dtl"

record access_context =
  ac_actor :: string
  ac_role :: string
  ac_tenant_id :: "string option"
  ac_team_id :: "string option"
  ac_scoped_environment_ids :: "string list"

definition has_any_identities :: "database \<Rightarrow> bool" where
  "has_any_identities d \<longleftrightarrow> db_identities d \<noteq> []"

definition active_identity :: "database \<Rightarrow> string \<Rightarrow> user_identity option" where
  "active_identity d actor = find (\<lambda>i. uid_actor i = actor \<and> uid_active i) (db_identities d)"

definition resolve_access_context :: "database \<Rightarrow> string \<Rightarrow> error + access_context" where
  "resolve_access_context d actor =
     (case active_identity d actor of
        None \<Rightarrow> Inl (forbidden ''Unknown or inactive actor.'')
      | Some i \<Rightarrow>
          if uid_role i \<notin> {''admin'', ''operator'', ''user''} then Inl (forbidden ''Actor role is invalid.'')
          else if uid_role i \<in> {''operator'', ''user''} \<and> (falsy (uid_tenant_id i) \<or> falsy (uid_team_id i))
          then Inl (forbidden ''Actor is missing tenant/team assignment.'')
          else Inr \<lparr>ac_actor = actor, ac_role = uid_role i, ac_tenant_id = uid_tenant_id i, ac_team_id = uid_team_id i,
            ac_scoped_environment_ids =
              (if falsy (uid_team_id i) then []
               else map tes_environment_id (filter (\<lambda>s. Some (tes_team_id s) = uid_team_id i) (db_scopes d)))\<rparr>)"

definition require_admin :: "access_context \<Rightarrow> error + unit" where
  "require_admin a = guard_err (ac_role a \<noteq> ''admin'') (forbidden ''Admin role is required for this operation.'')"

definition require_role :: "access_context \<Rightarrow> string list \<Rightarrow> string \<Rightarrow> error + unit" where
  "require_role a allowed_roles dtl = guard_err (ac_role a \<notin> set allowed_roles) (forbidden dtl)"

definition can_access_environment :: "access_context \<Rightarrow> environment \<Rightarrow> bool" where
  "can_access_environment a env =
     (if ac_role a = ''admin'' then True
      else if ac_role a \<notin> {''operator'', ''user''} then False
      else if ac_tenant_id a \<noteq> Some (env_tenant_id env) then False
      else env_id env \<in> set (ac_scoped_environment_ids a))"

definition require_environment_access :: "access_context \<Rightarrow> environment \<Rightarrow> error + unit" where
  "require_environment_access a env =
     guard_err (\<not> can_access_environment a env) (forbidden ''Actor is not authorized for this environment.'')"

definition can_access_run :: "access_context \<Rightarrow> run \<Rightarrow> environment \<Rightarrow> bool" where
  "can_access_run a r env =
     (if \<not> can_access_environment a env then False
      else if ac_role a = ''user'' \<and> run_created_by_actor r \<noteq> Some (ac_actor a) then False
      else True)"

definition require_run_access :: "access_context \<Rightarrow> run \<Rightarrow> environment \<Rightarrow> error + unit" where
  "require_run_access a r env =
     guard_err (\<not> can_access_run a r env) (forbidden ''Actor is not authorized for this run.'')"

definition require_idempotency_key :: "string option \<Rightarrow> error + string" where
  "require_idempotency_key k =
     (if falsy k then Inl (HTTPException 400 ''Idempotency-Key header is required.'') else Inr (the k))"

text \<open>A non-administrator lists only its own tenant.\<close>

definition own_tenant :: "access_context \<Rightarrow> string option \<Rightarrow> error + string option" where
  "own_tenant a tenant_id =
     (if ac_role a = ''admin'' then Inr tenant_id
      else if \<not> falsy tenant_id \<and> tenant_id \<noteq> ac_tenant_id a
      then Inl (forbidden ''Actor cannot access a different tenant.'')
      else Inr (ac_tenant_id a))"

definition environment_filter :: "access_context \<Rightarrow> string list option" where
  "environment_filter a = (if ac_role a = ''admin'' then None else Some (ac_scoped_environment_ids a))"

subsection \<open>Bootstrap of the first administrator\<close>

record bootstrap_settings =
  bs_flow_enabled :: bool
  bs_secret :: string

definition require_bootstrap_flow_enabled :: "bootstrap_settings \<Rightarrow> error + unit" where
  "require_bootstrap_flow_enabled bs = guard_err (\<not> bs_flow_enabled bs)
     (HTTPException 410 (''Bootstrap secret flow is disabled. '' @ ''Use internal admin invite provisioning instead.''))"

text \<open>\<open>hmac.compare_digest\<close> on strings refuses characters that are not ASCII.\<close>

definition compare_digest :: "string \<Rightarrow> string \<Rightarrow> error + bool" where
  "compare_digest a b =
     (if list_ex (\<lambda>c. (of_char c :: nat) \<ge> 128) (a @ b)
      then Inl (TypeError ''comparing strings with non-ASCII characters is not supported'') else Inr (a = b))"

definition require_bootstrap_secret :: "bootstrap_settings \<Rightarrow> string option \<Rightarrow> error + unit" where
  "require_bootstrap_secret bs bootstrap_secret =
     (let expected = py_strip (bs_secret bs);
          provided = py_strip (case bootstrap_secret of None \<Rightarrow> [] | Some s \<Rightarrow> s);
          refused = HTTPException 401 ''Missing or invalid bootstrap secret.''
      in if provided = [] then Inl refused
         else rbind (compare_digest provided expected) (\<lambda>same. guard_err (\<not> same) refused))"

definition create_bootstrap_admin_identity ::
    "bootstrap_settings \<Rightarrow> time \<Rightarrow> string \<Rightarrow> string \<Rightarrow> string option \<Rightarrow> string option \<Rightarrow> identity_create option \<Rightarrow> database
     \<Rightarrow> error + user_identity \<times> database" where
  "create_bootstrap_admin_identity bs now new_id actor source_ip bootstrap_secret req d =
     rbind (require_bootstrap_secret bs bootstrap_secret) (\<lambda>_.
     let r = (case req of Some r \<Rightarrow> r
       | None \<Rightarrow> \<lparr>ic_actor = actor, ic_role = ''admin'', ic_tenant_id = None, ic_team_id = None, ic_active = True\<rparr>) in
     if ic_actor r \<noteq> actor then Inl (forbidden ''Bootstrap identity actor must match authenticated subject.'')
     else if ic_role r \<noteq> ''admin'' \<or> \<not> ic_active r then Inl (forbidden ''First identity must be an active admin.'')
     else if ic_tenant_id r \<noteq> None \<or> ic_team_id r \<noteq> None
     then Inl (forbidden ''First admin identity cannot include tenant/team assignments.'')
     else create_or_update_user_identity now new_id r actor source_ip d)"

subsection \<open>Role ARNs\<close>

text \<open>
  \<open>^arn:aws[a-zA-Z-]*:iam::(\d{12}):role/(.+)$\<close>: the account and the role path. A dot does not match a
  newline, and \<open>$\<close> also matches before a final one.
\<close>

definition is_alpha :: "char \<Rightarrow> bool" where
  "is_alpha c = (let n = (of_char c :: nat) in (65 \<le> n \<and> n \<le> 90) \<or> (97 \<le> n \<and> n \<le> 122))"

definition dot_plus_end :: "string \<Rightarrow> string option" where
  "dot_plus_end s =
     (let nl = CHR 0x0A; body = (if s \<noteq> [] \<and> last s = nl then butlast s else s)
      in if body \<noteq> [] \<and> nl \<notin> set body then Some body else None)"

definition match_role_arn :: "string \<Rightarrow> (string \<times> string) option" where
  "match_role_arn s =
     (if \<not> prefix ''arn:aws'' s then None
      else let rest = dropWhile (\<lambda>c. is_alpha c \<or> c = CHR ''-'') (drop 7 s) in
        if \<not> prefix '':iam::'' rest then None
        else let acct = take 12 (drop 6 rest); tail = drop 18 rest in
          if length acct = 12 \<and> list_all is_digit acct \<and> prefix '':role/'' tail
          then map_option (\<lambda>path. (acct, path)) (dot_plus_end (drop 6 tail)) else None)"

definition parse_role_name_from_arn :: "string option \<Rightarrow> string option" where
  "parse_role_name_from_arn role_arn =
     (if falsy role_arn then None
      else case match_role_arn (the role_arn) of
          None \<Rightarrow> None
        | Some (acct, path) \<Rightarrow>
            (let role_name = py_strip (last (split_at (CHR ''/'') path)) in if role_name \<noteq> [] then Some role_name else None))"

definition parse_role_account_id_from_arn :: "string option \<Rightarrow> string option" where
  "parse_role_account_id_from_arn role_arn =
     (if falsy role_arn then None
      else let arn = py_strip (the role_arn) in
        if parse_role_name_from_arn (Some arn) = None then None
        else map_option fst (match_role_arn arn))"

subsection \<open>Discovery\<close>

definition tenant_accounts :: "database \<Rightarrow> string option \<Rightarrow> string list" where
  "tenant_accounts d tenant_id =
     List.map_filter (\<lambda>e. if env_customer_role_arn e = [] then None
         else parse_role_account_id_from_arn (Some (env_customer_role_arn e)))
       (filter (\<lambda>e. Some (env_tenant_id e) = tenant_id \<and> env_status e \<noteq> EDeleted) (db_envs d))"

definition authorize_discovery :: "database \<Rightarrow> access_context \<Rightarrow> string \<Rightarrow> error + unit" where
  "authorize_discovery d a customer_role_arn =
     (if ac_role a = ''admin'' then Inr ()
      else if ac_role a \<noteq> ''operator''
      then Inl (forbidden ''Admin or operator role is required for BYOC-Lite discovery.'')
      else case parse_role_account_id_from_arn (Some customer_role_arn) of
          None \<Rightarrow> Inl (HTTPException 422 ''customer_role_arn must be a valid IAM role ARN.'')
        | Some requested \<Rightarrow>
            if \<not> list_ex (\<lambda>e. Some (env_tenant_id e) = ac_tenant_id a \<and> env_status e \<noteq> EDeleted) (db_envs d) then Inr ()
            else let accounts = tenant_accounts d (ac_tenant_id a) in
              if requested \<in> set accounts then Inr ()
              else Inl (forbidden (''Operator discovery is restricted to AWS accounts already associated with your tenant ('' @
                (if accounts = [] then ''none'' else join '', '' (sort (remdups accounts))) @ ''). Requested account '' @
                requested @ '' is not in the allowed set. Contact your SparkPilot admin to add a new account.'')))"

record discovery_item =
  dc_name :: string
  dc_arn :: string
  dc_status :: string
  dc_version :: "string option"
  dc_oidc_issuer :: "string option"
  dc_has_oidc :: bool

definition upper_char :: "char \<Rightarrow> char" where
  "upper_char c = (let n = (of_char c :: nat) in if 97 \<le> n \<and> n \<le> 122 then char_of (n - 32) else c)"

definition py_upper :: "string \<Rightarrow> string" where
  "py_upper s = map upper_char s"

definition recommended_cluster :: "discovery_item list \<Rightarrow> discovery_item option" where
  "recommended_cluster clusters =
     (let is_active = (\<lambda>c. py_upper (dc_status c) = ''ACTIVE'') in
      case clusters of
        [] \<Rightarrow> None
      | first # _ \<Rightarrow>
          (case filter (\<lambda>c. is_active c \<and> dc_has_oidc c) clusters of
             c # _ \<Rightarrow> Some c
           | [] \<Rightarrow> (case filter is_active clusters of c # _ \<Rightarrow> Some c | [] \<Rightarrow> Some first)))"

text \<open>\<open>[^a-z0-9-]+\<close> and \<open>-{2,}\<close> are replaced by one dash; the flag says that the character before was replaced.\<close>

definition name_char :: "char \<Rightarrow> bool" where
  "name_char c \<longleftrightarrow> (let n = (of_char c :: nat) in 97 \<le> n \<and> n \<le> 122) \<or> is_digit c \<or> c = CHR ''-''"

fun squash :: "(char \<Rightarrow> bool) \<Rightarrow> bool \<Rightarrow> string \<Rightarrow> string" where
  "squash bad run [] = []"
| "squash bad run (c # cs) =
     (if bad c then (if run then squash bad True cs else CHR ''-'' # squash bad True cs)
      else c # squash bad False cs)"

definition strip_char :: "char \<Rightarrow> string \<Rightarrow> string" where
  "strip_char c s = py_rstrip_char c (dropWhile (\<lambda>x. x = c) s)"

definition namespace_fragment :: "string \<Rightarrow> string" where
  "namespace_fragment raw =
     (let v = squash (\<lambda>c. \<not> name_char c) False (py_lower (py_strip raw));
          w = strip_char (CHR ''-'') (squash (\<lambda>c. c = CHR ''-'') False v)
      in if w = [] then ''sparkpilot'' else w)"

definition suggest_namespace :: "string option \<Rightarrow> string \<Rightarrow> string option \<Rightarrow> string" where
  "suggest_namespace tenant_id actor cluster_name =
     (let tenant_part = take 20 (namespace_fragment (map (\<lambda>c. if c = CHR ''_'' then CHR ''-'' else c)
            (if falsy tenant_id then actor else the tenant_id)));
          cluster_part = take 20 (namespace_fragment (if falsy cluster_name then ''cluster'' else the cluster_name));
          ns = strip_char (CHR ''-'') (''sparkpilot-'' @ tenant_part @ ''-'' @ cluster_part);
          ns' = (if length ns > 63 then strip_char (CHR ''-'') (take 63 ns) else ns)
      in if ns' = [] then ''sparkpilot'' else ns')"

end
