(* ===== verification/SP_Wire.thy ===== *)
theory SP_Wire
  imports SP_Access SP_Preflight SP_Diagnostics SP_GoldenPaths SP_Idempotency
begin

text \<open>
  What goes over the wire in \<open>api.py\<close>: the JSON of requests (\<open>model_dump\<close>) and rows (\<open>model_to_dict\<close>) that
  the idempotency table stores, the preflight snapshot of a run, and the response of a run with its history
  link. A stored answer holds instants as \<open>str()\<close> writes them (\<open>json.dumps(default=str)\<close>).
\<close>

definition py_datetime_str :: "time \<Rightarrow> string" where
  "py_datetime_str t =
     (case ymd_of t of (y, m, dd) \<Rightarrow>
       let us = t mod us_per_day; pad = (\<lambda>n i. zero_pad n (show_int i)) in
       pad 4 y @ ''-'' @ pad 2 m @ ''-'' @ pad 2 dd @ '' '' @ pad 2 (us div 3600000000) @ '':'' @
       pad 2 (us div 60000000 mod 60) @ '':'' @ pad 2 (us div 1000000 mod 60) @
       (if us mod 1000000 = 0 then [] else ''.'' @ pad 6 (us mod 1000000)) @ ''+00:00'')"

definition jtime :: "time \<Rightarrow> json" where
  "jtime t = JStr (py_datetime_str t)"

definition jtime_opt :: "time option \<Rightarrow> json" where
  "jtime_opt t = (case t of None \<Rightarrow> JNull | Some x \<Rightarrow> jtime x)"

definition jopt :: "json option \<Rightarrow> json" where
  "jopt x = (case x of None \<Rightarrow> JNull | Some j \<Rightarrow> j)"

definition jstrs :: "string list \<Rightarrow> json" where
  "jstrs xs = JArr (map JStr xs)"

definition jconf :: "conf \<Rightarrow> json" where
  "jconf c = JObj (map (\<lambda>(k, v). (k, JStr v)) c)"

definition jints :: "int dict \<Rightarrow> json" where
  "jints c = JObj (map (\<lambda>(k, v). (k, JInt v)) c)"

subsection \<open>Requests\<close>

definition tenant_request_dump :: "tenant_create \<Rightarrow> json" where
  "tenant_request_dump r = JObj [(''name'', JStr (tc_name r)), (''federation_type'', JStr (tc_federation_type r)),
     (''idp_metadata'', jopt (tc_idp_metadata r))]"

definition environment_request_dump :: "environment_create \<Rightarrow> json" where
  "environment_request_dump r = JObj
     [(''tenant_id'', JStr (ec_tenant_id r)), (''engine'', JStr (ec_engine r)),
      (''provisioning_mode'', JStr (ec_provisioning_mode r)), (''region'', JStr (ec_region r)),
      (''instance_architecture'', JStr (ec_instance_architecture r)),
      (''customer_role_arn'', JStr (ec_customer_role_arn r)),
      (''assume_role_external_id'', jstr_opt (ec_assume_role_external_id r)),
      (''eks_cluster_arn'', jstr_opt (ec_eks_cluster_arn r)), (''eks_namespace'', jstr_opt (ec_eks_namespace r)),
      (''warm_pool_enabled'', JBool (ec_warm_pool_enabled r)),
      (''lake_formation_enabled'', JBool (ec_lake_formation_enabled r)),
      (''lf_catalog_id'', jstr_opt (ec_lf_catalog_id r)), (''lf_data_access_scope'', jopt (ec_lf_data_access_scope r)),
      (''security_configuration_id'', jstr_opt (ec_security_configuration_id r)),
      (''quotas'', jints [(''max_concurrent_runs'', ec_max_concurrent_runs r), (''max_vcpu'', ec_max_vcpu r),
         (''max_run_seconds'', ec_max_run_seconds r)])]"

definition job_request_dump :: "job_create \<Rightarrow> json" where
  "job_request_dump r = JObj
     [(''environment_id'', JStr (jc_environment_id r)), (''name'', JStr (jc_name r)),
      (''artifact_uri'', JStr (jc_artifact_uri r)), (''artifact_digest'', JStr (jc_artifact_digest r)),
      (''entrypoint'', JStr (jc_entrypoint r)), (''args'', jstrs (jc_args r)), (''spark_conf'', jconf (jc_spark_conf r)),
      (''retry_max_attempts'', JInt (jc_retry_max_attempts r)), (''timeout_seconds'', JInt (jc_timeout_seconds r))]"

definition run_request_dump :: "run_create \<Rightarrow> json" where
  "run_request_dump r = JObj
     [(''args'', case rq_args r of None \<Rightarrow> JNull | Some a \<Rightarrow> jstrs a),
      (''spark_conf'', case rq_spark_conf r of None \<Rightarrow> JNull | Some c \<Rightarrow> jconf c),
      (''golden_path'', jstr_opt (rq_golden_path r)), (''requested_resources'', jints (resources_dump (rq_requested_resources r))),
      (''timeout_seconds'', case rq_timeout_seconds r of None \<Rightarrow> JNull | Some t \<Rightarrow> JInt t)]"

subsection \<open>Rows\<close>

definition tenant_dict :: "tenant \<Rightarrow> json dict" where
  "tenant_dict t =
     [(''id'', JStr (ten_id t)), (''name'', JStr (ten_name t)), (''federation_type'', JStr (ten_federation_type t)),
      (''idp_metadata_json'', jopt (ten_idp_metadata t)), (''created_at'', jtime (ten_created_at t)),
      (''updated_at'', jtime (ten_updated_at t))]"

definition operation_dict :: "prov_op \<Rightarrow> json dict" where
  "operation_dict r =
     [(''id'', JStr (op_id r)), (''environment_id'', JStr (op_environment_id r)), (''state'', JStr (prov_state_str (op_state r))),
      (''step'', JStr (prov_state_str (op_step r))), (''message'', jstr_opt (op_message r)), (''logs_uri'', jstr_opt (op_logs_uri r)),
      (''started_at'', jtime (op_started_at r)), (''ended_at'', jtime_opt (op_ended_at r)),
      (''idempotency_key'', JStr (op_idempotency_key r)), (''worker_claim_token'', jstr_opt (op_claim_token r)),
      (''worker_claimed_at'', jtime_opt (op_claimed_at r)), (''created_at'', jtime (op_created_at r)),
      (''updated_at'', jtime (op_updated_at r))]"

definition job_dict :: "job \<Rightarrow> json dict" where
  "job_dict r =
     [(''id'', JStr (job_id r)), (''environment_id'', JStr (job_environment_id r)), (''name'', JStr (job_name r)),
      (''artifact_uri'', JStr (job_artifact_uri r)), (''artifact_digest'', JStr (job_artifact_digest r)),
      (''entrypoint'', JStr (job_entrypoint r)), (''args_json'', jstrs (job_args r)), (''spark_conf_json'', jconf (job_spark_conf r)),
      (''retry_max_attempts'', JInt (job_retry_max_attempts r)), (''timeout_seconds'', JInt (job_timeout_seconds r)),
      (''created_at'', jtime (job_created_at r)), (''updated_at'', jtime (job_updated_at r))]"

definition run_dict :: "run \<Rightarrow> json dict" where
  "run_dict r =
     [(''id'', JStr (run_id r)), (''job_id'', JStr (run_job_id r)), (''environment_id'', JStr (run_environment_id r)),
      (''state'', JStr (run_state_str (run_state r))), (''attempt'', JInt (run_attempt r)),
      (''idempotency_key'', JStr (run_idempotency_key r)), (''requested_resources_json'', jints (run_requested_resources r)),
      (''args_overrides_json'', jstrs (run_args_overrides r)), (''spark_conf_overrides_json'', jconf (run_spark_conf_overrides r)),
      (''timeout_seconds'', JInt (run_timeout_seconds r)), (''job_template_id'', jstr_opt (run_job_template_id r)),
      (''emr_job_run_id'', jstr_opt (run_emr_job_run_id r)), (''backend_job_run_id'', jstr_opt (run_backend_job_run_id r)),
      (''cancellation_requested'', JBool (run_cancellation_requested r)), (''log_group'', jstr_opt (run_log_group r)),
      (''log_stream_prefix'', jstr_opt (run_log_stream_prefix r)), (''driver_log_uri'', jstr_opt (run_driver_log_uri r)),
      (''spark_ui_uri'', jstr_opt (run_spark_ui_uri r)), (''created_by_actor'', jstr_opt (run_created_by_actor r)),
      (''worker_claim_token'', jstr_opt (run_claim_token r)), (''worker_claimed_at'', jtime_opt (run_claimed_at r)),
      (''error_message'', jstr_opt (run_error_message r)), (''started_at'', jtime_opt (run_started_at r)),
      (''last_heartbeat_at'', jtime_opt (run_last_heartbeat_at r)), (''ended_at'', jtime_opt (run_ended_at r)),
      (''created_at'', jtime (run_created_at r)), (''updated_at'', jtime (run_updated_at r))]"

subsection \<open>Preflight snapshots\<close>

record preflight_snapshot =
  sn_ready :: bool
  sn_summary :: "string option"
  sn_generated_at :: time
  sn_checks :: "json list"

definition snapshot_actions :: "string list" where
  "snapshot_actions = [''run.preflight_passed'', ''run.preflight_failed'', ''run.preflight_diagnostic'']"

definition snapshot_of_event :: "audit_event \<Rightarrow> preflight_snapshot" where
  "snapshot_of_event ev =
     \<lparr>sn_ready = (case dget (au_details ev) ''ready'' JNull of JBool b \<Rightarrow> b | _ \<Rightarrow> au_action ev \<noteq> ''run.preflight_failed''),
      sn_summary = (case dget (au_details ev) ''summary'' JNull of JNull \<Rightarrow> None | s \<Rightarrow> Some (py_str s)),
      sn_generated_at = au_created_at ev,
      sn_checks = (case dget (au_details ev) ''checks'' JNull of
         JArr xs \<Rightarrow> filter (\<lambda>x. case x of JObj _ \<Rightarrow> True | _ \<Rightarrow> False) xs | _ \<Rightarrow> [])\<rparr>"

definition latest_run_preflight_snapshot :: "database \<Rightarrow> string \<Rightarrow> preflight_snapshot option" where
  "latest_run_preflight_snapshot d rid =
     (case sort_desc au_created_at (filter (\<lambda>a. au_entity_type a = ''run'' \<and> au_entity_id a = rid \<and>
             au_action a \<in> set snapshot_actions) (db_audit d)) of
        [] \<Rightarrow> None
      | ev # _ \<Rightarrow> Some (snapshot_of_event ev))"

definition snapshot_json :: "preflight_snapshot option \<Rightarrow> json" where
  "snapshot_json s =
     (case s of None \<Rightarrow> JNull
      | Some x \<Rightarrow> JObj [(''ready'', JBool (sn_ready x)), (''summary'', jstr_opt (sn_summary x)),
          (''generated_at'', jtime (sn_generated_at x)), (''checks'', JArr (sn_checks x))])"

subsection \<open>Runs as answers\<close>

record run_response =
  rn_run :: run
  rn_spark_history_url :: "string option"
  rn_preflight :: "preflight_snapshot option"

definition spark_history_url :: "run \<Rightarrow> environment option \<Rightarrow> string option" where
  "spark_history_url r env =
     (if \<not> falsy (run_spark_ui_uri r) then run_spark_ui_uri r
      else case env of
          None \<Rightarrow> None
        | Some e \<Rightarrow>
            if falsy (env_spark_history_server_url e) \<or> falsy (run_emr_job_run_id r) then None
            else Some (py_rstrip_char (CHR ''/'') (the (env_spark_history_server_url e)) @ ''/history/'' @
              the (run_emr_job_run_id r)))"

definition run_response_of :: "run \<Rightarrow> environment option \<Rightarrow> preflight_snapshot option \<Rightarrow> run_response" where
  "run_response_of r env preflight =
     \<lparr>rn_run = r, rn_spark_history_url = spark_history_url r env, rn_preflight = preflight\<rparr>"

subsection \<open>Results of the requests that store their answer\<close>

definition create_tenant_result ::
    "time \<Rightarrow> string \<Rightarrow> tenant_create \<Rightarrow> string \<Rightarrow> string option \<Rightarrow> database \<Rightarrow> error + exec_result \<times> database" where
  "create_tenant_result now new_id req actor source_ip d =
     rbind (create_tenant now new_id req actor source_ip d) (\<lambda>(t, d').
       Inr ((201, JObj (tenant_dict t), Some ''tenant'', Some (ten_id t)), d'))"

definition create_environment_result ::
    "env_settings \<Rightarrow> time \<Rightarrow> string \<Rightarrow> string \<Rightarrow> string \<Rightarrow> environment_create \<Rightarrow> string \<Rightarrow> string option \<Rightarrow> string
     \<Rightarrow> database \<Rightarrow> error + exec_result \<times> database" where
  "create_environment_result settings now env_uuid op_uuid log_uuid req actor source_ip ky d =
     rbind (create_environment settings now env_uuid op_uuid log_uuid req actor source_ip ky d) (\<lambda>((env, opr), d').
       Inr ((201, JObj (operation_dict opr), Some ''provisioning_operation'', Some (op_id opr)), d'))"

definition create_job_result ::
    "time \<Rightarrow> string \<Rightarrow> job_create \<Rightarrow> string \<Rightarrow> string option \<Rightarrow> database \<Rightarrow> error + exec_result \<times> database" where
  "create_job_result now new_id req actor source_ip d =
     rbind (create_job now new_id req actor source_ip d) (\<lambda>(j, d').
       Inr ((201, JObj (job_dict j), Some ''job'', Some (job_id j)), d'))"

definition create_run_result ::
    "bool \<Rightarrow> (environment \<Rightarrow> exn + json dict) \<Rightarrow> time \<Rightarrow> string \<Rightarrow> string \<Rightarrow> run_create \<Rightarrow> string \<Rightarrow> string option \<Rightarrow> string
     \<Rightarrow> database \<Rightarrow> error + exec_result \<times> database" where
  "create_run_result nulls_first lf now new_id jid req actor source_ip ky d =
     rbind (create_run nulls_first lf now new_id jid req actor source_ip ky d) (\<lambda>(r, d').
       Inr ((201, JObj (run_dict r @ [(''preflight'', snapshot_json (latest_run_preflight_snapshot d' (run_id r)))]),
             Some ''run'', Some (run_id r)), d'))"

definition cancel_run_result ::
    "time \<Rightarrow> string \<Rightarrow> string \<Rightarrow> string option \<Rightarrow> database \<Rightarrow> error + exec_result \<times> database" where
  "cancel_run_result now rid actor source_ip d =
     rbind (cancel_run now rid actor source_ip d) (\<lambda>(r, d').
       Inr ((200, JObj (run_dict r @ [(''preflight'', snapshot_json (latest_run_preflight_snapshot d' (run_id r)))]),
             Some ''run'', Some (run_id r)), d'))"

subsection \<open>Queues\<close>

text \<open>Python's \<open>round(x, 2)\<close>: the exact value to two decimals, ties to even, as the nearest float.\<close>

definition py_round2 :: "rat \<Rightarrow> rat" where
  "py_round2 x = f64 (of_int (round_half_even (x * 100)) / 100)"

record queue_utilization =
  qu_environment_id :: string
  qu_yunikorn_queue :: "string option"
  qu_active_run_count :: nat
  qu_used_vcpu :: int
  qu_guaranteed_vcpu :: "int option"
  qu_max_vcpu :: "int option"
  qu_utilization_pct :: "rat option"

definition queue_utilization_of :: "database \<Rightarrow> environment \<Rightarrow> queue_utilization" where
  "queue_utilization_of d env =
     (let runs = active_runs_of d (env_id env); used = active_vcpu d (env_id env) in
      \<lparr>qu_environment_id = env_id env, qu_yunikorn_queue = env_yunikorn_queue env, qu_active_run_count = length runs,
       qu_used_vcpu = used, qu_guaranteed_vcpu = env_yunikorn_queue_guaranteed_vcpu env,
       qu_max_vcpu = env_yunikorn_queue_max_vcpu env,
       qu_utilization_pct =
         (case env_yunikorn_queue_max_vcpu env of
            None \<Rightarrow> None
          | Some m \<Rightarrow> if m = 0 then None
              else Some (py_round2 (fmul (fdiv (float_of_int used) (float_of_int m)) 100)))\<rparr>)"

end
