(* ===== verification/SP_Api.thy ===== *)
theory SP_Api
  imports SP_Wire SP_Usage
begin

text \<open>
  The endpoints of \<open>api.py\<close>, one definition per route function, over the service functions. The application
  is a \<open>deployment\<close> (settings and clients), a call its \<open>call_context\<close>: the outcome of the token check, the
  address, the clock, fresh UUIDs, the headers, and what other transactions commit meanwhile. A reply pairs
  the answer with the committed database; a request that raises rolls back.
\<close>

type_synonym 'a reply = "(error + 'a) \<times> database"

record deployment =
  dp_fingerprint :: "json \<Rightarrow> string"
  dp_settings :: env_settings
  dp_bootstrap :: bootstrap_settings
  dp_nulls_first :: bool
  dp_lf_context :: "environment \<Rightarrow> exn + json dict"
  dp_before :: emitter
  dp_after :: emitter
  dp_fetch_lines :: "environment \<Rightarrow> run \<Rightarrow> nat \<Rightarrow> int option \<Rightarrow> error + string list"
  dp_discover :: "string \<Rightarrow> string \<Rightarrow> exn + json dict"

record call_context =
  cx_auth :: "error + string"
  cx_source_ip :: "string option"
  cx_now :: time
  cx_uuid :: "nat \<Rightarrow> string"
  cx_idempotency_key :: "string option"
  cx_bootstrap_secret :: "string option"
  cx_other1 :: "database \<Rightarrow> database"
  cx_other2 :: "database \<Rightarrow> database"

definition authenticated :: "call_context \<Rightarrow> database \<Rightarrow> (access_context \<Rightarrow> 'a reply) \<Rightarrow> 'a reply" where
  "authenticated cx d k =
     (case rbind (cx_auth cx) (resolve_access_context d) of Inl e \<Rightarrow> (Inl e, d) | Inr a \<Rightarrow> k a)"

definition checked :: "error + 'b \<Rightarrow> database \<Rightarrow> ('b \<Rightarrow> 'a reply) \<Rightarrow> 'a reply" where
  "checked m d k = (case m of Inl e \<Rightarrow> (Inl e, d) | Inr x \<Rightarrow> k x)"

definition committed :: "database \<Rightarrow> error + 'a \<times> database \<Rightarrow> 'a reply" where
  "committed d m = (case m of Inl e \<Rightarrow> (Inl e, d) | Inr (x, d') \<Rightarrow> (Inr x, d'))"

definition answer :: "database \<Rightarrow> error + 'a \<Rightarrow> 'a reply" where
  "answer d m = (m, d)"

definition idempotent ::
    "deployment \<Rightarrow> call_context \<Rightarrow> string \<Rightarrow> string \<Rightarrow> json \<Rightarrow> (database \<Rightarrow> error + exec_result \<times> database) \<Rightarrow> database
     \<Rightarrow> idem_result reply" where
  "idempotent dp cx scp ky payload execute d =
     with_idempotency (dp_fingerprint dp) (cx_now cx) (cx_other1 cx) (cx_other2 cx) scp ky payload execute d"

text \<open>An exception that no handler maps ends in status 500.\<close>

definition unhandled :: "exn \<Rightarrow> error" where
  "unhandled e = ValueError (exn_text e)"

subsection \<open>Tenants, teams, identities\<close>

definition post_tenant :: "deployment \<Rightarrow> call_context \<Rightarrow> tenant_create \<Rightarrow> database \<Rightarrow> idem_result reply" where
  "post_tenant dp cx req d =
     checked (require_idempotency_key (cx_idempotency_key cx)) d (\<lambda>ky.
     authenticated cx d (\<lambda>a.
     checked (require_admin a) d (\<lambda>_.
     idempotent dp cx ''POST:/v1/tenants'' ky (tenant_request_dump req)
       (create_tenant_result (cx_now cx) (cx_uuid cx 0) req (ac_actor a) (cx_source_ip cx)) d)))"

definition get_teams :: "call_context \<Rightarrow> string option \<Rightarrow> nat \<Rightarrow> nat \<Rightarrow> database \<Rightarrow> team list reply" where
  "get_teams cx tenant_id lmt off d =
     authenticated cx d (\<lambda>a. checked (own_tenant a tenant_id) d (\<lambda>t. answer d (Inr (list_teams d t lmt off))))"

definition post_team :: "call_context \<Rightarrow> string \<Rightarrow> string \<Rightarrow> database \<Rightarrow> team reply" where
  "post_team cx tenant_id name d =
     authenticated cx d (\<lambda>a. checked (require_admin a) d (\<lambda>_.
     committed d (create_team (cx_now cx) (cx_uuid cx 0) tenant_id name (ac_actor a) (cx_source_ip cx) d)))"

record bootstrap_status =
  bt_actor :: string
  bt_bootstrap_required :: bool
  bt_actor_has_identity :: bool
  bt_actor_is_admin :: bool

definition get_bootstrap_status :: "call_context \<Rightarrow> database \<Rightarrow> bootstrap_status reply" where
  "get_bootstrap_status cx d =
     checked (cx_auth cx) d (\<lambda>actor.
     answer d (Inr \<lparr>bt_actor = actor, bt_bootstrap_required = (\<not> has_any_identities d),
       bt_actor_has_identity = (active_identity d actor \<noteq> None),
       bt_actor_is_admin = (case active_identity d actor of None \<Rightarrow> False | Some i \<Rightarrow> uid_role i = ''admin'')\<rparr>))"

definition post_bootstrap_user_identity :: "deployment \<Rightarrow> call_context \<Rightarrow> database \<Rightarrow> user_identity reply" where
  "post_bootstrap_user_identity dp cx d =
     checked (require_bootstrap_flow_enabled (dp_bootstrap dp)) d (\<lambda>_.
     checked (cx_auth cx) d (\<lambda>actor.
     if has_any_identities d then
       (case active_identity d actor of
          Some i \<Rightarrow> if uid_role i = ''admin'' then answer d (Inr i)
            else answer d (Inl (HTTPException 409 ''Bootstrap already completed. Sign in with an invited admin identity.''))
        | None \<Rightarrow> answer d (Inl (HTTPException 409 ''Bootstrap already completed. Sign in with an invited admin identity.'')))
     else committed d (create_bootstrap_admin_identity (dp_bootstrap dp) (cx_now cx) (cx_uuid cx 0) actor
       (cx_source_ip cx) (cx_bootstrap_secret cx) None d)))"

definition get_user_identities :: "call_context \<Rightarrow> nat \<Rightarrow> nat \<Rightarrow> database \<Rightarrow> user_identity list reply" where
  "get_user_identities cx lmt off d =
     authenticated cx d (\<lambda>a. checked (require_admin a) d (\<lambda>_. answer d (Inr (list_user_identities d lmt off))))"

definition post_user_identity :: "deployment \<Rightarrow> call_context \<Rightarrow> identity_create \<Rightarrow> database \<Rightarrow> user_identity reply" where
  "post_user_identity dp cx req d =
     checked (cx_auth cx) d (\<lambda>actor.
     if has_any_identities d then
       checked (resolve_access_context d actor) d (\<lambda>a. checked (require_admin a) d (\<lambda>_.
       committed d (create_or_update_user_identity (cx_now cx) (cx_uuid cx 0) req actor (cx_source_ip cx) d)))
     else
       checked (require_bootstrap_flow_enabled (dp_bootstrap dp)) d (\<lambda>_.
       committed d (create_bootstrap_admin_identity (dp_bootstrap dp) (cx_now cx) (cx_uuid cx 0) actor
         (cx_source_ip cx) (cx_bootstrap_secret cx) (Some req) d)))"

definition post_team_environment_scope :: "call_context \<Rightarrow> string \<Rightarrow> string \<Rightarrow> database \<Rightarrow> team_env_scope reply" where
  "post_team_environment_scope cx tid eid d =
     authenticated cx d (\<lambda>a. checked (require_admin a) d (\<lambda>_.
     committed d (add_team_environment_scope (cx_now cx) (cx_uuid cx 0) tid eid (ac_actor a) (cx_source_ip cx) d)))"

definition delete_team_environment_scope :: "call_context \<Rightarrow> string \<Rightarrow> string \<Rightarrow> database \<Rightarrow> unit reply" where
  "delete_team_environment_scope cx tid eid d =
     authenticated cx d (\<lambda>a. checked (require_admin a) d (\<lambda>_.
     committed d (rbind (remove_team_environment_scope (cx_now cx) tid eid (ac_actor a) (cx_source_ip cx) d)
       (\<lambda>d'. Inr ((), d')))))"

definition get_team_environment_scope :: "call_context \<Rightarrow> string \<Rightarrow> nat \<Rightarrow> nat \<Rightarrow> database \<Rightarrow> team_env_scope list reply" where
  "get_team_environment_scope cx tid lmt off d =
     authenticated cx d (\<lambda>a. checked (require_admin a) d (\<lambda>_. answer d (list_team_environment_scopes d tid lmt off)))"

subsection \<open>Environments\<close>

definition get_environments :: "call_context \<Rightarrow> string option \<Rightarrow> nat \<Rightarrow> nat \<Rightarrow> database \<Rightarrow> environment list reply" where
  "get_environments cx tenant_id lmt off d =
     authenticated cx d (\<lambda>a. checked (own_tenant a tenant_id) d (\<lambda>t.
     answer d (Inr (filter (can_access_environment a) (list_environments d t lmt off)))))"

definition discovery_failure :: "exn \<Rightarrow> error" where
  "discovery_failure e =
     (if exn_class e = ''ParamValidationError''
      then HTTPException 422 (''Invalid BYOC-Lite discovery parameters. '' @ exn_text e)
      else if is_value_error e then HTTPException 422 (exn_text e)
      else if exn_class e = ''ClientError''
      then HTTPException 502 (''AWS service error during BYOC-Lite discovery ('' @
        (if falsy (exn_code e) then ''ClientError'' else the (exn_code e)) @ ''). Retry and verify IAM permissions.'')
      else if exn_aws e
      then HTTPException 502 (''Unable to complete BYOC-Lite discovery due to an AWS SDK/transport error. '' @
        ''Retry and verify region + IAM permissions if this persists.'')
      else unhandled e)"

definition none_if_empty :: "string \<Rightarrow> string option" where
  "none_if_empty s = (if s = [] then None else Some s)"

definition stripped_field :: "json dict \<Rightarrow> string \<Rightarrow> string option" where
  "stripped_field item k =
     (let v = dget item k JNull in none_if_empty (py_strip (if truthy v then py_str v else [])))"

definition discovery_item_of :: "json dict \<Rightarrow> discovery_item" where
  "discovery_item_of item =
     (let str_or = (\<lambda>k dflt. let v = dget item k JNull in if truthy v then py_str v else dflt) in
      \<lparr>dc_name = str_or ''name'' [], dc_arn = str_or ''arn'' [], dc_status = str_or ''status'' ''UNKNOWN'',
       dc_version = stripped_field item ''version'', dc_oidc_issuer = stripped_field item ''oidc_issuer'',
       dc_has_oidc = truthy (dget item ''has_oidc'' JNull)\<rparr>)"

record discovery =
  di_customer_role_arn :: string
  di_region :: string
  di_account_id :: "string option"
  di_recommended_cluster_arn :: "string option"
  di_namespace_suggestion :: "string option"
  di_clusters :: "discovery_item list"

definition discovery_of :: "access_context \<Rightarrow> string \<Rightarrow> string \<Rightarrow> string option \<Rightarrow> json dict \<Rightarrow> discovery" where
  "discovery_of a arn reg tenant_id discovered =
     (let items = (case dget discovered ''clusters'' (JArr []) of JArr xs \<Rightarrow> xs | _ \<Rightarrow> []);
          clusters = filter (\<lambda>c. dc_name c \<noteq> [] \<and> dc_arn c \<noteq> [])
            (map (\<lambda>j. discovery_item_of (case j of JObj kvs \<Rightarrow> kvs | _ \<Rightarrow> [])) items);
          recommended = recommended_cluster clusters;
          target = none_if_empty (py_strip (if \<not> falsy tenant_id then the tenant_id
            else case ac_tenant_id a of None \<Rightarrow> [] | Some t \<Rightarrow> t))
      in \<lparr>di_customer_role_arn = arn, di_region = reg, di_account_id = stripped_field discovered ''account_id'',
          di_recommended_cluster_arn = map_option dc_arn recommended,
          di_namespace_suggestion = map_option (\<lambda>t. suggest_namespace (Some t) t (map_option dc_name recommended)) target,
          di_clusters = clusters\<rparr>)"

definition get_byoc_lite_discovery ::
    "deployment \<Rightarrow> call_context \<Rightarrow> string \<Rightarrow> string \<Rightarrow> string option \<Rightarrow> database \<Rightarrow> discovery reply" where
  "get_byoc_lite_discovery dp cx customer_role_arn reg tenant_id d =
     authenticated cx d (\<lambda>a.
     let arn = py_strip customer_role_arn;
         reg' = (if py_strip reg = [] then ''us-east-1'' else py_strip reg) in
     checked (authorize_discovery d a arn) d (\<lambda>_.
     if arn = [] then answer d (Inl (HTTPException 422 ''customer_role_arn is required.''))
     else case dp_discover dp arn reg' of
         Inl e \<Rightarrow> answer d (Inl (discovery_failure e))
       | Inr discovered \<Rightarrow> answer d (Inr (discovery_of a arn reg' tenant_id discovered))))"

definition post_environment :: "deployment \<Rightarrow> call_context \<Rightarrow> environment_create \<Rightarrow> database \<Rightarrow> idem_result reply" where
  "post_environment dp cx req d =
     checked (require_idempotency_key (cx_idempotency_key cx)) d (\<lambda>ky.
     authenticated cx d (\<lambda>a.
     checked (require_admin a) d (\<lambda>_.
     idempotent dp cx ''POST:/v1/environments'' ky (environment_request_dump req)
       (create_environment_result (dp_settings dp) (cx_now cx) (cx_uuid cx 0) (cx_uuid cx 1) (cx_uuid cx 2) req
         (ac_actor a) (cx_source_ip cx) ky) d)))"

text \<open>Lookup of an environment with the check that the actor may see it.\<close>

definition accessible_environment :: "access_context \<Rightarrow> string \<Rightarrow> database \<Rightarrow> error + environment" where
  "accessible_environment a eid d =
     rbind (require_environment d eid) (\<lambda>env. rbind (require_environment_access a env) (\<lambda>_. Inr env))"

definition get_environment_by_id :: "call_context \<Rightarrow> string \<Rightarrow> database \<Rightarrow> environment reply" where
  "get_environment_by_id cx eid d = authenticated cx d (\<lambda>a. answer d (accessible_environment a eid d))"

definition post_environment_retry :: "deployment \<Rightarrow> call_context \<Rightarrow> string \<Rightarrow> database \<Rightarrow> prov_op reply" where
  "post_environment_retry dp cx eid d =
     checked (require_idempotency_key (cx_idempotency_key cx)) d (\<lambda>ky.
     authenticated cx d (\<lambda>a.
     checked (require_role a [''admin'', ''operator''] ''Only admin/operator can retry provisioning.'') d (\<lambda>_.
     checked (accessible_environment a eid d) d (\<lambda>_.
     committed d (retry_environment_provisioning (dp_settings dp) (cx_now cx) (cx_uuid cx 0) (cx_uuid cx 1) eid
       (ac_actor a) (cx_source_ip cx) ky d)))))"

definition delete_environment_by_id :: "call_context \<Rightarrow> string \<Rightarrow> database \<Rightarrow> environment reply" where
  "delete_environment_by_id cx eid d =
     authenticated cx d (\<lambda>a.
     checked (require_role a [''admin'', ''operator''] ''Only admin/operator can delete environments.'') d (\<lambda>_.
     checked (accessible_environment a eid d) d (\<lambda>env.
     committed d (rbind (delete_environment (cx_now cx) eid (ac_actor a) (cx_source_ip cx) d) (\<lambda>d'.
       Inr (case get_environment d' eid of Some e \<Rightarrow> e | None \<Rightarrow> env, d'))))))"

definition get_environment_preflight ::
    "deployment \<Rightarrow> time \<Rightarrow> string \<Rightarrow> string option \<Rightarrow> database \<Rightarrow> error + preflight \<times> database" where
  "get_environment_preflight dp now eid rid d =
     rbind (require_environment d eid) (\<lambda>env.
     rbind (if falsy rid then Inr None
            else rbind (require_run d (the rid)) (\<lambda>r.
              if run_environment_id r \<noteq> eid then Inl (EntityNotFoundError ''Run not found for this environment.'')
              else rbind (require_job d (run_job_id r)) (\<lambda>j.
                Inr (Some (dmerge (job_spark_conf j) (run_spark_conf_overrides r)))))) (\<lambda>spark_conf.
     case build_preflight (dp_before dp) (dp_after dp) now env rid spark_conf d of
       (Inl e, _) \<Rightarrow> Inl (unhandled e)
     | (Inr p, d') \<Rightarrow> Inr (p, d')))"

definition get_environment_preflight_by_id ::
    "deployment \<Rightarrow> call_context \<Rightarrow> string \<Rightarrow> string option \<Rightarrow> database \<Rightarrow> preflight reply" where
  "get_environment_preflight_by_id dp cx eid rid d =
     authenticated cx d (\<lambda>a.
     checked (accessible_environment a eid d) d (\<lambda>env.
     checked (if falsy rid then Inr () else rbind (require_run d (the rid)) (\<lambda>r. require_run_access a r env)) d (\<lambda>_.
     committed d (get_environment_preflight dp (cx_now cx) eid rid d))))"

definition get_provisioning_operation_by_id :: "call_context \<Rightarrow> string \<Rightarrow> database \<Rightarrow> prov_op reply" where
  "get_provisioning_operation_by_id cx oid d =
     authenticated cx d (\<lambda>a.
     answer d (rbind (get_provisioning_operation d oid) (\<lambda>opr.
       rbind (accessible_environment a (op_environment_id opr) d) (\<lambda>_. Inr opr))))"

definition get_queue_utilization :: "call_context \<Rightarrow> string \<Rightarrow> database \<Rightarrow> queue_utilization reply" where
  "get_queue_utilization cx eid d =
     authenticated cx d (\<lambda>a. answer d (rbind (accessible_environment a eid d) (\<lambda>env. Inr (queue_utilization_of d env))))"

subsection \<open>Jobs and golden paths\<close>

definition post_job :: "deployment \<Rightarrow> call_context \<Rightarrow> job_create \<Rightarrow> database \<Rightarrow> idem_result reply" where
  "post_job dp cx req d =
     checked (require_idempotency_key (cx_idempotency_key cx)) d (\<lambda>ky.
     authenticated cx d (\<lambda>a.
     checked (require_role a [''admin'', ''operator''] ''Only admin/operator can create jobs.'') d (\<lambda>_.
     checked (accessible_environment a (jc_environment_id req) d) d (\<lambda>_.
     idempotent dp cx ''POST:/v1/jobs'' ky (job_request_dump req)
       (create_job_result (cx_now cx) (cx_uuid cx 0) req (ac_actor a) (cx_source_ip cx)) d))))"

text \<open>The environment filter of a list request, which an actor may set only to one it can access.\<close>

definition checked_filter :: "access_context \<Rightarrow> string option \<Rightarrow> database \<Rightarrow> error + unit" where
  "checked_filter a eid d =
     (if falsy eid then Inr () else rbind (accessible_environment a (the eid) d) (\<lambda>_. Inr ()))"

definition get_jobs :: "call_context \<Rightarrow> string option \<Rightarrow> nat \<Rightarrow> nat \<Rightarrow> database \<Rightarrow> job list reply" where
  "get_jobs cx eid lmt off d =
     authenticated cx d (\<lambda>a.
     checked (require_role a [''admin'', ''operator'', ''user''] ''Only admin/operator/user can list jobs.'') d (\<lambda>_.
     checked (checked_filter a eid d) d (\<lambda>_. answer d (Inr (list_jobs d eid lmt off (environment_filter a))))))"

definition get_golden_paths ::
    "deployment \<Rightarrow> call_context \<Rightarrow> string option \<Rightarrow> nat \<Rightarrow> nat \<Rightarrow> database \<Rightarrow> golden_path_response list reply" where
  "get_golden_paths dp cx eid lmt off d =
     authenticated cx d (\<lambda>a.
     checked (checked_filter a eid d) d (\<lambda>_.
     answer d (Inr (map golden_path_to_response_payload
       (list_golden_paths (dp_nulls_first dp) eid lmt off (environment_filter a) d)))))"

definition post_golden_path :: "call_context \<Rightarrow> golden_path_create \<Rightarrow> database \<Rightarrow> golden_path_response reply" where
  "post_golden_path cx req d =
     authenticated cx d (\<lambda>a.
     checked (require_admin a) d (\<lambda>_.
     checked (checked_filter a (gc_environment_id req) d) d (\<lambda>_.
     committed d (rbind (create_golden_path (cx_now cx) (cx_uuid cx 0) req d) (\<lambda>(g, d').
       Inr (golden_path_to_response_payload g, d'))))))"

definition get_golden_path_by_id :: "call_context \<Rightarrow> string \<Rightarrow> database \<Rightarrow> golden_path_response reply" where
  "get_golden_path_by_id cx gid d =
     authenticated cx d (\<lambda>a.
     answer d (rbind (get_golden_path_or_404 d gid) (\<lambda>g.
       rbind (checked_filter a (gp_environment_id g) d) (\<lambda>_. Inr (golden_path_to_response_payload g)))))"

subsection \<open>Runs\<close>

definition get_runs ::
    "call_context \<Rightarrow> string option \<Rightarrow> run_state option \<Rightarrow> nat \<Rightarrow> nat \<Rightarrow> database \<Rightarrow> run_response list reply" where
  "get_runs cx tenant_id st lmt off d =
     authenticated cx d (\<lambda>a.
     checked (own_tenant a tenant_id) d (\<lambda>t.
     answer d (Inr (map (\<lambda>r. run_response_of r None None)
       (list_runs d t st lmt off (if ac_role a = ''user'' then Some (ac_actor a) else None) (environment_filter a))))))"

definition post_run :: "deployment \<Rightarrow> call_context \<Rightarrow> string \<Rightarrow> run_create \<Rightarrow> database \<Rightarrow> idem_result reply" where
  "post_run dp cx jid req d =
     checked (require_idempotency_key (cx_idempotency_key cx)) d (\<lambda>ky.
     authenticated cx d (\<lambda>a.
     checked (require_role a [''admin'', ''operator'', ''user''] ''Only admin/operator/user can submit runs.'') d (\<lambda>_.
     checked (case get_job d jid of None \<Rightarrow> Inl (HTTPException 404 ''Job not found.'') | Some j \<Rightarrow> Inr j) d (\<lambda>j.
     checked (accessible_environment a (job_environment_id j) d) d (\<lambda>_.
     idempotent dp cx (''POST:/v1/jobs/'' @ jid @ ''/runs'') ky (run_request_dump req)
       (create_run_result (dp_nulls_first dp) (dp_lf_context dp) (cx_now cx) (cx_uuid cx 0) jid req (ac_actor a)
         (cx_source_ip cx) ky) d)))))"

definition accessible_run :: "access_context \<Rightarrow> string \<Rightarrow> database \<Rightarrow> error + run \<times> environment" where
  "accessible_run a rid d =
     rbind (require_run d rid) (\<lambda>r.
     rbind (require_environment d (run_environment_id r)) (\<lambda>env.
     rbind (require_run_access a r env) (\<lambda>_. Inr (r, env))))"

definition get_run_by_id :: "call_context \<Rightarrow> string \<Rightarrow> database \<Rightarrow> run_response reply" where
  "get_run_by_id cx rid d =
     authenticated cx d (\<lambda>a.
     answer d (rbind (accessible_run a rid d) (\<lambda>(r, env).
       Inr (run_response_of r (Some env) (latest_run_preflight_snapshot d (run_id r))))))"

definition post_cancel_run :: "deployment \<Rightarrow> call_context \<Rightarrow> string \<Rightarrow> database \<Rightarrow> idem_result reply" where
  "post_cancel_run dp cx rid d =
     checked (require_idempotency_key (cx_idempotency_key cx)) d (\<lambda>ky.
     authenticated cx d (\<lambda>a.
     checked (accessible_run a rid d) d (\<lambda>_.
     idempotent dp cx (''POST:/v1/runs/'' @ rid @ ''/cancel'') ky (JObj [(''run_id'', JStr rid)])
       (cancel_run_result (cx_now cx) rid (ac_actor a) (cx_source_ip cx)) d)))"

definition get_run_logs :: "deployment \<Rightarrow> call_context \<Rightarrow> string \<Rightarrow> nat \<Rightarrow> database \<Rightarrow> (run \<times> string list) reply" where
  "get_run_logs dp cx rid lmt d =
     authenticated cx d (\<lambda>a.
     answer d (rbind (accessible_run a rid d) (\<lambda>_. fetch_run_logs (dp_fetch_lines dp) (cx_now cx) d rid lmt)))"

definition get_run_diagnostics ::
    "call_context \<Rightarrow> string \<Rightarrow> nat \<Rightarrow> nat \<Rightarrow> database \<Rightarrow> run_diagnostic list reply" where
  "get_run_diagnostics cx rid lmt off d =
     authenticated cx d (\<lambda>a.
     answer d (rbind (accessible_run a rid d) (\<lambda>_. list_run_diagnostics d rid lmt off)))"

subsection \<open>Costs\<close>

record usage_response =
  us_tenant_id :: string
  us_from :: time
  us_to :: time
  us_items :: "usage_record list"

definition get_usage_for_tenant ::
    "call_context \<Rightarrow> string \<Rightarrow> time option \<Rightarrow> time option \<Rightarrow> nat \<Rightarrow> nat \<Rightarrow> database \<Rightarrow> usage_response reply" where
  "get_usage_for_tenant cx tenant_id from_ts to_ts lmt off d =
     authenticated cx d (\<lambda>a.
     checked (require_role a [''admin'', ''operator''] ''Only admin/operator can view usage.'') d (\<lambda>_.
     if ac_role a \<noteq> ''admin'' \<and> Some tenant_id \<noteq> ac_tenant_id a
     then answer d (Inl (forbidden ''Actor cannot access usage for a different tenant.''))
     else
       let until = (case to_ts of Some t \<Rightarrow> t | None \<Rightarrow> cx_now cx);
           since = (case from_ts of Some t \<Rightarrow> t | None \<Rightarrow> until - 30 * us_per_day)
       in answer d (rbind (get_usage d tenant_id since until lmt off) (\<lambda>items.
            Inr \<lparr>us_tenant_id = tenant_id, us_from = since, us_to = until, us_items = items\<rparr>))))"

definition post_team_budget :: "call_context \<Rightarrow> string \<Rightarrow> int \<Rightarrow> int \<Rightarrow> int \<Rightarrow> database \<Rightarrow> team_budget reply" where
  "post_team_budget cx tm budget warn_pct block_pct d =
     authenticated cx d (\<lambda>a. checked (require_admin a) d (\<lambda>_.
     committed d (rbind (create_or_update_team_budget (cx_now cx) tm budget warn_pct block_pct d) (\<lambda>d'.
       rbind (get_team_budget d' tm) (\<lambda>b. Inr (b, d'))))))"

definition own_tenant_key :: "access_context \<Rightarrow> string \<Rightarrow> string \<Rightarrow> error + unit" where
  "own_tenant_key a tm dtl = guard_err (ac_role a \<noteq> ''admin'' \<and> ac_tenant_id a \<noteq> Some tm) (forbidden dtl)"

definition get_team_budget_by_team :: "call_context \<Rightarrow> string \<Rightarrow> database \<Rightarrow> team_budget reply" where
  "get_team_budget_by_team cx tm d =
     authenticated cx d (\<lambda>a.
     checked (require_role a [''admin'', ''operator''] ''Only admin/operator can view team budgets.'') d (\<lambda>_.
     checked (own_tenant_key a tm ''Operator can only view budget for assigned tenant key.'') d (\<lambda>_.
     answer d (get_team_budget d tm))))"

definition get_costs_showback :: "call_context \<Rightarrow> string \<Rightarrow> string \<Rightarrow> nat \<Rightarrow> nat \<Rightarrow> database \<Rightarrow> showback reply" where
  "get_costs_showback cx tm period lmt off d =
     authenticated cx d (\<lambda>a.
     checked (require_role a [''admin'', ''operator''] ''Only admin/operator can view showback costs.'') d (\<lambda>_.
     checked (own_tenant_key a tm ''Operator can only view showback for assigned tenant key.'') d (\<lambda>_.
     answer d (Inr (get_cost_showback d tm period lmt off)))))"

subsection \<open>Policies\<close>

record policy_create =
  pc_name :: string
  pc_scope :: string
  pc_scope_id :: "string option"
  pc_rule_type :: string
  pc_config :: "json dict"
  pc_enforcement :: string
  pc_active :: bool

definition post_policy :: "call_context \<Rightarrow> policy_create \<Rightarrow> database \<Rightarrow> policy reply" where
  "post_policy cx req d =
     authenticated cx d (\<lambda>a. checked (require_admin a) d (\<lambda>_.
     committed d (create_policy (cx_now cx) (cx_uuid cx 0) (pc_name req) (pc_scope req) (pc_scope_id req)
       (pc_rule_type req) (pc_config req) (pc_enforcement req) (pc_active req) (Some (ac_actor a)) (cx_source_ip cx) d)))"

definition get_policies ::
    "call_context \<Rightarrow> string option \<Rightarrow> string option \<Rightarrow> bool \<Rightarrow> nat \<Rightarrow> nat \<Rightarrow> database \<Rightarrow> policy list reply" where
  "get_policies cx scp scp_id active_only lmt off d =
     authenticated cx d (\<lambda>a. checked (require_admin a) d (\<lambda>_.
     answer d (Inr (list_policies scp scp_id active_only lmt off d))))"

definition get_policy_by_id :: "call_context \<Rightarrow> string \<Rightarrow> database \<Rightarrow> policy reply" where
  "get_policy_by_id cx pid d =
     authenticated cx d (\<lambda>a. checked (require_admin a) d (\<lambda>_.
     answer d (case get_policy d pid of None \<Rightarrow> Inl (HTTPException 404 ''Policy not found.'') | Some p \<Rightarrow> Inr p)))"

definition delete_policy_endpoint :: "call_context \<Rightarrow> string \<Rightarrow> database \<Rightarrow> unit reply" where
  "delete_policy_endpoint cx pid d =
     authenticated cx d (\<lambda>a. checked (require_admin a) d (\<lambda>_.
     case delete_policy (cx_now cx) pid (Some (ac_actor a)) (cx_source_ip cx) d of
       (found, d') \<Rightarrow> if found then (Inr (), d') else answer d (Inl (HTTPException 404 ''Policy not found.''))))"

end
