(* ===== verification/SP_Oidc.thy ===== *)
theory SP_Oidc
  imports SP_Json SP_StateExn Complex_Main
begin

text \<open>
  \<open>oidc.py\<close>: the verifier of access tokens with its cache of signing keys and the throttle on forced
  refreshes. PyJWT, the HTTP client and the file system are parameters (\<open>oidc_client\<close>): what they answer or
  raise, and which exceptions belong to the classes the code catches. A key is the JWK it was built from. The
  clock (\<open>time.monotonic\<close>) is read once per call; its readings are exact rationals.
\<close>

type_synonym jwk = "json dict"

record oidc_client =
  oc_read :: "string \<Rightarrow> exn + json"
  oc_is_read_error :: "exn \<Rightarrow> bool"
  oc_jwk :: "json dict \<Rightarrow> exn + jwk"
  oc_header :: "string \<Rightarrow> exn + json dict"
  oc_decode :: "string \<Rightarrow> jwk \<Rightarrow> string \<Rightarrow> string option \<Rightarrow> string \<Rightarrow> string list \<Rightarrow> exn + json"
  oc_is_jwt_error :: "exn \<Rightarrow> bool"

record verifier =
  vr_issuer :: string
  vr_audience :: string
  vr_jwks_uri :: string
  vr_cache_ttl :: int
  vr_min_refresh_interval :: rat
  vr_throttle_window :: rat
  vr_throttle_max :: int

definition oidc_token_verifier :: "string \<Rightarrow> string \<Rightarrow> string \<Rightarrow> int \<Rightarrow> rat \<Rightarrow> rat \<Rightarrow> int \<Rightarrow> verifier" where
  "oidc_token_verifier issuer audience jwks_uri cache_ttl min_interval window max_refreshes =
     \<lparr>vr_issuer = py_strip issuer, vr_audience = py_strip audience, vr_jwks_uri = py_strip jwks_uri,
      vr_cache_ttl = max 10 cache_ttl, vr_min_refresh_interval = max 1 min_interval,
      vr_throttle_window = max 10 window, vr_throttle_max = max 1 max_refreshes\<rparr>"

record jwks_state =
  js_cached :: "(string \<times> jwk) list"
  js_cached_at :: rat
  js_last_forced :: rat
  js_forced_timestamps :: "rat list"
  js_refresh_total :: int
  js_refresh_forced :: int
  js_refresh_throttled :: int

definition fresh_jwks_state :: jwks_state where
  "fresh_jwks_state = \<lparr>js_cached = [], js_cached_at = 0, js_last_forced = 0, js_forced_timestamps = [],
     js_refresh_total = 0, js_refresh_forced = 0, js_refresh_throttled = 0\<rparr>"

record oidc_identity =
  oi_subject :: string
  oi_claims :: "json dict"

definition oidc_error :: "string \<Rightarrow> exn" where
  "oidc_error msg = \<lparr>exn_class = ''OIDCValidationError'', exn_text = msg, exn_code = None, exn_aws = False\<rparr>"

definition key_rotation_error :: "string \<Rightarrow> exn" where
  "key_rotation_error msg = \<lparr>exn_class = ''OIDCKeyRotationError'', exn_text = msg, exn_code = None, exn_aws = False\<rparr>"

definition supported_algorithms :: "string list" where
  "supported_algorithms = [''RS256'', ''RS384'', ''RS512'', ''ES256'', ''ES384'', ''ES512'']"

subsection \<open>The key set\<close>

definition read_uri_json :: "oidc_client \<Rightarrow> string \<Rightarrow> exn + json dict" where
  "read_uri_json cl uri =
     rbind (oc_read cl uri) (\<lambda>payload. case payload of JObj kvs \<Rightarrow> Inr kvs
       | _ \<Rightarrow> Inl (oidc_error ''OIDC metadata response must be a JSON object.''))"

definition jwks_stale :: "verifier \<Rightarrow> rat \<Rightarrow> jwks_state \<Rightarrow> bool" where
  "jwks_stale v now s \<longleftrightarrow> js_cached s = [] \<or> now - js_cached_at s \<ge> of_int (vr_cache_ttl v)"

definition is_forced_refresh_allowed :: "verifier \<Rightarrow> rat \<Rightarrow> jwks_state \<Rightarrow> bool \<times> jwks_state" where
  "is_forced_refresh_allowed v now s =
     (if now - js_last_forced s < vr_min_refresh_interval v then (False, s)
      else let kept = filter (\<lambda>ts. ts > now - vr_throttle_window v) (js_forced_timestamps s)
        in (int (length kept) < vr_throttle_max v, s\<lparr>js_forced_timestamps := kept\<rparr>))"

definition record_forced_refresh :: "rat \<Rightarrow> jwks_state \<Rightarrow> jwks_state" where
  "record_forced_refresh now s = s\<lparr>js_last_forced := now, js_forced_timestamps := js_forced_timestamps s @ [now],
     js_refresh_forced := js_refresh_forced s + 1\<rparr>"

text \<open>Keys without an id get a made-up one; items that are no objects are skipped.\<close>

fun parse_keys :: "oidc_client \<Rightarrow> json list \<Rightarrow> nat \<Rightarrow> (string \<times> jwk) list \<Rightarrow> exn + (string \<times> jwk) list" where
  "parse_keys cl [] i parsed = Inr parsed"
| "parse_keys cl (JObj item # keys) i parsed =
     (let raw = dget item ''kid'' JNull; kid = (if truthy raw then py_str raw else []);
          kid' = (if kid = [] then ''__anon_'' @ show_nat i else kid); i' = (if kid = [] then Suc i else i)
      in rbind (oc_jwk cl item) (\<lambda>key. parse_keys cl keys i' (dset kid' key parsed)))"
| "parse_keys cl (_ # keys) i parsed = parse_keys cl keys i parsed"

definition load_jwks :: "verifier \<Rightarrow> oidc_client \<Rightarrow> exn + (string \<times> jwk) list" where
  "load_jwks v cl =
     rbind (case read_uri_json cl (vr_jwks_uri v) of
         Inl e \<Rightarrow> if oc_is_read_error cl e \<or> exn_class e = ''OIDCValidationError''
           then Inl (oidc_error (''OIDC JWKS retrieval failed: '' @ exn_text e)) else Inl e
       | Inr payload \<Rightarrow> Inr payload) (\<lambda>payload.
     case dget payload ''keys'' JNull of
       JArr (k # ks) \<Rightarrow> rbind (parse_keys cl (k # ks) 0 []) (\<lambda>parsed.
         if parsed = [] then Inl (oidc_error ''OIDC_JWKS_URI did not include usable JWK keys.'') else Inr parsed)
     | _ \<Rightarrow> Inl (oidc_error ''OIDC_JWKS_URI did not return a non-empty 'keys' array.''))"

definition load_into_cache :: "verifier \<Rightarrow> oidc_client \<Rightarrow> rat \<Rightarrow> (jwks_state, bool) cmd" where
  "load_into_cache v cl now =
     sbind (scall (load_jwks v cl)) (\<lambda>parsed.
     sbind (smod (\<lambda>s. s\<lparr>js_cached := parsed, js_cached_at := now, js_refresh_total := js_refresh_total s + 1\<rparr>)) (\<lambda>_.
     sreturn True))"

definition refresh_jwks :: "verifier \<Rightarrow> oidc_client \<Rightarrow> rat \<Rightarrow> bool \<Rightarrow> (jwks_state, bool) cmd" where
  "refresh_jwks v cl now forced s =
     (if forced then
        (case is_forced_refresh_allowed v now s of
           (False, s1) \<Rightarrow> (Inr False, s1\<lparr>js_refresh_throttled := js_refresh_throttled s1 + 1\<rparr>)
         | (True, s1) \<Rightarrow> load_into_cache v cl now (record_forced_refresh now s1))
      else load_into_cache v cl now s)"

subsection \<open>Verification\<close>

definition header_field :: "json dict \<Rightarrow> string \<Rightarrow> string" where
  "header_field h k = (let v = dget h k JNull in if truthy v then py_str v else [])"

definition find_key :: "verifier \<Rightarrow> oidc_client \<Rightarrow> rat \<Rightarrow> string \<Rightarrow> (jwks_state, jwk) cmd" where
  "find_key v cl now kid =
     sbind (sget (\<lambda>s. if kid = [] then None else map_of (js_cached s) kid)) (\<lambda>hit. case hit of
       Some key \<Rightarrow> sreturn key
     | None \<Rightarrow>
         sbind (refresh_jwks v cl now True) (\<lambda>refreshed.
         sbind (sget js_cached) (\<lambda>keys.
         case (if refreshed \<and> kid \<noteq> [] then map_of keys kid else None) of
           Some key \<Rightarrow> sreturn key
         | None \<Rightarrow>
             (case keys of
                [(only, key)] \<Rightarrow> if kid = [] then sreturn key
                  else sraise (oidc_error ''JWT kid was not found in configured JWKS.'')
              | _ \<Rightarrow> sraise (oidc_error ''JWT kid was not found in configured JWKS.'')))))"

definition resolve_signing_key :: "verifier \<Rightarrow> oidc_client \<Rightarrow> rat \<Rightarrow> string \<Rightarrow> (jwks_state, string \<times> jwk) cmd" where
  "resolve_signing_key v cl now token =
     sbind (scall (case oc_header cl token of
         Inl e \<Rightarrow> if oc_is_jwt_error cl e then Inl (oidc_error (''OIDC JWT validation failed: '' @ exn_text e)) else Inl e
       | Inr h \<Rightarrow> Inr h)) (\<lambda>header.
     let algorithm = header_field header ''alg'' in
     if algorithm \<notin> set supported_algorithms
     then sraise (oidc_error (''Unsupported JWT signing algorithm '' @ [CHR 0x27] @ algorithm @ [CHR 0x27] @ ''.''))
     else
       sbind (sget (jwks_stale v now)) (\<lambda>stale.
       sbind (if stale then sbind (refresh_jwks v cl now False) (\<lambda>_. sreturn ()) else sreturn ()) (\<lambda>_.
       sbind (find_key v cl now (header_field header ''kid'')) (\<lambda>key. sreturn (algorithm, key)))))"

definition audience_values :: "json \<Rightarrow> string list" where
  "audience_values claim =
     (case claim of
        JStr t \<Rightarrow> filter (\<lambda>x. x \<noteq> []) [py_strip t]
      | JArr items \<Rightarrow> filter (\<lambda>x. x \<noteq> []) (map (\<lambda>i. py_strip (py_str i)) items)
      | _ \<Rightarrow> [])"

definition claims_match_audience :: "verifier \<Rightarrow> json dict \<Rightarrow> bool" where
  "claims_match_audience v claims =
     (let aud_values = audience_values (dget claims ''aud'' JNull) in
      if aud_values \<noteq> [] then vr_audience v \<in> set aud_values
      else let client_id = py_strip (header_field claims ''client_id'') in
        if client_id \<noteq> [] then client_id = vr_audience v else False)"

definition jwt_failed :: "oidc_client \<Rightarrow> exn \<Rightarrow> exn" where
  "jwt_failed cl e = (if oc_is_jwt_error cl e then oidc_error (''OIDC JWT validation failed: '' @ exn_text e) else e)"

text \<open>The second decoding, after a forced refresh, names the audience.\<close>

definition decode_again :: "verifier \<Rightarrow> oidc_client \<Rightarrow> rat \<Rightarrow> string \<Rightarrow> (jwks_state, json) cmd" where
  "decode_again v cl now token =
     sbind (refresh_jwks v cl now True) (\<lambda>refreshed.
     if refreshed then
       sbind (resolve_signing_key v cl now token) (\<lambda>(algorithm, key).
       scall (case oc_decode cl token key algorithm (Some (vr_audience v)) (vr_issuer v) [''sub'', ''iss'', ''aud'', ''exp''] of
           Inl e \<Rightarrow> if exn_class e = ''InvalidSignatureError''
             then Inl (key_rotation_error ''Signing keys have changed. Please sign in again to get a new token.'')
             else Inl (jwt_failed cl e)
         | Inr claims \<Rightarrow> Inr claims))
     else sraise (key_rotation_error (''OIDC JWT signature verification failed. '' @
       ''JWKS refresh was throttled - please sign in again.'')))"

definition identity_of_claims :: "verifier \<Rightarrow> json \<Rightarrow> exn + oidc_identity" where
  "identity_of_claims v claims =
     (case claims of
       JObj kvs \<Rightarrow>
         if \<not> claims_match_audience v kvs
         then Inl (oidc_error (''OIDC JWT validation failed: token audience/client_id does not match '' @
           ''expected audience.''))
         else let subject = py_strip (header_field kvs ''sub'') in
           if subject = [] then Inl (oidc_error ''OIDC JWT is missing required subject claim.'')
           else Inr \<lparr>oi_subject = subject, oi_claims = kvs\<rparr>
     | _ \<Rightarrow> Inl (oidc_error ''OIDC JWT claims payload must be an object.''))"

definition verify_access_token :: "verifier \<Rightarrow> oidc_client \<Rightarrow> rat \<Rightarrow> string \<Rightarrow> (jwks_state, oidc_identity) cmd" where
  "verify_access_token v cl now token =
     sbind (resolve_signing_key v cl now token) (\<lambda>(algorithm, key).
     sbind (case oc_decode cl token key algorithm None (vr_issuer v) [''sub'', ''iss'', ''exp''] of
         Inl e \<Rightarrow> if exn_class e = ''InvalidSignatureError'' then decode_again v cl now token
           else sraise (jwt_failed cl e)
       | Inr claims \<Rightarrow> sreturn claims) (\<lambda>claims.
     scall (identity_of_claims v claims)))"

subsection \<open>Forced refreshes are throttled\<close>

definition recent :: "verifier \<Rightarrow> rat \<Rightarrow> rat list \<Rightarrow> rat list" where
  "recent v now ts = filter (\<lambda>t. t > now - vr_throttle_window v) ts"

definition forced_step :: "verifier \<Rightarrow> rat \<Rightarrow> jwks_state \<Rightarrow> jwks_state \<Rightarrow> bool" where
  "forced_step v now s s' \<longleftrightarrow>
     js_refresh_forced s' = js_refresh_forced s \<and> js_last_forced s' = js_last_forced s \<and>
       recent v now (js_forced_timestamps s') = recent v now (js_forced_timestamps s) \<or>
     js_refresh_forced s' = js_refresh_forced s + 1 \<and> js_last_forced s' = now \<and>
       vr_min_refresh_interval v \<le> now - js_last_forced s \<and>
       recent v now (js_forced_timestamps s') = recent v now (js_forced_timestamps s) @ [now] \<and>
       int (length (recent v now (js_forced_timestamps s))) < vr_throttle_max v"

lemma forced_step_refl: "reflp (forced_step v now)"
  by (simp add: reflp_def forced_step_def)

lemma forced_step_trans: "0 < vr_min_refresh_interval v \<Longrightarrow> transp (forced_step v now)"
  unfolding transp_def forced_step_def by auto

lemma load_keeps: "0 < vr_min_refresh_interval v \<Longrightarrow> skeeps (forced_step v now) (load_into_cache v cl now)"
  unfolding load_into_cache_def
  by (intro skeeps_rules forced_step_refl forced_step_trans) (simp_all add: forced_step_def)

lemma refresh_keeps:
  assumes "0 < vr_min_refresh_interval v" "0 < vr_throttle_window v"
  shows "skeeps (forced_step v now) (refresh_jwks v cl now forced)"
  unfolding skeeps_def
proof
  fix s :: jwks_state
  let ?kept = "recent v now (js_forced_timestamps s)"
  have load: "forced_step v now q (snd (load_into_cache v cl now q))" for q
    using load_keeps [OF assms(1)] by (simp add: skeeps_def)
  have again: "recent v now ?kept = ?kept" by (simp add: recent_def)
  show "forced_step v now s (snd (refresh_jwks v cl now forced s))"
  proof (cases "forced \<and> \<not> now - js_last_forced s < vr_min_refresh_interval v \<and> int (length ?kept) < vr_throttle_max v")
    case True
    let ?r = "record_forced_refresh now (s\<lparr>js_forced_timestamps := ?kept\<rparr>)"
    have "forced_step v now s ?r"
      using True assms again by (simp add: forced_step_def record_forced_refresh_def recent_def)
    moreover have "snd (refresh_jwks v cl now forced s) = snd (load_into_cache v cl now ?r)"
      using True by (simp add: refresh_jwks_def is_forced_refresh_allowed_def recent_def Let_def)
    ultimately show ?thesis using load [of ?r] transpD [OF forced_step_trans [OF assms(1)]] by metis
  next
    case False
    then show ?thesis using load [of s] again
      by (auto simp: refresh_jwks_def is_forced_refresh_allowed_def Let_def forced_step_def recent_def)
  qed
qed

lemma verify_keeps:
  assumes "0 < vr_min_refresh_interval v" "0 < vr_throttle_window v"
  shows "skeeps (forced_step v now) (verify_access_token v cl now token)"
proof -
  note rules = skeeps_bind [OF forced_step_trans [OF assms(1)]] skeeps_basic [OF forced_step_refl] refresh_keeps [OF assms]
  have find: "skeeps (forced_step v now) (find_key v cl now kid)" for kid
    unfolding find_key_def by (auto intro!: rules split: option.split list.split)
  have resolve: "skeeps (forced_step v now) (resolve_signing_key v cl now token)"
    unfolding resolve_signing_key_def Let_def by (auto intro!: rules find)
  have again: "skeeps (forced_step v now) (decode_again v cl now token)"
    unfolding decode_again_def by (auto intro!: rules resolve)
  show ?thesis
    unfolding verify_access_token_def by (auto intro!: rules resolve again split: sum.split)
qed

text \<open>The instants of the forced refreshes over a sequence of calls.\<close>

fun forced_times :: "verifier \<Rightarrow> oidc_client \<Rightarrow> (rat \<times> string) list \<Rightarrow> jwks_state \<Rightarrow> rat list" where
  "forced_times v cl [] s = []"
| "forced_times v cl ((now, token) # calls) s =
     (let s' = snd (verify_access_token v cl now token s)
      in (if js_refresh_forced s' \<noteq> js_refresh_forced s then [now] else []) @ forced_times v cl calls s')"

definition history_ok :: "verifier \<Rightarrow> rat list \<Rightarrow> bool" where
  "history_ok v h \<longleftrightarrow> sorted_wrt (\<lambda>x y. vr_min_refresh_interval v \<le> y - x) h \<and>
     (\<forall>t. int (length (filter (\<lambda>x. t - vr_throttle_window v < x \<and> x \<le> t) h)) \<le> vr_throttle_max v)"

lemma history_extend:
  assumes h: "history_ok v h" and le: "\<forall>x \<in> set h. x \<le> last'" and int: "vr_min_refresh_interval v \<le> now - last'"
    and few: "int (length (recent v now h)) < vr_throttle_max v" and pos: "0 \<le> vr_min_refresh_interval v"
  shows "history_ok v (h @ [now])"
proof -
  have iv: "vr_min_refresh_interval v \<le> now - x" if "x \<in> set h" for x using le int that by fastforce
  have "int (length (filter (\<lambda>x. t - vr_throttle_window v < x \<and> x \<le> t) (h @ [now]))) \<le> vr_throttle_max v" for t
  proof (cases "now \<le> t")
    case True
    have "filter (\<lambda>x. t - vr_throttle_window v < x \<and> x \<le> t) h = filter (\<lambda>x. t - vr_throttle_window v < x \<and> x \<le> t) (recent v now h)"
      using True by (auto simp: recent_def intro!: filter_cong)
    then have "length (filter (\<lambda>x. t - vr_throttle_window v < x \<and> x \<le> t) h) \<le> length (recent v now h)" by simp
    then show ?thesis using few by simp
  next
    case False
    then show ?thesis using h by (simp add: history_ok_def)
  qed
  then show ?thesis using h iv by (auto simp: history_ok_def sorted_wrt_append)
qed

lemma recent_later: "now \<le> now' \<Longrightarrow> recent v now h = recent v now ts \<Longrightarrow> recent v now' h = recent v now' ts"
proof -
  assume le: "now \<le> now'" and eq: "recent v now h = recent v now ts"
  have "recent v now' xs = recent v now' (recent v now xs)" for xs
    using le by (auto simp: recent_def intro!: filter_cong)
  then show ?thesis using eq by metis
qed

lemma forced_times_ok:
  assumes "0 < vr_min_refresh_interval v" "0 < vr_throttle_window v"
    and "sorted (map fst calls)" "\<forall>t \<in> set (map fst calls). start \<le> t"
    and "history_ok v h" "\<forall>x \<in> set h. x \<le> js_last_forced s" "recent v start h = recent v start (js_forced_timestamps s)"
  shows "history_ok v (h @ forced_times v cl calls s)"
  using assms(3-)
proof (induction calls arbitrary: h s start)
  case (Cons c calls)
  obtain now token where c: "c = (now, token)" by force
  let ?s' = "snd (verify_access_token v cl now token s)"
  have st: "forced_step v now s ?s'" using verify_keeps [OF assms(1,2)] by (simp add: skeeps_def)
  have rec: "recent v now h = recent v now (js_forced_timestamps s)"
    by (rule recent_later [OF _ Cons.prems(5)]) (use Cons.prems(2) c in simp)
  have later: "sorted (map fst calls)" "\<forall>t \<in> set (map fst calls). now \<le> t" using Cons.prems(1) c by auto
  show ?case
  proof (cases "js_refresh_forced ?s' = js_refresh_forced s")
    case True
    then have "history_ok v (h @ forced_times v cl calls ?s')"
      using st Cons.prems rec by (intro Cons.IH [OF later]) (auto simp: forced_step_def)
    then show ?thesis using True by (simp add: c Let_def)
  next
    case False
    then have f: "js_last_forced ?s' = now" "vr_min_refresh_interval v \<le> now - js_last_forced s"
        "recent v now (js_forced_timestamps ?s') = recent v now (js_forced_timestamps s) @ [now]"
        "int (length (recent v now (js_forced_timestamps s))) < vr_throttle_max v"
      using st by (auto simp: forced_step_def)
    have "history_ok v (h @ [now])"
      by (rule history_extend [OF Cons.prems(3,4) f(2)]) (use f(4) rec assms(1) in auto)
    moreover have "\<forall>x \<in> set (h @ [now]). x \<le> js_last_forced ?s'"
      using Cons.prems(4) f(1,2) assms(1) by fastforce
    moreover have "recent v now (h @ [now]) = recent v now (js_forced_timestamps ?s')"
      using rec f(3) assms(2) by (simp add: recent_def)
    ultimately have "history_ok v ((h @ [now]) @ forced_times v cl calls ?s')" by (intro Cons.IH [OF later])
    then show ?thesis using False by (simp add: c Let_def)
  qed
qed simp

subsection \<open>What a verified token is\<close>

lemma cmd_Inr:
  "sreturn x s = (Inr y, s') \<longleftrightarrow> x = y \<and> s = s'" "sraise e s = (Inr y, s') \<longleftrightarrow> False"
  "sget f s = (Inr y, s') \<longleftrightarrow> y = f s \<and> s = s'" "scall r s = (Inr y, s') \<longleftrightarrow> r = Inr y \<and> s = s'"
  by (auto simp: cmd_defs)

lemma caught_Inr: "(case m of Inl e \<Rightarrow> if P e then Inl (f e) else Inl (g e) | Inr x \<Rightarrow> Inr x) = Inr y \<longleftrightarrow> m = Inr y"
  by (cases m) auto

lemma identity_of_claims_Inr:
  "identity_of_claims v claims = Inr idn \<longleftrightarrow> claims = JObj (oi_claims idn) \<and> claims_match_audience v (oi_claims idn) \<and>
     oi_subject idn = py_strip (header_field (oi_claims idn) ''sub'') \<and> oi_subject idn \<noteq> []"
  by (cases claims; cases idn) (auto simp: identity_of_claims_def Let_def)

lemma find_key_cached:
  assumes "find_key v cl now kid s = (Inr key, s')" shows "key \<in> snd ` set (js_cached s')"
proof (cases "if kid = [] then None else map_of (js_cached s) kid")
  case None
  then obtain b s1 where "refresh_jwks v cl now True s = (Inr b, s1)"
    and run: "(case (if b \<and> kid \<noteq> [] then map_of (js_cached s1) kid else None) of
           Some key \<Rightarrow> sreturn key
         | None \<Rightarrow>
             (case js_cached s1 of
                [(only, key)] \<Rightarrow> if kid = [] then sreturn key
                  else sraise (oidc_error ''JWT kid was not found in configured JWKS.'')
              | _ \<Rightarrow> sraise (oidc_error ''JWT kid was not found in configured JWKS.''))) s1 = (Inr key, s')"
    using assms by (auto simp: find_key_def sbind_Inr cmd_Inr)
  show ?thesis
  proof (cases "if b \<and> kid \<noteq> [] then map_of (js_cached s1) kid else None")
    case None
    then show ?thesis using run by (auto simp: cmd_Inr split: list.splits prod.splits if_splits)
  next
    case (Some k)
    then show ?thesis using run by (force simp: cmd_Inr split: if_splits dest: map_of_SomeD)
  qed
next
  case (Some k)
  then show ?thesis using assms by (force simp: find_key_def sbind_Inr cmd_Inr split: if_splits dest: map_of_SomeD)
qed

lemma resolve_signing_key_Inr:
  assumes "resolve_signing_key v cl now token s = (Inr (alg, key), s')"
  shows "alg \<in> set supported_algorithms" "key \<in> snd ` set (js_cached s')"
  using assms
  by (auto simp: resolve_signing_key_def sbind_Inr cmd_Inr Let_def dest: find_key_cached split: if_splits)

lemma decode_again_Inr:
  assumes "decode_again v cl now token s = (Inr claims, s')"
  obtains alg key where "alg \<in> set supported_algorithms" "key \<in> snd ` set (js_cached s')"
    "oc_decode cl token key alg (Some (vr_audience v)) (vr_issuer v) [''sub'', ''iss'', ''aud'', ''exp''] = Inr claims"
proof -
  from assms obtain b s1 where "(if b then
       sbind (resolve_signing_key v cl now token) (\<lambda>(algorithm, key).
       scall (case oc_decode cl token key algorithm (Some (vr_audience v)) (vr_issuer v) [''sub'', ''iss'', ''aud'', ''exp''] of
           Inl e \<Rightarrow> if exn_class e = ''InvalidSignatureError''
             then Inl (key_rotation_error ''Signing keys have changed. Please sign in again to get a new token.'')
             else Inl (jwt_failed cl e)
         | Inr claims \<Rightarrow> Inr claims))
     else sraise (key_rotation_error (''OIDC JWT signature verification failed. '' @
       ''JWKS refresh was throttled - please sign in again.''))) s1 = (Inr claims, s')"
    unfolding decode_again_def sbind_Inr by blast
  then obtain alg key where "resolve_signing_key v cl now token s1 = (Inr (alg, key), s')"
    "oc_decode cl token key alg (Some (vr_audience v)) (vr_issuer v) [''sub'', ''iss'', ''aud'', ''exp''] = Inr claims"
    by (auto simp: sbind_Inr cmd_Inr caught_Inr split: if_splits)
  then show thesis using resolve_signing_key_Inr that by blast
qed

lemma verify_access_token_Inr:
  assumes "verify_access_token v cl now token s = (Inr idn, s')"
  obtains alg key aud req where "alg \<in> set supported_algorithms" "key \<in> snd ` set (js_cached s')"
    "oc_decode cl token key alg aud (vr_issuer v) req = Inr (JObj (oi_claims idn))" "{''sub'', ''iss'', ''exp''} \<subseteq> set req"
    "claims_match_audience v (oi_claims idn)" "oi_subject idn = py_strip (header_field (oi_claims idn) ''sub'')"
    "oi_subject idn \<noteq> []"
proof -
  from assms obtain alg key s1 claims s2 where r: "resolve_signing_key v cl now token s = (Inr (alg, key), s1)"
    and d: "(case oc_decode cl token key alg None (vr_issuer v) [''sub'', ''iss'', ''exp''] of
         Inl e \<Rightarrow> if exn_class e = ''InvalidSignatureError'' then decode_again v cl now token else sraise (jwt_failed cl e)
       | Inr claims \<Rightarrow> sreturn claims) s1 = (Inr claims, s2)"
    and i: "identity_of_claims v claims = Inr idn" "s2 = s'"
    unfolding verify_access_token_def sbind_Inr by (auto simp: cmd_Inr sbind_Inr)
  note c = i(1) [unfolded identity_of_claims_Inr] i(2)
  show thesis
  proof (cases "oc_decode cl token key alg None (vr_issuer v) [''sub'', ''iss'', ''exp'']")
    case (Inl e)
    then have "decode_again v cl now token s1 = (Inr claims, s')"
      using d i(2) by (auto simp: cmd_Inr split: if_splits)
    then show thesis
      by (rule decode_again_Inr) (use c in \<open>auto intro!: that\<close>)
  next
    case (Inr x)
    then show thesis using d c resolve_signing_key_Inr [OF r] that [of alg key None "[''sub'', ''iss'', ''exp'']"]
      by (auto simp: cmd_Inr)
  qed
qed

text \<open>After a rotation of the keys under the same id, a token is decoded again with the claim \<open>aud\<close> required.\<close>

lemma rotated_key_needs_aud:
  assumes r1: "resolve_signing_key v cl now token s = (Inr (alg, key), s1)"
    and bad: "oc_decode cl token key alg None (vr_issuer v) [''sub'', ''iss'', ''exp''] = Inl e" "exn_class e = ''InvalidSignatureError''"
    and r2: "refresh_jwks v cl now True s1 = (Inr True, s2)" "resolve_signing_key v cl now token s2 = (Inr (alg', key'), s3)"
    and noaud: "oc_decode cl token key' alg' (Some (vr_audience v)) (vr_issuer v) [''sub'', ''iss'', ''aud'', ''exp''] = Inl e'"
      "exn_class e' = ''MissingRequiredClaimError''" "oc_is_jwt_error cl e'"
  shows "verify_access_token v cl now token s = (Inl (oidc_error (''OIDC JWT validation failed: '' @ exn_text e')), s3)"
  using assms
  by (simp add: verify_access_token_def decode_again_def sbind_def scall_def jwt_failed_def)

end
