(* ===== verification/SP_Codec.thy ===== *)
theory SP_Codec
  imports SP_Json "HOL-Library.List_Lexorder"
begin

text \<open>
  Texts the sources sign or store: base64 as \<open>base64.urlsafe_b64encode\<close> writes and \<open>urlsafe_b64decode\<close> reads it,
  and JSON as \<open>json.dumps(separators=(',', ':'), sort_keys=True)\<close> writes and \<open>json.loads\<close> reads it. A byte is a
  character; a character is a code point below 256.
\<close>

subsection \<open>Base64\<close>

abbreviation byte :: "char \<Rightarrow> nat" where
  "byte c \<equiv> of_char c"

definition b64_char :: "nat \<Rightarrow> char" where
  "b64_char n = char_of (if n < 26 then n + 65 else if n < 52 then n + 71 else if n < 62 then n - 4
     else if n = 62 then 45 else (95::nat))"

text \<open>\<open>+\<close> and \<open>/\<close> are read as well as \<open>-\<close> and \<open>_\<close>.\<close>

definition b64_value :: "char \<Rightarrow> nat option" where
  "b64_value c = (let n = byte c in
     if 65 \<le> n \<and> n \<le> 90 then Some (n - 65) else if 97 \<le> n \<and> n \<le> 122 then Some (n - 71)
     else if 48 \<le> n \<and> n \<le> 57 then Some (n + 4) else if n = 45 \<or> n = 43 then Some 62
     else if n = 95 \<or> n = 47 then Some 63 else None)"

fun b64_encode :: "string \<Rightarrow> string" where
  "b64_encode [] = []"
| "b64_encode [a] = [b64_char (byte a div 4), b64_char (byte a mod 4 * 16), CHR ''='', CHR ''='']"
| "b64_encode [a, b] = [b64_char (byte a div 4), b64_char (byte a mod 4 * 16 + byte b div 16),
     b64_char (byte b mod 16 * 4), CHR ''='']"
| "b64_encode (a # b # c # cs) = b64_char (byte a div 4) # b64_char (byte a mod 4 * 16 + byte b div 16) #
     b64_char (byte b mod 16 * 4 + byte c div 64) # b64_char (byte c mod 64) # b64_encode cs"

text \<open>
  The loop of \<open>binascii.a2b_base64\<close>: the position in the group of four, the bits left over and the number of
  padding characters; what is not in the alphabet is skipped.
\<close>

fun b64_scan :: "nat \<Rightarrow> nat \<Rightarrow> nat \<Rightarrow> string \<Rightarrow> string option" where
  "b64_scan pos left pads [] = (if pos = 0 then Some [] else None)"
| "b64_scan pos left pads (c # cs) =
     (if c = CHR ''='' then
        (if pos \<ge> 2 then (if pos + (pads + 1) \<ge> 4 then Some [] else b64_scan pos left (pads + 1) cs)
         else b64_scan pos left pads cs)
      else case b64_value c of
          None \<Rightarrow> b64_scan pos left pads cs
        | Some v \<Rightarrow>
            if pos = 0 then b64_scan 1 v 0 cs
            else if pos = 1 then map_option (\<lambda>r. char_of (left * 4 + v div 16) # r) (b64_scan 2 (v mod 16) 0 cs)
            else if pos = 2 then map_option (\<lambda>r. char_of (left * 16 + v div 4) # r) (b64_scan 3 (v mod 4) 0 cs)
            else map_option (\<lambda>r. char_of (left * 64 + v) # r) (b64_scan 0 0 0 cs))"

definition urlsafe_b64encode :: "string \<Rightarrow> string" where
  "urlsafe_b64encode raw = py_rstrip_char (CHR ''='') (b64_encode raw)"

definition is_ascii :: "string \<Rightarrow> bool" where
  "is_ascii s \<longleftrightarrow> list_all (\<lambda>c. byte c < 128) s"

definition urlsafe_b64decode :: "string \<Rightarrow> string option" where
  "urlsafe_b64decode raw =
     (if is_ascii raw then b64_scan 0 0 0 (raw @ replicate ((4 - length raw mod 4) mod 4) (CHR ''='')) else None)"

lemma byte_bound: "byte c < 256"
  using of_char_mod_256 [of c, where 'a = nat] mod_less_divisor [of 256 "of_char c :: nat"] by simp

lemma byte_b64_char:
  "n < 64 \<Longrightarrow> byte (b64_char n) = (if n < 26 then n + 65 else if n < 52 then n + 71 else if n < 62 then n - 4
     else if n = 62 then 45 else 95)"
  by (simp add: b64_char_def)

lemma b64_digit:
  assumes "n < 64" shows "b64_value (b64_char n) = Some n" "b64_char n \<noteq> CHR ''=''" "byte (b64_char n) < 128"
    "b64_char n \<noteq> CHR ''.''"
proof -
  note b = byte_b64_char [OF assms]
  show "b64_value (b64_char n) = Some n" using assms by (simp add: b64_value_def Let_def b) presburger
  have "byte (b64_char n) \<noteq> 61" by (simp add: b) arith
  then show "b64_char n \<noteq> CHR ''=''" by auto
  have "byte (b64_char n) \<noteq> 46" by (simp add: b) arith
  then show "b64_char n \<noteq> CHR ''.''" by auto
  show "byte (b64_char n) < 128" using assms by (simp add: b) linarith
qed

lemma b64_scan_digit:
  assumes "n < 64"
  shows "b64_scan 0 l p (b64_char n # cs) = b64_scan 1 n 0 cs"
    "b64_scan (Suc 0) l p (b64_char n # cs) = map_option (\<lambda>r. char_of (l * 4 + n div 16) # r) (b64_scan 2 (n mod 16) 0 cs)"
    "b64_scan 2 l p (b64_char n # cs) = map_option (\<lambda>r. char_of (l * 16 + n div 4) # r) (b64_scan 3 (n mod 4) 0 cs)"
    "b64_scan 3 l p (b64_char n # cs) = map_option (\<lambda>r. char_of (l * 64 + n) # r) (b64_scan 0 0 0 cs)"
  using b64_digit [OF assms] by auto

lemma join_bits: "(y::nat) < m \<Longrightarrow> (x * m + y) div m = x \<and> (x * m + y) mod m = y"
  by simp

lemma group_arith:
  fixes a b c :: nat
  assumes "a < 256" "b < 256" "c < 256"
  shows "a div 4 < 64" "a mod 4 * 16 + b div 16 < 64" "b mod 16 * 4 + c div 64 < 64" "c mod 64 < 64"
    "a mod 4 * 16 < 64" "b mod 16 * 4 < 64"
proof -
  have "a mod 4 < 4" "b div 16 < 16" "b mod 16 < 16" "c div 64 < 4" using assms by auto
  then show "a mod 4 * 16 + b div 16 < 64" "b mod 16 * 4 + c div 64 < 64" "a mod 4 * 16 < 64" "b mod 16 * 4 < 64"
    by linarith+
qed (use assms in auto)

lemma group_bits:
  fixes a b c :: nat
  assumes "b < 256" "c < 256"
  shows "(a mod 4 * 16 + b div 16) div 16 = a mod 4" "(a mod 4 * 16 + b div 16) mod 16 = b div 16"
    "(b mod 16 * 4 + c div 64) div 4 = b mod 16" "(b mod 16 * 4 + c div 64) mod 4 = c div 64"
    "a mod 4 * 16 div 16 = a mod 4" "b mod 16 * 4 div 4 = b mod 16"
proof -
  have "b div 16 < 16" "c div 64 < 4" using assms by auto
  then show "(a mod 4 * 16 + b div 16) div 16 = a mod 4" "(a mod 4 * 16 + b div 16) mod 16 = b div 16"
    "(b mod 16 * 4 + c div 64) div 4 = b mod 16" "(b mod 16 * 4 + c div 64) mod 4 = c div 64"
    using join_bits by blast+
qed simp_all

lemma b64_scan_encode: "b64_scan 0 0 0 (b64_encode xs) = Some xs"
proof (induction xs rule: b64_encode.induct)
  case (2 a)
  note g = group_arith [OF byte_bound [of a] byte_bound [of a] byte_bound [of a]]
  have pad: "b64_scan 2 l 0 [CHR ''='', CHR ''=''] = Some []" for l by (simp add: numeral_2_eq_2)
  show ?case
    by (simp only: b64_encode.simps b64_scan_digit g One_nat_def pad option.map group_bits [OF byte_bound byte_bound]
        div_mult_mod_eq char_of_char)
next
  case (3 a b)
  note g = group_arith [OF byte_bound [of a] byte_bound [of b] byte_bound [of b]]
  have pad: "b64_scan 3 l 0 [CHR ''=''] = Some []" for l by (simp add: numeral_3_eq_3)
  show ?case
    by (simp only: b64_encode.simps b64_scan_digit g One_nat_def pad option.map group_bits [OF byte_bound byte_bound]
        div_mult_mod_eq char_of_char)
next
  case (4 a b c cs)
  note g = group_arith [OF byte_bound [of a] byte_bound [of b] byte_bound [of c]]
  show ?case
    by (simp only: b64_encode.simps b64_scan_digit g One_nat_def 4 option.map group_bits [OF byte_bound byte_bound]
        div_mult_mod_eq char_of_char)
qed simp

lemma b64_encode_shape:
  "\<exists>body k. b64_encode xs = body @ replicate k (CHR ''='') \<and> CHR ''='' \<notin> set body \<and> is_ascii body \<and>
     k = (4 - length body mod 4) mod 4"
proof (induction xs rule: b64_encode.induct)
  case 1
  show ?case by (intro exI [where x = "[]"] exI [where x = 0]) (simp add: is_ascii_def)
next
  case (2 a)
  note g = group_arith [OF byte_bound [of a] byte_bound [of a] byte_bound [of a]]
  show ?case
    by (intro exI [where x = "[b64_char (byte a div 4), b64_char (byte a mod 4 * 16)]"] exI [where x = 2])
      (use b64_digit [OF g(1)] b64_digit [OF g(5)] in \<open>auto simp: is_ascii_def numeral_2_eq_2\<close>)
next
  case (3 a b)
  note g = group_arith [OF byte_bound [of a] byte_bound [of b] byte_bound [of b]]
  show ?case
    by (intro exI [where x = "[b64_char (byte a div 4), b64_char (byte a mod 4 * 16 + byte b div 16), b64_char (byte b mod 16 * 4)]"]
        exI [where x = 1])
      (use b64_digit [OF g(1)] b64_digit [OF g(2)] b64_digit [OF g(6)] in \<open>auto simp: is_ascii_def\<close>)
next
  case (4 a b c cs)
  then obtain body k where e: "b64_encode cs = body @ replicate k (CHR ''='')" "CHR ''='' \<notin> set body" "is_ascii body"
      "k = (4 - length body mod 4) mod 4" by blast
  note g = group_arith [OF byte_bound [of a] byte_bound [of b] byte_bound [of c]]
  let ?q = "[b64_char (byte a div 4), b64_char (byte a mod 4 * 16 + byte b div 16),
     b64_char (byte b mod 16 * 4 + byte c div 64), b64_char (byte c mod 64)]"
  have q: "CHR ''='' \<notin> set ?q" "is_ascii ?q" "length ?q = 4"
    using b64_digit(2,3) [OF g(1)] b64_digit(2,3) [OF g(2)] b64_digit(2,3) [OF g(3)] b64_digit(2,3) [OF g(4)]
    by (simp_all add: is_ascii_def)
  have "b64_encode (a # b # c # cs) = (?q @ body) @ replicate k (CHR ''='')" using e(1) by simp
  moreover have "CHR ''='' \<notin> set (?q @ body) \<and> is_ascii (?q @ body)" using q(1,2) e(2,3) by (simp add: is_ascii_def)
  moreover have "k = (4 - length (?q @ body) mod 4) mod 4" using e(4) q(3) by (simp only: length_append mod_add_self1)
  ultimately show ?case by blast
qed

lemma py_rstrip_char_replicate: "c \<notin> set s \<Longrightarrow> py_rstrip_char c (s @ replicate k c) = s"
proof -
  assume "c \<notin> set s"
  moreover have "dropWhile (\<lambda>x. x = c) (replicate k c @ t) = dropWhile (\<lambda>x. x = c) t" for t by (induction k) auto
  ultimately show ?thesis by (cases s rule: rev_cases) (auto simp: py_rstrip_char_def)
qed

lemma b64_encode_no_dot: "CHR ''.'' \<notin> set (b64_encode xs)"
proof (induction xs rule: b64_encode.induct)
  case (2 a)
  then show ?case using b64_digit(4) group_arith [OF byte_bound [of a] byte_bound [of a] byte_bound [of a]] by (auto dest: sym)
next
  case (3 a b)
  then show ?case using b64_digit(4) group_arith [OF byte_bound [of a] byte_bound [of b] byte_bound [of b]] by (auto dest: sym)
next
  case (4 a b c cs)
  then show ?case using b64_digit(4) group_arith [OF byte_bound [of a] byte_bound [of b] byte_bound [of c]] by (auto dest: sym)
qed simp

lemma b64_encode_Nil: "b64_encode xs = [] \<longleftrightarrow> xs = []"
  by (induction xs rule: b64_encode.induct) simp_all

lemma urlsafe_b64encode_ok:
  "is_ascii (urlsafe_b64encode raw)" "CHR ''.'' \<notin> set (urlsafe_b64encode raw)" "raw \<noteq> [] \<Longrightarrow> urlsafe_b64encode raw \<noteq> []"
proof -
  obtain body k where e: "b64_encode raw = body @ replicate k (CHR ''='')" "CHR ''='' \<notin> set body" "is_ascii body"
      "k = (4 - length body mod 4) mod 4" using b64_encode_shape by blast
  then have b: "urlsafe_b64encode raw = body" by (simp add: urlsafe_b64encode_def py_rstrip_char_replicate)
  show "is_ascii (urlsafe_b64encode raw)" using e(3) b by simp
  show "CHR ''.'' \<notin> set (urlsafe_b64encode raw)" using b64_encode_no_dot [of raw] e(1) b by auto
  show "raw \<noteq> [] \<Longrightarrow> urlsafe_b64encode raw \<noteq> []" using e(1,4) b b64_encode_Nil [of raw] by (cases "body = []") auto
qed

lemma urlsafe_b64_round_trip: "urlsafe_b64decode (urlsafe_b64encode raw) = Some raw"
proof -
  obtain body k where e: "b64_encode raw = body @ replicate k (CHR ''='')" "CHR ''='' \<notin> set body" "is_ascii body"
      "k = (4 - length body mod 4) mod 4" using b64_encode_shape by blast
  then have "urlsafe_b64encode raw = body" by (simp add: urlsafe_b64encode_def py_rstrip_char_replicate)
  then show ?thesis using e b64_scan_encode [of raw] by (simp add: urlsafe_b64decode_def)
qed

subsection \<open>Writing JSON\<close>

definition hex_char :: "nat \<Rightarrow> char" where
  "hex_char n = char_of (if n < 10 then n + 48 else n + (87::nat))"

definition hex_value :: "char \<Rightarrow> nat option" where
  "hex_value c = (let n = byte c in
     if 48 \<le> n \<and> n \<le> 57 then Some (n - 48) else if 97 \<le> n \<and> n \<le> 102 then Some (n - 87)
     else if 65 \<le> n \<and> n \<le> 70 then Some (n - 55) else None)"

definition short_escapes :: "(char \<times> char) list" where
  "short_escapes = [(CHR 0x22, CHR 0x22), (CHR 0x5C, CHR 0x5C), (CHR 0x0A, CHR ''n''), (CHR 0x0D, CHR ''r''),
     (CHR 0x09, CHR ''t''), (CHR 0x0C, CHR ''f''), (CHR 0x08, CHR ''b'')]"

definition json_escape :: "char \<Rightarrow> string" where
  "json_escape c =
     (case map_of short_escapes c of
        Some e \<Rightarrow> [CHR 0x5C, e]
      | None \<Rightarrow> if 32 \<le> byte c \<and> byte c \<le> 126 then [c]
          else [CHR 0x5C, CHR ''u'', CHR ''0'', CHR ''0'', hex_char (byte c div 16), hex_char (byte c mod 16)])"

definition dumps_string :: "string \<Rightarrow> string" where
  "dumps_string s = [CHR 0x22] @ concat (map json_escape s) @ [CHR 0x22]"

fun json_dumps :: "json \<Rightarrow> string" where
  "json_dumps JNull = ''null''"
| "json_dumps (JBool b) = (if b then ''true'' else ''false'')"
| "json_dumps (JInt i) = show_int i"
| "json_dumps (JFloat m n) = show_decimal m n"
| "json_dumps (JStr s) = dumps_string s"
| "json_dumps (JArr xs) = ''['' @ join '','' (map json_dumps xs) @ '']''"
| "json_dumps (JObj kvs) = ''{'' @ join '','' (map (\<lambda>(k, v). dumps_string k @ '':'' @ v)
     (sort_key fst (map (\<lambda>(k, v). (k, json_dumps v)) kvs))) @ ''}''"

subsection \<open>Reading JSON\<close>

text \<open>
  The scanner of \<open>json.loads\<close>, in strict mode: control characters are refused in strings. Fuel bounds the
  nesting; the length of the text is enough. NaN, infinities and escapes above code point 255 are not values of
  the model and refused.
\<close>

fun scan_string :: "string \<Rightarrow> (string \<times> string) option" where
  "scan_string [] = None"
| "scan_string (c # cs) =
     (if c = CHR 0x22 then Some ([], cs)
      else if c = CHR 0x5C then
        (case cs of
           [] \<Rightarrow> None
         | e # cs' \<Rightarrow>
             if e = CHR ''u'' then
               (case cs' of
                  h1 # h2 # h3 # h4 # rest \<Rightarrow>
                    (case (hex_value h1, hex_value h2, hex_value h3, hex_value h4) of
                       (Some 0, Some 0, Some x, Some y) \<Rightarrow>
                         map_option (\<lambda>(s, r). (char_of (16 * x + y) # s, r)) (scan_string rest)
                     | _ \<Rightarrow> None)
                | _ \<Rightarrow> None)
             else if e = CHR ''/'' then map_option (\<lambda>(s, r). (CHR ''/'' # s, r)) (scan_string cs')
             else (case map_of (map prod.swap short_escapes) e of
                 None \<Rightarrow> None | Some d \<Rightarrow> map_option (\<lambda>(s, r). (d # s, r)) (scan_string cs')))
      else if byte c < 32 then None
      else map_option (\<lambda>(s, r). (c # s, r)) (scan_string cs))"

definition scan_digits :: "string \<Rightarrow> string \<times> string" where
  "scan_digits s = (takeWhile is_digit s, dropWhile is_digit s)"

definition scan_fraction :: "string \<Rightarrow> string \<times> string" where
  "scan_fraction s = (case s of c # d # _ \<Rightarrow> if c = CHR ''.'' \<and> is_digit d then scan_digits (tl s) else ([], s) | _ \<Rightarrow> ([], s))"

definition scan_exponent :: "string \<Rightarrow> int option \<times> string" where
  "scan_exponent s =
     (case s of
        c # cs \<Rightarrow>
          (let (neg, ds) = (case cs of d # ds \<Rightarrow> if d = CHR ''-'' then (True, ds) else if d = CHR ''+'' then (False, ds)
                 else (False, cs) | [] \<Rightarrow> (False, cs))
           in if c \<in> {CHR ''e'', CHR ''E''} \<and> fst (scan_digits ds) \<noteq> []
              then (Some ((if neg then -1 else 1) * digits_val (fst (scan_digits ds))), snd (scan_digits ds)) else (None, s))
      | [] \<Rightarrow> (None, s))"

definition scan_sign :: "string \<Rightarrow> bool \<times> string" where
  "scan_sign s = (case s of c # cs \<Rightarrow> if c = CHR ''-'' then (True, cs) else (False, s) | [] \<Rightarrow> (False, s))"

definition scan_whole :: "string \<Rightarrow> string \<times> string" where
  "scan_whole s = (case s of c # cs \<Rightarrow> if c = CHR ''0'' then ([c], cs) else scan_digits s | [] \<Rightarrow> ([], s))"

definition scan_number :: "string \<Rightarrow> (json \<times> string) option" where
  "scan_number s =
     (let (neg, t) = scan_sign s; (whole, r) = scan_whole t;
          (frac, r') = scan_fraction r; (ex, r'') = scan_exponent r'; sg = (if neg then -1 else 1)
      in if whole = [] then None
         else if frac = [] \<and> ex = None then Some (JInt (sg * digits_val whole), r'')
         else let m = sg * digits_val (whole @ frac); k = (case ex of None \<Rightarrow> 0 | Some x \<Rightarrow> x) - int (length frac)
           in Some (if k \<ge> 0 then JFloat (m * 10 ^ nat k) 0 else JFloat m (nat (- k)), r''))"

definition skip_ws :: "string \<Rightarrow> string" where
  "skip_ws s = dropWhile (\<lambda>c. c \<in> {CHR '' '', CHR 0x09, CHR 0x0A, CHR 0x0D}) s"

text \<open>A colon after the key, a comma or the closing bracket after a value.\<close>

definition expect :: "char \<Rightarrow> string \<Rightarrow> string option" where
  "expect c s = (case s of x # xs \<Rightarrow> if x = c then Some xs else None | [] \<Rightarrow> None)"

fun scan_value :: "nat \<Rightarrow> string \<Rightarrow> (json \<times> string) option"
  and scan_elements :: "nat \<Rightarrow> string \<Rightarrow> (json list \<times> string) option"
  and scan_members :: "nat \<Rightarrow> json dict \<Rightarrow> string \<Rightarrow> (json dict \<times> string) option" where
  "scan_value 0 s = None"
| "scan_value (Suc n) s =
     (if prefix ''null'' s then Some (JNull, drop 4 s)
      else if prefix ''true'' s then Some (JBool True, drop 4 s)
      else if prefix ''false'' s then Some (JBool False, drop 5 s)
      else case s of
          [] \<Rightarrow> None
        | c # cs \<Rightarrow>
            if c = CHR 0x22 then map_option (\<lambda>(t, r). (JStr t, r)) (scan_string cs)
            else if c = CHR ''['' then
              (case expect (CHR '']'') (skip_ws cs) of Some r \<Rightarrow> Some (JArr [], r)
               | None \<Rightarrow> map_option (\<lambda>(xs, r). (JArr xs, r)) (scan_elements n (skip_ws cs)))
            else if c = CHR ''{'' then
              (case expect (CHR ''}'') (skip_ws cs) of Some r \<Rightarrow> Some (JObj [], r)
               | None \<Rightarrow> map_option (\<lambda>(kvs, r). (JObj kvs, r)) (scan_members n [] (skip_ws cs)))
            else scan_number s)"
| "scan_elements 0 s = None"
| "scan_elements (Suc n) s =
     (case scan_value n s of
        None \<Rightarrow> None
      | Some (v, r) \<Rightarrow>
          (case expect (CHR '','') (skip_ws r) of
             Some r' \<Rightarrow> map_option (\<lambda>(xs, q). (v # xs, q)) (scan_elements n (skip_ws r'))
           | None \<Rightarrow> map_option (\<lambda>q. ([v], q)) (expect (CHR '']'') (skip_ws r))))"
| "scan_members 0 acc s = None"
| "scan_members (Suc n) acc s =
     (case Option.bind (expect (CHR 0x22) s) scan_string of
        None \<Rightarrow> None
      | Some (k, r) \<Rightarrow>
          (case Option.bind (expect (CHR '':'') (skip_ws r)) (\<lambda>r. scan_value n (skip_ws r)) of
             None \<Rightarrow> None
           | Some (v, r) \<Rightarrow>
               (case expect (CHR '','') (skip_ws r) of
                  Some r' \<Rightarrow> scan_members n (dset k v acc) (skip_ws r')
                | None \<Rightarrow> map_option (\<lambda>q. (dset k v acc, q)) (expect (CHR ''}'') (skip_ws r)))))"

definition json_loads :: "string \<Rightarrow> json option" where
  "json_loads s =
     (case scan_value (2 * length s + 2) (skip_ws s) of
        Some (v, r) \<Rightarrow> if skip_ws r = [] then Some v else None
      | None \<Rightarrow> None)"

subsection \<open>Reading what was written\<close>

lemma hex_round: "n < 16 \<Longrightarrow> hex_value (hex_char n) = Some n"
  by (auto simp: hex_value_def hex_char_def Let_def)

lemma scan_escape:
  "scan_string (json_escape c @ t) = map_option (\<lambda>(s, r). (c # s, r)) (scan_string t)"
proof (cases "map_of short_escapes c")
  case (Some e)
  then show ?thesis by (auto simp: json_escape_def short_escapes_def split: if_splits)
next
  case None
  then have c: "c \<noteq> CHR 0x22" "c \<noteq> CHR 0x5C" by (auto simp: short_escapes_def split: if_splits)
  show ?thesis
  proof (cases "32 \<le> byte c \<and> byte c \<le> 126")
    case True
    then show ?thesis using None c by (simp add: json_escape_def)
  next
    case False
    have "byte c div 16 < 16" using byte_bound [of c] by (simp add: less_mult_imp_div_less)
    then have "hex_value (hex_char (byte c div 16)) = Some (byte c div 16)" by (rule hex_round)
    moreover have "hex_value (hex_char (byte c mod 16)) = Some (byte c mod 16)" by (rule hex_round) simp
    moreover have "hex_value (CHR ''0'') = Some 0" by (simp add: hex_value_def)
    moreover have "char_of (16 * (byte c div 16) + byte c mod 16) = c" by (simp only: mult_div_mod_eq char_of_char)
    ultimately show ?thesis using None False c by (simp add: json_escape_def del: mult_div_mod_eq)
  qed
qed

lemma scan_written_string: "scan_string (concat (map json_escape s) @ CHR 0x22 # r) = Some (s, r)"
  by (induction s) (simp_all add: scan_escape)

definition ends_value :: "string \<Rightarrow> bool" where
  "ends_value r \<longleftrightarrow> r \<noteq> [] \<and> hd r \<in> {CHR '','', CHR ''}''}"

lemma show_nat_head: "show_nat n = CHR ''0'' # t \<Longrightarrow> n = 0 \<and> t = []"
proof (induction n arbitrary: t rule: show_nat.induct)
  case (1 n)
  have d: "k < 10 \<Longrightarrow> digit_char k = CHR ''0'' \<Longrightarrow> k = 0" for k
  proof -
    assume k: "k < 10" "digit_char k = CHR ''0''"
    then have "(of_char (digit_char k) :: nat) = 48" by simp
    then show "k = 0" using k(1) by (simp add: digit_char_def)
  qed
  show ?case
  proof (cases "n < 10")
    case True
    then show ?thesis using 1(2) d [of n] by (simp add: show_nat.simps [of n])
  next
    case False
    then have e: "show_nat (n div 10) @ [digit_char (n mod 10)] = CHR ''0'' # t"
      using 1(2) by (simp add: show_nat.simps [of n])
    then obtain t' where "show_nat (n div 10) = CHR ''0'' # t'" by (cases "show_nat (n div 10)") auto
    then show ?thesis using 1(1) [OF False] False by fastforce
  qed
qed

lemma digits_scanned:
  assumes "ends_value r" shows "scan_digits (show_nat n @ r) = (show_nat n, r)"
proof -
  have "\<not> is_digit (hd r)" "r \<noteq> []" using assms by (auto simp: ends_value_def is_digit_def)
  then show ?thesis using set_show_nat_digits
    by (cases r) (auto simp: scan_digits_def takeWhile_append2 dropWhile_append2)
qed

lemma no_fraction: "ends_value r \<Longrightarrow> scan_fraction r = ([], r) \<and> scan_exponent r = (None, r)"
  by (auto simp: ends_value_def scan_fraction_def scan_exponent_def Let_def split: list.splits)

lemma scan_written_nat:
  assumes "ends_value r"
  shows "scan_whole (show_nat n @ r) = (show_nat n, r)"
proof (cases "show_nat n")
  case (Cons c t)
  then show ?thesis using digits_scanned [OF assms, of n] show_nat_head [of n t]
    by (auto simp: scan_whole_def show_nat.simps [of 0] digit_char_def)
qed simp

lemma scan_written_int:
  assumes "ends_value r" shows "scan_number (show_int i @ r) = Some (JInt i, r)"
proof -
  have sign: "scan_sign (show_nat n @ r) = (False, show_nat n @ r)" for n
    using set_show_nat_digits [of "hd (show_nat n)" n] by (cases "show_nat n") (auto simp: scan_sign_def is_digit_def)
  have neg: "scan_sign (CHR ''-'' # t) = (True, t)" for t by (simp add: scan_sign_def)
  show ?thesis
    using scan_written_nat [OF assms] no_fraction [OF assms] sign neg
    by (cases "i < 0") (simp_all add: scan_number_def show_int_def digits_val_show_nat)
qed

fun scalar :: "json \<Rightarrow> bool" where
  "scalar (JStr s) = True"
| "scalar (JInt i) = True"
| "scalar _ = False"

lemma scan_written_scalar:
  assumes "scalar v" "ends_value r" shows "scan_value (Suc n) (json_dumps v @ r) = Some (v, r)"
proof (cases v)
  case (JStr s)
  then show ?thesis using scan_written_string [of s r] by (simp add: dumps_string_def)
next
  case (JInt i)
  have digit: "is_digit c \<Longrightarrow> c \<notin> {CHR ''n'', CHR ''t'', CHR ''f'', CHR 0x22, CHR ''['', CHR ''{''}" for c
    by (auto simp: is_digit_def)
  have "show_int i = c # cs \<Longrightarrow> c \<notin> {CHR ''n'', CHR ''t'', CHR ''f'', CHR 0x22, CHR ''['', CHR ''{''}" for c cs
    using digit set_show_nat_digits [of c "nat i"] by (auto simp: show_int_def split: if_splits)
  moreover obtain c cs where "show_int i = c # cs" by (cases "show_int i") (auto simp: show_int_def split: if_splits)
  ultimately show ?thesis using JInt scan_written_int [OF assms(2), of i] by auto
qed (use assms in simp_all)

definition member_text :: "string \<times> json \<Rightarrow> string" where
  "member_text kv = dumps_string (fst kv) @ '':'' @ json_dumps (snd kv)"

lemma skip_ws_scalar: "scalar v \<Longrightarrow> skip_ws (json_dumps v @ r) = json_dumps v @ r"
proof (cases v)
  case (JInt i)
  have "show_int i = c # cs \<Longrightarrow> c \<notin> {CHR '' '', CHR 0x09, CHR 0x0A, CHR 0x0D}" for c cs
    using set_show_nat_digits [of c "nat i"] by (auto simp: show_int_def is_digit_def split: if_splits)
  moreover obtain c cs where "show_int i = c # cs" by (cases "show_int i") (auto simp: show_int_def split: if_splits)
  ultimately show ?thesis using JInt by (auto simp: skip_ws_def)
qed (auto simp: skip_ws_def dumps_string_def)

lemma scan_one_member:
  assumes "scalar v" "ends_value r"
  shows "Option.bind (expect (CHR 0x22) (member_text (k, v) @ r)) scan_string = Some (k, CHR '':'' # json_dumps v @ r)"
    "Option.bind (expect (CHR '':'') (skip_ws (CHR '':'' # json_dumps v @ r))) (\<lambda>r. scan_value (Suc n) (skip_ws r)) = Some (v, r)"
proof -
  show "Option.bind (expect (CHR 0x22) (member_text (k, v) @ r)) scan_string = Some (k, CHR '':'' # json_dumps v @ r)"
    using scan_written_string [of k "CHR '':'' # json_dumps v @ r"]
    by (simp add: member_text_def dumps_string_def expect_def)
  have "expect (CHR '':'') (skip_ws (CHR '':'' # json_dumps v @ r)) = Some (json_dumps v @ r)"
    by (simp add: expect_def skip_ws_def)
  then show "Option.bind (expect (CHR '':'') (skip_ws (CHR '':'' # json_dumps v @ r))) (\<lambda>r. scan_value (Suc n) (skip_ws r)) = Some (v, r)"
    using scan_written_scalar [OF assms] skip_ws_scalar [OF assms(1)] by (simp del: scan_value.simps)
qed

lemma dset_fresh: "k \<notin> fst ` set acc \<Longrightarrow> dset k v acc = acc @ [(k, v)]"
  by (induction acc) auto

lemma expect_comma: "expect (CHR '','') (skip_ws (CHR '','' # r)) = Some r"
  by (simp add: expect_def skip_ws_def)

lemma scan_written_members:
  assumes "kvs \<noteq> []" "\<forall>kv \<in> set kvs. scalar (snd kv)" "distinct (map fst (acc @ kvs))" "length kvs < n"
  shows "scan_members n acc (join '','' (map member_text kvs) @ CHR ''}'' # r) = Some (acc @ kvs, r)"
  using assms
proof (induction kvs arbitrary: acc n)
  case (Cons kv kvs)
  obtain k v where kv: "kv = (k, v)" by force
  obtain m where n: "n = Suc (Suc m)" using Cons.prems(4) by (metis Suc_lessE length_Cons less_imp_Suc_add)
  have fresh: "dset k v acc = acc @ [(k, v)]" using Cons.prems(3) kv by (intro dset_fresh) auto
  have v: "scalar v" using Cons.prems(2) kv by simp
  show ?case
  proof (cases kvs)
    case Nil
    have e: "ends_value (CHR ''}'' # r)" by (simp add: ends_value_def)
    show ?thesis using scan_one_member(1) [OF v e, of k] scan_one_member(2) [OF v e, of m] fresh
      by (simp add: kv Nil n del: scan_value.simps) (simp add: expect_def skip_ws_def)
  next
    case (Cons kv' kvs')
    let ?rest = "join '','' (map member_text kvs) @ CHR ''}'' # r"
    have e: "ends_value (CHR '','' # ?rest)" by (simp add: ends_value_def)
    have ih: "scan_members (Suc m) (acc @ [(k, v)]) ?rest = Some ((acc @ [(k, v)]) @ kvs, r)"
      by (rule Cons.IH) (use Cons.prems Cons kv n in auto)
    have "skip_ws ?rest = ?rest" unfolding Cons
      by (cases kvs') (simp_all add: skip_ws_def member_text_def dumps_string_def)
    moreover have "join '','' (map member_text (kv # kvs)) @ CHR ''}'' # r = member_text (k, v) @ CHR '','' # ?rest"
      by (simp add: Cons kv)
    ultimately show ?thesis using scan_one_member(1) [OF v e, of k] scan_one_member(2) [OF v e, of m] fresh ih
        expect_comma [of ?rest]
      by (simp only: n scan_members.simps option.case prod.case kv) (simp only: option.case fresh append_assoc append_Cons append_Nil)
  qed
qed simp

lemma insort_key_map: "(\<And>x. fst (g x) = fst x) \<Longrightarrow> insort_key fst (g x) (map g xs) = map g (insort_key fst x xs)"
  by (induction xs) simp_all

lemma sort_key_map: "(\<And>x. fst (g x) = fst x) \<Longrightarrow> sort_key fst (map g xs) = map g (sort_key fst xs)"
  by (induction xs) (simp_all add: insort_key_map)

lemma dumps_object: "json_dumps (JObj kvs) = CHR ''{'' # join '','' (map member_text (sort_key fst kvs)) @ ''}''"
proof -
  have "sort_key fst (map (\<lambda>(k, v). (k, json_dumps v)) kvs) = map (\<lambda>(k, v). (k, json_dumps v)) (sort_key fst kvs)"
    by (rule sort_key_map) auto
  moreover have "map (\<lambda>(k, v). dumps_string k @ '':'' @ v) (map (\<lambda>(k, v). (k, json_dumps v)) xs) = map member_text xs" for xs
    by (induction xs) (auto simp: member_text_def)
  ultimately show ?thesis by (simp only: json_dumps.simps append_Cons append_Nil)
qed

lemma length_join: "(\<And>x. x \<in> set xs \<Longrightarrow> x \<noteq> []) \<Longrightarrow> length xs \<le> length (join sep xs)"
proof (induction sep xs rule: join.induct)
  case (2 sep x)
  then show ?case by (cases x) auto
next
  case (3 sep x y ys)
  then have "length (y # ys) \<le> length (join sep (y # ys))" "x \<noteq> []" by simp_all
  then show ?case by (cases x) auto
qed simp

text \<open>An object of strings and integers is read back with its keys sorted.\<close>

lemma json_round_trip:
  assumes "kvs \<noteq> []" "\<forall>kv \<in> set kvs. scalar (snd kv)" "distinct (map fst kvs)"
  shows "json_loads (json_dumps (JObj kvs)) = Some (JObj (sort_key fst kvs))"
proof -
  let ?ks = "sort_key fst kvs" and ?t = "join '','' (map member_text (sort_key fst kvs))"
  have ne: "?ks \<noteq> []" using assms(1) by (metis length_0_conv length_sort)
  have "length (map member_text ?ks) \<le> length ?t"
    by (rule length_join) (auto simp: member_text_def dumps_string_def)
  then have "scan_members (2 * length (json_dumps (JObj kvs)) + 1) [] (?t @ ''}'') = Some ([] @ ?ks, [])"
    using assms by (intro scan_written_members) (auto simp: ne dumps_object distinct_map simp del: json_dumps.simps)
  moreover have "skip_ws (?t @ ''}'') = ?t @ ''}''" "expect (CHR ''}'') (?t @ ''}'') = None"
    using ne by (cases ?ks rule: list.exhaust; cases "tl ?ks"; auto simp: skip_ws_def expect_def member_text_def dumps_string_def)+
  moreover have "skip_ws (json_dumps (JObj kvs)) = json_dumps (JObj kvs)" by (simp add: dumps_object skip_ws_def del: json_dumps.simps)
  ultimately show ?thesis
    by (simp add: json_loads_def dumps_object del: scan_members.simps json_dumps.simps) (simp add: skip_ws_def)
qed

lemma json_escape_ascii: "is_ascii (json_escape c)"
proof (cases "map_of short_escapes c")
  case None
  have "byte (hex_char n) < 128" if "n < 16" for n using that by (auto simp: hex_char_def)
  moreover have "byte c div 16 < 16" "byte c mod 16 < 16" using byte_bound [of c] by (simp_all add: less_mult_imp_div_less)
  ultimately show ?thesis using None by (simp add: json_escape_def is_ascii_def)
qed (auto simp: json_escape_def is_ascii_def short_escapes_def split: if_splits)

lemma is_ascii_append [simp]: "is_ascii (s @ t) \<longleftrightarrow> is_ascii s \<and> is_ascii t"
  by (simp add: is_ascii_def)

lemma is_ascii_concat: "(\<And>x. x \<in> set xs \<Longrightarrow> is_ascii x) \<Longrightarrow> is_ascii (concat xs)"
  by (induction xs) (simp_all add: is_ascii_def)

lemma dumps_string_ascii: "is_ascii (dumps_string s)"
proof -
  have "is_ascii (concat (map json_escape s))" by (rule is_ascii_concat) (auto simp: json_escape_ascii)
  then show ?thesis by (simp add: dumps_string_def is_ascii_def)
qed

lemma show_int_ascii: "is_ascii (show_int i)"
proof -
  have "is_ascii (show_nat n)" for n
    unfolding is_ascii_def list_all_iff using set_show_nat_digits by (fastforce simp: is_digit_def Let_def)
  then show ?thesis by (auto simp: show_int_def is_ascii_def)
qed

lemma join_ascii: "is_ascii sep \<Longrightarrow> (\<And>x. x \<in> set xs \<Longrightarrow> is_ascii x) \<Longrightarrow> is_ascii (join sep xs)"
  by (induction sep xs rule: join.induct) (simp_all add: is_ascii_def)

lemma object_ascii:
  assumes "\<forall>kv \<in> set kvs. scalar (snd kv)" shows "is_ascii (json_dumps (JObj kvs))"
proof -
  have "is_ascii (json_dumps v)" if "scalar v" for v using that by (cases v) (simp_all add: show_int_ascii dumps_string_ascii)
  then have "is_ascii (join '','' (map member_text (sort_key fst kvs)))"
    using assms by (intro join_ascii) (auto simp: is_ascii_def member_text_def dumps_string_ascii [unfolded is_ascii_def])
  then show ?thesis by (simp add: dumps_object is_ascii_def del: json_dumps.simps)
qed

end
