(* ===== verification/SP_Auth.thy ===== *)
theory SP_Auth
  imports SP_Api SP_Oidc SP_Codec
begin

text \<open>
  From the bearer token of a request to its actor (\<open>api.py\<close>): the choice of the token pool, the identity context,
  internal administrators and their audit rows, and the signed state that carries an invitation through the
  login. HMAC-SHA256 and PyJWT are parameters.
\<close>

datatype pool = CustomerPool | InternalPool

record auth_config =
  ag_verifier :: "pool \<Rightarrow> verifier"
  ag_client :: oidc_client
  ag_unverified_claims :: "string \<Rightarrow> json option"
  ag_internal_admin_emails :: "string list"
  ag_state_secret :: string
  ag_hmac :: "string \<Rightarrow> string \<Rightarrow> string"

record verified_identity =
  vi_identity :: oidc_identity
  vi_pool :: pool

definition partition_at :: "char \<Rightarrow> string \<Rightarrow> string \<times> bool \<times> string" where
  "partition_at c s = (let p = takeWhile (\<lambda>x. x \<noteq> c) s in (p, c \<in> set s, drop (length p + 1) s))"

definition unauthorized :: "string \<Rightarrow> error" where
  "unauthorized dtl = HTTPException 401 dtl"

definition unverified_token_issuer :: "auth_config \<Rightarrow> string \<Rightarrow> string option" where
  "unverified_token_issuer ag token =
     (case ag_unverified_claims ag token of
        Some (JObj claims) \<Rightarrow> none_if_empty (py_strip (header_field claims ''iss''))
      | _ \<Rightarrow> None)"

definition candidate_pools :: "auth_config \<Rightarrow> string \<Rightarrow> pool list" where
  "candidate_pools ag token =
     (let named = (case unverified_token_issuer ag token of None \<Rightarrow> []
            | Some iss \<Rightarrow> filter (\<lambda>p. vr_issuer (ag_verifier ag p) = iss) [CustomerPool, InternalPool])
      in if named = [] then [CustomerPool, InternalPool] else named)"

fun try_pools ::
    "auth_config \<Rightarrow> rat \<Rightarrow> string \<Rightarrow> pool list \<Rightarrow> pool list \<Rightarrow> exn option \<Rightarrow> (pool \<Rightarrow> jwks_state)
     \<Rightarrow> (error + verified_identity) \<times> (pool \<Rightarrow> jwks_state)" where
  "try_pools ag now token expected [] last_error st =
     (Inl (unauthorized (case last_error of Some e \<Rightarrow> exn_text e | None \<Rightarrow> ''Invalid bearer token.'')), st)"
| "try_pools ag now token expected (p # ps) last_error st =
     (case verify_access_token (ag_verifier ag p) (ag_client ag) now token (st p) of
        (Inl e, s) \<Rightarrow>
          if exn_class e \<in> {''OIDCValidationError'', ''OIDCKeyRotationError''}
          then try_pools ag now token expected ps (Some e) (st(p := s))
          else (Inl (unhandled e), st(p := s))
      | (Inr idn, s) \<Rightarrow>
          if p \<notin> set expected then (Inl (forbidden ''Token issuer is not permitted for this endpoint.''), st(p := s))
          else (Inr \<lparr>vi_identity = idn, vi_pool = p\<rparr>, st(p := s)))"

definition require_verified_identity ::
    "auth_config \<Rightarrow> rat \<Rightarrow> string \<Rightarrow> pool list \<Rightarrow> (pool \<Rightarrow> jwks_state) \<Rightarrow> (error + verified_identity) \<times> (pool \<Rightarrow> jwks_state)" where
  "require_verified_identity ag now auth_header allowed st =
     (case partition_at (CHR '' '') auth_header of
        (scheme, _, token) \<Rightarrow>
          if py_lower scheme \<noteq> ''bearer'' \<or> token = [] then (Inl (unauthorized ''Missing or invalid bearer token.''), st)
          else try_pools ag now token (if allowed = [] then [CustomerPool] else allowed) (candidate_pools ag token) None st)"

definition require_api_auth ::
    "auth_config \<Rightarrow> rat \<Rightarrow> string \<Rightarrow> (pool \<Rightarrow> jwks_state) \<Rightarrow> (error + string) \<times> (pool \<Rightarrow> jwks_state)" where
  "require_api_auth ag now auth_header st =
     (case require_verified_identity ag now auth_header [CustomerPool] st of
        (Inl e, st') \<Rightarrow> (Inl e, st')
      | (Inr v, st') \<Rightarrow> (Inr (oi_subject (vi_identity v)), st'))"

subsection \<open>Identity context and internal administrators\<close>

definition normalized_email_from_identity :: "oidc_identity \<Rightarrow> string option" where
  "normalized_email_from_identity idn =
     (case map_of (oi_claims idn) ''email'' of
        None \<Rightarrow> None | Some JNull \<Rightarrow> None
      | Some raw \<Rightarrow> none_if_empty (py_lower (py_strip (py_str raw))))"

record identity_context =
  ix_actor :: string
  ix_email :: "string option"
  ix_pool :: pool
  ix_is_internal_admin :: bool

definition identity_context_of :: "auth_config \<Rightarrow> verified_identity \<Rightarrow> identity_context" where
  "identity_context_of ag v =
     (let email = normalized_email_from_identity (vi_identity v) in
      \<lparr>ix_actor = oi_subject (vi_identity v), ix_email = email, ix_pool = vi_pool v,
       ix_is_internal_admin = (vi_pool v = InternalPool \<and> email \<noteq> None \<and> the email \<in> set (ag_internal_admin_emails ag))\<rparr>)"

definition identity_context_for_request ::
    "auth_config \<Rightarrow> rat \<Rightarrow> string \<Rightarrow> pool list \<Rightarrow> (pool \<Rightarrow> jwks_state) \<Rightarrow> (error + identity_context) \<times> (pool \<Rightarrow> jwks_state)" where
  "identity_context_for_request ag now auth_header allowed st =
     (case require_verified_identity ag now auth_header allowed st of
        (Inl e, st') \<Rightarrow> (Inl e, st')
      | (Inr v, st') \<Rightarrow> (Inr (identity_context_of ag v), st'))"

record internal_admin =
  ia_actor :: string
  ia_email :: string

definition require_internal_admin ::
    "auth_config \<Rightarrow> rat \<Rightarrow> string \<Rightarrow> (pool \<Rightarrow> jwks_state) \<Rightarrow> (error + internal_admin) \<times> (pool \<Rightarrow> jwks_state)" where
  "require_internal_admin ag now auth_header st =
     (case identity_context_for_request ag now auth_header [InternalPool] st of
        (Inl e, st') \<Rightarrow> (Inl e, st')
      | (Inr c, st') \<Rightarrow>
          if falsy (ix_email c) \<or> \<not> ix_is_internal_admin c
          then (Inl (forbidden ''Internal admin access required''), st')
          else (Inr \<lparr>ia_actor = ix_actor c, ia_email = the (ix_email c)\<rparr>, st'))"

definition isoformat :: "time \<Rightarrow> string" where
  "isoformat t = map (\<lambda>c. if c = CHR '' '' then CHR ''T'' else c) (py_datetime_str t)"

definition request_id :: "string \<Rightarrow> string \<Rightarrow> string" where
  "request_id header fresh_uuid = (let raw = py_strip header in if raw \<noteq> [] then raw else fresh_uuid)"

definition write_internal_admin_audit_event ::
    "time \<Rightarrow> string \<Rightarrow> string option \<Rightarrow> string \<Rightarrow> string \<Rightarrow> string option \<Rightarrow> string option \<Rightarrow> json dict \<Rightarrow> database \<Rightarrow> database" where
  "write_internal_admin_audit_event now rid source_ip admin_email action target_tenant target_user details d =
     write_audit_event now admin_email action ''internal_tenant''
       (if \<not> falsy target_user then the target_user else if \<not> falsy target_tenant then the target_tenant else rid)
       target_tenant source_ip
       (dmerge [(''actor_email'', JStr admin_email), (''actor_pool'', JStr ''internal_pool''),
          (''target_tenant_id'', jstr_opt target_tenant), (''target_user_id'', jstr_opt target_user),
          (''request_id'', JStr rid), (''timestamp'', JStr (isoformat now))] details) None d"

text \<open>The audit is committed on its own; a failing commit is rolled back and only logged.\<close>

definition commit_internal_admin_audit_best_effort ::
    "bool \<Rightarrow> time \<Rightarrow> string \<Rightarrow> string option \<Rightarrow> string \<Rightarrow> string \<Rightarrow> string option \<Rightarrow> string option \<Rightarrow> json dict
     \<Rightarrow> database \<Rightarrow> database" where
  "commit_internal_admin_audit_best_effort commit_ok now rid source_ip admin_email action target_tenant target_user details d =
     (if commit_ok
      then write_internal_admin_audit_event now rid source_ip admin_email action target_tenant target_user details d
      else d)"

subsection \<open>The state of an invitation\<close>

record invite_state =
  is_tenant_id :: string
  is_user_id :: string
  is_token_id :: string
  is_exp :: int

definition invite_state_prefix :: string where
  "invite_state_prefix = ''sp_invite_v1''"

definition invite_state_ttl_seconds :: int where
  "invite_state_ttl_seconds = 10 * 60"

definition invite_state_body :: "invite_state \<Rightarrow> json dict" where
  "invite_state_body p = [(''kind'', JStr ''invite''), (''tenant_id'', JStr (is_tenant_id p)),
     (''user_id'', JStr (is_user_id p)), (''token_id'', JStr (is_token_id p)), (''exp'', JInt (is_exp p))]"

definition encode_invite_state :: "auth_config \<Rightarrow> invite_state \<Rightarrow> string" where
  "encode_invite_state ag p =
     (let body_enc = urlsafe_b64encode (json_dumps (JObj (invite_state_body p)));
          sig_enc = urlsafe_b64encode (ag_hmac ag (ag_state_secret ag) body_enc)
      in invite_state_prefix @ ''.'' @ body_enc @ ''.'' @ sig_enc)"

text \<open>The code reads UTF-8 and writes only ASCII; a text that is not ASCII is refused here.\<close>

definition invite_payload :: "string \<Rightarrow> json option" where
  "invite_payload body_enc =
     Option.bind (urlsafe_b64decode body_enc) (\<lambda>raw. if is_ascii raw then json_loads raw else None)"

definition text_field :: "json dict \<Rightarrow> string \<Rightarrow> string" where
  "text_field d k = py_strip (header_field d k)"

definition invite_state_of_payload :: "time \<Rightarrow> json dict \<Rightarrow> invite_state option" where
  "invite_state_of_payload now d =
     (if dget d ''kind'' JNull \<noteq> JStr ''invite'' then None
      else case py_int (dget d ''exp'' JNull) of
          Inl _ \<Rightarrow> None
        | Inr ex \<Rightarrow>
            if ex \<le> now div 1000000 then None
            else if text_field d ''tenant_id'' = [] \<or> text_field d ''user_id'' = [] \<or> text_field d ''token_id'' = [] then None
            else Some \<lparr>is_tenant_id = text_field d ''tenant_id'', is_user_id = text_field d ''user_id'',
              is_token_id = text_field d ''token_id'', is_exp = ex\<rparr>)"

definition decode_invite_state :: "auth_config \<Rightarrow> time \<Rightarrow> string option \<Rightarrow> error + invite_state option" where
  "decode_invite_state ag now state =
     (if falsy state then Inr None
      else case partition_at (CHR ''.'') (the state) of
        (pre, dot, remainder) \<Rightarrow>
          if pre \<noteq> invite_state_prefix \<or> \<not> dot then Inr None
          else case partition_at (CHR ''.'') remainder of
            (body_enc, dot2, sig_enc) \<Rightarrow>
              if \<not> dot2 \<or> body_enc = [] \<or> sig_enc = [] then Inr None
              else if \<not> is_ascii body_enc then Inl (ValueError ''ordinal not in range(128)'')
              else case urlsafe_b64decode sig_enc of
                  None \<Rightarrow> Inr None
                | Some provided \<Rightarrow>
                    if provided \<noteq> ag_hmac ag (ag_state_secret ag) body_enc then Inr None
                    else case invite_payload body_enc of
                        Some (JObj d) \<Rightarrow> Inr (invite_state_of_payload now d)
                      | _ \<Rightarrow> Inr None)"

subsection \<open>The state is read back as it was written, and only if it was signed\<close>

lemma partition_at_first: "c \<notin> set p \<Longrightarrow> partition_at c (p @ c # r) = (p, True, r)"
proof -
  assume "c \<notin> set p"
  then have "takeWhile (\<lambda>x. x \<noteq> c) (p @ c # r) = p" by (induction p) auto
  then show ?thesis by (simp add: partition_at_def Let_def)
qed

lemma partition_at_eq: "partition_at c s = (p, True, r) \<Longrightarrow> s = p @ c # r"
proof -
  assume a: "partition_at c s = (p, True, r)"
  then have p: "p = takeWhile (\<lambda>x. x \<noteq> c) s" and c: "c \<in> set s" and r: "r = drop (length p + 1) s"
    by (auto simp: partition_at_def Let_def)
  have "dropWhile (\<lambda>x. x \<noteq> c) s \<noteq> []" using c by simp
  then obtain t where t: "dropWhile (\<lambda>x. x \<noteq> c) s = c # t"
    using hd_dropWhile [of "\<lambda>x. x \<noteq> c" s] by (cases "dropWhile (\<lambda>x. x \<noteq> c) s") auto
  then have "s = p @ c # t" using p takeWhile_dropWhile_id [of "\<lambda>x. x \<noteq> c" s] by simp
  then show ?thesis using r by simp
qed

definition plain_text :: "string \<Rightarrow> bool" where
  "plain_text s \<longleftrightarrow> s \<noteq> [] \<and> py_strip s = s"

lemma invite_payload_written:
  "invite_payload (urlsafe_b64encode (json_dumps (JObj (invite_state_body p)))) =
     Some (JObj (sort_key fst (invite_state_body p)))"
proof -
  have "\<forall>kv \<in> set (invite_state_body p). scalar (snd kv)" by (simp add: invite_state_body_def)
  moreover have "distinct (map fst (invite_state_body p))" "invite_state_body p \<noteq> []" by (simp_all add: invite_state_body_def)
  ultimately show ?thesis
    by (simp add: invite_payload_def urlsafe_b64_round_trip object_ascii json_round_trip del: json_dumps.simps)
qed

lemma sorted_body:
  "sort_key fst (invite_state_body p) = [(''exp'', JInt (is_exp p)), (''kind'', JStr ''invite''),
     (''tenant_id'', JStr (is_tenant_id p)), (''token_id'', JStr (is_token_id p)), (''user_id'', JStr (is_user_id p))]"
  by (simp add: invite_state_body_def)

lemma invite_state_decoded:
  assumes "plain_text (is_tenant_id p)" "plain_text (is_user_id p)" "plain_text (is_token_id p)"
    and "now div 1000000 < is_exp p" and "ag_hmac ag (ag_state_secret ag) = mac" "\<And>m. mac m \<noteq> []"
  shows "decode_invite_state ag now (Some (encode_invite_state ag p)) = Inr (Some p)"
proof -
  let ?b = "urlsafe_b64encode (json_dumps (JObj (invite_state_body p)))" and ?s = "urlsafe_b64encode (mac (urlsafe_b64encode (json_dumps (JObj (invite_state_body p)))))"
  have st: "encode_invite_state ag p = invite_state_prefix @ CHR ''.'' # ?b @ CHR ''.'' # ?s"
    using assms(5) by (simp add: encode_invite_state_def Let_def)
  have "partition_at (CHR ''.'') (encode_invite_state ag p) = (invite_state_prefix, True, ?b @ CHR ''.'' # ?s)"
    unfolding st by (rule partition_at_first) (simp add: invite_state_prefix_def)
  moreover have "partition_at (CHR ''.'') (?b @ CHR ''.'' # ?s) = (?b, True, ?s)"
    by (rule partition_at_first) (rule urlsafe_b64encode_ok(2))
  moreover have "?b \<noteq> []" "?s \<noteq> []" using assms(6) by (auto simp: dumps_object urlsafe_b64encode_ok simp del: json_dumps.simps)
  moreover have "invite_state_of_payload now (sort_key fst (invite_state_body p)) = Some p"
    using assms(1-4) by (cases p) (simp add: sorted_body invite_state_of_payload_def text_field_def header_field_def dget_def plain_text_def py_str_def)
  ultimately show ?thesis
    using urlsafe_b64encode_ok(1) assms(5)
    by (simp add: decode_invite_state_def falsy_def urlsafe_b64_round_trip invite_payload_written st del: json_dumps.simps)
qed

lemma decode_invite_state_Inr:
  assumes "decode_invite_state ag now state = Inr (Some p)"
  obtains body sig where "state = Some (invite_state_prefix @ ''.'' @ body @ ''.'' @ sig)"
    "urlsafe_b64decode sig = Some (ag_hmac ag (ag_state_secret ag) body)" "now div 1000000 < is_exp p"
    "\<exists>d. invite_payload body = Some (JObj d) \<and> invite_state_of_payload now d = Some p"
proof -
  obtain s where s: "state = Some s" using assms by (cases state) (auto simp: decode_invite_state_def falsy_def)
  obtain pre dot rest where p1: "partition_at (CHR ''.'') s = (pre, dot, rest)" by (metis prod_cases3)
  obtain body dot2 sig where p2: "partition_at (CHR ''.'') rest = (body, dot2, sig)" by (metis prod_cases3)
  note run = assms [unfolded decode_invite_state_def s option.sel p1 p2 prod.case]
  have f: "pre = invite_state_prefix" "dot" "dot2" "\<exists>d. invite_payload body = Some (JObj d) \<and> invite_state_of_payload now d = Some p"
    "urlsafe_b64decode sig = Some (ag_hmac ag (ag_state_secret ag) body)"
    using run by (auto split: if_splits option.splits json.splits)
  have "s = pre @ CHR ''.'' # body @ CHR ''.'' # sig"
    using partition_at_eq [of "CHR ''.''" s pre rest] partition_at_eq [of "CHR ''.''" rest body sig] p1 p2 f(2,3) by simp
  moreover have "now div 1000000 < is_exp p"
    using f(4) by (auto simp: invite_state_of_payload_def split: if_splits sum.splits)
  ultimately show thesis using that f s by simp
qed

lemma invite_state_of_payload_Some:
  assumes "invite_state_of_payload now d = Some p"
  obtains ex where "dget d ''kind'' JNull = JStr ''invite''" "py_int (dget d ''exp'' JNull) = Inr ex" "now div 1000000 < ex"
    "is_tenant_id p = text_field d ''tenant_id''" "is_user_id p = text_field d ''user_id''" "is_token_id p = text_field d ''token_id''"
  using assms by (auto simp: invite_state_of_payload_def split: if_splits sum.splits)

subsection \<open>Who is authenticated\<close>

lemma try_pools_Inr:
  assumes "try_pools ag now token expected ps le st = (Inr v, st')"
  shows "vi_pool v \<in> set expected \<and> vi_pool v \<in> set ps \<and>
    (\<exists>s. verify_access_token (ag_verifier ag (vi_pool v)) (ag_client ag) now token s = (Inr (vi_identity v), st' (vi_pool v)))"
  using assms
proof (induction ps arbitrary: le st)
  case (Cons p ps)
  obtain r s where r: "verify_access_token (ag_verifier ag p) (ag_client ag) now token (st p) = (r, s)" by force
  show ?case
  proof (cases r)
    case (Inl e)
    then show ?thesis using Cons r by (auto split: if_splits)
  next
    case (Inr idn)
    then show ?thesis using Cons.prems r by (auto split: if_splits intro: exI [where x = "st p"])
  qed
qed simp

lemma require_verified_identity_Inr:
  assumes "require_verified_identity ag now header allowed st = (Inr v, st')" "allowed \<noteq> []"
  obtains scheme dot token s where "partition_at (CHR '' '') header = (scheme, dot, token)" "py_lower scheme = ''bearer''"
    "vi_pool v \<in> set allowed"
    "verify_access_token (ag_verifier ag (vi_pool v)) (ag_client ag) now token s = (Inr (vi_identity v), st' (vi_pool v))"
proof -
  obtain scheme dot token where h: "partition_at (CHR '' '') header = (scheme, dot, token)" by (metis prod_cases3)
  have "py_lower scheme = ''bearer''" "try_pools ag now token allowed (candidate_pools ag token) None st = (Inr v, st')"
    using assms by (auto simp: require_verified_identity_def h split: if_splits)
  then show thesis using that h try_pools_Inr by blast
qed

end
