(* ===== verification/SP_Email.thy ===== *)
theory SP_Email
  imports SP_Wire
begin

text \<open>
  \<open>invite_email.py\<close>: mails through Resend, with bounded retries. An HTTP attempt either fails in transport or
  answers a status and, if it is JSON, a body; the delays between attempts are left out.
\<close>

record email_settings =
  em_api_key :: string
  em_from :: string
  em_reply_to :: string

datatype http_outcome = TransportError | Response int "json option"

record delivery =
  dv_provider :: string
  dv_recipient :: string
  dv_status :: string
  dv_message_id :: "string option"
  dv_failure_detail :: "string option"

definition email_exn :: "string \<Rightarrow> string \<Rightarrow> exn" where
  "email_exn cls dtl = \<lparr>exn_class = cls, exn_text = dtl, exn_code = None, exn_aws = False\<rparr>"

definition configuration_error :: "string \<Rightarrow> exn" where
  "configuration_error dtl = email_exn ''InviteEmailConfigurationError'' dtl"

definition delivery_error :: "string \<Rightarrow> exn" where
  "delivery_error dtl = email_exn ''InviteEmailDeliveryError'' dtl"

definition resend_send_max_attempts :: nat where
  "resend_send_max_attempts = 3"

definition html_escape_char :: "char \<Rightarrow> string" where
  "html_escape_char c = (if c = CHR ''&'' then ''&amp;'' else if c = CHR ''<'' then ''&lt;'' else if c = CHR ''>'' then ''&gt;''
     else if c = CHR 0x22 then ''&quot;'' else if c = CHR 0x27 then ''&#x27;'' else [c])"

definition html_escape :: "string \<Rightarrow> string" where
  "html_escape s = concat (map html_escape_char s)"

definition invite_email_subject :: "string \<Rightarrow> string" where
  "invite_email_subject tenant_name = ''SparkPilot invite for '' @ tenant_name"

definition newline :: string where
  "newline = [CHR 0x0A]"

definition invite_email_text :: "string \<Rightarrow> string \<Rightarrow> int \<Rightarrow> string" where
  "invite_email_text tenant_name invite_url ttl_hours =
     ''You have been invited to administer '' @ tenant_name @ '' in SparkPilot.'' @ newline @ newline @
     ''Accept the invite: '' @ invite_url @ newline @ newline @
     ''This link expires in '' @ show_int ttl_hours @ '' hours. If you were not expecting this '' @
     ''invite, ignore this email.''"

definition invite_email_html :: "string \<Rightarrow> string \<Rightarrow> int \<Rightarrow> string" where
  "invite_email_html tenant_name invite_url ttl_hours =
     ''<p>You have been invited to administer '' @ ''<strong>'' @ html_escape tenant_name @ ''</strong> in SparkPilot.</p>'' @
     ''<p><a href='' @ [CHR 0x22] @ html_escape invite_url @ [CHR 0x22] @ ''>Accept invite</a></p>'' @
     ''<p>This link expires in '' @ show_int ttl_hours @ '' hours. If you were not expecting '' @
     ''this invite, ignore this email.</p>''"

definition configured_resend_email_settings :: "email_settings \<Rightarrow> exn + string \<times> string \<times> string" where
  "configured_resend_email_settings es =
     (if py_strip (em_api_key es) = [] then Inl (configuration_error ''SPARKPILOT_RESEND_API_KEY is not configured.'')
      else if py_strip (em_from es) = [] then Inl (configuration_error ''SPARKPILOT_INVITE_EMAIL_FROM is not configured.'')
      else Inr (py_strip (em_api_key es), py_strip (em_from es), py_strip (em_reply_to es)))"

text \<open>The loop over attempts: \<open>k\<close> are left, \<open>a\<close> is the number of the next.\<close>

fun resend_attempts :: "(nat \<Rightarrow> http_outcome) \<Rightarrow> nat \<Rightarrow> nat \<Rightarrow> exn + int \<times> json option" where
  "resend_attempts post 0 a = Inl (delivery_error ''Resend email request failed.'')"
| "resend_attempts post (Suc k) a =
     (case post a of
        TransportError \<Rightarrow> if k = 0 then Inl (delivery_error ''Resend email request failed.'') else resend_attempts post k (a + 1)
      | Response st body \<Rightarrow> if st < 500 \<and> st \<noteq> 429 \<or> k = 0 then Inr (st, body) else resend_attempts post k (a + 1))"

definition provider_message_id :: "json option \<Rightarrow> string option" where
  "provider_message_id body =
     (case body of
        Some (JObj d) \<Rightarrow> (case dget d ''id'' JNull of JStr s \<Rightarrow> (let t = py_strip s in if t = [] then None else Some t) | _ \<Rightarrow> None)
      | _ \<Rightarrow> None)"

definition post_resend_email ::
    "email_settings \<Rightarrow> (string \<Rightarrow> json \<Rightarrow> string \<Rightarrow> nat \<Rightarrow> http_outcome) \<Rightarrow> json \<Rightarrow> string \<Rightarrow> exn + string option" where
  "post_resend_email es post payload idempotency_key =
     rbind (configured_resend_email_settings es) (\<lambda>(api_key, _, _).
     rbind (resend_attempts (post api_key payload (take 256 idempotency_key)) resend_send_max_attempts 1) (\<lambda>(st, body).
     if st \<ge> 400 then Inl (delivery_error ''Resend email request was rejected.'')
     else Inr (provider_message_id body)))"

definition tag :: "string \<Rightarrow> string \<Rightarrow> json" where
  "tag name value = JObj [(''name'', JStr name), (''value'', JStr value)]"

definition send_invite_email ::
    "email_settings \<Rightarrow> (string \<Rightarrow> json \<Rightarrow> string \<Rightarrow> nat \<Rightarrow> http_outcome) \<Rightarrow> string \<Rightarrow> string \<Rightarrow> string \<Rightarrow> string \<Rightarrow> string
     \<Rightarrow> int \<Rightarrow> string \<Rightarrow> exn + delivery" where
  "send_invite_email es post recipient tenant_name invite_url tenant_id user_id ttl_hours idempotency_key =
     rbind (configured_resend_email_settings es) (\<lambda>(_, from_email, reply_to).
     let payload = [(''from'', JStr from_email), (''to'', JArr [JStr recipient]),
           (''subject'', JStr (invite_email_subject tenant_name)),
           (''text'', JStr (invite_email_text tenant_name invite_url ttl_hours)),
           (''html'', JStr (invite_email_html tenant_name invite_url ttl_hours)),
           (''tags'', JArr [tag ''tenant_id'' tenant_id, tag ''user_id'' user_id, tag ''purpose'' ''invite_accept''])];
         payload' = (if reply_to = [] then payload else dset ''reply_to'' (JStr reply_to) payload)
     in rbind (post_resend_email es post (JObj payload') idempotency_key) (\<lambda>mid.
        Inr \<lparr>dv_provider = ''resend'', dv_recipient = recipient, dv_status = ''sent'', dv_message_id = mid,
          dv_failure_detail = None\<rparr>))"

subsection \<open>Contact requests\<close>

definition contact_request_subject :: "string \<Rightarrow> string option \<Rightarrow> string" where
  "contact_request_subject name company =
     (let n = (if py_strip name = [] then ''Unknown'' else py_strip name);
          c = py_strip (case company of None \<Rightarrow> [] | Some c \<Rightarrow> c)
      in if c \<noteq> [] then ''SparkPilot request from '' @ n @ '' at '' @ c else ''SparkPilot request from '' @ n)"

definition or_dash :: "string option \<Rightarrow> string" where
  "or_dash s = (let t = py_strip (case s of None \<Rightarrow> [] | Some x \<Rightarrow> x) in if t = [] then ''-'' else t)"

record contact_mail =
  cm_name :: string
  cm_email :: string
  cm_company :: "string option"
  cm_use_case :: "string option"
  cm_message :: "string option"
  cm_source_url :: "string option"
  cm_submitted :: string
  cm_request_id :: string

definition contact_request_text :: "contact_mail \<Rightarrow> string" where
  "contact_request_text m = join newline
     [''New SparkPilot request'', [], ''Name: '' @ cm_name m, ''Email: '' @ cm_email m, ''Company: '' @ or_dash (cm_company m),
      ''Use case: '' @ or_dash (cm_use_case m), ''Source: '' @ or_dash (cm_source_url m), ''Submitted: '' @ cm_submitted m,
      ''Request ID: '' @ cm_request_id m, [], ''Message:'', or_dash (cm_message m)]"

definition contact_row :: "string \<times> string \<Rightarrow> string" where
  "contact_row lv = ''<tr><th align='' @ [CHR 0x22] @ ''left'' @ [CHR 0x22] @ ''>'' @ html_escape (fst lv) @ ''</th><td>'' @
     html_escape (snd lv) @ ''</td></tr>''"

definition break_lines :: "string \<Rightarrow> string" where
  "break_lines s = concat (map (\<lambda>c. if c = CHR 0x0A then ''<br>'' else [c]) s)"

definition contact_request_html :: "contact_mail \<Rightarrow> string" where
  "contact_request_html m =
     (let rows = [(''Name'', cm_name m), (''Email'', cm_email m), (''Company'', or_dash (cm_company m)),
            (''Use case'', or_dash (cm_use_case m)), (''Source'', or_dash (cm_source_url m)),
            (''Submitted'', cm_submitted m), (''Request ID'', cm_request_id m)]
      in ''<p>New SparkPilot request.</p>'' @ ''<table>'' @ concat (map contact_row rows) @ ''</table>'' @
         ''<p><strong>Message</strong></p>'' @ ''<p>'' @ break_lines (html_escape (or_dash (cm_message m))) @ ''</p>'')"

definition send_contact_request_email ::
    "email_settings \<Rightarrow> (string \<Rightarrow> json \<Rightarrow> string \<Rightarrow> nat \<Rightarrow> http_outcome) \<Rightarrow> string \<Rightarrow> contact_mail \<Rightarrow> string
     \<Rightarrow> exn + string option" where
  "send_contact_request_email es post recipient m idempotency_key =
     rbind (configured_resend_email_settings es) (\<lambda>(_, from_email, _).
     post_resend_email es post (JObj [(''from'', JStr from_email), (''to'', JArr [JStr recipient]),
       (''subject'', JStr (contact_request_subject (cm_name m) (cm_company m))), (''text'', JStr (contact_request_text m)),
       (''html'', JStr (contact_request_html m)), (''reply_to'', JStr (cm_email m)),
       (''tags'', JArr [tag ''purpose'' ''contact_request'', tag ''request_id'' (take 256 (cm_request_id m))])])
       idempotency_key)"

subsection \<open>Lemmas\<close>

text \<open>A value put into the page opens and closes no tag and ends no attribute.\<close>

lemma html_escape_no_markup: "c \<in> set (html_escape s) \<Longrightarrow> c \<notin> {CHR ''<'', CHR ''>'', CHR 0x22, CHR 0x27}"
  by (auto simp: html_escape_def html_escape_char_def split: if_splits)

text \<open>Every \<open>&\<close> in an escaped text starts one of the five entities, so the text can be read back.\<close>

fun html_unescape :: "string \<Rightarrow> string" where
  "html_unescape [] = []"
| "html_unescape (c # cs) =
     (if prefix ''&amp;'' (c # cs) then CHR ''&'' # html_unescape (drop 5 (c # cs))
      else if prefix ''&lt;'' (c # cs) then CHR ''<'' # html_unescape (drop 4 (c # cs))
      else if prefix ''&gt;'' (c # cs) then CHR ''>'' # html_unescape (drop 4 (c # cs))
      else if prefix ''&quot;'' (c # cs) then CHR 0x22 # html_unescape (drop 6 (c # cs))
      else if prefix ''&#x27;'' (c # cs) then CHR 0x27 # html_unescape (drop 6 (c # cs))
      else c # html_unescape cs)"

lemma html_unescape_escape: "html_unescape (html_escape s) = s"
proof (induction s)
  case (Cons c cs)
  have e: "html_escape (c # cs) = html_escape_char c @ html_escape cs" by (simp add: html_escape_def)
  show ?case using Cons unfolding e by (auto simp: html_escape_char_def)
qed (simp add: html_escape_def)

text \<open>At most three requests are made, and another only after a transport error or a status that may pass.\<close>

lemma resend_attempts_Inr:
  "resend_attempts post k a = Inr (st, body) \<Longrightarrow>
     \<exists>i < k. post (a + i) = Response st body \<and> (\<forall>j < i. post (a + j) = TransportError \<or>
       (\<exists>st' b'. post (a + j) = Response st' b' \<and> (st' \<ge> 500 \<or> st' = 429)))"
proof (induction k arbitrary: a)
  case (Suc k)
  show ?case
  proof (cases "(\<exists>st b. post a = Response st b \<and> (st < 500 \<and> st \<noteq> 429 \<or> k = 0))")
    case True
    then show ?thesis using Suc.prems by (intro exI [where x = 0]) auto
  next
    case False
    then have r: "resend_attempts post k (a + 1) = Inr (st, body)"
      and f: "post a = TransportError \<or> (\<exists>st' b'. post a = Response st' b' \<and> (st' \<ge> 500 \<or> st' = 429))"
      using Suc.prems by (auto split: http_outcome.splits if_splits)
    obtain i where i: "i < k" "post (a + 1 + i) = Response st body" "\<forall>j < i. post (a + 1 + j) = TransportError \<or>
       (\<exists>st' b'. post (a + 1 + j) = Response st' b' \<and> (st' \<ge> 500 \<or> st' = 429))"
      using Suc.IH [OF r] by blast
    have "post (a + j) = TransportError \<or> (\<exists>st' b'. post (a + j) = Response st' b' \<and> (st' \<ge> 500 \<or> st' = 429))" if "j < Suc i" for j
      using that f i(3) by (cases j) auto
    then show ?thesis using i(1,2) by (intro exI [where x = "Suc i"]) auto
  qed
qed simp

end
