(* ===== verification/SP_Invites.thy ===== *)
theory SP_Invites
  imports SP_Auth SP_Email
begin

text \<open>
  \<open>services/internal_admin.py\<close> and the routes of \<open>api.py\<close> on it: tenants with an invited administrator, magic
  links, and the login that maps a verified subject to the invited user. The digest of a link token is a
  parameter; UUIDs and the random token come with the call. The lifecycle webhook runs in a thread of its own
  and changes nothing here.
\<close>

record invite_settings =
  iv_auth :: auth_config
  iv_email :: email_settings
  iv_post :: "string \<Rightarrow> json \<Rightarrow> string \<Rightarrow> nat \<Rightarrow> http_outcome"
  iv_digest :: "string \<Rightarrow> string"
  iv_ttl_hours :: int
  iv_accept_url :: string
  iv_hosted_ui_url :: string
  iv_app_base_url :: string
  iv_environment_name :: string

text \<open>
  One call: the outcome of the token check (\<open>SP_Auth\<close>), the clock, fresh UUIDs, the random token, and
  whether the commits of the two audit rows succeed.
\<close>

record invite_call =
  vc_admin :: "error + internal_admin"
  vc_identity :: "error + identity_context"
  vc_source_ip :: "string option"
  vc_now :: time
  vc_uuid :: "nat \<Rightarrow> string"
  vc_plain_token :: string
  vc_request_id :: string
  vc_origin :: string
  vc_email_audit_ok :: bool
  vc_admin_audit_ok :: bool

record tenant_draft =
  dr_tenant :: tenant
  dr_user :: user
  dr_invite_url :: string
  dr_token_id :: string

record provision_result =
  pr_tenant :: tenant
  pr_user :: user
  pr_email :: delivery

definition invite_accept_purpose :: string where
  "invite_accept_purpose = ''invite_accept''"

definition us_per_hour :: int where
  "us_per_hour = 3600000000"

definition normalize_email :: "string \<Rightarrow> error + string" where
  "normalize_email v =
     (let email = py_lower (py_strip v) in
      if email = [] \<or> CHR ''@'' \<notin> set email then Inl (ValidationError ''admin_email must be a valid email address.'')
      else Inr email)"

definition invite_token ::
    "invite_settings \<Rightarrow> invite_call \<Rightarrow> string \<Rightarrow> string \<Rightarrow> string \<Rightarrow> string \<Rightarrow> time \<Rightarrow> magic_link_token" where
  "invite_token iv vc i uid tid created_by expires_at =
     \<lparr>mlt_id = i, mlt_token_hash = iv_digest iv (vc_plain_token vc), mlt_user_id = uid, mlt_tenant_id = tid,
      mlt_purpose = invite_accept_purpose, mlt_expires_at = expires_at, mlt_consumed_at = None,
      mlt_callback_consumed_at = None, mlt_created_at = vc_now vc, mlt_created_by = created_by\<rparr>"

text \<open>The insert of a token; the unique constraint refuses a digest that is there already.\<close>

definition create_magic_link_token ::
    "invite_settings \<Rightarrow> invite_call \<Rightarrow> string \<Rightarrow> string \<Rightarrow> string \<Rightarrow> string \<Rightarrow> time \<Rightarrow> database
     \<Rightarrow> error + magic_link_token \<times> database" where
  "create_magic_link_token iv vc i uid tid created_by expires_at d =
     (let r = invite_token iv vc i uid tid created_by expires_at
      in if list_ex (\<lambda>t. mlt_token_hash t = mlt_token_hash r) (db_tokens d)
         then Inl (IntegrityError ''uq_magic_link_tokens_token_hash'')
         else Inr (r, add_token r d))"

definition log_magic_link_issued ::
    "time \<Rightarrow> string \<Rightarrow> string \<Rightarrow> string \<Rightarrow> string \<Rightarrow> database \<Rightarrow> database" where
  "log_magic_link_issued now uid tid created_by url d =
     d\<lparr>db_token_logs := db_token_logs d @
       [\<lparr>mll_user_id = uid, mll_tenant_id = tid, mll_purpose = invite_accept_purpose,
         mll_url = takeWhile (\<lambda>c. c \<noteq> CHR ''?'') url, mll_created_by = created_by, mll_created_at = now\<rparr>]\<rparr>"

text \<open>Sending never fails the request; its audit row is committed on its own, or lost.\<close>

definition send_invite_email_and_audit ::
    "invite_settings \<Rightarrow> invite_call \<Rightarrow> tenant \<Rightarrow> user \<Rightarrow> string \<Rightarrow> string \<Rightarrow> string \<Rightarrow> string \<Rightarrow> database
     \<Rightarrow> delivery \<times> database" where
  "send_invite_email_and_audit iv vc t u created_by url mail_key failure d =
     (let audit = (\<lambda>action details. if vc_email_audit_ok vc
            then write_audit_event (vc_now vc) created_by action ''user'' (usr_id u) (Some (ten_id t)) (vc_source_ip vc)
              details None d
            else d)
      in case send_invite_email (iv_email iv) (iv_post iv) (usr_email u) (ten_name t) url (ten_id t) (usr_id u)
             (iv_ttl_hours iv) mail_key of
          Inl e \<Rightarrow>
            (\<lparr>dv_provider = ''resend'', dv_recipient = usr_email u, dv_status = ''failed'', dv_message_id = None,
              dv_failure_detail = Some failure\<rparr>,
             audit ''user.invite_email_failed'' [(''email'', JStr (usr_email u)), (''provider'', JStr ''resend''),
               (''error_type'', JStr (exn_class e))])
        | Inr dv \<Rightarrow>
            (dv, audit ''user.invite_email_sent'' [(''email'', JStr (usr_email u)), (''provider'', JStr (dv_provider dv)),
               (''provider_message_id'', jstr_opt (dv_message_id dv))]))"

definition unconsumed_invite_of :: "string \<Rightarrow> magic_link_token \<Rightarrow> bool" where
  "unconsumed_invite_of uid t \<longleftrightarrow>
     mlt_user_id t = uid \<and> mlt_purpose t = invite_accept_purpose \<and> mlt_consumed_at t = None"

definition invalidate_unconsumed_user_invites :: "string \<Rightarrow> time \<Rightarrow> database \<Rightarrow> database" where
  "invalidate_unconsumed_user_invites uid now d =
     d\<lparr>db_tokens := map (\<lambda>t. if unconsumed_invite_of uid t then t\<lparr>mlt_consumed_at := Some now\<rparr> else t) (db_tokens d)\<rparr>"

text \<open>The token, its log row and the audit row both operations that issue an invitation write.\<close>

definition issue_invite ::
    "invite_settings \<Rightarrow> invite_call \<Rightarrow> string \<Rightarrow> string \<Rightarrow> string \<Rightarrow> tenant \<Rightarrow> user \<Rightarrow> database
     \<Rightarrow> error + tenant_draft \<times> database" where
  "issue_invite iv vc token_uuid action created_by t u d =
     (let expires_at = vc_now vc + iv_ttl_hours iv * us_per_hour in
      rbind (create_magic_link_token iv vc token_uuid (usr_id u) (ten_id t) created_by expires_at d) (\<lambda>(row, d1).
      let url = iv_accept_url iv @ ''?token='' @ vc_plain_token vc in
      Inr (\<lparr>dr_tenant = t, dr_user = u, dr_invite_url = url, dr_token_id = mlt_id row\<rparr>,
        write_audit_event (vc_now vc) created_by action ''user'' (usr_id u) (Some (ten_id t)) (vc_source_ip vc)
          [(''email'', JStr (usr_email u)), (''invite_expires_at'', JStr (isoformat expires_at))] None
          (log_magic_link_issued (vc_now vc) (usr_id u) (ten_id t) created_by url d1))))"

record internal_tenant_create =
  it_name :: string
  it_admin_email :: string
  it_federation_type :: string
  it_idp_metadata :: "json option"

definition invited_user :: "time \<Rightarrow> string \<Rightarrow> string \<Rightarrow> string \<Rightarrow> user" where
  "invited_user now i tid email =
     \<lparr>usr_id = i, usr_tenant_id = tid, usr_email = email, usr_role = ''admin'', usr_invited_at = Some now,
      usr_invite_consumed_at = None, usr_last_login_at = None, usr_created_at = now, usr_updated_at = now\<rparr>"

definition draft_tenant_with_admin ::
    "invite_settings \<Rightarrow> invite_call \<Rightarrow> string \<Rightarrow> internal_tenant_create \<Rightarrow> database \<Rightarrow> error + tenant_draft \<times> database" where
  "draft_tenant_with_admin iv vc created_by req d =
     rbind (create_tenant (vc_now vc) (vc_uuid vc 0)
       \<lparr>tc_name = it_name req, tc_federation_type = it_federation_type req, tc_idp_metadata = it_idp_metadata req\<rparr>
       created_by (vc_source_ip vc) d) (\<lambda>(t, d1).
     rbind (normalize_email (it_admin_email req)) (\<lambda>email.
     if list_ex (\<lambda>u. usr_tenant_id u = ten_id t \<and> usr_email u = email) (db_users d1)
     then Inl (ConflictError ''Admin email already exists for tenant.'')
     else let u = invited_user (vc_now vc) (vc_uuid vc 1) (ten_id t) email in
       issue_invite iv vc (vc_uuid vc 2) ''user.invite_created'' created_by t u (add_user u d1)))"

definition tenant_created_failure :: string where
  "tenant_created_failure = ''Tenant was created, but invite email delivery failed. '' @
     ''Fix invite email configuration and regenerate the invite from tenant detail.''"

definition invite_regenerated_failure :: string where
  "invite_regenerated_failure = ''Invite was regenerated, but invite email delivery failed. '' @
     ''Fix invite email configuration and regenerate the invite again.''"

definition send_admin_invite ::
    "invite_settings \<Rightarrow> invite_call \<Rightarrow> string \<Rightarrow> string \<Rightarrow> tenant_draft \<Rightarrow> database \<Rightarrow> provision_result \<times> database" where
  "send_admin_invite iv vc created_by failure dr d =
     (case send_invite_email_and_audit iv vc (dr_tenant dr) (dr_user dr) created_by (dr_invite_url dr)
             (''invite:'' @ dr_token_id dr) failure d of
        (dv, d') \<Rightarrow> (\<lparr>pr_tenant = dr_tenant dr, pr_user = dr_user dr, pr_email = dv\<rparr>, d'))"

definition create_tenant_with_admin_invite ::
    "invite_settings \<Rightarrow> invite_call \<Rightarrow> string \<Rightarrow> internal_tenant_create \<Rightarrow> database \<Rightarrow> error + provision_result \<times> database" where
  "create_tenant_with_admin_invite iv vc created_by req d =
     rbind (draft_tenant_with_admin iv vc created_by req d) (\<lambda>(dr, d1).
     Inr (send_admin_invite iv vc created_by tenant_created_failure dr d1))"

definition regenerate_user_invite ::
    "invite_settings \<Rightarrow> invite_call \<Rightarrow> string \<Rightarrow> string \<Rightarrow> string \<Rightarrow> database \<Rightarrow> error + provision_result \<times> database" where
  "regenerate_user_invite iv vc created_by tid uid d =
     rbind (require_tenant d tid) (\<lambda>t.
     case get_user d uid of
       None \<Rightarrow> Inl (EntityNotFoundError ''User not found.'')
     | Some u \<Rightarrow>
         if usr_tenant_id u \<noteq> tid then Inl (EntityNotFoundError ''User not found.'')
         else let now = vc_now vc; f = (\<lambda>u. u\<lparr>usr_invited_at := Some now\<rparr>) in
           rbind (issue_invite iv vc (vc_uuid vc 0) ''user.invite_regenerated'' created_by t (upd_user now f u)
             (modify_user now uid f (invalidate_unconsumed_user_invites uid now d))) (\<lambda>(dr, d1).
           Inr (send_admin_invite iv vc created_by invite_regenerated_failure dr d1)))"

subsection \<open>Tenants as the internal administrator sees them\<close>

definition tenant_admin :: "database \<Rightarrow> string \<Rightarrow> user option" where
  "tenant_admin d tid =
     (case sort_key usr_created_at (sort_key usr_id (filter (\<lambda>u. usr_role u = ''admin'' \<and> usr_tenant_id u = tid) (db_users d))) of
        [] \<Rightarrow> None | u # _ \<Rightarrow> Some u)"

definition list_internal_tenant_summaries :: "database \<Rightarrow> (tenant \<times> string option \<times> time option) list" where
  "list_internal_tenant_summaries d =
     map (\<lambda>t. (t, map_option usr_email (tenant_admin d (ten_id t)), Option.bind (tenant_admin d (ten_id t)) usr_last_login_at))
       (sort_desc ten_created_at (db_tenants d))"

definition get_internal_tenant_detail :: "database \<Rightarrow> string \<Rightarrow> error + tenant \<times> user list" where
  "get_internal_tenant_detail d tid =
     rbind (require_tenant d tid) (\<lambda>t.
     Inr (t, sort_key usr_created_at (filter (\<lambda>u. usr_tenant_id u = tid) (db_users d))))"

definition invite_expires_at :: "database \<Rightarrow> string \<Rightarrow> string \<Rightarrow> time option" where
  "invite_expires_at d tid uid =
     (case map mlt_expires_at (filter (\<lambda>t. mlt_tenant_id t = tid \<and> unconsumed_invite_of uid t) (db_tokens d)) of
        [] \<Rightarrow> None | x # xs \<Rightarrow> Some (fold max xs x))"

subsection \<open>Accepting an invitation\<close>

text \<open>
  A conditional update of the unconsumed, unexpired tokens with the digest; unless it changes exactly one row
  the reason is looked up.
\<close>

definition is_invite :: "string \<Rightarrow> magic_link_token \<Rightarrow> bool" where
  "is_invite digest t \<longleftrightarrow> mlt_token_hash t = digest \<and> mlt_purpose t = invite_accept_purpose"

definition acceptable :: "string \<Rightarrow> time \<Rightarrow> magic_link_token \<Rightarrow> bool" where
  "acceptable digest now t \<longleftrightarrow> is_invite digest t \<and> mlt_consumed_at t = None \<and> mlt_expires_at t > now"

definition refuse_invite_token :: "string \<Rightarrow> time \<Rightarrow> database \<Rightarrow> error" where
  "refuse_invite_token digest now d =
     (case find (is_invite digest) (db_tokens d) of
        None \<Rightarrow> EntityNotFoundError ''Invite token not found.''
      | Some t \<Rightarrow>
          if mlt_consumed_at t \<noteq> None then GoneError ''Invite token has already been consumed.''
          else if mlt_expires_at t \<le> now then GoneError ''Invite token has expired.''
          else GoneError ''Invite token is no longer valid.'')"

definition consume_invite_token ::
    "(string \<Rightarrow> string) \<Rightarrow> time \<Rightarrow> string \<Rightarrow> database \<Rightarrow> error + (magic_link_token \<times> user) \<times> database" where
  "consume_invite_token digest now token d =
     (let h = digest token;
          d1 = d\<lparr>db_tokens := map (\<lambda>t. if acceptable h now t then t\<lparr>mlt_consumed_at := Some now\<rparr> else t) (db_tokens d)\<rparr>
      in if length (filter (acceptable h now) (db_tokens d)) \<noteq> 1 then Inl (refuse_invite_token h now d1)
         else case find (is_invite h) (db_tokens d1) of
             None \<Rightarrow> Inl (EntityNotFoundError ''Invite token not found.'')
           | Some row \<Rightarrow>
               (case get_user d1 (mlt_user_id row) of
                  None \<Rightarrow> Inl (EntityNotFoundError ''Invite user not found.'')
                | Some u \<Rightarrow>
                    let f = (\<lambda>u. u\<lparr>usr_invite_consumed_at := Some now\<rparr>)
                    in Inr ((row, upd_user now f u), modify_user now (mlt_user_id row) f d1)))"

definition callback_open :: "string \<Rightarrow> string \<Rightarrow> string \<Rightarrow> time \<Rightarrow> magic_link_token \<Rightarrow> bool" where
  "callback_open tkid tid uid now t \<longleftrightarrow>
     mlt_id t = tkid \<and> mlt_purpose t = invite_accept_purpose \<and> mlt_tenant_id t = tid \<and> mlt_user_id t = uid \<and>
     mlt_consumed_at t \<noteq> None \<and> mlt_callback_consumed_at t = None \<and> mlt_expires_at t > now"

definition refuse_callback :: "string \<Rightarrow> string \<Rightarrow> string \<Rightarrow> time \<Rightarrow> database \<Rightarrow> error" where
  "refuse_callback tkid tid uid now d =
     (case get_token d tkid of
        None \<Rightarrow> EntityNotFoundError ''Invite token not found.''
      | Some t \<Rightarrow>
          if mlt_purpose t \<noteq> invite_accept_purpose then EntityNotFoundError ''Invite token not found.''
          else if mlt_tenant_id t \<noteq> tid \<or> mlt_user_id t \<noteq> uid
          then EntityNotFoundError ''Invite token does not match invite context.''
          else if mlt_consumed_at t = None then GoneError ''Invite token has not been accepted.''
          else if mlt_expires_at t \<le> now then GoneError ''Invite token has expired.''
          else if mlt_callback_consumed_at t \<noteq> None then GoneError ''Invite state has already been consumed.''
          else GoneError ''Invite state is no longer valid.'')"

definition consume_invite_callback_state ::
    "time \<Rightarrow> string \<Rightarrow> string \<Rightarrow> string \<Rightarrow> database \<Rightarrow> error + magic_link_token \<times> database" where
  "consume_invite_callback_state now tkid tid uid d =
     (let d1 = d\<lparr>db_tokens := map (\<lambda>t. if callback_open tkid tid uid now t
            then t\<lparr>mlt_callback_consumed_at := Some now\<rparr> else t) (db_tokens d)\<rparr>
      in if length (filter (callback_open tkid tid uid now) (db_tokens d)) \<noteq> 1 then Inl (refuse_callback tkid tid uid now d1)
         else case get_token d1 tkid of
             None \<Rightarrow> Inl (EntityNotFoundError ''Invite token not found.'')
           | Some row \<Rightarrow> Inr (row, d1))"

subsection \<open>The identity of the invited user\<close>

text \<open>
  Which identity is bound: the one of the user, else the one of the subject if it is free, else a new one.
  Its flag says whether the user had one: then its actor and team stay as they are.
\<close>

definition conflicting_actor :: error where
  "conflicting_actor = ConflictError ''Authenticated actor is already mapped to another user.''"

definition identity_of_user :: "database \<Rightarrow> string \<Rightarrow> user_identity option" where
  "identity_of_user d uid = find (\<lambda>i. uid_user_id i = Some uid) (db_identities d)"

definition choose_identity ::
    "time \<Rightarrow> string \<Rightarrow> string \<Rightarrow> string \<Rightarrow> database \<Rightarrow> error + (user_identity \<times> bool) \<times> database" where
  "choose_identity now fresh uid actor d =
     (case (identity_of_user d uid, find_identity d actor) of
        (Some eu, None) \<Rightarrow> Inr ((eu, True), d)
      | (Some eu, Some ea) \<Rightarrow> if uid_id ea \<noteq> uid_id eu then Inl conflicting_actor else Inr ((eu, True), d)
      | (None, Some ea) \<Rightarrow>
          if uid_user_id ea \<noteq> None \<and> uid_user_id ea \<noteq> Some uid then Inl conflicting_actor else Inr ((ea, False), d)
      | (None, None) \<Rightarrow>
          let i = \<lparr>uid_id = fresh, uid_user_id = Some uid, uid_actor = actor, uid_role = ''admin'', uid_tenant_id = None,
                 uid_team_id = None, uid_active = True, uid_created_at = now, uid_updated_at = now\<rparr>
          in Inr ((i, False), add_identity i d))"

definition bind_identity :: "user \<Rightarrow> string \<Rightarrow> bool \<Rightarrow> user_identity \<Rightarrow> user_identity" where
  "bind_identity u actor mapped i =
     (let j = (if mapped then i else i\<lparr>uid_actor := actor, uid_team_id := None\<rparr>)
      in j\<lparr>uid_user_id := Some (usr_id u), uid_role := (if usr_role u = ''admin'' then ''admin'' else ''user''),
           uid_tenant_id := Some (usr_tenant_id u), uid_active := True\<rparr>)"

definition apply_invite_identity_mapping ::
    "time \<Rightarrow> string \<Rightarrow> string \<Rightarrow> string \<Rightarrow> string \<Rightarrow> string option \<Rightarrow> database \<Rightarrow> error + user_identity \<times> database" where
  "apply_invite_identity_mapping now fresh tid uid actor source_ip d =
     (case get_user d uid of
        None \<Rightarrow> Inl (EntityNotFoundError ''Invite user not found.'')
      | Some u \<Rightarrow>
          if usr_tenant_id u \<noteq> tid then Inl (EntityNotFoundError ''Invite user not found.'')
          else rbind (choose_identity now fresh uid actor d) (\<lambda>((i, mapped), d1).
            let d2 = modify_identity now (uid_id i) (bind_identity u actor mapped) d1;
                d3 = modify_user now uid (\<lambda>u. u\<lparr>usr_last_login_at := Some now\<rparr>) d2;
                d4 = write_audit_event now actor ''user.invite_login_completed'' ''user'' uid (Some (usr_tenant_id u)) source_ip
                  [(''email'', JStr (usr_email u))] None d3;
                d5 = write_audit_event now actor ''user_identity.invite_mapping_upsert'' ''user_identity'' (uid_id i)
                  (Some (usr_tenant_id u)) source_ip [(''user_id'', JStr uid)] None d4
            in Inr (upd_identity now (bind_identity u actor mapped) i, d5)))"

subsection \<open>The routes\<close>

definition admin_audited ::
    "invite_call \<Rightarrow> internal_admin \<Rightarrow> string \<Rightarrow> string option \<Rightarrow> string option \<Rightarrow> database \<Rightarrow> database" where
  "admin_audited vc ia action tid uid d =
     commit_internal_admin_audit_best_effort (vc_admin_audit_ok vc) (vc_now vc) (vc_request_id vc) (vc_source_ip vc)
       (ia_email ia) action tid uid [] d"

definition post_internal_tenant ::
    "invite_settings \<Rightarrow> invite_call \<Rightarrow> internal_tenant_create \<Rightarrow> database \<Rightarrow> provision_result reply" where
  "post_internal_tenant iv vc req d =
     checked (vc_admin vc) d (\<lambda>ia.
     committed d (rbind (create_tenant_with_admin_invite iv vc (ia_email ia) req d) (\<lambda>(r, d1).
       Inr (r, admin_audited vc ia ''tenant.create'' (Some (ten_id (pr_tenant r))) (Some (usr_id (pr_user r))) d1))))"

definition post_internal_regenerate_invite ::
    "invite_settings \<Rightarrow> invite_call \<Rightarrow> string \<Rightarrow> string \<Rightarrow> database \<Rightarrow> provision_result reply" where
  "post_internal_regenerate_invite iv vc tid uid d =
     checked (vc_admin vc) d (\<lambda>ia.
     committed d (rbind (regenerate_user_invite iv vc (ia_email ia) tid uid d) (\<lambda>(r, d1).
       Inr (r, admin_audited vc ia ''tenant.invite_regenerate'' (Some tid) (Some uid) d1))))"

definition get_internal_tenants :: "invite_call \<Rightarrow> database \<Rightarrow> (tenant \<times> string option \<times> time option) list reply" where
  "get_internal_tenants vc d =
     checked (vc_admin vc) d (\<lambda>ia.
     (Inr (list_internal_tenant_summaries d), admin_audited vc ia ''tenant.list_view'' None None d))"

definition get_internal_tenant_by_id ::
    "invite_call \<Rightarrow> string \<Rightarrow> database \<Rightarrow> (tenant \<times> (user \<times> time option) list) reply" where
  "get_internal_tenant_by_id vc tid d =
     checked (vc_admin vc) d (\<lambda>ia.
     checked (get_internal_tenant_detail d tid) d (\<lambda>(t, us).
     (Inr (t, map (\<lambda>u. (u, invite_expires_at d tid (usr_id u))) us),
      admin_audited vc ia ''tenant.detail_view'' (Some tid) None d)))"

definition configured_hosted_ui :: "invite_settings \<Rightarrow> error + string" where
  "configured_hosted_ui iv =
     (let url = py_strip (iv_hosted_ui_url iv) in
      if url = [] then Inl (HTTPException 503 ''Cognito hosted UI URL is not configured.'') else Inr url)"

definition app_base_url_for_redirect :: "invite_settings \<Rightarrow> invite_call \<Rightarrow> error + string" where
  "app_base_url_for_redirect iv vc =
     (let base = py_rstrip_char (CHR ''/'') (py_strip (iv_app_base_url iv)) in
      if base \<noteq> [] then Inr base
      else if py_lower (py_strip (iv_environment_name iv)) \<in> {''dev'', ''development'', ''local'', ''test''} then Inr (vc_origin vc)
      else Inl (HTTPException 503 ''App base URL is not configured.''))"

text \<open>
  \<open>urlencode\<close> of characters below 256, in UTF-8. Start-up refuses a base URL with a query or a fragment, so the
  parameters are appended to the path.
\<close>

definition hex_upper :: "nat \<Rightarrow> char" where
  "hex_upper n = char_of (if n < 10 then n + 48 else n + (55::nat))"

definition percent_byte :: "nat \<Rightarrow> string" where
  "percent_byte n = [CHR 0x25, hex_upper (n div 16), hex_upper (n mod 16)]"

definition quote_plus_char :: "char \<Rightarrow> string" where
  "quote_plus_char c =
     (let n = (of_char c :: nat) in
      if is_alpha c \<or> is_digit c \<or> c \<in> {CHR ''_'', CHR ''.'', CHR ''-'', CHR ''~''} then [c]
      else if c = CHR '' '' then ''+''
      else if n < 128 then percent_byte n
      else percent_byte (192 + n div 64) @ percent_byte (128 + n mod 64))"

definition quote_plus :: "string \<Rightarrow> string" where
  "quote_plus s = concat (map quote_plus_char s)"

definition urlencode :: "(string \<times> string) list \<Rightarrow> string" where
  "urlencode kvs = join ''&'' (map (\<lambda>(k, v). quote_plus k @ ''='' @ quote_plus v) kvs)"

definition append_query_params :: "string \<Rightarrow> (string \<times> string) list \<Rightarrow> string" where
  "append_query_params url kvs = url @ ''?'' @ urlencode kvs"

definition invite_login_redirect_url :: "invite_settings \<Rightarrow> invite_call \<Rightarrow> string \<Rightarrow> error + string" where
  "invite_login_redirect_url iv vc state =
     rbind (configured_hosted_ui iv) (\<lambda>_.
     rbind (app_base_url_for_redirect iv vc) (\<lambda>base.
     Inr (append_query_params (base @ ''/login'')
       [(''pool'', ''customer''), (''invite_state'', state), (''next'', ''/onboarding/aws'')])))"

text \<open>The token is consumed, and committed, before the address of the redirect is known.\<close>

definition accept_invite :: "invite_settings \<Rightarrow> invite_call \<Rightarrow> string \<Rightarrow> database \<Rightarrow> string reply" where
  "accept_invite iv vc token d =
     (if length token < 10 then (Inl (HTTPException 422 ''String should have at least 10 characters''), d)
      else checked (configured_hosted_ui iv) d (\<lambda>_.
      case consume_invite_token (iv_digest iv) (vc_now vc) token d of
        Inl e \<Rightarrow> (Inl e, d)
      | Inr ((row, u), d1) \<Rightarrow>
          answer d1 (invite_login_redirect_url iv vc (encode_invite_state (iv_auth iv)
            \<lparr>is_tenant_id = usr_tenant_id u, is_user_id = usr_id u, is_token_id = mlt_id row,
             is_exp = vc_now vc div 1000000 + invite_state_ttl_seconds\<rparr>))))"

record callback_result =
  cb_actor :: string
  cb_invite_applied :: bool
  cb_user_id :: "string option"
  cb_tenant_id :: "string option"

definition apply_invite ::
    "invite_call \<Rightarrow> identity_context \<Rightarrow> invite_state \<Rightarrow> database \<Rightarrow> error + callback_result \<times> database" where
  "apply_invite vc ctx p d =
     (case get_user d (is_user_id p) of
        None \<Rightarrow> Inl (HTTPException 404 ''Invite user not found.'')
      | Some u \<Rightarrow>
          if usr_tenant_id u \<noteq> is_tenant_id p then Inl (HTTPException 404 ''Invite user not found.'')
          else if falsy (ix_email ctx) \<or> ix_email ctx \<noteq> Some (py_lower (py_strip (usr_email u)))
          then Inl (unauthorized ''Invite email does not match authenticated identity.'')
          else
            rbind (consume_invite_callback_state (vc_now vc) (is_token_id p) (is_tenant_id p) (is_user_id p) d) (\<lambda>(_, d1).
            rbind (apply_invite_identity_mapping (vc_now vc) (vc_uuid vc 0) (is_tenant_id p) (is_user_id p) (ix_actor ctx)
              (vc_source_ip vc) d1) (\<lambda>(_, d2).
            Inr (\<lparr>cb_actor = ix_actor ctx, cb_invite_applied = True, cb_user_id = Some (is_user_id p),
              cb_tenant_id = Some (is_tenant_id p)\<rparr>, d2))))"

definition get_auth_callback ::
    "invite_settings \<Rightarrow> invite_call \<Rightarrow> string option \<Rightarrow> database \<Rightarrow> callback_result reply" where
  "get_auth_callback iv vc state d =
     checked (vc_identity vc) d (\<lambda>ctx.
     checked (decode_invite_state (iv_auth iv) (vc_now vc) state) d (\<lambda>payload.
     case payload of
       None \<Rightarrow>
         if \<not> falsy state \<and> fst (partition_at (CHR ''.'') (the state)) = invite_state_prefix
         then answer d (Inl (unauthorized ''Invalid invite state.''))
         else answer d (Inr \<lparr>cb_actor = ix_actor ctx, cb_invite_applied = False, cb_user_id = None, cb_tenant_id = None\<rparr>)
     | Some p \<Rightarrow> committed d (apply_invite vc ctx p d)))"

record auth_me =
  me_actor :: string
  me_role :: string
  me_tenant_id :: "string option"
  me_team_id :: "string option"
  me_scoped_environment_ids :: "string list"
  me_email :: "string option"
  me_is_internal_admin :: bool

text \<open>An internal user without an identity row is answered too.\<close>

definition get_auth_me :: "invite_call \<Rightarrow> database \<Rightarrow> auth_me reply" where
  "get_auth_me vc d =
     checked (vc_identity vc) d (\<lambda>ctx.
     case resolve_access_context d (ix_actor ctx) of
       Inr a \<Rightarrow> answer d (Inr \<lparr>me_actor = ix_actor ctx, me_role = ac_role a, me_tenant_id = ac_tenant_id a,
         me_team_id = ac_team_id a, me_scoped_environment_ids = sort (ac_scoped_environment_ids a),
         me_email = ix_email ctx, me_is_internal_admin = ix_is_internal_admin ctx\<rparr>)
     | Inl e \<Rightarrow>
         if ix_pool ctx \<noteq> InternalPool then answer d (Inl e)
         else answer d (Inr \<lparr>me_actor = ix_actor ctx, me_role = (if ix_is_internal_admin ctx then ''admin'' else ''user''),
           me_tenant_id = None, me_team_id = None, me_scoped_environment_ids = [], me_email = ix_email ctx,
           me_is_internal_admin = ix_is_internal_admin ctx\<rparr>))"

end
