(* ===== verification/SP_Isolation.thy ===== *)
theory SP_Isolation
  imports SP_Api
begin

text \<open>
  All endpoints as one function, and what they keep apart: what the answer to an actor that is no
  administrator may hold, and which rows its requests may change.
\<close>

datatype tenancy_call =
    PostTenant tenant_create
  | GetTeams "string option" nat nat
  | PostTeam string string
  | GetBootstrapStatus
  | PostBootstrapUserIdentity
  | GetUserIdentities nat nat
  | PostUserIdentity identity_create
  | PostTeamEnvironmentScope string string
  | DeleteTeamEnvironmentScope string string
  | GetTeamEnvironmentScope string nat nat

datatype environment_call =
    GetEnvironments "string option" nat nat
  | GetByocLiteDiscovery string string "string option"
  | PostEnvironment environment_create
  | GetEnvironment string
  | PostEnvironmentRetry string
  | DeleteEnvironment string
  | GetEnvironmentPreflight string "string option"
  | GetProvisioningOperation string
  | GetQueueUtilization string

datatype work_call =
    PostJob job_create
  | GetJobs "string option" nat nat
  | GetGoldenPaths "string option" nat nat
  | PostGoldenPath golden_path_create
  | GetGoldenPath string
  | GetRuns "string option" "run_state option" nat nat
  | PostRun string run_create
  | GetRun string
  | PostCancelRun string
  | GetRunLogs string nat
  | GetRunDiagnostics string nat nat

datatype cost_call =
    GetUsage string "time option" "time option" nat nat
  | PostTeamBudget string int int int
  | GetTeamBudget string
  | GetCosts string string nat nat
  | PostPolicy policy_create
  | GetPolicies "string option" "string option" bool nat nat
  | GetPolicy string
  | DeletePolicy string

datatype api_call =
    Tenancy tenancy_call
  | Environments environment_call
  | Work work_call
  | Costs cost_call

datatype api_answer =
    AStored idem_result
  | ATeams "team list"
  | ABootstrap bootstrap_status
  | AIdentities "user_identity list"
  | AScopes "team_env_scope list"
  | ADone
  | AEnvironments "environment list"
  | ADiscovery discovery
  | AOperation prov_op
  | APreflight preflight
  | AQueue queue_utilization
  | AJobs "job list"
  | AGoldenPaths "golden_path_response list"
  | ARuns "run_response list"
  | ALogs run "string list"
  | ADiagnostics "run_diagnostic list"
  | AUsage usage_response
  | ABudget team_budget
  | ACosts showback
  | APolicies "policy list"

definition wrap :: "('a \<Rightarrow> api_answer) \<Rightarrow> 'a reply \<Rightarrow> api_answer reply" where
  "wrap f m = (map_sum (\<lambda>e. e) f (fst m), snd m)"

primrec tenancy_api :: "deployment \<Rightarrow> call_context \<Rightarrow> tenancy_call \<Rightarrow> database \<Rightarrow> api_answer reply" where
  "tenancy_api dp cx (PostTenant req) d = wrap AStored (post_tenant dp cx req d)"
| "tenancy_api dp cx (GetTeams t lmt off) d = wrap ATeams (get_teams cx t lmt off d)"
| "tenancy_api dp cx (PostTeam t name) d = wrap (\<lambda>x. ATeams [x]) (post_team cx t name d)"
| "tenancy_api dp cx GetBootstrapStatus d = wrap ABootstrap (get_bootstrap_status cx d)"
| "tenancy_api dp cx PostBootstrapUserIdentity d = wrap (\<lambda>x. AIdentities [x]) (post_bootstrap_user_identity dp cx d)"
| "tenancy_api dp cx (GetUserIdentities lmt off) d = wrap AIdentities (get_user_identities cx lmt off d)"
| "tenancy_api dp cx (PostUserIdentity req) d = wrap (\<lambda>x. AIdentities [x]) (post_user_identity dp cx req d)"
| "tenancy_api dp cx (PostTeamEnvironmentScope tid eid) d = wrap (\<lambda>x. AScopes [x]) (post_team_environment_scope cx tid eid d)"
| "tenancy_api dp cx (DeleteTeamEnvironmentScope tid eid) d = wrap (\<lambda>_. ADone) (delete_team_environment_scope cx tid eid d)"
| "tenancy_api dp cx (GetTeamEnvironmentScope tid lmt off) d = wrap AScopes (get_team_environment_scope cx tid lmt off d)"

primrec environments_api :: "deployment \<Rightarrow> call_context \<Rightarrow> environment_call \<Rightarrow> database \<Rightarrow> api_answer reply" where
  "environments_api dp cx (GetEnvironments t lmt off) d = wrap AEnvironments (get_environments cx t lmt off d)"
| "environments_api dp cx (GetByocLiteDiscovery arn reg t) d = wrap ADiscovery (get_byoc_lite_discovery dp cx arn reg t d)"
| "environments_api dp cx (PostEnvironment req) d = wrap AStored (post_environment dp cx req d)"
| "environments_api dp cx (GetEnvironment eid) d = wrap (\<lambda>x. AEnvironments [x]) (get_environment_by_id cx eid d)"
| "environments_api dp cx (PostEnvironmentRetry eid) d = wrap AOperation (post_environment_retry dp cx eid d)"
| "environments_api dp cx (DeleteEnvironment eid) d = wrap (\<lambda>x. AEnvironments [x]) (delete_environment_by_id cx eid d)"
| "environments_api dp cx (GetEnvironmentPreflight eid rid) d = wrap APreflight (get_environment_preflight_by_id dp cx eid rid d)"
| "environments_api dp cx (GetProvisioningOperation oid) d = wrap AOperation (get_provisioning_operation_by_id cx oid d)"
| "environments_api dp cx (GetQueueUtilization eid) d = wrap AQueue (get_queue_utilization cx eid d)"

primrec work_api :: "deployment \<Rightarrow> call_context \<Rightarrow> work_call \<Rightarrow> database \<Rightarrow> api_answer reply" where
  "work_api dp cx (PostJob req) d = wrap AStored (post_job dp cx req d)"
| "work_api dp cx (GetJobs eid lmt off) d = wrap AJobs (get_jobs cx eid lmt off d)"
| "work_api dp cx (GetGoldenPaths eid lmt off) d = wrap AGoldenPaths (get_golden_paths dp cx eid lmt off d)"
| "work_api dp cx (PostGoldenPath req) d = wrap (\<lambda>x. AGoldenPaths [x]) (post_golden_path cx req d)"
| "work_api dp cx (GetGoldenPath gid) d = wrap (\<lambda>x. AGoldenPaths [x]) (get_golden_path_by_id cx gid d)"
| "work_api dp cx (GetRuns t st lmt off) d = wrap ARuns (get_runs cx t st lmt off d)"
| "work_api dp cx (PostRun jid req) d = wrap AStored (post_run dp cx jid req d)"
| "work_api dp cx (GetRun rid) d = wrap (\<lambda>x. ARuns [x]) (get_run_by_id cx rid d)"
| "work_api dp cx (PostCancelRun rid) d = wrap AStored (post_cancel_run dp cx rid d)"
| "work_api dp cx (GetRunLogs rid lmt) d = wrap (\<lambda>(r, lns). ALogs r lns) (get_run_logs dp cx rid lmt d)"
| "work_api dp cx (GetRunDiagnostics rid lmt off) d = wrap ADiagnostics (get_run_diagnostics cx rid lmt off d)"

primrec costs_api :: "deployment \<Rightarrow> call_context \<Rightarrow> cost_call \<Rightarrow> database \<Rightarrow> api_answer reply" where
  "costs_api dp cx (GetUsage t since until lmt off) d = wrap AUsage (get_usage_for_tenant cx t since until lmt off d)"
| "costs_api dp cx (PostTeamBudget tm b w k) d = wrap ABudget (post_team_budget cx tm b w k d)"
| "costs_api dp cx (GetTeamBudget tm) d = wrap ABudget (get_team_budget_by_team cx tm d)"
| "costs_api dp cx (GetCosts tm period lmt off) d = wrap ACosts (get_costs_showback cx tm period lmt off d)"
| "costs_api dp cx (PostPolicy req) d = wrap (\<lambda>x. APolicies [x]) (post_policy cx req d)"
| "costs_api dp cx (GetPolicies scp sid act lmt off) d = wrap APolicies (get_policies cx scp sid act lmt off d)"
| "costs_api dp cx (GetPolicy pid) d = wrap (\<lambda>x. APolicies [x]) (get_policy_by_id cx pid d)"
| "costs_api dp cx (DeletePolicy pid) d = wrap (\<lambda>_. ADone) (delete_policy_endpoint cx pid d)"

primrec api :: "deployment \<Rightarrow> call_context \<Rightarrow> api_call \<Rightarrow> database \<Rightarrow> api_answer reply" where
  "api dp cx (Tenancy c) d = tenancy_api dp cx c d"
| "api dp cx (Environments c) d = environments_api dp cx c d"
| "api dp cx (Work c) d = work_api dp cx c d"
| "api dp cx (Costs c) d = costs_api dp cx c d"

subsection \<open>Replies\<close>

named_theorems reply_simps \<open>what a reply is, by the steps of its request\<close>

lemma wrap_Inr [reply_simps]: "wrap f m = (Inr x, d') \<longleftrightarrow> (\<exists>y. m = (Inr y, d') \<and> x = f y)"
  by (cases m; cases "fst m") (auto simp: wrap_def)

lemma snd_wrap [simp]: "snd (wrap f m) = snd m"
  by (simp add: wrap_def)

lemma checked_Inr [reply_simps]: "checked m d k = (Inr y, d') \<longleftrightarrow> (\<exists>x. m = Inr x \<and> k x = (Inr y, d'))"
  by (cases m) (auto simp: checked_def)

lemma committed_Inr [reply_simps]: "committed d m = (Inr x, d') \<longleftrightarrow> m = Inr (x, d')"
  by (cases m) (auto simp: committed_def)

lemma answer_Inr [reply_simps]: "answer d m = (Inr x, d') \<longleftrightarrow> m = Inr x \<and> d' = d"
  by (auto simp: answer_def)

lemma authenticated_actor:
  assumes "cx_auth cx = Inr actor" "resolve_access_context d actor = Inr a"
  shows "authenticated cx d k = k a"
  using assms by (simp add: authenticated_def)

lemma resolve_has_identity: "resolve_access_context d actor = Inr a \<Longrightarrow> has_any_identities d \<and> ac_actor a = actor"
  by (auto simp: resolve_access_context_def has_any_identities_def active_identity_def split: option.splits if_splits)

lemma resolve_role: "resolve_access_context d actor = Inr a \<Longrightarrow> ac_role a \<in> {''admin'', ''operator'', ''user''}"
  by (auto simp: resolve_access_context_def split: option.splits if_splits)

lemma resolve_tenant:
  "resolve_access_context d actor = Inr a \<Longrightarrow> ac_role a \<noteq> ''admin'' \<Longrightarrow> \<not> falsy (ac_tenant_id a)"
  by (auto simp: resolve_access_context_def split: option.splits if_splits)

lemma require_admin_Inr [reply_simps]: "require_admin a = Inr u \<longleftrightarrow> ac_role a = ''admin''"
  by (simp add: require_admin_def)

lemma require_role_Inr [reply_simps]: "require_role a roles dtl = Inr u \<longleftrightarrow> ac_role a \<in> set roles"
  by (simp add: require_role_def)

lemma require_environment_access_Inr [reply_simps]:
  "require_environment_access a env = Inr u \<longleftrightarrow> can_access_environment a env"
  by (simp add: require_environment_access_def)

lemma require_run_access_Inr [reply_simps]: "require_run_access a r env = Inr u \<longleftrightarrow> can_access_run a r env"
  by (simp add: require_run_access_def)

lemma own_tenant_key_Inr [reply_simps]:
  "own_tenant_key a tm dtl = Inr u \<longleftrightarrow> ac_role a = ''admin'' \<or> ac_tenant_id a = Some tm"
  by (simp add: own_tenant_key_def)

lemma own_tenant_Inr:
  assumes "own_tenant a t = Inr t'" "ac_role a \<noteq> ''admin''" shows "t' = ac_tenant_id a"
  using assms by (simp add: own_tenant_def split: if_splits)

lemma accessible_environment_Inr [reply_simps]:
  "accessible_environment a eid d = Inr env \<longleftrightarrow> get_environment d eid = Some env \<and> can_access_environment a env"
  by (auto simp: accessible_environment_def require_defs rbind_Inr_iff require_environment_access_Inr)

lemma accessible_run_Inr [reply_simps]:
  "accessible_run a rid d = Inr (r, env) \<longleftrightarrow>
     get_run d rid = Some r \<and> get_environment d (run_environment_id r) = Some env \<and> can_access_run a r env"
  by (auto simp: accessible_run_def require_defs rbind_Inr_iff require_run_access_Inr)

lemma can_access_scoped:
  assumes "can_access_environment a env" "ac_role a \<noteq> ''admin''"
  shows "env_id env \<in> set (ac_scoped_environment_ids a)" "ac_tenant_id a = Some (env_tenant_id env)"
  using assms by (auto simp: can_access_environment_def split: if_splits)

lemma can_access_run_env:
  assumes "can_access_run a r env" shows "can_access_environment a env"
    "ac_role a = ''user'' \<Longrightarrow> run_created_by_actor r = Some (ac_actor a)"
  using assms by (auto simp: can_access_run_def split: if_splits)

lemma checked_filter_Inr [reply_simps]:
  "checked_filter a eid d = Inr u \<longleftrightarrow>
     falsy eid \<or> (\<exists>env. get_environment d (the eid) = Some env \<and> can_access_environment a env)"
  by (auto simp: checked_filter_def rbind_Inr_iff accessible_environment_Inr)

subsection \<open>What an answer holds\<close>

fun answered_environments :: "database \<Rightarrow> api_answer \<Rightarrow> string list" where
  "answered_environments d (AEnvironments es) = map env_id es"
| "answered_environments d (AOperation r) = [op_environment_id r]"
| "answered_environments d (APreflight p) = [pf_environment_id p]"
| "answered_environments d (AQueue q) = [qu_environment_id q]"
| "answered_environments d (AJobs js) = map job_environment_id js"
| "answered_environments d (AGoldenPaths gs) = filter (\<lambda>e. e \<noteq> []) (List.map_filter gr_environment_id gs)"
| "answered_environments d (ARuns rs) = map (\<lambda>x. run_environment_id (rn_run x)) rs"
| "answered_environments d (ALogs r lns) = [run_environment_id r]"
| "answered_environments d (ADiagnostics xs) =
     map run_environment_id (List.map_filter (\<lambda>x. get_run d (rd_run_id x)) xs)"
| "answered_environments d (AUsage u) =
     map run_environment_id (List.map_filter (\<lambda>x. get_run d (ur_run_id x)) (us_items u))"
| "answered_environments d (ACosts c) = map si_environment_id (sb_items c)"
| "answered_environments d _ = []"

fun answered_tenants :: "api_answer \<Rightarrow> string list" where
  "answered_tenants (ATeams ts) = map team_tenant_id ts"
| "answered_tenants (AEnvironments es) = map env_tenant_id es"
| "answered_tenants (AUsage u) = us_tenant_id u # map ur_tenant_id (us_items u)"
| "answered_tenants (ABudget b) = [tb_team b]"
| "answered_tenants (ACosts c) = sb_team c # map si_team (sb_items c)"
| "answered_tenants _ = []"

fun answered_runs :: "database \<Rightarrow> api_answer \<Rightarrow> run list" where
  "answered_runs d (ARuns rs) = map rn_run rs"
| "answered_runs d (ALogs r lns) = [r]"
| "answered_runs d (ADiagnostics xs) = List.map_filter (\<lambda>x. get_run d (rd_run_id x)) xs"
| "answered_runs d (AUsage u) = List.map_filter (\<lambda>x. get_run d (ur_run_id x)) (us_items u)"
| "answered_runs d (ACosts c) = List.map_filter (\<lambda>x. get_run d (si_run_id x)) (sb_items c)"
| "answered_runs d _ = []"

text \<open>
  Usage and showback list what the whole tenant spent: they are confined by the tenant and the role, not by the scope. A
  request with an idempotency key is answered by a stored body; the environment it is addressed to is that of its job or run.
\<close>

fun accounting :: "api_answer \<Rightarrow> bool" where
  "accounting (AUsage u) = True"
| "accounting (ACosts c) = True"
| "accounting _ = False"

definition addressed :: "access_context \<Rightarrow> database \<Rightarrow> api_call \<Rightarrow> string option" where
  "addressed a d c =
     (case c of
        Work (PostJob req) \<Rightarrow> Some (jc_environment_id req)
      | Work (PostRun jid req) \<Rightarrow> map_option job_environment_id (get_job d jid)
      | Work (PostCancelRun rid) \<Rightarrow>
          (case get_run d rid of
             Some r \<Rightarrow> if ac_role a = ''user'' \<and> run_created_by_actor r \<noteq> Some (ac_actor a) then None
               else Some (run_environment_id r)
           | None \<Rightarrow> None)
      | _ \<Rightarrow> None)"

definition confined :: "access_context \<Rightarrow> database \<Rightarrow> api_call \<Rightarrow> api_answer \<Rightarrow> bool" where
  "confined a d c res \<longleftrightarrow>
     (if accounting res then ac_role a = ''operator''
      else set (answered_environments d res) \<subseteq> set (ac_scoped_environment_ids a)) \<and>
     (\<forall>t \<in> set (answered_tenants res). ac_tenant_id a = Some t) \<and>
     (ac_role a = ''user'' \<longrightarrow> (\<forall>r \<in> set (answered_runs d res). run_created_by_actor r = Some (ac_actor a))) \<and>
     (case res of AStored x \<Rightarrow> (\<exists>e \<in> set (ac_scoped_environment_ids a). addressed a d c = Some e)
       | AIdentities _ \<Rightarrow> False | AScopes _ \<Rightarrow> False | APolicies _ \<Rightarrow> False | ADone \<Rightarrow> False | _ \<Rightarrow> True)"

lemma in_page: "x \<in> set (page lmt off xs) \<Longrightarrow> x \<in> set xs"
  using set_page by (rule subsetD)

lemma set_map_filter: "set (List.map_filter f xs) = {y. \<exists>x \<in> set xs. f x = Some y}"
  by (force simp: List.map_filter_def)

text \<open>The database may have changed under the answer, but not which environment a run belongs to.\<close>

lemma tenancy_confined:
  assumes auth: "cx_auth cx = Inr actor" "resolve_access_context d actor = Inr a" and role: "ac_role a \<noteq> ''admin''"
    and run: "tenancy_api dp cx c d = (Inr res, d')"
  shows "confined a d (Tenancy c) res"
proof (cases c)
  case (GetTeams t lmt off)
  then obtain t' where t: "own_tenant a t = Inr t'" "res = ATeams (list_teams d t' lmt off)"
    using run by (auto simp: reply_simps get_teams_def authenticated_actor [OF auth])
  have "\<not> falsy (ac_tenant_id a)" by (rule resolve_tenant [OF auth(2) role])
  then show ?thesis using own_tenant_Inr [OF t(1) role] t(2) set_page
    by (fastforce simp: confined_def list_teams_def)
next
  case PostBootstrapUserIdentity
  have "has_any_identities d" using resolve_has_identity [OF auth(2)] by simp
  moreover have "active_identity d actor = Some i \<Longrightarrow> uid_role i \<noteq> ''admin''" for i
    using auth(2) role by (auto simp: resolve_access_context_def split: if_splits)
  ultimately show ?thesis using run PostBootstrapUserIdentity auth(1)
    by (auto simp: reply_simps post_bootstrap_user_identity_def split: option.splits if_splits)
next
  case (PostUserIdentity req)
  then show ?thesis using run role auth resolve_has_identity [OF auth(2)]
    by (auto simp: reply_simps post_user_identity_def split: if_splits)
qed (use run role in \<open>auto simp: reply_simps authenticated_actor [OF auth] post_tenant_def post_team_def
    get_bootstrap_status_def get_user_identities_def post_team_environment_scope_def delete_team_environment_scope_def
    get_team_environment_scope_def confined_def\<close>)

lemma get_environment_id: "get_environment d eid = Some env \<Longrightarrow> env_id env = eid"
  by (auto simp: get_environment_def dest: find_row_Some)

lemma accessible_environment_scoped:
  assumes "accessible_environment a eid d = Inr env" "ac_role a \<noteq> ''admin''"
  shows "eid \<in> set (ac_scoped_environment_ids a)"
proof -
  have "get_environment d eid = Some env" "can_access_environment a env" using assms(1) by (simp_all add: reply_simps)
  then show ?thesis using can_access_scoped(1) [OF _ assms(2)] get_environment_id by metis
qed

lemma listed_environments:
  assumes "own_tenant a t = Inr t'" "ac_role a \<noteq> ''admin''"
    "env \<in> set (filter (can_access_environment a) (list_environments d t' lmt off))"
  shows "env_id env \<in> set (ac_scoped_environment_ids a) \<and> ac_tenant_id a = Some (env_tenant_id env)"
  using assms can_access_scoped by auto

lemma built_preflight_environment:
  "build_preflight before after now env rid c d = (Inr p, d') \<Longrightarrow> pf_environment_id p = env_id env"
  by (auto simp: build_preflight_def Let_def split: sum.splits prod.splits)

lemma raised_or_value_Inr:
  "(case m of (Inl e, _) \<Rightarrow> Inl (h e) | (Inr p, d') \<Rightarrow> Inr (p, d')) = Inr (x, d1) \<longleftrightarrow> m = (Inr x, d1)"
  by (cases m; cases "fst m") auto

lemma environment_preflight_environment:
  assumes "get_environment_preflight dp now eid rid d = Inr (p, d')" shows "pf_environment_id p = eid"
proof -
  obtain env c where e: "get_environment d eid = Some env"
      "build_preflight (dp_before dp) (dp_after dp) now env rid c d = (Inr p, d')"
    using assms by (auto simp: get_environment_preflight_def require_defs rbind_Inr_iff raised_or_value_Inr)
  show ?thesis using built_preflight_environment [OF e(2)] get_environment_id [OF e(1)] by simp
qed

lemma deleted_environment_kept:
  assumes "delete_environment now eid actor ip d = Inr d'" "get_environment d eid = Some env"
    "get_environment d' eid = Some e"
  shows "env_id e = env_id env \<and> env_tenant_id e = env_tenant_id env"
  using assms(1)
proof (cases rule: delete_environment_Inr)
  case already
  then show ?thesis using assms by simp
next
  case (deleted env' a)
  then show ?thesis using assms(2,3)
    by (auto simp: get_environment_def modify_environment_def find_row_modify_same upd_environment_def Let_def)
qed

lemma environments_confined:
  assumes auth: "cx_auth cx = Inr actor" "resolve_access_context d actor = Inr a" and role: "ac_role a \<noteq> ''admin''"
    and run: "environments_api dp cx c d = (Inr res, d')"
  shows "confined a d (Environments c) res"
proof (cases c)
  case (GetEnvironments t lmt off)
  then obtain t' where t: "own_tenant a t = Inr t'"
    "res = AEnvironments (filter (can_access_environment a) (list_environments d t' lmt off))"
    using run by (auto simp: reply_simps get_environments_def authenticated_actor [OF auth])
  then show ?thesis using can_access_scoped role by (auto simp: confined_def)
next
  case (DeleteEnvironment eid)
  with run obtain env e where e: "get_environment d eid = Some env" "can_access_environment a env"
      "delete_environment (cx_now cx) eid (ac_actor a) (cx_source_ip cx) d = Inr d'" "res = AEnvironments [e]"
      "e = (case get_environment d' eid of Some e \<Rightarrow> e | None \<Rightarrow> env)"
    by (auto simp: reply_simps delete_environment_by_id_def authenticated_actor [OF auth] rbind_Inr_iff)
  have "env_id e = env_id env \<and> env_tenant_id e = env_tenant_id env"
  proof (cases "get_environment d' eid")
    case (Some e')
    show ?thesis using deleted_environment_kept [OF e(3,1) Some] e(5) unfolding Some by simp
  qed (use e(5) in simp)
  then show ?thesis using can_access_scoped [OF e(2) role] e(4) by (simp add: confined_def)
next
  case (GetEnvironmentPreflight eid rid)
  with run obtain env p where e: "get_environment d eid = Some env" "can_access_environment a env"
      "get_environment_preflight dp (cx_now cx) eid rid d = Inr (p, d')" "res = APreflight p"
    by (auto simp: reply_simps get_environment_preflight_by_id_def authenticated_actor [OF auth])
  then show ?thesis using environment_preflight_environment [OF e(3)] get_environment_id [OF e(1)]
      can_access_scoped [OF e(2) role] by (simp add: confined_def)
next
  case (PostEnvironmentRetry eid)
  with run obtain env opr ky where e: "get_environment d eid = Some env" "can_access_environment a env"
      "retry_environment_provisioning (dp_settings dp) (cx_now cx) (cx_uuid cx 0) (cx_uuid cx 1) eid (ac_actor a)
         (cx_source_ip cx) ky d = Inr (opr, d')" "res = AOperation opr"
    by (auto simp: reply_simps post_environment_retry_def authenticated_actor [OF auth])
  have "op_environment_id opr = eid" using e(3) by (rule retry_provisioning_Inr) (simp add: queued_operation_def)
  then show ?thesis using e get_environment_id [OF e(1)] can_access_scoped [OF e(2) role] by (simp add: confined_def)
next
  case (GetProvisioningOperation oid)
  with run obtain env opr where e: "get_environment d (op_environment_id opr) = Some env"
      "can_access_environment a env" "res = AOperation opr"
    by (auto simp: reply_simps get_provisioning_operation_by_id_def authenticated_actor [OF auth] rbind_Inr_iff)
  then show ?thesis using get_environment_id [OF e(1)] can_access_scoped [OF e(2) role] by (simp add: confined_def)
qed (use run role can_access_scoped in \<open>auto simp: reply_simps authenticated_actor [OF auth] get_byoc_lite_discovery_def
   post_environment_def get_environment_by_id_def get_queue_utilization_def confined_def rbind_Inr_iff Let_def
   queue_utilization_of_def split: if_splits sum.splits\<close>)

lemma accessible_run_scoped:
  assumes "get_environment d (run_environment_id r) = Some env" "can_access_run a r env" "ac_role a \<noteq> ''admin''"
  shows "run_environment_id r \<in> set (ac_scoped_environment_ids a)"
  using get_environment_id [OF assms(1)] can_access_scoped(1) [OF can_access_run_env(1) [OF assms(2)] assms(3)] by simp

lemma work_confined:
  assumes auth: "cx_auth cx = Inr actor" "resolve_access_context d actor = Inr a" and role: "ac_role a \<noteq> ''admin''"
    and named: "actor \<noteq> []" and run: "work_api dp cx c d = (Inr res, d')" and c: "\<forall>rid lmt off. c \<noteq> GetRunDiagnostics rid lmt off"
  shows "confined a d (Work c) res"
proof (cases c)
  case (GetJobs eid lmt off)
  with run have "res = AJobs (list_jobs d eid lmt off (Some (ac_scoped_environment_ids a)))"
    using role by (auto simp: reply_simps get_jobs_def authenticated_actor [OF auth] environment_filter_def)
  then show ?thesis using set_page by (fastforce simp: confined_def list_jobs_def)
next
  case (GetGoldenPaths eid lmt off)
  with run have "res = AGoldenPaths (map golden_path_to_response_payload
      (list_golden_paths (dp_nulls_first dp) eid lmt off (Some (ac_scoped_environment_ids a)) d))"
    using role by (auto simp: reply_simps get_golden_paths_def authenticated_actor [OF auth] environment_filter_def)
  moreover have "gp_environment_id g = Some e \<Longrightarrow> e \<in> set (ac_scoped_environment_ids a)"
    if "g \<in> set (list_golden_paths (dp_nulls_first dp) eid lmt off (Some (ac_scoped_environment_ids a)) d)" for g e
    using that by (auto simp: list_golden_paths_def dest: in_page)
  ultimately show ?thesis by (auto simp: confined_def set_map_filter golden_path_to_response_payload_def Let_def)
next
  case (GetGoldenPath gid)
  with run obtain g where g: "res = AGoldenPaths [golden_path_to_response_payload g]"
      "checked_filter a (gp_environment_id g) d = Inr ()"
    by (auto simp: reply_simps get_golden_path_by_id_def authenticated_actor [OF auth] rbind_Inr_iff)
  have "e \<in> set (ac_scoped_environment_ids a)" if "gp_environment_id g = Some e" "e \<noteq> []" for e
    using g(2) that can_access_scoped(1) [OF _ role] by (auto simp: reply_simps falsy_def dest: get_environment_id)
  then show ?thesis
    by (auto simp: g(1) confined_def golden_path_to_response_payload_def Let_def List.map_filter_def)
next
  case (GetRuns t st lmt off)
  with run obtain t' where "res = ARuns (map (\<lambda>r. run_response_of r None None)
       (list_runs d t' st lmt off (if ac_role a = ''user'' then Some actor else None) (Some (ac_scoped_environment_ids a))))"
    using role resolve_has_identity [OF auth(2)]
    by (auto simp: reply_simps get_runs_def authenticated_actor [OF auth] environment_filter_def)
  moreover have "run_environment_id r \<in> set (ac_scoped_environment_ids a) \<and>
      (ac_role a = ''user'' \<longrightarrow> run_created_by_actor r = Some actor)"
    if "r \<in> set (list_runs d t' st lmt off (if ac_role a = ''user'' then Some actor else None)
       (Some (ac_scoped_environment_ids a)))" for r
    using in_page [OF that [unfolded list_runs_def]] named
    by (auto split: option.splits if_splits dest: get_environment_id)
  ultimately show ?thesis using resolve_has_identity [OF auth(2)]
    by (auto simp: confined_def run_response_of_def)
next
  case (GetRun rid)
  with run obtain r env where r: "get_environment d (run_environment_id r) = Some env" "can_access_run a r env"
      "res = ARuns [run_response_of r (Some env) (latest_run_preflight_snapshot d (run_id r))]"
    by (auto simp: reply_simps get_run_by_id_def authenticated_actor [OF auth] rbind_Inr_iff)
  then show ?thesis using accessible_run_scoped [OF r(1,2) role] can_access_run_env(2) [OF r(2)]
    by (auto simp: confined_def run_response_of_def)
next
  case (GetRunLogs rid lmt)
  with run obtain r env lns where r: "get_environment d (run_environment_id r) = Some env" "can_access_run a r env"
      "res = ALogs r lns"
    by (auto simp: reply_simps get_run_logs_def authenticated_actor [OF auth] rbind_Inr_iff fetch_run_logs_def require_defs)
  then show ?thesis using accessible_run_scoped [OF r(1,2) role] can_access_run_env(2) [OF r(2)]
    by (auto simp: confined_def)
next
  case (PostJob req)
  with run obtain x env where "res = AStored x" "accessible_environment a (jc_environment_id req) d = Inr env"
    by (auto simp: reply_simps(1,2) authenticated_actor [OF auth] post_job_def)
  then show ?thesis using accessible_environment_scoped role PostJob by (auto simp: confined_def addressed_def)
next
  case (PostRun jid req)
  with run obtain x j env where "res = AStored x" "get_job d jid = Some j"
      "accessible_environment a (job_environment_id j) d = Inr env"
    by (auto simp: reply_simps(1,2) authenticated_actor [OF auth] post_run_def split: option.splits)
  then show ?thesis using accessible_environment_scoped role PostRun by (auto simp: confined_def addressed_def)
next
  case (PostCancelRun rid)
  with run obtain x r env where r: "res = AStored x" "accessible_run a rid d = Inr (r, env)"
    by (auto simp: reply_simps(1,2) authenticated_actor [OF auth] post_cancel_run_def)
  then have acc: "get_run d rid = Some r" "get_environment d (run_environment_id r) = Some env" "can_access_run a r env"
    by (simp_all add: reply_simps)
  have "addressed a d (Work (PostCancelRun rid)) = Some (run_environment_id r)"
    using acc(1) can_access_run_env(2) [OF acc(3)] by (simp add: addressed_def)
  then show ?thesis using accessible_run_scoped [OF acc(2,3) role] r(1) PostCancelRun by (simp add: confined_def)
next
  case (PostGoldenPath req)
  with run role show ?thesis by (auto simp: reply_simps post_golden_path_def authenticated_actor [OF auth])
qed (use run role c in \<open>auto simp: reply_simps authenticated_actor [OF auth] post_job_def post_run_def post_cancel_run_def confined_def\<close>)

lemma work_diagnostics_confined:
  assumes auth: "cx_auth cx = Inr actor" "resolve_access_context d actor = Inr a" and role: "ac_role a \<noteq> ''admin''"
    and run: "work_api dp cx (GetRunDiagnostics rid lmt off) d = (Inr res, d')"
  shows "confined a d (Work (GetRunDiagnostics rid lmt off)) res"
proof -
  from run obtain r env where r: "get_run d rid = Some r" "get_environment d (run_environment_id r) = Some env"
      "can_access_run a r env" "res = ADiagnostics (page lmt off (sort_key rd_created_at (filter (\<lambda>x. rd_run_id x = rid) (db_diags d))))"
    by (auto simp: reply_simps get_run_diagnostics_def authenticated_actor [OF auth] rbind_Inr_iff list_run_diagnostics_def require_defs)
  have "run_environment_id r' \<in> set (ac_scoped_environment_ids a) \<and> (ac_role a = ''user'' \<longrightarrow> run_created_by_actor r' = Some (ac_actor a))"
    if "x \<in> set (page lmt off (sort_key rd_created_at (filter (\<lambda>x. rd_run_id x = rid) (db_diags d))))"
      "get_run d (rd_run_id x) = Some r'" for x r'
    using in_page [OF that(1)] that(2) r(1) accessible_run_scoped [OF r(2,3) role] can_access_run_env(2) [OF r(3)] by simp
  then show ?thesis by (auto simp: r(4) confined_def set_map_filter)
qed

lemma costs_confined:
  assumes auth: "cx_auth cx = Inr actor" "resolve_access_context d actor = Inr a" and role: "ac_role a \<noteq> ''admin''"
    and run: "costs_api dp cx c d = (Inr res, d')"
  shows "confined a d (Costs c) res"
proof (cases c)
  case (GetUsage t since until lmt off)
  with run role obtain s u items where "ac_role a = ''operator''" "get_usage d t s u lmt off = Inr items" "ac_tenant_id a = Some t"
      "res = AUsage \<lparr>us_tenant_id = t, us_from = s, us_to = u, us_items = items\<rparr>"
    by (auto simp: reply_simps get_usage_for_tenant_def authenticated_actor [OF auth] rbind_Inr_iff Let_def split: if_splits)
  then show ?thesis by (auto simp: confined_def get_usage_def rbind_Inr_iff dest!: in_page)
next
  case (GetTeamBudget tm)
  with run role show ?thesis
    by (auto simp: reply_simps get_team_budget_by_team_def authenticated_actor [OF auth] confined_def get_team_budget_def
      find_budget_def find_Some_iff split: option.splits)
next
  case (GetCosts tm period lmt off)
  with run role have "ac_role a = ''operator''" "ac_tenant_id a = Some tm" "res = ACosts (get_cost_showback d tm period lmt off)"
    by (auto simp: reply_simps get_costs_showback_def authenticated_actor [OF auth])
  then show ?thesis
    by (auto simp: confined_def get_cost_showback_def Let_def showback_item_of_def allocations_for_def dest!: in_page)
qed (use run role in \<open>auto simp: reply_simps authenticated_actor [OF auth] post_team_budget_def post_policy_def
    get_policies_def get_policy_by_id_def delete_policy_endpoint_def confined_def\<close>)

lemma api_confined:
  assumes auth: "cx_auth cx = Inr actor" "resolve_access_context d actor = Inr a" and role: "ac_role a \<noteq> ''admin''"
    and named: "actor \<noteq> []" and run: "api dp cx c d = (Inr res, d')"
  shows "confined a d c res"
proof (cases c)
  case (Work w)
  then have w: "work_api dp cx w d = (Inr res, d')" using run by simp
  show ?thesis
  proof (cases "\<exists>rid lmt off. w = GetRunDiagnostics rid lmt off")
    case True
    then show ?thesis using work_diagnostics_confined [OF auth role] w Work by blast
  next
    case False
    then show ?thesis using work_confined [OF auth role named w] Work by blast
  qed
qed (use run tenancy_confined [OF auth role] environments_confined [OF auth role] costs_confined [OF auth role] in simp_all)

text \<open>
  The scope of the idempotency keys of a job names the job and not the actor: whoever may submit a run of the job and sends
  the key and the body of another actor is answered by the run of that actor, which \<open>GET /v1/runs/{id}\<close> would refuse to
  show to the role \<open>user\<close>.
\<close>

lemma run_replayed_to_any_actor:
  assumes "require_idempotency_key (cx_idempotency_key cx) = Inr ky"
    and auth: "cx_auth cx = Inr actor" "resolve_access_context d actor = Inr a"
    and "get_job d jid = Some j" "accessible_environment a (job_environment_id j) d = Inr env"
    and "load_idempotency_record d (''POST:/v1/jobs/'' @ jid @ ''/runs'') ky = Some r"
      "idem_fingerprint r = dp_fingerprint dp (run_request_dump req)"
  shows "post_run dp cx jid req d = (Inr \<lparr>ir_status_code = idem_status_code r, ir_body = idem_response r, ir_replayed = True\<rparr>, d)"
proof -
  have "require_role a [''admin'', ''operator'', ''user''] dtl = Inr ()" for dtl
    using resolve_role [OF auth(2)] by (simp add: require_role_Inr)
  then show ?thesis using assms
    by (simp add: post_run_def authenticated_actor [OF auth] checked_def idempotent_def with_idempotency_replays)
qed

end
