(* ===== verification/SP_Writes.thy ===== *)
theory SP_Writes
  imports SP_Isolation
begin

text \<open>
  Which rows a request of an actor that is no administrator may change: those of the environments in its scope,
  the audit log, and the idempotency table. A law of the database that every step keeps passes through
  \<open>with_idempotency\<close> once for all (\<open>idempotent_frame\<close>).
\<close>

locale idempotent_frame =
  fixes R :: "database \<Rightarrow> database \<Rightarrow> bool"
  assumes same: "R d d" and compose: "R d d1 \<Longrightarrow> R d1 d2 \<Longrightarrow> R d d2"
    and reserve: "flush_reservation (reservation now scp ky f) d = Inr d1 \<Longrightarrow> R d d1"
    and finish: "R d (finish_reservation scp ky res d)"
begin

lemma call:
  assumes "\<And>x res d1. execute (d\<lparr>db_idem := x\<rparr>) = Inr (res, d1) \<Longrightarrow> R (d\<lparr>db_idem := x\<rparr>) d1"
  shows "R d (snd (with_idempotency fp now (\<lambda>d. d) (\<lambda>d. d) scp ky payload execute d))"
proof (cases "load_idempotency_record d scp ky")
  case None
  let ?dr = "d\<lparr>db_idem := db_idem d @ [reservation now scp ky (fp payload)]\<rparr>"
  have flush: "flush_reservation (reservation now scp ky (fp payload)) d = Inr ?dr"
    using None by (simp add: flush_reservation_Inr reservation_def)
  then have eq: "with_idempotency fp now (\<lambda>d. d) (\<lambda>d. d) scp ky payload execute d =
      (case execute ?dr of Inl e \<Rightarrow> (Inl e, d)
       | Inr ((code, body, rtype, rid), dx) \<Rightarrow>
           (Inr \<lparr>ir_status_code = code, ir_body = body, ir_replayed = False\<rparr>,
            finish_reservation scp ky (code, body, rtype, rid) dx))"
    using None by (simp add: with_idempotency_def Let_def)
  show ?thesis
  proof (cases "execute ?dr")
    case (Inr x)
    obtain c b t i dx where x: "x = ((c, b, t, i), dx)" by (cases x) auto
    have "R d dx" using compose [OF reserve [OF flush] assms [OF Inr [unfolded x]]] .
    then show ?thesis unfolding eq Inr x by (simp add: compose [OF _ finish])
  qed (simp add: eq same)
qed (simp add: with_idempotency_def same)

lemma answers: "R d (snd (answer d m))"
  by (simp add: answer_def same)

lemma checks: "(\<And>x. m = Inr x \<Longrightarrow> R d (snd (k x))) \<Longrightarrow> R d (snd (checked m d k))"
  by (cases m) (simp_all add: checked_def same)

lemma authenticates:
  "(\<And>actor a. cx_auth cx = Inr actor \<Longrightarrow> resolve_access_context d actor = Inr a \<Longrightarrow> R d (snd (k a))) \<Longrightarrow>
     R d (snd (authenticated cx d k))"
  by (cases "cx_auth cx") (auto simp: authenticated_def same split: sum.split)

lemma commits: "(\<And>x d'. m = Inr (x, d') \<Longrightarrow> R d d') \<Longrightarrow> R d (snd (committed d m))"
  by (cases m) (auto simp: committed_def same split: prod.split)

lemma idempotent_calls:
  assumes "cx_other1 cx = (\<lambda>d. d)" "cx_other2 cx = (\<lambda>d. d)"
    and "\<And>x res d1. execute (d\<lparr>db_idem := x\<rparr>) = Inr (res, d1) \<Longrightarrow> R (d\<lparr>db_idem := x\<rparr>) d1"
  shows "R d (snd (idempotent dp cx scp ky payload execute d))"
  unfolding idempotent_def assms(1,2) by (rule call) (rule assms(3))

end

definition outside :: "string list \<Rightarrow> ('r \<Rightarrow> string) \<Rightarrow> 'r list \<Rightarrow> 'r list" where
  "outside S env_of rows = filter (\<lambda>r. env_of r \<notin> set S) rows"

definition same_outside :: "string list \<Rightarrow> database \<Rightarrow> database \<Rightarrow> bool" where
  "same_outside S d d' \<longleftrightarrow>
     db_tenants d' = db_tenants d \<and> db_teams d' = db_teams d \<and> db_users d' = db_users d \<and>
     db_identities d' = db_identities d \<and> db_tokens d' = db_tokens d \<and> db_token_logs d' = db_token_logs d \<and>
     db_scopes d' = db_scopes d \<and> db_golden d' = db_golden d \<and> db_diags d' = db_diags d \<and> db_usage d' = db_usage d \<and>
     db_allocs d' = db_allocs d \<and> db_budgets d' = db_budgets d \<and> db_releases d' = db_releases d \<and>
     db_policies d' = db_policies d \<and>
     outside S env_id (db_envs d') = outside S env_id (db_envs d) \<and>
     outside S op_environment_id (db_ops d') = outside S op_environment_id (db_ops d) \<and>
     outside S job_environment_id (db_jobs d') = outside S job_environment_id (db_jobs d) \<and>
     outside S run_environment_id (db_runs d') = outside S run_environment_id (db_runs d)"

interpretation outside_frame: idempotent_frame "same_outside S" for S
proof
  show "same_outside S d (finish_reservation scp ky res d)" for d scp ky res
    by (cases res) (simp add: same_outside_def finish_reservation_def)
qed (auto simp: same_outside_def flush_reservation_Inr)

lemma same_outside_audit: "same_outside S d d1 \<Longrightarrow> same_outside S d (d1\<lparr>db_audit := a\<rparr>)"
  by (auto simp: same_outside_def)

lemma outside_append [simp]: "outside S k (rows @ [r]) = outside S k rows \<longleftrightarrow> k r \<in> set S"
  by (simp add: outside_def)

lemma outside_modify:
  assumes "\<And>r. r \<in> set rows \<Longrightarrow> key r = i \<Longrightarrow> k r \<in> set S \<and> k (f r) \<in> set S"
  shows "outside S k (modify_row key i f rows) = outside S k rows"
  using assms by (induction rows) (auto simp: outside_def modify_row_def)

lemma modify_environment_outside:
  assumes "eid \<in> set S" "\<And>e. env_id (f e) = env_id e"
  shows "same_outside S d (modify_environment now eid f d)"
  using assms by (auto simp: same_outside_def modify_environment_def upd_environment_def Let_def intro!: outside_modify)

lemma modify_run_outside:
  assumes r: "get_run d rid = Some r" "run_environment_id r \<in> set S" "distinct (map run_id (db_runs d))"
    and f: "\<And>r. run_environment_id (f r) = run_environment_id r"
  shows "same_outside S d (modify_run now rid f d)"
proof -
  have "x = r" if "x \<in> set (db_runs d)" "run_id x = rid" for x
    using find_row_unique [OF r(3) that(1)] that(2) r(1) by (simp add: get_run_def)
  then show ?thesis using r(2) f
    by (auto simp: same_outside_def modify_run_def upd_run_def Let_def intro!: outside_modify)
qed

lemma retry_outside:
  assumes "retry_environment_provisioning settings now oid lid eid actor ip ky d = Inr (opr, d')" "eid \<in> set S"
  shows "same_outside S d d'"
  using assms(1)
proof (rule retry_provisioning_Inr)
  fix env a
  assume opr: "opr = queued_operation now oid eid ky ''Queued for provisioning retry.'' (provisioning_log_uri settings eid lid)"
    and d': "d' = (modify_environment now eid (\<lambda>e. e\<lparr>env_status := EProvisioning, env_updated_at := now\<rparr>) d)
       \<lparr>db_ops := db_ops d @ [opr], db_audit := a\<rparr>"
  show ?thesis
    using modify_environment_outside [OF assms(2), of "\<lambda>e. e\<lparr>env_status := EProvisioning, env_updated_at := now\<rparr>" d now] assms(2)
    by (simp add: same_outside_def d' opr queued_operation_def modify_environment_def)
qed

lemma delete_outside:
  assumes "delete_environment now eid actor ip d = Inr d'" "eid \<in> set S"
  shows "same_outside S d d'"
  using assms(1)
proof (cases rule: delete_environment_Inr)
  case already
  then show ?thesis by (simp add: outside_frame.same)
next
  case (deleted env a)
  then show ?thesis using assms(2) by (auto intro!: same_outside_audit modify_environment_outside)
qed

lemma preflight_outside:
  assumes "get_environment_preflight dp now eid rid d = Inr (p, d')" shows "same_outside S d d'"
proof -
  obtain env c where "build_preflight (dp_before dp) (dp_after dp) now env rid c d = (Inr p, d')"
    using assms by (auto simp: get_environment_preflight_def rbind_Inr_iff raised_or_value_Inr)
  then obtain a where "d' = d\<lparr>db_audit := a\<rparr>"
    using build_preflight_frame [of "dp_before dp" "dp_after dp" now env rid c d] by auto
  then show ?thesis by (simp add: same_outside_audit outside_frame.same)
qed

lemma job_outside:
  assumes "create_job_result now i req actor ip d = Inr (res, d')" "jc_environment_id req \<in> set S"
  shows "same_outside S d d'"
  using assms
  by (auto simp: create_job_result_def create_job_def rbind_Inr_iff Let_def same_outside_def add_job_def job_row_def
      write_audit_event_def split: if_splits)

lemma run_outside:
  assumes "create_run_result nf lf now i jid req actor ip ky d = Inr (res, d')" "get_job d jid = Some j"
    "job_environment_id j \<in> set S"
  shows "same_outside S d d'"
proof -
  obtain r where "create_run nf lf now i jid req actor ip ky d = Inr (r, d')"
    using assms(1) by (auto simp: create_run_result_def rbind_Inr_iff)
  then show ?thesis
  proof (cases rule: create_run_cases)
    case (existing a)
    then show ?thesis by (simp add: same_outside_audit outside_frame.same)
  next
    case (created j' env g requested c t entries a b)
    have "run_environment_id r \<in> set S"
      using assms(2,3) created(1,2,11) environment_store.get_Some [of d "job_environment_id j'" env]
      by (simp add: run_row_def)
    then show ?thesis by (simp add: same_outside_def created(12))
  qed
qed

lemma cancel_outside:
  assumes "cancel_run_result now rid actor ip d = Inr (res, d')" "get_run d rid = Some r"
    "run_environment_id r \<in> set S" "distinct (map run_id (db_runs d))"
  shows "same_outside S d d'"
proof -
  obtain r' where "cancel_run now rid actor ip d = Inr (r', d')"
    using assms(1) by (auto simp: cancel_run_result_def rbind_Inr_iff)
  then show ?thesis
  proof (cases rule: cancel_run_cases)
    case (terminal r)
    then show ?thesis by (simp add: outside_frame.same)
  qed (use assms in \<open>auto intro!: same_outside_audit modify_run_outside\<close>)
qed

subsection \<open>Replies that leave the database alone\<close>

lemma snd_answer [simp]: "snd (answer d m) = d"
  by (simp add: answer_def)

lemma tenancy_unchanged:
  assumes auth: "cx_auth cx = Inr actor" "resolve_access_context d actor = Inr a" and role: "ac_role a \<noteq> ''admin''"
  shows "snd (tenancy_api dp cx c d) = d"
proof -
  have adm: "require_admin a = Inl (forbidden ''Admin role is required for this operation.'')"
    using role by (simp add: require_admin_def)
  have ids: "has_any_identities d" using resolve_has_identity [OF auth(2)] by simp
  have nadm: "active_identity d actor = Some i \<Longrightarrow> uid_role i \<noteq> ''admin''" for i
    using auth(2) role by (auto simp: resolve_access_context_def split: if_splits)
  show ?thesis
    by (cases c) (auto simp: authenticated_actor [OF auth] adm checked_def answer_def auth ids post_tenant_def get_teams_def
        post_team_def get_bootstrap_status_def post_bootstrap_user_identity_def get_user_identities_def
        post_user_identity_def post_team_environment_scope_def delete_team_environment_scope_def
        get_team_environment_scope_def dest: nadm split: sum.split option.split)
qed

lemma costs_unchanged:
  assumes auth: "cx_auth cx = Inr actor" "resolve_access_context d actor = Inr a" and role: "ac_role a \<noteq> ''admin''"
  shows "snd (costs_api dp cx c d) = d"
proof -
  have adm: "require_admin a = Inl (forbidden ''Admin role is required for this operation.'')"
    using role by (simp add: require_admin_def)
  show ?thesis
    by (cases c) (auto simp: authenticated_actor [OF auth] adm checked_def answer_def get_usage_for_tenant_def
        post_team_budget_def get_team_budget_by_team_def get_costs_showback_def post_policy_def get_policies_def
        get_policy_by_id_def delete_policy_endpoint_def Let_def split: sum.split)
qed

lemma environments_changes:
  assumes auth: "cx_auth cx = Inr actor" "resolve_access_context d actor = Inr a" and role: "ac_role a \<noteq> ''admin''"
  shows "same_outside (ac_scoped_environment_ids a) d (snd (environments_api dp cx c d))"
proof -
  have adm: "require_admin a = Inl (forbidden ''Admin role is required for this operation.'')"
    using role by (simp add: require_admin_def)
  note scoped = accessible_environment_scoped [OF _ role]
  note frame = outside_frame.checks outside_frame.answers
  show ?thesis
  proof (cases c)
    case (PostEnvironmentRetry eid)
    show ?thesis
      unfolding PostEnvironmentRetry environments_api.simps snd_wrap post_environment_retry_def authenticated_actor [OF auth]
    proof (intro frame outside_frame.commits)
      fix env x d'
      assume "accessible_environment a eid d = Inr env"
      then have "eid \<in> set (ac_scoped_environment_ids a)" by (rule scoped)
      then show "retry_environment_provisioning (dp_settings dp) (cx_now cx) (cx_uuid cx 0) (cx_uuid cx 1) eid
          (ac_actor a) (cx_source_ip cx) ky d = Inr (x, d') \<Longrightarrow> same_outside (ac_scoped_environment_ids a) d d'" for ky
        by (rule retry_outside [rotated])
    qed
  next
    case (DeleteEnvironment eid)
    show ?thesis
      unfolding DeleteEnvironment environments_api.simps snd_wrap delete_environment_by_id_def authenticated_actor [OF auth]
    proof (intro frame outside_frame.commits)
      fix env x d'
      assume "accessible_environment a eid d = Inr env"
      then have "eid \<in> set (ac_scoped_environment_ids a)" by (rule scoped)
      moreover assume "rbind (delete_environment (cx_now cx) eid (ac_actor a) (cx_source_ip cx) d) (\<lambda>d'.
          Inr (case get_environment d' eid of Some e \<Rightarrow> e | None \<Rightarrow> env, d')) = Inr (x, d')"
      ultimately show "same_outside (ac_scoped_environment_ids a) d d'" by (auto simp: rbind_Inr_iff intro: delete_outside)
    qed
  next
    case (GetEnvironmentPreflight eid rid)
    show ?thesis
      unfolding GetEnvironmentPreflight environments_api.simps snd_wrap get_environment_preflight_by_id_def
        authenticated_actor [OF auth]
      by (intro frame outside_frame.commits preflight_outside)
  qed (auto simp: authenticated_actor [OF auth] adm outside_frame.same get_environments_def get_byoc_lite_discovery_def
     post_environment_def get_environment_by_id_def get_provisioning_operation_by_id_def get_queue_utilization_def Let_def
     checked_def split: sum.split)
qed

lemma work_changes:
  assumes auth: "cx_auth cx = Inr actor" "resolve_access_context d actor = Inr a" and role: "ac_role a \<noteq> ''admin''"
    and alone: "cx_other1 cx = (\<lambda>d. d)" "cx_other2 cx = (\<lambda>d. d)" and ids: "distinct (map run_id (db_runs d))"
  shows "same_outside (ac_scoped_environment_ids a) d (snd (work_api dp cx c d))"
proof -
  have adm: "require_admin a = Inl (forbidden ''Admin role is required for this operation.'')"
    using role by (simp add: require_admin_def)
  note scoped = accessible_environment_scoped [OF _ role]
  note frame = outside_frame.checks outside_frame.answers
  show ?thesis
  proof (cases c)
    case (PostJob req)
    show ?thesis unfolding PostJob work_api.simps snd_wrap post_job_def authenticated_actor [OF auth]
    proof (intro frame outside_frame.idempotent_calls alone)
      fix env x res d1 ky
      assume "accessible_environment a (jc_environment_id req) d = Inr env"
      then have "jc_environment_id req \<in> set (ac_scoped_environment_ids a)" by (rule scoped)
      then show "create_job_result (cx_now cx) (cx_uuid cx 0) req (ac_actor a) (cx_source_ip cx) (d\<lparr>db_idem := x\<rparr>)
          = Inr (res, d1) \<Longrightarrow> same_outside (ac_scoped_environment_ids a) (d\<lparr>db_idem := x\<rparr>) d1"
        by (rule job_outside [rotated])
    qed
  next
    case (PostRun jid req)
    show ?thesis unfolding PostRun work_api.simps snd_wrap post_run_def authenticated_actor [OF auth]
    proof (intro frame outside_frame.idempotent_calls alone)
      fix j env x res d1 ky
      assume "(case get_job d jid of None \<Rightarrow> Inl (HTTPException 404 ''Job not found.'') | Some j \<Rightarrow> Inr j) = Inr j"
      then have j: "get_job (d\<lparr>db_idem := x\<rparr>) jid = Some j" by (simp add: get_job_def split: option.splits)
      assume "accessible_environment a (job_environment_id j) d = Inr env"
      then have "job_environment_id j \<in> set (ac_scoped_environment_ids a)" by (rule scoped)
      with j show "create_run_result (dp_nulls_first dp) (dp_lf_context dp) (cx_now cx) (cx_uuid cx 0) jid req (ac_actor a)
          (cx_source_ip cx) ky (d\<lparr>db_idem := x\<rparr>) = Inr (res, d1) \<Longrightarrow>
          same_outside (ac_scoped_environment_ids a) (d\<lparr>db_idem := x\<rparr>) d1"
        by (rule run_outside [rotated])
    qed
  next
    case (PostCancelRun rid)
    show ?thesis unfolding PostCancelRun work_api.simps snd_wrap post_cancel_run_def authenticated_actor [OF auth]
    proof (intro frame outside_frame.idempotent_calls alone)
      fix re x res d1
      assume "accessible_run a rid d = Inr re"
      then obtain r env where "get_run d rid = Some r" "get_environment d (run_environment_id r) = Some env"
          "can_access_run a r env"
        by (cases re) (auto simp: reply_simps)
      then have "get_run (d\<lparr>db_idem := x\<rparr>) rid = Some r" "run_environment_id r \<in> set (ac_scoped_environment_ids a)"
        using accessible_run_scoped role by (auto simp: get_run_def)
      moreover assume "cancel_run_result (cx_now cx) rid (ac_actor a) (cx_source_ip cx) (d\<lparr>db_idem := x\<rparr>) = Inr (res, d1)"
      ultimately show "same_outside (ac_scoped_environment_ids a) (d\<lparr>db_idem := x\<rparr>) d1"
        by (intro cancel_outside) (use ids in simp_all)
    qed
  qed (auto simp: authenticated_actor [OF auth] adm outside_frame.same get_jobs_def get_golden_paths_def post_golden_path_def
     get_golden_path_by_id_def get_runs_def get_run_by_id_def get_run_logs_def get_run_diagnostics_def
     checked_def split: sum.split)
qed

lemma api_changes:
  assumes "cx_auth cx = Inr actor" "resolve_access_context d actor = Inr a" "ac_role a \<noteq> ''admin''"
    and "cx_other1 cx = (\<lambda>d. d)" "cx_other2 cx = (\<lambda>d. d)" and "distinct (map run_id (db_runs d))"
  shows "same_outside (ac_scoped_environment_ids a) d (snd (api dp cx c d))"
  using environments_changes [OF assms(1-3)] work_changes [OF assms] tenancy_unchanged [OF assms(1-3)]
    costs_unchanged [OF assms(1-3)]
  by (cases c) (simp_all add: outside_frame.same)

end
