(* ===== verification/SP_InviteSteps.thy ===== *)
theory SP_InviteSteps
  imports SP_Invites SP_Writes
begin

text \<open>
  Executions of the invitation routes. A token row never changes but for the two instants of its use, and an
  instant that is set stays (\<open>tokens_progress\<close>), so a link that was used or replaced is refused ever after.
\<close>

datatype invite_request =
    InviteTenant internal_tenant_create
  | RegenerateInvite string string
  | ListTenants
  | TenantDetail string
  | AcceptInvite string
  | AuthCallback "string option"
  | AuthMe

primrec after_invite_request :: "invite_settings \<Rightarrow> invite_call \<Rightarrow> invite_request \<Rightarrow> database \<Rightarrow> database" where
  "after_invite_request iv vc (InviteTenant req) d = snd (post_internal_tenant iv vc req d)"
| "after_invite_request iv vc (RegenerateInvite tid uid) d = snd (post_internal_regenerate_invite iv vc tid uid d)"
| "after_invite_request iv vc ListTenants d = snd (get_internal_tenants vc d)"
| "after_invite_request iv vc (TenantDetail tid) d = snd (get_internal_tenant_by_id vc tid d)"
| "after_invite_request iv vc (AcceptInvite token) d = snd (accept_invite iv vc token d)"
| "after_invite_request iv vc (AuthCallback state) d = snd (get_auth_callback iv vc state d)"
| "after_invite_request iv vc AuthMe d = snd (get_auth_me vc d)"

fun after_invite_requests :: "invite_settings \<Rightarrow> (invite_call \<times> invite_request) list \<Rightarrow> database \<Rightarrow> database" where
  "after_invite_requests iv [] d = d"
| "after_invite_requests iv ((vc, req) # rest) d = after_invite_requests iv rest (after_invite_request iv vc req d)"

definition unused :: "magic_link_token \<Rightarrow> magic_link_token" where
  "unused t = t\<lparr>mlt_consumed_at := None, mlt_callback_consumed_at := None\<rparr>"

definition token_progress :: "magic_link_token \<Rightarrow> magic_link_token \<Rightarrow> bool" where
  "token_progress t t' \<longleftrightarrow> unused t' = unused t \<and>
     (mlt_consumed_at t \<noteq> None \<longrightarrow> mlt_consumed_at t' = mlt_consumed_at t) \<and>
     (mlt_callback_consumed_at t \<noteq> None \<longrightarrow> mlt_callback_consumed_at t' = mlt_callback_consumed_at t)"

lemma unused_eq:
  assumes "unused t' = unused t"
  shows "mlt_id t' = mlt_id t" "mlt_token_hash t' = mlt_token_hash t" "mlt_user_id t' = mlt_user_id t"
    "mlt_tenant_id t' = mlt_tenant_id t" "mlt_purpose t' = mlt_purpose t" "mlt_expires_at t' = mlt_expires_at t"
  using arg_cong [OF assms, of mlt_id] arg_cong [OF assms, of mlt_token_hash] arg_cong [OF assms, of mlt_user_id]
    arg_cong [OF assms, of mlt_tenant_id] arg_cong [OF assms, of mlt_purpose] arg_cong [OF assms, of mlt_expires_at]
  by (simp_all add: unused_def)

definition unique_digests :: "database \<Rightarrow> bool" where
  "unique_digests d \<longleftrightarrow> distinct (map mlt_token_hash (db_tokens d))"

definition tokens_progress :: "database \<Rightarrow> database \<Rightarrow> bool" where
  "tokens_progress d d' \<longleftrightarrow>
     (\<forall>t \<in> set (db_tokens d). \<exists>t' \<in> set (db_tokens d'). token_progress t t') \<and> (unique_digests d \<longrightarrow> unique_digests d')"

lemma token_progress_refl [simp]: "token_progress t t"
  by (simp add: token_progress_def)

lemma token_progress_trans: "token_progress t t' \<Longrightarrow> token_progress t' t'' \<Longrightarrow> token_progress t t''"
  by (auto simp: token_progress_def)

text \<open>The two ways the routes use a token.\<close>

lemma token_progress_consume:
  "(b t \<Longrightarrow> mlt_consumed_at t = None) \<Longrightarrow> token_progress t (if b t then t\<lparr>mlt_consumed_at := Some now\<rparr> else t)"
  by (simp add: token_progress_def unused_def)

lemma token_progress_callback:
  "(b t \<Longrightarrow> mlt_callback_consumed_at t = None) \<Longrightarrow>
     token_progress t (if b t then t\<lparr>mlt_callback_consumed_at := Some now\<rparr> else t)"
  by (simp add: token_progress_def unused_def)

lemma progress_same: "db_tokens d' = db_tokens d \<Longrightarrow> tokens_progress d d'"
  by (auto simp: tokens_progress_def unique_digests_def intro: token_progress_refl)

interpretation tokens_frame: idempotent_frame tokens_progress
proof
  show "tokens_progress d d1 \<Longrightarrow> tokens_progress d1 d2 \<Longrightarrow> tokens_progress d d2" for d d1 d2
    unfolding tokens_progress_def by (meson token_progress_trans)
  show "tokens_progress d (finish_reservation scp ky res d)" for d scp ky res
    by (cases res) (simp add: progress_same finish_reservation_def)
qed (auto simp: flush_reservation_Inr intro: progress_same)

lemma progress_map:
  assumes "db_tokens d' = map f (db_tokens d)" "\<And>t. token_progress t (f t)"
  shows "tokens_progress d d'"
proof -
  have "unused (f t) = unused t" for t using assms(2) by (simp add: token_progress_def)
  then have "mlt_token_hash (f t) = mlt_token_hash t" for t by (rule unused_eq)
  then have "map mlt_token_hash (db_tokens d') = map mlt_token_hash (db_tokens d)" by (simp add: assms(1) comp_def)
  moreover have "\<exists>t' \<in> set (db_tokens d'). token_progress t t'" if "t \<in> set (db_tokens d)" for t
    using assms that by auto
  ultimately show ?thesis by (simp add: tokens_progress_def unique_digests_def)
qed

lemma progress_add:
  assumes "db_tokens d' = db_tokens d @ [r]" "\<not> list_ex (\<lambda>t. mlt_token_hash t = mlt_token_hash r) (db_tokens d)"
  shows "tokens_progress d d'"
proof -
  have "\<exists>t' \<in> set (db_tokens d'). token_progress t t'" if "t \<in> set (db_tokens d)" for t
    using that by (intro bexI [where x = t]) (simp_all add: assms(1))
  moreover have "mlt_token_hash r \<notin> mlt_token_hash ` set (db_tokens d)" using assms(2) by (auto simp: list_ex_iff)
  ultimately show ?thesis by (simp add: tokens_progress_def unique_digests_def assms(1))
qed

subsection \<open>Every route\<close>

lemma create_magic_link_token_Inr:
  assumes "create_magic_link_token iv vc i uid tid who ex d = Inr (r, d')"
  shows "r = invite_token iv vc i uid tid who ex" "d' = add_token r d"
    "\<not> list_ex (\<lambda>t. mlt_token_hash t = mlt_token_hash r) (db_tokens d)"
  using assms unfolding create_magic_link_token_def Let_def by (auto split: if_splits)

lemma issue_invite_tokens:
  assumes "issue_invite iv vc i action who t u d = Inr (dr, d')"
  obtains r where "r = invite_token iv vc i (usr_id u) (ten_id t) who (vc_now vc + iv_ttl_hours iv * us_per_hour)"
    "db_tokens d' = db_tokens d @ [r]" "\<not> list_ex (\<lambda>t. mlt_token_hash t = mlt_token_hash r) (db_tokens d)"
proof -
  obtain r d1 where c: "create_magic_link_token iv vc i (usr_id u) (ten_id t) who
        (vc_now vc + iv_ttl_hours iv * us_per_hour) d = Inr (r, d1)"
      and d': "db_tokens d' = db_tokens d1"
    using assms unfolding issue_invite_def Let_def rbind_Inr_iff log_magic_link_issued_def by auto
  note r = create_magic_link_token_Inr [OF c]
  show thesis by (rule that [OF r(1) _ r(3)]) (simp add: d' r(2) add_token_def)
qed

lemma issue_invite_progress: "issue_invite iv vc i action who t u d = Inr (dr, d') \<Longrightarrow> tokens_progress d d'"
  by (erule issue_invite_tokens) (rule progress_add)

lemma send_admin_invite_tokens [simp]: "db_tokens (snd (send_admin_invite iv vc who failure dr d)) = db_tokens d"
  by (auto simp: send_admin_invite_def send_invite_email_and_audit_def Let_def split: sum.splits prod.splits)

lemma admin_audited_tokens [simp]: "db_tokens (admin_audited vc ia action tid uid d) = db_tokens d"
  by (simp add: admin_audited_def commit_internal_admin_audit_best_effort_def write_internal_admin_audit_event_def)

lemma invalidate_progress: "tokens_progress d (invalidate_unconsumed_user_invites uid now d)"
proof (rule progress_map)
  show "db_tokens (invalidate_unconsumed_user_invites uid now d) =
      map (\<lambda>t. if unconsumed_invite_of uid t then t\<lparr>mlt_consumed_at := Some now\<rparr> else t) (db_tokens d)"
    by (simp add: invalidate_unconsumed_user_invites_def)
qed (rule token_progress_consume, simp add: unconsumed_invite_of_def)

lemma consume_invite_token_Inr:
  assumes "consume_invite_token dg now token d = Inr ((row, u), d')"
  obtains "db_tokens d' = map (\<lambda>t. if acceptable (dg token) now t then t\<lparr>mlt_consumed_at := Some now\<rparr> else t) (db_tokens d)"
    "length (filter (acceptable (dg token) now) (db_tokens d)) = 1" "is_invite (dg token) row" "row \<in> set (db_tokens d')"
    "\<exists>u0. get_user d (mlt_user_id row) = Some u0 \<and> u = upd_user now (\<lambda>u. u\<lparr>usr_invite_consumed_at := Some now\<rparr>) u0"
    "db_identities d' = db_identities d"
  using assms
  by (auto simp: consume_invite_token_def Let_def modify_user_def get_user_def find_Some_iff
      split: if_splits option.splits)

lemma consume_progress:
  assumes "consume_invite_token dg now token d = Inr ((row, u), d')" shows "tokens_progress d d'"
proof (rule progress_map)
  show "db_tokens d' = map (\<lambda>t. if acceptable (dg token) now t then t\<lparr>mlt_consumed_at := Some now\<rparr> else t) (db_tokens d)"
    using assms by (rule consume_invite_token_Inr)
qed (rule token_progress_consume, simp add: acceptable_def)

lemma callback_Inr:
  assumes "consume_invite_callback_state now tkid tid uid d = Inr (row, d')"
  obtains "d' = d\<lparr>db_tokens := map (\<lambda>t. if callback_open tkid tid uid now t
            then t\<lparr>mlt_callback_consumed_at := Some now\<rparr> else t) (db_tokens d)\<rparr>"
    "length (filter (callback_open tkid tid uid now) (db_tokens d)) = 1"
  using assms by (auto simp: consume_invite_callback_state_def Let_def split: if_splits option.splits)

lemma callback_progress:
  assumes "consume_invite_callback_state now tkid tid uid d = Inr (row, d')" shows "tokens_progress d d'"
proof (rule progress_map)
  show "db_tokens d' = map (\<lambda>t. if callback_open tkid tid uid now t then t\<lparr>mlt_callback_consumed_at := Some now\<rparr> else t)
      (db_tokens d)"
    using assms by (rule callback_Inr) simp
qed (rule token_progress_callback, simp add: callback_open_def)

lemma mapping_tokens:
  "apply_invite_identity_mapping now fresh tid uid actor ip d = Inr (i, d') \<Longrightarrow> db_tokens d' = db_tokens d"
  by (auto simp: apply_invite_identity_mapping_def choose_identity_def rbind_Inr_iff Let_def add_identity_def modify_user_def
      modify_identity_def split: option.splits if_splits)

lemma apply_invite_progress: "apply_invite vc ctx p d = Inr (r, d') \<Longrightarrow> tokens_progress d d'"
  by (auto simp: apply_invite_def rbind_Inr_iff split: option.splits if_splits
      dest!: callback_progress mapping_tokens progress_same intro: tokens_frame.compose)

lemma regenerate_progress: "regenerate_user_invite iv vc who tid uid d = Inr (r, d') \<Longrightarrow> tokens_progress d d'"
proof -
  assume run: "regenerate_user_invite iv vc who tid uid d = Inr (r, d')"
  let ?d1 = "modify_user (vc_now vc) uid (\<lambda>u. u\<lparr>usr_invited_at := Some (vc_now vc)\<rparr>)
      (invalidate_unconsumed_user_invites uid (vc_now vc) d)"
  obtain t u dr d2 where i: "issue_invite iv vc (vc_uuid vc 0) ''user.invite_regenerated'' who t u ?d1 = Inr (dr, d2)"
      and d': "d' = snd (send_admin_invite iv vc who invite_regenerated_failure dr d2)"
    using run by (force simp: regenerate_user_invite_def rbind_Inr_iff Let_def split: option.splits if_splits)
  have "tokens_progress d ?d1"
    by (rule tokens_frame.compose [OF invalidate_progress progress_same]) (simp add: modify_user_def)
  then have "tokens_progress d d2" by (rule tokens_frame.compose) (rule issue_invite_progress [OF i])
  then show ?thesis by (rule tokens_frame.compose) (simp add: d' progress_same)
qed

lemma create_progress: "create_tenant_with_admin_invite iv vc who req d = Inr (r, d') \<Longrightarrow> tokens_progress d d'"
proof -
  assume run: "create_tenant_with_admin_invite iv vc who req d = Inr (r, d')"
  obtain dr d2 where dr: "draft_tenant_with_admin iv vc who req d = Inr (dr, d2)"
      and d': "d' = snd (send_admin_invite iv vc who tenant_created_failure dr d2)"
    using run by (force simp: create_tenant_with_admin_invite_def rbind_Inr_iff)
  obtain t d0 u where d0: "db_tokens d0 = db_tokens d"
      and i: "issue_invite iv vc (vc_uuid vc 2) ''user.invite_created'' who t u d0 = Inr (dr, d2)"
  proof -
    obtain t d1 where t: "create_tenant (vc_now vc) (vc_uuid vc 0) \<lparr>tc_name = it_name req,
          tc_federation_type = it_federation_type req, tc_idp_metadata = it_idp_metadata req\<rparr> who (vc_source_ip vc) d = Inr (t, d1)"
      using dr by (auto simp: draft_tenant_with_admin_def rbind_Inr_iff)
    then have "db_tokens d1 = db_tokens d" by (auto simp: create_tenant_def add_tenant_def Let_def split: option.splits)
    then have "db_tokens (add_user u d1) = db_tokens d" for u by (simp add: add_user_def)
    moreover obtain u where "issue_invite iv vc (vc_uuid vc 2) ''user.invite_created'' who t u (add_user u d1) = Inr (dr, d2)"
      using dr by (auto simp: draft_tenant_with_admin_def rbind_Inr_iff t Let_def split: if_splits)
    ultimately show thesis using that by blast
  qed
  have "tokens_progress d d2" by (rule tokens_frame.compose [OF progress_same [OF d0] issue_invite_progress [OF i]])
  then show ?thesis by (rule tokens_frame.compose) (simp add: d' progress_same)
qed

lemma audited_progress: "tokens_progress d d1 \<Longrightarrow> tokens_progress d (admin_audited vc ia action tid uid d1)"
  by (erule tokens_frame.compose) (simp add: progress_same)

lemma request_progress: "tokens_progress d (after_invite_request iv vc req d)"
proof (cases req)
  case (InviteTenant r)
  show ?thesis unfolding InviteTenant after_invite_request.simps post_internal_tenant_def
  proof (intro tokens_frame.checks tokens_frame.commits)
    fix ia x d'
    assume "rbind (create_tenant_with_admin_invite iv vc (ia_email ia) r d) (\<lambda>(y, d1). Inr (y,
        admin_audited vc ia ''tenant.create'' (Some (ten_id (pr_tenant y))) (Some (usr_id (pr_user y))) d1)) = Inr (x, d')"
    then show "tokens_progress d d'"
      by (auto simp: rbind_Inr_iff dest!: create_progress intro!: audited_progress)
  qed
next
  case (RegenerateInvite tid uid)
  show ?thesis unfolding RegenerateInvite after_invite_request.simps post_internal_regenerate_invite_def
  proof (intro tokens_frame.checks tokens_frame.commits)
    fix ia x d'
    assume "rbind (regenerate_user_invite iv vc (ia_email ia) tid uid d) (\<lambda>(y, d1). Inr (y,
        admin_audited vc ia ''tenant.invite_regenerate'' (Some tid) (Some uid) d1)) = Inr (x, d')"
    then show "tokens_progress d d'"
      by (auto simp: rbind_Inr_iff dest!: regenerate_progress intro!: audited_progress)
  qed
next
  case (AcceptInvite token)
  then show ?thesis
    by (auto simp: accept_invite_def tokens_frame.same intro!: tokens_frame.checks dest: consume_progress
        split: sum.split prod.split)
next
  case (AuthCallback state)
  show ?thesis unfolding AuthCallback after_invite_request.simps get_auth_callback_def
    by (intro tokens_frame.checks) (auto simp: tokens_frame.same intro!: tokens_frame.commits dest: apply_invite_progress
        split: option.split)
qed (auto simp: get_internal_tenants_def get_internal_tenant_by_id_def get_auth_me_def tokens_frame.same progress_same
    intro!: tokens_frame.checks split: sum.split)

lemma requests_progress: "tokens_progress d (after_invite_requests iv reqs d)"
proof (induction reqs arbitrary: d)
  case (Cons x reqs)
  then show ?case by (cases x) (auto intro: tokens_frame.compose [OF request_progress])
qed (simp add: tokens_frame.same)

subsection \<open>Spent links\<close>

definition spent :: "string \<Rightarrow> database \<Rightarrow> bool" where
  "spent digest d \<longleftrightarrow> (\<exists>t \<in> set (db_tokens d). is_invite digest t \<and> mlt_consumed_at t \<noteq> None)"

lemma spent_progress: "spent h d \<Longrightarrow> tokens_progress d d' \<Longrightarrow> spent h d'"
  unfolding spent_def tokens_progress_def is_invite_def by (metis token_progress_def unused_eq(2,5))

lemma progress_unique: "unique_digests d \<Longrightarrow> tokens_progress d d' \<Longrightarrow> unique_digests d'"
  by (simp add: tokens_progress_def)

lemma spent_only:
  assumes "spent h d" "unique_digests d" "t \<in> set (db_tokens d)" "is_invite h t" shows "mlt_consumed_at t \<noteq> None"
  using assms by (auto simp: spent_def unique_digests_def is_invite_def distinct_map inj_on_def)

lemma spent_refused:
  assumes "spent (dg token) d" "unique_digests d"
  shows "consume_invite_token dg now token d = Inl (GoneError ''Invite token has already been consumed.'')"
proof -
  have no: "\<not> acceptable (dg token) now t" if "t \<in> set (db_tokens d)" for t
    using spent_only [OF assms that] by (auto simp: acceptable_def)
  then have f: "filter (acceptable (dg token) now) (db_tokens d) = []" by (simp add: filter_empty_conv)
  have m: "map (\<lambda>t. if acceptable (dg token) now t then t\<lparr>mlt_consumed_at := Some now\<rparr> else t) (db_tokens d) = db_tokens d"
    by (rule map_idI) (use no in simp)
  obtain t where t: "find (is_invite (dg token)) (db_tokens d) = Some t"
    using assms(1) by (cases "find (is_invite (dg token)) (db_tokens d)") (auto simp: spent_def find_None_iff)
  then have "t \<in> set (db_tokens d)" "is_invite (dg token) t" by (auto simp: find_Some_iff)
  then have "mlt_consumed_at t \<noteq> None" by (rule spent_only [OF assms])
  with t show ?thesis by (simp add: consume_invite_token_def refuse_invite_token_def f m)
qed

end
