(* ===== verification/SP_Contact.thy ===== *)
theory SP_Contact
  imports SP_Invites SP_Settings
begin

text \<open>
  The contact routes of \<open>api.py\<close>: requests delivered by mail, and submissions kept in a table that an internal
  administrator approves, which creates a tenant with an invited administrator, or rejects. The table stands beside
  the database of \<open>SP_Models\<close>. Columns as long as their types are not cut.
\<close>

subsection \<open>Validated requests\<close>

text \<open>\<open>^[^@\s]+@[^@\s]+\.[^@\s]+$\<close>\<close>

definition contact_email_pattern :: "string \<Rightarrow> bool" where
  "contact_email_pattern s =
     (case split_at (CHR ''@'') s of
        [user_part, dom_part] \<Rightarrow> user_part \<noteq> [] \<and> \<not> list_ex is_space user_part \<and> \<not> list_ex is_space dom_part
          \<and> CHR ''.'' \<in> set (butlast (drop 1 dom_part))
      | _ \<Rightarrow> False)"

definition contact_email :: "string \<Rightarrow> string option" where
  "contact_email v =
     (let email = py_lower (py_strip v) in
      if 3 \<le> length email \<and> length email \<le> 255 \<and> contact_email_pattern email then Some email else None)"

definition contact_name :: "nat \<Rightarrow> string \<Rightarrow> string option" where
  "contact_name longest v =
     (if 1 \<le> length v \<and> length v \<le> longest \<and> py_strip v \<noteq> [] then Some (py_strip v) else None)"

text \<open>The outer option is whether the value is accepted.\<close>

definition contact_text :: "nat \<Rightarrow> string option \<Rightarrow> string option option" where
  "contact_text longest v =
     (case v of
        None \<Rightarrow> Some None
      | Some t \<Rightarrow>
          if py_strip t = [] then Some None
          else if length (py_strip t) \<le> longest then Some (Some (py_strip t)) else None)"

record contact_fields =
  cf_name :: string
  cf_email :: string
  cf_company :: "string option"
  cf_use_case :: "string option"
  cf_message :: "string option"

record contact_request = contact_fields +
  cf_source_url :: "string option"
  cf_website :: "string option"

definition contact_submission_create :: "contact_fields \<Rightarrow> contact_fields option" where
  "contact_submission_create f =
     (case (contact_name 255 (cf_name f), contact_email (cf_email f), contact_text 255 (cf_company f),
            contact_text 255 (cf_use_case f), contact_text 4000 (cf_message f)) of
        (Some n, Some e, Some c, Some u, Some m) \<Rightarrow>
          Some \<lparr>cf_name = n, cf_email = e, cf_company = c, cf_use_case = u, cf_message = m\<rparr>
      | _ \<Rightarrow> None)"

definition contact_request_create :: "contact_request \<Rightarrow> contact_request option" where
  "contact_request_create f =
     (case (contact_name 120 (cf_name f), contact_email (cf_email f), contact_text 255 (cf_company f),
            contact_text 120 (cf_use_case f), contact_text 4000 (cf_message f),
            contact_text 2048 (cf_source_url f), contact_text 255 (cf_website f)) of
        (Some n, Some e, Some c, Some u, Some m, Some s, Some w) \<Rightarrow>
          Some \<lparr>cf_name = n, cf_email = e, cf_company = c, cf_use_case = u, cf_message = m, cf_source_url = s, cf_website = w\<rparr>
      | _ \<Rightarrow> None)"

definition normalize_optional_trim :: "string option \<Rightarrow> string option" where
  "normalize_optional_trim v = (case v of None \<Rightarrow> None | Some t \<Rightarrow> if py_strip t = [] then None else Some (py_strip t))"

subsection \<open>Requests delivered by mail\<close>

definition contact_not_configured :: error where
  "contact_not_configured = HTTPException 503 ''Contact request delivery is not configured.''"

definition require_contact_submit_token :: "settings \<Rightarrow> string option \<Rightarrow> error + unit" where
  "require_contact_submit_token s header =
     (let expected = py_strip (cfg_contact_submit_token s);
          supplied = py_strip (case header of None \<Rightarrow> [] | Some h \<Rightarrow> h);
          refused = HTTPException 401 ''Contact request submission is not authorized.''
      in if expected = [] then Inl contact_not_configured
         else if supplied = [] then Inl refused
         else rbind (compare_digest supplied expected) (\<lambda>same. guard_err (\<not> same) refused))"

text \<open>The status with which the handler answers a failed mail.\<close>

definition mail_error :: "exn \<Rightarrow> error" where
  "mail_error e = HTTPException (if exn_class e = ''InviteEmailConfigurationError'' then 503 else 502) (exn_text e)"

record contact_call =
  ct_token :: "string option"
  ct_request_id :: string
  ct_referer :: "string option"
  ct_submitted :: string \<comment> \<open>the instant as the mail shows it\<close>

text \<open>The answer: \<open>sent\<close> or \<open>accepted\<close>, and the id of the request.\<close>

definition post_contact_request ::
    "settings \<Rightarrow> email_settings \<Rightarrow> (string \<Rightarrow> json \<Rightarrow> string \<Rightarrow> nat \<Rightarrow> http_outcome) \<Rightarrow> contact_call \<Rightarrow> contact_request
     \<Rightarrow> error + string \<times> string" where
  "post_contact_request s es post cc req =
     rbind (require_contact_submit_token s (ct_token cc)) (\<lambda>_.
     let rid = ct_request_id cc in
     if normalize_optional_trim (cf_website req) \<noteq> None then Inr (''accepted'', rid)
     else let recipient = contact_email_recipient_effective s in
       if recipient = [] then Inl contact_not_configured
       else let referer = py_strip (case ct_referer cc of None \<Rightarrow> [] | Some r \<Rightarrow> r);
            source_url = (if falsy (cf_source_url req) then (if referer = [] then None else Some referer) else cf_source_url req)
         in (case send_contact_request_email es post recipient
                \<lparr>cm_name = py_strip (cf_name req), cm_email = py_lower (py_strip (cf_email req)),
                  cm_company = normalize_optional_trim (cf_company req), cm_use_case = normalize_optional_trim (cf_use_case req),
                  cm_message = normalize_optional_trim (cf_message req), cm_source_url = source_url,
                  cm_submitted = ct_submitted cc, cm_request_id = rid\<rparr> (''contact:'' @ rid) of
              Inl e \<Rightarrow> Inl (mail_error e)
            | Inr _ \<Rightarrow> Inr (''sent'', rid)))"

subsection \<open>Submissions\<close>

record contact_submission =
  csu_id :: string
  csu_name :: string
  csu_email :: string
  csu_company :: "string option"
  csu_use_case :: "string option"
  csu_message :: "string option"
  csu_status :: string
  csu_source_ip :: "string option"
  csu_tenant_id :: "string option"
  csu_approved_by :: "string option"
  csu_approved_at :: "time option"
  csu_created_at :: time
  csu_updated_at :: time

record contact_state =
  cs_db :: database
  cs_submissions :: "contact_submission list"

type_synonym 'a contact_reply = "(error + 'a) \<times> contact_state"

definition us_per_second :: int where
  "us_per_second = 1000000"

definition enforce_public_contact_abuse_controls ::
    "settings \<Rightarrow> string \<Rightarrow> string option \<Rightarrow> time \<Rightarrow> contact_submission list \<Rightarrow> error + unit" where
  "enforce_public_contact_abuse_controls s email source_ip now subs =
     (let rate_start = now - cfg_contact_submit_rate_limit_window_seconds s * us_per_second;
          recent_count = length (filter (\<lambda>c. csu_source_ip c = source_ip \<and> csu_created_at c \<ge> rate_start) subs);
          dup_start = now - cfg_contact_submit_duplicate_window_seconds s * us_per_second
      in rbind (guard_err (\<not> falsy source_ip \<and> int recent_count \<ge> cfg_contact_submit_rate_limit_max s)
           (HTTPException 429 ''Too many contact submissions. Please try again later.'')) (\<lambda>_.
         guard_err (list_ex (\<lambda>c. csu_email c = email \<and> csu_created_at c \<ge> dup_start \<and> csu_source_ip c = source_ip) subs)
           (HTTPException 429 ''A contact submission was already received recently.'')))"

definition submission_row :: "time \<Rightarrow> string \<Rightarrow> string option \<Rightarrow> contact_fields \<Rightarrow> contact_submission" where
  "submission_row now i source_ip req =
     \<lparr>csu_id = i, csu_name = py_strip (cf_name req), csu_email = py_lower (py_strip (cf_email req)),
      csu_company = normalize_optional_trim (cf_company req), csu_use_case = normalize_optional_trim (cf_use_case req),
      csu_message = normalize_optional_trim (cf_message req), csu_status = ''pending'', csu_source_ip = source_ip,
      csu_tenant_id = None, csu_approved_by = None, csu_approved_at = None, csu_created_at = now, csu_updated_at = now\<rparr>"

definition post_public_contact ::
    "settings \<Rightarrow> time \<Rightarrow> string \<Rightarrow> string option \<Rightarrow> contact_fields \<Rightarrow> contact_state \<Rightarrow> (string \<times> string) contact_reply" where
  "post_public_contact s now i source_ip req st =
     (case enforce_public_contact_abuse_controls s (py_lower (py_strip (cf_email req))) source_ip now (cs_submissions st) of
        Inl e \<Rightarrow> (Inl e, st)
      | Inr _ \<Rightarrow> (Inr (i, ''pending''), st\<lparr>cs_submissions := cs_submissions st @ [submission_row now i source_ip req]\<rparr>))"

subsection \<open>Decisions\<close>

definition contact_audited ::
    "invite_call \<Rightarrow> internal_admin \<Rightarrow> string \<Rightarrow> string option \<Rightarrow> string option \<Rightarrow> json dict \<Rightarrow> database \<Rightarrow> database" where
  "contact_audited vc ia action tid uid details d =
     commit_internal_admin_audit_best_effort (vc_admin_audit_ok vc) (vc_now vc) (vc_request_id vc) (vc_source_ip vc)
       (ia_email ia) action tid uid details d"

definition get_internal_contact_submissions ::
    "invite_call \<Rightarrow> string option \<Rightarrow> nat \<Rightarrow> nat \<Rightarrow> contact_state \<Rightarrow> contact_submission list contact_reply" where
  "get_internal_contact_submissions vc status_filter limit offset st =
     (case vc_admin vc of
        Inl e \<Rightarrow> (Inl e, st)
      | Inr ia \<Rightarrow>
          let matching = filter (\<lambda>c. falsy status_filter \<or> Some (csu_status c) = status_filter) (cs_submissions st);
              rows = page limit offset (sort_desc csu_created_at matching);
              details = [(''status_filter'', JStr (if falsy status_filter then ''all'' else the status_filter)),
                (''row_count'', JInt (int (length rows))), (''limit'', JInt (int limit)), (''offset'', JInt (int offset))]
          in (Inr rows, st\<lparr>cs_db := contact_audited vc ia ''contact.list_view'' None None details (cs_db st)\<rparr>))"

text \<open>A row locked for update that is still pending.\<close>

definition pending_submission :: "string \<Rightarrow> contact_submission list \<Rightarrow> error + contact_submission" where
  "pending_submission sid subs =
     (case find_row csu_id sid subs of
        None \<Rightarrow> Inl (HTTPException 404 ''Contact submission not found.'')
      | Some sub \<Rightarrow>
          if csu_status sub \<noteq> ''pending''
          then Inl (HTTPException 409 (''Submission is already '' @ csu_status sub @ ''.'')) else Inr sub)"

definition approved :: "invite_call \<Rightarrow> internal_admin \<Rightarrow> string \<Rightarrow> contact_submission \<Rightarrow> contact_submission" where
  "approved vc ia tid c = c\<lparr>csu_status := ''approved'', csu_tenant_id := Some tid, csu_approved_by := Some (ia_email ia),
     csu_approved_at := Some (vc_now vc), csu_updated_at := vc_now vc\<rparr>"

definition rejected :: "time \<Rightarrow> contact_submission \<Rightarrow> contact_submission" where
  "rejected now c = c\<lparr>csu_status := ''rejected'', csu_updated_at := now\<rparr>"

fun approval_error :: "error \<Rightarrow> error" where
  "approval_error (IntegrityError c) = HTTPException 502 ''Tenant creation failed. Submission remains pending.''"
| "approval_error e = e"

text \<open>
  The tenant, the user, the link and the decision are one commit; the mail comes after it. \<open>refresh_ok\<close>: the rows
  just committed can be read again.
\<close>

definition post_internal_contact_approve ::
    "invite_settings \<Rightarrow> bool \<Rightarrow> invite_call \<Rightarrow> string \<Rightarrow> string \<Rightarrow> contact_state \<Rightarrow> provision_result contact_reply" where
  "post_internal_contact_approve iv refresh_ok vc sid tenant_name st =
     (case rbind (vc_admin vc) (\<lambda>ia. rbind (pending_submission sid (cs_submissions st)) (\<lambda>sub. Inr (ia, sub))) of
        Inl e \<Rightarrow> (Inl e, st)
      | Inr (ia, sub) \<Rightarrow>
         (case draft_tenant_with_admin iv vc (ia_email ia)
                 \<lparr>it_name = tenant_name, it_admin_email = csu_email sub, it_federation_type = ''cognito_password'',
                  it_idp_metadata = None\<rparr> (cs_db st) of
            Inl e \<Rightarrow> (Inl (approval_error e), st)
          | Inr (dr, d1) \<Rightarrow>
              let subs = modify_row csu_id sid (approved vc ia (ten_id (dr_tenant dr))) (cs_submissions st) in
              if \<not> refresh_ok then
                (Inl (HTTPException 502 (''Tenant was created, but invite finalization failed. '' @
                   ''Regenerate the invite from tenant detail.'')), \<lparr>cs_db = d1, cs_submissions = subs\<rparr>)
              else (case send_admin_invite iv vc (ia_email ia) tenant_created_failure dr d1 of (r, d2) \<Rightarrow>
                (Inr r, \<lparr>cs_db = contact_audited vc ia ''contact.approve'' (Some (ten_id (pr_tenant r))) (Some (usr_id (pr_user r)))
                    [(''submission_id'', JStr sid)] d2, cs_submissions = subs\<rparr>))))"

definition post_internal_contact_reject :: "invite_call \<Rightarrow> string \<Rightarrow> contact_state \<Rightarrow> unit contact_reply" where
  "post_internal_contact_reject vc sid st =
     (case rbind (vc_admin vc) (\<lambda>ia. rbind (pending_submission sid (cs_submissions st)) (\<lambda>sub. Inr (ia, sub))) of
        Inl e \<Rightarrow> (Inl e, st)
      | Inr (ia, sub) \<Rightarrow>
          (Inr (), \<lparr>cs_db = contact_audited vc ia ''contact.reject'' None None [(''submission_id'', JStr sid)] (cs_db st),
            cs_submissions = modify_row csu_id sid (rejected (vc_now vc)) (cs_submissions st)\<rparr>))"

subsection \<open>Lemmas\<close>

text \<open>A mail is sent, or a trapped request accepted, only with the token of the settings.\<close>

lemma contact_request_needs_token:
  assumes "post_contact_request s es post cc req = Inr r"
  shows "\<exists>h. ct_token cc = Some h \<and> py_strip h = py_strip (cfg_contact_submit_token s) \<and> py_strip h \<noteq> []"
  using assms
  by (auto simp: post_contact_request_def require_contact_submit_token_def compare_digest_def rbind_Inr_iff py_strip_def Let_def
      split: option.splits if_splits)

text \<open>A header with a character that is not ASCII is not refused but raises.\<close>

lemma contact_token_raises:
  assumes "list_ex (\<lambda>c. (of_char c :: nat) \<ge> 128) (py_strip h)" "py_strip (cfg_contact_submit_token s) \<noteq> []"
  shows "\<exists>e. require_contact_submit_token s (Some h) = Inl e \<and> status_code e = 500"
proof -
  have "py_strip h \<noteq> []" using assms(1) by auto
  then show ?thesis using assms by (simp add: require_contact_submit_token_def compare_digest_def rbind_def)
qed

text \<open>What a validated submission stores is what its request holds.\<close>

lemma contact_submission_create_email:
  "contact_submission_create f = Some g \<Longrightarrow> contact_email_pattern (cf_email g) \<and> 3 \<le> length (cf_email g) \<and> length (cf_email g) \<le> 255"
  by (auto simp: contact_submission_create_def contact_email_def Let_def split: option.splits if_splits)

end
