(* ===== verification/SP_Releases.thy ===== *)
theory SP_Releases
  imports SP_Codec SP_Helpers "HOL-Library.Product_Lexorder"
begin

text \<open>
  \<open>services/emr_releases.py\<close>: parsing release labels, the ordered catalogue, and its synchronisation; with the paginated
  listings of \<open>aws_clients.py\<close> it reads. A listing is a loop that asks for the next page while the answer carries a
  token: nothing bounds it, so not returning is the value \<open>None\<close>. A service is a function of the number of the call
  and the token.
\<close>

subsection \<open>Paginated listings\<close>

partial_function (option) collect_pages ::
    "(nat \<Rightarrow> string option \<Rightarrow> exn + 'p) \<Rightarrow> ('p \<Rightarrow> string option) \<Rightarrow> nat \<Rightarrow> string option \<Rightarrow> (exn + 'p list) option" where
  "collect_pages call token_of n tok =
     (case call n tok of
        Inl e \<Rightarrow> Some (Inl e)
      | Inr p \<Rightarrow>
          (case token_of p of
             None \<Rightarrow> Some (Inr [p])
           | Some t \<Rightarrow> Option.bind (collect_pages call token_of (Suc n) (Some t))
               (\<lambda>r. Some (rbind r (\<lambda>ps. Inr (p # ps))))))"

text \<open>\<open>if not next_token: break\<close>\<close>

definition next_token :: "string option \<Rightarrow> string option" where
  "next_token t = (case t of Some (c # cs) \<Rightarrow> t | _ \<Rightarrow> None)"

text \<open>The token of the \<open>k\<close>-th request, and whether its answer ends the listing.\<close>

fun token_at :: "(nat \<Rightarrow> string option \<Rightarrow> exn + 'p) \<Rightarrow> ('p \<Rightarrow> string option) \<Rightarrow> string option \<Rightarrow> nat \<Rightarrow> string option" where
  "token_at call token_of tok 0 = tok"
| "token_at call token_of tok (Suc k) =
     (case call k (token_at call token_of tok k) of Inl e \<Rightarrow> None | Inr p \<Rightarrow> token_of p)"

definition ends_at :: "(nat \<Rightarrow> string option \<Rightarrow> exn + 'p) \<Rightarrow> ('p \<Rightarrow> string option) \<Rightarrow> string option \<Rightarrow> nat \<Rightarrow> bool" where
  "ends_at call token_of tok k \<longleftrightarrow>
     (case call k (token_at call token_of tok k) of Inl e \<Rightarrow> True | Inr p \<Rightarrow> token_of p = None)"

lemma token_at_shift:
  assumes "call 0 tok = Inr p" "token_of p = Some t"
  shows "token_at call token_of tok (Suc k) = token_at (\<lambda>n. call (Suc n)) token_of (Some t) k"
  using assms by (induction k) simp_all

lemma ends_at_shift:
  assumes "call 0 tok = Inr p" "token_of p = Some t"
  shows "ends_at call token_of tok (Suc k) \<longleftrightarrow> ends_at (\<lambda>n. call (Suc n)) token_of (Some t) k"
  using token_at_shift [of call tok p token_of t k, OF assms] assms by (simp add: ends_at_def)

lemma collect_pages_step:
  "collect_pages call token_of n tok =
     (case call n tok of Inl e \<Rightarrow> Some (Inl e)
      | Inr p \<Rightarrow> (case token_of p of None \<Rightarrow> Some (Inr [p])
         | Some t \<Rightarrow> map_option (\<lambda>r. rbind r (\<lambda>ps. Inr (p # ps))) (collect_pages call token_of (Suc n) (Some t))))"
  by (subst collect_pages.simps) (auto split: sum.splits option.splits simp: map_option_case)

lemma collect_pages_returns:
  "ends_at (\<lambda>k. call (n + k)) token_of tok k \<Longrightarrow> \<exists>r. collect_pages call token_of n tok = Some r"
proof (induction k arbitrary: n tok)
  case 0
  then show ?case by (subst collect_pages_step) (auto simp: ends_at_def split: sum.splits)
next
  case (Suc k)
  show ?case
  proof (cases "call n tok")
    case (Inl e)
    then show ?thesis by (subst collect_pages_step) simp
  next
    case (Inr p)
    show ?thesis
    proof (cases "token_of p")
      case None
      then show ?thesis using Inr by (subst collect_pages_step) simp
    next
      case (Some t)
      have "ends_at (\<lambda>k. call (Suc n + k)) token_of (Some t) k"
        using Suc.prems ends_at_shift [of "\<lambda>k. call (n + k)" tok p token_of t k] Inr Some by simp
      then obtain r where "collect_pages call token_of (Suc n) (Some t) = Some r" using Suc.IH by blast
      then show ?thesis using Inr Some by (subst collect_pages_step) simp
    qed
  qed
qed

lemma collect_pages_ends:
  assumes "collect_pages call token_of n tok = Some r"
  shows "\<exists>k. ends_at (\<lambda>k. call (n + k)) token_of tok k"
proof (rule collect_pages.raw_induct [where P = "\<lambda>call token_of n tok r. \<exists>k. ends_at (\<lambda>k. call (n + k)) token_of tok k", OF _ assms])
  fix f :: "(nat \<Rightarrow> string option \<Rightarrow> exn + 'a) \<Rightarrow> ('a \<Rightarrow> string option) \<Rightarrow> nat \<Rightarrow> string option \<Rightarrow> (exn + 'a list) option"
    and call :: "nat \<Rightarrow> string option \<Rightarrow> exn + 'a" and token_of n tok r
  assume IH: "\<And>call token_of n tok r. f call token_of n tok = Some r \<Longrightarrow> \<exists>k. ends_at (\<lambda>k. call (n + k)) token_of tok k"
    and eq: "(case call n tok of Inl e \<Rightarrow> Some (Inl e)
      | Inr p \<Rightarrow> (case token_of p of None \<Rightarrow> Some (Inr [p])
         | Some t \<Rightarrow> Option.bind (f call token_of (Suc n) (Some t)) (\<lambda>r. Some (rbind r (\<lambda>ps. Inr (p # ps)))))) = Some r"
  show "\<exists>k. ends_at (\<lambda>k. call (n + k)) token_of tok k"
  proof (cases "ends_at (\<lambda>k. call (n + k)) token_of tok 0")
    case True
    then show ?thesis by blast
  next
    case False
    then obtain p t where p: "call n tok = Inr p" "token_of p = Some t"
      by (auto simp: ends_at_def split: sum.splits)
    then obtain r' where "f call token_of (Suc n) (Some t) = Some r'" using eq by (auto simp: bind_eq_Some_conv)
    then obtain k where "ends_at (\<lambda>k. call (Suc n + k)) token_of (Some t) k" using IH by blast
    then have "ends_at (\<lambda>k. call (n + k)) token_of tok (Suc k)"
      using ends_at_shift [of "\<lambda>k. call (n + k)" tok p token_of t k] p by simp
    then show ?thesis by blast
  qed
qed

lemma collect_pages_terminates_iff:
  "(\<exists>r. collect_pages call token_of 0 tok = Some r) \<longleftrightarrow> (\<exists>k. ends_at call token_of tok k)"
  using collect_pages_returns [of call 0] collect_pages_ends [of call token_of 0 tok] by auto

text \<open>A service whose tokens never repeat over a finite set of tokens comes to an end.\<close>

lemma token_at_some:
  assumes "\<And>k. \<not> ends_at call token_of tok k"
  shows "\<exists>t. token_at call token_of tok (Suc k) = Some t"
  using assms [of k] by (auto simp: ends_at_def split: sum.splits)

lemma fresh_tokens_end:
  assumes fin: "finite T" and sub: "\<And>k t. token_at call token_of tok (Suc k) = Some t \<Longrightarrow> t \<in> T"
    and fresh: "\<And>j k t. token_at call token_of tok (Suc j) = Some t \<Longrightarrow> token_at call token_of tok (Suc k) = Some t \<Longrightarrow> j = k"
  shows "\<exists>k. ends_at call token_of tok k"
proof (rule ccontr)
  assume "\<not> (\<exists>k. ends_at call token_of tok k)"
  then have ex: "\<exists>t. token_at call token_of tok (Suc k) = Some t" for k using token_at_some by blast
  then have tk: "token_at call token_of tok (Suc k) = Some (the (token_at call token_of tok (Suc k)))" for k by fastforce
  let ?g = "\<lambda>k. the (token_at call token_of tok (Suc k))"
  have "inj ?g"
  proof (rule injI)
    fix j k assume "?g j = ?g k"
    then have "token_at call token_of tok (Suc j) = Some (?g k)" using tk [of j] by simp
    then show "j = k" using tk [of k] by (rule fresh)
  qed
  moreover have "range ?g \<subseteq> T"
  proof
    fix t assume "t \<in> range ?g"
    then obtain k where "t = ?g k" by blast
    then show "t \<in> T" using sub [OF tk] by simp
  qed
  ultimately show False using fin by (meson finite_subset infinite_UNIV_nat finite_imageD)
qed

subsection \<open>Labels\<close>

type_synonym version = "int \<times> int \<times> int"

text \<open>\<open>^emr-(\d+)\.(\d+)\.(\d+)(?:-.+)?$\<close>; \<open>$\<close> also matches before a final newline.\<close>

definition newline_char :: char where
  "newline_char = CHR 0x0A"

definition at_end :: "string \<Rightarrow> bool" where
  "at_end s \<longleftrightarrow> s = [] \<or> s = [newline_char]"

definition label_suffix_ok :: "string \<Rightarrow> bool" where
  "label_suffix_ok s \<longleftrightarrow> at_end s \<or>
     (case s of [] \<Rightarrow> False | c # cs \<Rightarrow> c = CHR ''-'' \<and> takeWhile (\<lambda>x. x \<noteq> newline_char) cs \<noteq> []
        \<and> at_end (dropWhile (\<lambda>x. x \<noteq> newline_char) cs))"

definition scan_dot :: "string \<Rightarrow> string option" where
  "scan_dot s = (case s of c # cs \<Rightarrow> if c = CHR ''.'' then Some cs else None | [] \<Rightarrow> None)"

definition parse_release_version :: "string \<Rightarrow> version option" where
  "parse_release_version label =
     (if \<not> prefix ''emr-'' label then None
      else (let (a, r1) = scan_digits (drop 4 label) in
        if a = [] then None else
        case scan_dot r1 of None \<Rightarrow> None | Some s1 \<Rightarrow>
        (let (b, r2) = scan_digits s1 in
         if b = [] then None else
         case scan_dot r2 of None \<Rightarrow> None | Some s2 \<Rightarrow>
         (let (c, r3) = scan_digits s2 in
          if c = [] \<or> \<not> label_suffix_ok r3 then None
          else Some (digits_val a, digits_val b, digits_val c)))))"

definition canonical_release_label :: "string \<Rightarrow> string" where
  "canonical_release_label label =
     (if suffix ''-latest'' label then take (length label - 7) label else label)"

definition graviton_supported_for_label :: "string \<Rightarrow> bool" where
  "graviton_supported_for_label label = (case parse_release_version label of None \<Rightarrow> False | Some v \<Rightarrow> v \<ge> (6, 9, 0))"

definition lake_formation_supported_for_label :: "string \<Rightarrow> bool" where
  "lake_formation_supported_for_label label = (case parse_release_version label of None \<Rightarrow> False | Some v \<Rightarrow> v \<ge> (7, 7, 0))"

subsection \<open>The listing of the labels\<close>

record label_page =
  lb_labels :: "json list"
  lb_next_token :: "string option"

definition page_labels :: "label_page \<Rightarrow> string list" where
  "page_labels p = List.map_filter (\<lambda>j. case j of JStr s \<Rightarrow> Some s | _ \<Rightarrow> None) (lb_labels p)"

text \<open>The two listings have the same loop over different services.\<close>

definition list_labels_from :: "(nat \<Rightarrow> string option \<Rightarrow> exn + label_page) \<Rightarrow> (exn + string list) option" where
  "list_labels_from call =
     map_option (\<lambda>r. rbind r (\<lambda>ps. Inr (concat (map page_labels ps))))
       (collect_pages call (\<lambda>p. next_token (lb_next_token p)) 0 None)"

text \<open>\<open>containers\<close> is \<open>None\<close> where the installed client has no \<open>list_release_labels\<close>.\<close>

definition list_release_labels ::
    "bool \<Rightarrow> (nat \<Rightarrow> string option \<Rightarrow> exn + label_page) option \<Rightarrow> (nat \<Rightarrow> string option \<Rightarrow> exn + label_page)
     \<Rightarrow> (exn + string list) option" where
  "list_release_labels dry_run containers emr =
     (if dry_run then Some (Inr [''emr-7.10.0-latest'', ''emr-7.9.0-latest'', ''emr-7.8.0-latest'', ''emr-7.7.0-latest'',
          ''emr-6.15.0-latest''])
      else (case containers of Some call \<Rightarrow> list_labels_from call | None \<Rightarrow> list_labels_from emr))"

subsection \<open>The catalogue\<close>

definition release_sort_key :: "emr_release \<Rightarrow> version \<times> string" where
  "release_sort_key r = (case parse_release_version (rel_label r) of None \<Rightarrow> (0, 0, 0) | Some v \<Rightarrow> v, rel_label r)"

definition list_emr_releases :: "database \<Rightarrow> nat \<Rightarrow> nat \<Rightarrow> emr_release list" where
  "list_emr_releases d limit offset = page limit offset (rev (sort_key release_sort_key (rev (db_releases d))))"

definition upd_release :: "time \<Rightarrow> (emr_release \<Rightarrow> emr_release) \<Rightarrow> emr_release \<Rightarrow> emr_release" where
  "upd_release now f r = (let r' = f r in if r' = r then r else r'\<lparr>rel_updated_at := now\<rparr>)"

definition release_status :: "string list \<Rightarrow> version option \<Rightarrow> string \<Rightarrow> string" where
  "release_status current_labels newest label =
     (case (parse_release_version label, newest) of
        (Some (a, _), Some (b, _)) \<Rightarrow>
          if a < b then ''end_of_life'' else if label \<in> set current_labels then ''current'' else ''deprecated''
      | _ \<Rightarrow> if label \<in> set current_labels then ''current'' else ''deprecated'')"

definition release_fields :: "time \<Rightarrow> string \<Rightarrow> string \<Rightarrow> string \<Rightarrow> emr_release \<Rightarrow> emr_release" where
  "release_fields now status_value latest_label label r =
     r\<lparr>rel_lifecycle_status := status_value,
       rel_graviton_supported := graviton_supported_for_label label,
       rel_lake_formation_supported := lake_formation_supported_for_label label,
       rel_upgrade_target := (if status_value = ''current'' then None else Some latest_label),
       rel_source := ''emr-containers'', rel_last_synced_at := now\<rparr>"

definition release_state :: "emr_release \<Rightarrow> string \<times> bool \<times> bool \<times> string option" where
  "release_state r = (rel_lifecycle_status r, rel_graviton_supported r, rel_lake_formation_supported r, rel_upgrade_target r)"

definition new_release :: "time \<Rightarrow> string \<Rightarrow> emr_release" where
  "new_release now label = \<lparr>rel_label = label, rel_lifecycle_status = ''current'', rel_graviton_supported = False,
     rel_lake_formation_supported = False, rel_upgrade_target = None, rel_source = ''emr-containers'',
     rel_last_synced_at = now, rel_created_at = now, rel_updated_at = now\<rparr>"

definition sync_release ::
    "time \<Rightarrow> (string \<Rightarrow> string) \<Rightarrow> string \<Rightarrow> string \<Rightarrow> emr_release list \<times> nat \<Rightarrow> emr_release list \<times> nat" where
  "sync_release now status_of latest_label label st =
     (case st of (rows, changed) \<Rightarrow>
       let f = release_fields now (status_of label) latest_label label in
       (case find_row rel_label label rows of
          None \<Rightarrow> (rows @ [f (new_release now label)], changed + 1)
        | Some row \<Rightarrow> (modify_row rel_label label (upd_release now f) rows,
                       if release_state (f row) \<noteq> release_state row then changed + 1 else changed)))"

text \<open>\<open>set\<close> and \<open>sorted(reverse=True)\<close>; \<open>sort(reverse=True)\<close> keeps the order of equal versions.\<close>

definition labels_desc :: "string list \<Rightarrow> string list" where
  "labels_desc labels = rev (sort (remdups labels))"

definition valid_labels :: "string list \<Rightarrow> (string \<times> version) list" where
  "valid_labels labels =
     rev (sort_key snd (rev (List.map_filter (\<lambda>l. map_option (Pair l) (parse_release_version l)) labels)))"

definition newest_version :: "(string \<times> version) list \<Rightarrow> version option" where
  "newest_version valid = (case valid of [] \<Rightarrow> None | x # _ \<Rightarrow> Some (snd x))"

definition sync_emr_releases_once ::
    "time \<Rightarrow> string \<Rightarrow> string \<Rightarrow> string list \<Rightarrow> database \<Rightarrow> nat \<times> database" where
  "sync_emr_releases_once now actor region listed d =
     (case labels_desc listed of
        [] \<Rightarrow> (0, d)
      | first # rest \<Rightarrow>
          let labels = first # rest;
              valid = valid_labels labels;
              latest_label = (case valid of [] \<Rightarrow> first | x # _ \<Rightarrow> fst x);
              status_of = release_status (map fst (take 3 valid)) (newest_version valid);
              (rows, changed) = fold (sync_release now status_of latest_label) labels (db_releases d, 0)
          in (changed, write_audit_event now actor ''emr_release.sync'' ''system'' ''emr_releases'' None None
                [(''region'', JStr region), (''release_count'', JInt (int (length labels))),
                 (''latest_release_label'', JStr latest_label)] None (d\<lparr>db_releases := rows\<rparr>)))"

lemma label_samples:
  "parse_release_version ''emr-7.10.0-latest'' = Some (7, 10, 0)"
  "parse_release_version ''emr-7.10'' = None"
  "canonical_release_label ''emr-7.10.0-latest'' = ''emr-7.10.0''"
  by code_simp+

subsection \<open>What a synchronisation leaves\<close>

definition wanted :: "(string \<Rightarrow> string) \<Rightarrow> string \<Rightarrow> string \<Rightarrow> string \<times> bool \<times> bool \<times> string option" where
  "wanted status_of latest_label label =
     (status_of label, graviton_supported_for_label label, lake_formation_supported_for_label label,
      if status_of label = ''current'' then None else Some latest_label)"

lemma release_state_fields: "release_state (release_fields now (status_of l) latest l r) = wanted status_of latest l"
  by (simp add: release_state_def release_fields_def wanted_def)

lemma release_state_upd: "release_state (upd_release now f r) = release_state (f r)"
  by (simp add: upd_release_def Let_def release_state_def)

lemma rel_label_fields [simp]: "rel_label (release_fields now st latest l r) = rel_label r"
  by (simp add: release_fields_def)

lemma rel_label_upd: "rel_label (f r) = rel_label r \<Longrightarrow> rel_label (upd_release now f r) = rel_label r"
  by (simp add: upd_release_def Let_def)

definition is_settled :: "(string \<Rightarrow> string) \<Rightarrow> string \<Rightarrow> emr_release list \<Rightarrow> string \<Rightarrow> bool" where
  "is_settled status_of latest rows l \<longleftrightarrow>
     map_option release_state (find_row rel_label l rows) = Some (wanted status_of latest l)"

lemma find_row_single: "find_row key m [x] = (if key x = m then Some x else None)"
  by (simp add: find_row_def)

lemma rel_label_new [simp]: "rel_label (new_release now l) = l"
  by (simp add: new_release_def)

lemma sync_release_settles:
  assumes "sync_release now status_of latest l (rows, n) = (rows', n')"
  shows "is_settled status_of latest rows' l" "m \<noteq> l \<Longrightarrow> find_row rel_label m rows' = find_row rel_label m rows"
    "is_settled status_of latest rows l \<Longrightarrow> n' = n"
proof -
  let ?f = "release_fields now (status_of l) latest l"
  have key: "rel_label (upd_release now ?f r) = rel_label r" for r by (simp add: rel_label_upd)
  show "is_settled status_of latest rows' l"
  proof (cases "find_row rel_label l rows")
    case None
    then show ?thesis using assms
      by (auto simp: sync_release_def Let_def is_settled_def find_row_append find_row_single release_state_fields)
  next
    case (Some r)
    then show ?thesis using assms find_row_modify_same [of rel_label "upd_release now ?f" l rows, OF key]
      by (auto simp: sync_release_def Let_def is_settled_def release_state_upd release_state_fields)
  qed
  show "m \<noteq> l \<Longrightarrow> find_row rel_label m rows' = find_row rel_label m rows"
    using assms find_row_modify_other [of l m rel_label "upd_release now ?f" rows, OF _ key]
    by (auto simp: sync_release_def Let_def find_row_append find_row_single split: option.splits)
  show "is_settled status_of latest rows l \<Longrightarrow> n' = n"
    using assms by (auto simp: sync_release_def Let_def is_settled_def release_state_fields split: option.splits)
qed

lemma fold_sync_settles:
  assumes "fold (sync_release now status_of latest) ls (rows, n) = (rows', n')"
  shows "\<forall>m. m \<in> set ls \<or> is_settled status_of latest rows m \<longrightarrow> is_settled status_of latest rows' m"
  using assms
proof (induction ls arbitrary: rows n)
  case Nil
  then show ?case by simp
next
  case (Cons l ls)
  obtain rows1 n1 where st: "sync_release now status_of latest l (rows, n) = (rows1, n1)" by fastforce
  have "is_settled status_of latest rows1 l" by (rule sync_release_settles(1) [OF st])
  moreover have "is_settled status_of latest rows m \<Longrightarrow> is_settled status_of latest rows1 m" for m
    using sync_release_settles(1,2) [OF st] by (cases "m = l") (auto simp: is_settled_def)
  ultimately show ?case using Cons.IH [of rows1 n1] Cons.prems st by auto
qed

lemma fold_sync_unchanged:
  assumes "fold (sync_release now status_of latest) ls (rows, n) = (rows', n')" "\<forall>l \<in> set ls. is_settled status_of latest rows l"
  shows "n' = n"
  using assms
proof (induction ls arbitrary: rows n)
  case Nil
  then show ?case by simp
next
  case (Cons l ls)
  obtain rows1 n1 where st: "sync_release now status_of latest l (rows, n) = (rows1, n1)" by fastforce
  have "n1 = n" using sync_release_settles(3) [OF st] Cons.prems(2) by simp
  moreover have "is_settled status_of latest rows1 m" if "m \<in> set ls" for m
    using sync_release_settles(1,2) [OF st] Cons.prems(2) that by (cases "m = l") (auto simp: is_settled_def)
  ultimately show ?case using Cons.IH [of rows1 n1] Cons.prems(1) st by auto
qed

text \<open>The three labels a synchronisation may mark as current, and the status it gives a label.\<close>

definition current_labels :: "string list \<Rightarrow> string list" where
  "current_labels listed = map fst (take 3 (valid_labels (labels_desc listed)))"

definition latest_label :: "string list \<Rightarrow> string" where
  "latest_label listed = (case valid_labels (labels_desc listed) of [] \<Rightarrow> hd (labels_desc listed) | x # _ \<Rightarrow> fst x)"

definition listed_status :: "string list \<Rightarrow> string \<Rightarrow> string" where
  "listed_status listed = release_status (current_labels listed) (newest_version (valid_labels (labels_desc listed)))"

lemma set_labels_desc [simp]: "set (labels_desc ls) = set ls"
  by (simp add: labels_desc_def)

lemma sync_emr_releases_eq:
  assumes "listed \<noteq> []"
  shows "sync_emr_releases_once now actor region listed d =
    (let (rows, changed) = fold (sync_release now (listed_status listed) (latest_label listed)) (labels_desc listed) (db_releases d, 0)
     in (changed, write_audit_event now actor ''emr_release.sync'' ''system'' ''emr_releases'' None None
           [(''region'', JStr region), (''release_count'', JInt (int (length (labels_desc listed)))),
            (''latest_release_label'', JStr (latest_label listed))] None (d\<lparr>db_releases := rows\<rparr>)))"
proof -
  have "labels_desc listed \<noteq> []" using assms set_labels_desc [of listed] by fastforce
  then show ?thesis
    by (auto simp: sync_emr_releases_once_def latest_label_def listed_status_def current_labels_def Let_def split: list.splits)
qed

lemma sync_releases_of:
  assumes "listed \<noteq> []"
    and "fold (sync_release now (listed_status listed) (latest_label listed)) (labels_desc listed) (db_releases d, 0) = (rows, changed)"
  shows "fst (sync_emr_releases_once now actor region listed d) = changed"
    "db_releases (snd (sync_emr_releases_once now actor region listed d)) = rows"
  using assms by (simp_all add: sync_emr_releases_eq write_audit_event_def)

lemma sync_settles:
  assumes "l \<in> set listed"
  shows "is_settled (listed_status listed) (latest_label listed)
    (db_releases (snd (sync_emr_releases_once now actor region listed d))) l"
proof -
  obtain rows n where f: "fold (sync_release now (listed_status listed) (latest_label listed)) (labels_desc listed)
      (db_releases d, 0) = (rows, n)" by fastforce
  have "listed \<noteq> []" using assms by auto
  then show ?thesis using fold_sync_settles [OF f] assms by (simp add: sync_releases_of [OF _ f])
qed

lemma sync_again_unchanged:
  "fst (sync_emr_releases_once now' actor' region' listed (snd (sync_emr_releases_once now actor region listed d))) = 0"
proof (cases "listed = []")
  case True
  then show ?thesis by (simp add: sync_emr_releases_once_def labels_desc_def)
next
  case False
  let ?d = "snd (sync_emr_releases_once now actor region listed d)"
  obtain rows n where f: "fold (sync_release now' (listed_status listed) (latest_label listed)) (labels_desc listed)
      (db_releases ?d, 0) = (rows, n)" by fastforce
  have "n = 0" by (rule fold_sync_unchanged [OF f]) (simp add: sync_settles)
  then show ?thesis using sync_releases_of(1) [OF False f] by simp
qed

text \<open>A row without the times of its synchronisation and update, and the rows a synchronisation leaves as they are.\<close>

definition unstamped :: "emr_release \<Rightarrow> emr_release" where
  "unstamped r = r\<lparr>rel_last_synced_at := 0, rel_updated_at := 0\<rparr>"

definition stays :: "(string \<Rightarrow> string) \<Rightarrow> string \<Rightarrow> emr_release list \<Rightarrow> string \<Rightarrow> bool" where
  "stays status_of latest rows l \<longleftrightarrow> find_row rel_label l rows \<noteq> None \<and>
     (\<forall>r \<in> set rows. rel_label r = l \<longrightarrow> unstamped (release_fields 0 (status_of l) latest l r) = unstamped r)"

lemma unstamped_time: "unstamped (release_fields now st latest l r) = unstamped (release_fields 0 st latest l r)"
  by (simp add: unstamped_def release_fields_def)

lemma unstamped_upd:
  "unstamped (upd_release now (release_fields now st latest l) r) = unstamped (release_fields 0 st latest l r)"
proof (cases "release_fields now st latest l r = r")
  case True
  then have "upd_release now (release_fields now st latest l) r = r" by (simp only: upd_release_def Let_def True refl if_True)
  moreover have "unstamped r = unstamped (release_fields now st latest l r)" by (simp only: True)
  ultimately show ?thesis using unstamped_time [of now st latest l r] by argo
next
  case False
  then have "unstamped (upd_release now (release_fields now st latest l) r) = unstamped (release_fields now st latest l r)"
    by (simp add: upd_release_def Let_def unstamped_def)
  then show ?thesis using unstamped_time [of now st latest l r] by argo
qed

lemma unstamped_fields:
  "unstamped (release_fields 0 st latest l (release_fields now st latest l r)) = unstamped (release_fields now st latest l r)"
  by (simp add: unstamped_def release_fields_def)

lemma unstamped_again: "unstamped r = unstamped r' \<Longrightarrow> unstamped (release_fields 0 st latest l r) = unstamped (release_fields 0 st latest l r')"
  by (cases r; cases r') (simp add: unstamped_def release_fields_def)

lemma sync_release_stays:
  assumes "sync_release now status_of latest l (rows, n) = (rows', n')"
  shows "stays status_of latest rows' l" "stays status_of latest rows m \<Longrightarrow> stays status_of latest rows' m"
    "stays status_of latest rows l \<Longrightarrow> map unstamped rows' = map unstamped rows"
proof -
  let ?f = "release_fields now (status_of l) latest l"
  have key: "rel_label (upd_release now ?f r) = rel_label r" for r by (simp add: rel_label_upd)
  have upd: "unstamped (release_fields 0 (status_of l) latest l (upd_release now ?f r)) = unstamped (upd_release now ?f r)" for r
  proof -
    have same: "unstamped (upd_release now ?f r) = unstamped (?f r)" by (rule trans [OF unstamped_upd unstamped_time [symmetric]])
    show ?thesis by (rule trans [OF unstamped_again [OF same] trans [OF unstamped_fields same [symmetric]]])
  qed
  show own: "stays status_of latest rows' l"
  proof (cases "find_row rel_label l rows")
    case None
    then have none: "\<forall>r \<in> set rows. rel_label r \<noteq> l" by (auto simp: find_row_def find_None_iff)
    have rows': "rows' = rows @ [?f (new_release now l)]" using assms None by (simp add: sync_release_def Let_def)
    have "unstamped (release_fields 0 (status_of l) latest l r) = unstamped r" if "r \<in> set rows'" "rel_label r = l" for r
    proof -
      have "r = ?f (new_release now l)" using that none rows' by auto
      then show ?thesis by (simp only: unstamped_fields)
    qed
    then show ?thesis using None by (simp add: stays_def rows' find_row_append find_row_single)
  next
    case (Some r)
    then have rows': "rows' = modify_row rel_label l (upd_release now ?f) rows" using assms by (simp add: sync_release_def Let_def)
    have "unstamped (release_fields 0 (status_of l) latest l x) = unstamped x" if x: "x \<in> set rows'" "rel_label x = l" for x
    proof -
      obtain y where "y \<in> set rows" "x = (if rel_label y = l then upd_release now ?f y else y)"
        using x(1) by (auto simp: rows' modify_row_def)
      then have "x = upd_release now ?f y" using x(2) by (simp split: if_splits)
      then show ?thesis by (simp only: upd)
    qed
    then show ?thesis using Some find_row_modify_same [of rel_label "upd_release now ?f" l rows, OF key]
      by (simp add: stays_def rows')
  qed
  show "stays status_of latest rows' m" if s: "stays status_of latest rows m"
  proof (cases "m = l")
    case False
    then have "find_row rel_label m rows' = find_row rel_label m rows" by (rule sync_release_settles(2) [OF assms])
    moreover have "r \<in> set rows" if "r \<in> set rows'" "rel_label r = m" for r
      using that assms False by (cases "find_row rel_label l rows") (auto simp: sync_release_def Let_def modify_row_def rel_label_upd)
    ultimately show ?thesis using s by (simp add: stays_def)
  qed (simp add: own)
  show "map unstamped rows' = map unstamped rows" if "stays status_of latest rows l"
    using that assms by (auto simp: sync_release_def Let_def stays_def modify_row_def unstamped_upd split: option.splits)
qed

lemma fold_sync_stays:
  assumes "fold (sync_release now status_of latest) ls (rows, n) = (rows', n')"
  shows "\<forall>m. m \<in> set ls \<or> stays status_of latest rows m \<longrightarrow> stays status_of latest rows' m"
  using assms
proof (induction ls arbitrary: rows n)
  case Nil
  then show ?case by simp
next
  case (Cons l ls)
  obtain rows1 n1 where st: "sync_release now status_of latest l (rows, n) = (rows1, n1)" by fastforce
  show ?case using Cons.IH [of rows1 n1] Cons.prems st sync_release_stays(1,2) [OF st] by auto
qed

lemma fold_sync_keeps:
  assumes "fold (sync_release now status_of latest) ls (rows, n) = (rows', n')" "\<forall>l \<in> set ls. stays status_of latest rows l"
  shows "map unstamped rows' = map unstamped rows"
  using assms
proof (induction ls arbitrary: rows n)
  case Nil
  then show ?case by simp
next
  case (Cons l ls)
  obtain rows1 n1 where st: "sync_release now status_of latest l (rows, n) = (rows1, n1)" by fastforce
  have "map unstamped rows1 = map unstamped rows" using sync_release_stays(3) [OF st] Cons.prems(2) by simp
  then show ?case using Cons.IH [of rows1 n1] Cons.prems st sync_release_stays(2) [OF st] by auto
qed

lemma sync_again_keeps:
  "map unstamped (db_releases (snd (sync_emr_releases_once now' actor' region' listed (snd (sync_emr_releases_once now actor region listed d)))))
     = map unstamped (db_releases (snd (sync_emr_releases_once now actor region listed d)))"
proof (cases "listed = []")
  case True
  then show ?thesis by (simp add: sync_emr_releases_once_def labels_desc_def)
next
  case False
  let ?d = "snd (sync_emr_releases_once now actor region listed d)"
  obtain rows n where f: "fold (sync_release now (listed_status listed) (latest_label listed)) (labels_desc listed)
      (db_releases d, 0) = (rows, n)" by fastforce
  obtain rows' n' where f': "fold (sync_release now' (listed_status listed) (latest_label listed)) (labels_desc listed)
      (db_releases ?d, 0) = (rows', n')" by fastforce
  have d: "db_releases ?d = rows" by (rule sync_releases_of(2) [OF False f])
  have "map unstamped rows' = map unstamped rows"
    by (rule fold_sync_keeps [OF f' [unfolded d]]) (use fold_sync_stays [OF f] in simp)
  then show ?thesis using sync_releases_of(2) [OF False f'] d by simp
qed

lemma length_current_labels: "length (current_labels listed) \<le> 3"
  by (simp add: current_labels_def)

lemma listed_current: "listed_status listed l = ''current'' \<Longrightarrow> l \<in> set (current_labels listed)"
  by (auto simp: listed_status_def release_status_def split: option.splits if_splits)

end
