(* ===== verification/SP_Lifecycle.thy ===== *)
theory SP_Lifecycle
  imports SP_Runs SP_Scheduler SP_Reconciler SP_Environments SP_Provisioning SP_Idempotency SP_InviteSteps SP_Contact SP_Releases
begin

text \<open>
  The system: requests and worker passes change the database and the preflight cache one after another,
  each as a transaction. \<open>sys_step\<close> has one rule per modelled operation that writes the database, those of the
  invitation, login and contact routes and of the release catalogue included; the submission of a contact only writes its
  own table, which is kept beside the database. The routes of job templates, interactive endpoints and security
  configurations are not modelled and have no rule. Every row id a step draws is fresh, and a request has passed the validation
  of its schema. The invariants of the reachable states are in two
  groups: those of the runs (\<open>runs_ok\<close>) and those of environments and operations (\<open>envs_ok\<close>).
\<close>

subsection \<open>Validated requests\<close>

definition quotas_ok :: "environment_create \<Rightarrow> bool" where
  "quotas_ok req \<longleftrightarrow> 1 \<le> ec_max_concurrent_runs req \<and> ec_max_concurrent_runs req \<le> 1000 \<and>
     1 \<le> ec_max_vcpu req \<and> ec_max_vcpu req \<le> 20000 \<and> 60 \<le> ec_max_run_seconds req \<and> ec_max_run_seconds req \<le> 172800"

definition job_request_ok :: "job_create \<Rightarrow> bool" where
  "job_request_ok req \<longleftrightarrow> 1 \<le> jc_retry_max_attempts req \<and> jc_retry_max_attempts req \<le> 10 \<and>
     60 \<le> jc_timeout_seconds req \<and> jc_timeout_seconds req \<le> 172800"

definition run_request_ok :: "run_create \<Rightarrow> bool" where
  "run_request_ok req \<longleftrightarrow> resources_ok (rq_requested_resources req) \<and>
     (case rq_timeout_seconds req of None \<Rightarrow> True | Some t \<Rightarrow> 60 \<le> t \<and> t \<le> 172800)"

definition resource_spec_ok :: "resource_spec \<Rightarrow> bool" where
  "resource_spec_ok s \<longleftrightarrow> 1 \<le> rs_vcpu s \<and> rs_vcpu s \<le> 64 \<and> 1 \<le> rs_memory_gb s \<and> rs_memory_gb s \<le> 512"

definition golden_request_ok :: "golden_path_create \<Rightarrow> bool" where
  "golden_request_ok req \<longleftrightarrow> resource_spec_ok (gc_driver_resources req) \<and> resource_spec_ok (gc_executor_resources req) \<and>
     0 \<le> gc_executor_count req \<and> gc_executor_count req \<le> 1000 \<and>
     1 \<le> gc_max_runtime_minutes req \<and> gc_max_runtime_minutes req \<le> 10080"

subsection \<open>The system\<close>

record system =
  sy_db :: database
  sy_cache :: preflight_cache

definition with_provision_preflight ::
    "(bool \<Rightarrow> emitter) \<Rightarrow> (bool \<Rightarrow> emitter) \<Rightarrow> time \<Rightarrow> provisioner \<Rightarrow> provisioner" where
  "with_provision_preflight before after now pv =
     pv\<lparr>pv_preflight := (\<lambda>b env d. build_preflight (before b) (after b) now env None None d)\<rparr>"

inductive sys_step :: "system \<Rightarrow> system \<Rightarrow> bool" where
  step_create_tenant: "create_tenant now i treq actor ip (sy_db s) = Inr (t, d') \<Longrightarrow> sys_step s (s\<lparr>sy_db := d'\<rparr>)"
| step_create_team: "create_team now i tid name actor ip (sy_db s) = Inr (tm, d') \<Longrightarrow> sys_step s (s\<lparr>sy_db := d'\<rparr>)"
| step_identity: "create_or_update_user_identity now i ireq actor ip (sy_db s) = Inr (u, d') \<Longrightarrow>
    sys_step s (s\<lparr>sy_db := d'\<rparr>)"
| step_add_scope: "add_team_environment_scope now i tid eid actor ip (sy_db s) = Inr (sc, d') \<Longrightarrow>
    sys_step s (s\<lparr>sy_db := d'\<rparr>)"
| step_remove_scope: "remove_team_environment_scope now tid eid actor ip (sy_db s) = Inr d' \<Longrightarrow>
    sys_step s (s\<lparr>sy_db := d'\<rparr>)"
| step_create_policy: "create_policy now i name scp scp_id rule cfg enf act pactor ip (sy_db s) = Inr (p, d') \<Longrightarrow>
    sys_step s (s\<lparr>sy_db := d'\<rparr>)"
| step_delete_policy: "delete_policy now i pactor ip (sy_db s) = (b, d') \<Longrightarrow> sys_step s (s\<lparr>sy_db := d'\<rparr>)"
| step_team_budget: "create_or_update_team_budget now tm mb warn block (sy_db s) = Inr d' \<Longrightarrow>
    sys_step s (s\<lparr>sy_db := d'\<rparr>)"
| step_create_golden_path: "create_golden_path now i greq (sy_db s) = Inr (g, d') \<Longrightarrow> golden_request_ok greq \<Longrightarrow>
    sys_step s (s\<lparr>sy_db := d'\<rparr>)"
| step_seed_golden_paths: "ensure_default_golden_paths now ids (\<lambda>n d. d) (sy_db s) = (n, d') \<Longrightarrow>
    sys_step s (s\<lparr>sy_db := d'\<rparr>)"
| step_create_environment: "create_environment settings now i oid lid ereq actor ip ky (sy_db s) = Inr (x, d') \<Longrightarrow>
    get_environment (sy_db s) i = None \<Longrightarrow> get_operation (sy_db s) oid = None \<Longrightarrow> quotas_ok ereq \<Longrightarrow>
    sys_step s (s\<lparr>sy_db := d'\<rparr>)"
| step_retry_provisioning: "retry_environment_provisioning settings now oid lid eid actor ip ky (sy_db s) = Inr (opr, d') \<Longrightarrow>
    get_operation (sy_db s) oid = None \<Longrightarrow> sys_step s (s\<lparr>sy_db := d'\<rparr>)"
| step_delete_environment: "delete_environment now eid actor ip (sy_db s) = Inr d' \<Longrightarrow> sys_step s (s\<lparr>sy_db := d'\<rparr>)"
| step_create_job: "create_job now i jreq actor ip (sy_db s) = Inr (j, d') \<Longrightarrow> get_job (sy_db s) i = None \<Longrightarrow>
    job_request_ok jreq \<Longrightarrow> sys_step s (s\<lparr>sy_db := d'\<rparr>)"
| step_create_run: "create_run nulls_first lf now i jid rreq actor ip ky (sy_db s) = Inr (r, d') \<Longrightarrow>
    get_run (sy_db s) i = None \<Longrightarrow> run_request_ok rreq \<Longrightarrow> sys_step s (s\<lparr>sy_db := d'\<rparr>)"
| step_cancel_run: "cancel_run now rid actor ip (sy_db s) = Inr (r, d') \<Longrightarrow> sys_step s (s\<lparr>sy_db := d'\<rparr>)"
| step_scheduler: "process_scheduler_once cl (cached_preflight key before after clk tick) now clk tk actor lmt
      (sy_db s, sy_cache s) = (n, d', c') \<Longrightarrow> sys_step s (s\<lparr>sy_db := d', sy_cache := c'\<rparr>)"
| step_reconciler: "process_reconciler_once (with_preflight before after now rc) now clk tk actor lmt (sy_db s) = (n, d') \<Longrightarrow>
    sys_step s (s\<lparr>sy_db := d'\<rparr>)"
| step_provisioner: "process_provisioning_once (with_provision_preflight bef aft now pv) now clk tk actor (sy_db s) = (n, d', t) \<Longrightarrow>
    sys_step s (s\<lparr>sy_db := d'\<rparr>)"
| step_preflight: "build_preflight before after now env rid c (sy_db s) = (p, d') \<Longrightarrow> sys_step s (s\<lparr>sy_db := d'\<rparr>)"
| step_reserve: "flush_reservation (reservation now scp ky fp) (sy_db s) = Inr d' \<Longrightarrow> sys_step s (s\<lparr>sy_db := d'\<rparr>)"
| step_finish: "finish_reservation scp ky res (sy_db s) = d' \<Longrightarrow> sys_step s (s\<lparr>sy_db := d'\<rparr>)"
| step_invitation: "after_invite_request iv vc vreq (sy_db s) = d' \<Longrightarrow> sys_step s (s\<lparr>sy_db := d'\<rparr>)"
| step_list_contacts: "cs_db st = sy_db s \<Longrightarrow> get_internal_contact_submissions vc filt lmt off st = (rows, st') \<Longrightarrow>
    sys_step s (s\<lparr>sy_db := cs_db st'\<rparr>)"
| step_approve_contact: "cs_db st = sy_db s \<Longrightarrow> post_internal_contact_approve iv ok vc sid nm st = (made, st') \<Longrightarrow>
    sys_step s (s\<lparr>sy_db := cs_db st'\<rparr>)"
| step_reject_contact: "cs_db st = sy_db s \<Longrightarrow> post_internal_contact_reject vc sid st = (gone, st') \<Longrightarrow>
    sys_step s (s\<lparr>sy_db := cs_db st'\<rparr>)"
| step_sync_releases: "sync_emr_releases_once now actor region listed (sy_db s) = (n, d') \<Longrightarrow>
    sys_step s (s\<lparr>sy_db := d'\<rparr>)"

inductive_cases sys_step_cases: "sys_step s s'"

definition initial :: system where
  "initial = \<lparr>sy_db = empty_db, sy_cache = []\<rparr>"

inductive reachable :: "system \<Rightarrow> bool" where
  reach_initial: "reachable initial"
| reach_step: "reachable s \<Longrightarrow> sys_step s s' \<Longrightarrow> reachable s'"

subsection \<open>Invariants of the runs\<close>

text \<open>A run can be billed: the recorder accepts its resources, and they are not negative.\<close>

definition billable :: "int dict \<Rightarrow> bool" where
  "billable res \<longleftrightarrow> 0 \<le> run_vcpu res \<and> is_ok (requested_resources_of res)"

definition run_stage :: "database \<Rightarrow> run \<Rightarrow> bool" where
  "run_stage d r \<longleftrightarrow> run_state r \<noteq> RDispatching \<and> (run_state r = RQueued \<longrightarrow> run_started_at r = None) \<and>
     (started (run_state r) \<longrightarrow> run_started_at r \<noteq> None) \<and>
     (terminal (run_state r) \<longrightarrow> run_ended_at r \<noteq> None \<and> (run_started_at r \<noteq> None \<longrightarrow> recorded d (run_id r)))"

definition attempts_ok :: "database \<Rightarrow> run \<Rightarrow> bool" where
  "attempts_ok d r \<longleftrightarrow> 1 \<le> run_attempt r \<and>
     (\<exists>j. get_job d (run_job_id r) = Some j \<and> run_attempt r \<le> max 1 (job_retry_max_attempts j))"

definition run_ok :: "database \<Rightarrow> run \<Rightarrow> bool" where
  "run_ok d r \<longleftrightarrow> run_stage d r \<and> attempts_ok d r \<and> billable (run_requested_resources r)"

definition all_within_quota :: "database \<Rightarrow> bool" where
  "all_within_quota d \<longleftrightarrow> (\<forall>i env. get_environment d i = Some env \<longrightarrow> within_quota d env)"

definition golden_ok :: "database \<Rightarrow> bool" where
  "golden_ok d \<longleftrightarrow> (\<forall>g \<in> set (db_golden d). billable (gp_requested_resources g))"

definition runs_ok :: "database \<Rightarrow> bool" where
  "runs_ok d \<longleftrightarrow> distinct (map run_id (db_runs d)) \<and> fk_ok d \<and> (\<forall>r \<in> set (db_runs d). run_ok d r) \<and>
     all_within_quota d \<and> golden_ok d \<and> billing_unique d"

subsection \<open>Steps that leave the runs alone\<close>

text \<open>\<open>envs_extend d d'\<close>: environments stay, with the limits they have; new ones have limits that are not negative.\<close>

definition envs_extend :: "database \<Rightarrow> database \<Rightarrow> bool" where
  "envs_extend d d' \<longleftrightarrow> (\<forall>i env'. get_environment d' i = Some env' \<longrightarrow>
     (case get_environment d i of
        Some env \<Rightarrow> env_id env' = env_id env \<and> env_max_concurrent_runs env' = env_max_concurrent_runs env \<and>
                    env_max_vcpu env' = env_max_vcpu env
      | None \<Rightarrow> 0 \<le> env_max_concurrent_runs env' \<and> 0 \<le> env_max_vcpu env')) \<and>
     (\<forall>i. get_environment d i \<noteq> None \<longrightarrow> get_environment d' i \<noteq> None)"

definition jobs_extend :: "database \<Rightarrow> database \<Rightarrow> bool" where
  "jobs_extend d d' \<longleftrightarrow> (\<forall>i j. get_job d i = Some j \<longrightarrow> get_job d' i = Some j)"

definition rests :: "database \<Rightarrow> database \<Rightarrow> bool" where
  "rests d d' \<longleftrightarrow> db_runs d' = db_runs d \<and> db_usage d' = db_usage d \<and> db_allocs d' = db_allocs d"

lemma envs_extend_same: "db_envs d' = db_envs d \<Longrightarrow> envs_extend d d'"
  by (auto simp: envs_extend_def get_environment_def split: option.splits)

lemma jobs_extend_same: "db_jobs d' = db_jobs d \<Longrightarrow> jobs_extend d d'"
  by (simp add: jobs_extend_def get_job_def)

lemma run_ok_extend:
  assumes "db_usage d' = db_usage d" "jobs_extend d d'" "run_ok d r" shows "run_ok d' r"
  using assms by (auto simp: run_ok_def run_stage_def attempts_ok_def recorded_def jobs_extend_def)

lemma fk_ok_extend:
  assumes "db_runs d' = db_runs d" "envs_extend d d'" "jobs_extend d d'" "fk_ok d" shows "fk_ok d'"
  unfolding fk_ok_def
proof
  fix r assume "r \<in> set (db_runs d')"
  then obtain env j where "get_environment d (run_environment_id r) = Some env" "get_job d (run_job_id r) = Some j"
    using assms(1,4) by (auto simp: fk_ok_def)
  then show "(\<exists>env. get_environment d' (run_environment_id r) = Some env) \<and> (\<exists>j. get_job d' (run_job_id r) = Some j)"
    using assms(2,3) by (auto simp: envs_extend_def jobs_extend_def)
qed

lemma within_quota_limits:
  assumes "within_quota d env" "db_runs d' = db_runs d" "env_id env' = env_id env"
    "env_max_concurrent_runs env' = env_max_concurrent_runs env" "env_max_vcpu env' = env_max_vcpu env"
  shows "within_quota d' env'"
  using assms by (simp add: within_quota_def active_vcpu_def active_runs_of_def)

lemma all_within_quota_extend:
  assumes runs: "db_runs d' = db_runs d" and ext: "envs_extend d d'" and fk: "fk_ok d" and q: "all_within_quota d"
  shows "all_within_quota d'"
  unfolding all_within_quota_def
proof (intro allI impI)
  fix i env' assume e': "get_environment d' i = Some env'"
  show "within_quota d' env'"
  proof (cases "get_environment d i")
    case None
    have "env_id env' = i" using environment_store.get_Some [OF e'] by simp
    then have "active_runs_of d' (env_id env') = []"
      using fk None runs by (auto simp: active_runs_of_def counted_in_def fk_ok_def filter_empty_conv)
    then show ?thesis using ext e' None by (force simp: within_quota_def active_vcpu_def envs_extend_def)
  next
    case (Some env)
    then have "within_quota d env" using q by (simp add: all_within_quota_def)
    then show ?thesis by (rule within_quota_limits) (use ext e' Some runs in \<open>force simp: envs_extend_def\<close>)+
  qed
qed

lemma runs_ok_rests:
  assumes ok: "runs_ok d" and r: "rests d d'" and e: "envs_extend d d'" and j: "jobs_extend d d'" and g: "golden_ok d'"
  shows "runs_ok d'"
proof -
  have "\<forall>r \<in> set (db_runs d'). run_ok d' r" using ok r run_ok_extend [OF _ j] by (auto simp: runs_ok_def rests_def)
  moreover have "billing_unique d'" using ok r by (simp add: runs_ok_def rests_def billing_unique_def)
  moreover have "all_within_quota d'" "fk_ok d'"
    using all_within_quota_extend [OF _ e] fk_ok_extend [OF _ e j] ok r by (auto simp: runs_ok_def rests_def)
  ultimately show ?thesis using ok r g by (simp add: runs_ok_def rests_def)
qed

subsection \<open>Requests that touch no run, environment, operation or job\<close>

definition quiet :: "database \<Rightarrow> database \<Rightarrow> bool" where
  "quiet d d' \<longleftrightarrow> rests d d' \<and> db_envs d' = db_envs d \<and> db_ops d' = db_ops d \<and> db_jobs d' = db_jobs d \<and>
     db_golden d' = db_golden d"

named_theorems quiet_rules \<open>operations that leave the lifecycle tables alone\<close>

lemma quiet_create_tenant [quiet_rules]: "create_tenant now i req actor ip d = Inr (t, d') \<Longrightarrow> quiet d d'"
  by (auto simp: create_tenant_def Let_def quiet_def rests_def add_tenant_def split: option.splits)

lemma quiet_create_team [quiet_rules]: "create_team now i tid name actor ip d = Inr (t, d') \<Longrightarrow> quiet d d'"
  by (auto simp: create_team_def Let_def rbind_Inr_iff quiet_def rests_def add_team_def split: option.splits)

lemma quiet_identity [quiet_rules]: "create_or_update_user_identity now i req actor ip d = Inr (u, d') \<Longrightarrow> quiet d d'"
  by (auto simp: create_or_update_user_identity_def Let_def rbind_Inr_iff quiet_def rests_def add_identity_def
      modify_identity_def split: option.splits)

lemma quiet_add_scope [quiet_rules]: "add_team_environment_scope now i tid eid actor ip d = Inr (sc, d') \<Longrightarrow> quiet d d'"
  by (erule add_scope_cases) (simp_all add: quiet_def rests_def)

lemma quiet_remove_scope [quiet_rules]: "remove_team_environment_scope now tid eid actor ip d = Inr d' \<Longrightarrow> quiet d d'"
  by (auto simp: remove_team_environment_scope_def rbind_Inr_iff quiet_def rests_def split: option.splits)

lemma quiet_create_policy [quiet_rules]:
  "create_policy now i name scp scp_id rule cfg enf act pactor ip d = Inr (p, d') \<Longrightarrow> quiet d d'"
  by (auto simp: create_policy_def Let_def quiet_def rests_def add_policy_def split: if_splits)

lemma quiet_delete_policy [quiet_rules]: "delete_policy now i pactor ip d = (b, d') \<Longrightarrow> quiet d d'"
  by (auto simp: delete_policy_def quiet_def rests_def modify_policy_def split: option.splits)

lemma quiet_budget [quiet_rules]: "create_or_update_team_budget now tm mb warn block d = Inr d' \<Longrightarrow> quiet d d'"
  by (auto simp: create_or_update_team_budget_def quiet_def rests_def split: if_splits option.splits)

lemma quiet_preflight: "build_preflight before after now env rid c d = (p, d') \<Longrightarrow> quiet d d'"
  using build_preflight_frame [of before after now env rid c d] by (auto simp: quiet_def rests_def)

lemma quiet_reserve: "flush_reservation r d = Inr d' \<Longrightarrow> quiet d d'"
  by (simp add: flush_reservation_Inr quiet_def rests_def)

lemma quiet_finish: "finish_reservation scp ky res d = d' \<Longrightarrow> quiet d d'"
  by (cases res) (auto simp: finish_reservation_def quiet_def rests_def)

lemma quiet_runs_ok: "quiet d d' \<Longrightarrow> runs_ok d \<Longrightarrow> runs_ok d'"
  by (rule runs_ok_rests) (auto simp: quiet_def golden_ok_def runs_ok_def intro: envs_extend_same jobs_extend_same)

subsection \<open>Golden paths\<close>

lemma billable_resources_of:
  assumes "1 \<le> dv" "dv \<le> 64" "1 \<le> dm" "dm \<le> 512" "1 \<le> ev" "ev \<le> 64" "1 \<le> em" "em \<le> 512" "0 \<le> n" "n \<le> 1000"
  shows "billable (resources_of dv dm ev em n)"
  using assms
  by (simp add: billable_def run_vcpu_def requested_resources_of_def resources_of_def resources_ok_def dget_def Let_def)

lemma billable_dump: "resources_ok r \<Longrightarrow> billable (resources_dump r)"
  using billable_resources_of unfolding resources_ok_def resources_of_def resources_dump_def by simp

lemma billable_defaults: "\<forall>spec \<in> set default_golden_path_specs. billable (gs_requested_resources spec)"
  by (simp add: default_golden_path_specs_def billable_resources_of)

lemma create_golden_path_rests:
  assumes run: "create_golden_path now i req d = Inr (g, d')" and ok: "golden_request_ok req" "golden_ok d"
  shows "d' = d\<lparr>db_golden := db_golden d @ [g]\<rparr>" "golden_ok d'"
proof -
  have g: "g = golden_path_of_request now i req" "d' = add_golden_path g d"
    using run by (auto simp: create_golden_path_def Let_def rbind_Inr_iff split: option.splits if_splits)
  then show "d' = d\<lparr>db_golden := db_golden d @ [g]\<rparr>" by (simp add: add_golden_path_def)
  have "billable (gp_requested_resources g)"
    using ok(1) unfolding g(1) golden_path_of_request_def golden_request_ok_def resource_spec_ok_def
    by (simp add: billable_resources_of)
  then show "golden_ok d'" using ok(2) g(2) by (simp add: golden_ok_def add_golden_path_def)
qed

lemma ensure_golden_paths_rests:
  assumes "ensure_golden_paths now ids (\<lambda>n d. d) specs d = (n, d')" "\<forall>spec \<in> set specs. billable (gs_requested_resources spec)"
    and "golden_ok d"
  shows "golden_ok d' \<and> (\<exists>t. d' = d\<lparr>db_golden := t\<rparr>)"
  using assms
proof (induction specs arbitrary: n d)
  case Nil
  then show ?case by (auto intro: exI [where x = "db_golden d"])
next
  case (Cons spec specs)
  let ?g = "golden_path_of_spec now (ids (gs_name spec)) spec"
  show ?case
  proof (cases "find_golden_path d None (gs_name spec)")
    case (Some g)
    then show ?thesis using Cons.prems by (intro Cons.IH) simp_all
  next
    case None
    then have fl: "flush_golden_path ?g d = Inr (add_golden_path ?g d)"
      by (simp add: flush_golden_path_def golden_path_of_spec_def)
    obtain m where "ensure_golden_paths now ids (\<lambda>n d. d) specs (add_golden_path ?g d) = (m, d')"
      using Cons.prems(1) None fl by (auto split: prod.splits)
    moreover have "golden_ok (add_golden_path ?g d)"
      using Cons.prems(2,3) by (simp add: golden_ok_def add_golden_path_def golden_path_of_spec_def)
    ultimately have "golden_ok d' \<and> (\<exists>t. d' = (add_golden_path ?g d)\<lparr>db_golden := t\<rparr>)"
      using Cons.prems(2) by (intro Cons.IH) simp_all
    then show ?thesis by (auto simp: add_golden_path_def)
  qed
qed

lemma golden_update_runs_ok:
  assumes "runs_ok d" "golden_ok (d\<lparr>db_golden := t\<rparr>)" shows "runs_ok (d\<lparr>db_golden := t\<rparr>)"
  by (rule runs_ok_rests [OF assms(1) _ _ _ assms(2)]) (simp_all add: rests_def envs_extend_same jobs_extend_same)

subsection \<open>Jobs and environments\<close>

lemma create_job_runs_ok:
  assumes run: "create_job now i req actor ip d = Inr (j, d')" and new: "get_job d i = None" and ok: "runs_ok d"
  shows "runs_ok d'"
proof (rule runs_ok_rests [OF ok])
  have d': "db_jobs d' = db_jobs d @ [j]" "job_id j = i" "rests d d'" "db_envs d' = db_envs d" "db_golden d' = db_golden d"
    using run by (auto simp: create_job_def rbind_Inr_iff Let_def rests_def add_job_def job_row_def split: if_splits)
  then show "rests d d'" "envs_extend d d'" "golden_ok d'"
    using ok by (simp_all add: envs_extend_same golden_ok_def runs_ok_def)
  show "jobs_extend d d'" unfolding jobs_extend_def get_job_def d'(1) find_row_append by auto
qed

lemma create_environment_extends:
  assumes run: "create_environment settings now eid oid lid req actor ip ky d = Inr ((env, opr), d')"
    and new: "get_environment d eid = None" and q: "quotas_ok req"
  shows "envs_extend d d'"
proof -
  have d': "db_envs d' = db_envs d @ [env]" and env: "env = environment_row now eid req"
    using create_environment_Inr [OF run] by auto
  have "0 \<le> env_max_concurrent_runs env" "0 \<le> env_max_vcpu env" "env_id env = eid"
    using q by (simp_all add: env environment_row_def quotas_ok_def)
  then show ?thesis using new
    unfolding envs_extend_def get_environment_def d' find_row_append
    by (auto simp: find_row_def split: option.splits if_splits)
qed

lemma create_environment_runs_ok:
  assumes run: "create_environment settings now eid oid lid req actor ip ky d = Inr (x, d')"
    and new: "get_environment d eid = None" and q: "quotas_ok req" and ok: "runs_ok d"
  shows "runs_ok d'"
proof -
  obtain env opr where x: "x = (env, opr)" by force
  note c = create_environment_Inr [OF run [unfolded x]]
  show ?thesis
    by (rule runs_ok_rests [OF ok _ create_environment_extends [OF run [unfolded x] new q]])
      (use c(3) ok in \<open>auto simp: rests_def jobs_extend_same golden_ok_def runs_ok_def\<close>)
qed

text \<open>Changing the row of one environment without its id and limits.\<close>

lemma find_row_modify:
  assumes "\<And>r. key r = i \<Longrightarrow> key (f r) = i"
  shows "find_row key k (modify_row key i f t) = (if k = i then map_option f (find_row key k t) else find_row key k t)"
  using assms by (induction t) (auto simp: find_row_def modify_row_def)

lemma get_modified_environment:
  assumes "\<And>e. env_id e = i \<Longrightarrow> env_id (f e) = i" and "db_envs d' = modify_row env_id i (upd_environment now f) (db_envs d)"
  shows "get_environment d' k = (if k = i then map_option (upd_environment now f) (get_environment d k) else get_environment d k)"
  unfolding get_environment_def assms(2) by (rule find_row_modify) (simp add: assms(1))

lemma modify_environment_extends:
  assumes id: "\<And>e. env_id e = i \<Longrightarrow> env_id (f e) = i"
    and lims: "\<And>e. get_environment d i = Some e \<Longrightarrow>
      env_max_concurrent_runs (f e) = env_max_concurrent_runs e \<and> env_max_vcpu (f e) = env_max_vcpu e"
    and d': "db_envs d' = modify_row env_id i (upd_environment now f) (db_envs d)"
  shows "envs_extend d d'"
proof -
  note get = get_modified_environment [OF id d']
  show ?thesis
    using lims id environment_store.get_Some [of d i] by (auto simp: envs_extend_def get split: option.splits if_splits)
qed

end
