(* ===== verification/SP_RunInvariant.thy ===== *)
theory SP_RunInvariant
  imports SP_Lifecycle
begin

text \<open>
  The requests and the worker passes that change runs keep \<open>runs_ok\<close>: every environment within its quota,
  every attempt within the retries of its job, every run that started and ended billed once.
\<close>

lemma runs_ok_dest:
  assumes "runs_ok d"
  shows "distinct (map run_id (db_runs d))" "fk_ok d" "\<forall>r \<in> set (db_runs d). run_ok d r" "all_within_quota d" "golden_ok d"
    "billing_unique d"
  using assms by (simp_all add: runs_ok_def)

lemma runs_ok_get: "runs_ok d \<Longrightarrow> get_run d i = Some r \<Longrightarrow> run_ok d r"
  using run_store.get_Some by (auto simp: runs_ok_def)

lemma runs_ok_nonneg: "runs_ok d \<Longrightarrow> r \<in> set (db_runs d) \<Longrightarrow> nonneg_resources r"
  by (auto simp: runs_ok_def run_ok_def billable_def nonneg_resources_def)

lemma runs_ok_audit: "runs_ok d \<Longrightarrow> runs_ok (d\<lparr>db_audit := a\<rparr>)"
  by (rule quiet_runs_ok [of d]) (simp_all add: quiet_def rests_def)

text \<open>A step of the rows over unchanged environments and jobs.\<close>

lemma all_within_quota_step:
  assumes ok: "runs_ok d" and st: "runs_step row_step d d'" and env: "get_environment d' = get_environment d"
  shows "all_within_quota d'"
  using within_quota_step [OF st runs_ok_nonneg [OF ok]] ok env by (auto simp: all_within_quota_def runs_ok_def)

lemma golden_ok_cong: "db_golden d' = db_golden d \<Longrightarrow> golden_ok d' = golden_ok d"
  by (simp add: golden_ok_def)

lemma runs_ok_step:
  assumes ok: "runs_ok d" and st: "runs_step row_step d d'"
    and env: "get_environment d' = get_environment d \<and> get_job d' = get_job d" "db_golden d' = db_golden d"
    and rows: "\<forall>r \<in> set (db_runs d'). run_ok d' r" and bill: "billing_unique d'"
  shows "runs_ok d'"
  using all_within_quota_step [OF ok st] fk_ok_step [OF _ env(1) st] runs_step_ids [OF st row_step_id] golden_ok_cong [OF env(2)]
    ok env rows bill by (simp add: runs_ok_def)

subsection \<open>Creation\<close>

lemma resolved_billable:
  assumes cfg: "resolve_run_configuration nf d env req = Inr (g, requested, c)"
    and req: "run_request_ok req" and gold: "golden_ok d"
  shows "billable requested"
proof (cases "opt_empty (rq_golden_path req)")
  case True
  then have "requested = resources_dump (rq_requested_resources req)"
    using cfg by (auto simp: resolve_run_configuration_def)
  then show ?thesis using req billable_dump by (simp add: run_request_ok_def)
next
  case False
  then obtain h where "resolve_golden_path_for_run nf d env (the (rq_golden_path req)) = Inr h"
    and r: "requested = gp_requested_resources h"
    using cfg by (auto simp: resolve_run_configuration_def rbind_Inr_iff split: if_splits)
  then have "h \<in> set (db_golden d)" using resolve_golden_path_sound by blast
  then show ?thesis using gold r by (simp add: golden_ok_def)
qed

lemma create_run_runs_ok:
  assumes run: "create_run nf lf now i jid req actor ip ky d = Inr (r, d')"
    and new: "get_run d i = None" and req: "run_request_ok req" and ok: "runs_ok d"
  shows "runs_ok d'"
  using run
proof (cases rule: create_run_cases)
  case (existing a)
  then show ?thesis using runs_ok_audit [OF ok] by simp
next
  case (created j env g requested c t entries a b)
  note okd = runs_ok_dest [OF ok]
  have d': "db_runs d' = db_runs d @ [r]" "db_usage d' = db_usage d" "db_allocs d' = db_allocs d" "db_golden d' = db_golden d"
    using created(12) by simp_all
  have gets: "get_environment d' = get_environment d" "get_job d' = get_job d"
    by (rule get_cong; simp add: created(12))+
  have r: "run_id r = i" "run_job_id r = jid" "run_environment_id r = job_environment_id j" "run_state r = RQueued"
    "run_attempt r = 1" "run_started_at r = None" "run_requested_resources r = requested"
    using created(11) job_store.get_Some [OF created(1)] environment_store.get_Some [OF created(2)] by simp_all
  have je: "jobs_extend d d'" by (simp add: jobs_extend_def gets)
  have "run_ok d' r"
    using r created(1) resolved_billable [OF created(4) req okd(5)] gets
    by (simp add: run_ok_def run_stage_def attempts_ok_def started_def)
  then have rows: "\<forall>r \<in> set (db_runs d'). run_ok d' r"
    using okd(3) run_ok_extend [OF d'(2) je] by (simp add: d'(1))
  have "distinct (map run_id (db_runs d'))"
    using okd(1) new r(1) by (auto simp: d'(1) get_run_def find_row_None)
  moreover have "fk_ok d'" using okd(2) r created(1,2) by (auto simp: fk_ok_def d'(1) gets)
  moreover have "all_within_quota d'"
    unfolding all_within_quota_def gets
  proof (intro allI impI)
    fix k e assume e: "get_environment d k = Some e"
    then have "within_quota d e" using okd(4) by (simp add: all_within_quota_def)
    moreover have "env = e" if "get_environment d l = Some env" "env_id env = env_id e" for l env
      using that e environment_store.get_Some by fastforce
    ultimately show "within_quota d' e" by (rule create_run_within_quota [OF run])
  qed
  ultimately show ?thesis
    using rows okd(6) okd(5) billing_unique_cong [OF d'(2,3)] golden_ok_cong [OF d'(4)] by (simp add: runs_ok_def)
qed

subsection \<open>Cancellation\<close>

lemma cancel_run_touches:
  assumes run: "cancel_run now rid actor ip d = Inr (r', d')"
  shows "d' = d \<or> (\<exists>r. get_run d rid = Some r \<and> \<not> terminal (run_state r) \<and>
     touches only_runs rid (\<lambda>q q'. frozen q q' \<and> run_attempt q' = run_attempt q \<and> run_started_at q' = run_started_at q \<and>
       (run_state r \<in> {RQueued, RDispatching} \<and> run_state q' = RCancelled \<and> run_ended_at q' = Some now \<or>
        started (run_state r) \<and> run_state q' = run_state q)) d d')"
  using run
proof (cases rule: cancel_run_cases)
  case (terminal r)
  then show ?thesis by simp
next
  case (cancelled r)
  let ?f = "\<lambda>r. r\<lparr>run_state := RCancelled, run_ended_at := Some now\<rparr>"
  from cancelled(3) obtain a where d': "d' = (modify_run now rid ?f d)\<lparr>db_audit := a\<rparr>" by blast
  have "touches only_runs rid (\<lambda>q q'. frozen q q' \<and> run_attempt q' = run_attempt q \<and> run_started_at q' = run_started_at q \<and>
      run_state q' = RCancelled \<and> run_ended_at q' = Some now) d (modify_run now rid ?f d)"
    by (rule only_runs.touches_modify) (simp add: frozen_def)
  then have "touches only_runs rid (\<lambda>q q'. frozen q q' \<and> run_attempt q' = run_attempt q \<and> run_started_at q' = run_started_at q \<and>
      run_state q' = RCancelled \<and> run_ended_at q' = Some now) d d'"
    unfolding d' by (rule only_runs.touches_frame) simp_all
  then show ?thesis using cancelled(1,2)
    by (intro disjI2 exI [where x = r]) (auto elim!: touches_mono)
next
  case (requested r)
  let ?f = "\<lambda>r. r\<lparr>run_cancellation_requested := True\<rparr>"
  from requested(3) obtain a where d': "d' = (modify_run now rid ?f d)\<lparr>db_audit := a\<rparr>" by blast
  have "touches only_runs rid (\<lambda>q q'. frozen q q' \<and> run_attempt q' = run_attempt q \<and> run_started_at q' = run_started_at q \<and>
      run_state q' = run_state q) d (modify_run now rid ?f d)"
    by (rule only_runs.touches_modify) (simp add: frozen_def)
  then have "touches only_runs rid (\<lambda>q q'. frozen q q' \<and> run_attempt q' = run_attempt q \<and> run_started_at q' = run_started_at q \<and>
      run_state q' = run_state q) d d'"
    unfolding d' by (rule only_runs.touches_frame) simp_all
  moreover have "started (run_state r)" using requested(2) by (simp add: started_def)
  ultimately show ?thesis using requested(1,2)
    by (intro disjI2 exI [where x = r]) (auto elim!: touches_mono)
qed

subsection \<open>Operations on one run\<close>

lemma run_ok_mono:
  assumes "\<And>x. recorded d x \<Longrightarrow> recorded d' x" "get_job d' = get_job d" "run_ok d r" shows "run_ok d' r"
  using assms by (auto simp: run_ok_def run_stage_def attempts_ok_def)

lemma touches_runs_ok:
  assumes ok: "runs_ok d" and t: "touches F i R d d'" and r: "get_run d i = Some r"
    and id: "\<And>q q'. R q q' \<Longrightarrow> run_id q' = run_id q"
    and st: "\<And>q'. R r q' \<Longrightarrow> row_step r q'"
    and env: "get_environment d' = get_environment d \<and> get_job d' = get_job d" "db_golden d' = db_golden d"
    and rec: "\<And>x. recorded d x \<Longrightarrow> recorded d' x" and bill: "billing_unique d'"
    and new: "\<And>q'. R r q' \<Longrightarrow> get_run d' i = Some q' \<Longrightarrow> run_ok d' q'"
  shows "runs_ok d'"
proof -
  note okd = runs_ok_dest [OF ok]
  have step: "runs_step row_step d d'" by (rule touches_runs_step [OF t okd(1) r st])
  have dist: "distinct (map run_id (db_runs d'))" using runs_step_ids [OF step row_step_id] okd(1) by simp
  have "\<forall>q \<in> set (db_runs d'). run_ok d' q"
  proof
    fix q assume q: "q \<in> set (db_runs d')"
    from touches_rows [OF t okd(1) r q id] show "run_ok d' q"
    proof
      assume "q \<in> set (db_runs d) \<and> run_id q \<noteq> i"
      then show "run_ok d' q" using okd(3) run_ok_mono [OF rec] env(1) by blast
    next
      assume Rq: "R r q"
      then have "run_id q = i" using id run_store.get_Some [OF r] by fastforce
      then show "run_ok d' q" using new [OF Rq] run_store.get_in_rows [OF dist q] by simp
    qed
  qed
  then show ?thesis by (rule runs_ok_step [OF ok step env _ bill])
qed

lemma only_runs_frame:
  "only_runs d d' \<Longrightarrow> db_golden d' = db_golden d \<and> db_usage d' = db_usage d \<and> db_allocs d' = db_allocs d \<and> db_jobs d' = db_jobs d \<and>
     db_envs d' = db_envs d \<and> db_ops d' = db_ops d"
  by (auto simp: only_runs_def)

lemma touches_only_runs_ok:
  assumes ok: "runs_ok d" and t: "touches only_runs i R d d'" and r: "get_run d i = Some r"
    and id: "\<And>q q'. R q q' \<Longrightarrow> run_id q' = run_id q" and st: "\<And>q'. R r q' \<Longrightarrow> row_step r q'"
    and new: "\<And>q'. R r q' \<Longrightarrow> run_ok d q'"
  shows "runs_ok d'"
proof -
  have o: "only_runs d d'" using t by (simp add: touches_def)
  note fr = only_runs_frame [OF o] and g = only_runs_gets [OF o]
  have rec: "\<And>x. recorded d' x = recorded d x" using fr by (simp add: recorded_def)
  show ?thesis
  proof (rule touches_runs_ok [OF ok t r id st g])
    show "db_golden d' = db_golden d" using fr by simp
    show "billing_unique d'" using billing_unique_cong [of d' d] fr runs_ok_dest(6) [OF ok] by simp
    show "run_ok d' q'" if "R r q'" for q'
      using new [OF that] rec g by (simp add: run_ok_def run_stage_def attempts_ok_def)
  qed (simp_all add: rec)
qed

lemma cancel_run_runs_ok:
  assumes run: "cancel_run now rid actor ip d = Inr (r', d')" and ok: "runs_ok d"
  shows "runs_ok d'"
proof (cases "d' = d")
  case True
  then show ?thesis using ok by simp
next
  case False
  let ?R = "\<lambda>r q q'. frozen q q' \<and> run_attempt q' = run_attempt q \<and> run_started_at q' = run_started_at q \<and>
       (run_state r \<in> {RQueued, RDispatching} \<and> run_state q' = RCancelled \<and> run_ended_at q' = Some now \<or>
        started (run_state r) \<and> run_state q' = run_state q)"
  from False cancel_run_touches [OF run] obtain r where r: "get_run d rid = Some r" "\<not> terminal (run_state r)"
    and t: "touches only_runs rid (?R r) d d'" by blast
  have rok: "run_ok d r" by (rule runs_ok_get [OF ok r(1)])
  show ?thesis
  proof (rule touches_only_runs_ok [OF ok t r(1)])
    show "row_step r q'" if "?R r r q'" for q' using that r(2) by (auto simp: row_step_def started_def)
    show "run_ok d q'" if R: "?R r r q'" for q'
      using rok R by (auto simp: run_ok_def run_stage_def attempts_ok_def frozen_def started_def)
  qed (simp add: frozen_def)
qed

subsection \<open>The claims of a pass\<close>

lemma claim_runs_ok:
  assumes ok: "runs_ok d" and cl: "claim_runs now clk tk states lmt col d = (rs, d')"
    and act: "\<And>s. s \<in> set states \<Longrightarrow> \<not> terminal s"
  shows "runs_ok d'"
proof -
  note okd = runs_ok_dest [OF ok]
  have o: "only_runs d d'" by (rule only_runs_claim [OF cl])
  note fr = only_runs_frame [OF o] and g = only_runs_gets [OF o]
  show ?thesis
  proof (rule runs_ok_step [OF ok claim_runs_step [OF okd(1) cl act] g])
    show "db_golden d' = db_golden d" using fr by simp
    show "billing_unique d'" using billing_unique_cong [of d' d] fr okd(6) by simp
    have "run_ok d r" if "r \<in> set (db_runs d')" for r
      using claim_runs_rows [OF okd(1) cl] that okd(3)
      by (auto simp: run_ok_def run_stage_def attempts_ok_def split: if_splits)
    then show "\<forall>r \<in> set (db_runs d'). run_ok d' r"
      using fr g by (simp add: run_ok_def run_stage_def attempts_ok_def recorded_def)
  qed
qed

subsection \<open>The scheduler\<close>

lemma schedule_claimed_runs_ok:
  assumes ok: "runs_ok (fst st)" and r: "get_run (fst st) i = Some r" "run_state r = RQueued"
  shows "runs_ok (fst (schedule_claimed cl (cached_preflight key before after clk tick) clk actor i st))"
proof -
  note okd = runs_ok_dest [OF ok]
  note rr = run_store.get_Some [OF r(1)]
  have rok: "run_ok (fst st) r" by (rule runs_ok_get [OF ok r(1)])
  obtain env j where fk: "get_environment (fst st) (run_environment_id r) = Some env" "get_job (fst st) (run_job_id r) = Some j"
    using okd(2) rr unfolding fk_ok_def by blast
  note t = schedule_claimed_touches [OF cached_preflight_audit_only r(1) fk, where clk = clk and cl = cl and actor = actor]
  show ?thesis
  proof (rule touches_only_runs_ok [OF ok t r(1) claimed_outcome_id])
    show "row_step r q'" if "claimed_outcome (clk i) r j r q'" for q'
      using claimed_outcome_step [OF that r(2)] .
    show "run_ok (fst st) q'" if c: "claimed_outcome (clk i) r j r q'" for q'
      using rok c fk(2) r(2)
      by (auto simp: claimed_outcome_def sched_outcome_def run_ok_def run_stage_def attempts_ok_def frozen_def started_def)
  qed assumption
qed

lemma process_scheduler_runs_ok:
  assumes run: "process_scheduler_once cl (cached_preflight key before after clk tick) now clk tk actor lmt (d, c) = (n, d', c')"
    and ok: "runs_ok d"
  shows "runs_ok d'"
proof -
  note okd = runs_ok_dest [OF ok]
  obtain rs d1 where clm: "claim_runs now clk tk [RQueued] lmt run_created_at d = (rs, d1)" by force
  have nt: "\<And>s. s \<in> set [RQueued] \<Longrightarrow> \<not> terminal s" and el: "\<And>r. run_state r = RQueued \<longleftrightarrow> run_state r \<in> set [RQueued]"
    by simp_all
  note ready = scheduler.claims_ready(1) [of d now clk tk "[RQueued]" lmt run_created_at rs "(d1, c)", unfolded fst_conv,
      OF okd(1,2) clm only_runs_claim [OF clm] el nt]
  have "runs_ok (fst (fold (\<lambda>r. schedule_claimed cl (cached_preflight key before after clk tick) clk actor (run_id r)) rs (d1, c)))"
    by (rule scheduler.pass_invariant [OF _ ready])
      (use schedule_claimed_runs_ok claim_runs_ok [OF ok clm nt] in simp_all)
  moreover have "d' = fst (fold (\<lambda>r. schedule_claimed cl (cached_preflight key before after clk tick) clk actor (run_id r)) rs (d1, c))"
    using run clm by (simp add: process_scheduler_once_def)
  ultimately show ?thesis by simp
qed

subsection \<open>The reconciler\<close>

text \<open>After the handling of a run that had started, an ended row has its usage record.\<close>

lemma reconcile_claimed_recorded:
  assumes pf: "preflight_audit_only rc" and r: "get_run d i = Some r" "started (run_state r)"
    and fk: "get_environment d (run_environment_id r) = Some env" "get_job d (run_job_id r) = Some j"
    and q: "get_run (reconcile_claimed rc clk actor i d) i = Some q" "terminal (run_state q)"
  shows "recorded (reconcile_claimed rc clk actor i d) i"
proof -
  have id: "run_id r = i" using run_store.get_Some [OF r(1)] by simp
  define d1 where "d1 = (case reconcile_run rc (clk i) actor r env j d of Inl e \<Rightarrow> d | Inr d1 \<Rightarrow> d1)"
  have d': "reconcile_claimed rc clk actor i d = modify_run (clk i) i release_run_claim d1"
    using r fk by (simp add: reconcile_claimed_def d1_def)
  have "get_run (modify_run (clk i) i release_run_claim d1) i = map_option (upd_run (clk i) release_run_claim) (get_run d1 i)"
    by (rule run_store.get_modify_same) (simp add: release_run_claim_def)
  then obtain q1 where q1: "get_run d1 i = Some q1" "terminal (run_state q1)"
    using q unfolding d' by (cases "get_run d1 i") (auto simp: release_run_claim_def)
  have "recorded d1 i"
  proof (cases "reconcile_run rc (clk i) actor r env j d")
    case (Inl e)
    then show ?thesis using q1 r by (auto simp: d1_def started_def)
  next
    case (Inr d2)
    then have d1: "d1 = d2" by (simp add: d1_def)
    from reconcile_run_recorded [OF Inr pf] show ?thesis
    proof
      assume "touches only_worker (run_id r) still_started d d2"
      then have "\<exists>q'. get_run d1 i = Some q' \<and> still_started r q'"
        unfolding d1 id by (rule touches_get) (use r(1) in \<open>simp_all add: still_started_def\<close>)
      then show ?thesis using q1 by (auto simp: still_started_def started_def)
    qed (simp add: d1 id)
  qed
  then show ?thesis unfolding d' by (simp add: recorded_def)
qed

lemma reconcile_claimed_unique:
  assumes pf: "preflight_audit_only rc" and u: "billing_unique d"
  shows "billing_unique (reconcile_claimed rc clk actor i d)"
  using u reconcile_run_unique [OF _ pf u]
  by (auto simp: reconcile_claimed_def billing_unique_def split: option.splits sum.splits)

lemma only_worker_frame:
  "only_worker d d' \<Longrightarrow> db_golden d' = db_golden d \<and> db_jobs d' = db_jobs d \<and> db_envs d' = db_envs d \<and> db_ops d' = db_ops d"
  by (auto simp: only_worker_def)

lemma reconcile_claimed_runs_ok:
  assumes ok: "runs_ok d" and r: "get_run d i = Some r" "started (run_state r)" and pf: "preflight_audit_only rc"
  shows "runs_ok (reconcile_claimed rc clk actor i d)"
proof -
  let ?d = "reconcile_claimed rc clk actor i d"
  note okd = runs_ok_dest [OF ok] and rok = runs_ok_get [OF ok r(1)]
  obtain env j where fk: "get_environment d (run_environment_id r) = Some env" "get_job d (run_job_id r) = Some j"
    using okd(2) run_store.get_Some [OF r(1)] unfolding fk_ok_def by blast
  note t = reconcile_claimed_touches [OF pf r(1) fk, where clk = clk and actor = actor]
  then have o: "only_worker d ?d" by (simp add: touches_def)
  have g: "get_environment ?d = get_environment d \<and> get_job ?d = get_job d" by (rule only_worker_gets [OF o])
  show ?thesis
  proof (rule touches_runs_ok [OF ok t r(1) _ _ g])
    show "db_golden ?d = db_golden d" using only_worker_frame [OF o] by simp
    show "billing_unique ?d" by (rule reconcile_claimed_unique [OF pf okd(6)])
    show "recorded ?d x" if "recorded d x" for x by (rule only_worker_recorded [OF o that])
    show "row_step r q'" if "settled i r r q'" for q' using that r(2) by (auto simp: settled_def row_step_def started_def)
    show "run_id q' = run_id q" if "settled i r q q'" for q q' using that by (simp add: settled_def frozen_def)
    show "run_ok ?d q'" if s: "settled i r r q'" and q: "get_run ?d i = Some q'" for q'
    proof -
      have id: "run_id q' = i" using run_store.get_Some [OF q] by simp
      have "terminal (run_state q') \<Longrightarrow> recorded ?d (run_id q')"
        unfolding id by (rule reconcile_claimed_recorded [OF pf r fk q])
      moreover have "get_job ?d = get_job d" using g by simp
      moreover have "attempts_ok d q'" "billable (run_requested_resources q')"
        using rok s by (simp_all add: settled_def frozen_def run_ok_def attempts_ok_def)
      moreover have "run_state q' \<noteq> RDispatching" "run_state q' \<noteq> RQueued" "run_started_at q' \<noteq> None"
        "terminal (run_state q') \<longrightarrow> run_ended_at q' \<noteq> None"
        using rok s r(2) by (auto simp: settled_def run_ok_def run_stage_def started_def)
      ultimately show ?thesis unfolding run_ok_def run_stage_def attempts_ok_def by simp
    qed
  qed
qed

lemma process_reconciler_runs_ok:
  assumes run: "process_reconciler_once (with_preflight before after now rc) now' clk tk actor lmt d = (n, d')" and ok: "runs_ok d"
  shows "runs_ok d'"
proof -
  note okd = runs_ok_dest [OF ok]
  let ?step = "\<lambda>r. reconcile_claimed (with_preflight before after now rc) clk actor (run_id r)"
  obtain rs d1 where clm: "claim_runs now' clk tk [RAccepted, RRunning] lmt run_updated_at d = (rs, d1)" by force
  have nt: "\<And>s. s \<in> set [RAccepted, RRunning] \<Longrightarrow> \<not> terminal s"
    and el: "\<And>r. started (run_state r) \<longleftrightarrow> run_state r \<in> set [RAccepted, RRunning]"
    by (auto simp: started_def)
  note ready = reconciler.claims_ready(1) [of d now' clk tk "[RAccepted, RRunning]" lmt run_updated_at rs d1,
      OF okd(1,2) clm only_runs_worker [OF only_runs_claim [OF clm]] el nt]
  have "runs_ok (fold ?step rs d1)"
    by (rule reconciler.pass_invariant [where I = runs_ok, OF _ ready])
      (use reconcile_claimed_runs_ok [OF _ _ _ with_preflight_audit_only] claim_runs_ok [OF ok clm nt] in simp_all)
  then show ?thesis using run clm by (simp add: process_reconciler_once_def)
qed

end
