(* ===== verification/SP_EnvInvariant.thy ===== *)
theory SP_EnvInvariant
  imports SP_RunInvariant
begin

text \<open>
  Environments and their provisioning operations: at most one operation of an environment is active, the
  environment says it is provisioning exactly while one is, and a deleted environment has neither active
  runs nor operations. Every step keeps this (\<open>envs_ok\<close>).
\<close>

definition active_operations :: "database \<Rightarrow> string \<Rightarrow> prov_op list" where
  "active_operations d eid = filter (\<lambda>r. op_environment_id r = eid \<and> op_state r \<in> set active_operation_states) (db_ops d)"

lemma has_active_operation_iff: "has_active_operation d eid \<longleftrightarrow> active_operations d eid \<noteq> []"
  by (auto simp: has_active_operation_def active_operations_def list_ex_iff filter_empty_conv)

definition env_ok :: "database \<Rightarrow> environment \<Rightarrow> bool" where
  "env_ok d e \<longleftrightarrow> (env_status e = EProvisioning \<longleftrightarrow> has_active_operation d (env_id e)) \<and>
     (env_status e = EDeleted \<longrightarrow> \<not> has_active_run d (env_id e))"

definition envs_ok :: "database \<Rightarrow> bool" where
  "envs_ok d \<longleftrightarrow> distinct (map env_id (db_envs d)) \<and> distinct (map op_id (db_ops d)) \<and>
     (\<forall>r \<in> set (db_ops d). get_environment d (op_environment_id r) \<noteq> None) \<and>
     (\<forall>i. length (active_operations d i) \<le> 1) \<and> (\<forall>e \<in> set (db_envs d). env_ok d e)"

lemma envs_ok_dest:
  assumes "envs_ok d"
  shows "distinct (map env_id (db_envs d))" "distinct (map op_id (db_ops d))"
    "\<forall>r \<in> set (db_ops d). get_environment d (op_environment_id r) \<noteq> None"
    "\<forall>i. length (active_operations d i) \<le> 1" "\<forall>e \<in> set (db_envs d). env_ok d e"
  using assms by (simp_all add: envs_ok_def)

subsection \<open>Steps that leave environments and operations alone\<close>

text \<open>No run of an environment becomes active unless the environment is ready.\<close>

lemma envs_ok_rests:
  assumes ok: "envs_ok d" and e: "db_envs d' = db_envs d" and o: "db_ops d' = db_ops d"
    and act: "\<And>i env. get_environment d i = Some env \<Longrightarrow> has_active_run d' i \<Longrightarrow> \<not> has_active_run d i \<Longrightarrow> env_status env = EReady"
  shows "envs_ok d'"
proof -
  have a: "active_operations d' = active_operations d" by (simp add: fun_eq_iff active_operations_def o)
  have g: "get_environment d' = get_environment d" by (rule get_cong(1) [OF e])
  have "env_ok d' x" if x: "x \<in> set (db_envs d)" for x
  proof -
    have "env_ok d x" using ok x by (simp add: envs_ok_def)
    moreover have "get_environment d (env_id x) = Some x"
      by (rule environment_store.get_in_rows [OF envs_ok_dest(1) [OF ok] x])
    ultimately show ?thesis using act [of "env_id x" x] by (auto simp: env_ok_def has_active_operation_iff a)
  qed
  then show ?thesis using ok by (simp add: envs_ok_def a g e o)
qed

lemma quiet_envs_ok: "quiet d d' \<Longrightarrow> envs_ok d \<Longrightarrow> envs_ok d'"
  by (rule envs_ok_rests) (auto simp: quiet_def rests_def has_active_run_def)

lemma row_step_active: "runs_step row_step d d' \<Longrightarrow> has_active_run d' i \<Longrightarrow> has_active_run d i"
  using runs_step_mem [of row_step d d'] row_step_deactivating
  by (fastforce simp: has_active_run_def list_ex_iff deactivating_def)

lemma envs_ok_runs:
  assumes "envs_ok d" "db_envs d' = db_envs d" "db_ops d' = db_ops d" "runs_step row_step d d'"
  shows "envs_ok d'"
  by (rule envs_ok_rests [OF assms(1-3)]) (use row_step_active [OF assms(4)] in blast)

lemma create_run_envs_ok:
  assumes run: "create_run nf lf now i jid req actor ip ky d = Inr (r, d')" and ok: "envs_ok d"
  shows "envs_ok d'"
  using run
proof (cases rule: create_run_cases)
  case (existing a)
  then show ?thesis by (intro quiet_envs_ok [OF _ ok]) (simp add: quiet_def rests_def)
next
  case (created j env g requested c t entries a b)
  show ?thesis
  proof (rule envs_ok_rests [OF ok])
    show "db_envs d' = db_envs d" "db_ops d' = db_ops d" using created(12) by simp_all
    have runs: "db_runs d' = db_runs d @ [r]" using created(12) by simp
    have rid: "run_environment_id r = env_id env" using created(11) by simp
    fix k e assume k: "get_environment d k = Some e" "has_active_run d' k" "\<not> has_active_run d k"
    then have "run_environment_id r = k" by (auto simp: has_active_run_def runs)
    then have "env_id env = k" using rid by simp
    then have "e = env" using k(1) created(2) environment_store.get_Some [OF created(2)] by simp
    then show "env_status e = EReady" using created(3) by simp
  qed
qed

subsection \<open>Creation, retry and deletion of environments\<close>

lemma active_operations_append:
  "db_ops d' = db_ops d @ [r] \<Longrightarrow> active_operations d' i = active_operations d i @
     (if op_environment_id r = i \<and> op_state r \<in> set active_operation_states then [r] else [])"
  by (simp add: active_operations_def)

lemma queued_operation_sel [simp]:
  "op_id (queued_operation now oid eid ky m u) = oid" "op_environment_id (queued_operation now oid eid ky m u) = eid"
  "op_state (queued_operation now oid eid ky m u) = PQueued"
  by (simp_all add: queued_operation_def)

lemma queued_is_active [simp]: "PQueued \<in> set active_operation_states"
  by (simp add: active_operation_states_def)

lemma new_environment_quiet:
  assumes ok: "envs_ok d" and fk: "fk_ok d" and new: "get_environment d i = None"
  shows "active_operations d i = []" "\<not> has_active_run d i"
proof -
  show "active_operations d i = []"
    using envs_ok_dest(3) [OF ok] new by (auto simp: active_operations_def filter_empty_conv)
  show "\<not> has_active_run d i" using fk new by (auto simp: has_active_run_def list_ex_iff fk_ok_def)
qed

lemma create_environment_envs_ok:
  assumes run: "create_environment settings now i oid lid req actor ip ky d = Inr ((env, opr), d')"
    and new: "get_environment d i = None" "get_operation d oid = None" and ok: "envs_ok d" and fk: "fk_ok d"
  shows "envs_ok d'"
proof -
  note okd = envs_ok_dest [OF ok]
  note c = create_environment_Inr [OF run]
  have d': "db_envs d' = db_envs d @ [env]" "db_ops d' = db_ops d @ [opr]" "db_runs d' = db_runs d" using c(3) by auto
  have env: "env_id env = i" "env_status env = EProvisioning" by (simp_all add: c(1) environment_row_def)
  note q = new_environment_quiet [OF ok fk new(1)]
  have a: "active_operations d' k = (if k = i then [opr] else active_operations d k)" for k
    using active_operations_append [OF d'(2), of k] q(1) c(2) by auto
  have g: "get_environment d' k = (if k = i then Some env else get_environment d k)" for k
    unfolding get_environment_def d'(1) find_row_append
    using new(1) env(1) by (auto simp: get_environment_def find_row_def split: option.splits)
  have "i \<notin> env_id ` set (db_envs d)" using new(1) by (simp add: get_environment_def find_row_None)
  moreover have "oid \<notin> op_id ` set (db_ops d)" using new(2) by (simp add: get_operation_def find_row_None)
  moreover have "env_ok d' env" by (simp add: env_ok_def has_active_operation_iff a env)
  moreover have "env_ok d' e" if "e \<in> set (db_envs d)" for e
  proof -
    have "env_id e \<noteq> i" using that \<open>i \<notin> env_id ` set (db_envs d)\<close> by auto
    then show ?thesis using okd(5) that by (auto simp: env_ok_def has_active_operation_iff a has_active_run_def d'(3))
  qed
  moreover have "\<forall>r \<in> set (db_ops d'). get_environment d' (op_environment_id r) \<noteq> None"
    using okd(3) c(2) by (auto simp: d'(2) g)
  ultimately show ?thesis using okd(1,2,4) c(2) env(1) by (simp add: envs_ok_def d' a)
qed

lemma retry_envs_ok:
  assumes run: "retry_environment_provisioning settings now oid lid eid actor ip ky d = Inr (opr, d')"
    and new: "get_operation d oid = None" and ok: "envs_ok d"
  shows "envs_ok d'" "envs_extend d d'"
proof -
  let ?f = "\<lambda>e. e\<lparr>env_status := EProvisioning, env_updated_at := now\<rparr>"
  note okd = envs_ok_dest [OF ok]
  from run obtain env a where r: "get_environment d eid = Some env" "env_status env \<noteq> EDeleted" "\<not> has_active_operation d eid"
    "opr = queued_operation now oid eid ky ''Queued for provisioning retry.'' (provisioning_log_uri settings eid lid)"
    and d'0: "d' = (modify_environment now eid ?f d)\<lparr>db_ops := db_ops d @ [opr], db_audit := a\<rparr>"
    by (rule retry_provisioning_Inr)
  have d': "db_envs d' = modify_row env_id eid (upd_environment now ?f) (db_envs d)" "db_ops d' = db_ops d @ [opr]"
    "db_runs d' = db_runs d"
    by (simp_all add: d'0 modify_environment_def)
  show "envs_extend d d'" by (rule modify_environment_extends [OF _ _ d'(1)]) simp_all
  have g: "get_environment d' k = (if k = eid then map_option (upd_environment now ?f) (get_environment d k) else get_environment d k)" for k
    by (rule get_modified_environment [OF _ d'(1)]) simp
  have a: "active_operations d' k = (if k = eid then [opr] else active_operations d k)" for k
    using active_operations_append [OF d'(2), of k] r(3,4) by (auto simp: has_active_operation_iff)
  have "oid \<notin> op_id ` set (db_ops d)" using new by (simp add: get_operation_def find_row_None)
  moreover have "distinct (map env_id (db_envs d'))"
    using okd(1) map_key_modify [of env_id "upd_environment now ?f" eid "db_envs d"] by (simp add: d'(1))
  moreover have "env_ok d' e" if e: "e \<in> set (db_envs d')" for e
  proof -
    from e obtain e0 where e0: "e0 \<in> set (db_envs d)" "e = (if env_id e0 = eid then upd_environment now ?f e0 else e0)"
      by (auto simp: d'(1) set_modify_row)
    then have "env_ok d e0" using okd(5) by simp
    then show ?thesis using e0(2) by (auto simp: env_ok_def has_active_operation_iff a has_active_run_def d'(3))
  qed
  moreover have "\<forall>r \<in> set (db_ops d'). get_environment d' (op_environment_id r) \<noteq> None"
    using okd(3) r(1,4) by (auto simp: d'(2) g)
  ultimately show "envs_ok d'" using okd(2,4) r(4) by (simp add: envs_ok_def d'(2) a)
qed

lemma delete_environment_envs_ok:
  assumes run: "delete_environment now eid actor ip d = Inr d'" and ok: "envs_ok d"
  shows "envs_ok d' \<and> envs_extend d d'"
  using run
proof (cases rule: delete_environment_Inr)
  case (already env)
  then show ?thesis using ok by (simp add: envs_extend_same)
next
  case (deleted env a)
  let ?f = "\<lambda>e. e\<lparr>env_status := EDeleted, env_updated_at := now\<rparr>"
  note okd = envs_ok_dest [OF ok]
  have d': "db_envs d' = modify_row env_id eid (upd_environment now ?f) (db_envs d)" "db_ops d' = db_ops d"
    "db_runs d' = db_runs d"
    by (simp_all add: deleted(5) modify_environment_def)
  have g: "get_environment d' k = (if k = eid then map_option (upd_environment now ?f) (get_environment d k) else get_environment d k)" for k
    by (rule get_modified_environment [OF _ d'(1)]) simp
  have a: "active_operations d' = active_operations d" by (simp add: fun_eq_iff active_operations_def d'(2))
  have "distinct (map env_id (db_envs d'))"
    using okd(1) map_key_modify [of env_id "upd_environment now ?f" eid "db_envs d"] by (simp add: d'(1))
  moreover have "env_ok d' e" if e: "e \<in> set (db_envs d')" for e
  proof -
    from e obtain e0 where e0: "e0 \<in> set (db_envs d)" "e = (if env_id e0 = eid then upd_environment now ?f e0 else e0)"
      by (auto simp: d'(1) set_modify_row)
    then have "env_ok d e0" using okd(5) by simp
    then show ?thesis using e0(2) deleted(3,4) by (auto simp: env_ok_def has_active_operation_iff a has_active_run_def d'(3))
  qed
  moreover have "\<forall>r \<in> set (db_ops d'). get_environment d' (op_environment_id r) \<noteq> None"
    using okd(3) by (auto simp: d'(2) g)
  moreover have "envs_extend d d'" by (rule modify_environment_extends [OF _ _ d'(1)]) simp_all
  ultimately show ?thesis using okd(2,4) by (simp add: envs_ok_def d'(2) a)
qed

subsection \<open>The provisioner\<close>

lemma filter_modify_row:
  assumes "\<And>r. r \<in> set t \<Longrightarrow> key r = i \<Longrightarrow> \<not> P (f r)"
  shows "filter P (modify_row key i f t) = filter (\<lambda>r. key r \<noteq> i) (filter P t)"
  using assms by (induction t) (auto simp: modify_row_def)

text \<open>An operation that leaves the active states, with its environment, which becomes ready or failed.\<close>

lemma settle_operation:
  assumes ok: "envs_ok d" and o: "get_operation d oid = Some opr" "op_state opr \<in> set active_operation_states"
    and e: "get_environment d (op_environment_id opr) = Some env"
    and opr': "op_id opr' = oid" "op_environment_id opr' = op_environment_id opr" "op_state opr' \<notin> set active_operation_states"
    and env': "env_id env' = env_id env" "env_status env' \<notin> {EProvisioning, EDeleted}"
    and ops: "db_ops d' = modify_row op_id oid (upd_operation now (\<lambda>_. opr')) (db_ops d)"
    and envs: "db_envs d' = modify_row env_id (env_id env) (upd_environment now (\<lambda>_. env')) (db_envs d)"
    and runs: "db_runs d' = db_runs d"
  shows "envs_ok d'"
proof -
  note okd = envs_ok_dest [OF ok]
  let ?i = "env_id env"
  have i: "op_environment_id opr = ?i" using environment_store.get_Some [OF e] by simp
  have o': "opr \<in> set (db_ops d)" "op_id opr = oid" using operation_store.get_Some [OF o(1)] by simp_all
  have a: "active_operations d' k = filter (\<lambda>r. op_id r \<noteq> oid) (active_operations d k)" for k
    unfolding active_operations_def ops by (rule filter_modify_row) (simp add: opr'(3))
  have mem: "opr \<in> set (active_operations d ?i)" using o' o(2) i by (simp add: active_operations_def)
  have one: "active_operations d ?i = [opr]"
    using mem okd(4) by (cases "active_operations d ?i") (auto simp: le_Suc_eq dest: spec [where x = ?i])
  have a_same: "active_operations d' ?i = []" using o'(2) by (simp add: a one)
  have a_other: "active_operations d' k = active_operations d k" if "k \<noteq> ?i" for k
  proof -
    have "op_id r \<noteq> oid" if r: "r \<in> set (active_operations d k)" for r
    proof
      assume "op_id r = oid"
      moreover have "r \<in> set (db_ops d)" "op_environment_id r = k" using r by (simp_all add: active_operations_def)
      ultimately have "r = opr" using operation_store.get_in_rows [OF okd(2)] o(1) by fastforce
      then show False using \<open>op_environment_id r = k\<close> i \<open>k \<noteq> ?i\<close> by simp
    qed
    then show ?thesis unfolding a by (simp add: filter_id_conv)
  qed
  have g: "get_environment d' k = (if k = ?i then map_option (upd_environment now (\<lambda>_. env')) (get_environment d k) else get_environment d k)" for k
    by (rule get_modified_environment [OF _ envs]) (simp add: env'(1))
  have ids: "map op_id (db_ops d') = map op_id (db_ops d)" "map env_id (db_envs d') = map env_id (db_envs d)"
    using opr'(1) env'(1) by (simp_all add: ops envs modify_row_def)
  have "length (active_operations d' k) \<le> 1" for k using a_same a_other okd(4) by (cases "k = ?i") simp_all
  moreover have "env_ok d' x" if x: "x \<in> set (db_envs d')" for x
  proof -
    from x obtain x0 where x0: "x0 \<in> set (db_envs d)" "x = (if env_id x0 = ?i then upd_environment now (\<lambda>_. env') x0 else x0)"
      by (auto simp: envs set_modify_row)
    show ?thesis
    proof (cases "env_id x0 = ?i")
      case True
      then show ?thesis using x0(2) env' a_same by (simp add: env_ok_def has_active_operation_iff)
    next
      case False
      then show ?thesis using x0 okd(5) a_other by (simp add: env_ok_def has_active_operation_iff has_active_run_def runs)
    qed
  qed
  moreover have "\<forall>r \<in> set (db_ops d'). get_environment d' (op_environment_id r) \<noteq> None"
    using okd(3) opr'(2) e i by (auto simp: ops set_modify_row g)
  ultimately show ?thesis using okd(1,2) by (simp add: envs_ok_def ids)
qed

text \<open>The handling of one claimed operation.\<close>

definition op_finished :: "prov_op \<Rightarrow> bool" where
  "op_finished r \<longleftrightarrow> op_state r \<in> {PReady, PFailed} \<and> op_ended_at r \<noteq> None \<and> op_claim_token r = None"

lemma provision_claimed_step:
  assumes pf: "prov_preflight_audit_only pv" and envs: "envs_ok (fst st)" and runs: "runs_ok (fst st)"
    and o: "get_operation (fst st) oid = Some opr" "op_state opr \<in> set active_operation_states"
    and step: "st' = provision_claimed pv clk actor oid st"
  shows "envs_ok (fst st')" "runs_ok (fst st')" "\<exists>r. get_operation (fst st') oid = Some r \<and> op_finished r"
    "\<And>i. i \<noteq> oid \<Longrightarrow> get_operation (fst st') i = get_operation (fst st) i"
proof -
  let ?d = "fst st"
  have "opr \<in> set (db_ops ?d)" using operation_store.get_Some [OF o(1)] by simp
  then obtain env where e: "get_environment ?d (op_environment_id opr) = Some env"
    using envs_ok_dest(3) [OF envs] by blast
  obtain a opr' env' t where
    st': "st' = (modify_operation (clk oid) oid (\<lambda>_. opr')
          (modify_environment (clk oid) (env_id env) (\<lambda>_. env') (?d\<lparr>db_audit := a\<rparr>)), t)"
    and same: "same_identity env env'" "same_operation opr opr'"
    and fin: "op_claim_token opr' = None" "op_ended_at opr' = Some (clk oid)"
      "op_state opr' = PReady \<and> env_status env' = EReady \<or> op_state opr' = PFailed \<and> env_status env' = EFailed"
    unfolding step by (rule provision_claimed_effect [OF pf o(1) e, where clk = clk and actor = actor])
  have oid: "op_id opr' = oid" using same(2) operation_store.get_Some [OF o(1)] by (simp add: same_operation_def)
  have ops: "db_ops (fst st') = modify_row op_id oid (upd_operation (clk oid) (\<lambda>_. opr')) (db_ops ?d)"
    and es: "db_envs (fst st') = modify_row env_id (env_id env) (upd_environment (clk oid) (\<lambda>_. env')) (db_envs ?d)"
    and rest: "rests ?d (fst st')" "db_jobs (fst st') = db_jobs ?d" "db_golden (fst st') = db_golden ?d"
    by (simp_all add: st' modify_operation_def modify_environment_def rests_def)
  show "envs_ok (fst st')"
    by (rule settle_operation [OF envs o e oid _ _ _ _ ops es])
      (use same fin(3) rest(1) in \<open>auto simp: same_operation_def same_identity_def active_operation_states_def rests_def\<close>)
  have "envs_extend ?d (fst st')"
    by (rule modify_environment_extends [OF _ _ es])
      (use same(1) e environment_store.get_Some [OF e] in \<open>auto simp: same_identity_def\<close>)
  then show "runs_ok (fst st')"
    by (rule runs_ok_rests [OF runs rest(1)])
      (use rest runs_ok_dest(5) [OF runs] in \<open>simp_all add: jobs_extend_same golden_ok_def\<close>)
  have get: "get_operation (fst st') k = (if k = oid then map_option (upd_operation (clk oid) (\<lambda>_. opr')) (get_operation ?d k)
      else get_operation ?d k)" for k
    unfolding get_operation_def ops by (rule find_row_modify) (simp add: oid)
  show "\<exists>r. get_operation (fst st') oid = Some r \<and> op_finished r"
    using o(1) fin by (auto simp: get op_finished_def)
  show "get_operation (fst st') i = get_operation ?d i" if "i \<noteq> oid" for i using that by (simp add: get)
qed

definition ops_ready :: "prov_op list \<Rightarrow> database \<Rightarrow> bool" where
  "ops_ready rs d \<longleftrightarrow> distinct (map op_id rs) \<and>
     (\<forall>r \<in> set rs. get_operation d (op_id r) = Some r \<and> op_state r \<in> set active_operation_states)"

lemma provision_pass:
  assumes pf: "prov_preflight_audit_only pv"
  shows "envs_ok (fst st) \<Longrightarrow> runs_ok (fst st) \<Longrightarrow> ops_ready rs (fst st) \<Longrightarrow>
    st' = fold (\<lambda>r. provision_claimed pv clk actor (op_id r)) rs st \<Longrightarrow>
    envs_ok (fst st') \<and> runs_ok (fst st') \<and> (\<forall>i. i \<notin> op_id ` set rs \<longrightarrow> get_operation (fst st') i = get_operation (fst st) i) \<and>
    (\<forall>r \<in> set rs. \<exists>r'. get_operation (fst st') (op_id r) = Some r' \<and> op_finished r')"
proof (induction rs arbitrary: st)
  case Nil
  then show ?case by simp
next
  case (Cons r rs)
  let ?st1 = "provision_claimed pv clk actor (op_id r) st"
  have r: "get_operation (fst st) (op_id r) = Some r" "op_state r \<in> set active_operation_states"
    and nr: "op_id r \<notin> op_id ` set rs"
    using Cons.prems(3) by (simp_all add: ops_ready_def)
  note one = provision_claimed_step [OF pf Cons.prems(1,2) r refl, where clk = clk and actor = actor]
  have "get_operation (fst ?st1) (op_id x) = Some x \<and> op_state x \<in> set active_operation_states" if x: "x \<in> set rs" for x
  proof -
    have "op_id x \<noteq> op_id r" using nr x by (metis image_eqI)
    then show ?thesis using Cons.prems(3) x one(4) by (simp add: ops_ready_def)
  qed
  then have "ops_ready rs (fst ?st1)" using Cons.prems(3) by (simp add: ops_ready_def)
  moreover have "st' = fold (\<lambda>r. provision_claimed pv clk actor (op_id r)) rs ?st1" using Cons.prems(4) by simp
  ultimately have IH: "envs_ok (fst st') \<and> runs_ok (fst st') \<and>
      (\<forall>i. i \<notin> op_id ` set rs \<longrightarrow> get_operation (fst st') i = get_operation (fst ?st1) i) \<and>
      (\<forall>r \<in> set rs. \<exists>r'. get_operation (fst st') (op_id r) = Some r' \<and> op_finished r')"
    by (rule Cons.IH [OF one(1,2)])
  show ?case
  proof (intro conjI)
    show "\<forall>i. i \<notin> op_id ` set (r # rs) \<longrightarrow> get_operation (fst st') i = get_operation (fst st) i" using IH one(4) by simp
    show "\<forall>x \<in> set (r # rs). \<exists>r'. get_operation (fst st') (op_id x) = Some r' \<and> op_finished r'" using IH one(3) nr by simp
  qed (use IH in simp_all)
qed

text \<open>The claims of a pass change no state of an operation.\<close>

lemma claim_operations_envs_ok:
  assumes cl: "claim_provisioning_operations now clk tk provisioning_steps d = (rs, d1)" and ok: "envs_ok d"
  shows "envs_ok d1" "ops_ready rs d1"
proof -
  note okd = envs_ok_dest [OF ok]
  note c = claim_operations [OF okd(2) cl]
  obtain t where d1: "d1 = d\<lparr>db_ops := t\<rparr>" using claim_operations_frame [OF cl] by blast
  obtain P where P: "db_ops d1 = map (\<lambda>r. if P r then claimed_op tk clk r else r) (db_ops d)" using c(1) by blast
  have g: "get_environment d1 = get_environment d" by (rule get_cong) (simp add: d1)
  have ids: "map op_id (db_ops d1) = map op_id (db_ops d)" by (simp add: P)
  have len: "length (active_operations d1 k) = length (active_operations d k)" for k
    unfolding active_operations_def P filter_map length_map by (simp add: comp_def if_distrib [of op_state] if_distrib [of op_environment_id] cong: if_cong)
  have act: "has_active_operation d1 k = has_active_operation d k" for k
    using len [of k] by (simp add: has_active_operation_iff flip: length_greater_0_conv)
  have envs: "db_envs d1 = db_envs d" "db_runs d1 = db_runs d" by (simp_all add: d1)
  have "\<forall>r \<in> set (db_ops d1). get_environment d1 (op_environment_id r) \<noteq> None"
    using okd(3) by (auto simp: P g)
  then show "envs_ok d1"
    using okd by (simp add: envs_ok_def ids len env_ok_def act envs has_active_run_def)
  have "set (PQueued # provisioning_steps) \<subseteq> set active_operation_states"
    by (auto simp: provisioning_steps_def active_operation_states_def)
  then show "ops_ready rs d1"
    using c(2,3) operation_store.get_in_rows [of d1] okd(2) ids unfolding ops_ready_def by (metis subsetD)
qed

lemma process_provisioning_outcome:
  assumes run: "process_provisioning_once pv now clk tk actor d = (n, d', t)" and pf: "prov_preflight_audit_only pv"
    and ok: "envs_ok d" "runs_ok d"
  obtains rs d1 where "claim_provisioning_operations now clk tk provisioning_steps d = (rs, d1)" "n = length rs"
    "envs_ok d'" "runs_ok d'" "\<And>i. i \<notin> op_id ` set rs \<Longrightarrow> get_operation d' i = get_operation d1 i"
    "\<And>r. r \<in> set rs \<Longrightarrow> \<exists>r'. get_operation d' (op_id r) = Some r' \<and> op_finished r'"
proof -
  obtain rs d1 where cl: "claim_provisioning_operations now clk tk provisioning_steps d = (rs, d1)" by force
  note c = claim_operations_envs_ok [OF cl ok(1)]
  obtain u where d1: "d1 = d\<lparr>db_ops := u\<rparr>" using claim_operations_frame [OF cl] by blast
  have "runs_ok d1"
    by (rule runs_ok_rests [OF ok(2)])
      (use runs_ok_dest(5) [OF ok(2)] in \<open>simp_all add: d1 rests_def envs_extend_same jobs_extend_same golden_ok_def\<close>)
  then have "envs_ok (fst (d', t)) \<and> runs_ok (fst (d', t)) \<and> (\<forall>i. i \<notin> op_id ` set rs \<longrightarrow> get_operation (fst (d', t)) i = get_operation d1 i) \<and>
    (\<forall>r \<in> set rs. \<exists>r'. get_operation (fst (d', t)) (op_id r) = Some r' \<and> op_finished r')"
    using provision_pass [OF pf, of "(d1, \<lparr>tf_history = [], tf_initialized = []\<rparr>)" rs "(d', t)" clk actor] c run cl
    by (simp add: process_provisioning_once_def)
  then show thesis using that [OF cl] run cl by (simp add: process_provisioning_once_def)
qed

lemma with_provision_preflight_audit_only: "prov_preflight_audit_only (with_provision_preflight bef aft now pv)"
  using build_preflight_frame by (simp add: prov_preflight_audit_only_def with_provision_preflight_def only_audit_def)

end
