(* ===== verification/SP_AccountSteps.thy ===== *)
theory SP_AccountSteps
  imports SP_Lifecycle
begin

text \<open>
  The invitation routes, the decisions on contact submissions and the synchronisation of the releases write tables of the same
  database, but no table of the lifecycle: they are quiet steps of the system.
\<close>

lemma quiet_refl: "quiet d d"
  by (simp add: quiet_def rests_def)

lemma quiet_trans: "quiet d d1 \<Longrightarrow> quiet d1 d2 \<Longrightarrow> quiet d d2"
  by (simp add: quiet_def rests_def)

interpretation quiet_frame: idempotent_frame quiet
proof
  show "quiet d d1 \<Longrightarrow> quiet d1 d2 \<Longrightarrow> quiet d d2" for d d1 d2 by (rule quiet_trans)
qed (auto simp: quiet_refl intro: quiet_reserve quiet_finish [OF refl])

lemma quiet_audit: "quiet d (write_audit_event now actor act ent eid tid ip det x d)"
  by (simp add: quiet_def rests_def write_audit_event_def)

lemma quiet_admin_audit:
  "quiet d (commit_internal_admin_audit_best_effort ok now rid ip mail act tid uid det d)"
  by (simp add: commit_internal_admin_audit_best_effort_def write_internal_admin_audit_event_def quiet_audit quiet_refl)

lemma quiet_modify_user: "quiet d (modify_user now uid f d)"
  by (simp add: quiet_def rests_def modify_user_def)

lemma quiet_tokens: "quiet d (d\<lparr>db_tokens := ts\<rparr>)"
  by (simp add: quiet_def rests_def)

lemma quiet_send: "quiet d (snd (send_admin_invite iv vc who failure dr d))"
  by (auto simp: send_admin_invite_def send_invite_email_and_audit_def Let_def quiet_audit quiet_refl split: sum.split prod.split)

lemma quiet_issue: "issue_invite iv vc i action who t u d = Inr (dr, d') \<Longrightarrow> quiet d d'"
  by (auto simp: issue_invite_def create_magic_link_token_def log_magic_link_issued_def rbind_Inr_iff Let_def add_token_def
      write_audit_event_def quiet_def rests_def split: if_splits)

lemma quiet_draft:
  assumes "draft_tenant_with_admin iv vc who req d = Inr (dr, d')" shows "quiet d d'"
proof -
  obtain t d1 u where t: "create_tenant (vc_now vc) (vc_uuid vc 0) \<lparr>tc_name = it_name req,
        tc_federation_type = it_federation_type req, tc_idp_metadata = it_idp_metadata req\<rparr> who (vc_source_ip vc) d = Inr (t, d1)"
      and i: "issue_invite iv vc (vc_uuid vc 2) ''user.invite_created'' who t u (add_user u d1) = Inr (dr, d')"
    using assms by (auto simp: draft_tenant_with_admin_def rbind_Inr_iff Let_def split: if_splits)
  have "quiet d1 (add_user u d1)" by (simp add: quiet_def rests_def add_user_def)
  then show ?thesis using quiet_trans [OF quiet_create_tenant [OF t] quiet_trans [OF _ quiet_issue [OF i]]] by blast
qed

lemma quiet_create_invited: "create_tenant_with_admin_invite iv vc who req d = Inr (r, d') \<Longrightarrow> quiet d d'"
proof -
  assume "create_tenant_with_admin_invite iv vc who req d = Inr (r, d')"
  then obtain dr d1 where dr: "draft_tenant_with_admin iv vc who req d = Inr (dr, d1)"
      and d': "d' = snd (send_admin_invite iv vc who tenant_created_failure dr d1)"
    by (force simp: create_tenant_with_admin_invite_def rbind_Inr_iff)
  show ?thesis unfolding d' by (rule quiet_trans [OF quiet_draft [OF dr] quiet_send])
qed

lemma quiet_regenerate: "regenerate_user_invite iv vc who tid uid d = Inr (r, d') \<Longrightarrow> quiet d d'"
proof -
  assume run: "regenerate_user_invite iv vc who tid uid d = Inr (r, d')"
  let ?d1 = "modify_user (vc_now vc) uid (\<lambda>u. u\<lparr>usr_invited_at := Some (vc_now vc)\<rparr>)
      (invalidate_unconsumed_user_invites uid (vc_now vc) d)"
  obtain t u dr d2 where i: "issue_invite iv vc (vc_uuid vc 0) ''user.invite_regenerated'' who t u ?d1 = Inr (dr, d2)"
      and d': "d' = snd (send_admin_invite iv vc who invite_regenerated_failure dr d2)"
    using run by (force simp: regenerate_user_invite_def rbind_Inr_iff Let_def split: option.splits if_splits)
  have "quiet d ?d1"
    by (rule quiet_trans [OF _ quiet_modify_user]) (simp add: invalidate_unconsumed_user_invites_def quiet_tokens)
  then show ?thesis unfolding d' by (intro quiet_trans [OF _ quiet_send] quiet_trans [OF _ quiet_issue [OF i]])
qed

lemma quiet_consume: "consume_invite_token dg now token d = Inr (x, d') \<Longrightarrow> quiet d d'"
  by (auto simp: consume_invite_token_def Let_def split: if_splits option.splits
      intro: quiet_trans [OF quiet_tokens quiet_modify_user])

lemma quiet_identity_mapping: "apply_invite_identity_mapping now fresh tid uid actor ip d = Inr (i, d') \<Longrightarrow> quiet d d'"
  by (auto simp: apply_invite_identity_mapping_def choose_identity_def rbind_Inr_iff Let_def add_identity_def modify_user_def
      modify_identity_def write_audit_event_def quiet_def rests_def split: option.splits if_splits)

lemma quiet_callback: "consume_invite_callback_state now tkid tid uid d = Inr (row, d') \<Longrightarrow> quiet d d'"
  by (erule callback_Inr) (simp add: quiet_tokens)

lemma quiet_apply_invite: "apply_invite vc ctx p d = Inr (r, d') \<Longrightarrow> quiet d d'"
  by (auto simp: apply_invite_def rbind_Inr_iff split: option.splits if_splits
      dest!: quiet_callback quiet_identity_mapping intro: quiet_trans)

lemma quiet_invitation: "quiet d (after_invite_request iv vc req d)"
proof (cases req)
  case (InviteTenant r)
  show ?thesis unfolding InviteTenant after_invite_request.simps post_internal_tenant_def
    by (intro quiet_frame.checks quiet_frame.commits)
      (auto simp: rbind_Inr_iff admin_audited_def intro: quiet_trans [OF quiet_create_invited quiet_admin_audit])
next
  case (RegenerateInvite tid uid)
  show ?thesis unfolding RegenerateInvite after_invite_request.simps post_internal_regenerate_invite_def
    by (intro quiet_frame.checks quiet_frame.commits)
      (auto simp: rbind_Inr_iff admin_audited_def intro: quiet_trans [OF quiet_regenerate quiet_admin_audit])
next
  case (AcceptInvite token)
  then show ?thesis
    by (auto simp: accept_invite_def quiet_refl answer_def intro!: quiet_frame.checks dest: quiet_consume split: sum.split prod.split)
next
  case (AuthCallback state)
  show ?thesis unfolding AuthCallback after_invite_request.simps get_auth_callback_def
    by (intro quiet_frame.checks) (auto simp: quiet_refl answer_def intro!: quiet_frame.commits dest: quiet_apply_invite
        split: option.split)
qed (auto simp: get_internal_tenants_def get_internal_tenant_by_id_def get_auth_me_def quiet_refl answer_def admin_audited_def
    quiet_admin_audit intro!: quiet_frame.checks split: sum.split)

lemma quiet_contact:
  "quiet (cs_db st) (cs_db (snd (get_internal_contact_submissions vc filt limit offset st)))"
  "quiet (cs_db st) (cs_db (snd (post_internal_contact_approve iv ok vc sid nm st)))"
  "quiet (cs_db st) (cs_db (snd (post_internal_contact_reject vc sid st)))"
proof -
  have a: "quiet d (contact_audited vc ia act tid uid det d)" for ia act tid uid det d
    by (simp add: contact_audited_def quiet_admin_audit)
  show "quiet (cs_db st) (cs_db (snd (get_internal_contact_submissions vc filt limit offset st)))"
    by (auto simp: get_internal_contact_submissions_def Let_def quiet_refl a split: sum.split)
  show "quiet (cs_db st) (cs_db (snd (post_internal_contact_reject vc sid st)))"
    by (auto simp: post_internal_contact_reject_def quiet_refl a split: sum.split prod.split)
  have s: "quiet d d2" if "send_admin_invite iv vc who failure dr d1 = (r, d2)" "quiet d d1" for who failure dr d d1 r d2
    using quiet_send [of d1 iv vc who failure dr] that quiet_trans by simp
  show "quiet (cs_db st) (cs_db (snd (post_internal_contact_approve iv ok vc sid nm st)))"
    by (auto simp: post_internal_contact_approve_def Let_def quiet_refl split: sum.split prod.split
        dest!: quiet_draft intro: quiet_trans [OF s a])
qed

lemma quiet_sync: "quiet d (snd (sync_emr_releases_once now actor region listed d))"
  by (auto simp: sync_emr_releases_once_def Let_def quiet_refl write_audit_event_def quiet_def rests_def split: list.split prod.split)

lemma quiet_steps:
  "after_invite_request iv vc req d = d' \<Longrightarrow> quiet d d'"
  "cs_db st = d \<Longrightarrow> get_internal_contact_submissions vc filt limit offset st = (rows, st') \<Longrightarrow> quiet d (cs_db st')"
  "cs_db st = d \<Longrightarrow> post_internal_contact_approve iv ok vc sid nm st = (made, st') \<Longrightarrow> quiet d (cs_db st')"
  "cs_db st = d \<Longrightarrow> post_internal_contact_reject vc sid st = (gone, st') \<Longrightarrow> quiet d (cs_db st')"
  "sync_emr_releases_once now actor region listed d = (n, d') \<Longrightarrow> quiet d d'"
  using quiet_invitation [of d iv vc req] quiet_contact(1) [of st vc filt limit offset] quiet_contact(2) [of st iv ok vc sid nm]
    quiet_contact(3) [of st vc sid] quiet_sync [of d now actor region listed]
  by simp_all

end
