(* ===== verification/SP_Reachable.thy ===== *)
theory SP_Reachable
  imports SP_EnvInvariant SP_AccountSteps
begin

text \<open>
  The invariants hold in every reachable state of the system, and along every execution a run keeps its
  identity, an ended run its whole row.
\<close>

definition system_ok :: "database \<Rightarrow> bool" where
  "system_ok d \<longleftrightarrow> runs_ok d \<and> envs_ok d"

lemma system_ok_dest: "system_ok d \<Longrightarrow> runs_ok d" "system_ok d \<Longrightarrow> envs_ok d"
  by (simp_all add: system_ok_def)

lemma quiet_system_ok: "quiet d d' \<Longrightarrow> system_ok d \<Longrightarrow> system_ok d'"
  by (simp add: system_ok_def quiet_runs_ok quiet_envs_ok)

lemma golden_update_envs_ok: "envs_ok d \<Longrightarrow> envs_ok (d\<lparr>db_golden := t\<rparr>)"
  by (rule envs_ok_rests) (auto simp: has_active_run_def)

subsection \<open>Every step\<close>

lemma create_golden_path_ok:
  assumes "create_golden_path now i greq d = Inr (g, d')" "golden_request_ok greq" "system_ok d"
  shows "system_ok d'"
proof -
  note c = create_golden_path_rests [OF assms(1,2) runs_ok_dest(5) [OF system_ok_dest(1) [OF assms(3)]]]
  show ?thesis
    using golden_update_runs_ok golden_update_envs_ok assms(3) c unfolding system_ok_def by metis
qed

lemma seed_golden_paths_ok:
  assumes "ensure_default_golden_paths now ids (\<lambda>n d. d) d = (n, d')" "system_ok d"
  shows "system_ok d'"
proof -
  note ok = system_ok_dest [OF assms(2)]
  have "golden_ok d' \<and> (\<exists>t. d' = d\<lparr>db_golden := t\<rparr>)"
    using ensure_golden_paths_rests [OF _ billable_defaults runs_ok_dest(5) [OF ok(1)]] assms(1)
    by (simp add: ensure_default_golden_paths_def)
  then show ?thesis
    using golden_update_runs_ok [OF ok(1)] golden_update_envs_ok [OF ok(2)] by (auto simp: system_ok_def)
qed

lemma create_job_ok:
  assumes "create_job now i req actor ip d = Inr (j, d')" "get_job d i = None" "system_ok d"
  shows "system_ok d'"
proof -
  have "db_envs d' = db_envs d" "db_ops d' = db_ops d" "db_runs d' = db_runs d"
    using assms(1) by (auto simp: create_job_def rbind_Inr_iff Let_def add_job_def split: if_splits)
  then have "envs_ok d'"
    by (intro envs_ok_rests [OF system_ok_dest(2) [OF assms(3)]]) (auto simp: has_active_run_def)
  then show ?thesis using create_job_runs_ok [OF assms(1,2)] assms(3) by (simp add: system_ok_def)
qed

lemma create_environment_ok:
  assumes "create_environment settings now i oid lid req actor ip ky d = Inr (x, d')"
    "get_environment d i = None" "get_operation d oid = None" "quotas_ok req" "system_ok d"
  shows "system_ok d'"
proof -
  note ok = system_ok_dest [OF assms(5)]
  obtain env opr where x: "x = (env, opr)" by force
  show ?thesis
    using create_environment_runs_ok [OF assms(1,2,4) ok(1)]
      create_environment_envs_ok [OF assms(1) [unfolded x] assms(2,3) ok(2) runs_ok_dest(2) [OF ok(1)]]
    by (simp add: system_ok_def)
qed

lemma modified_environment_runs_ok:
  assumes "runs_ok d" "envs_extend d d'" "rests d d'" "db_jobs d' = db_jobs d" "db_golden d' = db_golden d"
  shows "runs_ok d'"
  by (rule runs_ok_rests [OF assms(1,3,2)]) (use assms in \<open>simp_all add: jobs_extend_same golden_ok_def runs_ok_def\<close>)

lemma retry_ok:
  assumes run: "retry_environment_provisioning settings now oid lid eid actor ip ky d = Inr (opr, d')"
    and new: "get_operation d oid = None" and ok: "system_ok d"
  shows "system_ok d'"
proof -
  note r = retry_envs_ok [OF run new system_ok_dest(2) [OF ok]]
  have "rests d d'" "db_jobs d' = db_jobs d" "db_golden d' = db_golden d"
    using run by (auto elim!: retry_provisioning_Inr simp: rests_def modify_environment_def)
  then show ?thesis
    using r modified_environment_runs_ok [OF system_ok_dest(1) [OF ok]] by (simp add: system_ok_def)
qed

lemma delete_environment_ok:
  assumes run: "delete_environment now eid actor ip d = Inr d'" and ok: "system_ok d"
  shows "system_ok d'"
proof -
  note r = delete_environment_envs_ok [OF run system_ok_dest(2) [OF ok]]
  have "rests d d'" "db_jobs d' = db_jobs d" "db_golden d' = db_golden d"
    using run by (auto elim!: delete_environment_Inr simp: rests_def modify_environment_def)
  then show ?thesis
    using r modified_environment_runs_ok [OF system_ok_dest(1) [OF ok]] by (simp add: system_ok_def)
qed

lemma cancel_run_ok:
  assumes run: "cancel_run now rid actor ip d = Inr (r, d')" and ok: "system_ok d"
  shows "system_ok d'" "runs_step row_step d d'"
proof -
  note o = system_ok_dest [OF ok]
  show st: "runs_step row_step d d'"
  proof (cases "d' = d")
    case True
    then show ?thesis by simp
  next
    case False
    with cancel_run_touches [OF run] obtain q where q: "get_run d rid = Some q" "\<not> terminal (run_state q)"
      and t: "touches only_runs rid (\<lambda>p p'. frozen p p' \<and> run_attempt p' = run_attempt p \<and> run_started_at p' = run_started_at p \<and>
       (run_state q \<in> {RQueued, RDispatching} \<and> run_state p' = RCancelled \<and> run_ended_at p' = Some now \<or>
        started (run_state q) \<and> run_state p' = run_state p)) d d'" by blast
    show ?thesis
      by (rule touches_runs_step [OF t runs_ok_dest(1) [OF o(1)] q(1)]) (use q(2) in \<open>auto simp: row_step_def started_def\<close>)
  qed
  have "db_envs d' = db_envs d \<and> db_ops d' = db_ops d"
    using cancel_run_touches [OF run] only_runs_frame by (auto simp: touches_def)
  then show "system_ok d'"
    using cancel_run_runs_ok [OF run o(1)] envs_ok_runs [OF o(2) _ _ st] by (simp add: system_ok_def)
qed

lemma scheduler_ok:
  assumes run: "process_scheduler_once cl (cached_preflight key before after clk tick) now clk' tk actor lmt (d, c) = (n, d', c')"
    and same: "clk' = clk" and ok: "system_ok d"
  shows "system_ok d'" "runs_step row_step d d'"
proof -
  note o = system_ok_dest [OF ok]
  obtain rs d1 where "only_runs d d'" and st: "runs_step row_step d d'"
    by (rule process_scheduler_once_outcome [OF cached_preflight_audit_only runs_ok_dest(1,2) [OF o(1)] run])
  then show "system_ok d'"
    using process_scheduler_runs_ok [OF run [unfolded same] o(1)] envs_ok_runs [OF o(2) _ _ st] only_runs_frame [of d d']
    by (simp add: system_ok_def)
  show "runs_step row_step d d'" by (rule st)
qed

lemma reconciler_ok:
  assumes run: "process_reconciler_once (with_preflight before after now rc) now' clk tk actor lmt d = (n, d')" and ok: "system_ok d"
  shows "system_ok d'" "runs_step row_step d d'"
proof -
  note o = system_ok_dest [OF ok]
  obtain rs d1 where "only_worker d d'" and st: "runs_step row_step d d'"
    by (rule process_reconciler_once_outcome [OF with_preflight_audit_only runs_ok_dest(1,2) [OF o(1)] run])
  then show "system_ok d'"
    using process_reconciler_runs_ok [OF run o(1)] envs_ok_runs [OF o(2) _ _ st] only_worker_frame [of d d']
    by (simp add: system_ok_def)
  show "runs_step row_step d d'" by (rule st)
qed

lemma provisioner_ok:
  assumes "process_provisioning_once (with_provision_preflight bef aft now pv) now' clk tk actor d = (n, d', t)" "system_ok d"
  shows "system_ok d'"
  using process_provisioning_outcome [OF assms(1) with_provision_preflight_audit_only] system_ok_dest [OF assms(2)]
  by (auto simp: system_ok_def)

lemma sys_step_ok:
  assumes "sys_step s s'" "system_ok (sy_db s)"
  shows "system_ok (sy_db s')"
  using assms
proof cases
  case step_create_golden_path
  then show ?thesis using create_golden_path_ok assms(2) by simp
next
  case step_seed_golden_paths
  then show ?thesis using seed_golden_paths_ok assms(2) by simp
next
  case step_create_environment
  then show ?thesis using create_environment_ok assms(2) by simp
next
  case step_retry_provisioning
  then show ?thesis using retry_ok assms(2) by simp
next
  case step_delete_environment
  then show ?thesis using delete_environment_ok assms(2) by simp
next
  case step_create_job
  then show ?thesis using create_job_ok assms(2) by simp
next
  case step_create_run
  then show ?thesis using create_run_runs_ok create_run_envs_ok assms(2) by (simp add: system_ok_def)
next
  case step_cancel_run
  then show ?thesis using cancel_run_ok assms(2) by simp
next
  case step_scheduler
  then show ?thesis using scheduler_ok [OF _ refl] assms(2) by simp
next
  case step_reconciler
  then show ?thesis using reconciler_ok assms(2) by simp
next
  case step_provisioner
  then show ?thesis using provisioner_ok assms(2) by simp
next
  case step_preflight
  then show ?thesis using quiet_system_ok [OF quiet_preflight] assms(2) by simp
next
  case step_reserve
  then show ?thesis using quiet_system_ok [OF quiet_reserve] assms(2) by simp
next
  case step_finish
  then show ?thesis using quiet_system_ok [OF quiet_finish [OF step_finish(2)]] assms(2) by simp
next
  case step_invitation
  then have "quiet (sy_db s) (sy_db s')" by (auto intro: quiet_steps(1))
  then show ?thesis using assms(2) by (rule quiet_system_ok)
next
  case step_list_contacts
  then have "quiet (sy_db s) (sy_db s')" by (auto intro: quiet_steps(2))
  then show ?thesis using assms(2) by (rule quiet_system_ok)
next
  case step_approve_contact
  then have "quiet (sy_db s) (sy_db s')" by (auto intro: quiet_steps(3))
  then show ?thesis using assms(2) by (rule quiet_system_ok)
next
  case step_reject_contact
  then have "quiet (sy_db s) (sy_db s')" by (auto intro: quiet_steps(4))
  then show ?thesis using assms(2) by (rule quiet_system_ok)
next
  case step_sync_releases
  then have "quiet (sy_db s) (sy_db s')" by (auto intro: quiet_steps(5))
  then show ?thesis using assms(2) by (rule quiet_system_ok)
qed (use assms(2) quiet_rules quiet_system_ok in fastforce)+

lemma initial_ok: "system_ok (sy_db initial)"
  by (simp add: initial_def empty_db_def system_ok_def runs_ok_def envs_ok_def fk_ok_def all_within_quota_def golden_ok_def
      billing_unique_def get_environment_def find_row_def active_operations_def)

lemma reachable_ok: "reachable s \<Longrightarrow> system_ok (sy_db s)"
  by (induction rule: reachable.induct) (auto intro: initial_ok sys_step_ok)

lemmas reachable_runs = runs_ok_dest [OF system_ok_dest(1) [OF reachable_ok]]
lemmas reachable_envs = envs_ok_dest [OF system_ok_dest(2) [OF reachable_ok]]

subsection \<open>Executions\<close>

definition rows_kept :: "database \<Rightarrow> database \<Rightarrow> bool" where
  "rows_kept d d' \<longleftrightarrow> (\<forall>i r. get_run d i = Some r \<longrightarrow> (\<exists>r'. get_run d' i = Some r' \<and> row_step r r'))"

lemma rows_kept_same: "db_runs d' = db_runs d \<Longrightarrow> rows_kept d d'"
  by (simp add: rows_kept_def get_run_def)

lemma rows_kept_step: "runs_step row_step d d' \<Longrightarrow> rows_kept d d'"
  using runs_step_get [of row_step d d'] row_step_id by (auto simp: rows_kept_def)

lemma rows_kept_trans: "rows_kept a b \<Longrightarrow> rows_kept b c \<Longrightarrow> rows_kept a c"
  unfolding rows_kept_def using row_step_trans by blast

lemma rows_kept_quiet: "quiet d d' \<Longrightarrow> rows_kept d d'"
  by (simp add: quiet_def rests_def rows_kept_same)

lemma create_run_rows_kept:
  assumes "create_run nf lf now i jid req actor ip ky d = Inr (r, d')" shows "rows_kept d d'"
  using assms
proof (cases rule: create_run_cases)
  case (existing a)
  then show ?thesis by (intro rows_kept_same) simp
next
  case (created j env g requested c t entries a b)
  have "db_runs d' = db_runs d @ [r]" by (simp add: created(12))
  then show ?thesis by (auto simp: rows_kept_def get_run_def find_row_append)
qed

lemma provision_claimed_runs:
  assumes pf: "prov_preflight_audit_only pv"
  shows "db_runs (fst (provision_claimed pv clk actor oid st)) = db_runs (fst st)"
proof (cases "get_operation (fst st) oid")
  case None
  then show ?thesis by (simp add: provision_claimed_def)
next
  case (Some opr)
  show ?thesis
  proof (cases "get_environment (fst st) (op_environment_id opr)")
    case None
    then show ?thesis using Some by (simp add: provision_claimed_def)
  next
    case e: (Some env)
    show ?thesis
      by (rule provision_claimed_effect [OF pf Some e, where clk = clk and actor = actor])
        (simp add: modify_operation_def modify_environment_def)
  qed
qed

lemma provisioning_runs:
  assumes pf: "prov_preflight_audit_only pv" and run: "process_provisioning_once pv now clk tk actor d = (n, d', t)"
  shows "db_runs d' = db_runs d"
proof -
  obtain rs d1 where cl: "claim_provisioning_operations now clk tk provisioning_steps d = (rs, d1)" by force
  then obtain u where d1: "d1 = d\<lparr>db_ops := u\<rparr>" using claim_operations_frame by blast
  have "db_runs (fst (fold (\<lambda>r. provision_claimed pv clk actor (op_id r)) qs st)) = db_runs (fst st)" for qs st
    by (induction qs arbitrary: st) (simp_all add: provision_claimed_runs [OF pf])
  from this [of rs "(d1, \<lparr>tf_history = [], tf_initialized = []\<rparr>)"] show ?thesis
    using run cl d1 by (simp add: process_provisioning_once_def)
qed

lemma sys_step_rows_kept:
  assumes "sys_step s s'" "system_ok (sy_db s)"
  shows "rows_kept (sy_db s) (sy_db s')"
  using assms
proof cases
  case (step_create_golden_path now i greq g d')
  have "db_runs d' = db_runs (sy_db s)"
    using create_golden_path_rests(1) [OF step_create_golden_path(2,3) runs_ok_dest(5) [OF system_ok_dest(1) [OF assms(2)]]]
    by simp
  then show ?thesis using step_create_golden_path(1) by (simp add: rows_kept_same)
next
  case (step_seed_golden_paths now ids n d')
  then have "\<exists>t. d' = (sy_db s)\<lparr>db_golden := t\<rparr>"
    using ensure_golden_paths_rests [OF _ billable_defaults runs_ok_dest(5) [OF system_ok_dest(1) [OF assms(2)]]]
    by (simp add: ensure_default_golden_paths_def)
  then show ?thesis using step_seed_golden_paths(1) by (auto intro!: rows_kept_same)
next
  case (step_create_environment settings now i oid lid ereq actor ip ky x d')
  then show ?thesis using create_environment_Inr(3) by (cases x) (fastforce intro!: rows_kept_same)
next
  case step_retry_provisioning
  then show ?thesis by (auto elim!: retry_provisioning_Inr intro!: rows_kept_same simp: modify_environment_def)
next
  case step_delete_environment
  then show ?thesis by (auto elim!: delete_environment_Inr intro!: rows_kept_same simp: modify_environment_def)
next
  case step_create_job
  then show ?thesis
    by (auto simp: create_job_def rbind_Inr_iff Let_def add_job_def split: if_splits intro!: rows_kept_same)
next
  case step_create_run
  then show ?thesis using create_run_rows_kept by simp
next
  case step_cancel_run
  then show ?thesis using cancel_run_ok(2) assms(2) by (auto intro!: rows_kept_step)
next
  case step_scheduler
  then show ?thesis using scheduler_ok(2) [OF _ refl] assms(2) by (auto intro!: rows_kept_step)
next
  case step_reconciler
  then show ?thesis using reconciler_ok(2) assms(2) by (auto intro!: rows_kept_step)
next
  case step_provisioner
  then show ?thesis using provisioning_runs [OF with_provision_preflight_audit_only] by (auto intro!: rows_kept_same)
next
  case step_preflight
  then show ?thesis using rows_kept_quiet [OF quiet_preflight] by simp
next
  case step_reserve
  then show ?thesis using rows_kept_quiet [OF quiet_reserve] by simp
next
  case step_finish
  then show ?thesis using rows_kept_quiet [OF quiet_finish [OF step_finish(2)]] by simp
next
  case step_invitation
  then have "quiet (sy_db s) (sy_db s')" by (auto intro: quiet_steps(1))
  then show ?thesis by (rule rows_kept_quiet)
next
  case step_list_contacts
  then have "quiet (sy_db s) (sy_db s')" by (auto intro: quiet_steps(2))
  then show ?thesis by (rule rows_kept_quiet)
next
  case step_approve_contact
  then have "quiet (sy_db s) (sy_db s')" by (auto intro: quiet_steps(3))
  then show ?thesis by (rule rows_kept_quiet)
next
  case step_reject_contact
  then have "quiet (sy_db s) (sy_db s')" by (auto intro: quiet_steps(4))
  then show ?thesis by (rule rows_kept_quiet)
next
  case step_sync_releases
  then have "quiet (sy_db s) (sy_db s')" by (auto intro: quiet_steps(5))
  then show ?thesis by (rule rows_kept_quiet)
qed (use rows_kept_quiet quiet_rules in fastforce)+

text \<open>Executions from a reachable state.\<close>

inductive steps :: "system \<Rightarrow> system \<Rightarrow> bool" where
  steps_none: "steps s s"
| steps_more: "steps s s' \<Longrightarrow> sys_step s' s'' \<Longrightarrow> steps s s''"

lemma steps_reachable: "steps s s' \<Longrightarrow> reachable s \<Longrightarrow> reachable s'"
  by (induction rule: steps.induct) (auto intro: reach_step)

lemma steps_rows_kept: "steps s s' \<Longrightarrow> reachable s \<Longrightarrow> rows_kept (sy_db s) (sy_db s')"
proof (induction rule: steps.induct)
  case (steps_none s)
  then show ?case by (simp add: rows_kept_def)
next
  case (steps_more s s' s'')
  then have "rows_kept (sy_db s') (sy_db s'')" using sys_step_rows_kept reachable_ok steps_reachable by blast
  then show ?case using steps_more rows_kept_trans by blast
qed

end
