(* ===== verification/SP_Fixtures.thy ===== *)
theory SP_Fixtures
  imports SP_Reachable
begin

text \<open>
  A concrete execution in dry-run mode, used by the witnesses: a tenant, an EMR Serverless environment that the
  provisioner makes ready, a job, and two runs. The scheduler dispatches both; one is cancelled while it
  runs, one completes, and the reconciler bills them.
\<close>

definition ok_details :: "environment \<Rightarrow> exn + json dict" where
  "ok_details e = Inr []"

definition demo_settings :: env_settings where
  "demo_settings = \<lparr>es_dry_run_mode = True, es_enable_full_byoc_mode = False, es_terraform_root_exists = False,
     es_terraform_root = ''/tf'', es_ops_s3_bucket = ''ops''\<rparr>"

definition demo_provisioner :: provisioner where
  "demo_provisioner = \<lparr>pv_dry_run_mode = True, pv_preflight = (\<lambda>b e d. (Inl (value_error ''unused''), d)),
     pv_check_pod_identity_agent = ok_details, pv_check_oidc_provider_association = ok_details,
     pv_update_execution_role_trust_policy = ok_details, pv_find_namespace_collision = (\<lambda>e. Inr None),
     pv_create_virtual_cluster = (\<lambda>e. Inr ''vc-1''), pv_validate_virtual_cluster_reference = (\<lambda>b e. Inr []),
     pv_check_execution_role_trust_policy = ok_details, pv_check_customer_role_dispatch_permissions = ok_details,
     pv_terraform = \<lparr>tfo_binary = ''terraform'', tfo_enable_subprocess = False, tfo_timeout_seconds = 60,
       tfo_backend_bucket = ''b'', tfo_backend_region = ''us-east-1'', tfo_backend_lock_table = ''l'', tfo_backend_role_arn = ''r''\<rparr>,
     pv_host = \<lparr>host_which = (\<lambda>s. True), host_dir_exists = (\<lambda>s. True), host_resolve = (\<lambda>s. s),
       host_run = (\<lambda>h c. Completed 0 [] []), host_loads = (\<lambda>s. None)\<rparr>\<rparr>"

definition demo_dispatch :: "environment \<Rightarrow> job \<Rightarrow> run \<Rightarrow> exn + emr_dispatch" where
  "demo_dispatch e j r = Inr \<lparr>ed_job_id = ''job-'' @ run_id r, ed_log_group = ''lg'', ed_log_stream_prefix = ''ls'',
     ed_driver_log_uri = None, ed_spark_ui_uri = None, ed_aws_request_id = None\<rparr>"

definition demo_clients :: clients where
  "demo_clients = \<lparr>cl_emr_eks = demo_dispatch, cl_emr_serverless = demo_dispatch, cl_emr_ec2 = demo_dispatch,
     cl_post = (\<lambda>a b c. Inl (value_error ''unused'')), cl_get = (\<lambda>a b c. Inl (value_error ''unused''))\<rparr>"

definition demo_reconciler :: reconciler_env where
  "demo_reconciler = \<lparr>rc_dry_run_mode = True, rc_session = (\<lambda>e. None), rc_describe_api = (\<lambda>e i. Inr (None, None)),
     rc_cancel_api = (\<lambda>e i. Inr None), rc_preflight = (\<lambda>e i c d. (Inl (value_error ''unused''), d)),
     rc_pricing = (\<lambda>i. Inr \<lparr>vcpu_usd_per_second = 1 / 16, memory_gb_usd_per_second = 0,
       arm64_discount_pct = 20, mixed_discount_pct = 10, pricing_origin = ''static''\<rparr>),
     rc_cost_center = (\<lambda>e. Inr ''cc''), rc_fetch_logs = (\<lambda>r e. Inr []), rc_submitted_stale_minutes = 15,
     rc_accepted_stale_minutes = 15\<rparr>"

definition no_checks :: emitter where
  "no_checks e r c d = Inr []"

definition demo_clock :: "string \<Rightarrow> time" where
  "demo_clock i = 56000000"

definition demo_environment_request :: environment_create where
  "demo_environment_request = \<lparr>ec_tenant_id = ''t1'', ec_engine = ''emr_serverless'', ec_provisioning_mode = ''byoc_lite'',
     ec_region = ''us-east-1'', ec_instance_architecture = ''x86_64'', ec_customer_role_arn = ''arn:aws:iam::123456789012:role/r'',
     ec_assume_role_external_id = None, ec_eks_cluster_arn = None, ec_eks_namespace = None, ec_warm_pool_enabled = False,
     ec_lake_formation_enabled = False, ec_lf_catalog_id = None, ec_lf_data_access_scope = None,
     ec_security_configuration_id = None, ec_max_concurrent_runs = 2, ec_max_vcpu = 16, ec_max_run_seconds = 7200\<rparr>"

definition demo_job_request :: job_create where
  "demo_job_request = \<lparr>jc_environment_id = ''e1'', jc_name = ''etl'', jc_artifact_uri = ''s3://b/etl.jar'',
     jc_artifact_digest = ''sha256:0'', jc_entrypoint = ''main.py'', jc_args = [''--day''], jc_spark_conf = [],
     jc_retry_max_attempts = 2, jc_timeout_seconds = 600\<rparr>"

definition demo_run_request :: run_create where
  "demo_run_request = \<lparr>rq_args = None, rq_spark_conf = None, rq_golden_path = None,
     rq_requested_resources = \<lparr>rr_driver_vcpu = 1, rr_driver_memory_gb = 4, rr_executor_vcpu = 2,
       rr_executor_memory_gb = 8, rr_executor_instances = 2\<rparr>, rq_timeout_seconds = None\<rparr>"

definition result_db :: "system \<Rightarrow> ('e + 'a \<times> database) \<Rightarrow> system" where
  "result_db s r = (case r of Inl e \<Rightarrow> s | Inr (x, d) \<Rightarrow> s\<lparr>sy_db := d\<rparr>)"

definition do_tenant :: "system \<Rightarrow> system" where
  "do_tenant s = result_db s (create_tenant 1 ''t1'' \<lparr>tc_name = ''acme'', tc_federation_type = ''none'',
     tc_idp_metadata = None\<rparr> ''admin'' None (sy_db s))"

definition do_environment :: "system \<Rightarrow> system" where
  "do_environment s = result_db s (create_environment demo_settings 2 ''e1'' ''o1'' ''l1'' demo_environment_request
     ''admin'' None ''k1'' (sy_db s))"

definition do_provision :: "system \<Rightarrow> system" where
  "do_provision s = (case process_provisioning_once (with_provision_preflight (\<lambda>b. no_checks) (\<lambda>b. no_checks) 3 demo_provisioner)
     3 (\<lambda>i. 3) ''tok1'' ''worker'' (sy_db s) of (n, d, t) \<Rightarrow> s\<lparr>sy_db := d\<rparr>)"

definition do_job :: "system \<Rightarrow> system" where
  "do_job s = result_db s (create_job 4 ''j1'' demo_job_request ''dev'' None (sy_db s))"

definition do_run :: "string \<Rightarrow> string \<Rightarrow> system \<Rightarrow> system" where
  "do_run i k s = result_db s (create_run False (\<lambda>e. Inr []) 5 i ''j1'' demo_run_request ''dev'' None k (sy_db s))"

definition do_schedule :: "system \<Rightarrow> system" where
  "do_schedule s = (case process_scheduler_once demo_clients (cached_preflight (\<lambda>e c. env_id e) no_checks no_checks (\<lambda>i. 6000000) (\<lambda>i. 6))
     6000000 (\<lambda>i. 6000000) ''tok2'' ''worker'' 10 (sy_db s, sy_cache s) of (n, d, c) \<Rightarrow> s\<lparr>sy_db := d, sy_cache := c\<rparr>)"

definition do_cancel :: "system \<Rightarrow> system" where
  "do_cancel s = result_db s (cancel_run 7000000 ''r1'' ''dev'' None (sy_db s))"

definition do_reconcile :: "system \<Rightarrow> system" where
  "do_reconcile s = (case process_reconciler_once (with_preflight no_checks no_checks 56000000 demo_reconciler)
     56000000 demo_clock ''tok3'' ''worker'' 10 (sy_db s) of (n, d) \<Rightarrow> s\<lparr>sy_db := d\<rparr>)"

definition demo_provisioning :: system where "demo_provisioning = do_environment (do_tenant initial)"
definition demo_ready :: system where "demo_ready = do_provision demo_provisioning"
definition demo_queued :: system where "demo_queued = do_run ''r2'' ''k2'' (do_run ''r1'' ''k1'' (do_job demo_ready))"
definition demo_accepted :: system where "demo_accepted = do_schedule demo_queued"
definition demo_ended :: system where "demo_ended = do_reconcile (do_cancel demo_accepted)"

subsection \<open>The execution is one of the system\<close>

text \<open>A request that is refused leaves the state as it was.\<close>

lemma reach_result:
  assumes "reachable s" "\<And>x d. r = Inr (x, d) \<Longrightarrow> sys_step s (s\<lparr>sy_db := d\<rparr>)"
  shows "reachable (result_db s r)"
  using assms by (cases r) (auto simp: result_db_def intro: reach_step)

lemma do_tenant_reach: "reachable s \<Longrightarrow> reachable (do_tenant s)"
  unfolding do_tenant_def by (rule reach_result) (auto intro: step_create_tenant)

lemma do_environment_reach:
  assumes "reachable s" "get_environment (sy_db s) ''e1'' = None" "get_operation (sy_db s) ''o1'' = None"
  shows "reachable (do_environment s)"
proof -
  have "quotas_ok demo_environment_request" by (simp add: quotas_ok_def demo_environment_request_def)
  then show ?thesis unfolding do_environment_def
    by (intro reach_result [OF assms(1)] step_create_environment) (use assms in simp_all)
qed

lemma do_provision_reach: "reachable s \<Longrightarrow> reachable (do_provision s)"
  unfolding do_provision_def by (auto split: prod.splits intro: reach_step step_provisioner)

lemma do_job_reach:
  assumes "reachable s" "get_job (sy_db s) ''j1'' = None" shows "reachable (do_job s)"
proof -
  have "job_request_ok demo_job_request" by (simp add: job_request_ok_def demo_job_request_def)
  then show ?thesis unfolding do_job_def
    by (intro reach_result [OF assms(1)] step_create_job) (use assms in simp_all)
qed

lemma do_run_reach:
  assumes "reachable s" "get_run (sy_db s) i = None" shows "reachable (do_run i k s)"
proof -
  have "run_request_ok demo_run_request" by (simp add: run_request_ok_def demo_run_request_def resources_ok_def)
  then show ?thesis unfolding do_run_def
    by (intro reach_result [OF assms(1)] step_create_run) (use assms in simp_all)
qed

lemma do_schedule_reach: "reachable s \<Longrightarrow> reachable (do_schedule s)"
  unfolding do_schedule_def by (auto split: prod.splits intro: reach_step step_scheduler)

lemma do_cancel_reach: "reachable s \<Longrightarrow> reachable (do_cancel s)"
  unfolding do_cancel_def by (rule reach_result) (auto intro: step_cancel_run)

lemma do_reconcile_reach: "reachable s \<Longrightarrow> reachable (do_reconcile s)"
  unfolding do_reconcile_def by (auto split: prod.splits intro: reach_step step_reconciler)

lemma demo_fresh:
  "get_environment (sy_db (do_tenant initial)) ''e1'' = None" "get_operation (sy_db (do_tenant initial)) ''o1'' = None"
  "get_job (sy_db demo_ready) ''j1'' = None" "get_run (sy_db (do_job demo_ready)) ''r1'' = None"
  "get_run (sy_db (do_run ''r1'' ''k1'' (do_job demo_ready))) ''r2'' = None"
  by code_simp+

lemma demo_provisioning_reachable: "reachable demo_provisioning"
  unfolding demo_provisioning_def by (intro do_environment_reach do_tenant_reach reach_initial demo_fresh)

lemma demo_reachable:
  "reachable demo_ready" "reachable demo_queued" "reachable demo_accepted" "reachable demo_ended"
proof -
  show r: "reachable demo_ready" unfolding demo_ready_def
    by (rule do_provision_reach [OF demo_provisioning_reachable])
  show q: "reachable demo_queued" unfolding demo_queued_def
    by (intro do_run_reach do_job_reach r demo_fresh)
  show a: "reachable demo_accepted" unfolding demo_accepted_def by (rule do_schedule_reach [OF q])
  show "reachable demo_ended" unfolding demo_ended_def by (intro do_reconcile_reach do_cancel_reach a)
qed

definition demo_deleted :: system where
  "demo_deleted = (case delete_environment 8 ''e1'' ''admin'' None (sy_db demo_ready) of
     Inl e \<Rightarrow> demo_ready | Inr d \<Rightarrow> demo_ready\<lparr>sy_db := d\<rparr>)"

lemma demo_deleted_reachable: "reachable demo_deleted"
  unfolding demo_deleted_def using demo_reachable(1)
  by (auto split: sum.splits intro: reach_step [OF demo_reachable(1)] step_delete_environment)

subsection \<open>The rows along the execution\<close>

lemma demo_ready_env: "map_option env_status (get_environment (sy_db demo_ready) ''e1'') = Some EReady"
  by code_simp

lemma demo_ready_ops: "map op_state (db_ops (sy_db demo_ready)) = [PReady]"
  by code_simp

lemma demo_deleted_env: "map_option env_status (get_environment (sy_db demo_deleted) ''e1'') = Some EDeleted"
  by code_simp

lemma demo_queued_limits: "map_option env_max_concurrent_runs (get_environment (sy_db demo_queued) ''e1'') = Some 2"
  by code_simp

lemma demo_queued_rows: "map run_state (db_runs (sy_db demo_queued)) = [RQueued, RQueued]"
  by code_simp

lemma demo_accepted_rows:
  "map (\<lambda>r. (run_id r, run_job_id r, run_state r)) (db_runs (sy_db demo_accepted)) =
     [(''r1'', ''j1'', RAccepted), (''r2'', ''j1'', RAccepted)]"
  by code_simp

lemma demo_ended_rows:
  "map (\<lambda>r. (run_id r, run_state r, run_started_at r)) (db_runs (sy_db demo_ended)) =
     [(''r1'', RCancelled, Some 6000000), (''r2'', RSucceeded, Some 6000000)]"
  by code_simp

lemma demo_accepted_first: obtains r where "get_run (sy_db demo_accepted) ''r1'' = Some r" "run_job_id r = ''j1''" "run_state r = RAccepted"
  using demo_accepted_rows by (auto simp: get_run_def find_row_def)

lemma demo_ended_second:
  obtains r where "get_run (sy_db demo_ended) ''r2'' = Some r" "r \<in> set (db_runs (sy_db demo_ended))"
    "run_state r = RSucceeded" "run_started_at r = Some 6000000"
  using demo_ended_rows by (auto simp: get_run_def find_row_def)

end
