(* ===== verification/SP_Samples.thy ===== *)
theory SP_Samples
  imports SP_Fixtures SP_Idempotency
begin

text \<open>Single rows and small tables for the witnesses.\<close>

definition sample_env :: environment where
  "sample_env = (environment_row 0 ''e1'' demo_environment_request)\<lparr>env_status := EReady\<rparr>"

definition sample_job :: job where
  "sample_job = job_row 0 ''j1'' demo_job_request"

definition sample_run :: run where
  "sample_run = run_row 0 ''r1'' sample_job sample_env ''k1'' (resources_dump (rq_requested_resources demo_run_request))
     [] [] 600 ''dev''"

definition sample_db :: database where
  "sample_db = empty_db\<lparr>db_envs := [sample_env], db_jobs := [sample_job]\<rparr>"

definition sample_policy :: "string \<Rightarrow> json dict \<Rightarrow> policy" where
  "sample_policy rule cfg = \<lparr>pol_id = ''p1'', pol_name = ''limit'', pol_scope = ''global'', pol_scope_id = None,
     pol_rule_type = rule, pol_config = cfg, pol_enforcement = ''hard'', pol_active = True,
     pol_created_by_actor = None, pol_created_at = 0, pol_updated_at = 0\<rparr>"

definition sample_path :: "string option \<Rightarrow> golden_path" where
  "sample_path e = \<lparr>gp_id = ''g'', gp_environment_id = e, gp_name = ''small'', gp_description = [], gp_spark_conf = [],
     gp_requested_resources = [], gp_instance_architecture = ''mixed'', gp_capacity_type = ''spot'', gp_max_runtime_minutes = 60,
     gp_tags = [], gp_recommended_instance_types = [], gp_data_access_scope = None, gp_created_at = 0, gp_updated_at = 0\<rparr>"

definition sample_pricing :: pricing_settings where
  "sample_pricing = \<lparr>set_pricing_source = ''static'', set_aws_region = ''us-east-1'', set_dry_run_mode = True,
     set_pricing_cache_seconds = 3600, set_vcpu_usd_per_second = 1 / 80000, set_memory_gb_usd_per_second = 1 / 700000,
     set_arm64_discount_pct = 20, set_mixed_discount_pct = 10\<rparr>"

definition sample_team :: team where
  "sample_team = \<lparr>team_id = ''tm1'', team_tenant_id = ''t1'', team_name = ''data'', team_created_at = 0, team_updated_at = 0\<rparr>"

definition full_session :: prov_session where
  "full_session = \<lparr>ps_db = sample_db,
     ps_env = sample_env\<lparr>env_engine := ''emr_on_eks'', env_provisioning_mode := ''full'', env_status := EProvisioning\<rparr>,
     ps_op = queued_operation 0 ''o1'' ''e1'' ''k'' ''m'' ''l'', ps_tf = \<lparr>tf_history = [], tf_initialized = []\<rparr>\<rparr>"

text \<open>An operation that resumes at its last stage.\<close>

definition resumed_session :: prov_session where
  "resumed_session = full_session\<lparr>ps_env := (ps_env full_session)\<lparr>env_eks_cluster_arn := Some ''arn:aws:eks:us-east-1:1:cluster/c'',
       env_emr_virtual_cluster_id := Some ''vc-1'', env_eks_namespace := Some ''ns''\<rparr>,
     ps_op := (ps_op full_session)\<lparr>op_state := PValidatingRuntime, op_step := PValidatingRuntime\<rparr>\<rparr>"

definition checked_provisioner :: provisioner where
  "checked_provisioner = with_provision_preflight (\<lambda>b. no_checks) (\<lambda>b. no_checks) 3 (demo_provisioner\<lparr>pv_check_customer_role_dispatch_permissions :=
     (\<lambda>e. Inr [(''dispatch_actions_allowed'', JBool True), (''pass_role_allowed'', JBool True)])\<rparr>)"

text \<open>A live provisioner whose Terraform succeeds and, after the network stage, outputs the id of the VPC only.\<close>

definition live_provisioner :: provisioner where
  "live_provisioner = demo_provisioner\<lparr>pv_dry_run_mode := False,
     pv_terraform := (pv_terraform demo_provisioner)\<lparr>tfo_enable_subprocess := True\<rparr>,
     pv_host := (pv_host demo_provisioner)\<lparr>host_loads := (\<lambda>s. Some (JObj [(''vpc_id'', JObj [(''value'', JStr ''vpc-1'')])]))\<rparr>\<rparr>"

end
