(* ===== verification/SP_ApiSteps.thy ===== *)
theory SP_ApiSteps
  imports SP_Writes SP_Reachable
begin

text \<open>
  The routes of \<open>api_call\<close> against the system of \<open>SP_Lifecycle\<close>: every request to one of them is a sequence of its steps
  (the reservation of an idempotency key, the operation, the stored answer), so that what holds in every reachable state
  holds after every such request; and only an entitled actor makes a step.
\<close>

definition db_steps :: "preflight_cache \<Rightarrow> database \<Rightarrow> database \<Rightarrow> bool" where
  "db_steps ca d d' \<longleftrightarrow> steps \<lparr>sy_db = d, sy_cache = ca\<rparr> \<lparr>sy_db = d', sy_cache = ca\<rparr>"

lemma steps_trans: "steps s s' \<Longrightarrow> steps s' s'' \<Longrightarrow> steps s s''"
  by (rotate_tac) (induction rule: steps.induct, auto intro: steps_more)

lemma db_steps_one: "sys_step \<lparr>sy_db = d, sy_cache = ca\<rparr> \<lparr>sy_db = d', sy_cache = ca\<rparr> \<Longrightarrow> db_steps ca d d'"
  by (auto simp: db_steps_def intro: steps.intros)

lemma db_steps_rule: "sys_step s (s\<lparr>sy_db := d'\<rparr>) \<Longrightarrow> s = \<lparr>sy_db = d, sy_cache = ca\<rparr> \<Longrightarrow> db_steps ca d d'"
  by (simp add: db_steps_one)

interpretation steps_frame: idempotent_frame "db_steps ca" for ca
proof
  show "db_steps ca d d" for d by (simp add: db_steps_def steps_none)
  show "db_steps ca d d1 \<Longrightarrow> db_steps ca d1 d2 \<Longrightarrow> db_steps ca d d2" for d d1 d2
    by (auto simp: db_steps_def intro: steps_trans)
  show "flush_reservation (reservation now scp ky f) d = Inr d1 \<Longrightarrow> db_steps ca d d1" for now scp ky f d d1
    by (rule db_steps_rule [OF step_reserve refl]) simp
  show "db_steps ca d (finish_reservation scp ky res d)" for d scp ky res
    by (rule db_steps_rule [OF step_finish refl]) simp
qed

text \<open>What the validation of a request and fresh UUIDs give the operation.\<close>

primrec environment_call_ok :: "database \<Rightarrow> call_context \<Rightarrow> environment_call \<Rightarrow> bool" where
  "environment_call_ok d cx (GetEnvironments t lmt off) = True"
| "environment_call_ok d cx (GetByocLiteDiscovery arn reg t) = True"
| "environment_call_ok d cx (PostEnvironment req) =
     (get_environment d (cx_uuid cx 0) = None \<and> get_operation d (cx_uuid cx 1) = None \<and> quotas_ok req)"
| "environment_call_ok d cx (GetEnvironment eid) = True"
| "environment_call_ok d cx (PostEnvironmentRetry eid) = (get_operation d (cx_uuid cx 0) = None)"
| "environment_call_ok d cx (DeleteEnvironment eid) = True"
| "environment_call_ok d cx (GetEnvironmentPreflight eid rid) = True"
| "environment_call_ok d cx (GetProvisioningOperation oid) = True"
| "environment_call_ok d cx (GetQueueUtilization eid) = True"

primrec work_call_ok :: "database \<Rightarrow> call_context \<Rightarrow> work_call \<Rightarrow> bool" where
  "work_call_ok d cx (PostJob req) = (get_job d (cx_uuid cx 0) = None \<and> job_request_ok req)"
| "work_call_ok d cx (GetJobs eid lmt off) = True"
| "work_call_ok d cx (GetGoldenPaths eid lmt off) = True"
| "work_call_ok d cx (PostGoldenPath req) = golden_request_ok req"
| "work_call_ok d cx (GetGoldenPath gid) = True"
| "work_call_ok d cx (GetRuns t st lmt off) = True"
| "work_call_ok d cx (PostRun jid req) = (get_run d (cx_uuid cx 0) = None \<and> run_request_ok req)"
| "work_call_ok d cx (GetRun rid) = True"
| "work_call_ok d cx (PostCancelRun rid) = True"
| "work_call_ok d cx (GetRunLogs rid lmt) = True"
| "work_call_ok d cx (GetRunDiagnostics rid lmt off) = True"

primrec call_ok :: "database \<Rightarrow> call_context \<Rightarrow> api_call \<Rightarrow> bool" where
  "call_ok d cx (Tenancy c) = True"
| "call_ok d cx (Environments c) = environment_call_ok d cx c"
| "call_ok d cx (Work c) = work_call_ok d cx c"
| "call_ok d cx (Costs c) = True"

declare steps_frame.same [simp]

lemmas frame = steps_frame.authenticates steps_frame.checks steps_frame.answers

lemma bootstrap_step:
  assumes "create_bootstrap_admin_identity bs now i actor ip secret req d = Inr (u, d')" shows "db_steps ca d d'"
proof -
  obtain r where "create_or_update_user_identity now i r actor ip d = Inr (u, d')"
    using assms by (auto simp: create_bootstrap_admin_identity_def rbind_Inr_iff Let_def split: if_splits)
  then show ?thesis by (intro db_steps_rule [OF step_identity refl]) simp
qed

lemma tenant_step:
  assumes "create_tenant_result now i req actor ip d = Inr (res, d')" shows "db_steps ca d d'"
proof -
  obtain t where "create_tenant now i req actor ip d = Inr (t, d')"
    using assms by (auto simp: create_tenant_result_def rbind_Inr_iff)
  then show ?thesis by (intro db_steps_rule [OF step_create_tenant refl]) simp
qed

lemma environment_step:
  assumes "create_environment_result settings now i oid lid req actor ip ky d = Inr (res, d')"
    "get_environment d i = None" "get_operation d oid = None" "quotas_ok req"
  shows "db_steps ca d d'"
proof -
  obtain x where "create_environment settings now i oid lid req actor ip ky d = Inr (x, d')"
    using assms(1) by (auto simp: create_environment_result_def rbind_Inr_iff)
  then show ?thesis using assms by (intro db_steps_rule [OF step_create_environment refl]) simp_all
qed

lemma job_step:
  assumes "create_job_result now i req actor ip d = Inr (res, d')" "get_job d i = None" "job_request_ok req"
  shows "db_steps ca d d'"
proof -
  obtain j where "create_job now i req actor ip d = Inr (j, d')"
    using assms(1) by (auto simp: create_job_result_def rbind_Inr_iff)
  then show ?thesis using assms by (intro db_steps_rule [OF step_create_job refl]) simp_all
qed

lemma run_step:
  assumes "create_run_result nf lf now i jid req actor ip ky d = Inr (res, d')" "get_run d i = None" "run_request_ok req"
  shows "db_steps ca d d'"
proof -
  obtain r where "create_run nf lf now i jid req actor ip ky d = Inr (r, d')"
    using assms(1) by (auto simp: create_run_result_def rbind_Inr_iff)
  then show ?thesis using assms by (intro db_steps_rule [OF step_create_run refl]) simp_all
qed

lemma cancel_step:
  assumes "cancel_run_result now rid actor ip d = Inr (res, d')" shows "db_steps ca d d'"
proof -
  obtain r where "cancel_run now rid actor ip d = Inr (r, d')"
    using assms(1) by (auto simp: cancel_run_result_def rbind_Inr_iff)
  then show ?thesis by (intro db_steps_rule [OF step_cancel_run refl]) simp
qed

lemma preflight_step:
  assumes "get_environment_preflight dp now eid rid d = Inr (p, d')" shows "db_steps ca d d'"
proof -
  obtain env c where "build_preflight (dp_before dp) (dp_after dp) now env rid c d = (Inr p, d')"
    using assms by (auto simp: get_environment_preflight_def rbind_Inr_iff raised_or_value_Inr)
  then show ?thesis by (intro db_steps_rule [OF step_preflight refl]) simp
qed

lemma get_reserved [simp]:
  "get_environment (d\<lparr>db_idem := x\<rparr>) = get_environment d" "get_operation (d\<lparr>db_idem := x\<rparr>) = get_operation d"
  "get_job (d\<lparr>db_idem := x\<rparr>) = get_job d" "get_run (d\<lparr>db_idem := x\<rparr>) = get_run d"
  by (simp_all add: fun_eq_iff get_environment_def get_operation_def get_job_def get_run_def)

lemma tenancy_steps:
  assumes alone: "cx_other1 cx = (\<lambda>d. d)" "cx_other2 cx = (\<lambda>d. d)"
  shows "db_steps ca d (snd (tenancy_api dp cx c d))"
proof (cases c)
  case (PostTenant req)
  show ?thesis unfolding PostTenant tenancy_api.simps snd_wrap post_tenant_def
    by (intro frame steps_frame.idempotent_calls alone tenant_step)
next
  case (PostTeam t name)
  show ?thesis unfolding PostTeam tenancy_api.simps snd_wrap post_team_def
    by (intro frame steps_frame.commits db_steps_rule [OF step_create_team refl]) simp
next
  case PostBootstrapUserIdentity
  show ?thesis unfolding PostBootstrapUserIdentity tenancy_api.simps snd_wrap post_bootstrap_user_identity_def
    by (auto intro!: frame steps_frame.commits simp: bootstrap_step split: option.split)
next
  case (PostUserIdentity req)
  have up: "create_or_update_user_identity now i r actor ip d = Inr (u, d') \<Longrightarrow> db_steps ca d d'" for now i r actor ip u d'
    by (rule db_steps_rule [OF step_identity refl]) simp
  show ?thesis unfolding PostUserIdentity tenancy_api.simps snd_wrap post_user_identity_def
    by (auto intro!: frame steps_frame.commits simp: bootstrap_step up)
next
  case (PostTeamEnvironmentScope tid eid)
  show ?thesis unfolding PostTeamEnvironmentScope tenancy_api.simps snd_wrap post_team_environment_scope_def
    by (intro frame steps_frame.commits db_steps_rule [OF step_add_scope refl]) simp
next
  case (DeleteTeamEnvironmentScope tid eid)
  show ?thesis unfolding DeleteTeamEnvironmentScope tenancy_api.simps snd_wrap delete_team_environment_scope_def
    by (intro frame steps_frame.commits db_steps_rule [OF step_remove_scope refl]) (simp add: rbind_Inr_iff)
qed (auto simp: get_teams_def get_bootstrap_status_def get_user_identities_def get_team_environment_scope_def
    intro!: frame)

lemma costs_steps: "db_steps ca d (snd (costs_api dp cx c d))"
proof (cases c)
  case (GetUsage t since until lmt off)
  show ?thesis unfolding GetUsage costs_api.simps snd_wrap get_usage_for_tenant_def
    by (auto simp: Let_def intro!: frame)
next
  case (PostTeamBudget tm b w k)
  show ?thesis unfolding PostTeamBudget costs_api.simps snd_wrap post_team_budget_def
    by (intro frame steps_frame.commits db_steps_rule [OF step_team_budget refl]) (auto simp: rbind_Inr_iff)
next
  case (PostPolicy req)
  show ?thesis unfolding PostPolicy costs_api.simps snd_wrap post_policy_def
    by (intro frame steps_frame.commits db_steps_rule [OF step_create_policy refl]) simp
next
  case (DeletePolicy pid)
  have "db_steps ca d d'" if "delete_policy now pid actor ip d = (b, d')" for now actor ip b d'
    by (rule db_steps_rule [OF step_delete_policy refl]) (use that in simp)
  then show ?thesis unfolding DeletePolicy costs_api.simps snd_wrap delete_policy_endpoint_def
    by (auto intro!: frame split: prod.split)
qed (auto simp: get_team_budget_by_team_def get_costs_showback_def get_policies_def get_policy_by_id_def
    intro!: frame)

lemma environments_steps:
  assumes alone: "cx_other1 cx = (\<lambda>d. d)" "cx_other2 cx = (\<lambda>d. d)" and ok: "environment_call_ok d cx c"
  shows "db_steps ca d (snd (environments_api dp cx c d))"
proof (cases c)
  case (GetByocLiteDiscovery arn reg t)
  show ?thesis unfolding GetByocLiteDiscovery environments_api.simps snd_wrap get_byoc_lite_discovery_def
    by (auto simp: Let_def intro!: frame split: sum.split)
next
  case (PostEnvironment req)
  show ?thesis unfolding PostEnvironment environments_api.simps snd_wrap post_environment_def
    by (intro frame steps_frame.idempotent_calls alone, erule environment_step) (use ok PostEnvironment in simp_all)
next
  case (PostEnvironmentRetry eid)
  have op: "get_operation d (cx_uuid cx 0) = None" using ok PostEnvironmentRetry by simp
  show ?thesis unfolding PostEnvironmentRetry environments_api.simps snd_wrap post_environment_retry_def
    by (intro frame steps_frame.commits db_steps_rule [OF step_retry_provisioning refl]) (simp, simp add: op)
next
  case (DeleteEnvironment eid)
  show ?thesis unfolding DeleteEnvironment environments_api.simps snd_wrap delete_environment_by_id_def
    by (intro frame steps_frame.commits db_steps_rule [OF step_delete_environment refl]) (simp add: rbind_Inr_iff)
next
  case (GetEnvironmentPreflight eid rid)
  show ?thesis unfolding GetEnvironmentPreflight environments_api.simps snd_wrap get_environment_preflight_by_id_def
    by (intro frame steps_frame.commits preflight_step)
qed (auto simp: get_environments_def get_environment_by_id_def get_provisioning_operation_by_id_def
    get_queue_utilization_def intro!: frame)

lemma golden_step:
  assumes "rbind (create_golden_path now i req d) (\<lambda>(g, d'). Inr (golden_path_to_response_payload g, d')) = Inr (x, d')"
    "golden_request_ok req"
  shows "db_steps ca d d'"
proof -
  obtain g where "create_golden_path now i req d = Inr (g, d')" using assms(1) by (auto simp: rbind_Inr_iff)
  then show ?thesis using assms(2) by (intro db_steps_rule [OF step_create_golden_path refl]) simp_all
qed

lemma work_steps:
  assumes alone: "cx_other1 cx = (\<lambda>d. d)" "cx_other2 cx = (\<lambda>d. d)" and ok: "work_call_ok d cx c"
  shows "db_steps ca d (snd (work_api dp cx c d))"
proof (cases c)
  case (PostJob req)
  show ?thesis unfolding PostJob work_api.simps snd_wrap post_job_def
    by (intro frame steps_frame.idempotent_calls alone, erule job_step) (use ok PostJob in simp_all)
next
  case (PostRun jid req)
  show ?thesis unfolding PostRun work_api.simps snd_wrap post_run_def
    by (intro frame steps_frame.idempotent_calls alone, erule run_step) (use ok PostRun in simp_all)
next
  case (PostCancelRun rid)
  show ?thesis unfolding PostCancelRun work_api.simps snd_wrap post_cancel_run_def
    by (intro frame steps_frame.idempotent_calls alone cancel_step)
next
  case (PostGoldenPath req)
  show ?thesis unfolding PostGoldenPath work_api.simps snd_wrap post_golden_path_def
    by (intro frame steps_frame.commits golden_step) (use ok PostGoldenPath in simp_all)
qed (auto simp: get_jobs_def get_golden_paths_def get_golden_path_by_id_def get_runs_def get_run_by_id_def
    get_run_logs_def get_run_diagnostics_def intro!: frame)

lemma api_steps:
  assumes "cx_other1 cx = (\<lambda>d. d)" "cx_other2 cx = (\<lambda>d. d)" "call_ok d cx c"
  shows "db_steps ca d (snd (api dp cx c d))"
  using assms tenancy_steps environments_steps work_steps costs_steps by (cases c) simp_all

subsection \<open>Who may make a step\<close>

text \<open>A request without an identity changes nothing, but for the first one, which may make its actor the administrator.\<close>

lemma refused_checked: "(\<And>x. m = Inr x \<Longrightarrow> snd (k x) = d) \<Longrightarrow> snd (checked m d k) = d"
  by (cases m) (auto simp: checked_def)

lemma refused_authenticated: "rbind (cx_auth cx) (resolve_access_context d) = Inl e \<Longrightarrow> snd (authenticated cx d k) = d"
  by (simp add: authenticated_def)

lemmas refused_rules = refused_checked refused_authenticated snd_answer

lemma bootstrap_refused:
  assumes "rbind (cx_auth cx) (resolve_access_context d) = Inl e" "has_any_identities d \<or> (\<exists>e. cx_auth cx = Inl e)"
  shows "snd (post_bootstrap_user_identity dp cx d) = d" "snd (post_user_identity dp cx req d) = d"
  using assms
  by (auto simp: post_bootstrap_user_identity_def post_user_identity_def checked_def authenticated_def answer_def
      split: option.splits sum.splits)

lemma api_refused:
  assumes no: "rbind (cx_auth cx) (resolve_access_context d) = Inl e" "has_any_identities d \<or> (\<exists>e. cx_auth cx = Inl e)"
  shows "snd (api dp cx c d) = d"
proof (cases c)
  case (Tenancy w)
  have "snd (tenancy_api dp cx w d) = d"
    by (cases w) (simp_all add: bootstrap_refused [OF no] post_tenant_def get_teams_def post_team_def get_bootstrap_status_def
      get_user_identities_def post_team_environment_scope_def delete_team_environment_scope_def
      get_team_environment_scope_def refused_rules no(1))
  then show ?thesis using Tenancy by simp
next
  case (Environments w)
  have "snd (environments_api dp cx w d) = d"
    by (cases w) (simp_all add: get_environments_def get_byoc_lite_discovery_def post_environment_def get_environment_by_id_def
      post_environment_retry_def delete_environment_by_id_def get_environment_preflight_by_id_def
      get_provisioning_operation_by_id_def get_queue_utilization_def refused_rules no(1))
  then show ?thesis using Environments by simp
next
  case (Work w)
  have "snd (work_api dp cx w d) = d"
    by (cases w) (simp_all add: post_job_def get_jobs_def get_golden_paths_def post_golden_path_def get_golden_path_by_id_def
      get_runs_def post_run_def get_run_by_id_def post_cancel_run_def get_run_logs_def get_run_diagnostics_def refused_rules no(1))
  then show ?thesis using Work by simp
next
  case (Costs w)
  have "snd (costs_api dp cx w d) = d"
    by (cases w) (simp_all add: get_usage_for_tenant_def post_team_budget_def get_team_budget_by_team_def get_costs_showback_def
      post_policy_def get_policies_def get_policy_by_id_def delete_policy_endpoint_def refused_rules no(1))
  then show ?thesis using Costs by simp
qed

text \<open>A change is made by an administrator, by another actor inside its scope, or by the first request of all.\<close>

lemma api_entitled:
  assumes alone: "cx_other1 cx = (\<lambda>d. d)" "cx_other2 cx = (\<lambda>d. d)" and dist: "distinct (map run_id (db_runs d))"
    and change: "snd (api dp cx c d) \<noteq> d"
  shows "\<exists>actor. cx_auth cx = Inr actor \<and> (\<not> has_any_identities d \<or>
    (\<exists>a. resolve_access_context d actor = Inr a \<and>
       (ac_role a = ''admin'' \<or> same_outside (ac_scoped_environment_ids a) d (snd (api dp cx c d)))))"
proof (cases "cx_auth cx")
  case (Inl e)
  then show ?thesis using api_refused [of cx d e dp c] change by simp
next
  case (Inr actor)
  show ?thesis
  proof (cases "resolve_access_context d actor")
    case (Inl e)
    then have "\<not> has_any_identities d" using api_refused [of cx d e dp c] change Inr by auto
    then show ?thesis using Inr by simp
  next
    case (Inr a)
    then show ?thesis using api_changes [OF \<open>cx_auth cx = Inr actor\<close> Inr _ alone dist] \<open>cx_auth cx = Inr actor\<close> by auto
  qed
qed

end
