(* ===== verification/SP_ApiSamples.thy ===== *)
theory SP_ApiSamples
  imports SP_Samples SP_ApiSteps
begin

text \<open>An operator of one tenant beside the environment of another one, for the witnesses on the API.\<close>

definition sample_identity :: user_identity where
  "sample_identity = \<lparr>uid_id = ''u1'', uid_user_id = None, uid_actor = ''dev'', uid_role = ''operator'',
     uid_tenant_id = Some ''t1'', uid_team_id = Some ''tm1'', uid_active = True, uid_created_at = 0, uid_updated_at = 0\<rparr>"

definition sample_access :: access_context where
  "sample_access = \<lparr>ac_actor = ''dev'', ac_role = ''operator'', ac_tenant_id = Some ''t1'', ac_team_id = Some ''tm1'',
     ac_scoped_environment_ids = [''e1'']\<rparr>"

definition other_env :: environment where
  "other_env = sample_env\<lparr>env_id := ''e2'', env_tenant_id := ''t2''\<rparr>"

definition sample_access_db :: database where
  "sample_access_db = empty_db\<lparr>db_envs := [sample_env, other_env], db_identities := [sample_identity],
     db_scopes := [\<lparr>tes_id = ''s1'', tes_team_id = ''tm1'', tes_environment_id = ''e1'', tes_created_at = 0\<rparr>]\<rparr>"

definition sample_deployment :: deployment where
  "sample_deployment = \<lparr>dp_fingerprint = (\<lambda>j. ''fp''), dp_settings = demo_settings,
     dp_bootstrap = \<lparr>bs_flow_enabled = True, bs_secret = ''s''\<rparr>, dp_nulls_first = False, dp_lf_context = (\<lambda>e. Inr []),
     dp_before = no_checks, dp_after = no_checks, dp_fetch_lines = (\<lambda>e r n t. Inr []), dp_discover = (\<lambda>a r. Inr [])\<rparr>"

definition sample_context :: call_context where
  "sample_context = \<lparr>cx_auth = Inr ''dev'', cx_source_ip = None, cx_now = 5, cx_uuid = (\<lambda>n. ''id''),
     cx_idempotency_key = Some ''k'', cx_bootstrap_secret = None, cx_other1 = (\<lambda>d. d), cx_other2 = (\<lambda>d. d)\<rparr>"

lemma sample_access_resolved: "resolve_access_context sample_access_db ''dev'' = Inr sample_access"
  by code_simp

lemma sample_listing:
  "map_sum (\<lambda>e. ()) (map env_id) (fst (get_environments sample_context None 10 0 sample_access_db)) = Inr [''e1'']"
  by code_simp

text \<open>The showback an operator may see lists runs of its tenant outside its scope.\<close>

definition other_allocation :: cost_allocation where
  "other_allocation = \<lparr>ca_run_id = ''r9'', ca_environment_id = ''e9'', ca_tenant_id = ''t1'', ca_team = ''t1'',
     ca_cost_center = ''cc'', ca_billing_period = ''1970-01'', ca_estimated_vcpu_seconds = 1, ca_estimated_memory_gb_seconds = 1,
     ca_estimated_cost_usd_micros = 5, ca_actual_cost_usd_micros = None, ca_cur_reconciled_at = None, ca_created_at = 0,
     ca_updated_at = 0\<rparr>"

lemma showback_outside_scope:
  "map_sum (\<lambda>e. ()) (\<lambda>s. map si_environment_id (sb_items s))
     (fst (get_costs_showback sample_context ''t1'' ''1970-01'' 10 0 (sample_access_db\<lparr>db_allocs := [other_allocation]\<rparr>))) = Inr [''e9'']
   \<and> ''e9'' \<notin> set (ac_scoped_environment_ids sample_access)"
  by code_simp

end
