(* ===== verification/SP_InviteFacts.thy ===== *)
theory SP_InviteFacts
  imports SP_InviteSteps
begin

text \<open>
  What the invitation routes guarantee: the check constraints of the tables they write, that used and replaced
  links are spent, what a login with an invitation rests on, and which identity it creates.
\<close>

subsection \<open>Column checks\<close>

definition column_checks :: "database \<Rightarrow> bool" where
  "column_checks d \<longleftrightarrow>
     (\<forall>u \<in> set (db_users d). usr_role u \<in> {''admin'', ''member''}) \<and>
     (\<forall>i \<in> set (db_identities d). uid_role i \<in> {''admin'', ''operator'', ''user''}) \<and>
     (\<forall>t \<in> set (db_tokens d). mlt_purpose t \<in> {''invite_accept'', ''password_reset'', ''email_verify''})"

definition keeps_checks :: "database \<Rightarrow> database \<Rightarrow> bool" where
  "keeps_checks d d' \<longleftrightarrow> (column_checks d \<longrightarrow> column_checks d')"

lemma keeps_checks_same:
  "db_users d' = db_users d \<Longrightarrow> db_identities d' = db_identities d \<Longrightarrow> db_tokens d' = db_tokens d \<Longrightarrow> keeps_checks d d'"
  by (simp add: keeps_checks_def column_checks_def)

interpretation checks_frame: idempotent_frame keeps_checks
proof
  show "keeps_checks d (finish_reservation scp ky res d)" for d scp ky res
    by (cases res) (simp add: keeps_checks_same finish_reservation_def)
  show "flush_reservation (reservation now scp ky f) d = Inr d1 \<Longrightarrow> keeps_checks d d1" for now scp ky f d d1
    by (rule keeps_checks_same) (simp_all add: flush_reservation_Inr)
qed (simp_all add: keeps_checks_def)

lemma upd_user_role [simp]: "usr_role (upd_user now f u) = usr_role (f u)"
  by (cases "f u = u") (simp_all add: upd_user_def Let_def)

lemma upd_identity_fields [simp]:
  "uid_role (upd_identity now f i) = uid_role (f i)"
  "uid_actor (upd_identity now f i) = uid_actor (f i)"
  "uid_active (upd_identity now f i) = uid_active (f i)"
  "uid_tenant_id (upd_identity now f i) = uid_tenant_id (f i)"
  "uid_team_id (upd_identity now f i) = uid_team_id (f i)"
  by (cases "f i = i"; simp add: upd_identity_def Let_def)+

lemma modify_user_checks: "(\<And>u. usr_role (f u) = usr_role u) \<Longrightarrow> keeps_checks d (modify_user now uid f d)"
  by (auto simp: keeps_checks_def column_checks_def modify_user_def set_modify_row)

lemma issue_invite_checks: "issue_invite iv vc i action who t u d = Inr (dr, d') \<Longrightarrow> keeps_checks d d'"
proof -
  assume run: "issue_invite iv vc i action who t u d = Inr (dr, d')"
  have "db_users d' = db_users d \<and> db_identities d' = db_identities d"
    using run by (auto simp: issue_invite_def Let_def rbind_Inr_iff log_magic_link_issued_def add_token_def
        dest!: create_magic_link_token_Inr(2))
  moreover obtain r where "r = invite_token iv vc i (usr_id u) (ten_id t) who (vc_now vc + iv_ttl_hours iv * us_per_hour)"
    "db_tokens d' = db_tokens d @ [r]" by (rule issue_invite_tokens [OF run])
  ultimately show ?thesis by (simp add: keeps_checks_def column_checks_def invite_token_def invite_accept_purpose_def)
qed

lemma send_admin_invite_frame [simp]:
  "db_users (snd (send_admin_invite iv vc who failure dr d)) = db_users d"
  "db_identities (snd (send_admin_invite iv vc who failure dr d)) = db_identities d"
  by (auto simp: send_admin_invite_def send_invite_email_and_audit_def Let_def split: sum.splits prod.splits)

lemma admin_audited_frame [simp]:
  "db_users (admin_audited vc ia action tid uid d) = db_users d"
  "db_identities (admin_audited vc ia action tid uid d) = db_identities d"
  by (simp_all add: admin_audited_def commit_internal_admin_audit_best_effort_def write_internal_admin_audit_event_def)

lemma regenerate_checks: "regenerate_user_invite iv vc who tid uid d = Inr (r, d') \<Longrightarrow> keeps_checks d d'"
proof -
  assume run: "regenerate_user_invite iv vc who tid uid d = Inr (r, d')"
  let ?d0 = "invalidate_unconsumed_user_invites uid (vc_now vc) d"
  let ?d1 = "modify_user (vc_now vc) uid (\<lambda>u. u\<lparr>usr_invited_at := Some (vc_now vc)\<rparr>) ?d0"
  obtain t u dr d2 where i: "issue_invite iv vc (vc_uuid vc 0) ''user.invite_regenerated'' who t u ?d1 = Inr (dr, d2)"
      and d': "d' = snd (send_admin_invite iv vc who invite_regenerated_failure dr d2)"
    using run by (force simp: regenerate_user_invite_def rbind_Inr_iff Let_def split: option.splits if_splits)
  have "keeps_checks d ?d0"
    by (auto simp: keeps_checks_def column_checks_def invalidate_unconsumed_user_invites_def)
  then have "keeps_checks d ?d1" by (rule checks_frame.compose) (simp add: modify_user_checks)
  then have "keeps_checks d d2" by (rule checks_frame.compose) (rule issue_invite_checks [OF i])
  then show ?thesis by (rule checks_frame.compose) (simp add: d' keeps_checks_same)
qed

lemma create_checks: "create_tenant_with_admin_invite iv vc who req d = Inr (r, d') \<Longrightarrow> keeps_checks d d'"
proof -
  assume run: "create_tenant_with_admin_invite iv vc who req d = Inr (r, d')"
  obtain dr d2 where dr: "draft_tenant_with_admin iv vc who req d = Inr (dr, d2)"
      and d': "d' = snd (send_admin_invite iv vc who tenant_created_failure dr d2)"
    using run by (force simp: create_tenant_with_admin_invite_def rbind_Inr_iff)
  obtain t d1 where t: "create_tenant (vc_now vc) (vc_uuid vc 0) \<lparr>tc_name = it_name req,
        tc_federation_type = it_federation_type req, tc_idp_metadata = it_idp_metadata req\<rparr> who (vc_source_ip vc) d = Inr (t, d1)"
    using dr by (auto simp: draft_tenant_with_admin_def rbind_Inr_iff)
  have "keeps_checks d d1"
    by (rule keeps_checks_same) (use t in \<open>auto simp: create_tenant_def add_tenant_def Let_def split: option.splits\<close>)
  moreover obtain email where i: "issue_invite iv vc (vc_uuid vc 2) ''user.invite_created'' who t
      (invited_user (vc_now vc) (vc_uuid vc 1) (ten_id t) email)
      (add_user (invited_user (vc_now vc) (vc_uuid vc 1) (ten_id t) email) d1) = Inr (dr, d2)"
    using dr by (auto simp: draft_tenant_with_admin_def rbind_Inr_iff t Let_def split: if_splits)
  moreover have "keeps_checks d1 (add_user (invited_user (vc_now vc) (vc_uuid vc 1) (ten_id t) email) d1)"
    by (simp add: keeps_checks_def column_checks_def add_user_def invited_user_def)
  ultimately have "keeps_checks d d2" by (blast intro: checks_frame.compose issue_invite_checks)
  then show ?thesis by (rule checks_frame.compose) (simp add: d' keeps_checks_same)
qed

lemma consume_checks:
  assumes "consume_invite_token dg now token d = Inr ((row, u), d')" shows "keeps_checks d d'"
proof -
  let ?d1 = "d\<lparr>db_tokens := map (\<lambda>t. if acceptable (dg token) now t then t\<lparr>mlt_consumed_at := Some now\<rparr> else t) (db_tokens d)\<rparr>"
  obtain uid where d': "d' = modify_user now uid (\<lambda>u. u\<lparr>usr_invite_consumed_at := Some now\<rparr>) ?d1"
    using assms by (auto simp: consume_invite_token_def Let_def split: if_splits option.splits)
  have "keeps_checks d ?d1" by (auto simp: keeps_checks_def column_checks_def)
  moreover have "keeps_checks ?d1 (modify_user now uid (\<lambda>u. u\<lparr>usr_invite_consumed_at := Some now\<rparr>) ?d1)"
    by (rule modify_user_checks) simp
  ultimately show ?thesis unfolding d' by (rule checks_frame.compose)
qed

lemma mapping_checks:
  assumes "apply_invite_identity_mapping now fresh tid uid actor ip d = Inr (i, d')" shows "keeps_checks d d'"
proof -
  obtain u j m d1 where c: "choose_identity now fresh uid actor d = Inr ((j, m), d1)"
      and d': "db_users d' = db_users (modify_user now uid (\<lambda>u. u\<lparr>usr_last_login_at := Some now\<rparr>) d1)"
        "db_identities d' = db_identities (modify_identity now (uid_id j) (bind_identity u actor m) d1)" "db_tokens d' = db_tokens d1"
    using assms by (auto simp: apply_invite_identity_mapping_def rbind_Inr_iff Let_def modify_user_def modify_identity_def
        split: option.splits if_splits)
  have "keeps_checks d d1"
    using c by (auto simp: choose_identity_def Let_def keeps_checks_def column_checks_def add_identity_def split: option.splits if_splits)
  moreover have "keeps_checks d1 d'"
    by (auto simp: keeps_checks_def column_checks_def d' modify_user_def modify_identity_def set_modify_row bind_identity_def Let_def
        split: if_splits)
  ultimately show ?thesis by (rule checks_frame.compose)
qed

lemma apply_invite_checks: "apply_invite vc ctx p d = Inr (r, d') \<Longrightarrow> keeps_checks d d'"
proof -
  assume "apply_invite vc ctx p d = Inr (r, d')"
  then obtain row d1 i where c: "consume_invite_callback_state (vc_now vc) (is_token_id p) (is_tenant_id p) (is_user_id p) d = Inr (row, d1)"
      and m: "apply_invite_identity_mapping (vc_now vc) (vc_uuid vc 0) (is_tenant_id p) (is_user_id p) (ix_actor ctx)
        (vc_source_ip vc) d1 = Inr (i, d')"
    by (auto simp: apply_invite_def rbind_Inr_iff split: option.splits if_splits)
  have "keeps_checks d d1" using c by (rule callback_Inr) (auto simp: keeps_checks_def column_checks_def)
  then show ?thesis by (rule checks_frame.compose) (rule mapping_checks [OF m])
qed

lemma audited_checks: "keeps_checks d d1 \<Longrightarrow> keeps_checks d (admin_audited vc ia action tid uid d1)"
  by (erule checks_frame.compose) (simp add: keeps_checks_same)

lemma request_checks: "keeps_checks d (after_invite_request iv vc req d)"
proof (cases req)
  case (InviteTenant r)
  show ?thesis unfolding InviteTenant after_invite_request.simps post_internal_tenant_def
  proof (intro checks_frame.checks checks_frame.commits)
    fix ia x d'
    assume "rbind (create_tenant_with_admin_invite iv vc (ia_email ia) r d) (\<lambda>(y, d1). Inr (y,
        admin_audited vc ia ''tenant.create'' (Some (ten_id (pr_tenant y))) (Some (usr_id (pr_user y))) d1)) = Inr (x, d')"
    then show "keeps_checks d d'"
      by (auto simp: rbind_Inr_iff dest!: create_checks intro!: audited_checks)
  qed
next
  case (RegenerateInvite tid uid)
  show ?thesis unfolding RegenerateInvite after_invite_request.simps post_internal_regenerate_invite_def
  proof (intro checks_frame.checks checks_frame.commits)
    fix ia x d'
    assume "rbind (regenerate_user_invite iv vc (ia_email ia) tid uid d) (\<lambda>(y, d1). Inr (y,
        admin_audited vc ia ''tenant.invite_regenerate'' (Some tid) (Some uid) d1)) = Inr (x, d')"
    then show "keeps_checks d d'"
      by (auto simp: rbind_Inr_iff dest!: regenerate_checks intro!: audited_checks)
  qed
next
  case (AcceptInvite token)
  then show ?thesis
    by (auto simp: accept_invite_def checks_frame.same intro!: checks_frame.checks dest: consume_checks
        split: sum.split prod.split)
next
  case (AuthCallback state)
  show ?thesis unfolding AuthCallback after_invite_request.simps get_auth_callback_def
    by (intro checks_frame.checks) (auto simp: checks_frame.same intro!: checks_frame.commits dest: apply_invite_checks
        split: option.split)
qed (auto simp: get_internal_tenants_def get_internal_tenant_by_id_def get_auth_me_def checks_frame.same keeps_checks_same
    intro!: checks_frame.checks split: sum.split)

lemma requests_checks: "column_checks d \<Longrightarrow> column_checks (after_invite_requests iv reqs d)"
proof (induction reqs arbitrary: d)
  case (Cons x reqs)
  then show ?case using request_checks by (cases x) (auto simp: keeps_checks_def)
qed simp

subsection \<open>Links are spent\<close>

lemma accept_spends:
  assumes "accept_invite iv vc token d = (Inr url, d')" shows "spent (iv_digest iv token) d'"
proof -
  let ?h = "iv_digest iv token" and ?now = "vc_now vc"
  obtain row u where c: "consume_invite_token (iv_digest iv) ?now token d = Inr ((row, u), d')"
    using assms by (auto simp: accept_invite_def checked_def answer_def split: if_splits sum.splits)
  then have "length (filter (acceptable ?h ?now) (db_tokens d)) = 1" by (rule consume_invite_token_Inr)
  then have "filter (acceptable ?h ?now) (db_tokens d) \<noteq> []" by force
  then obtain t where t: "t \<in> set (db_tokens d)" "acceptable ?h ?now t" by (auto simp: filter_empty_conv)
  from c have m: "db_tokens d' = map (\<lambda>t. if acceptable ?h ?now t then t\<lparr>mlt_consumed_at := Some ?now\<rparr> else t) (db_tokens d)"
    by (rule consume_invite_token_Inr)
  have "t\<lparr>mlt_consumed_at := Some ?now\<rparr> \<in> set (db_tokens d')" unfolding m set_map
    by (rule image_eqI [of _ _ t]) (simp_all add: t)
  moreover have "is_invite ?h (t\<lparr>mlt_consumed_at := Some ?now\<rparr>)" using t(2) by (simp add: acceptable_def is_invite_def)
  ultimately show ?thesis unfolding spent_def by (intro bexI [of _ "t\<lparr>mlt_consumed_at := Some ?now\<rparr>"]) simp_all
qed

lemma regenerate_spends:
  assumes run: "regenerate_user_invite iv vc who tid uid d = Inr (r, d')"
    and t: "t \<in> set (db_tokens d)" "mlt_user_id t = uid" "mlt_purpose t = invite_accept_purpose"
  shows "spent (mlt_token_hash t) d'"
proof -
  let ?d0 = "invalidate_unconsumed_user_invites uid (vc_now vc) d"
  let ?d1 = "modify_user (vc_now vc) uid (\<lambda>u. u\<lparr>usr_invited_at := Some (vc_now vc)\<rparr>) ?d0"
  obtain ten u dr d2 where i: "issue_invite iv vc (vc_uuid vc 0) ''user.invite_regenerated'' who ten u ?d1 = Inr (dr, d2)"
      and d': "d' = snd (send_admin_invite iv vc who invite_regenerated_failure dr d2)"
    using run by (force simp: regenerate_user_invite_def rbind_Inr_iff Let_def split: option.splits if_splits)
  have "\<exists>t' \<in> set (db_tokens ?d1). is_invite (mlt_token_hash t) t' \<and> mlt_consumed_at t' \<noteq> None"
    using t by (intro bexI [of _ "if unconsumed_invite_of uid t then t\<lparr>mlt_consumed_at := Some (vc_now vc)\<rparr> else t"])
      (auto simp: is_invite_def unconsumed_invite_of_def invalidate_unconsumed_user_invites_def modify_user_def)
  then have "spent (mlt_token_hash t) ?d1" by (simp add: spent_def)
  then have "spent (mlt_token_hash t) d2" by (rule spent_progress) (rule issue_invite_progress [OF i])
  then show ?thesis by (rule spent_progress) (simp add: d' progress_same)
qed

subsection \<open>What a login with an invitation rests on\<close>

lemma get_auth_callback_applied:
  assumes "get_auth_callback iv vc state d = (Inr cb, d')" "cb_invite_applied cb"
  obtains ctx p where "vc_identity vc = Inr ctx" "decode_invite_state (iv_auth iv) (vc_now vc) state = Inr (Some p)"
    "apply_invite vc ctx p d = Inr (cb, d')"
  using assms by (auto simp: get_auth_callback_def reply_simps split: option.splits if_splits)

lemma apply_invite_Inr:
  assumes "apply_invite vc ctx p d = Inr (cb, d')"
  obtains u row d1 i where "get_user d (is_user_id p) = Some u" "usr_tenant_id u = is_tenant_id p"
    "ix_email ctx = Some (py_lower (py_strip (usr_email u)))" "ix_email ctx \<noteq> Some []"
    "consume_invite_callback_state (vc_now vc) (is_token_id p) (is_tenant_id p) (is_user_id p) d = Inr (row, d1)"
    "apply_invite_identity_mapping (vc_now vc) (vc_uuid vc 0) (is_tenant_id p) (is_user_id p) (ix_actor ctx)
       (vc_source_ip vc) d1 = Inr (i, d')"
  using assms by (auto simp: apply_invite_def rbind_Inr_iff falsy_def split: option.splits if_splits)

lemma callback_row:
  assumes "consume_invite_callback_state now tkid tid uid d = Inr (row, d')"
  shows "\<exists>t \<in> set (db_tokens d). callback_open tkid tid uid now t"
proof -
  have "length (filter (callback_open tkid tid uid now) (db_tokens d)) = 1" using assms by (rule callback_Inr)
  then have "filter (callback_open tkid tid uid now) (db_tokens d) \<noteq> []" by force
  then show ?thesis by (auto simp: filter_empty_conv)
qed

subsection \<open>The identity of the invited user\<close>

text \<open>A user without an identity gets the one of the subject, and with the role of an administrator.\<close>

lemma choose_identity_None:
  assumes "choose_identity now fresh uid actor d = Inr ((j, m), d1)" "identity_of_user d uid = None"
  shows "\<not> m" "find_identity d actor = Some j \<and> d1 = d \<or> find_identity d actor = None \<and> uid_actor j = actor \<and> d1 = add_identity j d"
  using assms by (auto simp: choose_identity_def Let_def split: option.splits if_splits)

lemma mapping_identities:
  assumes run: "apply_invite_identity_mapping now fresh tid uid actor ip d = Inr (i, d')" and u: "get_user d uid = Some u"
    and none: "identity_of_user d uid = None"
  obtains j d1 where "db_identities d' = map (\<lambda>x. if uid_id x = uid_id j then upd_identity now (bind_identity u actor False) x else x) (db_identities d1)"
    "find_identity d actor = Some j \<and> d1 = d \<or> find_identity d actor = None \<and> uid_actor j = actor \<and> d1 = add_identity j d"
proof -
  obtain j m d1 where c: "choose_identity now fresh uid actor d = Inr ((j, m), d1)"
      and d': "db_identities d' = db_identities (modify_identity now (uid_id j) (bind_identity u actor m) d1)"
    using run u by (auto simp: apply_invite_identity_mapping_def rbind_Inr_iff Let_def modify_user_def split: if_splits)
  note j = choose_identity_None [OF c none]
  show thesis by (rule that [OF _ j(2)]) (use j(1) in \<open>simp add: d' modify_identity_def modify_row_def\<close>)
qed

lemma bound_identity [simp]:
  "uid_actor (bind_identity u actor False x) = actor"
  "uid_active (bind_identity u actor m x)"
  "uid_role (bind_identity u actor m x) = (if usr_role u = ''admin'' then ''admin'' else ''user'')"
  "uid_tenant_id (bind_identity u actor m x) = Some (usr_tenant_id u)"
  "uid_team_id (bind_identity u actor False x) = None"
  by (simp_all add: bind_identity_def Let_def)

lemma find_mapped:
  assumes "\<exists>x \<in> set xs. P (f x)" shows "\<exists>x \<in> set xs. find P (map f xs) = Some (f x)"
  using assms by (induction xs) auto

lemma invited_identity_active:
  assumes run: "apply_invite_identity_mapping now fresh tid uid actor ip d = Inr (i, d')" "get_user d uid = Some u"
    "identity_of_user d uid = None" and actors: "distinct (map uid_actor (db_identities d))"
  shows "\<exists>x. active_identity d' actor = Some (upd_identity now (bind_identity u actor False) x)"
proof (rule mapping_identities [OF run])
  fix j :: user_identity and d1
  let ?b = "upd_identity now (bind_identity u actor False)"
  let ?f = "\<lambda>x. if uid_id x = uid_id j then ?b x else x"
  assume i: "db_identities d' = map ?f (db_identities d1)"
    and j: "(find_identity d actor = Some j \<and> d1 = d) \<or> (find_identity d actor = None \<and> uid_actor j = actor \<and> d1 = add_identity j d)"
  have here: "j \<in> set (db_identities d1)" using j by (auto simp: find_identity_def find_Some_iff add_identity_def)
  have only: "uid_id x = uid_id j" if "x \<in> set (db_identities d1)" "uid_actor x = actor" for x
    using j that actors
    by (auto simp: find_identity_def find_Some_iff find_None_iff add_identity_def distinct_map inj_on_def)
  let ?P = "\<lambda>i. uid_actor i = actor \<and> uid_active i"
  have "\<exists>x \<in> set (db_identities d1). ?P (?f x)" using here by (intro bexI [of _ j]) simp_all
  then obtain x where x: "x \<in> set (db_identities d1)" "find ?P (map ?f (db_identities d1)) = Some (?f x)"
    using find_mapped [of "db_identities d1" ?P ?f] by blast
  then have "uid_actor (?f x) = actor" by (auto simp: find_Some_iff)
  then have "?f x = ?b x" using only [OF x(1)] by (cases "uid_id x = uid_id j") auto
  then show ?thesis using x(2) by (auto simp: active_identity_def i)
qed

text \<open>So the API treats the administrator of one tenant as an administrator of all.\<close>

lemma invited_admin_access:
  assumes "active_identity d actor = Some (upd_identity now (bind_identity u actor False) x)" "usr_role u = ''admin''"
  shows "\<exists>a. resolve_access_context d actor = Inr a \<and> ac_role a = ''admin'' \<and> (\<forall>env. can_access_environment a env)"
  using assms by (auto simp: resolve_access_context_def can_access_environment_def)

end
