(* ===== verification/SP_InviteSamples.thy ===== *)
theory SP_InviteSamples
  imports SP_ApiSamples SP_InviteFacts
begin

text \<open>A tenant with an invited administrator, and clients for tokens and mails, for the witnesses.\<close>

definition demo_verifier :: verifier where
  "demo_verifier = oidc_token_verifier ''https://idp'' ''client'' ''https://idp/jwks'' 300 1 60 2"

definition demo_oidc :: oidc_client where
  "demo_oidc = \<lparr>oc_read = (\<lambda>uri. Inr (JObj [(''keys'', JArr [JObj [(''kid'', JStr ''k1'')]])])),
     oc_is_read_error = (\<lambda>e. True), oc_jwk = (\<lambda>item. Inr item),
     oc_header = (\<lambda>token. Inr [(''alg'', JStr ''RS256''), (''kid'', JStr (if token = ''odd'' then ''k2'' else ''k1''))]),
     oc_decode = (\<lambda>token key alg aud iss req. Inr (JObj [(''sub'', JStr ''subject''), (''iss'', JStr iss), (''aud'', JStr ''client''),
       (''email'', JStr ''a@b.co'')])),
     oc_is_jwt_error = (\<lambda>e. True)\<rparr>"

definition demo_auth :: auth_config where
  "demo_auth = \<lparr>ag_verifier = (\<lambda>p. demo_verifier), ag_client = demo_oidc, ag_unverified_claims = (\<lambda>token. None),
     ag_internal_admin_emails = [''root@sp.io''], ag_state_secret = ''secret'', ag_hmac = (\<lambda>k m. ''mac'')\<rparr>"

definition demo_invites :: invite_settings where
  "demo_invites = \<lparr>iv_auth = demo_auth,
     iv_email = \<lparr>em_api_key = ''key'', em_from = ''from@sp.io'', em_reply_to = []\<rparr>,
     iv_post = (\<lambda>key payload ikey i. Response 200 None), iv_digest = (\<lambda>t. ''#'' @ t), iv_ttl_hours = 24,
     iv_accept_url = ''https://api/v1/invite/accept'', iv_hosted_ui_url = ''https://login'',
     iv_app_base_url = ''https://app'', iv_environment_name = ''production''\<rparr>"

definition demo_customer :: identity_context where
  "demo_customer = \<lparr>ix_actor = ''subject'', ix_email = Some ''a@b.co'', ix_pool = CustomerPool, ix_is_internal_admin = False\<rparr>"

definition demo_invite_call :: invite_call where
  "demo_invite_call = \<lparr>vc_admin = Inr \<lparr>ia_actor = ''root'', ia_email = ''root@sp.io''\<rparr>, vc_identity = Inr demo_customer,
     vc_source_ip = None, vc_now = 5000000, vc_uuid = (\<lambda>n. ''id'' @ replicate n CHR ''x''), vc_plain_token = ''tokentoken2'',
     vc_request_id = ''rq'', vc_origin = ''https://api'', vc_email_audit_ok = True, vc_admin_audit_ok = False\<rparr>"

definition demo_tenant :: tenant where
  "demo_tenant = \<lparr>ten_id = ''t9'', ten_name = ''acme'', ten_federation_type = ''oidc'', ten_idp_metadata = None,
     ten_created_at = 1, ten_updated_at = 1\<rparr>"

definition demo_token :: magic_link_token where
  "demo_token = \<lparr>mlt_id = ''m1'', mlt_token_hash = ''#tokentoken1'', mlt_user_id = ''v1'', mlt_tenant_id = ''t9'',
     mlt_purpose = ''invite_accept'', mlt_expires_at = 9000000, mlt_consumed_at = None, mlt_callback_consumed_at = None,
     mlt_created_at = 1, mlt_created_by = ''root@sp.io''\<rparr>"

definition demo_invited :: user where
  "demo_invited = invited_user 1 ''v1'' ''t9'' ''a@b.co''"

definition demo_invite_db :: database where
  "demo_invite_db = empty_db\<lparr>db_tenants := [demo_tenant], db_users := [demo_invited], db_tokens := [demo_token]\<rparr>"

definition demo_accepted_db :: database where
  "demo_accepted_db = demo_invite_db\<lparr>db_tokens := [demo_token\<lparr>mlt_consumed_at := Some 2\<rparr>]\<rparr>"

definition demo_state :: invite_state where
  "demo_state = \<lparr>is_tenant_id = ''t9'', is_user_id = ''v1'', is_token_id = ''m1'', is_exp = 600\<rparr>"

lemma demo_unique: "unique_digests demo_invite_db"
  by (simp add: unique_digests_def demo_invite_db_def)

lemma demo_accepts: "\<exists>url d. accept_invite demo_invites demo_invite_call ''tokentoken1'' demo_invite_db = (Inr url, d)"
proof -
  have "is_ok (consume_invite_token (iv_digest demo_invites) (vc_now demo_invite_call) ''tokentoken1'' demo_invite_db)" by code_simp
  then obtain row u d where "consume_invite_token (iv_digest demo_invites) (vc_now demo_invite_call) ''tokentoken1'' demo_invite_db
      = Inr ((row, u), d)" by (auto simp: is_ok_def split: sum.splits)
  moreover have "is_ok (configured_hosted_ui demo_invites)" "is_ok (app_base_url_for_redirect demo_invites demo_invite_call)"
    by code_simp+
  ultimately show ?thesis
    by (auto simp: accept_invite_def checked_def answer_def is_ok_def invite_login_redirect_url_def split: sum.splits)
qed

lemma demo_regenerates: "\<exists>r d. regenerate_user_invite demo_invites demo_invite_call ''root@sp.io'' ''t9'' ''v1'' demo_invite_db = Inr (r, d)"
proof -
  have "is_ok (regenerate_user_invite demo_invites demo_invite_call ''root@sp.io'' ''t9'' ''v1'' demo_invite_db)" by code_simp
  then show ?thesis by (auto simp: is_ok_def split: sum.splits)
qed

lemma demo_state_decoded:
  "decode_invite_state demo_auth 5000000 (Some (encode_invite_state demo_auth demo_state)) = Inr (Some demo_state)"
  by (rule invite_state_decoded [where mac = "\<lambda>m. ''mac''"]) (simp_all add: demo_state_def demo_auth_def plain_text_def py_strip_def is_space_def)

lemma demo_callback:
  "\<exists>cb d. get_auth_callback demo_invites demo_invite_call (Some (encode_invite_state demo_auth demo_state)) demo_accepted_db
     = (Inr cb, d) \<and> cb_invite_applied cb \<and> cb_user_id cb = Some ''v1'' \<and> cb_actor cb = ''subject''"
proof -
  have "map_sum (\<lambda>e. ()) fst (apply_invite demo_invite_call demo_customer demo_state demo_accepted_db) =
      Inr \<lparr>cb_actor = ''subject'', cb_invite_applied = True, cb_user_id = Some ''v1'', cb_tenant_id = Some ''t9''\<rparr>" by code_simp
  then obtain cb d where "apply_invite demo_invite_call demo_customer demo_state demo_accepted_db = Inr (cb, d)"
      "cb = \<lparr>cb_actor = ''subject'', cb_invite_applied = True, cb_user_id = Some ''v1'', cb_tenant_id = Some ''t9''\<rparr>"
    by (cases "apply_invite demo_invite_call demo_customer demo_state demo_accepted_db") auto
  moreover have "iv_auth demo_invites = demo_auth" "vc_now demo_invite_call = 5000000" "vc_identity demo_invite_call = Inr demo_customer"
    by (simp_all add: demo_invites_def demo_invite_call_def)
  ultimately show ?thesis using demo_state_decoded by (simp add: get_auth_callback_def checked_def committed_def)
qed

lemma demo_authenticates: "\<exists>st. require_api_auth demo_auth 5 ''Bearer abc'' (\<lambda>p. fresh_jwks_state) = (Inr ''subject'', st)"
proof -
  have "map_sum (\<lambda>e. ()) (\<lambda>x. x) (fst (require_api_auth demo_auth 5 ''Bearer abc'' (\<lambda>p. fresh_jwks_state))) = Inr ''subject''" by code_simp
  then show ?thesis
    by (cases "require_api_auth demo_auth 5 ''Bearer abc'' (\<lambda>p. fresh_jwks_state)"; cases "fst (require_api_auth demo_auth 5 ''Bearer abc'' (\<lambda>p. fresh_jwks_state))") auto
qed

end
