(* ===== verification/SP_Checks.thy ===== *)
theory SP_Checks
  imports SP_Preflight SP_Settings SP_Releases SP_Usage
begin

text \<open>
  The checks of \<open>services/preflight.py\<close> on the settings, the environment, the configuration of the run, the budget
  of the team and the queue. An emitter answers the checks it adds in order, or the exception it raises.
\<close>

subsection \<open>Adding a check\<close>

definition quoted :: "string \<Rightarrow> string" where
  "quoted s = [CHR 0x27] @ s @ [CHR 0x27]"

definition check_of :: "string \<Rightarrow> string \<Rightarrow> string \<Rightarrow> string option \<Rightarrow> json dict \<Rightarrow> preflight_check" where
  "check_of code status_value message remediation details =
     \<lparr>ck_code = code, ck_status = status_value, ck_message = message, ck_remediation = remediation, ck_details = details\<rparr>"

definition passed :: "string \<Rightarrow> string \<Rightarrow> json dict \<Rightarrow> preflight_check" where
  "passed code message details = check_of code ''pass'' message None details"

definition failed :: "string \<Rightarrow> string \<Rightarrow> string \<Rightarrow> json dict \<Rightarrow> preflight_check" where
  "failed code message remediation details = check_of code ''fail'' message (Some remediation) details"

definition warned :: "string \<Rightarrow> string \<Rightarrow> string \<Rightarrow> json dict \<Rightarrow> preflight_check" where
  "warned code message remediation details = check_of code ''warning'' message (Some remediation) details"

lemma check_sel [simp]:
  "ck_code (passed c m d) = c" "ck_code (failed c m r d) = c" "ck_code (warned c m r d) = c" "ck_code (check_of c s m r' d) = c"
  "ck_status (passed c m d) = ''pass''" "ck_status (failed c m r d) = ''fail''" "ck_status (warned c m r d) = ''warning''"
  "ck_status (check_of c s m r' d) = s"
  by (simp_all add: passed_def failed_def warned_def check_of_def)

text \<open>The emitters run one after the other; the first exception ends them.\<close>

definition emit_all :: "(exn + preflight_check list) list \<Rightarrow> exn + preflight_check list" where
  "emit_all es = rbind (mapM id es) (\<lambda>cs. Inr (concat cs))"

lemma emit_all_simps [simp]:
  "emit_all [] = Inr []"
  "emit_all (e # es) = rbind e (\<lambda>c. rbind (emit_all es) (\<lambda>cs. Inr (c @ cs)))"
  by (simp_all add: emit_all_def rbind_def split: sum.splits)

definition no_failure :: "preflight_check list \<Rightarrow> bool" where
  "no_failure cs \<longleftrightarrow> (\<forall>c \<in> set cs. ck_status c \<noteq> ''fail'')"

lemma no_failure_simps [simp]:
  "no_failure []" "no_failure (c # cs) \<longleftrightarrow> ck_status c \<noteq> ''fail'' \<and> no_failure cs"
  "no_failure (xs @ ys) \<longleftrightarrow> no_failure xs \<and> no_failure ys"
  by (auto simp: no_failure_def)

subsection \<open>Runtime and release\<close>

definition execution_role_config_check :: "(string \<Rightarrow> string + json) \<Rightarrow> settings \<Rightarrow> exn + preflight_check list" where
  "execution_role_config_check loads s =
     (let details = [(''dry_run_mode'', JBool (cfg_dry_run_mode s)),
            (''execution_role_arn'', JStr (py_strip (cfg_emr_execution_role_arn s)))]
      in case validate_runtime_settings loads s of
           Inr _ \<Rightarrow> Inr [passed ''config.execution_role'' ''Execution role configuration is valid for runtime mode.'' details]
         | Inl (ValueError msg) \<Rightarrow> Inr [failed ''config.execution_role'' msg
             ''Set SPARKPILOT_EMR_EXECUTION_ROLE_ARN to a real IAM role ARN and restart API/workers.'' details]
         | Inl e \<Rightarrow> Inl (exn_of_policy_error e))"

definition log_group_prefix_check :: "settings \<Rightarrow> preflight_check list" where
  "log_group_prefix_check s =
     (if py_strip (cfg_log_group_prefix s) \<noteq> []
      then [passed ''config.log_group_prefix'' ''CloudWatch log group prefix is configured.''
              [(''log_group_prefix'', JStr (cfg_log_group_prefix s))]]
      else [failed ''config.log_group_prefix'' ''SPARKPILOT_LOG_GROUP_PREFIX is empty.''
              ''Set SPARKPILOT_LOG_GROUP_PREFIX to a non-empty CloudWatch log group prefix.'' []])"

text \<open>\<open>scalar_one_or_none\<close> raises where both spellings of the label are in the catalogue.\<close>

definition lookup_release_row :: "database \<Rightarrow> string \<Rightarrow> exn + emr_release option" where
  "lookup_release_row d label =
     (case filter (\<lambda>r. rel_label r = label \<or> rel_label r = canonical_release_label label) (db_releases d) of
        [] \<Rightarrow> Inr None
      | [r] \<Rightarrow> Inr (Some r)
      | _ \<Rightarrow> Inl \<lparr>exn_class = ''MultipleResultsFound'',
          exn_text = ''Multiple rows were found when one or none was required'', exn_code = None, exn_aws = False\<rparr>)"

definition release_currency_check :: "string \<Rightarrow> emr_release option \<Rightarrow> preflight_check list" where
  "release_currency_check label row =
     (let code = ''config.emr_release_currency''; details = [(''release_label'', JStr label)] in
      case row of
        None \<Rightarrow> [warned code ''Release currency is unknown because this label has not been synced yet.''
          ''Run the EMR release sync worker and retry preflight.'' details]
      | Some r \<Rightarrow>
          if rel_lifecycle_status r = ''current'' then [passed code ''Configured EMR release is current.'' details]
          else if rel_lifecycle_status r = ''deprecated'' then
            [warned code ''Configured EMR release is deprecated.''
               (if text_empty (rel_upgrade_target r)
                then ''Upgrade to a current EMR release label and re-run environment preflight.''
                else ''Upgrade to '' @ the (rel_upgrade_target r) @ '' or newer and re-run environment preflight.'') details]
          else
            [failed code ''Configured EMR release is end-of-life.''
               (if text_empty (rel_upgrade_target r)
                then ''Upgrade to a current EMR release label before submitting runs.''
                else ''Upgrade to '' @ the (rel_upgrade_target r) @ '' or newer before submitting runs.'') details])"

definition needs_graviton :: "string \<Rightarrow> bool" where
  "needs_graviton architecture \<longleftrightarrow> architecture \<in> {''arm64'', ''mixed''}"

definition graviton_support_check :: "string \<Rightarrow> emr_release option \<Rightarrow> preflight_check list" where
  "graviton_support_check architecture row =
     (let code = ''config.graviton_release_support''; details = [(''instance_architecture'', JStr architecture)] in
      if \<not> needs_graviton architecture
      then [passed code ''x86_64 architecture selected; Graviton compatibility check is not required.'' details]
      else if (case row of None \<Rightarrow> False | Some r \<Rightarrow> rel_graviton_supported r)
      then [passed code ''Configured EMR release supports Graviton/ARM workloads.'' details]
      else if architecture = ''arm64''
      then [failed code ''Configured EMR release does not confirm Graviton support for arm64-only workloads.''
              ''Select a Graviton-capable EMR release label (for example >= emr-6.9.0).'' details]
      else [warned code ''Graviton support could not be confirmed for mixed-architecture workloads.''
              ''Run release sync and prefer a Graviton-capable EMR release label.'' details])"

definition missing_release_label_checks :: "string \<Rightarrow> preflight_check list" where
  "missing_release_label_checks architecture =
     [failed ''config.emr_release_label'' ''SPARKPILOT_EMR_RELEASE_LABEL is empty.''
        ''Set SPARKPILOT_EMR_RELEASE_LABEL to a valid EMR on EKS release label.'' [],
      failed ''config.emr_release_currency'' ''Release currency cannot be evaluated because release label is missing.''
        ''Set SPARKPILOT_EMR_RELEASE_LABEL and run release sync.'' [],
      (let details = [(''instance_architecture'', JStr architecture)] in
       if needs_graviton architecture
       then check_of ''config.graviton_release_support'' (if architecture = ''arm64'' then ''fail'' else ''warning'')
              ''Graviton compatibility cannot be evaluated because release label is missing.''
              (Some ''Set SPARKPILOT_EMR_RELEASE_LABEL and run release sync.'') details
       else passed ''config.graviton_release_support''
              ''x86_64 architecture selected; Graviton compatibility check is not required.'' details)]"

definition runtime_and_release_checks ::
    "(string \<Rightarrow> string + json) \<Rightarrow> settings \<Rightarrow> environment \<Rightarrow> database \<Rightarrow> exn + preflight_check list" where
  "runtime_and_release_checks loads s env d =
     (let label = py_strip (cfg_emr_release_label s) in emit_all
        [execution_role_config_check loads s, Inr (log_group_prefix_check s),
         (if label = [] then Inr (missing_release_label_checks (env_instance_architecture env))
          else rbind (lookup_release_row d label) (\<lambda>row. Inr
            (passed ''config.emr_release_label'' ''EMR release label is configured.''
               [(''emr_release_label'', JStr (cfg_emr_release_label s))] #
             release_currency_check label row @ graviton_support_check (env_instance_architecture env) row)))])"

subsection \<open>Budget\<close>

text \<open>\<open>int(budget * pct / 100)\<close>: the product is exact, the quotient a float.\<close>

definition threshold :: "int \<Rightarrow> int \<Rightarrow> int" where
  "threshold budget pct = trunc (f64 (of_int (budget * pct) / 100))"

definition team_budget_checks :: "time \<Rightarrow> environment \<Rightarrow> database \<Rightarrow> preflight_check list" where
  "team_budget_checks now env d =
     (let tm = team_key_for_environment env; period = billing_period now;
          base = [(''team'', JStr tm), (''period'', JStr period)]
      in case find_budget d tm of
           None \<Rightarrow> [passed ''team_budget'' ''No team budget is configured for this team.'' base]
         | Some b \<Rightarrow>
             let spend = snd (snd (team_spend_for_period d tm period));
                 warn = threshold (tb_monthly_budget_usd_micros b) (tb_warn_threshold_pct b);
                 block = threshold (tb_monthly_budget_usd_micros b) (tb_block_threshold_pct b);
                 base' = base @ [(''effective_spend_usd_micros'', JInt spend)]
             in if spend \<ge> block then
                  [failed ''team_budget'' ''Team budget block threshold exceeded for the current billing period.''
                     ''Increase team budget or reduce run volume/resource usage before submitting new runs.''
                     (base' @ [(''block_threshold_usd_micros'', JInt block)])]
                else if spend \<ge> warn then
                  [warned ''team_budget'' ''Team budget warning threshold reached for the current billing period.''
                     ''Review spend and planned workloads before submitting large runs.''
                     (base' @ [(''warn_threshold_usd_micros'', JInt warn)])]
                else
                  [passed ''team_budget'' ''Team budget check passed for the current billing period.''
                     (base' @ [(''budget_usd_micros'', JInt (tb_monthly_budget_usd_micros b))])])"

subsection \<open>Environment and configuration\<close>

definition customer_role_arn_check :: "environment \<Rightarrow> preflight_check list" where
  "customer_role_arn_check env =
     (if is_valid_iam_role_arn (env_customer_role_arn env)
      then [passed ''environment.customer_role_arn'' ''customer_role_arn looks like a valid IAM role ARN.'' []]
      else [failed ''environment.customer_role_arn'' ''customer_role_arn is not a valid IAM role ARN.''
              ''Set customer_role_arn to arn:aws:iam::<account-id>:role/<role-name>.'' []])"

definition environment_status_check :: "environment \<Rightarrow> bool \<Rightarrow> preflight_check list" where
  "environment_status_check env require_environment_ready =
     (if \<not> require_environment_ready then []
      else if env_status env = EReady then [passed ''environment.status'' ''Environment is in ready state.'' []]
      else [failed ''environment.status''
              (''Environment status is '' @ env_state_str (env_status env) @ '', expected ready.'')
              ''Wait for environment provisioning to complete before submitting runs.''
              [(''status'', JStr (env_state_str (env_status env)))]])"

definition virtual_cluster_check :: "environment \<Rightarrow> bool \<Rightarrow> preflight_check list" where
  "virtual_cluster_check env require_virtual_cluster =
     (if \<not> require_virtual_cluster then []
      else if \<not> text_empty (env_emr_virtual_cluster_id env)
      then [passed ''environment.virtual_cluster'' ''EMR virtual cluster is configured.'' []]
      else [failed ''environment.virtual_cluster'' ''EMR virtual cluster id is missing.''
              ''Ensure provisioning completed and emr_virtual_cluster_id is set.'' []])"

definition conf_or_empty :: "conf option \<Rightarrow> conf" where
  "conf_or_empty c = (case c of None \<Rightarrow> [] | Some c \<Rightarrow> c)"

definition spark_conf_policy_check :: "conf option \<Rightarrow> preflight_check list" where
  "spark_conf_policy_check spark_conf =
     (let blocked = validate_custom_spark_conf_policy (conf_or_empty spark_conf) in
      if blocked \<noteq> []
      then [failed ''run.spark_conf_policy'' ''Spark configuration includes blocked keys for this environment policy.''
              ''Remove blocked Spark keys related to Kubernetes auth/service-account overrides and retry.''
              [(''blocked_keys'', JStr (join '', '' blocked))]]
      else [passed ''run.spark_conf_policy'' ''Spark configuration policy checks passed.'' []])"

definition batch_size_key :: string where
  "batch_size_key = ''spark.kubernetes.allocation.batch.size''"

definition vpa_compat_checks :: "conf option \<Rightarrow> preflight_check list" where
  "vpa_compat_checks spark_conf =
     (case int_of_str (dget (conf_or_empty spark_conf) batch_size_key []) of
        None \<Rightarrow> []
      | Some batch_size \<Rightarrow>
          if batch_size \<le> 5 then
            [warned ''run.vpa_compat''
               (''spark.kubernetes.allocation.batch.size is set to '' @ show_int batch_size @ '', which is very low. '' @
                ''If a VPA admission controller is active in this namespace, executor pods may be '' @
                ''rejected or resized on creation, leading to allocation delays. '' @
                ''Consider raising batch size or setting VPA mode to '' @ quoted ''Off'' @ '' for Spark workloads.'')
               (''Review VPA admission controller configuration for this namespace. '' @
                ''Set VPA mode to '' @ quoted ''Off'' @ '' or '' @ quoted ''Initial'' @ '' for Spark workloads, or raise '' @
                ''spark.kubernetes.allocation.batch.size above 5.'') []]
          else [])"

definition zone_selector_key :: string where
  "zone_selector_key = ''spark.kubernetes.node.selector.topology.kubernetes.io/zone''"

definition uses_s3_express :: "conf \<Rightarrow> bool" where
  "uses_s3_express c \<longleftrightarrow> list_ex (\<lambda>(k, v). contains_sub ''s3express'' (py_lower v) \<or> contains_sub ''s3express'' (py_lower k)) c"

definition s3_express_checks :: "conf option \<Rightarrow> preflight_check list" where
  "s3_express_checks spark_conf =
     (let c = conf_or_empty spark_conf in
      if uses_s3_express c \<and> map_of c zone_selector_key = None then
        [warned ''run.s3_express_config''
           (''S3 Express shuffle detected but no AZ affinity node selector configured. '' @
            ''Set spark.kubernetes.node.selector.topology.kubernetes.io/zone to pin pods '' @
            ''to the same AZ as your S3 Express bucket to avoid cross-AZ charges.'')
           (''Add spark.kubernetes.node.selector.topology.kubernetes.io/zone=<az> '' @
            ''to your spark_conf, where <az> matches the AZ of your S3 Express bucket. '' @
            ''See docs/decisions/adr-004-s3-express-guidance.md for the full golden-path preset.'') []]
      else [])"

subsection \<open>YuniKorn queue\<close>

definition requested_vcpu :: "run \<Rightarrow> int" where
  "requested_vcpu r =
     (let res = run_requested_resources r in
      dget res ''executor_vcpu'' 0 * dget res ''executor_instances'' 0 + dget res ''driver_vcpu'' 0)"

definition queue_limit :: "environment \<Rightarrow> (string \<times> int) option" where
  "queue_limit env =
     (case (env_yunikorn_queue env, env_yunikorn_queue_max_vcpu env) of
        (Some q, Some m) \<Rightarrow> if q = [] \<or> m = 0 then None else Some (q, m)
      | _ \<Rightarrow> None)"

definition yunikorn_queue_capacity_check :: "environment \<Rightarrow> run option \<Rightarrow> preflight_check list" where
  "yunikorn_queue_capacity_check env r =
     (let code = ''yunikorn_queue_capacity'' in
      case queue_limit env of
        None \<Rightarrow> [passed code ''YuniKorn queue capacity check is not applicable.'' []]
      | Some (q, m) \<Rightarrow>
          (case r of
             None \<Rightarrow> [passed code ''YuniKorn queue is configured; per-run capacity check requires a run context.''
               [(''yunikorn_queue'', JStr q), (''queue_max_vcpu'', JInt m)]]
           | Some r \<Rightarrow>
               let details = [(''requested_vcpu'', JInt (requested_vcpu r)), (''queue_max_vcpu'', JInt m), (''yunikorn_queue'', JStr q)]
               in if requested_vcpu r > m then
                    [failed code (''Run requests '' @ show_int (requested_vcpu r) @ '' vCPU but YuniKorn queue max is '' @
                         show_int m @ ''.'')
                       (''Reduce executor_vcpu, executor_instances, or driver_vcpu, '' @
                        ''or increase yunikorn_queue_max_vcpu on the environment.'') details]
                  else [passed code ''Run vCPU request is within YuniKorn queue capacity.'' details]))"

subsection \<open>What a check without failure tells\<close>

lemma threshold_mono: "0 \<le> b \<Longrightarrow> 0 \<le> p \<Longrightarrow> 0 \<le> threshold b p"
  by (simp add: threshold_def trunc_nonneg f64_nonneg)

lemma execution_role_config_ok:
  "execution_role_config_check loads s = Inr cs \<Longrightarrow> no_failure cs \<Longrightarrow> validate_runtime_settings loads s = Inr ()"
  by (auto simp: execution_role_config_check_def Let_def split: sum.splits error.splits)

lemma customer_role_arn_ok [simp]: "no_failure (customer_role_arn_check env) \<longleftrightarrow> is_valid_iam_role_arn (env_customer_role_arn env)"
  by (simp add: customer_role_arn_check_def)

lemma environment_status_ok [simp]: "no_failure (environment_status_check env req) \<longleftrightarrow> (req \<longrightarrow> env_status env = EReady)"
  by (simp add: environment_status_check_def)

lemma virtual_cluster_ok [simp]:
  "no_failure (virtual_cluster_check env req) \<longleftrightarrow> (req \<longrightarrow> \<not> text_empty (env_emr_virtual_cluster_id env))"
  by (simp add: virtual_cluster_check_def)

lemma spark_conf_policy_ok [simp]:
  "no_failure (spark_conf_policy_check c) \<longleftrightarrow> validate_custom_spark_conf_policy (conf_or_empty c) = []"
  by (simp add: spark_conf_policy_check_def Let_def)

lemma yunikorn_ok [simp]:
  "no_failure (yunikorn_queue_capacity_check env r) \<longleftrightarrow>
     (\<forall>q m run. queue_limit env = Some (q, m) \<longrightarrow> r = Some run \<longrightarrow> requested_vcpu run \<le> m)"
  by (auto simp: yunikorn_queue_capacity_check_def Let_def split: option.splits)

lemma team_budget_ok [simp]:
  "no_failure (team_budget_checks now env d) \<longleftrightarrow>
     (\<forall>b. find_budget d (team_key_for_environment env) = Some b \<longrightarrow>
        snd (snd (team_spend_for_period d (team_key_for_environment env) (billing_period now)))
          < threshold (tb_monthly_budget_usd_micros b) (tb_block_threshold_pct b))"
  by (auto simp: team_budget_checks_def Let_def split: option.splits)

end
