(* ===== verification/SP_Credentials.thy ===== *)
theory SP_Credentials
  imports SP_Checks
begin

text \<open>
  \<open>services/iam_validation.py\<close>, the checks of \<open>services/preflight.py\<close> on the credential chain and the security
  configuration, and \<open>services/lake_formation.py\<close>. The clients of AWS are functions: a call answers a dictionary as
  the code reads it, or the exception it raises.
\<close>

record sts_services =
  sts_identity :: "exn + json dict" \<comment> \<open>\<open>get_caller_identity\<close> of the runtime\<close>
  sts_assume :: "string \<Rightarrow> string \<Rightarrow> string option \<Rightarrow> exn + json dict" \<comment> \<open>region, role, external id\<close>
  sts_session_identity :: "string \<Rightarrow> json \<Rightarrow> exn + json dict" \<comment> \<open>\<open>get_caller_identity\<close> with the credentials\<close>
  sts_error_text :: "exn \<Rightarrow> string" \<comment> \<open>the message of an error response\<close>
  env_var :: "string \<Rightarrow> string option" \<comment> \<open>\<open>os.environ\<close>\<close>

definition is_client_error :: "exn \<Rightarrow> bool" where
  "is_client_error e \<longleftrightarrow> exn_aws e \<and> exn_code e \<noteq> None"

definition client_code :: "exn \<Rightarrow> string" where
  "client_code e = (case exn_code e of None \<Rightarrow> [] | Some c \<Rightarrow> c)"

definition text_at :: "json dict \<Rightarrow> string \<Rightarrow> string" where
  "text_at d k = py_str (dget d k (JStr []))"

text \<open>\<open>str(d.get(k) or default)\<close>\<close>

definition str_or :: "json dict \<Rightarrow> string \<Rightarrow> string \<Rightarrow> string" where
  "str_or d k dflt = (let j = dget d k JNull in if truthy j then py_str j else dflt)"

definition sub_dict :: "json dict \<Rightarrow> string \<Rightarrow> json dict" where
  "sub_dict d k = (case dget d k (JObj []) of JObj kvs \<Rightarrow> kvs | _ \<Rightarrow> [])"

text \<open>\<open>s.split(':')[4]\<close>\<close>

definition index_error :: exn where
  "index_error = \<lparr>exn_class = ''IndexError'', exn_text = ''list index out of range'', exn_code = None, exn_aws = False\<rparr>"

definition arn_field_4 :: "string \<Rightarrow> exn + string" where
  "arn_field_4 arn = (let parts = split_at (CHR '':'') arn in if 4 < length parts then Inr (parts ! 4) else Inl index_error)"

subsection \<open>\<open>iam_validation.py\<close>\<close>

definition detect_credential_source :: "string \<Rightarrow> string \<Rightarrow> string" where
  "detect_credential_source arn user_id =
     (if contains_sub '':assumed-role/'' arn then
        (if contains_sub ''/i-'' user_id then ''instance_profile'' else ''task_role'')
      else if contains_sub '':user/'' arn then ''static''
      else if contains_sub '':root'' arn then ''root'' else ''unknown'')"

definition no_identity :: "string \<Rightarrow> string \<Rightarrow> json dict" where
  "no_identity source msg =
     [(''account'', JStr []), (''arn'', JStr []), (''user_id'', JStr []), (''is_assumed_role'', JBool False),
      (''is_instance_role'', JBool False), (''credential_source'', JStr source), (''valid'', JBool False), (''error'', JStr msg)]"

definition validate_runtime_identity :: "settings \<Rightarrow> sts_services \<Rightarrow> exn + json dict" where
  "validate_runtime_identity s svc =
     (if cfg_dry_run_mode s then Inr
        [(''account'', JStr ''123456789012''),
         (''arn'', JStr ''arn:aws:sts::123456789012:assumed-role/SparkPilotTaskRole/session''),
         (''user_id'', JStr ''AROAEXAMPLE:session''), (''is_assumed_role'', JBool True), (''is_instance_role'', JBool False),
         (''credential_source'', JStr ''task_role''), (''valid'', JBool True), (''mode'', JStr ''dry_run'')]
      else (case sts_identity svc of
          Inr identity \<Rightarrow>
            (let arn = text_at identity ''Arn''; user_id = text_at identity ''UserId'';
                 source = detect_credential_source arn user_id
             in Inr [(''account'', JStr (text_at identity ''Account'')), (''arn'', JStr arn), (''user_id'', JStr user_id),
                  (''is_assumed_role'', JBool (contains_sub '':assumed-role/'' arn)),
                  (''is_instance_role'', JBool (source \<in> {''task_role'', ''instance_profile''})),
                  (''credential_source'', JStr source), (''valid'', JBool True)])
        | Inl e \<Rightarrow>
            if exn_class e = ''NoCredentialsError'' then Inr (no_identity ''none'' ''No AWS credentials found in runtime environment.'')
            else if is_client_error e then Inr (no_identity ''unknown'' (exn_text e))
            else Inl e))"

definition assume_failed :: "string \<Rightarrow> string \<Rightarrow> json dict" where
  "assume_failed msg remediation =
     [(''assumed_role_arn'', JStr []), (''assumed_account'', JStr []), (''success'', JBool False), (''error'', JStr msg),
      (''remediation'', JStr remediation)]"

definition assume_error :: "sts_services \<Rightarrow> string \<Rightarrow> exn \<Rightarrow> json dict" where
  "assume_error svc role_arn e =
     (let code = client_code e; message = sts_error_text svc e in
      if code = ''AccessDenied'' then
        assume_failed (''Access denied assuming '' @ role_arn @ '': '' @ message)
          (''Update the customer role trust policy to allow the SparkPilot '' @
           ''control-plane role to assume it. Check ExternalId constraints.'')
      else if contains_sub ''is not authorized to perform: sts:AssumeRole'' message then
        assume_failed message
          (''Grant sts:AssumeRole permission to the SparkPilot runtime role, '' @ ''or update the customer role trust policy.'')
      else assume_failed (code @ '': '' @ message) ''Review IAM permissions and role trust policies.'')"

definition assume_and_identify :: "sts_services \<Rightarrow> string \<Rightarrow> string \<Rightarrow> string option \<Rightarrow> exn + json dict" where
  "assume_and_identify svc role_arn region external_id =
     rbind (sts_assume svc region role_arn external_id) (\<lambda>response.
       let assumed_arn = text_at (sub_dict response ''AssumedRoleUser'') ''Arn'' in
       rbind (if assumed_arn = [] then Inr [] else arn_field_4 assumed_arn) (\<lambda>assumed_account.
       rbind (sts_session_identity svc region (dget response ''Credentials'' JNull)) (\<lambda>identity. Inr
         [(''assumed_role_arn'', JStr assumed_arn),
          (''assumed_account'', dget identity ''Account'' (JStr assumed_account)),
          (''assumed_identity_arn'', dget identity ''Arn'' (JStr [])), (''success'', JBool True)])))"

definition validate_assume_role_chain ::
    "settings \<Rightarrow> sts_services \<Rightarrow> string \<Rightarrow> string \<Rightarrow> string option \<Rightarrow> exn + json dict" where
  "validate_assume_role_chain s svc role_arn region external_id =
     (if cfg_dry_run_mode s then
        rbind (if CHR '':'' \<in> set role_arn then arn_field_4 role_arn else Inr []) (\<lambda>account. Inr
          [(''assumed_role_arn'', JStr role_arn), (''assumed_account'', JStr account), (''success'', JBool True),
           (''mode'', JStr ''dry_run'')])
      else (let ext = py_strip (case external_id of None \<Rightarrow> cfg_assume_role_external_id s | Some x \<Rightarrow> x) in
        case assume_and_identify svc role_arn region (if ext = [] then None else Some ext) of
          Inr result \<Rightarrow> Inr result
        | Inl e \<Rightarrow> if is_client_error e then Inr (assume_error svc role_arn e) else Inl e))"

definition has_var :: "sts_services \<Rightarrow> string \<Rightarrow> bool" where
  "has_var svc k \<longleftrightarrow> \<not> text_empty (env_var svc k)"

definition check_static_credentials :: "sts_services \<Rightarrow> json dict" where
  "check_static_credentials svc =
     (let access_key = has_var svc ''AWS_ACCESS_KEY_ID''; secret_key = has_var svc ''AWS_SECRET_ACCESS_KEY'';
          session_token = has_var svc ''AWS_SESSION_TOKEN'';
          static_detected = access_key \<and> secret_key \<and> \<not> session_token
      in [(''static_credentials_detected'', JBool static_detected), (''has_access_key_env'', JBool access_key),
          (''has_secret_key_env'', JBool secret_key), (''has_session_token_env'', JBool session_token),
          (''has_profile_env'', JBool (has_var svc ''AWS_PROFILE'')), (''compliant'', JBool (\<not> static_detected)),
          (''remediation'', if static_detected
             then JStr (''Remove AWS_ACCESS_KEY_ID and AWS_SECRET_ACCESS_KEY environment variables. '' @
                        ''Use IAM task roles (ECS) or instance profiles (EC2) for runtime credentials.'')
             else JNull)])"

definition chain_entry :: "string \<Rightarrow> json \<Rightarrow> string \<Rightarrow> json" where
  "chain_entry nm ok msg = JObj [(''name'', JStr nm), (''passed'', ok), (''message'', JStr msg)]"

definition validate_full_credential_chain :: "settings \<Rightarrow> sts_services \<Rightarrow> string option \<Rightarrow> string \<Rightarrow> exn + json dict" where
  "validate_full_credential_chain s svc role_arn region =
     rbind (validate_runtime_identity s svc) (\<lambda>identity.
       let static_check = check_static_credentials svc;
           valid = dget identity ''valid'' JNull; compliant = dget static_check ''compliant'' JNull;
           entries = [chain_entry ''runtime_identity'' valid (''Runtime identity: '' @ py_str (dget identity ''arn'' (JStr ''unknown''))),
             chain_entry ''no_static_credentials'' compliant
               (if truthy compliant then ''No static AWS credentials detected'' else ''Static AWS credentials detected (anti-pattern)'')]
       in if text_empty role_arn
          then Inr [(''checks'', JArr entries), (''overall_valid'', JBool (truthy valid \<and> truthy compliant)),
                    (''runtime_identity'', JObj identity), (''static_credentials'', JObj static_check)]
          else rbind (validate_assume_role_chain s svc (the role_arn) region None) (\<lambda>res.
            let ok = dget res ''success'' JNull in Inr
              [(''checks'', JArr (entries @ [chain_entry ''assume_role_chain'' ok
                  (''AssumeRole to '' @ the role_arn @ '': '' @
                   (if truthy ok then ''success'' else py_str (dget res ''error'' (JStr ''failed''))))])),
               (''overall_valid'', JBool (truthy valid \<and> truthy compliant \<and> truthy ok)),
               (''runtime_identity'', JObj identity), (''static_credentials'', JObj static_check), (''assume_role'', JObj res)]))"

subsection \<open>The checks of the preflight\<close>

definition iam_credential_chain_checks :: "settings \<Rightarrow> sts_services \<Rightarrow> environment \<Rightarrow> exn + preflight_check list" where
  "iam_credential_chain_checks s svc env =
     rbind (validate_runtime_identity s svc) (\<lambda>identity.
       if \<not> truthy (dget identity ''valid'' JNull)
       then Inr [failed ''iam.runtime_identity'' (py_str (dget identity ''error'' (JStr ''Unable to resolve runtime identity.'')))
              ''Ensure the runtime environment has valid AWS credentials (task role, instance profile).'' []]
       else
         (let head_check = passed ''iam.runtime_identity''
                (''Runtime identity resolved: '' @ py_str (dget identity ''credential_source'' (JStr ''unknown'')) @ ''.'')
                [(''arn'', dget identity ''arn'' (JStr [])), (''credential_source'', dget identity ''credential_source'' (JStr []))];
              static_check = check_static_credentials svc;
              static_checks = (if truthy (dget static_check ''compliant'' JNull) then []
                else [check_of ''iam.no_static_credentials'' ''warning'' ''Static AWS credentials detected in environment variables.''
                        (Some (text_at static_check ''remediation'')) []]);
              ext = py_strip (cfg_assume_role_external_id s)
          in if env_customer_role_arn env = [] then Inr (head_check # static_checks)
             else rbind (validate_assume_role_chain s svc (env_customer_role_arn env) (env_region env)
                    (if ext = [] then None else Some ext)) (\<lambda>res. Inr (head_check # static_checks @
               [if truthy (dget res ''success'' JNull)
                then passed ''iam.assume_role_chain'' ''Successfully assumed customer role.''
                  [(''customer_role_arn'', JStr (env_customer_role_arn env)),
                   (''assumed_account'', JStr (text_at res ''assumed_account'')),
                   (''external_id_configured'', JBool (ext \<noteq> []))]
                else failed ''iam.assume_role_chain'' (py_str (dget res ''error'' (JStr ''Failed to assume customer role.'')))
                  (py_str (dget res ''remediation'' (JStr ''Review IAM role trust policy.'')))
                  [(''customer_role_arn'', JStr (env_customer_role_arn env)), (''external_id_configured'', JBool (ext \<noteq> []))]]))))"

text \<open>\<open>describe\<close> is \<open>EmrEksClient.describe_security_configuration\<close>.\<close>

definition security_configuration_checks ::
    "(environment \<Rightarrow> string \<Rightarrow> exn + json dict) \<Rightarrow> environment \<Rightarrow> exn + preflight_check list" where
  "security_configuration_checks describe env =
     (if text_empty (env_security_configuration_id env) then Inr []
      else (let sid = the (env_security_configuration_id env) in
        case describe env sid of
          Inr res \<Rightarrow> Inr [passed ''emr.security_configuration''
            (''Security configuration '' @ quoted (py_str (dget res ''name'' (JStr sid))) @ '' exists and is accessible.'')
            [(''security_configuration_id'', JStr sid), (''name'', JStr (text_at res ''name''))]]
        | Inl e \<Rightarrow>
            if is_value_error e
            then Inr [failed ''emr.security_configuration'' (exn_text e)
              (''Verify the security configuration ID is correct and the customer role '' @
               ''has emr-containers:DescribeSecurityConfiguration permission.'')
              [(''security_configuration_id'', JStr sid)]]
            else Inl e))"

definition describe_security_configuration ::
    "settings \<Rightarrow> (environment \<Rightarrow> string \<Rightarrow> exn + json dict) \<Rightarrow> environment \<Rightarrow> string \<Rightarrow> exn + json dict" where
  "describe_security_configuration s describe env sid =
     (if cfg_dry_run_mode s then Inr
        [(''id'', JStr sid), (''name'', JStr (''dry-run-secconfig-'' @ take 8 sid)),
         (''securityConfigurationData'', JObj []), (''mode'', JStr ''dry_run'')]
      else (case describe env sid of
          Inr resp \<Rightarrow>
            (let sc = sub_dict resp ''securityConfiguration'' in Inr
              [(''id'', dget sc ''id'' (JStr sid)), (''name'', dget sc ''name'' (JStr [])), (''arn'', dget sc ''arn'' (JStr [])),
               (''securityConfigurationData'', dget sc ''securityConfigurationData'' (JObj [])),
               (''createdAt'', JStr (text_at sc ''createdAt''))])
        | Inl e \<Rightarrow>
            if \<not> is_client_error e then Inl e
            else if client_code e = ''ResourceNotFoundException''
            then Inl (value_error (''Security configuration '' @ quoted sid @ '' not found.''))
            else if client_code e \<in> {''AccessDeniedException'', ''AccessDenied''}
            then Inl (value_error (''Access denied describing security configuration. '' @
              ''Grant emr-containers:DescribeSecurityConfiguration.''))
            else Inl e))"

end
