(* ===== verification/SP_DispatchGate.thy ===== *)
theory SP_DispatchGate
  imports SP_Credentials
begin

text \<open>
  \<open>services/preflight_checks.py\<close>: the gate before a dispatch. Four checks in a fixed order; when one fails, the ones
  after it are skipped with a warning. A check answers what it adds and whether the next one may run.
\<close>

record dispatch_services =
  iam_simulate :: "environment \<Rightarrow> string \<Rightarrow> string list \<Rightarrow> string list \<Rightarrow> exn + json dict list"
    \<comment> \<open>\<open>EvaluationResults\<close> for principal, actions and resources, in a session of the environment\<close>
  eks_describe :: "environment \<Rightarrow> string \<Rightarrow> exn + json dict" \<comment> \<open>\<open>describe_cluster\<close> by name\<close>
  emr_check_trust :: "bool \<Rightarrow> environment \<Rightarrow> exn + json dict"
    \<comment> \<open>\<open>check_execution_role_trust_policy\<close>, before or after an update of the policy\<close>

definition sts_code :: string where "sts_code = ''issue3.sts_caller_identity''"
definition simulate_code :: string where "simulate_code = ''issue3.iam_simulate_principal_policy''"
definition describe_code :: string where "describe_code = ''issue3.eks_describe_cluster''"
definition irsa_code :: string where "irsa_code = ''issue3.irsa_trust_subject''"

definition dispatch_simulation_actions :: "string list" where
  "dispatch_simulation_actions =
     [''emr-containers:StartJobRun'', ''emr-containers:DescribeJobRun'', ''emr-containers:CancelJobRun'']"

definition skipped :: "string \<Rightarrow> string \<Rightarrow> preflight_check" where
  "skipped code message = check_of code ''warning'' message None []"

lemma skipped_sel [simp]: "ck_code (skipped c m) = c" "ck_status (skipped c m) = ''warning''"
  by (simp_all add: skipped_def)

definition access_denied :: "exn \<Rightarrow> bool" where
  "access_denied e \<longleftrightarrow> is_client_error e \<and> client_code e \<in> {''AccessDeniedException'', ''AccessDenied'', ''UnauthorizedOperation''}"

definition resolved_external_id :: "settings \<Rightarrow> environment \<Rightarrow> string \<times> string" where
  "resolved_external_id s env =
     (let own = py_strip (case env_assume_role_external_id env of None \<Rightarrow> [] | Some x \<Rightarrow> x);
          global = py_strip (cfg_assume_role_external_id s)
      in if own \<noteq> [] then (own, ''environment'') else if global \<noteq> [] then (global, ''global'') else ([], ''none''))"

definition sts_caller_identity_check :: "settings \<Rightarrow> sts_services \<Rightarrow> environment \<Rightarrow> exn + preflight_check \<times> bool" where
  "sts_caller_identity_check s sts env =
     (if env_customer_role_arn env = [] then Inr
        (failed sts_code ''customer_role_arn is required before running sts:GetCallerIdentity.''
           ''Set customer_role_arn to arn:aws:iam::<account-id>:role/<role-name>.'' [], False)
      else (case resolved_external_id s env of (ext, source) \<Rightarrow>
        rbind (validate_assume_role_chain s sts (env_customer_role_arn env) (env_region env) (if ext = [] then None else Some ext))
          (\<lambda>res. Inr
            (if truthy (dget res ''success'' JNull) then
               (passed sts_code ''sts:GetCallerIdentity succeeded for assumed customer role session.''
                  [(''assumed_identity_arn'', JStr (str_or res ''assumed_identity_arn'' (str_or res ''assumed_role_arn'' []))),
                   (''assumed_account'', JStr (str_or res ''assumed_account'' [])),
                   (''external_id_configured'', JBool (ext \<noteq> [])), (''external_id_source'', JStr source)], True)
             else
               (failed sts_code (str_or res ''error'' ''Unable to validate caller identity for customer role.'')
                  (str_or res ''remediation''
                     ''Grant sts:AssumeRole for the runtime principal and verify customer role trust policy.'')
                  [(''customer_role_arn'', JStr (env_customer_role_arn env)), (''external_id_configured'', JBool (ext \<noteq> [])),
                   (''external_id_source'', JStr source)], False)))))"

definition is_allowed :: "json dict \<Rightarrow> bool" where
  "is_allowed res \<longleftrightarrow> py_lower (str_or res ''EvalDecision'' []) = ''allowed''"

definition first_result :: "json dict list \<Rightarrow> json dict" where
  "first_result rs = (case rs of [] \<Rightarrow> [] | r # _ \<Rightarrow> r)"

definition denied_actions :: "json dict list \<Rightarrow> json dict list \<Rightarrow> json dict list \<Rightarrow> string list" where
  "denied_actions dispatch describe pass_role =
     map (\<lambda>r. str_or r ''EvalActionName'' []) (filter (\<lambda>r. \<not> is_allowed r) dispatch) @
     (if is_allowed (first_result describe) then [] else [''eks:DescribeCluster'']) @
     (if is_allowed (first_result pass_role) then [] else [''iam:PassRole''])"

definition simulate_all ::
    "dispatch_services \<Rightarrow> environment \<Rightarrow> string \<Rightarrow> exn + json dict list \<times> json dict list \<times> json dict list" where
  "simulate_all svc env role_arn =
     (let sim = iam_simulate svc env (env_customer_role_arn env) in
      rbind (sim dispatch_simulation_actions [''*'']) (\<lambda>a.
      rbind (sim [''eks:DescribeCluster''] [case env_eks_cluster_arn env of None \<Rightarrow> [] | Some x \<Rightarrow> x]) (\<lambda>b.
      rbind (sim [''iam:PassRole''] [role_arn]) (\<lambda>c. Inr (a, b, c)))))"

definition iam_simulation_check :: "settings \<Rightarrow> dispatch_services \<Rightarrow> environment \<Rightarrow> exn + preflight_check \<times> bool" where
  "iam_simulation_check s svc env =
     (let role_arn = py_strip (cfg_emr_execution_role_arn s) in
      if cfg_dry_run_mode s then Inr
        (passed simulate_code ''iam:SimulatePrincipalPolicy checks skipped in dry_run mode.'' [(''mode'', JStr ''dry_run'')], True)
      else if role_arn = [] then Inr
        (failed simulate_code ''SPARKPILOT_EMR_EXECUTION_ROLE_ARN is empty; cannot validate iam:PassRole simulation.''
           ''Set SPARKPILOT_EMR_EXECUTION_ROLE_ARN to a valid IAM role ARN and retry preflight.'' [], False)
      else if text_empty (env_eks_cluster_arn env) then Inr
        (failed simulate_code ''eks_cluster_arn is required before simulating eks:DescribeCluster permissions.''
           ''Set eks_cluster_arn to the target customer EKS cluster ARN and retry preflight.'' [], False)
      else (case simulate_all svc env role_arn of
          Inl e \<Rightarrow>
            if access_denied e then Inr
              (failed simulate_code ''Access denied while running iam:SimulatePrincipalPolicy for dispatch prerequisites.''
                 (''Grant customer_role_arn iam:SimulatePrincipalPolicy, or validate StartJobRun/PassRole/'' @
                  ''DescribeCluster permissions manually.'') [], False)
            else Inl e
        | Inr (a, b, c) \<Rightarrow>
            (let denied = denied_actions a b c in Inr
             (if denied \<noteq> [] then
                (failed simulate_code ''Required dispatch permissions are denied by IAM policy simulation.''
                   (''Allow emr-containers:StartJobRun/DescribeJobRun/CancelJobRun, eks:DescribeCluster, '' @
                    ''and iam:PassRole on the execution role for customer_role_arn.'')
                   [(''denied_actions'', JStr (join '', '' (sort (remdups denied)))), (''execution_role_arn'', JStr role_arn)], False)
              else
                (passed simulate_code ''iam:SimulatePrincipalPolicy allows dispatch-required actions and iam:PassRole.''
                   [(''simulated_actions'', JStr (join '', '' (dispatch_simulation_actions @ [''eks:DescribeCluster'', ''iam:PassRole'']))),
                    (''execution_role_arn'', JStr role_arn)], True)))))"

text \<open>\<open>cluster_arn.split('cluster/', maxsplit=1)[1]\<close>\<close>

fun after_marker :: "string \<Rightarrow> string \<Rightarrow> string option" where
  "after_marker marker s =
     (if prefix marker s then Some (drop (length marker) s)
      else (case s of [] \<Rightarrow> None | _ # cs \<Rightarrow> after_marker marker cs))"

declare after_marker.simps [simp del]

definition eks_cluster_name_from_arn :: "string \<Rightarrow> exn + string" where
  "eks_cluster_name_from_arn arn =
     (case after_marker ''cluster/'' arn of None \<Rightarrow> Inl (value_error ''Invalid EKS cluster ARN.'') | Some nm \<Rightarrow> Inr nm)"

definition cluster_checks :: "environment \<Rightarrow> string \<Rightarrow> json dict \<Rightarrow> preflight_check \<times> bool" where
  "cluster_checks env cluster_name cluster =
     (let status = str_or cluster ''status'' ''UNKNOWN'';
          issuer = str_or (sub_dict (sub_dict cluster ''identity'') ''oidc'') ''issuer'' [];
          arn = str_or cluster ''arn'' [];
          details = [(''cluster_arn'', JStr arn), (''cluster_status'', JStr status)]
      in if status \<noteq> ''ACTIVE'' then
           (failed describe_code (''EKS cluster '' @ quoted cluster_name @ '' status is '' @ status @ '', expected ACTIVE.'')
              ''Wait for cluster to become ACTIVE before submitting Spark runs.'' details, False)
         else if issuer = [] then
           (failed describe_code
              (''EKS cluster '' @ quoted cluster_name @ '' does not expose an OIDC issuer in DescribeCluster response.'')
              (''Associate an IAM OIDC provider for the cluster, then retry preflight. Example: '' @
               ''eksctl utils associate-iam-oidc-provider --cluster '' @ cluster_name @ '' --region '' @ env_region env @ '' --approve'')
              details, False)
         else
           (passed describe_code ''eks:DescribeCluster succeeded and returned ACTIVE cluster with OIDC issuer.''
              ((''cluster_name'', JStr cluster_name) # details @ [(''oidc_issuer'', JStr issuer)]), True))"

definition eks_describe_cluster_check :: "settings \<Rightarrow> dispatch_services \<Rightarrow> environment \<Rightarrow> exn + preflight_check \<times> bool" where
  "eks_describe_cluster_check s svc env =
     (if text_empty (env_eks_cluster_arn env) then Inr
        (failed describe_code ''eks_cluster_arn is required before running eks:DescribeCluster.''
           ''Set eks_cluster_arn to the target customer EKS cluster ARN and retry preflight.'' [], False)
      else if cfg_dry_run_mode s then Inr
        (passed describe_code ''eks:DescribeCluster checks skipped in dry_run mode.'' [(''mode'', JStr ''dry_run'')], True)
      else
        rbind (eks_cluster_name_from_arn (the (env_eks_cluster_arn env))) (\<lambda>cluster_name.
          case eks_describe svc env cluster_name of
            Inr cluster \<Rightarrow> Inr (cluster_checks env cluster_name cluster)
          | Inl e \<Rightarrow>
              if access_denied e then Inr
                (failed describe_code ''Access denied while calling eks:DescribeCluster for preflight gating.''
                   ''Grant customer_role_arn eks:DescribeCluster on the target cluster and retry.''
                   [(''cluster_name'', JStr cluster_name)], False)
              else if is_client_error e \<and> client_code e = ''ResourceNotFoundException'' then Inr
                (failed describe_code (''EKS cluster '' @ quoted cluster_name @ '' was not found.'')
                   (''Verify eks_cluster_arn/cluster name is correct, the cluster exists, and customer_role_arn can access it.'')
                   [(''cluster_name'', JStr cluster_name)], False)
              else Inl e))"

definition irsa_subject_check :: "dispatch_services \<Rightarrow> environment \<Rightarrow> exn + preflight_check \<times> bool" where
  "irsa_subject_check svc env =
     (case emr_check_trust svc False env of
        Inr trust \<Rightarrow> Inr
          (passed irsa_code
             ''IRSA trust policy includes required web-identity principal and service-account subject pattern.''
             [(''provider_arn'', JStr (str_or trust ''provider_arn'' [])),
              (''service_account_pattern'', JStr (str_or trust ''service_account_pattern'' [])),
              (''role_name'', JStr (str_or trust ''role_name'' []))], True)
      | Inl e \<Rightarrow>
          if is_value_error e then Inr
            (failed irsa_code (exn_text e)
               (''Ensure execution role trust policy contains sts:AssumeRoleWithWebIdentity with '' @
                ''the expected OIDC provider and SparkPilot EMR service-account subject pattern.'') [], False)
          else Inl e)"

definition skip_all :: "string list \<Rightarrow> string \<Rightarrow> preflight_check list" where
  "skip_all codes message = map (\<lambda>c. skipped c message) codes"

text \<open>Run a check, then the rest of the gate if it is ready, else the skipped checks.\<close>

definition gate_step :: "exn + preflight_check \<times> bool \<Rightarrow> exn + preflight_check list \<Rightarrow> preflight_check list \<Rightarrow> exn + preflight_check list" where
  "gate_step check rest skips =
     rbind check (\<lambda>(c, ready). if ready then rbind rest (\<lambda>cs. Inr (c # cs)) else Inr (c # skips))"

definition dispatch_gate_checks ::
    "settings \<Rightarrow> sts_services \<Rightarrow> dispatch_services \<Rightarrow> environment \<Rightarrow> exn + preflight_check list" where
  "dispatch_gate_checks s sts svc env =
     (if env_engine env \<noteq> ''emr_on_eks'' \<or> env_provisioning_mode env \<noteq> ''byoc_lite'' then Inr []
      else
        gate_step (sts_caller_identity_check s sts env)
          (gate_step (iam_simulation_check s svc env)
             (gate_step (eks_describe_cluster_check s svc env)
                (gate_step (irsa_subject_check svc env) (Inr []) [])
                (skip_all [irsa_code] ''Skipped because eks:DescribeCluster failed.''))
             (skip_all [describe_code, irsa_code]
                ''Skipped because iam:SimulatePrincipalPolicy failed or required actions were denied.''))
          (skip_all [simulate_code, describe_code, irsa_code] ''Skipped because sts:GetCallerIdentity failed.''))"

subsection \<open>The gate fails closed\<close>

definition ready_iff_passed :: "exn + preflight_check \<times> bool \<Rightarrow> bool" where
  "ready_iff_passed r \<longleftrightarrow> (case r of Inl e \<Rightarrow> True | Inr (c, ready) \<Rightarrow> ck_status c = (if ready then ''pass'' else ''fail''))"

lemma ready_simps [simp]:
  "ready_iff_passed (Inl e)" "ready_iff_passed (Inr (c, b)) \<longleftrightarrow> ck_status c = (if b then ''pass'' else ''fail'')"
  by (simp_all add: ready_iff_passed_def)

lemma ready_if [simp]: "ready_iff_passed a \<Longrightarrow> ready_iff_passed b \<Longrightarrow> ready_iff_passed (if p then a else b)"
  by simp

lemma ready_Inr_if [simp]:
  "ready_iff_passed (Inr a) \<Longrightarrow> ready_iff_passed (Inr b) \<Longrightarrow> ready_iff_passed (Inr (if p then a else b))"
  by simp

lemma ready_rbind [simp]: "(\<And>x. ready_iff_passed (f x)) \<Longrightarrow> ready_iff_passed (rbind m f)"
  by (simp add: rbind_def split: sum.splits)

lemma sts_ready: "ready_iff_passed (sts_caller_identity_check s sts env)"
  unfolding sts_caller_identity_check_def
  by (intro ready_if) (simp_all only: split_beta ready_simps check_sel if_False if_True ready_rbind ready_Inr_if)

lemma simulation_ready: "ready_iff_passed (iam_simulation_check s svc env)"
  unfolding iam_simulation_check_def Let_def
  by (intro ready_if) (simp_all only: ready_simps check_sel if_False if_True ready_Inr_if ready_if simp_thms split: sum.splits prod.splits)

lemma cluster_ready: "ready_iff_passed (Inr (cluster_checks env nm cl))"
  unfolding cluster_checks_def Let_def
  by (simp only: ready_simps check_sel if_False if_True ready_Inr_if)

lemma describe_ready: "ready_iff_passed (eks_describe_cluster_check s svc env)"
  unfolding eks_describe_cluster_check_def
  by (intro ready_if ready_rbind)
    (simp_all only: cluster_ready ready_simps check_sel if_False if_True ready_Inr_if ready_if simp_thms split: sum.splits)

lemma irsa_ready: "ready_iff_passed (irsa_subject_check svc env)"
  unfolding irsa_subject_check_def
  by (simp only: ready_simps check_sel if_False if_True ready_if simp_thms split: sum.splits)

lemma gate_step_ok:
  assumes "gate_step check rest skips = Inr cs" "ready_iff_passed check" "no_failure cs"
  shows "\<exists>c cs'. check = Inr (c, True) \<and> rest = Inr cs' \<and> cs = c # cs' \<and> no_failure cs'"
  using assms by (auto simp: gate_step_def rbind_Inr_iff ready_iff_passed_def split: if_splits)

lemma dispatch_gate_ok:
  assumes run: "dispatch_gate_checks s sts svc env = Inr cs" and ok: "no_failure cs"
    and eks: "env_engine env = ''emr_on_eks''" "env_provisioning_mode env = ''byoc_lite''"
  shows "\<exists>c. sts_caller_identity_check s sts env = Inr (c, True)" "\<exists>c. iam_simulation_check s svc env = Inr (c, True)"
    "\<exists>c. eks_describe_cluster_check s svc env = Inr (c, True)" "\<exists>c. irsa_subject_check svc env = Inr (c, True)"
proof -
  from run eks have g: "gate_step (sts_caller_identity_check s sts env)
          (gate_step (iam_simulation_check s svc env)
             (gate_step (eks_describe_cluster_check s svc env)
                (gate_step (irsa_subject_check svc env) (Inr []) [])
                (skip_all [irsa_code] ''Skipped because eks:DescribeCluster failed.''))
             (skip_all [describe_code, irsa_code]
                ''Skipped because iam:SimulatePrincipalPolicy failed or required actions were denied.''))
          (skip_all [simulate_code, describe_code, irsa_code] ''Skipped because sts:GetCallerIdentity failed.'') = Inr cs"
    by (simp add: dispatch_gate_checks_def)
  from gate_step_ok [OF g sts_ready ok] obtain c1 r1 where 1: "sts_caller_identity_check s sts env = Inr (c1, True)"
    and g1: "gate_step (iam_simulation_check s svc env)
             (gate_step (eks_describe_cluster_check s svc env)
                (gate_step (irsa_subject_check svc env) (Inr []) [])
                (skip_all [irsa_code] ''Skipped because eks:DescribeCluster failed.''))
             (skip_all [describe_code, irsa_code]
                ''Skipped because iam:SimulatePrincipalPolicy failed or required actions were denied.'') = Inr r1"
    and n1: "no_failure r1" by blast
  from gate_step_ok [OF g1 simulation_ready n1] obtain c2 r2 where 2: "iam_simulation_check s svc env = Inr (c2, True)"
    and g2: "gate_step (eks_describe_cluster_check s svc env)
                (gate_step (irsa_subject_check svc env) (Inr []) [])
                (skip_all [irsa_code] ''Skipped because eks:DescribeCluster failed.'') = Inr r2"
    and n2: "no_failure r2" by blast
  from gate_step_ok [OF g2 describe_ready n2] obtain c3 r3 where 3: "eks_describe_cluster_check s svc env = Inr (c3, True)"
    and g3: "gate_step (irsa_subject_check svc env) (Inr []) [] = Inr r3" and n3: "no_failure r3" by blast
  from gate_step_ok [OF g3 irsa_ready n3] obtain c4 where 4: "irsa_subject_check svc env = Inr (c4, True)" by blast
  show "\<exists>c. sts_caller_identity_check s sts env = Inr (c, True)" "\<exists>c. iam_simulation_check s svc env = Inr (c, True)"
    "\<exists>c. eks_describe_cluster_check s svc env = Inr (c, True)" "\<exists>c. irsa_subject_check svc env = Inr (c, True)"
    using 1 2 3 4 by blast+
qed

text \<open>A gate that is ready outside dry-run mode allows every dispatch action.\<close>

lemma simulation_allows:
  assumes "iam_simulation_check s svc env = Inr (c, True)" "\<not> cfg_dry_run_mode s"
  shows "\<exists>a b p. simulate_all svc env (py_strip (cfg_emr_execution_role_arn s)) = Inr (a, b, p) \<and>
    (\<forall>r \<in> set a. is_allowed r) \<and> is_allowed (first_result b) \<and> is_allowed (first_result p)"
  using assms
  by (auto simp: iam_simulation_check_def denied_actions_def Let_def filter_empty_conv split: if_splits sum.splits)

text \<open>What the passed steps of the gate say outside dry-run mode.\<close>

lemma describe_cluster_ok:
  assumes "eks_describe_cluster_check s svc env = Inr (c, True)" "\<not> cfg_dry_run_mode s"
  shows "\<exists>name cluster. eks_cluster_name_from_arn (the (env_eks_cluster_arn env)) = Inr name \<and>
    eks_describe svc env name = Inr cluster \<and> str_or cluster ''status'' ''UNKNOWN'' = ''ACTIVE'' \<and>
    str_or (sub_dict (sub_dict cluster ''identity'') ''oidc'') ''issuer'' [] \<noteq> []"
proof -
  obtain name where n: "eks_cluster_name_from_arn (the (env_eks_cluster_arn env)) = Inr name"
    using assms by (auto simp: eks_describe_cluster_check_def rbind_Inr_iff split: if_splits)
  have "\<not> text_empty (env_eks_cluster_arn env)" using assms by (auto simp: eks_describe_cluster_check_def)
  note run = assms(1) [unfolded eks_describe_cluster_check_def n rbind_simps if_not_P [OF this] if_not_P [OF assms(2)]]
  then obtain cluster where cl: "eks_describe svc env name = Inr cluster"
    by (cases "eks_describe svc env name") (simp_all split: if_splits)
  then have "cluster_checks env name cluster = (c, True)" using run by simp
  then show ?thesis using n cl by (auto simp: cluster_checks_def Let_def split: if_splits)
qed

lemma assume_chain_succeeds:
  assumes "validate_assume_role_chain s sts arn region ext = Inr res" "truthy (dget res ''success'' JNull)" "\<not> cfg_dry_run_mode s"
    and x: "py_strip (case ext of None \<Rightarrow> cfg_assume_role_external_id s | Some x \<Rightarrow> x) = x"
  shows "assume_and_identify sts arn region (if x = [] then None else Some x) = Inr res"
proof -
  have "\<not> truthy (dget (assume_error sts a e) ''success'' JNull)" for a e
    by (simp add: assume_error_def Let_def assume_failed_def dget_def)
  then show ?thesis using assms by (auto simp: validate_assume_role_chain_def Let_def split: sum.splits if_splits)
qed

lemma sts_gate_assumes:
  assumes "sts_caller_identity_check s sts env = Inr (c, True)" "\<not> cfg_dry_run_mode s"
  shows "\<exists>res. assume_and_identify sts (env_customer_role_arn env) (env_region env)
    (let x = fst (resolved_external_id s env) in if x = [] then None else Some x) = Inr res"
proof -
  obtain x src where x: "resolved_external_id s env = (x, src)" by force
  obtain res where res: "validate_assume_role_chain s sts (env_customer_role_arn env) (env_region env) (if x = [] then None else Some x) = Inr res"
      "truthy (dget res ''success'' JNull)"
    using assms(1) by (auto simp: sts_caller_identity_check_def x rbind_Inr_iff split: if_splits)
  have "py_strip (case if x = [] then None else Some x of None \<Rightarrow> cfg_assume_role_external_id s | Some x \<Rightarrow> x) = x"
    using x by (auto simp: resolved_external_id_def Let_def py_strip_idem split: if_splits)
  from assume_chain_succeeds [OF res assms(2) this] show ?thesis by (simp add: x Let_def)
qed

end
