(* ===== verification/SP_Byoc.thy ===== *)
theory SP_Byoc
  imports SP_DispatchGate
begin

text \<open>
  \<open>services/preflight_byoc.py\<close>: the checks of an environment in the customer's own cluster. The configuration comes
  first; the cloud is asked only when all of it is in order, and otherwise every check of the cloud is reported as
  skipped. The client \<open>EmrEksClient\<close> is a record of functions.
\<close>

record emr_services = dispatch_services +
  emr_oidc_association :: "environment \<Rightarrow> exn + json dict"
  emr_update_trust :: "environment \<Rightarrow> exn + json dict"
  emr_pod_identity :: "environment \<Rightarrow> exn + json dict"
  emr_access_mode :: "environment \<Rightarrow> exn + json dict"
  emr_dispatch_permissions :: "environment \<Rightarrow> exn + json dict"
  emr_find_collision :: "environment \<Rightarrow> exn + json dict option"
  emr_nodegroups :: "environment \<Rightarrow> exn + json dict list"

subsection \<open>Constants\<close>

definition byoc_lite_customer_role_required_actions :: "string list" where
  "byoc_lite_customer_role_required_actions =
     [''emr-containers:ListVirtualClusters'', ''emr-containers:CreateVirtualCluster'', ''emr-containers:UpdateRoleTrustPolicy'',
      ''emr-containers:StartJobRun'', ''emr-containers:DescribeJobRun'', ''emr-containers:CancelJobRun'', ''eks:DescribeCluster'',
      ''iam:GetOpenIDConnectProvider'', ''iam:GetRole'', ''iam:SimulatePrincipalPolicy'', ''iam:UpdateAssumeRolePolicy'',
      ''iam:PassRole'', ''logs:DescribeLogGroups'', ''logs:DescribeLogStreams'', ''logs:FilterLogEvents'', ''logs:GetLogEvents'']"

definition reserved_byoc_lite_namespaces :: "string list" where
  "reserved_byoc_lite_namespaces = [''default'', ''kube-system'', ''kube-public'', ''kube-node-lease'']"

definition byoc_lite_execution_role_required_actions :: "string list" where
  "byoc_lite_execution_role_required_actions =
     [''s3:GetObject'', ''s3:PutObject'', ''logs:CreateLogGroup'', ''logs:CreateLogStream'', ''logs:PutLogEvents'',
      ''sts:AssumeRoleWithWebIdentity'']"

definition spot_selector_conf_keys :: "string list" where
  "spot_selector_conf_keys =
     [''spark.kubernetes.executor.node.selector.eks.amazonaws.com/capacityType'',
      ''spark.kubernetes.executor.node.selector.karpenter.sh/capacity-type'']"

definition spot_toleration_hints :: "string list" where
  "spot_toleration_hints = [''spot'', ''capacity-type'', ''capacitytype'']"

subsection \<open>Patterns\<close>

definition is_lower :: "char \<Rightarrow> bool" where
  "is_lower c \<longleftrightarrow> is_alpha c \<and> lower_char c = c"

text \<open>A final newline, which \<open>$\<close> ignores.\<close>

definition chomp :: "string \<Rightarrow> string" where
  "chomp s = (if s \<noteq> [] \<and> last s = newline_char then butlast s else s)"

text \<open>\<open>^[a-z0-9](?:[-a-z0-9]{0,61}[a-z0-9])?$\<close>\<close>

definition k8s_alnum :: "char \<Rightarrow> bool" where
  "k8s_alnum c \<longleftrightarrow> is_lower c \<or> is_digit c"

definition k8s_namespace_match :: "string \<Rightarrow> bool" where
  "k8s_namespace_match s =
     (let t = chomp s in t \<noteq> [] \<and> length t \<le> 63 \<and> k8s_alnum (hd t) \<and> k8s_alnum (last t) \<and>
        list_all (\<lambda>c. k8s_alnum c \<or> c = CHR ''-'') t)"

text \<open>\<open>^arn:aws[a-zA-Z-]*:eks:[a-z0-9-]+:\d{12}:cluster/[A-Za-z0-9][A-Za-z0-9-_]{0,99}$\<close>: six fields between colons.\<close>

definition aws_partition :: "string \<Rightarrow> bool" where
  "aws_partition s \<longleftrightarrow> prefix ''aws'' s \<and> list_all (\<lambda>c. is_alpha c \<or> c = CHR ''-'') (drop 3 s)"

definition account_number :: "string \<Rightarrow> bool" where
  "account_number s \<longleftrightarrow> length s = 12 \<and> list_all is_digit s"

definition eks_cluster_arn_match :: "string \<Rightarrow> bool" where
  "eks_cluster_arn_match s =
     (case split_at (CHR '':'') (chomp s) of
        [a, part, service, region, account, res] \<Rightarrow>
          a = ''arn'' \<and> aws_partition part \<and> service = ''eks'' \<and>
          region \<noteq> [] \<and> list_all (\<lambda>c. k8s_alnum c \<or> c = CHR ''-'') region \<and> account_number account \<and>
          (case drop_prefix ''cluster/'' res of
             None \<Rightarrow> False
           | Some nm \<Rightarrow> nm \<noteq> [] \<and> length nm \<le> 100 \<and> (is_alpha (hd nm) \<or> is_digit (hd nm)) \<and>
               list_all (\<lambda>c. is_alpha c \<or> is_digit c \<or> c \<in> {CHR ''-'', CHR ''_''}) nm)
      | _ \<Rightarrow> False)"

definition arn_field :: "nat \<Rightarrow> string option \<Rightarrow> string option" where
  "arn_field i arn =
     (if text_empty arn then None
      else let parts = split_at (CHR '':'') (the arn) in if length parts < 6 then None else Some (parts ! i))"

definition arn_account_id :: "string option \<Rightarrow> string option" where
  "arn_account_id arn = arn_field 4 arn"

definition eks_cluster_region :: "string option \<Rightarrow> string option" where
  "eks_cluster_region arn = arn_field 3 arn"

text \<open>A JSON document in a shell command; its double quotes are written as backquotes here.\<close>

definition json_quotes :: "string \<Rightarrow> string" where
  "json_quotes s = map (\<lambda>c. if c = CHR 0x60 then CHR 0x22 else c) s"

definition dispatch_policy_remediation_command :: "string \<Rightarrow> string" where
  "dispatch_policy_remediation_command role =
     ''aws iam put-role-policy '' @ ''--role-name '' @ role @ '' '' @ ''--policy-name SparkPilotByocLiteDispatch '' @
     ''--policy-document '' @ quoted (json_quotes
       (''{`Version`:`2012-10-17`,`Statement`:[{`Effect`:`Allow`,`Action`:[`emr-containers:StartJobRun`,'' @
        ''`emr-containers:DescribeJobRun`,`emr-containers:CancelJobRun`],`Resource`:`*`}]}''))"

definition pass_role_policy_remediation_command :: "string \<Rightarrow> string \<Rightarrow> string" where
  "pass_role_policy_remediation_command role execution_role_arn =
     ''aws iam put-role-policy '' @ ''--role-name '' @ role @ '' '' @ ''--policy-name SparkPilotByocLitePassRole '' @
     ''--policy-document '' @ quoted (json_quotes
       ''{`Version`:`2012-10-17`,`Statement`:[{`Effect`:`Allow`,`Action`:[`iam:PassRole`],`Resource`:[`'' @
       execution_role_arn @ json_quotes ''`]}]}'')"

definition preflight_auto_trust_update_enabled :: "(string \<Rightarrow> string option) \<Rightarrow> bool" where
  "preflight_auto_trust_update_enabled getenv =
     (let v = py_lower (py_strip (case getenv ''SPARKPILOT_PREFLIGHT_AUTOFIX_TRUST_POLICY'' of None \<Rightarrow> ''true'' | Some x \<Rightarrow> x))
      in v \<notin> {''0'', ''false'', ''no'', ''off''})"

subsection \<open>Spot settings of the configuration\<close>

definition has_spot_selector :: "conf option \<Rightarrow> bool" where
  "has_spot_selector c \<longleftrightarrow> list_ex (\<lambda>(k, v). py_lower (py_strip v) = ''spot'' \<and>
     (k \<in> set spot_selector_conf_keys \<or> prefix ''spark.kubernetes.executor.node.selector.'' k)) (conf_or_empty c)"

definition has_spot_toleration :: "conf option \<Rightarrow> bool" where
  "has_spot_toleration c \<longleftrightarrow> list_ex (\<lambda>(k, v).
     (prefix ''spark.kubernetes.executor.toleration.'' (py_lower k) \<or> py_lower k = ''spark.kubernetes.executor.tolerations'') \<and>
     list_ex (\<lambda>token. contains_sub token (py_lower v)) spot_toleration_hints) (conf_or_empty c)"

subsection \<open>Checks of the cloud\<close>

text \<open>\<open>try: ... except ValueError\<close>; any other exception leaves the preflight.\<close>

definition on_value_error ::
    "exn + 'a \<Rightarrow> ('a \<Rightarrow> preflight_check list) \<Rightarrow> (exn \<Rightarrow> preflight_check list) \<Rightarrow> exn + preflight_check list" where
  "on_value_error m ok handler =
     (case m of Inr x \<Rightarrow> Inr (ok x) | Inl e \<Rightarrow> if is_value_error e then Inr (handler e) else Inl e)"

definition oidc_permissions :: string where
  "oidc_permissions = ''eks:DescribeCluster, iam:GetOpenIDConnectProvider, iam:CreateOpenIDConnectProvider''"

definition oidc_association_check :: "emr_services \<Rightarrow> environment \<Rightarrow> exn + preflight_check list" where
  "oidc_association_check svc env =
     (let code = ''byoc_lite.oidc_association'' in
      on_value_error (emr_oidc_association svc env)
        (\<lambda>res.
          if truthy (dget res ''associated'' JNull) then
            [passed code ''OIDC provider is associated for target EKS cluster.''
               [(''oidc_provider_arn'', JStr (str_or res ''oidc_provider_arn'' [])),
                (''cluster_name'', JStr (str_or res ''cluster_name'' []))]]
          else
            (let cluster_name = str_or res ''cluster_name'' ''<cluster-name>'' in
            [failed code ''OIDC provider is not associated for target EKS cluster.''
               (''Detect+instruct mode (default, no IAM mutation): run '' @
                [CHR 0x60] @ ''eksctl utils associate-iam-oidc-provider --cluster '' @ cluster_name @ '' '' @
                ''--region '' @ env_region env @ '' --approve'' @ [CHR 0x60] @ '' in the customer account. '' @
                ''Optional automation mode can be explicitly enabled later if desired '' @
                ''(SPARKPILOT_PREFLIGHT_AUTOFIX_OIDC_PROVIDER=true).'')
               [(''oidc_provider_arn'', JStr (str_or res ''oidc_provider_arn'' [])), (''cluster_name'', JStr cluster_name),
                (''required_permissions'', JStr oidc_permissions), (''automation_mode'', JStr ''detect_only'')]]))
        (\<lambda>e. [failed code (exn_text e)
           (''Grant customer_role_arn permissions '' @ [CHR 0x60] @ ''eks:DescribeCluster'' @ [CHR 0x60] @ '' and '' @
            [CHR 0x60] @ ''iam:GetOpenIDConnectProvider'' @ [CHR 0x60] @ '' '' @
            ''for detection (plus '' @ [CHR 0x60] @ ''iam:CreateOpenIDConnectProvider'' @ [CHR 0x60] @
            '' if you want optional automation), '' @ ''then retry preflight.'')
           [(''required_permissions'', JStr oidc_permissions), (''automation_mode'', JStr ''detect_only'')]]))"

definition trust_code :: string where
  "trust_code = ''byoc_lite.execution_role_trust''"

text \<open>The update of the trust policy, then the check again.\<close>

definition trust_update_checks :: "emr_services \<Rightarrow> environment \<Rightarrow> exn \<Rightarrow> exn + preflight_check list" where
  "trust_update_checks svc env first_error =
     on_value_error
       (rbind (emr_update_trust svc env) (\<lambda>upd. rbind (emr_check_trust svc True env) (\<lambda>trust. Inr (upd, trust))))
       (\<lambda>(upd, trust).
          [passed trust_code ''Execution role trust policy was auto-remediated during preflight.''
             [(''auto_remediated'', JBool True), (''updated'', JBool (truthy (dget upd ''updated'' JNull))),
              (''already_present'', JBool (truthy (dget upd ''already_present'' JNull))),
              (''role_name'', JStr (str_or trust ''role_name'' (str_or upd ''role_name'' []))),
              (''provider_arn'', JStr (str_or trust ''provider_arn'' (str_or upd ''provider_arn'' [])))]])
       (\<lambda>e. [failed trust_code (exn_text first_error @ '' Auto-remediation attempt failed: '' @ exn_text e) (exn_text e) []])"

definition execution_role_trust_check :: "bool \<Rightarrow> emr_services \<Rightarrow> environment \<Rightarrow> exn + preflight_check list" where
  "execution_role_trust_check autofix svc env =
     (case emr_check_trust svc False env of
        Inr trust \<Rightarrow> Inr
          [passed trust_code ''Execution role trust policy includes required EMR web-identity statement.''
             [(''role_name'', JStr (str_or trust ''role_name'' [])), (''provider_arn'', JStr (str_or trust ''provider_arn'' []))]]
      | Inl e \<Rightarrow>
          if \<not> is_value_error e then Inl e
          else if autofix then trust_update_checks svc env e
          else Inr [failed trust_code (exn_text e)
            ''Fix execution role trust policy for EMR on EKS service accounts and retry preflight.'' []])"

definition pod_identity_readiness_check :: "emr_services \<Rightarrow> environment \<Rightarrow> exn + preflight_check list" where
  "pod_identity_readiness_check svc env =
     (let code = ''byoc_lite.pod_identity_readiness'' in
      on_value_error (emr_pod_identity svc env)
        (\<lambda>res.
          if truthy (dget res ''addon_installed'' JNull) then
            (let addon_status = dget res ''addon_status'' (JStr ''UNKNOWN'') in
             if addon_status = JStr ''ACTIVE'' then
               [passed code ''EKS Pod Identity agent is installed and active.''
                  [(''addon_status'', addon_status), (''addon_version'', JStr (text_at res ''addon_version''))]]
             else
               [warned code (''EKS Pod Identity agent addon is installed but status is '' @ py_str addon_status @ ''.'')
                  ''Wait for the eks-pod-identity-agent addon to reach ACTIVE status.'' [(''addon_status'', addon_status)]])
          else
            [warned code
               (''EKS Pod Identity agent is not installed. '' @ ''Using IRSA (IAM Roles for Service Accounts) as fallback.'')
               (''Install the eks-pod-identity-agent addon: '' @ ''aws eks create-addon --cluster-name <name> '' @
                ''--addon-name eks-pod-identity-agent --region <region>'') []])
        (\<lambda>e. [warned code (''Unable to check Pod Identity readiness: '' @ exn_text e)
           ''Grant customer_role_arn eks:DescribeAddon permission.'' []]))"

definition access_entry_mode_check :: "emr_services \<Rightarrow> environment \<Rightarrow> exn + preflight_check list" where
  "access_entry_mode_check svc env =
     (let code = ''byoc_lite.access_entry_mode'' in
      on_value_error (emr_access_mode svc env)
        (\<lambda>res. let auth_mode = dget res ''authentication_mode'' (JStr ''CONFIG_MAP'') in
          if truthy (dget res ''access_entries_supported'' JNull) then
            [passed code (''EKS cluster authentication mode is '' @ py_str auth_mode @ '', access entries are supported.'')
               [(''authentication_mode'', auth_mode), (''cluster_name'', JStr (text_at res ''cluster_name''))]]
          else
            [warned code (''EKS cluster authentication mode is '' @ py_str auth_mode @ ''. '' @
                 ''Access entries require API or API_AND_CONFIG_MAP mode.'')
               (''Update cluster access configuration: '' @ ''aws eks update-cluster-config --name <name> '' @
                ''--access-config authenticationMode=API_AND_CONFIG_MAP'') [(''authentication_mode'', auth_mode)]])
        (\<lambda>e. [warned code (''Unable to check EKS access entry mode: '' @ exn_text e)
           ''Grant customer_role_arn eks:DescribeCluster permission.'' []]))"

definition customer_role_name :: "environment \<Rightarrow> string" where
  "customer_role_name env =
     (case parse_role_name_from_arn (Some (env_customer_role_arn env)) of None \<Rightarrow> ''<customer-role-name>'' | Some nm \<Rightarrow> nm)"

definition pass_or_fail :: "string \<Rightarrow> bool \<Rightarrow> string \<Rightarrow> string \<Rightarrow> string \<Rightarrow> json dict \<Rightarrow> preflight_check" where
  "pass_or_fail code ok good bad remediation details =
     check_of code (if ok then ''pass'' else ''fail'') (if ok then good else bad) (if ok then None else Some remediation) details"

definition dispatch_permission_checks :: "emr_services \<Rightarrow> environment \<Rightarrow> exn + preflight_check list" where
  "dispatch_permission_checks svc env =
     (let dispatch_code = ''byoc_lite.customer_role_dispatch''; pass_code = ''byoc_lite.iam_pass_role''; role = customer_role_name env in
      on_value_error (emr_dispatch_permissions svc env)
        (\<lambda>res. let execution_role_arn = str_or res ''execution_role_arn'' [] in
          [pass_or_fail dispatch_code (truthy (dget res ''dispatch_actions_allowed'' JNull))
             ''Customer role allows required EMR dispatch actions.'' ''Customer role is missing required EMR dispatch actions.''
             (''Add dispatch actions and retry preflight. Command: '' @ dispatch_policy_remediation_command role)
             [(''denied_actions'', JStr (str_or res ''denied_dispatch_actions'' []))],
           pass_or_fail pass_code (truthy (dget res ''pass_role_allowed'' JNull))
             ''Customer role allows iam:PassRole for execution role.'' ''Customer role does not allow iam:PassRole for execution role.''
             (''Grant iam:PassRole on the execution role and retry preflight. Command: '' @
              pass_role_policy_remediation_command role (or_else execution_role_arn ''<execution-role-arn>''))
             [(''execution_role_arn'', JStr execution_role_arn)]])
        (\<lambda>e.
          [failed dispatch_code (exn_text e)
             (''Allow IAM simulation for the customer role and rerun preflight. Command: '' @ ''aws iam put-role-policy '' @
              ''--role-name '' @ role @ '' '' @ ''--policy-name SparkPilotPreflightSimulation '' @ ''--policy-document '' @
              quoted (json_quotes
                (''{`Version`:`2012-10-17`,`Statement`:[{`Effect`:`Allow`,`Action`:[`iam:SimulatePrincipalPolicy`],'' @
                 ''`Resource`:`*`}]}'')))
             [(''required_actions'', JStr (join '', '' byoc_lite_customer_role_required_actions))],
           failed pass_code ''Unable to validate iam:PassRole due to dispatch permission check failure.''
             (''After enabling IAM simulation, rerun preflight and apply PassRole policy if needed. '' @
              ''Required action: iam:PassRole on SPARKPILOT_EMR_EXECUTION_ROLE_ARN.'') []]))"

definition opt_text_of :: "string option \<Rightarrow> string" where
  "opt_text_of x = (case x of None \<Rightarrow> [] | Some s \<Rightarrow> s)"

definition namespace_collision_check :: "emr_services \<Rightarrow> environment \<Rightarrow> exn + preflight_check list" where
  "namespace_collision_check svc env =
     (let code = ''byoc_lite.namespace_collision''; ns = opt_text_of (env_eks_namespace env) in
      on_value_error (emr_find_collision svc env)
        (\<lambda>collision. case collision of
            None \<Rightarrow> [passed code ''No active EMR virtual-cluster collision detected for eks_namespace.'' [(''eks_namespace'', JStr ns)]]
          | Some c \<Rightarrow>
              let cid = str_or c ''id'' []; cstate = str_or c ''state'' [] in
              if c = [] then
                [passed code ''No active EMR virtual-cluster collision detected for eks_namespace.'' [(''eks_namespace'', JStr ns)]]
              else if \<not> text_empty (env_emr_virtual_cluster_id env) \<and> cid = the (env_emr_virtual_cluster_id env) then
                [passed code ''Namespace maps to this environment's configured EMR virtual cluster.''
                   [(''virtual_cluster_id'', JStr cid), (''virtual_cluster_state'', JStr cstate)]]
              else
                [failed code
                   (''Namespace collision detected: eks_namespace '' @ quoted (py_str (jstr_opt (env_eks_namespace env))) @
                    '' already maps to '' @ ''virtual cluster '' @ quoted cid @ '' (state='' @ py_str (dget c ''state'' JNull) @ '').'')
                   (''Use a unique namespace for this environment, or retire the conflicting virtual cluster. '' @
                    ''Example: aws emr-containers delete-virtual-cluster --id '' @ cid @ '' --region '' @ env_region env)
                   [(''collision_virtual_cluster_id'', JStr cid), (''collision_virtual_cluster_name'', JStr (str_or c ''name'' [])),
                    (''collision_virtual_cluster_state'', JStr cstate), (''eks_namespace'', JStr ns)]])
        (\<lambda>e. [warned code (''Unable to evaluate namespace collision status: '' @ exn_text e)
           ''Grant customer_role_arn emr-containers:ListVirtualClusters permission.'' []]))"

end
