(* ===== verification/SP_ByocChecks.thy ===== *)
theory SP_ByocChecks
  imports SP_Byoc
begin

text \<open>
  The rest of \<open>services/preflight_byoc.py\<close>: Spot capacity, the configuration checks, and when the cloud is asked.
\<close>

subsection \<open>Spot capacity\<close>

definition is_spot_nodegroup :: "json dict \<Rightarrow> bool" where
  "is_spot_nodegroup ng \<longleftrightarrow> py_upper (text_at ng ''capacity_type'') = ''SPOT''"

definition nodegroup_types :: "json dict \<Rightarrow> string list" where
  "nodegroup_types ng = (case dget ng ''instance_types'' JNull of JArr xs \<Rightarrow> map py_str xs | _ \<Rightarrow> [])"

definition spot_capacity_code :: string where
  "spot_capacity_code = ''byoc_lite.spot_capacity''"

definition spot_diversification_code :: string where
  "spot_diversification_code = ''byoc_lite.spot_diversification''"

definition spot_capacity_check :: "json dict list \<Rightarrow> preflight_check" where
  "spot_capacity_check nodegroups =
     (let spot = filter is_spot_nodegroup nodegroups; total = JInt (int (length nodegroups)) in
      if spot \<noteq> [] then
        passed spot_capacity_code ''EKS cluster has Spot-capable managed node groups.''
          [(''spot_nodegroups'', JInt (int (length spot))), (''total_nodegroups'', total)]
      else if nodegroups \<noteq> [] then
        warned spot_capacity_code
          ''No Spot-capable managed node groups were found; workloads may run on on-demand capacity only.''
          (''Configure at least one Spot-capable node group or Karpenter NodePool '' @ ''for executor workloads.'')
          [(''total_nodegroups'', total)]
      else
        warned spot_capacity_code ''No managed node groups were discovered for Spot validation.''
          (''If this cluster is Karpenter-only, validate Spot-capable NodePools manually '' @
           ''or add managed node groups for explicit Spot validation.'') [])"

definition spot_diversification_check :: "json dict list \<Rightarrow> preflight_check" where
  "spot_diversification_check nodegroups =
     (let spot = filter is_spot_nodegroup nodegroups;
          types = sort (remdups (concat (map nodegroup_types spot)));
          details = [(''spot_instance_types'', JStr (join '', '' types))]
      in if length types \<ge> 3 then
           passed spot_diversification_code ''Spot instance diversification check passed (>= 3 instance types).'' details
         else if spot \<noteq> [] then
           warned spot_diversification_code
             ''Spot diversification is below recommended threshold (fewer than 3 instance types).''
             (''Configure at least 3 instance types across Spot capacity pools to reduce '' @ ''interruption and capacity risk.'')
             details
         else
           warned spot_diversification_code
             ''Spot diversification check skipped because no Spot-capable managed node groups were found.''
             (''Add Spot-capable node groups or Karpenter Spot NodePools with diversified '' @ ''instance type requirements.'') [])"

definition spot_capacity_checks :: "emr_services \<Rightarrow> environment \<Rightarrow> exn + preflight_check list" where
  "spot_capacity_checks svc env =
     on_value_error (emr_nodegroups svc env)
       (\<lambda>nodegroups. [spot_capacity_check nodegroups, spot_diversification_check nodegroups])
       (\<lambda>e. [warned spot_capacity_code (exn_text e)
           (''Grant EKS nodegroup read permissions or validate Spot capacity manually with '' @
            [CHR 0x60] @ ''aws eks list-nodegroups'' @ [CHR 0x60] @ '' and '' @ [CHR 0x60] @ ''aws eks describe-nodegroup'' @
            [CHR 0x60] @ ''.'') [],
         skipped spot_diversification_code
           ''Spot diversification check skipped because Spot node group metadata could not be loaded.''])"

definition spot_executor_placement_check :: "conf option \<Rightarrow> preflight_check" where
  "spot_executor_placement_check spark_conf =
     (let code = ''byoc_lite.spot_executor_placement'' in
      if has_spot_selector spark_conf \<and> has_spot_toleration spark_conf then
        passed code ''Executor Spark configuration includes Spot node selectors and toleration hints.'' []
      else if has_spot_selector spark_conf then
        warned code ''Executor Spark configuration has Spot node selectors but no Spot toleration hints.''
          (''Add executor Spot tolerations (for example '' @ [CHR 0x60] @ ''spark.kubernetes.executor.tolerations'' @ [CHR 0x60] @
           '') '' @ ''to improve placement on tainted Spot pools.'') []
      else
        warned code ''Executor Spark configuration does not include a Spot node selector.''
          (''Set executor node selector Spark config such as '' @
           [CHR 0x60] @ ''spark.kubernetes.executor.node.selector.eks.amazonaws.com/capacityType=SPOT'' @ [CHR 0x60] @ '' '' @
           ''or '' @ [CHR 0x60] @ ''spark.kubernetes.executor.node.selector.karpenter.sh/capacity-type=spot'' @ [CHR 0x60] @ ''.'') [])"

subsection \<open>Skipped checks\<close>

definition not_ready_text :: "string \<Rightarrow> string \<Rightarrow> string" where
  "not_ready_text what be = what @ '' '' @ be @ '' skipped because base BYOC-Lite prerequisites are not ready.''"

definition skipped_aws_prechecks :: "preflight_check list" where
  "skipped_aws_prechecks =
     [check_of ''byoc_lite.customer_role_dispatch'' ''warning'' (not_ready_text ''Dispatch permission checks'' ''were'') None
        [(''required_actions'', JStr (join '', '' byoc_lite_customer_role_required_actions))],
      skipped ''byoc_lite.iam_pass_role'' (not_ready_text ''iam:PassRole validation'' ''was''),
      check_of ''byoc_lite.execution_role_trust'' ''warning'' (not_ready_text ''Execution role trust validation'' ''was'') None
        [(''required_actions'', JStr (join '', '' byoc_lite_execution_role_required_actions))],
      skipped ''byoc_lite.oidc_association'' (not_ready_text ''OIDC association check'' ''was''),
      skipped ''byoc_lite.pod_identity_readiness'' (not_ready_text ''Pod Identity readiness check'' ''was''),
      skipped ''byoc_lite.access_entry_mode'' (not_ready_text ''Access entry mode check'' ''was''),
      skipped ''byoc_lite.namespace_collision'' (not_ready_text ''Namespace collision check'' ''was''),
      skipped ''byoc_lite.spot_capacity'' (not_ready_text ''Spot capacity check'' ''was''),
      skipped ''byoc_lite.spot_diversification'' (not_ready_text ''Spot diversification check'' ''was''),
      skipped ''byoc_lite.spot_executor_placement'' (not_ready_text ''Executor Spot placement check'' ''was'')]"

definition run_aws_prechecks ::
    "bool \<Rightarrow> emr_services \<Rightarrow> environment \<Rightarrow> conf option \<Rightarrow> bool \<Rightarrow> exn + preflight_check list" where
  "run_aws_prechecks autofix svc env spark_conf eligible =
     (if \<not> eligible then Inr skipped_aws_prechecks
      else emit_all
        [oidc_association_check svc env, execution_role_trust_check autofix svc env, pod_identity_readiness_check svc env,
         access_entry_mode_check svc env, dispatch_permission_checks svc env, namespace_collision_check svc env,
         spot_capacity_checks svc env, Inr [spot_executor_placement_check spark_conf]])"

subsection \<open>Configuration\<close>

definition cluster_arn_check :: "environment \<Rightarrow> preflight_check list \<times> bool" where
  "cluster_arn_check env =
     (let valid = \<not> text_empty (env_eks_cluster_arn env) \<and> eks_cluster_arn_match (opt_text_of (env_eks_cluster_arn env)) in
      (if valid then [passed ''byoc_lite.eks_cluster_arn'' ''eks_cluster_arn is configured.'' []]
       else [failed ''byoc_lite.eks_cluster_arn'' ''eks_cluster_arn is missing or malformed for BYOC-Lite.''
               ''Set eks_cluster_arn to arn:aws:eks:<region>:<account-id>:cluster/<cluster-name>.'' []], valid))"

definition namespace_checks :: "environment \<Rightarrow> preflight_check list \<times> bool" where
  "namespace_checks env =
     (let ns = opt_text_of (env_eks_namespace env); trimmed = py_strip ns;
          trimmed_valid = (ns = [] \<or> ns = trimmed);
          format_valid = (trimmed \<noteq> [] \<and> k8s_namespace_match trimmed);
          reserved = (trimmed \<in> set reserved_byoc_lite_namespaces)
      in ((if ns \<noteq> [] then [passed ''byoc_lite.eks_namespace'' ''eks_namespace is configured.'' []]
           else [failed ''byoc_lite.eks_namespace'' ''eks_namespace is missing for BYOC-Lite.''
                   ''Set eks_namespace when creating the environment.'' []]) @
          (if \<not> trimmed_valid then
             [failed ''byoc_lite.eks_namespace_normalized'' ''eks_namespace cannot contain leading or trailing whitespace.''
                (''Trim spaces and use a normalized namespace value such as '' @ [CHR 0x60] @ ''sparkpilot-team'' @ [CHR 0x60] @ ''.'')
                [(''eks_namespace'', JStr ns), (''normalized'', JStr trimmed)]]
           else if ns \<noteq> [] then
             [passed ''byoc_lite.eks_namespace_normalized'' ''eks_namespace is normalized (no leading/trailing whitespace).'' []]
           else []) @
          (if format_valid then
             [passed ''byoc_lite.eks_namespace_format'' ''eks_namespace matches Kubernetes DNS label format.'' []]
           else if trimmed \<noteq> [] then
             [failed ''byoc_lite.eks_namespace_format''
                (''eks_namespace must be lowercase alphanumeric with '' @ quoted ''-'' @ '' separators.'')
                (''Use a namespace like sparkpilot-team. Allowed regex: '' @ ''^[a-z0-9]([-a-z0-9]*[a-z0-9])?$ (max 63 chars).'')
                [(''eks_namespace'', JStr trimmed)]]
           else []) @
          (if reserved then
             [failed ''byoc_lite.namespace_bootstrap''
                (''eks_namespace '' @ quoted trimmed @ '' is reserved and not allowed for BYOC-Lite.'')
                (''Create and use a dedicated namespace for SparkPilot workloads, for example '' @ quoted ''sparkpilot-team'' @ ''.'')
                [(''eks_namespace'', JStr trimmed)]]
           else if trimmed \<noteq> [] then
             [passed ''byoc_lite.namespace_bootstrap'' ''eks_namespace is suitable for BYOC-Lite bootstrap.'' []]
           else []),
          trimmed_valid \<and> format_valid \<and> \<not> reserved))"

definition cluster_region_check :: "environment \<Rightarrow> preflight_check list \<times> bool" where
  "cluster_region_check env =
     (let region = opt_text_of (eks_cluster_region (env_eks_cluster_arn env));
          matches = (region \<noteq> [] \<and> region = env_region env);
          details = [(''cluster_region'', JStr region), (''environment_region'', JStr (env_region env))]
      in (if matches then
            [passed ''byoc_lite.eks_cluster_region'' ''eks_cluster_arn region matches environment region.'' details]
          else if region \<noteq> [] then
            [failed ''byoc_lite.eks_cluster_region'' ''eks_cluster_arn region does not match environment region.''
               ''Use an EKS cluster ARN in the same region as the environment.'' details]
          else [], matches))"

definition account_alignment_check :: "environment \<Rightarrow> preflight_check list \<times> bool" where
  "account_alignment_check env =
     (let role_account = opt_text_of (arn_account_id (Some (env_customer_role_arn env)));
          cluster_account = opt_text_of (arn_account_id (env_eks_cluster_arn env));
          aligned = (role_account \<noteq> [] \<and> cluster_account \<noteq> [] \<and> role_account = cluster_account)
      in (if aligned then
            [passed ''byoc_lite.account_alignment'' ''customer_role_arn account matches eks_cluster_arn account.'' []]
          else if role_account \<noteq> [] \<and> cluster_account \<noteq> [] then
            [failed ''byoc_lite.account_alignment'' ''customer_role_arn account does not match eks_cluster_arn account.''
               ''Use a customer role in the same AWS account as the target EKS cluster.''
               [(''role_account_id'', JStr role_account), (''cluster_account_id'', JStr cluster_account)]]
          else [], aligned))"

definition is_aws_precheck_eligible :: "environment \<Rightarrow> bool \<Rightarrow> bool \<Rightarrow> bool \<Rightarrow> bool \<Rightarrow> bool" where
  "is_aws_precheck_eligible env cluster_arn_valid namespace_valid cluster_region_matches accounts_aligned \<longleftrightarrow>
     env_status env = EReady \<and> \<not> text_empty (env_emr_virtual_cluster_id env) \<and> cluster_arn_valid \<and> namespace_valid
       \<and> cluster_region_matches \<and> accounts_aligned"

definition byoc_lite_configuration_checks ::
    "bool \<Rightarrow> emr_services \<Rightarrow> environment \<Rightarrow> conf option \<Rightarrow> exn + preflight_check list" where
  "byoc_lite_configuration_checks autofix svc env spark_conf =
     (if env_provisioning_mode env \<noteq> ''byoc_lite'' then Inr []
      else
        (let (arn_checks, arn_valid) = cluster_arn_check env; (ns_checks, ns_valid) = namespace_checks env;
             (region_checks, region_ok) = cluster_region_check env; (account_checks, accounts_ok) = account_alignment_check env
         in emit_all
           [Inr (arn_checks @ ns_checks @ region_checks @ account_checks),
            run_aws_prechecks autofix svc env spark_conf
              (is_aws_precheck_eligible env arn_valid ns_valid region_ok accounts_ok)]))"

subsection \<open>A check fails where its configuration is not in order\<close>

lemma cluster_arn_ok: "no_failure (fst (cluster_arn_check env)) \<longleftrightarrow> snd (cluster_arn_check env)"
  by (simp add: cluster_arn_check_def Let_def)

lemma namespace_ok:
  "no_failure (fst (namespace_checks env)) \<longleftrightarrow> snd (namespace_checks env)"
proof -
  have "py_strip [] = []" by (simp add: py_strip_def)
  then show ?thesis by (auto simp: namespace_checks_def Let_def reserved_byoc_lite_namespaces_def)
qed

lemma arn_fields_of_match:
  assumes "eks_cluster_arn_match s"
  shows "\<exists>p region account res. split_at (CHR '':'') (chomp s) = [''arn'', p, ''eks'', region, account, res] \<and> region \<noteq> [] \<and> account \<noteq> []"
  using assms unfolding eks_cluster_arn_match_def account_number_def
  by (auto split: list.splits option.splits)

end
