(* ===== verification/SP_LakeFormation.thy ===== *)
theory SP_LakeFormation
  imports SP_Credentials
begin

text \<open>
  \<open>services/lake_formation.py\<close>: the permissions of the execution role, read page by page, and the checks of fine-grained
  access control. The loop over the pages may not end: \<open>None\<close>.
\<close>

record lf_permission =
  lp_principal :: string
  lp_database :: "string option" \<comment> \<open>name of the resource where it is a database\<close>
  lp_table :: "string option"

record lf_page =
  lf_permissions :: "lf_permission list"
  lf_next_token :: "string option"

record perm_result =
  pr_has_permissions :: bool
  pr_permission_count :: int
  pr_databases :: "string list"
  pr_tables :: "string list"
  pr_error :: "string option"

text \<open>\<open>list_permissions\<close> by region, catalog, number of the call and token.\<close>

type_synonym lf_client = "string \<Rightarrow> string option \<Rightarrow> nat \<Rightarrow> string option \<Rightarrow> exn + lf_page"

definition min_lf_release :: string where
  "min_lf_release = ''emr-7.7.0''"

definition aws_error_text :: "exn \<Rightarrow> string" where
  "aws_error_text e = (if is_client_error e then error_message e False else error_message e True)"

text \<open>\<open>get_role\<close> on the service-linked role: whether it exists, and the error.\<close>

definition check_lf_service_linked_role_exists ::
    "(string \<Rightarrow> exn + unit) \<Rightarrow> string \<Rightarrow> exn + bool \<times> string option" where
  "check_lf_service_linked_role_exists get_role region =
     (case get_role region of
        Inr _ \<Rightarrow> Inr (True, None)
      | Inl e \<Rightarrow>
          if is_client_error e \<and> client_code e = ''NoSuchEntity'' then Inr (False, None)
          else if exn_aws e then Inr (False, Some (aws_error_text e)) else Inl e)"

definition page_token :: "lf_page \<Rightarrow> string option" where
  "page_token p = next_token (lf_next_token p)"

definition role_permissions :: "string \<Rightarrow> lf_page list \<Rightarrow> lf_permission list" where
  "role_permissions arn pages = filter (\<lambda>p. lp_principal p = arn) (concat (map lf_permissions pages))"

definition sorted_names :: "(lf_permission \<Rightarrow> string option) \<Rightarrow> lf_permission list \<Rightarrow> string list" where
  "sorted_names name_of ps = sort (remdups (List.map_filter name_of ps))"

definition perm_result_of :: "lf_permission list \<Rightarrow> perm_result" where
  "perm_result_of ps = \<lparr>pr_has_permissions = ps \<noteq> [], pr_permission_count = int (length ps),
     pr_databases = sorted_names lp_database ps, pr_tables = sorted_names lp_table ps, pr_error = None\<rparr>"

definition perm_error :: "string \<Rightarrow> perm_result" where
  "perm_error msg = \<lparr>pr_has_permissions = False, pr_permission_count = 0, pr_databases = [], pr_tables = [], pr_error = Some msg\<rparr>"

definition check_execution_role_lf_permissions ::
    "lf_client \<Rightarrow> string \<Rightarrow> string \<Rightarrow> string option \<Rightarrow> (exn + perm_result) option" where
  "check_execution_role_lf_permissions client region arn catalog_id =
     map_option (\<lambda>r. case r of
         Inr pages \<Rightarrow> Inr (perm_result_of (role_permissions arn pages))
       | Inl e \<Rightarrow> if exn_aws e then Inr (perm_error (aws_error_text e)) else Inl e)
       (collect_pages (client region (if text_empty catalog_id then None else catalog_id)) page_token 0 None)"

definition get_lf_permission_context ::
    "string \<Rightarrow> lf_client \<Rightarrow> string \<Rightarrow> string \<Rightarrow> string option \<Rightarrow> (exn + json dict) option" where
  "get_lf_permission_context checked_at client region arn catalog_id =
     map_option (\<lambda>r. rbind r (\<lambda>p. Inr
       [(''lake_formation_enabled'', JBool True),
        (''catalog_id'', JStr (if text_empty catalog_id then ''default'' else the catalog_id)),
        (''execution_role_arn'', JStr arn), (''has_permissions'', JBool (pr_has_permissions p)),
        (''permission_count'', JInt (pr_permission_count p)), (''databases'', JArr (map JStr (pr_databases p))),
        (''tables'', JArr (map JStr (pr_tables p))), (''checked_at'', JStr checked_at)]))
       (check_execution_role_lf_permissions client region arn catalog_id)"

subsection \<open>Checks\<close>

definition release_compatibility_check :: "string \<Rightarrow> preflight_check list" where
  "release_compatibility_check configured =
     (let code = ''fgac.emr_release'' in
      if configured = [] then
        [failed code ''No EMR release label configured; cannot verify Lake Formation FGAC support.''
           (''Set SPARKPILOT_EMR_RELEASE_LABEL to '' @ min_lf_release @ '' or later.'') []]
      else if lake_formation_supported_for_label configured then
        [passed code (''EMR release '' @ configured @ '' supports Lake Formation FGAC.'') [(''emr_release_label'', JStr configured)]]
      else
        [failed code (''EMR release '' @ configured @ '' does not support Lake Formation FGAC. '' @
             ''Minimum required: '' @ min_lf_release @ ''.'')
           (''Upgrade EMR release to '' @ min_lf_release @ '' or later.'')
           [(''emr_release_label'', JStr configured), (''min_required'', JStr min_lf_release)]])"

definition service_linked_role_check :: "(string \<Rightarrow> exn + unit) \<Rightarrow> environment \<Rightarrow> preflight_check list" where
  "service_linked_role_check get_role env =
     (let code = ''fgac.service_linked_role'' in
      case check_lf_service_linked_role_exists get_role (env_region env) of
        Inr (True, _) \<Rightarrow> [passed code ''Lake Formation service-linked role exists.''
          [(''role_name'', JStr ''AWSServiceRoleForLakeFormationDataAccess'')]]
      | Inr (False, err) \<Rightarrow> [failed code
          (''Lake Formation service-linked role not found.'' @ (if text_empty err then [] else '' ('' @ the err @ '')''))
          (''Create the service-linked role: aws iam create-service-linked-role '' @
           ''--aws-service-name lakeformation.amazonaws.com'') []]
      | Inl e \<Rightarrow> [warned code (''Unable to check Lake Formation service-linked role: '' @ error_message e True)
          ''Ensure SparkPilot has iam:GetRole permission.'' []])"

text \<open>\<open>permissions\<close> is what the listing answers where it returns.\<close>

definition execution_role_permissions_check ::
    "(string \<Rightarrow> string \<Rightarrow> string option \<Rightarrow> exn + perm_result) \<Rightarrow> environment \<Rightarrow> string \<Rightarrow> preflight_check list" where
  "execution_role_permissions_check permissions env arn =
     (let code = ''fgac.lf_permissions'' in
      if arn = [] then
        [warned code ''No execution role configured; cannot verify Lake Formation permissions.''
           ''Set SPARKPILOT_EMR_EXECUTION_ROLE_ARN.'' []]
      else (case permissions (env_region env) arn (env_lf_catalog_id env) of
          Inl e \<Rightarrow> [check_of code ''warning'' (''Unable to check Lake Formation permissions: '' @ error_message e True) None []]
        | Inr p \<Rightarrow>
            if \<not> text_empty (pr_error p) then
              [warned code (''Could not verify LF permissions: '' @ the (pr_error p))
                 ''Ensure SparkPilot has lakeformation:ListPermissions permission.'' []]
            else if pr_has_permissions p then
              [passed code (''Execution role has '' @ show_int (pr_permission_count p) @ '' Lake Formation permission(s).'')
                 [(''permission_count'', JInt (pr_permission_count p)),
                  (''databases'', JInt (int (length (pr_databases p)))), (''tables'', JInt (int (length (pr_tables p))))]]
            else
              [failed code ''Execution role has no Lake Formation data permissions.''
                 (''Grant Lake Formation permissions to the execution role using the '' @
                  ''AWS Lake Formation console or grant-permissions CLI command.'') []]))"

definition lake_formation_fgac_checks ::
    "settings \<Rightarrow> (string \<Rightarrow> exn + unit) \<Rightarrow> (string \<Rightarrow> string \<Rightarrow> string option \<Rightarrow> exn + perm_result) \<Rightarrow> environment
     \<Rightarrow> preflight_check list" where
  "lake_formation_fgac_checks s get_role permissions env =
     (if \<not> env_lake_formation_enabled env then []
      else release_compatibility_check (py_strip (cfg_emr_release_label s)) @ service_linked_role_check get_role env @
        execution_role_permissions_check permissions env (cfg_emr_execution_role_arn s))"

subsection \<open>Lemmas\<close>

lemma check_permissions_terminates_iff:
  "(\<exists>r. check_execution_role_lf_permissions client region arn catalog_id = Some r) \<longleftrightarrow>
     (\<exists>k. ends_at (client region (if text_empty catalog_id then None else catalog_id)) page_token None k)"
  unfolding check_execution_role_lf_permissions_def
  using collect_pages_terminates_iff
    [of "client region (if text_empty catalog_id then None else catalog_id)" page_token None] by auto

text \<open>The permissions counted are those of the role on all pages.\<close>

lemma role_permissions_mem:
  "p \<in> set (role_permissions arn pages) \<longleftrightarrow> lp_principal p = arn \<and> (\<exists>q \<in> set pages. p \<in> set (lf_permissions q))"
  by (auto simp: role_permissions_def)

lemma fgac_ok:
  assumes "no_failure (lake_formation_fgac_checks s get_role permissions env)" "env_lake_formation_enabled env"
  shows "lake_formation_supported_for_label (py_strip (cfg_emr_release_label s))"
  using assms by (auto simp: lake_formation_fgac_checks_def release_compatibility_check_def Let_def split: if_splits)

end
