(* ===== verification/SP_FullPreflight.thy ===== *)
theory SP_FullPreflight
  imports SP_ByocChecks SP_LakeFormation
begin

text \<open>
  \<open>_build_preflight\<close> with all its emitters, in the order of the code, and what a preflight that is ready guarantees.
\<close>

record preflight_services =
  pre_settings :: settings
  pre_loads :: "string \<Rightarrow> string + json"
  pre_sts :: sts_services
  pre_emr :: emr_services
  pre_get_role :: "string \<Rightarrow> exn + unit"
  pre_permissions :: "string \<Rightarrow> string \<Rightarrow> string option \<Rightarrow> exn + perm_result"
  pre_describe_security :: "environment \<Rightarrow> string \<Rightarrow> exn + json dict"

definition checks_before_policies :: "preflight_services \<Rightarrow> bool \<Rightarrow> bool \<Rightarrow> time \<Rightarrow> emitter" where
  "checks_before_policies sv require_ready require_vc now env r spark_conf d =
     (let s = pre_settings sv in emit_all
        [runtime_and_release_checks (pre_loads sv) s env d,
         Inr (customer_role_arn_check env @ environment_status_check env require_ready @
              virtual_cluster_check env require_vc @ spark_conf_policy_check spark_conf @ team_budget_checks now env d @
              yunikorn_queue_capacity_check env r),
         dispatch_gate_checks s (pre_sts sv) (dispatch_services.truncate (pre_emr sv)) env,
         byoc_lite_configuration_checks (preflight_auto_trust_update_enabled (env_var (pre_sts sv))) (pre_emr sv) env spark_conf,
         Inr (vpa_compat_checks spark_conf @ s3_express_checks spark_conf)])"

definition checks_after_policies :: "preflight_services \<Rightarrow> emitter" where
  "checks_after_policies sv env r spark_conf d =
     (let s = pre_settings sv in emit_all
        [Inr (lake_formation_fgac_checks s (pre_get_role sv) (pre_permissions sv) env),
         security_configuration_checks (describe_security_configuration s (pre_describe_security sv)) env,
         iam_credential_chain_checks s (pre_sts sv) env])"

definition full_preflight ::
    "preflight_services \<Rightarrow> bool \<Rightarrow> bool \<Rightarrow> time \<Rightarrow> environment \<Rightarrow> string option \<Rightarrow> conf option \<Rightarrow> database
     \<Rightarrow> (exn + preflight) \<times> database" where
  "full_preflight sv require_ready require_vc now =
     build_preflight (checks_before_policies sv require_ready require_vc now) (checks_after_policies sv) now"

subsection \<open>Every check has one of the three statuses\<close>

definition all_std :: "preflight_check list \<Rightarrow> bool" where
  "all_std cs \<longleftrightarrow> (\<forall>c \<in> set cs. std_status c)"

lemma all_std_simps [simp]:
  "all_std []" "all_std (c # cs) \<longleftrightarrow> std_status c \<and> all_std cs" "all_std (xs @ ys) \<longleftrightarrow> all_std xs \<and> all_std ys"
  by (auto simp: all_std_def)

lemma all_std_if [simp]: "all_std xs \<Longrightarrow> all_std ys \<Longrightarrow> all_std (if b then xs else ys)"
  by simp

lemma std_check [simp]:
  "std_status (passed c m d)" "std_status (failed c m r d)" "std_status (warned c m r d)" "std_status (skipped c m)"
  "std_status (check_of c ''warning'' m r' d)" "std_status (check_of c ''fail'' m r' d)"
  "std_status (check_of c (if b then ''fail'' else ''warning'') m r' d)" "std_status (pass_or_fail c b g h r d)"
  by (simp_all add: std_status_def pass_or_fail_def)

lemma std_if [simp]: "std_status a \<Longrightarrow> std_status b \<Longrightarrow> std_status (if p then a else b)"
  by simp

definition emits_std :: "exn + preflight_check list \<Rightarrow> bool" where
  "emits_std r \<longleftrightarrow> (case r of Inl e \<Rightarrow> True | Inr cs \<Rightarrow> all_std cs)"

lemma emits_std_simps [simp]: "emits_std (Inl e)" "emits_std (Inr cs) \<longleftrightarrow> all_std cs"
  by (simp_all add: emits_std_def)

lemma emits_std_if [simp]: "emits_std a \<Longrightarrow> emits_std b \<Longrightarrow> emits_std (if p then a else b)"
  by simp

lemma emits_std_Inr_if [simp]: "all_std a \<Longrightarrow> all_std b \<Longrightarrow> emits_std (Inr (if p then a else b))"
  by simp

lemma emits_std_rbind [simp]: "(\<And>x. emits_std (f x)) \<Longrightarrow> emits_std (rbind m f)"
  by (simp add: rbind_def split: sum.splits)

lemma emits_std_D: "emits_std (Inr cs) \<Longrightarrow> \<forall>c \<in> set cs. std_status c"
  by (simp add: all_std_def)

lemma emits_std_all: "\<forall>e \<in> set es. emits_std e \<Longrightarrow> emits_std (emit_all es)"
proof (induction es)
  case Nil
  then show ?case by simp
next
  case (Cons e es)
  then show ?case by (auto simp: emits_std_def rbind_def split: sum.splits)
qed

lemma emits_std_value_error:
  "(\<And>x. all_std (ok x)) \<Longrightarrow> (\<And>e. all_std (h e)) \<Longrightarrow> emits_std (on_value_error m ok h)"
  by (simp add: on_value_error_def split: sum.splits)

lemma std_execution_role: "emits_std (execution_role_config_check loads s)"
  unfolding execution_role_config_check_def Let_def by (simp split: sum.splits error.splits)

lemma std_log_group: "all_std (log_group_prefix_check s)"
  by (simp add: log_group_prefix_check_def)

lemma std_release_currency: "all_std (release_currency_check l row)"
  unfolding release_currency_check_def Let_def by (simp split: option.splits)

lemma std_graviton: "all_std (graviton_support_check a row)"
  unfolding graviton_support_check_def Let_def by simp

lemma std_missing_release: "all_std (missing_release_label_checks a)"
  unfolding missing_release_label_checks_def Let_def by simp

lemma std_runtime: "emits_std (runtime_and_release_checks loads s env d)"
  unfolding runtime_and_release_checks_def Let_def
  by (rule emits_std_all) (auto simp: std_execution_role std_log_group std_missing_release std_release_currency std_graviton
      rbind_def split: sum.splits)

lemma std_core:
  "all_std (customer_role_arn_check env)" "all_std (environment_status_check env b)" "all_std (virtual_cluster_check env b)"
  "all_std (spark_conf_policy_check c)" "all_std (team_budget_checks now env d)" "all_std (yunikorn_queue_capacity_check env r)"
  "all_std (vpa_compat_checks c)" "all_std (s3_express_checks c)"
  unfolding customer_role_arn_check_def environment_status_check_def virtual_cluster_check_def spark_conf_policy_check_def
    team_budget_checks_def yunikorn_queue_capacity_check_def vpa_compat_checks_def s3_express_checks_def Let_def
  by (simp_all split: option.splits prod.splits)

lemma ready_std: "ready_iff_passed (Inr (c, b)) \<Longrightarrow> std_status c"
  by (auto simp: std_status_def split: if_splits)

lemma std_gate_step:
  assumes "ready_iff_passed check" "emits_std rest" "all_std skips"
  shows "emits_std (gate_step check rest skips)"
proof (cases check)
  case (Inl e)
  then show ?thesis by (simp add: gate_step_def)
next
  case (Inr p)
  obtain c b where p: "p = (c, b)" by force
  have "std_status c" using assms(1) by (auto intro: ready_std [of c b] simp: Inr p)
  then show ?thesis using assms(2,3) by (cases rest) (simp_all add: gate_step_def Inr p)
qed

lemma std_dispatch_gate: "emits_std (dispatch_gate_checks s sts svc env)"
  unfolding dispatch_gate_checks_def skip_all_def
  by (intro emits_std_if std_gate_step sts_ready simulation_ready describe_ready irsa_ready) simp_all

lemma std_oidc: "emits_std (oidc_association_check svc env)"
  unfolding oidc_association_check_def Let_def by (rule emits_std_value_error) simp_all

lemma std_trust: "emits_std (execution_role_trust_check b svc env)"
proof -
  have "emits_std (trust_update_checks svc env e)" for e
    unfolding trust_update_checks_def by (rule emits_std_value_error) (simp_all split: prod.splits)
  then show ?thesis unfolding execution_role_trust_check_def by (simp split: sum.splits)
qed

lemma std_pod: "emits_std (pod_identity_readiness_check svc env)"
  unfolding pod_identity_readiness_check_def Let_def by (rule emits_std_value_error) simp_all

lemma std_access: "emits_std (access_entry_mode_check svc env)"
  unfolding access_entry_mode_check_def Let_def by (rule emits_std_value_error) simp_all

lemma std_dispatch_permission: "emits_std (dispatch_permission_checks svc env)"
  unfolding dispatch_permission_checks_def Let_def by (rule emits_std_value_error) simp_all

lemma std_collision: "emits_std (namespace_collision_check svc env)"
  unfolding namespace_collision_check_def Let_def by (rule emits_std_value_error) (simp_all split: option.splits)

lemma std_spot: "emits_std (spot_capacity_checks svc env)"
  unfolding spot_capacity_checks_def spot_capacity_check_def spot_diversification_check_def Let_def
  by (rule emits_std_value_error) simp_all

lemma std_placement: "std_status (spot_executor_placement_check c)"
  unfolding spot_executor_placement_check_def Let_def by simp

lemma std_prechecks: "emits_std (run_aws_prechecks b svc env c e)"
  unfolding run_aws_prechecks_def skipped_aws_prechecks_def
  by (intro emits_std_if emits_std_all ballI)
    (auto simp: std_oidc std_trust std_pod std_access std_dispatch_permission std_collision std_spot std_placement)

lemma std_config:
  "all_std (fst (cluster_arn_check env))" "all_std (fst (namespace_checks env))" "all_std (fst (cluster_region_check env))"
  "all_std (fst (account_alignment_check env))"
  unfolding cluster_arn_check_def namespace_checks_def cluster_region_check_def account_alignment_check_def Let_def
  by simp_all

lemma std_byoc: "emits_std (byoc_lite_configuration_checks b svc env c)"
  unfolding byoc_lite_configuration_checks_def Let_def split_beta
  by (intro emits_std_if emits_std_all ballI) (auto simp: std_config std_prechecks)

lemma std_before: "emits_std (checks_before_policies sv rr rv now env r c d)"
  unfolding checks_before_policies_def Let_def
  by (rule emits_std_all) (auto simp: std_runtime std_core std_dispatch_gate std_byoc)

lemma std_fgac: "all_std (lake_formation_fgac_checks s gr perms env)"
  unfolding lake_formation_fgac_checks_def release_compatibility_check_def service_linked_role_check_def
    execution_role_permissions_check_def Let_def
  by (simp split: sum.splits prod.splits bool.splits)

lemma std_security: "emits_std (security_configuration_checks f env)"
  unfolding security_configuration_checks_def Let_def by (simp split: sum.splits)

lemma std_chain: "emits_std (iam_credential_chain_checks s svc env)"
  unfolding iam_credential_chain_checks_def Let_def by (intro emits_std_rbind emits_std_if) simp_all

lemma std_after: "emits_std (checks_after_policies sv env r c d)"
  unfolding checks_after_policies_def Let_def
  by (rule emits_std_all) (auto simp: std_fgac std_security std_chain)

end
