(* ===== verification/SP_PreflightFacts.thy ===== *)
theory SP_PreflightFacts
  imports SP_FullPreflight
begin

text \<open>What a preflight without a failed check guarantees, and the lemmas on the fields of an ARN it needs.\<close>

subsection \<open>Fields of an ARN\<close>

lemma split_at_Nil [simp]: "split_at c [] = [[]]"
  by (simp add: split_at_def)

lemma split_at_ne: "split_at c s \<noteq> []"
  by (induction s) (auto simp: split_at_def split: list.splits)

lemma split_at_Cons:
  "split_at c (x # s) = (if x = c then [] # split_at c s else (x # hd (split_at c s)) # tl (split_at c s))"
  using split_at_ne [of c s] by (auto simp: split_at_def split: list.splits)

lemma split_at_field: "c \<notin> set u \<Longrightarrow> split_at c (u @ c # v) = u # split_at c v"
  by (induction u) (auto simp: split_at_Cons)

lemma split_at_snoc:
  "x \<noteq> c \<Longrightarrow> split_at c (s @ [x]) = butlast (split_at c s) @ [last (split_at c s) @ [x]]"
proof (induction s)
  case Nil
  then show ?case by (simp add: split_at_Cons)
next
  case (Cons a s)
  then show ?case using split_at_ne [of c s] by (cases "split_at c s") (auto simp: split_at_Cons)
qed

lemma strip_parts: "\<exists>u v. s = u @ py_strip s @ v \<and> (\<forall>c \<in> set u. is_space c) \<and> (\<forall>c \<in> set v. is_space c)"
proof -
  let ?t = "dropWhile is_space s"
  have s: "s = takeWhile is_space s @ ?t" by simp
  have "?t = rev (dropWhile is_space (rev ?t)) @ rev (takeWhile is_space (rev ?t))"
    by (metis rev_append rev_rev_ident takeWhile_dropWhile_id)
  then have t: "?t = py_strip s @ rev (takeWhile is_space (rev ?t))" by (simp add: py_strip_def)
  have "\<forall>c \<in> set (takeWhile is_space s). is_space c" "\<forall>c \<in> set (rev (takeWhile is_space (rev ?t))). is_space c"
    by (auto dest: set_takeWhileD)
  then show ?thesis using s t by metis
qed

lemma drop_prefix_Some: "drop_prefix p s = Some r \<longleftrightarrow> s = p @ r"
  by (auto simp: drop_prefix_def prefix_def)

lemma iam_role_arn_parts:
  assumes "iam_role_arn_match s"
  shows "\<exists>acct rest. s = ''arn'' @ CHR '':'' # ''aws'' @ CHR '':'' # ''iam'' @ CHR '':'' # [] @ CHR '':'' # acct @ CHR '':'' # rest
    \<and> length acct = 12 \<and> list_all is_digit acct"
proof -
  from assms obtain r where r: "s = ''arn:aws:iam::'' @ r" and len: "length (take 12 r) = 12" "list_all is_digit (take 12 r)"
    and t: "case drop_prefix '':role/'' (drop 12 r) of None \<Rightarrow> False | Some nm \<Rightarrow> (case nm of [] \<Rightarrow> False | c # _ \<Rightarrow> c \<noteq> newline_chr)"
    by (auto simp: iam_role_arn_match_def drop_prefix_Some split: option.splits)
  from t obtain nm where nm: "drop 12 r = '':role/'' @ nm" by (auto simp: drop_prefix_Some split: option.splits)
  have "r = take 12 r @ '':role/'' @ nm" using nm by (metis append_take_drop_id)
  then show ?thesis using r len by (intro exI [of _ "take 12 r"] exI [of _ "''role/'' @ nm"]) simp
qed

lemma colon_not_space: "\<not> is_space (CHR '':'')" and colon_not_digit: "\<not> is_digit (CHR '':'')"
  by code_simp+

lemma role_account_present:
  assumes "is_valid_iam_role_arn arn"
  shows "opt_text_of (arn_account_id (Some arn)) \<noteq> []"
proof -
  obtain u v where uv: "arn = u @ py_strip arn @ v" "\<forall>c \<in> set u. is_space c" using strip_parts by blast
  obtain acct rest where a: "py_strip arn = ''arn'' @ CHR '':'' # ''aws'' @ CHR '':'' # ''iam'' @ CHR '':'' # [] @ CHR '':'' # acct @ CHR '':'' # rest"
    and acct: "length acct = 12" "list_all is_digit acct"
    using iam_role_arn_parts assms unfolding is_valid_iam_role_arn_def by blast
  have arn: "arn = (u @ ''arn'') @ CHR '':'' # ''aws'' @ CHR '':'' # ''iam'' @ CHR '':'' # [] @ CHR '':'' # acct @ CHR '':'' # (rest @ v)"
    using uv(1) unfolding a by simp
  have "CHR '':'' \<notin> set u" using uv(2) colon_not_space by auto
  moreover have "CHR '':'' \<notin> set acct" using acct(2) colon_not_digit by (auto simp: list_all_iff)
  ultimately have sp: "split_at (CHR '':'') arn = (u @ ''arn'') # ''aws'' # ''iam'' # [] # acct # split_at (CHR '':'') (rest @ v)"
    unfolding arn by (subst split_at_field, simp)+ simp
  have ne: "arn \<noteq> []" unfolding arn by simp
  have l: "\<not> length (split_at (CHR '':'') arn) < 6"
    unfolding sp using split_at_ne [of "CHR '':''" "rest @ v"] by (cases "split_at (CHR '':'') (rest @ v)") simp_all
  have "arn_account_id (Some arn) = Some acct"
    using ne l by (simp add: arn_account_id_def arn_field_def text_empty_def sp)
  then show ?thesis using acct by (auto simp: opt_text_of_def)
qed

lemma cluster_fields_present:
  assumes "eks_cluster_arn_match s"
  shows "opt_text_of (eks_cluster_region (Some s)) \<noteq> []" "opt_text_of (arn_account_id (Some s)) \<noteq> []"
proof -
  obtain p region account res where f: "split_at (CHR '':'') (chomp s) = [''arn'', p, ''eks'', region, account, res]"
    and ne: "region \<noteq> []" "account \<noteq> []" using arn_fields_of_match [OF assms] by blast
  have "\<exists>res'. split_at (CHR '':'') s = [''arn'', p, ''eks'', region, account, res']"
  proof (cases "s \<noteq> [] \<and> last s = newline_char")
    case True
    then have s: "s = chomp s @ [newline_char]" using append_butlast_last_id [of s] by (simp add: chomp_def)
    have "newline_char \<noteq> CHR '':''" by (simp add: newline_char_def)
    from split_at_snoc [OF this, of "chomp s"] show ?thesis unfolding s [symmetric] f by simp
  next
    case False
    then have "chomp s = s" by (auto simp: chomp_def)
    then show ?thesis using f by simp
  qed
  then obtain res' where sp: "split_at (CHR '':'') s = [''arn'', p, ''eks'', region, account, res']" by blast
  then have "s \<noteq> []" by auto
  then show "opt_text_of (eks_cluster_region (Some s)) \<noteq> []" "opt_text_of (arn_account_id (Some s)) \<noteq> []"
    using ne by (simp_all add: eks_cluster_region_def arn_account_id_def arn_field_def text_empty_def sp opt_text_of_def)
qed

lemma byoc_configuration_aligned:
  assumes arn: "snd (cluster_arn_check env)" and role: "is_valid_iam_role_arn (env_customer_role_arn env)"
    and ok: "no_failure (fst (cluster_region_check env))" "no_failure (fst (account_alignment_check env))"
  shows "snd (cluster_region_check env)" "snd (account_alignment_check env)"
proof -
  obtain s where s: "env_eks_cluster_arn env = Some s" "eks_cluster_arn_match s"
    using arn by (auto simp: cluster_arn_check_def Let_def text_empty_def opt_text_of_def split: option.splits)
  note f = cluster_fields_present [OF s(2)]
  show "snd (cluster_region_check env)"
    using ok(1) f(1) by (auto simp: cluster_region_check_def Let_def s(1) split: if_splits)
  show "snd (account_alignment_check env)"
    using ok(2) f(2) role_account_present [OF role] by (auto simp: account_alignment_check_def Let_def s(1) split: if_splits)
qed

subsection \<open>The parts of a preflight that is ready\<close>

text \<open>An emitter that answers without a failed check.\<close>

definition emits_ok :: "exn + preflight_check list \<Rightarrow> bool" where
  "emits_ok e \<longleftrightarrow> (case e of Inl _ \<Rightarrow> False | Inr cs \<Rightarrow> no_failure cs)"

lemma emits_ok_simps [simp]: "\<not> emits_ok (Inl e)" "emits_ok (Inr cs) \<longleftrightarrow> no_failure cs"
  by (simp_all add: emits_ok_def)

lemma emits_okE: "emits_ok e \<Longrightarrow> \<exists>cs. e = Inr cs \<and> no_failure cs"
  by (cases e) simp_all

lemma emits_ok_all [simp]: "emits_ok (emit_all es) \<longleftrightarrow> (\<forall>e \<in> set es. emits_ok e)"
proof (induction es)
  case Nil
  then show ?case by simp
next
  case (Cons e es)
  then show ?case by (cases e; cases "emit_all es") simp_all
qed

lemma emits_ok_if: "emits_ok (if b then x else y) \<longleftrightarrow> (if b then emits_ok x else emits_ok y)"
  by simp

lemma emits_ok_rbind: "emits_ok (rbind m f) \<longleftrightarrow> (\<exists>x. m = Inr x \<and> emits_ok (f x))"
  by (cases m) simp_all

lemma full_preflight_parts:
  assumes run: "full_preflight sv rr rv now env rid c d = (Inr p, d')" and ready: "pf_ready p"
    and r: "r = (case rid of None \<Rightarrow> None | Some i \<Rightarrow> get_run d i)"
  shows "\<exists>xs ys d1 zs. checks_before_policies sv rr rv now env r c d = Inr xs \<and> no_failure xs \<and>
    policy_engine_checks now env c r d = (Inr ys, d1) \<and> no_failure ys \<and>
    checks_after_policies sv env r c d1 = Inr zs \<and> no_failure zs"
proof -
  note b = run [unfolded full_preflight_def]
  have bd: "build_preflight (checks_before_policies sv rr rv now) (checks_after_policies sv) now env rid c d =
    (case checks_before_policies sv rr rv now env r c d of Inl e \<Rightarrow> (Inl e, d)
     | Inr early \<Rightarrow> (case policy_engine_checks now env c r d of (Inl e, d1) \<Rightarrow> (Inl e, d1)
        | (Inr pol, d1) \<Rightarrow> (case checks_after_policies sv env r c d1 of Inl e \<Rightarrow> (Inl e, d1)
           | Inr late \<Rightarrow> (let checks = add_checks late (add_checks pol (add_checks early []))
              in (Inr \<lparr>pf_environment_id = env_id env, pf_run_id = rid, pf_ready = list_all (\<lambda>c. ck_status c \<noteq> ''fail'') checks,
                   pf_generated_at = now, pf_checks = checks\<rparr>, d1)))))"
    unfolding build_preflight_def Let_def r by (rule refl)
  obtain xs where xs: "checks_before_policies sv rr rv now env r c d = Inr xs"
    using b unfolding bd by (auto split: sum.splits)
  obtain ys d1 where ys: "policy_engine_checks now env c r d = (Inr ys, d1)"
    using b unfolding bd by (auto simp: xs split: sum.splits prod.splits)
  obtain zs where zs: "checks_after_policies sv env r c d1 = Inr zs"
    using b unfolding bd by (auto simp: xs ys split: sum.splits)
  have std: "\<forall>x \<in> set xs \<union> set zs. std_status x"
    using std_before [of sv rr rv now env r c d] std_after [of sv env r c d1] by (auto simp: xs zs all_std_def)
  have "\<forall>x \<in> set xs \<union> set ys \<union> set zs. ck_status x \<noteq> ''fail''"
    using build_preflight_ready_iff [OF b xs r ys zs std] ready by blast
  then show ?thesis using xs ys zs by (auto simp: no_failure_def)
qed

lemma before_ok_iff:
  "emits_ok (checks_before_policies sv rr rv now env r c d) \<longleftrightarrow>
     emits_ok (runtime_and_release_checks (pre_loads sv) (pre_settings sv) env d) \<and>
     no_failure (customer_role_arn_check env @ environment_status_check env rr @ virtual_cluster_check env rv @
      spark_conf_policy_check c @ team_budget_checks now env d @ yunikorn_queue_capacity_check env r) \<and>
     emits_ok (dispatch_gate_checks (pre_settings sv) (pre_sts sv) (dispatch_services.truncate (pre_emr sv)) env) \<and>
     emits_ok (byoc_lite_configuration_checks (preflight_auto_trust_update_enabled (env_var (pre_sts sv))) (pre_emr sv) env c) \<and>
     no_failure (vpa_compat_checks c @ s3_express_checks c)"
  unfolding checks_before_policies_def Let_def emits_ok_all list.set ball_simps emits_ok_simps simp_thms by (rule TrueI)

lemma after_ok_iff:
  "emits_ok (checks_after_policies sv env r c d) \<longleftrightarrow>
     no_failure (lake_formation_fgac_checks (pre_settings sv) (pre_get_role sv) (pre_permissions sv) env) \<and>
     emits_ok (security_configuration_checks (describe_security_configuration (pre_settings sv) (pre_describe_security sv)) env) \<and>
     emits_ok (iam_credential_chain_checks (pre_settings sv) (pre_sts sv) env)"
  unfolding checks_after_policies_def Let_def emits_ok_all list.set ball_simps emits_ok_simps simp_thms by (rule TrueI)

lemma runtime_ok:
  assumes "emits_ok (runtime_and_release_checks loads s env d)"
  shows "validate_runtime_settings loads s = Inr ()" "py_strip (cfg_log_group_prefix s) \<noteq> []" "py_strip (cfg_emr_release_label s) \<noteq> []"
    "\<exists>row. lookup_release_row d (py_strip (cfg_emr_release_label s)) = Inr row \<and>
       (\<forall>r. row = Some r \<longrightarrow> rel_lifecycle_status r \<in> {''current'', ''deprecated''})"
proof -
  let ?l = "py_strip (cfg_emr_release_label s)"
  let ?rel = "\<lambda>row. Inr (passed ''config.emr_release_label'' ''EMR release label is configured.''
               [(''emr_release_label'', JStr (cfg_emr_release_label s))] #
             release_currency_check ?l row @ graviton_support_check (env_instance_architecture env) row)"
  have e: "emits_ok (execution_role_config_check loads s)" "no_failure (log_group_prefix_check s)"
    "emits_ok (if ?l = [] then Inr (missing_release_label_checks (env_instance_architecture env)) else rbind (lookup_release_row d ?l) ?rel)"
    using assms unfolding runtime_and_release_checks_def Let_def emits_ok_all list.set ball_simps emits_ok_simps
    by blast+
  show "validate_runtime_settings loads s = Inr ()" using emits_okE [OF e(1)] execution_role_config_ok by blast
  show "py_strip (cfg_log_group_prefix s) \<noteq> []" using e(2) by (auto simp: log_group_prefix_check_def split: if_splits)
  have "\<not> no_failure (missing_release_label_checks a)" for a by (simp add: missing_release_label_checks_def)
  then show l: "?l \<noteq> []" using e(3) by auto
  have "emits_ok (rbind (lookup_release_row d ?l) ?rel)" using e(3) l by presburger
  then obtain row where row: "lookup_release_row d ?l = Inr row" and cur: "no_failure (release_currency_check ?l row)"
    unfolding emits_ok_rbind by auto
  have "rel_lifecycle_status r \<in> {''current'', ''deprecated''}" if "row = Some r" for r
  proof (rule ccontr)
    assume "\<not> ?thesis"
    then have "\<not> no_failure (release_currency_check ?l row)" by (simp add: release_currency_check_def that)
    then show False using cur by blast
  qed
  then show "\<exists>row. lookup_release_row d (py_strip (cfg_emr_release_label s)) = Inr row \<and>
       (\<forall>r. row = Some r \<longrightarrow> rel_lifecycle_status r \<in> {''current'', ''deprecated''})" using row by blast
qed

text \<open>A customer cluster: the configuration is in order, so the cloud was asked, and no answer was a failure.\<close>

lemma byoc_ok:
  assumes run: "emits_ok (byoc_lite_configuration_checks b svc env c)" and byoc: "env_provisioning_mode env = ''byoc_lite''"
    and base: "is_valid_iam_role_arn (env_customer_role_arn env)" "env_status env = EReady" "\<not> text_empty (env_emr_virtual_cluster_id env)"
  shows "emits_ok (run_aws_prechecks b svc env c True)"
proof -
  let ?el = "is_aws_precheck_eligible env (snd (cluster_arn_check env)) (snd (namespace_checks env))
        (snd (cluster_region_check env)) (snd (account_alignment_check env))"
  have e: "no_failure (fst (cluster_arn_check env) @ fst (namespace_checks env) @ fst (cluster_region_check env) @
        fst (account_alignment_check env))" "emits_ok (run_aws_prechecks b svc env c ?el)"
    using run
    by (simp_all only: byoc_lite_configuration_checks_def Let_def split_beta byoc simp_thms if_False emits_ok_all
        list.set ball_simps emits_ok_simps)
  then have v: "snd (cluster_arn_check env)" "snd (namespace_checks env)" using cluster_arn_ok namespace_ok by auto
  have cfg: "no_failure (fst (cluster_region_check env))" "no_failure (fst (account_alignment_check env))" using e(1) by simp_all
  note al = byoc_configuration_aligned [OF v(1) base(1) cfg]
  have "?el" using base v al by (simp add: is_aws_precheck_eligible_def)
  then show ?thesis using e(2) by simp
qed

lemma on_value_error_ok:
  assumes "on_value_error m ok h = Inr cs" "no_failure cs" "\<And>e. \<not> no_failure (h e)"
  shows "\<exists>x. m = Inr x \<and> cs = ok x"
  using assms by (auto simp: on_value_error_def split: sum.splits if_splits)

lemma dispatch_permission_ok:
  assumes "dispatch_permission_checks svc env = Inr cs" "no_failure cs"
  shows "\<exists>res. emr_dispatch_permissions svc env = Inr res \<and> truthy (dget res ''dispatch_actions_allowed'' JNull) \<and>
    truthy (dget res ''pass_role_allowed'' JNull)"
proof -
  obtain res where m: "emr_dispatch_permissions svc env = Inr res"
    using on_value_error_ok [OF assms(1) [unfolded dispatch_permission_checks_def Let_def] assms(2)] by auto
  then have "cs = [pass_or_fail ''byoc_lite.customer_role_dispatch'' (truthy (dget res ''dispatch_actions_allowed'' JNull))
             ''Customer role allows required EMR dispatch actions.'' ''Customer role is missing required EMR dispatch actions.''
             (''Add dispatch actions and retry preflight. Command: '' @ dispatch_policy_remediation_command (customer_role_name env))
             [(''denied_actions'', JStr (str_or res ''denied_dispatch_actions'' []))],
           pass_or_fail ''byoc_lite.iam_pass_role'' (truthy (dget res ''pass_role_allowed'' JNull))
             ''Customer role allows iam:PassRole for execution role.'' ''Customer role does not allow iam:PassRole for execution role.''
             (''Grant iam:PassRole on the execution role and retry preflight. Command: '' @
              pass_role_policy_remediation_command (customer_role_name env) (or_else (str_or res ''execution_role_arn'' []) ''<execution-role-arn>''))
             [(''execution_role_arn'', JStr (str_or res ''execution_role_arn'' []))]]"
    using assms(1) by (simp add: dispatch_permission_checks_def Let_def on_value_error_def)
  then show ?thesis using m assms(2) by (auto simp: pass_or_fail_def split: if_splits)
qed

lemma namespace_collision_ok:
  assumes "namespace_collision_check svc env = Inr cs" "no_failure cs" "emr_find_collision svc env = Inr (Some col)" "col \<noteq> []"
  shows "env_emr_virtual_cluster_id env = Some (str_or col ''id'' [])"
  using assms by (auto simp: namespace_collision_check_def Let_def on_value_error_def text_empty_def split: if_splits option.splits)

lemma prechecks_ok:
  assumes "emits_ok (run_aws_prechecks b svc env c True)"
  shows "\<exists>res. emr_dispatch_permissions svc env = Inr res \<and> truthy (dget res ''dispatch_actions_allowed'' JNull) \<and>
      truthy (dget res ''pass_role_allowed'' JNull)"
    and "emr_find_collision svc env = Inr (Some col) \<Longrightarrow> col \<noteq> [] \<Longrightarrow> env_emr_virtual_cluster_id env = Some (str_or col ''id'' [])"
proof -
  have e: "emits_ok (dispatch_permission_checks svc env)" "emits_ok (namespace_collision_check svc env)"
    using assms by (simp_all add: run_aws_prechecks_def del: emit_all_simps)
  show "\<exists>res. emr_dispatch_permissions svc env = Inr res \<and> truthy (dget res ''dispatch_actions_allowed'' JNull) \<and>
      truthy (dget res ''pass_role_allowed'' JNull)"
    using emits_okE [OF e(1)] dispatch_permission_ok by blast
  show "emr_find_collision svc env = Inr (Some col) \<Longrightarrow> col \<noteq> [] \<Longrightarrow> env_emr_virtual_cluster_id env = Some (str_or col ''id'' [])"
    using emits_okE [OF e(2)] namespace_collision_ok by blast
qed

lemma truncated_trust: "emr_check_trust (dispatch_services.truncate svc) = emr_check_trust svc"
  by (simp add: dispatch_services.defs)

lemma irsa_trust: "\<exists>c. irsa_subject_check svc env = Inr (c, True) \<Longrightarrow> \<exists>trust. emr_check_trust svc False env = Inr trust"
  by (auto simp: irsa_subject_check_def split: sum.splits if_splits)

lemma oidc_association_ok:
  assumes "emits_ok (oidc_association_check svc env)"
  shows "\<exists>res. emr_oidc_association svc env = Inr res \<and> truthy (dget res ''associated'' JNull)"
proof -
  obtain cs where cs: "oidc_association_check svc env = Inr cs" "no_failure cs" using emits_okE [OF assms] by blast
  then show ?thesis by (auto simp: oidc_association_check_def Let_def on_value_error_def split: sum.splits if_splits)
qed

lemma prechecks_associated:
  "emits_ok (run_aws_prechecks b svc env c True) \<Longrightarrow> emits_ok (oidc_association_check svc env)"
  by (simp add: run_aws_prechecks_def del: emit_all_simps)

lemma credential_chain_ok:
  assumes "emits_ok (iam_credential_chain_checks s sts env)" "\<not> cfg_dry_run_mode s" "env_customer_role_arn env \<noteq> []"
  shows "\<exists>ident. sts_identity sts = Inr ident"
    "\<exists>res. assume_and_identify sts (env_customer_role_arn env) (env_region env)
      (let x = py_strip (cfg_assume_role_external_id s) in if x = [] then None else Some x) = Inr res"
proof -
  let ?g = "py_strip (cfg_assume_role_external_id s)"
  have idem: "py_strip ?g = ?g" by (rule py_strip_idem)
  obtain i where i: "validate_runtime_identity s sts = Inr i" "truthy (dget i ''valid'' JNull)"
    using assms(1) by (auto simp: iam_credential_chain_checks_def emits_ok_rbind emits_ok_if split: if_splits)
  then show "\<exists>ident. sts_identity sts = Inr ident"
    using assms(2) by (auto simp: validate_runtime_identity_def no_identity_def dget_def Let_def split: sum.splits if_splits)
  obtain res where res: "validate_assume_role_chain s sts (env_customer_role_arn env) (env_region env)
      (if ?g = [] then None else Some ?g) = Inr res" "truthy (dget res ''success'' JNull)"
    using assms(1,3) i by (auto simp: iam_credential_chain_checks_def emits_ok_rbind emits_ok_if Let_def split: if_splits)
  have "py_strip (case if ?g = [] then None else Some ?g of None \<Rightarrow> cfg_assume_role_external_id s | Some x \<Rightarrow> x) = ?g"
    by (simp add: idem)
  from assume_chain_succeeds [OF res assms(2) this] show "\<exists>res. assume_and_identify sts (env_customer_role_arn env) (env_region env)
      (let x = ?g in if x = [] then None else Some x) = Inr res" unfolding Let_def by blast
qed

lemma valid_role_ne: "is_valid_iam_role_arn arn \<Longrightarrow> arn \<noteq> []"
  using role_account_present [of arn] by (auto simp: arn_account_id_def arn_field_def text_empty_def opt_text_of_def)

lemma truncated_describe: "eks_describe (dispatch_services.truncate svc) = eks_describe svc"
  by (simp add: dispatch_services.defs)

text \<open>The repair of a trust policy during a preflight comes after the gate has failed on it.\<close>

lemma repaired_trust_not_ready:
  assumes "emr_check_trust svc False env = Inl e" "env_engine env = ''emr_on_eks''" "env_provisioning_mode env = ''byoc_lite''"
  shows "\<not> emits_ok (dispatch_gate_checks s sts svc env)"
proof
  assume "emits_ok (dispatch_gate_checks s sts svc env)"
  then obtain cs where "dispatch_gate_checks s sts svc env = Inr cs" "no_failure cs" using emits_okE by blast
  from dispatch_gate_ok(4) [OF this assms(2,3)] irsa_trust assms(1) show False by fastforce
qed

text \<open>The external id of an environment.\<close>

lemma gate_accepts_own_external_id:
  assumes "\<not> cfg_dry_run_mode s" "env_assume_role_external_id env = Some x" "py_strip x \<noteq> []" "env_customer_role_arn env \<noteq> []"
    and "assume_and_identify sts (env_customer_role_arn env) (env_region env) (Some (py_strip x)) = Inr res"
  shows "\<exists>y. sts_caller_identity_check s sts env = Inr (y, True)"
proof -
  have "py_strip (py_strip x) = py_strip x" by (rule py_strip_idem)
  moreover have "truthy (dget res ''success'' JNull)"
    using assms(5) by (auto simp: assume_and_identify_def rbind_Inr_iff Let_def dget_def)
  ultimately show ?thesis using assms
    by (simp add: sts_caller_identity_check_def resolved_external_id_def Let_def validate_assume_role_chain_def)
qed

lemma chain_refuses_own_external_id:
  assumes "\<not> cfg_dry_run_mode s" "sts_identity sts = Inr ident" "py_strip (cfg_assume_role_external_id s) \<noteq> y"
    "env_customer_role_arn env \<noteq> []"
    and refuses: "\<And>ext. ext \<noteq> Some y \<Longrightarrow> \<exists>e. sts_assume sts (env_region env) (env_customer_role_arn env) ext = Inl e \<and> is_client_error e"
  shows "\<not> emits_ok (iam_credential_chain_checks s sts env)"
proof -
  let ?g = "py_strip (cfg_assume_role_external_id s)" and ?arn = "env_customer_role_arn env"
  have idem: "py_strip ?g = ?g" by (rule py_strip_idem)
  obtain e where e: "sts_assume sts (env_region env) ?arn (if ?g = [] then None else Some ?g) = Inl e" "is_client_error e"
    using refuses [of "if ?g = [] then None else Some ?g"] assms(3) by (cases "?g = []") fastforce+
  have "validate_assume_role_chain s sts ?arn (env_region env) (if ?g = [] then None else Some ?g) = Inr (assume_error sts ?arn e)"
    using e assms(1) by (auto simp: validate_assume_role_chain_def Let_def assume_and_identify_def idem)
  moreover have "\<not> truthy (dget (assume_error sts ?arn e) ''success'' JNull)"
    by (simp add: assume_error_def Let_def assume_failed_def dget_def)
  moreover have "\<exists>i. validate_runtime_identity s sts = Inr i \<and> truthy (dget i ''valid'' JNull)"
    using assms(1,2) by (simp add: validate_runtime_identity_def Let_def dget_def)
  ultimately show ?thesis using assms(4)
    by (auto simp: iam_credential_chain_checks_def emits_ok_rbind Let_def emits_ok_if)
qed

end
