(* ===== verification/SP_PreflightSamples.thy ===== *)
theory SP_PreflightSamples
  imports SP_PreflightFacts SP_Samples
begin

text \<open>Settings, clients and an environment that pass every check, and their variants, for the witnesses.\<close>

definition sample_settings :: settings where
  "sample_settings = default_settings\<lparr>cfg_environment_name := ''production'', cfg_database_url := ''postgresql://db/sp'',
     cfg_customer_oidc_issuer := ''https://c'', cfg_customer_oidc_audience := ''a'', cfg_customer_oidc_jwks_uri := ''https://c/k'',
     cfg_internal_oidc_issuer := ''https://i'', cfg_internal_oidc_audience := ''a'', cfg_internal_oidc_jwks_uri := ''https://i/k'',
     cfg_bootstrap_secret := ''0123456789abcdef'', cfg_internal_admins := ''a@b.io'',
     cfg_contact_submit_token := ''0123456789abcdef0123456789abcdef'', cfg_cors_origins := ''https://app'',
     cfg_emr_execution_role_arn := ''arn:aws:iam::123456789012:role/x''\<rparr>"

definition no_json :: "string \<Rightarrow> string + json" where
  "no_json text = Inl ''no JSON''"

definition assumed :: "json dict" where
  "assumed = [(''AssumedRoleUser'', JObj [(''Arn'', JStr ''arn:aws:sts::123456789012:assumed-role/r/s'')])]"

definition sample_sts :: sts_services where
  "sample_sts = \<lparr>sts_identity = Inr [(''Arn'', JStr ''arn:aws:sts::1:assumed-role/t/s''), (''UserId'', JStr ''u'')],
     sts_assume = (\<lambda>region role ext. Inr assumed), sts_session_identity = (\<lambda>region creds. Inr []),
     sts_error_text = exn_text, env_var = (\<lambda>k. None)\<rparr>"

definition denied_exn :: exn where
  "denied_exn = \<lparr>exn_class = ''ClientError'', exn_text = ''denied'', exn_code = Some ''AccessDenied'', exn_aws = True\<rparr>"

text \<open>A role whose trust policy demands the external id \<open>own\<close>.\<close>

definition guarded_sts :: sts_services where
  "guarded_sts = sample_sts\<lparr>sts_assume := (\<lambda>region role ext. if ext = Some ''own'' then Inr assumed else Inl denied_exn)\<rparr>"

definition allowed_result :: "json dict" where
  "allowed_result = [(''EvalDecision'', JStr ''allowed'')]"

definition sample_emr :: emr_services where
  "sample_emr = \<lparr>iam_simulate = (\<lambda>env p acts res. Inr [allowed_result]),
     eks_describe = (\<lambda>env nm. Inr [(''status'', JStr ''ACTIVE''),
       (''identity'', JObj [(''oidc'', JObj [(''issuer'', JStr ''https://oidc'')])])]),
     emr_check_trust = (\<lambda>upd env. Inr []), emr_oidc_association = (\<lambda>env. Inr [(''associated'', JBool True)]),
     emr_update_trust = (\<lambda>env. Inr []), emr_pod_identity = (\<lambda>env. Inr []), emr_access_mode = (\<lambda>env. Inr []),
     emr_dispatch_permissions = (\<lambda>env. Inr [(''dispatch_actions_allowed'', JBool True), (''pass_role_allowed'', JBool True)]),
     emr_find_collision = (\<lambda>env. Inr None), emr_nodegroups = (\<lambda>env. Inr [])\<rparr>"

definition sample_services :: preflight_services where
  "sample_services = \<lparr>pre_settings = sample_settings, pre_loads = no_json, pre_sts = sample_sts, pre_emr = sample_emr,
     pre_get_role = (\<lambda>r. Inr ()), pre_permissions = (\<lambda>r a c. Inr (perm_error [])), pre_describe_security = (\<lambda>e s. Inr [])\<rparr>"

definition byoc_env :: environment where
  "byoc_env = sample_env\<lparr>env_provisioning_mode := ''byoc_lite'', env_engine := ''emr_on_eks'',
     env_customer_role_arn := ''arn:aws:iam::123456789012:role/r'', env_region := ''us-east-1'',
     env_eks_cluster_arn := Some ''arn:aws:eks:us-east-1:123456789012:cluster/c'', env_eks_namespace := Some ''spark'',
     env_emr_virtual_cluster_id := Some ''vc1'', env_status := EReady, env_lake_formation_enabled := False,
     env_security_configuration_id := None, env_assume_role_external_id := None, env_yunikorn_queue := None\<rparr>"

definition is_ready_answer :: "(exn + preflight) \<times> database \<Rightarrow> bool" where
  "is_ready_answer r \<longleftrightarrow> (case fst r of Inl e \<Rightarrow> False | Inr p \<Rightarrow> pf_ready p)"

lemma is_ready_answerE: "is_ready_answer r \<Longrightarrow> \<exists>p d'. r = (Inr p, d') \<and> pf_ready p"
  by (cases r) (auto simp: is_ready_answer_def split: sum.splits)

lemma sample_settings_valid: "validate_runtime_settings no_json sample_settings = Inr ()"
  by code_simp

lemma sample_preflight_ready:
  "is_ready_answer (full_preflight sample_services True True 0 byoc_env None None empty_db)"
  by code_simp

text \<open>A listing of two pages, and one that never ends.\<close>

definition two_pages :: lf_client where
  "two_pages region cat n tok = Inr \<lparr>lf_permissions = [], lf_next_token = (if n = 0 then Some ''t'' else None)\<rparr>"

definition endless_pages :: lf_client where
  "endless_pages region cat n tok = Inr \<lparr>lf_permissions = [], lf_next_token = Some ''t''\<rparr>"

lemma endless_pages_go_on: "\<not> ends_at (endless_pages region cat) page_token tok k"
  by (simp add: ends_at_def endless_pages_def page_token_def next_token_def)

text \<open>An environment with its own external id, before a role that demands it.\<close>

definition own_id_env :: environment where
  "own_id_env = byoc_env\<lparr>env_assume_role_external_id := Some ''own''\<rparr>"

definition own_id_services :: preflight_services where
  "own_id_services = sample_services\<lparr>pre_sts := guarded_sts\<rparr>"

lemma own_id_facts:
  "\<not> cfg_dry_run_mode (pre_settings own_id_services)" "\<exists>ident. sts_identity (pre_sts own_id_services) = Inr ident"
  "env_assume_role_external_id own_id_env = Some ''own''" "env_customer_role_arn own_id_env \<noteq> []"
  "cfg_assume_role_external_id (pre_settings own_id_services) = []"
  "ext \<noteq> Some ''own'' \<Longrightarrow> \<exists>e. sts_assume (pre_sts own_id_services) region role ext = Inl e \<and> is_client_error e"
  by (simp_all add: own_id_services_def own_id_env_def sample_services_def guarded_sts_def sample_sts_def sample_settings_def default_settings_def
      byoc_env_def denied_exn_def is_client_error_def)

lemma own_id_strip: "py_strip ''own'' = ''own''" "py_strip [] = []"
  by code_simp+

lemma own_id_accepted:
  "\<exists>res. assume_and_identify (pre_sts own_id_services) (env_customer_role_arn own_id_env) (env_region own_id_env) (Some ''own'') = Inr res"
proof -
  have "is_ok (assume_and_identify (pre_sts own_id_services) (env_customer_role_arn own_id_env) (env_region own_id_env) (Some ''own''))"
    by code_simp
  then show ?thesis by (auto simp: is_ok_def split: sum.splits)
qed

text \<open>A policy that requires one of a list of golden paths, for an environment without cloud checks.\<close>

definition plain_env :: environment where
  "plain_env = byoc_env\<lparr>env_engine := ''emr_on_ec2'', env_provisioning_mode := ''full''\<rparr>"

definition path_policy :: policy where
  "path_policy = sample_policy ''allowed_golden_paths'' [(''allowed'', JArr [JStr ''small'']), (''require_golden_path'', JBool True)]"

definition is_answer :: "('e + 'a) \<times> 's \<Rightarrow> bool" where
  "is_answer r \<longleftrightarrow> (case fst r of Inl e \<Rightarrow> False | Inr x \<Rightarrow> True)"

lemma is_answerE: "is_answer r \<Longrightarrow> \<exists>x s. r = (Inr x, s)"
  by (cases r) (auto simp: is_answer_def split: sum.splits)

lemma path_policy_answered:
  "is_answer (full_preflight sample_services True True 0 plain_env None None (empty_db\<lparr>db_policies := [path_policy]\<rparr>))"
  by code_simp

end
