(* ===== verification/SP_Startup.thy ===== *)
theory SP_Startup
  imports SP_Settings
begin

text \<open>
  The start of the API process (\<open>api.py\<close>): the check of the raw environment variables of a production deployment, then
  the validation of the settings. The environment and the HTTP client are parameters.
\<close>

definition production_env_values :: "string list" where
  "production_env_values = [''production'', ''prod'']"

definition true_values :: "string list" where
  "true_values = [''1'', ''true'', ''yes'', ''y'', ''on'']"

definition false_values :: "string list" where
  "false_values = [''0'', ''false'', ''no'', ''n'', ''off'', []]"

fun env_value :: "(string \<Rightarrow> string option) \<Rightarrow> string list \<Rightarrow> string \<Rightarrow> string" where
  "env_value getenv [] dflt = py_strip dflt"
| "env_value getenv (nm # names) dflt =
     (case getenv nm of Some v \<Rightarrow> py_strip v | None \<Rightarrow> env_value getenv names dflt)"

definition parse_bool :: "string \<Rightarrow> bool option" where
  "parse_bool v =
     (let normalized = py_lower (py_strip v) in
      if normalized \<in> set true_values then Some True
      else if normalized \<in> set false_values then Some False else None)"

record jwks_client =
  jc_http_get :: "string \<Rightarrow> exn + json" \<comment> \<open>\<open>httpx.get\<close>, \<open>raise_for_status\<close> and \<open>json()\<close>\<close>
  jc_is_http_error :: "exn \<Rightarrow> bool" \<comment> \<open>an \<open>httpx.HTTPError\<close>\<close>

definition fetch_jwks_json :: "jwks_client \<Rightarrow> string \<Rightarrow> exn + json dict" where
  "fetch_jwks_json client uri =
     rbind (jc_http_get client uri) (\<lambda>payload.
       case payload of JObj kvs \<Rightarrow> Inr kvs | _ \<Rightarrow> Inl (value_error ''JWKS response must be a JSON object.''))"

text \<open>A recorded check: name, whether it passed, detail.\<close>

type_synonym startup_check = "string \<times> bool \<times> string"

definition check_oidc_pool :: "jwks_client \<Rightarrow> string \<Rightarrow> string \<Rightarrow> string \<Rightarrow> string \<Rightarrow> exn + startup_check list" where
  "check_oidc_pool client pool issuer audience jwks_uri =
     (let present = [(pool @ ''_oidc_issuer_present'', issuer \<noteq> [], pool @ '' OIDC issuer must be set.''),
            (pool @ ''_oidc_audience_present'', audience \<noteq> [], pool @ '' OIDC audience must be set.''),
            (pool @ ''_oidc_jwks_uri_present'', jwks_uri \<noteq> [], pool @ '' OIDC JWKS URI must be set.'')];
          code = pool @ ''_oidc_jwks_reachable_json''
      in if jwks_uri = [] then Inr (present @ [(code, False, pool @ '' JWKS endpoint must be reachable and return JSON.'')])
         else (case fetch_jwks_json client jwks_uri of
             Inr _ \<Rightarrow> Inr (present @ [(code, True, pool @ '' JWKS endpoint reachable and JSON parsed.'')])
           | Inl e \<Rightarrow>
               if jc_is_http_error client e \<or> is_value_error e
               then Inr (present @ [(code, False, ''JWKS check failed: '' @ exn_text e)])
               else Inl e))"

definition plain_startup_checks :: "(string \<Rightarrow> string option) \<Rightarrow> startup_check list" where
  "plain_startup_checks getenv =
     (let v = (\<lambda>names. env_value getenv names []);
          token = v [''SPARKPILOT_CONTACT_SUBMIT_TOKEN'', ''CONTACT_SUBMIT_TOKEN''];
          secret = v [''SPARKPILOT_BOOTSTRAP_SECRET'', ''BOOTSTRAP_SECRET''];
          cors_raw = env_value getenv [''SPARKPILOT_CORS_ORIGINS''] ''http://localhost:3000,http://127.0.0.1:3000'';
          local_origins = filter (\<lambda>e. contains_sub ''localhost'' (py_lower e) \<or> contains_sub ''127.0.0.1'' (py_lower e))
            (split_strip cors_raw)
      in [(''resend_api_key_present'', v [''SPARKPILOT_RESEND_API_KEY'', ''RESEND_API_KEY''] \<noteq> [],
            ''SPARKPILOT_RESEND_API_KEY must be set for invite email delivery.''),
          (''contact_submit_token_min_length'', length token \<ge> min_contact_submit_token_length,
            ''SPARKPILOT_CONTACT_SUBMIT_TOKEN must protect contact request delivery.''),
          (''invite_email_from_present'', v [''SPARKPILOT_INVITE_EMAIL_FROM'', ''INVITE_EMAIL_FROM''] \<noteq> [],
            ''SPARKPILOT_INVITE_EMAIL_FROM must be set for invite email delivery.''),
          (''cognito_hosted_ui_url_present'', v [''SPARKPILOT_COGNITO_HOSTED_UI_URL'', ''COGNITO_HOSTED_UI_URL''] \<noteq> [],
            ''SPARKPILOT_COGNITO_HOSTED_UI_URL must be set for invite email redirects.''),
          (''app_base_url_present'', v [''SPARKPILOT_APP_BASE_URL'', ''APP_BASE_URL'', ''SPARKPILOT_UI_APP_BASE_URL'', ''UI_APP_BASE_URL''] \<noteq> [],
            ''SPARKPILOT_APP_BASE_URL must be set for invite login redirects.''),
          (''bootstrap_secret_min_length'', length secret \<ge> min_bootstrap_secret_length,
            ''BOOTSTRAP_SECRET must be at least '' @ show_nat min_bootstrap_secret_length @ '' characters.''),
          (''cors_no_localhost'', local_origins = [], ''SPARKPILOT_CORS_ORIGINS must not contain localhost or 127.0.0.1.''),
          (''dry_run_disabled'', parse_bool (env_value getenv [''SPARKPILOT_DRY_RUN_MODE''] ''false'') = Some False,
            ''SPARKPILOT_DRY_RUN_MODE must be false in production.''),
          (''full_byoc_disabled'', parse_bool (env_value getenv [''SPARKPILOT_ENABLE_FULL_BYOC_MODE''] ''false'') = Some False,
            ''SPARKPILOT_ENABLE_FULL_BYOC_MODE must be false in production for this cut.'')])"

definition startup_checks :: "jwks_client \<Rightarrow> (string \<Rightarrow> string option) \<Rightarrow> exn + startup_check list" where
  "startup_checks client getenv =
     (let v = (\<lambda>names. env_value getenv names []);
          quote_oidc = ''SPARKPILOT_AUTH_MODE must be '' @ py_repr (JStr ''oidc'') @ ''.''
      in rbind (check_oidc_pool client ''customer_pool''
             (v [''SPARKPILOT_CUSTOMER_OIDC_ISSUER'', ''CUSTOMER_OIDC_ISSUER'', ''SPARKPILOT_OIDC_ISSUER'', ''OIDC_ISSUER''])
             (v [''SPARKPILOT_CUSTOMER_OIDC_AUDIENCE'', ''CUSTOMER_OIDC_AUDIENCE'', ''SPARKPILOT_OIDC_AUDIENCE'', ''OIDC_AUDIENCE''])
             (v [''SPARKPILOT_CUSTOMER_OIDC_JWKS_URI'', ''CUSTOMER_OIDC_JWKS_URI'', ''SPARKPILOT_OIDC_JWKS_URI'', ''OIDC_JWKS_URI'']))
         (\<lambda>customer. rbind (check_oidc_pool client ''internal_pool''
             (v [''SPARKPILOT_INTERNAL_OIDC_ISSUER'', ''INTERNAL_OIDC_ISSUER''])
             (v [''SPARKPILOT_INTERNAL_OIDC_AUDIENCE'', ''INTERNAL_OIDC_AUDIENCE''])
             (v [''SPARKPILOT_INTERNAL_OIDC_JWKS_URI'', ''INTERNAL_OIDC_JWKS_URI'']))
         (\<lambda>internal. Inr
           ((''auth_mode_oidc'', py_lower (env_value getenv [''SPARKPILOT_AUTH_MODE'', ''AUTH_MODE''] ''oidc'') = ''oidc'', quote_oidc)
            # customer @ internal @ plain_startup_checks getenv))))"

definition validate_production_startup :: "jwks_client \<Rightarrow> (string \<Rightarrow> string option) \<Rightarrow> exn + unit" where
  "validate_production_startup client getenv =
     (let active_env = py_lower (env_value getenv [''SPARKPILOT_ENV'', ''SPARKPILOT_ENVIRONMENT''] ''dev'') in
      if active_env \<notin> set production_env_values then Inr ()
      else rbind (startup_checks client getenv) (\<lambda>checks.
        let failures = map (\<lambda>(nm, ok, dtl). nm @ '': '' @ dtl) (filter (\<lambda>(nm, ok, dtl). \<not> ok) checks) in
        if failures \<noteq> [] then Inl \<lparr>exn_class = ''RuntimeError'',
            exn_text = ''Production startup validation failed: '' @ join ''; '' failures, exn_code = None, exn_aws = False\<rparr>
        else Inr ()))"

text \<open>\<open>lifespan\<close>, up to the creation of the tables.\<close>

definition lifespan ::
    "jwks_client \<Rightarrow> (string \<Rightarrow> string option) \<Rightarrow> (string \<Rightarrow> string + json) \<Rightarrow> settings \<Rightarrow> (exn + error) + unit" where
  "lifespan client getenv loads s =
     (case validate_production_startup client getenv of
        Inl e \<Rightarrow> Inl (Inl e)
      | Inr _ \<Rightarrow> (case validate_runtime_settings loads s of Inl e \<Rightarrow> Inl (Inr e) | Inr _ \<Rightarrow> Inr ()))"

definition api_docs_served :: "settings \<Rightarrow> bool" where
  "api_docs_served s \<longleftrightarrow> normal_environment s \<noteq> ''production''"

subsection \<open>Lemmas\<close>

lemma startup_ok_checks:
  assumes "validate_production_startup client getenv = Inr ()"
    and "py_lower (env_value getenv [''SPARKPILOT_ENV'', ''SPARKPILOT_ENVIRONMENT''] ''dev'') \<in> set production_env_values"
  shows "\<exists>checks. startup_checks client getenv = Inr checks \<and> (\<forall>(nm, ok, dtl) \<in> set checks. ok)"
  using assms
  by (auto simp: validate_production_startup_def rbind_Inr_iff Let_def filter_empty_conv split: if_splits)

text \<open>\<open>SPARKPILOT_ENV\<close> hides \<open>SPARKPILOT_ENVIRONMENT\<close>, which alone decides the settings.\<close>

lemma startup_check_skipped:
  assumes "getenv ''SPARKPILOT_ENV'' = Some v" "py_lower (py_strip v) \<notin> set production_env_values"
  shows "validate_production_startup client getenv = Inr ()"
  using assms by (simp add: validate_production_startup_def)

end
