(* ===== verification/SP_ContactSteps.thy ===== *)
theory SP_ContactSteps
  imports SP_Contact
begin

text \<open>
  Executions of the contact routes. A step carries the clock, which does not run backwards; new ids are fresh. A
  decided submission never changes, an approved one names a tenant that is there, and no address exceeds its rate.
\<close>

definition tenant_ids :: "database \<Rightarrow> string set" where
  "tenant_ids d = ten_id ` set (db_tenants d)"

inductive contact_step :: "settings \<Rightarrow> invite_settings \<Rightarrow> time \<times> contact_state \<Rightarrow> time \<times> contact_state \<Rightarrow> bool"
  for s :: settings and iv :: invite_settings
where
  step_submit: "t \<le> now \<Longrightarrow> i \<notin> csu_id ` set (cs_submissions st) \<Longrightarrow>
    contact_step s iv (t, st) (now, snd (post_public_contact s now i ip req st))"
| step_list: "t \<le> vc_now vc \<Longrightarrow>
    contact_step s iv (t, st) (vc_now vc, snd (get_internal_contact_submissions vc filt limit offset st))"
| step_approve: "t \<le> vc_now vc \<Longrightarrow>
    contact_step s iv (t, st) (vc_now vc, snd (post_internal_contact_approve iv ok vc sid nm st))"
| step_reject: "t \<le> vc_now vc \<Longrightarrow> contact_step s iv (t, st) (vc_now vc, snd (post_internal_contact_reject vc sid st))"
| step_other: "t \<le> now \<Longrightarrow> tenant_ids (cs_db st) \<subseteq> tenant_ids d \<Longrightarrow> contact_step s iv (t, st) (now, st\<lparr>cs_db := d\<rparr>)"

text \<open>An empty table and any database.\<close>

definition contact_start :: "time \<times> contact_state \<Rightarrow> bool" where
  "contact_start p \<longleftrightarrow> cs_submissions (snd p) = []"

definition contact_reached :: "settings \<Rightarrow> invite_settings \<Rightarrow> time \<times> contact_state \<Rightarrow> bool" where
  "contact_reached s iv p \<longleftrightarrow> (\<exists>p0. contact_start p0 \<and> (contact_step s iv)\<^sup>*\<^sup>* p0 p)"

subsection \<open>What one request does to the table\<close>

text \<open>Every request leaves the table, appends a row, or decides one pending row.\<close>

definition decides :: "contact_submission \<Rightarrow> contact_submission \<Rightarrow> database \<Rightarrow> bool" where
  "decides c c' d \<longleftrightarrow> csu_status c = ''pending'' \<and> csu_id c' = csu_id c \<and> csu_source_ip c' = csu_source_ip c
     \<and> csu_created_at c' = csu_created_at c \<and> csu_email c' = csu_email c
     \<and> (csu_status c' = ''rejected'' \<or> csu_status c' = ''approved'' \<and> (\<exists>tid. csu_tenant_id c' = Some tid \<and> tid \<in> tenant_ids d))"

definition table_moves :: "contact_state \<Rightarrow> contact_state \<Rightarrow> bool" where
  "table_moves st st' \<longleftrightarrow> tenant_ids (cs_db st) \<subseteq> tenant_ids (cs_db st') \<and>
     (cs_submissions st' = cs_submissions st \<or>
      (\<exists>sid f sub. find_row csu_id sid (cs_submissions st) = Some sub
         \<and> cs_submissions st' = modify_row csu_id sid f (cs_submissions st) \<and> csu_status sub = ''pending''
         \<and> (\<forall>c. csu_status c = ''pending'' \<longrightarrow> decides c (f c) (cs_db st')) \<and> (\<forall>c. csu_id (f c) = csu_id c
            \<and> csu_source_ip (f c) = csu_source_ip c \<and> csu_created_at (f c) = csu_created_at c)))"

lemma audit_tenants [simp]: "db_tenants (contact_audited vc ia action tid uid details d) = db_tenants d"
  by (simp add: contact_audited_def commit_internal_admin_audit_best_effort_def write_internal_admin_audit_event_def
      write_audit_event_def)

lemma send_tenants: "send_admin_invite iv vc who failure dr d = (r, d') \<Longrightarrow> db_tenants d' = db_tenants d \<and> pr_tenant r = dr_tenant dr"
  by (auto simp: send_admin_invite_def send_invite_email_and_audit_def write_audit_event_def Let_def
      split: prod.splits sum.splits if_splits)

lemma draft_tenants:
  assumes "draft_tenant_with_admin iv vc who req d = Inr (dr, d')"
  shows "db_tenants d' = db_tenants d @ [dr_tenant dr]"
  using assms
  by (auto simp: draft_tenant_with_admin_def create_tenant_def issue_invite_def create_magic_link_token_def rbind_Inr_iff
      write_audit_event_def add_tenant_def add_user_def add_token_def log_magic_link_issued_def Let_def split: option.splits if_splits)

lemma pending_submission_Inr [simp]:
  "pending_submission sid subs = Inr sub \<longleftrightarrow> find_row csu_id sid subs = Some sub \<and> csu_status sub = ''pending''"
  by (auto simp: pending_submission_def split: option.splits)

lemma list_moves: "table_moves st (snd (get_internal_contact_submissions vc filt limit offset st))"
  by (auto simp: table_moves_def get_internal_contact_submissions_def tenant_ids_def Let_def split: sum.splits)

lemma reject_moves: "table_moves st (snd (post_internal_contact_reject vc sid st))"
proof (cases "rbind (vc_admin vc) (\<lambda>ia. rbind (pending_submission sid (cs_submissions st)) (\<lambda>sub. Inr (ia, sub)))")
  case (Inl e)
  then show ?thesis by (simp add: post_internal_contact_reject_def table_moves_def)
next
  case (Inr p)
  obtain ia sub where p: "p = (ia, sub)" by (cases p)
  with Inr have sub: "find_row csu_id sid (cs_submissions st) = Some sub" "csu_status sub = ''pending''"
    by (auto simp: rbind_Inr_iff)
  show ?thesis unfolding post_internal_contact_reject_def Inr p table_moves_def
    by (simp add: tenant_ids_def)
      (intro disjI2 exI [of _ sid] exI [of _ "rejected (vc_now vc)"] exI [of _ sub], simp add: sub rejected_def decides_def)
qed

lemma approve_moves: "table_moves st (snd (post_internal_contact_approve iv ok vc sid nm st))"
proof (cases "rbind (vc_admin vc) (\<lambda>ia. rbind (pending_submission sid (cs_submissions st)) (\<lambda>sub. Inr (ia, sub)))")
  case (Inl e)
  then show ?thesis by (simp add: post_internal_contact_approve_def table_moves_def)
next
  case (Inr p)
  obtain ia sub where p: "p = (ia, sub)" by (cases p)
  with Inr have sub: "find_row csu_id sid (cs_submissions st) = Some sub" "csu_status sub = ''pending''"
    by (auto simp: rbind_Inr_iff)
  let ?req = "\<lparr>it_name = nm, it_admin_email = csu_email sub, it_federation_type = ''cognito_password'', it_idp_metadata = None\<rparr>"
  show ?thesis
  proof (cases "draft_tenant_with_admin iv vc (ia_email ia) ?req (cs_db st)")
    case (Inl e)
    then show ?thesis by (simp add: post_internal_contact_approve_def Inr p table_moves_def)
  next
    case drafted: (Inr q)
    obtain dr d1 where q: "q = (dr, d1)" by (cases q)
    let ?f = "approved vc ia (ten_id (dr_tenant dr))" and ?st' = "snd (post_internal_contact_approve iv ok vc sid nm st)"
    obtain r d2 where r: "send_admin_invite iv vc (ia_email ia) tenant_created_failure dr d1 = (r, d2)" by fastforce
    have db: "db_tenants (cs_db ?st') = db_tenants (cs_db st) @ [dr_tenant dr]"
      and subs: "cs_submissions ?st' = modify_row csu_id sid ?f (cs_submissions st)"
      using draft_tenants [OF drafted [unfolded q]] send_tenants [OF r]
      by (simp_all add: post_internal_contact_approve_def Inr p drafted q r Let_def)
    show ?thesis unfolding table_moves_def subs
      by (intro conjI disjI2 exI [of _ sid] exI [of _ ?f] exI [of _ sub])
        (auto simp: tenant_ids_def db sub approved_def decides_def)
  qed
qed

text \<open>An accepted submission is the last of its address within the limit.\<close>

definition from_address :: "string \<Rightarrow> time \<Rightarrow> contact_submission \<Rightarrow> bool" where
  "from_address ip start c \<longleftrightarrow> csu_source_ip c = Some ip \<and> start \<le> csu_created_at c"

lemma submit_cases:
  obtains "snd (post_public_contact s now i ip req st) = st"
  | "cs_submissions (snd (post_public_contact s now i ip req st)) = cs_submissions st @ [submission_row now i ip req]"
    "cs_db (snd (post_public_contact s now i ip req st)) = cs_db st"
    "\<And>a. ip = Some a \<Longrightarrow> a \<noteq> [] \<Longrightarrow>
       int (length (filter (from_address a (now - cfg_contact_submit_rate_limit_window_seconds s * us_per_second)) (cs_submissions st)))
         < cfg_contact_submit_rate_limit_max s"
proof (cases "enforce_public_contact_abuse_controls s (py_lower (py_strip (cf_email req))) ip now (cs_submissions st)")
  case (Inl e)
  show ?thesis by (rule that(1)) (simp add: post_public_contact_def Inl)
next
  case (Inr u)
  let ?w = "cfg_contact_submit_rate_limit_window_seconds s * us_per_second"
  have same: "from_address a (now - ?w) = (\<lambda>c. csu_source_ip c = Some a \<and> now - ?w \<le> csu_created_at c)" for a
    by (rule ext) (simp add: from_address_def)
  show ?thesis
  proof (rule that(2))
    fix a assume "ip = Some a" "a \<noteq> []"
    with Inr show "int (length (filter (from_address a (now - ?w)) (cs_submissions st))) < cfg_contact_submit_rate_limit_max s"
      unfolding same by (simp add: enforce_public_contact_abuse_controls_def Let_def rbind_Inr_iff falsy_def)
  qed (simp_all add: post_public_contact_def Inr)
qed

subsection \<open>The invariant\<close>

definition rate_ok :: "settings \<Rightarrow> contact_submission list \<Rightarrow> bool" where
  "rate_ok s subs \<longleftrightarrow> (\<forall>a u. a \<noteq> [] \<longrightarrow>
     int (length (filter (\<lambda>c. from_address a (u - cfg_contact_submit_rate_limit_window_seconds s * us_per_second) c
        \<and> csu_created_at c \<le> u) subs)) \<le> max 0 (cfg_contact_submit_rate_limit_max s))"

definition contact_ok :: "settings \<Rightarrow> time \<times> contact_state \<Rightarrow> bool" where
  "contact_ok s p \<longleftrightarrow> (case p of (t, st) \<Rightarrow> distinct (map csu_id (cs_submissions st)) \<and> (\<forall>c \<in> set (cs_submissions st).
       csu_created_at c \<le> t \<and> (csu_status c = ''approved'' \<longrightarrow> (\<exists>tid \<in> tenant_ids (cs_db st). csu_tenant_id c = Some tid)))
     \<and> rate_ok s (cs_submissions st))"

definition decided_kept :: "contact_state \<Rightarrow> contact_state \<Rightarrow> bool" where
  "decided_kept st st' \<longleftrightarrow> (\<forall>c \<in> set (cs_submissions st). csu_status c \<noteq> ''pending'' \<longrightarrow> c \<in> set (cs_submissions st'))"

lemma filter_modify_length:
  assumes "\<And>c. P (f c) = P c"
  shows "length (filter P (modify_row key i f cs)) = length (filter P cs)"
  by (induction cs) (simp_all add: modify_row_def assms)

lemma moves_kept:
  assumes m: "table_moves st st'" and dist: "distinct (map csu_id (cs_submissions st))"
  shows "decided_kept st st'"
  unfolding decided_kept_def
proof (intro ballI impI)
  fix c assume c: "c \<in> set (cs_submissions st)" "csu_status c \<noteq> ''pending''"
  show "c \<in> set (cs_submissions st')"
  proof (cases "cs_submissions st' = cs_submissions st")
    case False
    with m obtain sid f sub where f: "find_row csu_id sid (cs_submissions st) = Some sub" "csu_status sub = ''pending''"
        "cs_submissions st' = modify_row csu_id sid f (cs_submissions st)"
      unfolding table_moves_def by blast
    have "csu_id c \<noteq> sid" using find_row_unique [OF dist c(1)] f(1,2) c(2) by auto
    then show ?thesis unfolding f(3) set_modify_row by (intro image_eqI [OF _ c(1)]) simp
  qed (use c in simp)
qed

lemma moves_ok:
  assumes ok: "contact_ok s (t, st)" and m: "table_moves st st'" and later: "t \<le> now"
  shows "contact_ok s (now, st')"
proof -
  have ten: "tenant_ids (cs_db st) \<subseteq> tenant_ids (cs_db st')" using m by (simp add: table_moves_def)
  show ?thesis
  proof (cases "cs_submissions st' = cs_submissions st")
    case True
    with ok ten later show ?thesis unfolding contact_ok_def by fastforce
  next
    case False
    with m obtain sid f sub where f: "find_row csu_id sid (cs_submissions st) = Some sub" "csu_status sub = ''pending''"
        "cs_submissions st' = modify_row csu_id sid f (cs_submissions st)"
        "\<And>c. csu_status c = ''pending'' \<Longrightarrow> decides c (f c) (cs_db st')"
        "\<And>c. csu_id (f c) = csu_id c" "\<And>c. csu_source_ip (f c) = csu_source_ip c" "\<And>c. csu_created_at (f c) = csu_created_at c"
      unfolding table_moves_def by blast
    have ids: "map csu_id (cs_submissions st') = map csu_id (cs_submissions st)"
      unfolding f(3) by (rule map_key_modify [where f = f]) (rule f(5))
    have rows: "csu_created_at c' \<le> now \<and> (csu_status c' = ''approved'' \<longrightarrow>
        (\<exists>tid \<in> tenant_ids (cs_db st'). csu_tenant_id c' = Some tid))" if new: "c' \<in> set (cs_submissions st')" for c'
    proof -
      obtain c where c: "c \<in> set (cs_submissions st)" "c' = (if csu_id c = sid then f c else c)"
        using new unfolding f(3) set_modify_row by blast
      have old: "csu_created_at c \<le> t" "csu_status c = ''approved'' \<Longrightarrow> \<exists>tid \<in> tenant_ids (cs_db st). csu_tenant_id c = Some tid"
        using ok c(1) by (auto simp: contact_ok_def)
      show ?thesis
      proof (cases "csu_id c = sid")
        case True
        have "distinct (map csu_id (cs_submissions st))" using ok by (simp add: contact_ok_def)
        from find_row_unique [OF this c(1)] True f(1) have "c = sub" by simp
        then have "decides c (f c) (cs_db st')" using f(2,4) by blast
        then show ?thesis using old(1) later True c(2) unfolding decides_def by auto
      qed (use old c(2) later ten in auto)
    qed
    have "rate_ok s (cs_submissions st')"
      using ok unfolding contact_ok_def rate_ok_def f(3) by (simp add: filter_modify_length from_address_def f(6,7))
    then show ?thesis using ok ids rows by (simp add: contact_ok_def)
  qed
qed

lemma submit_ok:
  assumes ok: "contact_ok s (t, st)" and later: "t \<le> now" and fresh: "i \<notin> csu_id ` set (cs_submissions st)"
  shows "contact_ok s (now, snd (post_public_contact s now i ip req st))
    \<and> decided_kept st (snd (post_public_contact s now i ip req st))"
proof (cases rule: submit_cases [of s now i ip req st])
  case 1
  have "csu_created_at c \<le> now" if "c \<in> set (cs_submissions st)" for c using ok later that by (fastforce simp: contact_ok_def)
  with 1 ok show ?thesis by (simp add: contact_ok_def decided_kept_def)
next
  case 2
  let ?w = "cfg_contact_submit_rate_limit_window_seconds s * us_per_second" and ?row = "submission_row now i ip req"
  have row: "csu_id ?row = i" "csu_created_at ?row = now" "csu_status ?row = ''pending''" "csu_source_ip ?row = ip"
    by (simp_all add: submission_row_def)
  have "rate_ok s (cs_submissions st @ [?row])"
    unfolding rate_ok_def
  proof (intro allI impI)
    fix a u assume a: "a \<noteq> ([]::string)"
    let ?p = "\<lambda>u c. from_address a (u - ?w) c \<and> csu_created_at c \<le> u"
    have old: "int (length (filter (?p u) (cs_submissions st))) \<le> max 0 (cfg_contact_submit_rate_limit_max s)"
      using ok a unfolding contact_ok_def rate_ok_def by simp
    show "int (length (filter (?p u) (cs_submissions st @ [?row]))) \<le> max 0 (cfg_contact_submit_rate_limit_max s)"
    proof (cases "ip = Some a \<and> now \<le> u")
      case True
      have "filter (?p u) (cs_submissions st) = filter (?p u) (filter (from_address a (now - ?w)) (cs_submissions st))"
        using True by (auto simp: from_address_def intro!: filter_cong)
      then have "length (filter (?p u) (cs_submissions st)) \<le> length (filter (from_address a (now - ?w)) (cs_submissions st))"
        by (metis length_filter_le)
      with 2(3) [of a] a True show ?thesis by (simp add: row)
    qed (use old in \<open>auto simp: from_address_def row\<close>)
  qed
  moreover have "csu_created_at c \<le> now" if "c \<in> set (cs_submissions st)" for c using ok later that by (fastforce simp: contact_ok_def)
  ultimately show ?thesis using ok fresh 2(1,2) by (auto simp: contact_ok_def decided_kept_def row)
qed

lemma moves_step:
  assumes "contact_ok s (t, st)" "table_moves st st'" "t \<le> now"
  shows "contact_ok s (now, st') \<and> decided_kept st st'"
  using moves_ok [OF assms] moves_kept [OF assms(2)] assms(1) by (simp add: contact_ok_def [of s "(t, st)"])

lemma contact_step_ok:
  assumes "contact_step s iv p p'" "contact_ok s p"
  shows "contact_ok s p' \<and> decided_kept (snd p) (snd p')"
  using assms
proof cases
  case (step_submit t now i st ip req)
  with assms(2) show ?thesis using submit_ok by simp
next
  case (step_list t vc st filt limit offset)
  with assms(2) show ?thesis using moves_step [OF _ list_moves] by simp
next
  case (step_approve t vc st ok sid nm)
  with assms(2) show ?thesis using moves_step [OF _ approve_moves] by simp
next
  case (step_reject t vc st sid)
  with assms(2) show ?thesis using moves_step [OF _ reject_moves] by simp
next
  case (step_other t now st d)
  have "table_moves st (st\<lparr>cs_db := d\<rparr>)" using step_other by (simp add: table_moves_def)
  with step_other assms(2) show ?thesis using moves_step by simp
qed

lemma contact_steps_ok:
  assumes "(contact_step s iv)\<^sup>*\<^sup>* p p'" "contact_ok s p"
  shows "contact_ok s p' \<and> decided_kept (snd p) (snd p')"
  using assms
proof (induction rule: rtranclp_induct)
  case base
  then show ?case by (simp add: decided_kept_def)
next
  case (step q r)
  then show ?case using contact_step_ok [OF step(2)] by (auto simp: decided_kept_def)
qed

lemma contact_start_ok: "contact_start p \<Longrightarrow> contact_ok s p"
  by (cases p) (simp add: contact_start_def contact_ok_def rate_ok_def)

lemma contact_reached_ok: "contact_reached s iv p \<Longrightarrow> contact_ok s p"
  unfolding contact_reached_def using contact_steps_ok contact_start_ok by blast

end
