(* ===== verification/SP_ContactSamples.thy ===== *)
theory SP_ContactSamples
  imports SP_ContactSteps SP_InviteSamples
begin

text \<open>A submission and its approval, for the witnesses.\<close>

definition sample_contact :: contact_fields where
  "sample_contact = \<lparr>cf_name = ''Ann'', cf_email = ''ann@corp.io'', cf_company = None, cf_use_case = None, cf_message = None\<rparr>"

definition submitted_contact :: contact_state where
  "submitted_contact = snd (post_public_contact default_settings 1 ''c1'' (Some ''9.9.9.9'') sample_contact
     \<lparr>cs_db = empty_db, cs_submissions = []\<rparr>)"

definition approved_contact :: contact_state where
  "approved_contact = snd (post_internal_contact_approve demo_invites True demo_invite_call ''c1'' ''corp'' submitted_contact)"

lemma submitted_reached: "contact_reached default_settings demo_invites (1, submitted_contact)"
proof -
  have "contact_step default_settings demo_invites (0, \<lparr>cs_db = empty_db, cs_submissions = []\<rparr>) (1, submitted_contact)"
    unfolding submitted_contact_def by (rule step_submit) simp_all
  then show ?thesis unfolding contact_reached_def
    by (intro exI conjI, rule_tac [2] r_into_rtranclp) (auto simp: contact_start_def)
qed

lemma approved_reached: "contact_reached default_settings demo_invites (vc_now demo_invite_call, approved_contact)"
proof -
  have "contact_step default_settings demo_invites (1, submitted_contact) (vc_now demo_invite_call, approved_contact)"
    unfolding approved_contact_def by (rule step_approve) (simp add: demo_invite_call_def)
  with submitted_reached show ?thesis unfolding contact_reached_def by (blast intro: rtranclp.rtrancl_into_rtrancl)
qed

lemma approved_rows: "map (\<lambda>c. (csu_id c, csu_status c)) (cs_submissions approved_contact) = [(''c1'', ''approved'')]"
  by code_simp

lemma submitted_rows: "map (\<lambda>c. (csu_source_ip c, csu_created_at c)) (cs_submissions submitted_contact) = [(Some ''9.9.9.9'', 1)]"
  by code_simp

end
