(* ===== verification/SP_Trust.thy ===== *)
theory SP_Trust
  imports SP_Codec SP_Access SP_Credentials
begin

text \<open>
  The trust policy of an execution role (\<open>aws_clients.py\<close>): the service-account pattern a role is bound to, and the
  statement that lets it assume the role, merged into the policy document and consolidated with the statements of other
  namespaces. A document is the JSON dictionary AWS returns; by the grammar of policies an \<open>Action\<close> is a string or a list.
\<close>

subsection \<open>Service-account patterns\<close>

definition base36_char :: "nat \<Rightarrow> char" where
  "base36_char i = ''0123456789abcdefghijklmnopqrstuvwxyz'' ! i"

definition big_endian :: "string \<Rightarrow> nat" where
  "big_endian s = foldl (\<lambda>n c. 256 * n + of_char c) 0 s"

fun base36_digits :: "nat \<Rightarrow> string \<Rightarrow> string" where
  "base36_digits n result = (if n = 0 then result else base36_digits (n div 36) (base36_char (n mod 36) # result))"

declare base36_digits.simps [simp del]

definition base36_encode_name :: "string \<Rightarrow> string" where
  "base36_encode_name name = (let n = big_endian name in if n = 0 then ''0'' else base36_digits n [])"

definition emr_sa_pattern :: "string \<Rightarrow> string \<Rightarrow> string \<Rightarrow> string" where
  "emr_sa_pattern namespace account_id role_name =
     ''system:serviceaccount:'' @ namespace @ '':emr-containers-sa-*-*-'' @ account_id @ ''-'' @ base36_encode_name role_name"

subsection \<open>Statements\<close>

type_synonym statement = "json dict"

definition web_identity_action :: string where
  "web_identity_action = ''sts:AssumeRoleWithWebIdentity''"

fun as_str_list :: "json \<Rightarrow> string list" where
  "as_str_list JNull = []"
| "as_str_list (JArr xs) = map py_str xs"
| "as_str_list v = [py_str v]"

definition statement_has_action :: "statement \<Rightarrow> string \<Rightarrow> bool" where
  "statement_has_action st action \<longleftrightarrow> action \<in> set (as_str_list (dget st ''Action'' JNull))"

definition statement_has_federated_principal :: "statement \<Rightarrow> string \<Rightarrow> bool" where
  "statement_has_federated_principal st provider_arn =
     (case dget st ''Principal'' JNull of
        JStr s \<Rightarrow> s = provider_arn
      | JObj kvs \<Rightarrow> provider_arn \<in> set (as_str_list (dget kvs ''Federated'' JNull))
      | _ \<Rightarrow> False)"

text \<open>The blocks of the two operators that are dictionaries.\<close>

definition condition_blocks :: "statement \<Rightarrow> json dict list" where
  "condition_blocks st =
     (case dget st ''Condition'' JNull of
        JObj cond \<Rightarrow> List.map_filter (\<lambda>op. case dget cond op JNull of JObj b \<Rightarrow> Some b | _ \<Rightarrow> None) [''StringLike'', ''StringEquals'']
      | _ \<Rightarrow> [])"

definition statement_sub_patterns :: "statement \<Rightarrow> string \<Rightarrow> string list" where
  "statement_sub_patterns st provider_path =
     concat (map (\<lambda>b. as_str_list (dget b (provider_path @ '':sub'') JNull)) (condition_blocks st))"

text \<open>The first of the statements with the same text \<open>json.dumps(sort_keys=True)\<close>.\<close>

fun dedupe_from :: "string list \<Rightarrow> statement list \<Rightarrow> statement list" where
  "dedupe_from seen [] = []"
| "dedupe_from seen (st # sts) =
     (let k = json_dumps (JObj st) in if k \<in> set seen then dedupe_from seen sts else st # dedupe_from (k # seen) sts)"

definition dedupe_trust_statements :: "statement list \<Rightarrow> statement list" where
  "dedupe_trust_statements sts = dedupe_from [] sts"

definition sub_entries :: "statement \<Rightarrow> json dict" where
  "sub_entries st = filter (\<lambda>(k, v). suffix '':sub'' k) (concat (condition_blocks st))"

definition is_sparkpilot_statement :: "statement \<Rightarrow> bool" where
  "is_sparkpilot_statement st \<longleftrightarrow> statement_has_action st web_identity_action \<and>
     list_ex (\<lambda>(k, v). list_ex (contains_sub ''emr-containers-sa-'') (as_str_list v)) (sub_entries st)"

definition provider_arn_from_trust_statement :: "statement \<Rightarrow> string option" where
  "provider_arn_from_trust_statement st =
     (case dget st ''Principal'' (JObj []) of
        JObj kvs \<Rightarrow> (case as_str_list (dget kvs ''Federated'' JNull) of [] \<Rightarrow> None | x # _ \<Rightarrow> Some x)
      | JStr s \<Rightarrow> Some s
      | _ \<Rightarrow> None)"

definition sub_patterns_from_trust_statement :: "statement \<Rightarrow> string option \<times> string list" where
  "sub_patterns_from_trust_statement st =
     (case sub_entries st of [] \<Rightarrow> None | (k, _) # _ \<Rightarrow> Some k,
      concat (map (\<lambda>(k, v). as_str_list v) (sub_entries st)))"

subsection \<open>Consolidation\<close>

definition web_identity_statement :: "string \<Rightarrow> string \<Rightarrow> json \<Rightarrow> statement" where
  "web_identity_statement provider_arn sub_key sub_value =
     [(''Effect'', JStr ''Allow''), (''Principal'', JObj [(''Federated'', JStr provider_arn)]),
      (''Action'', JStr web_identity_action), (''Condition'', JObj [(''StringLike'', JObj [(sub_key, sub_value)])])]"

definition sub_value_of :: "string list \<Rightarrow> json" where
  "sub_value_of patterns = (case patterns of [p] \<Rightarrow> JStr p | _ \<Rightarrow> JArr (map JStr patterns))"

definition consolidated_web_identity_statement :: "string \<times> string \<times> string list \<Rightarrow> statement" where
  "consolidated_web_identity_statement p =
     (case p of (provider_arn, sub_key, patterns) \<Rightarrow> web_identity_statement provider_arn sub_key (sub_value_of patterns))"

definition add_new :: "string list \<Rightarrow> string list \<Rightarrow> string list" where
  "add_new xs known = fold (\<lambda>p ps. if p \<in> set ps then ps else ps @ [p]) xs known"

text \<open>The providers in the order they are met, each with its first key and its patterns.\<close>

fun add_provider :: "string \<Rightarrow> string \<Rightarrow> string list \<Rightarrow> (string \<times> string \<times> string list) list \<Rightarrow> (string \<times> string \<times> string list) list" where
  "add_provider arn key ps [] = [(arn, key, add_new ps [])]"
| "add_provider arn key ps ((a, k, qs) # rest) =
     (if a = arn then (a, k, add_new ps qs) # rest else (a, k, qs) # add_provider arn key ps rest)"

definition managed_statement :: "statement \<Rightarrow> (string \<times> string \<times> string list) option" where
  "managed_statement st =
     (if \<not> is_sparkpilot_statement st then None
      else case (provider_arn_from_trust_statement st, sub_patterns_from_trust_statement st) of
        (Some arn, Some key, ps) \<Rightarrow> if arn = [] then None else Some (arn, key, ps)
      | _ \<Rightarrow> None)"

definition consolidate_sparkpilot_statements :: "statement list \<Rightarrow> statement list" where
  "consolidate_sparkpilot_statements sts =
     filter (\<lambda>st. managed_statement st = None) sts @
     map consolidated_web_identity_statement
       (fold (\<lambda>(arn, key, ps). add_provider arn key ps) (List.map_filter managed_statement sts) [])"

subsection \<open>Merging the statement of an environment\<close>

definition statements_of :: "json dict \<Rightarrow> statement list" where
  "statements_of pol =
     (case dget pol ''Statement'' (JArr []) of
        JArr xs \<Rightarrow> List.map_filter (\<lambda>x. case x of JObj st \<Rightarrow> Some st | _ \<Rightarrow> None) xs
      | _ \<Rightarrow> [])"

definition already_trusted :: "string \<Rightarrow> string \<Rightarrow> string \<Rightarrow> statement \<Rightarrow> bool" where
  "already_trusted provider_arn provider_path sa_pattern st \<longleftrightarrow>
     statement_has_action st web_identity_action \<and> statement_has_federated_principal st provider_arn \<and>
     sa_pattern \<in> set (statement_sub_patterns st provider_path)"

text \<open>Whether the statement was there already, and the new document.\<close>

definition merge_sparkpilot_trust_statement ::
    "string \<Rightarrow> string \<Rightarrow> string \<Rightarrow> json dict \<Rightarrow> bool \<times> json dict" where
  "merge_sparkpilot_trust_statement provider_arn provider_path sa_pattern trust_policy =
     (let sts = dedupe_trust_statements (statements_of trust_policy);
          already_present = list_ex (already_trusted provider_arn provider_path sa_pattern) sts;
          sts' = (if already_present then sts
            else sts @ [web_identity_statement provider_arn (provider_path @ '':sub'') (JStr sa_pattern)])
      in (already_present, dset ''Statement'' (JArr (map JObj (consolidate_sparkpilot_statements sts'))) trust_policy))"

subsection \<open>The check of the policy\<close>

fun action_values :: "json \<Rightarrow> string list" where
  "action_values (JStr s) = (if s = [] then [] else [s])"
| "action_values (JArr xs) = List.map_filter (\<lambda>x. case x of JStr s \<Rightarrow> Some s | _ \<Rightarrow> None) xs"
| "action_values (JObj kvs) = map fst kvs"
| "action_values _ = []"

definition federated_value :: "json \<Rightarrow> string option" where
  "federated_value who =
     (case who of
        JStr s \<Rightarrow> Some s
      | JObj kvs \<Rightarrow> (case dget kvs ''Federated'' JNull of JStr s \<Rightarrow> Some s | _ \<Rightarrow> None)
      | _ \<Rightarrow> None)"

definition trust_statement_matches :: "string \<Rightarrow> string \<Rightarrow> string \<Rightarrow> statement \<Rightarrow> bool" where
  "trust_statement_matches provider_arn provider_path sa_pattern st \<longleftrightarrow>
     web_identity_action \<in> set (action_values (dget st ''Action'' JNull)) \<and>
     federated_value (dget st ''Principal'' JNull) = Some provider_arn \<and>
     (case dget st ''Condition'' (JObj []) of
        JObj cond \<Rightarrow>
          (case dget cond ''StringLike'' (JObj []) of
             JObj like \<Rightarrow> sa_pattern \<in> set (as_str_list (dget like (provider_path @ '':sub'') JNull))
           | _ \<Rightarrow> False)
      | _ \<Rightarrow> False)"

text \<open>The elements of a list that are dictionaries; the keys of a single statement are not.\<close>

definition policy_trusts :: "string \<Rightarrow> string \<Rightarrow> string \<Rightarrow> json dict \<Rightarrow> bool" where
  "policy_trusts provider_arn provider_path sa_pattern trust_policy =
     list_ex (trust_statement_matches provider_arn provider_path sa_pattern) (statements_of trust_policy)"

subsection \<open>Encoded names\<close>

definition base36_index :: "char \<Rightarrow> nat" where
  "base36_index c = (if byte c < 58 then byte c - 48 else byte c - 87)"

definition base36_value :: "string \<Rightarrow> nat" where
  "base36_value s = foldl (\<lambda>n c. 36 * n + base36_index c) 0 s"

lemma base36_index_char: "i < 36 \<Longrightarrow> base36_index (base36_char i) = i"
proof -
  have "list_all (\<lambda>i. base36_index (base36_char i) = i) [0..<36]" by code_simp
  then show "i < 36 \<Longrightarrow> base36_index (base36_char i) = i" by (simp add: list_all_iff)
qed

lemma base36_value_digits: "base36_value (base36_digits n r) = foldl (\<lambda>n c. 36 * n + base36_index c) n r"
proof (induction n r rule: base36_digits.induct)
  case (1 n r)
  show ?case
  proof (cases "n = 0")
    case True
    then show ?thesis by (simp add: base36_digits.simps [of 0] base36_value_def)
  next
    case False
    then show ?thesis using 1 by (simp add: base36_digits.simps [of n] base36_index_char)
  qed
qed

lemma base36_round_trip: "base36_value (base36_encode_name s) = big_endian s"
  by (simp add: base36_encode_name_def Let_def base36_value_digits)
    (simp add: base36_value_def base36_index_def)

lemma big_endian_pos: "s \<noteq> [] \<Longrightarrow> hd s \<noteq> CHR 0x00 \<Longrightarrow> 0 < big_endian s"
proof (induction s rule: rev_induct)
  case (snoc x xs)
  show ?case
  proof (cases "xs = []")
    case True
    then have "x \<noteq> CHR 0x00" using snoc.prems(2) by simp
    then have "byte x \<noteq> byte (CHR 0x00)" by (metis char_of_char)
    then have "byte x \<noteq> 0" by simp
    then show ?thesis by (simp add: big_endian_def True)
  next
    case False
    then have "0 < big_endian xs" using snoc by simp
    then show ?thesis by (simp add: big_endian_def)
  qed
qed simp

lemma base256_split:
  fixes a b m n :: nat
  assumes "256 * a + m = 256 * b + n" "m < 256" "n < 256"
  shows "a = b \<and> m = n"
proof -
  have "a = (256 * a + m) div 256" using assms(2) by simp
  also have "\<dots> = b" unfolding assms(1) using assms(3) by simp
  finally show ?thesis using assms(1) by simp
qed

lemma big_endian_inj:
  "big_endian s = big_endian t \<Longrightarrow> (s = [] \<or> hd s \<noteq> CHR 0x00) \<Longrightarrow> (t = [] \<or> hd t \<noteq> CHR 0x00) \<Longrightarrow> s = t"
proof (induction s arbitrary: t rule: rev_induct)
  case Nil
  have "big_endian [] = 0" by (simp add: big_endian_def)
  then have "\<not> 0 < big_endian t" by (simp only: Nil(1) [symmetric])
  then show ?case using Nil(3) big_endian_pos [of t] by auto
next
  case (snoc x xs)
  have pos: "0 < big_endian (xs @ [x])" using snoc.prems(2) by (intro big_endian_pos) auto
  then have "t \<noteq> []" using snoc.prems(1) by (auto simp: big_endian_def)
  then obtain ys y where t: "t = ys @ [y]" using rev_exhaust by blast
  have eq: "256 * big_endian xs + byte x = 256 * big_endian ys + byte y"
    using snoc.prems(1) by (simp add: big_endian_def t)
  from base256_split [OF eq byte_bound byte_bound] have "big_endian xs = big_endian ys" "byte x = byte y" by blast+
  moreover have "xs = [] \<or> hd xs \<noteq> CHR 0x00" "ys = [] \<or> hd ys \<noteq> CHR 0x00"
    using snoc.prems(2,3) by (cases xs; cases ys; simp add: t)+
  ultimately have "xs = ys" "x = y" using snoc.IH [of ys] char_of_char [of x] char_of_char [of y] by metis+
  then show ?case by (simp add: t)
qed

lemma emr_sa_pattern_inj:
  assumes "emr_sa_pattern ns acct r = emr_sa_pattern ns acct r'" and "r \<noteq> []" "hd r \<noteq> CHR 0x00" "r' \<noteq> []" "hd r' \<noteq> CHR 0x00"
  shows "r = r'"
proof -
  have "base36_encode_name r = base36_encode_name r'" using assms(1) by (simp add: emr_sa_pattern_def)
  then have "big_endian r = big_endian r'" by (metis base36_round_trip)
  then show ?thesis using assms by (intro big_endian_inj) auto
qed

subsection \<open>What consolidation keeps\<close>

lemma suffix_sub [simp]: "suffix '':sub'' (path @ '':sub'')"
  by (rule suffixI) (rule refl)

lemma py_str_JStr [simp]: "py_str (JStr t) = t"
  by (simp add: py_str_def)

lemma set_add_new [simp]: "set (add_new xs known) = set xs \<union> set known"
proof -
  have "set (fold (\<lambda>p ps. if p \<in> set ps then ps else ps @ [p]) xs known) = set xs \<union> set known" for known
    by (induction xs arbitrary: known) auto
  then show ?thesis by (simp add: add_new_def)
qed

text \<open>A provider keeps the key it had; its patterns are those it had and the new ones.\<close>

lemma add_provider_same:
  "\<exists>k qs. (arn, k, qs) \<in> set (add_provider arn key ps provs) \<and> set ps \<subseteq> set qs
     \<and> (k = key \<or> (\<exists>qs'. (arn, k, qs') \<in> set provs))"
proof (induction arn key ps provs rule: add_provider.induct)
  case (2 arn key ps a k qs rest)
  show ?case
  proof (cases "a = arn")
    case True
    then show ?thesis by (intro exI [of _ k] exI [of _ "add_new ps qs"]) auto
  next
    case False
    with 2 show ?thesis by (simp add: False) blast
  qed
qed auto

lemma add_provider_old:
  "(a, k, qs) \<in> set provs \<Longrightarrow> \<exists>qs'. (a, k, qs') \<in> set (add_provider arn key ps provs) \<and> set qs \<subseteq> set qs'"
  by (induction arn key ps provs rule: add_provider.induct) auto

lemma add_provider_from:
  "(a, k, qs) \<in> set (add_provider arn key ps provs) \<Longrightarrow>
     (\<exists>qs'. (a, k, qs') \<in> set provs \<and> set qs \<subseteq> set qs' \<union> (if a = arn then set ps else {}))
     \<or> a = arn \<and> k = key \<and> set qs \<subseteq> set ps"
  by (induction arn key ps provs rule: add_provider.induct) (auto split: if_splits)

abbreviation add_managed :: "string \<times> string \<times> string list \<Rightarrow> (string \<times> string \<times> string list) list \<Rightarrow> (string \<times> string \<times> string list) list" where
  "add_managed \<equiv> \<lambda>(arn, key, ps). add_provider arn key ps"

lemma fold_providers_old:
  "(a, k, qs) \<in> set provs \<Longrightarrow> \<exists>qs'. (a, k, qs') \<in> set (fold add_managed ms provs) \<and> set qs \<subseteq> set qs'"
proof (induction ms arbitrary: qs provs)
  case (Cons m ms)
  obtain arn key ps where m: "m = (arn, key, ps)" by (cases m) auto
  from add_provider_old [OF Cons.prems, of arn key ps] obtain q1
    where q1: "(a, k, q1) \<in> set (add_provider arn key ps provs)" "set qs \<subseteq> set q1" by blast
  from Cons.IH [OF q1(1)] q1(2) show ?case by (auto simp: m)
qed auto

lemma fold_providers_from:
  "(a, k, qs) \<in> set (fold add_managed ms provs) \<Longrightarrow> (\<exists>ps. (a, k, ps) \<in> set ms) \<or> (\<exists>ps. (a, k, ps) \<in> set provs)"
proof (induction ms arbitrary: provs)
  case (Cons m ms)
  obtain arn key ps where m: "m = (arn, key, ps)" by (cases m) auto
  from Cons.IH [OF Cons.prems [simplified m, simplified]] show ?case
    using add_provider_from [of a k _ arn key ps provs] by (auto simp: m)
qed auto

lemma fold_providers_pattern:
  "(arn, key, ps) \<in> set ms \<Longrightarrow> p \<in> set ps \<Longrightarrow> \<exists>k qs. (arn, k, qs) \<in> set (fold add_managed ms provs) \<and> p \<in> set qs"
proof (induction ms arbitrary: provs)
  case (Cons m ms)
  show ?case
  proof (cases "m = (arn, key, ps)")
    case True
    from add_provider_same [of arn key ps provs] obtain k qs
      where q: "(arn, k, qs) \<in> set (add_provider arn key ps provs)" "set ps \<subseteq> set qs" by blast
    from fold_providers_old [OF q(1), of ms] q(2) Cons.prems(2) show ?thesis by (auto simp: True)
  next
    case False
    with Cons show ?thesis by auto
  qed
qed simp

lemma consolidated_member:
  "(arn, key, ps) \<in> set (fold add_managed ms []) \<Longrightarrow> \<exists>ps'. (arn, key, ps') \<in> set ms"
  using fold_providers_from [of arn key ps ms "[]"] by auto

lemma set_map_filter_iff: "y \<in> set (List.map_filter f xs) \<longleftrightarrow> (\<exists>x \<in> set xs. f x = Some y)"
  by (induction xs) (auto simp: List.map_filter_simps split: option.splits)

text \<open>Whatever a managed statement was, its patterns are in an allowing statement for its provider.\<close>

lemma consolidated_pattern:
  assumes "st \<in> set sts" "managed_statement st = Some (arn, key, ps)" "p \<in> set ps"
  shows "\<exists>k qs. web_identity_statement arn k (sub_value_of qs) \<in> set (consolidate_sparkpilot_statements sts) \<and> p \<in> set qs
    \<and> (\<exists>st' \<in> set sts. \<exists>ps'. managed_statement st' = Some (arn, k, ps'))"
proof -
  have m: "(arn, key, ps) \<in> set (List.map_filter managed_statement sts)" using assms(1,2) by (auto simp: set_map_filter_iff)
  from fold_providers_pattern [OF m assms(3), of "[]"] obtain k qs
    where q: "(arn, k, qs) \<in> set (fold add_managed (List.map_filter managed_statement sts) [])" "p \<in> set qs" by blast
  have "web_identity_statement arn k (sub_value_of qs) \<in> set (consolidate_sparkpilot_statements sts)"
  proof -
    have "web_identity_statement arn k (sub_value_of qs)
        \<in> consolidated_web_identity_statement ` set (fold add_managed (List.map_filter managed_statement sts) [])"
      by (rule image_eqI [OF _ q(1)]) (simp add: consolidated_web_identity_statement_def)
    then show ?thesis by (simp add: consolidate_sparkpilot_statements_def)
  qed
  moreover have "\<exists>st' \<in> set sts. \<exists>ps'. managed_statement st' = Some (arn, k, ps')"
    using consolidated_member [OF q(1)] by (auto simp: set_map_filter_iff)
  ultimately show ?thesis using q(2) by blast
qed

lemma as_str_list_sub_value [simp]: "as_str_list (sub_value_of qs) = qs"
  by (cases qs rule: remdups_adj.cases) (simp_all add: sub_value_of_def comp_def)

lemma web_identity_parts [simp]:
  "dget (web_identity_statement arn k v) ''Effect'' j = JStr ''Allow''"
  "dget (web_identity_statement arn k v) ''Principal'' j = JObj [(''Federated'', JStr arn)]"
  "dget (web_identity_statement arn k v) ''Action'' j = JStr web_identity_action"
  "dget (web_identity_statement arn k v) ''Condition'' j = JObj [(''StringLike'', JObj [(k, v)])]"
  by (simp_all add: web_identity_statement_def dget_def)

lemma web_identity_blocks [simp]: "condition_blocks (web_identity_statement arn k v) = [[(k, v)]]"
  by (simp add: condition_blocks_def List.map_filter_simps) (simp add: dget_def)

lemma sa_pattern_marked: "contains_sub ''emr-containers-sa-'' (emr_sa_pattern ns acct role)"
proof -
  have app: "contains_sub p s \<Longrightarrow> contains_sub p (xs @ s)" for p s xs by (induction xs) auto
  have "contains_sub ''emr-containers-sa-'' (''emr-containers-sa-*-*-'' @ acct @ ''-'' @ base36_encode_name role)" by simp
  from app [OF app [OF app [OF this, of "'':''"], of ns], of "''system:serviceaccount:''"]
  show ?thesis by (simp add: emr_sa_pattern_def)
qed

lemma managed_web_identity:
  assumes "suffix '':sub'' k" "arn \<noteq> []" "list_ex (contains_sub ''emr-containers-sa-'') (as_str_list v)"
  shows "managed_statement (web_identity_statement arn k v) = Some (arn, k, as_str_list v)"
proof -
  have e: "sub_entries (web_identity_statement arn k v) = [(k, v)]" using assms(1) by (simp add: sub_entries_def)
  have p: "provider_arn_from_trust_statement (web_identity_statement arn k v) = Some arn"
    by (simp add: provider_arn_from_trust_statement_def) (simp add: dget_def)
  have "is_sparkpilot_statement (web_identity_statement arn k v)"
    using assms(3) by (simp add: is_sparkpilot_statement_def statement_has_action_def e)
  then show ?thesis
    using assms(2) by (simp add: managed_statement_def p sub_patterns_from_trust_statement_def e)
qed

text \<open>An Allow statement with the pattern for the provider passes the check.\<close>

lemma web_identity_matches:
  assumes "sa \<in> set (as_str_list v)"
  shows "trust_statement_matches arn path sa (web_identity_statement arn (path @ '':sub'') v)"
proof -
  have "dget [(''Federated'', JStr arn)] ''Federated'' JNull = JStr arn" "dget [(''StringLike'', j)] ''StringLike'' (JObj []) = j"
    "dget [(k, v)] k JNull = v" for k j by (simp_all add: dget_def)
  then show ?thesis using assms
    by (simp add: trust_statement_matches_def federated_value_def web_identity_action_def)
qed

text \<open>A statement that counts as present is managed by the provider it names first, and has the pattern.\<close>

lemma already_trusted_managed:
  assumes t: "already_trusted arn path sa st" and m: "contains_sub ''emr-containers-sa-'' sa"
    and first: "provider_arn_from_trust_statement st = Some arn" and ne: "arn \<noteq> []"
  shows "\<exists>k ps. managed_statement st = Some (arn, k, ps) \<and> sa \<in> set ps"
proof -
  obtain b where b: "b \<in> set (condition_blocks st)" "sa \<in> set (as_str_list (dget b (path @ '':sub'') JNull))"
    using t by (auto simp: already_trusted_def statement_sub_patterns_def)
  obtain v where v: "(path @ '':sub'', v) \<in> set b" "sa \<in> set (as_str_list v)"
    using b(2) by (auto simp: dget_def split: option.splits dest: map_of_SomeD)
  have e: "(path @ '':sub'', v) \<in> set (sub_entries st)" using b(1) v(1) by (auto simp: sub_entries_def)
  have "is_sparkpilot_statement st"
    using t e v(2) m by (auto simp: is_sparkpilot_statement_def already_trusted_def list_ex_iff)
  moreover obtain k v0 rest where k: "sub_entries st = (k, v0) # rest" using e by (cases "sub_entries st") auto
  have "sa \<in> set (concat (map (\<lambda>(k, v). as_str_list v) (sub_entries st)))" using e v(2) by auto
  ultimately show ?thesis
    using first ne k by (auto simp: managed_statement_def sub_patterns_from_trust_statement_def)
qed

lemma statements_of_dset [simp]: "statements_of (dset ''Statement'' (JArr (map JObj sts)) pol) = sts"
proof -
  have "List.map_filter (\<lambda>x. case x of JObj st \<Rightarrow> Some st | _ \<Rightarrow> None) (map JObj sts) = sts"
    by (induction sts) (simp_all add: List.map_filter_simps)
  then show ?thesis by (simp add: statements_of_def dget_def)
qed

lemma merged_statements:
  "statements_of (snd (merge_sparkpilot_trust_statement arn path sa pol)) =
     consolidate_sparkpilot_statements (let sts = dedupe_trust_statements (statements_of pol) in
       if list_ex (already_trusted arn path sa) sts then sts
       else sts @ [web_identity_statement arn (path @ '':sub'') (JStr sa)])"
  by (simp add: merge_sparkpilot_trust_statement_def Let_def)

text \<open>
  A statement that counts as present names the provider first, and the managed statements of the provider have the
  key of its path: then the merged policy trusts the service accounts of the environment.
\<close>

definition orderly :: "string \<Rightarrow> string \<Rightarrow> string \<Rightarrow> statement list \<Rightarrow> bool" where
  "orderly arn path sa sts \<longleftrightarrow>
     (\<forall>st \<in> set sts. already_trusted arn path sa st \<longrightarrow> provider_arn_from_trust_statement st = Some arn) \<and>
     (\<forall>st \<in> set sts. \<forall>k ps. managed_statement st = Some (arn, k, ps) \<longrightarrow> k = path @ '':sub'')"

lemma set_dedupe_from: "set (dedupe_from seen sts) \<subseteq> set sts"
  by (induction seen sts rule: dedupe_from.induct) (auto simp: Let_def)

lemma merge_trusts:
  assumes sa: "contains_sub ''emr-containers-sa-'' sa" and ne: "arn \<noteq> []" and ord: "orderly arn path sa (statements_of pol)"
    and merged: "merge_sparkpilot_trust_statement arn path sa pol = (present, pol')"
  shows "policy_trusts arn path sa pol'"
proof -
  define sts where "sts = dedupe_trust_statements (statements_of pol)"
  define sts' where "sts' = (if list_ex (already_trusted arn path sa) sts then sts
    else sts @ [web_identity_statement arn (path @ '':sub'') (JStr sa)])"
  have ord': "orderly arn path sa sts"
    using ord set_dedupe_from [of "[]" "statements_of pol"] by (auto simp: orderly_def sts_def dedupe_trust_statements_def)
  have own: "managed_statement (web_identity_statement arn (path @ '':sub'') (JStr sa)) = Some (arn, path @ '':sub'', [sa])"
    using managed_web_identity [of "path @ '':sub''" arn "JStr sa"] sa ne by simp
  have keys: "k = path @ '':sub''" if "st \<in> set sts'" "managed_statement st = Some (arn, k, ps)" for st k ps
    using that ord' own by (auto simp: sts'_def orderly_def split: if_splits)
  obtain st k ps where st: "st \<in> set sts'" "managed_statement st = Some (arn, k, ps)" "sa \<in> set ps"
  proof (cases "list_ex (already_trusted arn path sa) sts")
    case True
    then obtain st where st: "st \<in> set sts" "already_trusted arn path sa st" by (auto simp: list_ex_iff)
    with ord' have "provider_arn_from_trust_statement st = Some arn" by (simp add: orderly_def)
    from already_trusted_managed [OF st(2) sa this ne] st(1) True that show thesis by (auto simp: sts'_def)
  next
    case False
    show thesis by (rule that [OF _ own]) (simp_all add: sts'_def False)
  qed
  from consolidated_pattern [OF st] obtain k' qs st' ps' where q: "sa \<in> set qs" "st' \<in> set sts'" "managed_statement st' = Some (arn, k', ps')"
      "web_identity_statement arn k' (sub_value_of qs) \<in> set (consolidate_sparkpilot_statements sts')" by blast
  have pol': "statements_of pol' = consolidate_sparkpilot_statements sts'"
    using merged_statements [of arn path sa pol] unfolding merged sts'_def sts_def Let_def by simp
  have "trust_statement_matches arn path sa (web_identity_statement arn k' (sub_value_of qs))"
    using keys [OF q(2,3)] web_identity_matches [of sa "sub_value_of qs" arn path] q(1) by simp
  with q(4) show ?thesis by (auto simp: policy_trusts_def pol' list_ex_iff)
qed

subsection \<open>What consolidation loses\<close>

text \<open>A statement that denies, or has further conditions, comes back as one that allows with the pattern alone.\<close>

lemma denied_becomes_allowed:
  assumes "st \<in> set (dedupe_trust_statements (statements_of pol))" "managed_statement st = Some (arn, key, ps)" "p \<in> set ps"
  shows "\<exists>k qs. web_identity_statement arn k (sub_value_of qs) \<in> set (statements_of (snd (merge_sparkpilot_trust_statement a path sa pol)))
    \<and> p \<in> set qs"
proof -
  define sts where "sts = dedupe_trust_statements (statements_of pol)"
  define sts' where "sts' = (if list_ex (already_trusted a path sa) sts then sts
    else sts @ [web_identity_statement a (path @ '':sub'') (JStr sa)])"
  have "st \<in> set sts'" using assms(1) by (simp add: sts'_def sts_def)
  moreover have "statements_of (snd (merge_sparkpilot_trust_statement a path sa pol)) = consolidate_sparkpilot_statements sts'"
    by (simp add: merged_statements sts'_def sts_def Let_def)
  ultimately show ?thesis using consolidated_pattern [OF _ assms(2,3)] by metis
qed

text \<open>A policy with a single statement that is no list loses it.\<close>

lemma single_statement_lost:
  assumes "dget pol ''Statement'' (JArr []) = JObj own"
  shows "statements_of (snd (merge_sparkpilot_trust_statement arn path sa pol)) =
    consolidate_sparkpilot_statements [web_identity_statement arn (path @ '':sub'') (JStr sa)]"
proof -
  have "statements_of pol = []" using assms by (simp add: statements_of_def)
  then show ?thesis by (simp add: merge_sparkpilot_trust_statement_def Let_def dedupe_trust_statements_def)
qed

text \<open>The other statements stay, in order.\<close>

lemma unmanaged_kept:
  "filter (\<lambda>st. managed_statement st = None) (dedupe_trust_statements (statements_of pol)) =
     take (length (filter (\<lambda>st. managed_statement st = None) (dedupe_trust_statements (statements_of pol))))
       (statements_of (snd (merge_sparkpilot_trust_statement arn path (emr_sa_pattern ns acct role) pol)))"
  if "arn \<noteq> []"
proof -
  have "managed_statement (web_identity_statement arn (path @ '':sub'') (JStr (emr_sa_pattern ns acct role))) \<noteq> None"
    using managed_web_identity [of "path @ '':sub''" arn] sa_pattern_marked that by simp
  then show ?thesis by (simp add: merged_statements Let_def) (simp add: consolidate_sparkpilot_statements_def)
qed

end
