(* ===== verification/SP_EmrJobs.thy ===== *)
theory SP_EmrJobs
  imports SP_Trust SP_Settings SP_Scheduler SP_Releases
begin

text \<open>
  How \<open>aws_clients.py\<close> hands a run to EMR on EKS and reads its logs: the names and labels it derives, the request of
  \<open>start_job_run\<close>, the time defaults, and the paginated reading of CloudWatch. The calls of boto3 are parameters.
\<close>

subsection \<open>Names and labels\<close>

definition job_name_char :: "char \<Rightarrow> bool" where
  "job_name_char c \<longleftrightarrow> is_alpha c \<or> is_digit c \<or> c \<in> {CHR ''.'', CHR ''_'', CHR ''-''}"

definition emr_job_name_max_length :: nat where
  "emr_job_name_max_length = 64"

definition emr_job_name_run_id_chars :: nat where
  "emr_job_name_run_id_chars = 12"

definition k8s_label_value_max_length :: nat where
  "k8s_label_value_max_length = 63"

definition rstrip_while :: "(char \<Rightarrow> bool) \<Rightarrow> string \<Rightarrow> string" where
  "rstrip_while p s = rev (dropWhile p (rev s))"

definition name_edge :: "char \<Rightarrow> bool" where
  "name_edge c \<longleftrightarrow> c \<in> {CHR ''-'', CHR ''.'', CHR ''_''}"

definition sanitize_emr_job_name_component :: "string \<Rightarrow> string" where
  "sanitize_emr_job_name_component v =
     (let sanitized = squash (\<lambda>c. \<not> job_name_char c) False (py_strip v);
          collapsed = squash (\<lambda>c. c = CHR ''-'') False sanitized;
          normalized = rstrip_while name_edge (dropWhile name_edge collapsed)
      in if normalized = [] then ''run'' else normalized)"

definition last_chars :: "nat \<Rightarrow> string \<Rightarrow> string" where
  "last_chars n s = drop (length s - n) s"

definition emr_job_run_name :: "string \<Rightarrow> string \<Rightarrow> string" where
  "emr_job_run_name jname rid =
     (let safe_job = sanitize_emr_job_name_component jname;
          safe_run = sanitize_emr_job_name_component rid;
          sfx = (let t = last_chars emr_job_name_run_id_chars safe_run in if t = [] then ''run'' else t);
          prefix_budget = int emr_job_name_max_length - int (length sfx) - 1;
          pre = (let t = rstrip_while name_edge (take (nat (max prefix_budget 1)) safe_job) in if t = [] then ''run'' else t);
          name = pre @ ''-'' @ sfx
      in if length name \<le> emr_job_name_max_length then name
         else let trimmed = rstrip_while name_edge (take emr_job_name_max_length name)
           in if trimmed \<noteq> [] then trimmed else take emr_job_name_max_length (''run-'' @ sfx))"

definition alnum :: "char \<Rightarrow> bool" where
  "alnum c \<longleftrightarrow> is_alpha c \<or> is_digit c"

definition safe_k8s_label_value :: "string option \<Rightarrow> string" where
  "safe_k8s_label_value v =
     (let text = py_strip (case v of None \<Rightarrow> [] | Some t \<Rightarrow> t) in
      if text = [] then ''unknown''
      else let cut = take k8s_label_value_max_length (squash (\<lambda>c. \<not> job_name_char c) False text);
             core = rstrip_while (\<lambda>c. \<not> alnum c) (dropWhile (\<lambda>c. \<not> alnum c) cut)
        in if core = [] then ''unknown'' else core)"

subsection \<open>The request of \<open>start_job_run\<close>\<close>

definition apply_event_log_defaults :: "environment \<Rightarrow> conf \<Rightarrow> conf" where
  "apply_event_log_defaults env c =
     (if text_empty (env_event_log_s3_uri env) then c
      else dsetdefaults c [(''spark.eventLog.enabled'', ''true''), (''spark.eventLog.dir'', the (env_event_log_s3_uri env))])"

definition eks_project :: "environment \<Rightarrow> string" where
  "eks_project env = (if text_empty (env_eks_namespace env) then env_id env else the (env_eks_namespace env))"

definition chargeback_labels :: "environment \<Rightarrow> run \<Rightarrow> string \<Rightarrow> conf" where
  "chargeback_labels env r cost_center =
     concat (map (\<lambda>(k, v). [(''spark.kubernetes.driver.label.'' @ k, safe_k8s_label_value (Some v)),
         (''spark.kubernetes.executor.label.'' @ k, safe_k8s_label_value (Some v))])
       [(''sparkpilot-run-id'', run_id r), (''sparkpilot-team'', env_tenant_id env), (''sparkpilot-project'', eks_project env),
        (''sparkpilot-cost-center'', cost_center)])"

definition submitted_conf :: "environment \<Rightarrow> job \<Rightarrow> run \<Rightarrow> string \<Rightarrow> conf" where
  "submitted_conf env j r cost_center =
     (let c = dsetdefaults (dmerge (job_spark_conf j) (run_spark_conf_overrides r)) (chargeback_labels env r cost_center);
          c' = (if text_empty (env_yunikorn_queue env) then c
            else dset ''spark.kubernetes.executor.annotation.yunikorn.apache.org/queue-name'' (the (env_yunikorn_queue env))
              (dset ''spark.kubernetes.driver.annotation.yunikorn.apache.org/queue-name'' (the (env_yunikorn_queue env)) c))
      in apply_event_log_defaults env c')"

definition spark_submit_parameters :: "conf \<Rightarrow> string" where
  "spark_submit_parameters c = join '' '' (map (\<lambda>(k, v). ''--conf '' @ k @ ''='' @ v) c)"

definition safe_tag_value :: "string option \<Rightarrow> string" where
  "safe_tag_value v = take 256 (case v of None \<Rightarrow> [] | Some t \<Rightarrow> t)"

definition jstrings :: "string list \<Rightarrow> json" where
  "jstrings xs = JArr (map JStr xs)"

definition start_request :: "settings \<Rightarrow> environment \<Rightarrow> job \<Rightarrow> run \<Rightarrow> string \<Rightarrow> json dict" where
  "start_request s env j r cost_center =
     (let log_group = cfg_log_group_prefix s @ ''/'' @ env_id env;
          stream_prefix = run_id r @ ''/attempt-'' @ show_int (run_attempt r);
          c = submitted_conf env j r cost_center;
          driver = [(''entryPoint'', JStr (job_artifact_uri j)),
            (''entryPointArguments'', jstrings (if run_args_overrides r \<noteq> [] then run_args_overrides r else job_args j))]
      in [(''virtualClusterId'', jstr_opt (env_emr_virtual_cluster_id env)),
          (''name'', JStr (emr_job_run_name (job_name j) (run_id r))),
          (''executionRoleArn'', JStr (cfg_emr_execution_role_arn s)),
          (''releaseLabel'', JStr (cfg_emr_release_label s)),
          (''jobDriver'', JObj [(''sparkSubmitJobDriver'', JObj (if c = [] then driver
             else driver @ [(''sparkSubmitParameters'', JStr (spark_submit_parameters c))]))]),
          (''configurationOverrides'', JObj [(''monitoringConfiguration'', JObj [(''cloudWatchMonitoringConfiguration'',
             JObj [(''logGroupName'', JStr log_group), (''logStreamNamePrefix'', JStr stream_prefix)])])]),
          (''retryPolicyConfiguration'', JObj [(''maxAttempts'', JInt (job_retry_max_attempts j))]),
          (''tags'', JObj [(''sparkpilot:run_id'', JStr (safe_tag_value (Some (run_id r)))),
             (''sparkpilot:environment_id'', JStr (safe_tag_value (Some (env_id env)))),
             (''sparkpilot:team'', JStr (safe_tag_value (Some (env_tenant_id env)))),
             (''sparkpilot:project'', JStr (safe_tag_value (Some (eks_project env)))),
             (''sparkpilot:cost_center'', JStr (safe_tag_value (Some cost_center))),
             (''sparkpilot:namespace'', JStr (safe_tag_value (env_eks_namespace env))),
             (''sparkpilot:virtual_cluster_id'', JStr (safe_tag_value (env_emr_virtual_cluster_id env)))])])"

text \<open>
  The outcome of \<open>start_job_run\<close>: the dispatch record, or the exception. \<open>session\<close> assumes the customer role,
  \<open>start\<close> is the call of the service, \<open>hex_id\<close> a fresh UUID.
\<close>

definition missing_id :: exn where
  "missing_id = \<lparr>exn_class = ''KeyError'', exn_text = [CHR 0x27] @ ''id'' @ [CHR 0x27], exn_code = None, exn_aws = False\<rparr>"

definition start_job_run ::
    "(string \<Rightarrow> string + json) \<Rightarrow> settings \<Rightarrow> (environment \<Rightarrow> exn + unit) \<Rightarrow> (environment \<Rightarrow> json dict \<Rightarrow> exn + json dict)
     \<Rightarrow> string \<Rightarrow> environment \<Rightarrow> job \<Rightarrow> run \<Rightarrow> exn + emr_dispatch" where
  "start_job_run loads s session start hex_id env j r =
     (let log_group = cfg_log_group_prefix s @ ''/'' @ env_id env;
          stream_prefix = run_id r @ ''/attempt-'' @ show_int (run_attempt r);
          dispatch = (\<lambda>job_run_id ui req_id. \<lparr>ed_job_id = job_run_id, ed_log_group = log_group, ed_log_stream_prefix = stream_prefix,
            ed_driver_log_uri = Some (''cloudwatch://'' @ log_group @ ''/'' @ stream_prefix @ ''/driver''), ed_spark_ui_uri = ui,
            ed_aws_request_id = req_id\<rparr>)
      in if cfg_dry_run_mode s then
           Inr (dispatch (''jr-'' @ take 12 hex_id) (Some (''https://sparkhistory.local/'' @ run_id r)) None)
         else case validate_runtime_settings loads s of
           Inl e \<Rightarrow> Inl (exn_of_policy_error e)
         | Inr _ \<Rightarrow>
             rbind (session env) (\<lambda>_.
             case resolve_cost_center_for_environment loads (cfg_cost_center_policy_json s) env of
               Inl e \<Rightarrow> Inl (exn_of_policy_error e)
             | Inr cost_center \<Rightarrow>
                 rbind (start env (start_request s env j r cost_center)) (\<lambda>result.
                 case map_of result ''id'' of
                   None \<Rightarrow> Inl missing_id
                 | Some i \<Rightarrow> Inr (dispatch (py_str i) None
                     (case dget (sub_dict result ''ResponseMetadata'') ''RequestId'' JNull of JNull \<Rightarrow> None | v \<Rightarrow> Some (py_str v))))))"

subsection \<open>Logs\<close>

record log_page =
  lo_events :: "json dict list"
  lo_next_token :: "string option"

definition max_log_pages :: nat where
  "max_log_pages = 25"

text \<open>
  The loop of \<open>_collect_log_events\<close> with the pages that are left; it ends when the service ends it, repeats the token
  it was called with, or the last page is read.
\<close>

fun log_pages :: "(string option \<Rightarrow> exn + log_page) \<Rightarrow> nat \<Rightarrow> string option \<Rightarrow> exn + json dict list" where
  "log_pages call 0 token = Inr []"
| "log_pages call (Suc n) token =
     rbind (call token) (\<lambda>p.
       let next = lo_next_token p in
       if text_empty next \<or> next = token \<or> n = 0 then Inr (lo_events p)
       else rbind (log_pages call n next) (\<lambda>es. Inr (lo_events p @ es)))"

definition collect_log_events :: "(int \<Rightarrow> string option \<Rightarrow> exn + log_page) \<Rightarrow> int \<Rightarrow> exn + json dict list" where
  "collect_log_events call limit = log_pages (call (min (max limit 1) 10000)) max_log_pages None"

definition int_at :: "json dict \<Rightarrow> string \<Rightarrow> int" where
  "int_at d k = (case dget d k (JInt 0) of JInt i \<Rightarrow> i | _ \<Rightarrow> 0)"

definition log_event_key :: "json dict \<Rightarrow> int \<times> int \<times> string" where
  "log_event_key e = (int_at e ''timestamp'', int_at e ''ingestionTime'', text_at e ''eventId'')"

definition normalize_log_events :: "json dict list \<Rightarrow> int \<Rightarrow> string list" where
  "normalize_log_events events limit =
     (let sorted_events = sort_key log_event_key events;
          n = length sorted_events;
          kept = (if int n > limit then drop (if limit > 0 then n - nat limit else if limit = 0 then 0 else min n (nat (- limit))) sorted_events
                  else sorted_events)
      in map (\<lambda>e. text_at e ''message'') kept)"

definition mapped_log_error :: "string \<Rightarrow> string \<Rightarrow> string option \<Rightarrow> (int \<times> string) option" where
  "mapped_log_error code group_name stream_prefix =
     map_of
       (let denied = (403, ''Access denied reading CloudWatch logs (group='' @ group_name @ ''). '' @
              ''Ensure customer_role_arn has logs:FilterLogEvents and logs:GetLogEvents permissions.'');
            throttled = (429, ''CloudWatch Logs API rate limit exceeded. Retry after a short delay.'')
        in [(''AccessDeniedException'', denied), (''AccessDenied'', denied), (''ThrottlingException'', throttled), (''Throttling'', throttled),
            (''ServiceUnavailableException'', (503, ''CloudWatch Logs service is temporarily unavailable. Retry shortly.'')),
            (''InvalidParameterException'', (400, ''Invalid CloudWatch Logs parameters (group='' @ group_name @ '', prefix='' @
              py_str (jstr_opt stream_prefix) @ ''). '' @ ''Check log group and stream prefix configuration.''))]) code"

text \<open>\<open>None\<close>: the group is not there, and no lines are answered. \<open>text\<close> is the message of the response.\<close>

definition raise_cloudwatch_error :: "exn \<Rightarrow> string \<Rightarrow> string \<Rightarrow> string option \<Rightarrow> error option" where
  "raise_cloudwatch_error e text group_name stream_prefix =
     (let code = client_code e in
      if code = ''ResourceNotFoundException'' then None
      else Some (case mapped_log_error code group_name stream_prefix of
          Some (st, dtl) \<Rightarrow> HTTPException st dtl
        | None \<Rightarrow> HTTPException 502 (''AWS CloudWatch Logs error ('' @ code @ ''): '' @ text)))"

definition dry_run_lines :: "string option \<Rightarrow> string list" where
  "dry_run_lines stream_prefix =
     (let hint = ''['' @ (if text_empty stream_prefix then ''unknown-run'' else the stream_prefix) @ ''] '' in
      [hint @ ''Spark application started'', hint @ ''Executors requested'', hint @ ''Job completed successfully''])"

text \<open>
  \<open>session\<close> assumes the role with the external id of the settings; \<open>call\<close> is \<open>filter_log_events\<close> by group, prefix, start,
  limit and token; an exception that is no \<open>ClientError\<close> leaves the method.
\<close>

definition fetch_lines ::
    "settings \<Rightarrow> (exn + unit) \<Rightarrow> (string \<Rightarrow> string option \<Rightarrow> int option \<Rightarrow> int \<Rightarrow> string option \<Rightarrow> exn + log_page)
     \<Rightarrow> (exn \<Rightarrow> string) \<Rightarrow> string option \<Rightarrow> string option \<Rightarrow> int \<Rightarrow> int option \<Rightarrow> (exn + error) + string list" where
  "fetch_lines s session call message group_name stream_prefix limit start_time_ms =
     (if text_empty group_name then Inr []
      else if cfg_dry_run_mode s then Inr (dry_run_lines stream_prefix)
      else case rbind session (\<lambda>_. collect_log_events (call (the group_name) stream_prefix start_time_ms) limit) of
        Inr events \<Rightarrow> Inr (normalize_log_events events limit)
      | Inl e \<Rightarrow>
          if \<not> is_client_error e then Inl (Inl e)
          else case raise_cloudwatch_error e (message e) (the group_name) stream_prefix of
            None \<Rightarrow> Inr []
          | Some err \<Rightarrow> Inl (Inr err))"

subsection \<open>Bounds of names and labels\<close>

lemma set_squash: "set (squash bad run s) \<subseteq> {c \<in> set s. \<not> bad c} \<union> {CHR ''-''}"
  by (induction bad run s rule: squash.induct) auto

lemma set_rstrip: "set (rstrip_while p s) \<subseteq> set s"
  unfolding rstrip_while_def using set_dropWhileD [of _ p "rev s"] by auto

lemma set_rstrip_while: "set (rstrip_while p (dropWhile p s)) \<subseteq> set s"
  using set_rstrip [of p "dropWhile p s"] by (auto dest: set_dropWhileD)

lemma length_rstrip: "length (rstrip_while p s) \<le> length s"
  unfolding rstrip_while_def by (metis length_dropWhile_le length_rev)

lemma rstrip_last: "rstrip_while p s \<noteq> [] \<Longrightarrow> \<not> p (last (rstrip_while p s))"
  unfolding rstrip_while_def by (metis hd_dropWhile last_rev rev_is_Nil_conv)

lemma rstrip_hd: "s \<noteq> [] \<Longrightarrow> \<not> p (hd s) \<Longrightarrow> rstrip_while p s \<noteq> [] \<and> hd (rstrip_while p s) = hd s"
proof (induction s rule: rev_induct)
  case (snoc x xs)
  show ?case
  proof (cases "p x")
    case True
    then have "xs \<noteq> []" using snoc.prems by auto
    then have "rstrip_while p xs \<noteq> [] \<and> hd (rstrip_while p xs) = hd xs" using snoc by auto
    with True \<open>xs \<noteq> []\<close> show ?thesis by (simp add: rstrip_while_def)
  next
    case False
    then show ?thesis by (simp add: rstrip_while_def)
  qed
qed simp

lemma sanitized_chars: "\<forall>c \<in> set (sanitize_emr_job_name_component v). job_name_char c"
proof
  fix c assume c: "c \<in> set (sanitize_emr_job_name_component v)"
  have dash: "job_name_char (CHR ''-'')" by (simp add: job_name_char_def)
  have run: "\<forall>c \<in> set ''run''. job_name_char c" by code_simp
  let ?a = "squash (\<lambda>c. \<not> job_name_char c) False (py_strip v)"
  have a: "\<forall>c \<in> set ?a. job_name_char c" using set_squash [of "\<lambda>c. \<not> job_name_char c" False "py_strip v"] dash by auto
  have b: "\<forall>c \<in> set (squash (\<lambda>c. c = CHR ''-'') False ?a). job_name_char c"
    using set_squash [of "\<lambda>c. c = CHR ''-''" False ?a] a dash by auto
  have "c \<in> set ''run'' \<or> c \<in> set (squash (\<lambda>c. c = CHR ''-'') False ?a)"
    using c set_rstrip_while [of name_edge] by (auto simp: sanitize_emr_job_name_component_def Let_def split: if_splits)
  with b run show "job_name_char c" by blast
qed

lemma sanitized_nonempty [simp]: "sanitize_emr_job_name_component v \<noteq> []"
  by (simp add: sanitize_emr_job_name_component_def Let_def)

lemma emr_job_run_name_ok:
  "emr_job_run_name jname rid \<noteq> [] \<and> length (emr_job_run_name jname rid) \<le> 64
   \<and> (\<forall>c \<in> set (emr_job_run_name jname rid). job_name_char c)"
proof -
  define sfx where "sfx = (let t = last_chars emr_job_name_run_id_chars (sanitize_emr_job_name_component rid) in
      if t = [] then ''run'' else t)"
  have sfx: "sfx \<noteq> []" "length sfx \<le> 12" "\<forall>c \<in> set sfx. job_name_char c"
    using sanitized_chars [of rid] set_drop_subset [of _ "sanitize_emr_job_name_component rid"]
      length_greater_0_conv [of "sanitize_emr_job_name_component rid"]
    by (auto simp: sfx_def last_chars_def emr_job_name_run_id_chars_def simp del: length_greater_0_conv)
  define pre where "pre = (let t = rstrip_while name_edge (take (nat (max (int emr_job_name_max_length - int (length sfx) - 1) 1))
      (sanitize_emr_job_name_component jname)) in if t = [] then ''run'' else t)"
  have run: "\<forall>c \<in> set ''run''. job_name_char c" by code_simp
  have "length (rstrip_while name_edge (take (63 - length sfx) x)) \<le> 63 - length sfx" for x
    using length_rstrip [of name_edge "take (63 - length sfx) x"] by simp
  moreover have n: "nat (max (int emr_job_name_max_length - int (length sfx) - 1) 1) = 63 - length sfx"
    using sfx(2) by (simp add: emr_job_name_max_length_def)
  moreover have three: "Suc (Suc (Suc 0)) \<le> 63 - length sfx" using sfx(2) by linarith
  ultimately have len: "length pre \<le> 63 - length sfx" using three unfolding pre_def n Let_def by simp
  have chars: "\<forall>c \<in> set pre. job_name_char c"
  proof -
    have "set (rstrip_while name_edge (take k (sanitize_emr_job_name_component jname))) \<subseteq> set (sanitize_emr_job_name_component jname)" for k
      using set_rstrip set_take_subset by (metis subset_trans)
    with run sanitized_chars [of jname] show ?thesis unfolding pre_def Let_def by (auto split: if_splits)
  qed
  have "emr_job_run_name jname rid = (let name = pre @ ''-'' @ sfx in
      if length name \<le> emr_job_name_max_length then name
      else let trimmed = rstrip_while name_edge (take emr_job_name_max_length name)
        in if trimmed \<noteq> [] then trimmed else take emr_job_name_max_length (''run-'' @ sfx))"
    unfolding emr_job_run_name_def pre_def sfx_def Let_def by (rule refl)
  moreover have "length (pre @ ''-'' @ sfx) \<le> emr_job_name_max_length"
    using len sfx(2) by (simp add: emr_job_name_max_length_def)
  ultimately have "emr_job_run_name jname rid = pre @ ''-'' @ sfx" by (simp only: Let_def if_True)
  with len sfx chars show ?thesis by (auto simp: job_name_char_def)
qed

lemma safe_k8s_label_value_ok:
  "safe_k8s_label_value v \<noteq> [] \<and> length (safe_k8s_label_value v) \<le> 63
   \<and> alnum (hd (safe_k8s_label_value v)) \<and> alnum (last (safe_k8s_label_value v)) \<and> (\<forall>c \<in> set (safe_k8s_label_value v). job_name_char c)"
proof -
  have unk: "''unknown'' \<noteq> [] \<and> length ''unknown'' \<le> 63 \<and> alnum (hd ''unknown'') \<and> alnum (last ''unknown'')
      \<and> (\<forall>c \<in> set ''unknown''. job_name_char c)" by code_simp
  define cut where "cut = take k8s_label_value_max_length (squash (\<lambda>c. \<not> job_name_char c) False
      (py_strip (case v of None \<Rightarrow> [] | Some t \<Rightarrow> t)))"
  define core where "core = rstrip_while (\<lambda>c. \<not> alnum c) (dropWhile (\<lambda>c. \<not> alnum c) cut)"
  have cut: "length cut \<le> 63" "\<forall>c \<in> set cut. job_name_char c"
  proof -
    show "length cut \<le> 63" by (simp add: cut_def k8s_label_value_max_length_def)
    have "job_name_char (CHR ''-'')" by (simp add: job_name_char_def)
    then show "\<forall>c \<in> set cut. job_name_char c"
      unfolding cut_def using set_take_subset set_squash [of "\<lambda>c. \<not> job_name_char c"] by fastforce
  qed
  have "alnum (hd core) \<and> alnum (last core) \<and> length core \<le> 63 \<and> (\<forall>c \<in> set core. job_name_char c)" if ne: "core \<noteq> []"
  proof -
    let ?d = "dropWhile (\<lambda>c. \<not> alnum c) cut"
    have d: "?d \<noteq> []" using ne length_rstrip [of "\<lambda>c. \<not> alnum c" ?d] unfolding core_def by (metis length_0_conv le_zero_eq)
    then have h: "alnum (hd ?d)" using hd_dropWhile [of "\<lambda>c. \<not> alnum c" cut] by blast
    have "length core \<le> length cut" unfolding core_def using length_rstrip length_dropWhile_le by (metis order_trans)
    moreover have "set core \<subseteq> set cut" unfolding core_def by (rule set_rstrip_while)
    ultimately show ?thesis using rstrip_hd [OF d] rstrip_last [of "\<lambda>c. \<not> alnum c" ?d] ne h cut by (auto simp: core_def)
  qed
  then show ?thesis using unk
    by (simp add: safe_k8s_label_value_def Let_def cut_def [symmetric] core_def [symmetric])
qed

subsection \<open>The text of the configuration\<close>

text \<open>
  Values are not quoted: what follows a blank in the value of an allowed key is read as a setting of its own. The request
  cannot be told from one that sets the forbidden key, which the policy refuses.
\<close>

lemma value_smuggles_key:
  "spark_submit_parameters (xs @ [(k, v @ '' --conf '' @ fk @ ''='' @ w)] @ ys) = spark_submit_parameters (xs @ [(k, v), (fk, w)] @ ys)"
proof -
  show ?thesis
  proof (induction xs)
    case Nil
    show ?case by (cases ys) (auto simp: spark_submit_parameters_def)
  next
    case (Cons x xs)
    then show ?case by (cases xs) (auto simp: spark_submit_parameters_def)
  qed
qed

subsection \<open>Bounds of the logs\<close>

lemma log_pages_bounded:
  assumes "\<And>t p. call t = Inr p \<Longrightarrow> length (lo_events p) \<le> m"
  shows "log_pages call n token = Inr es \<Longrightarrow> length es \<le> n * m"
proof (induction n arbitrary: token es)
  case (Suc n)
  from Suc.prems obtain p where p: "call token = Inr p"
      and r: "(if text_empty (lo_next_token p) \<or> lo_next_token p = token \<or> n = 0 then Inr (lo_events p)
        else rbind (log_pages call n (lo_next_token p)) (\<lambda>es. Inr (lo_events p @ es))) = Inr es"
    by (auto simp: rbind_Inr_iff Let_def)
  note m = assms [OF p]
  show ?case
  proof (cases "text_empty (lo_next_token p) \<or> lo_next_token p = token \<or> n = 0")
    case True
    with r m show ?thesis by simp
  next
    case False
    with r obtain es1 where e: "log_pages call n (lo_next_token p) = Inr es1" "es = lo_events p @ es1" by (auto simp: rbind_Inr_iff)
    from Suc.IH [OF e(1)] m e(2) show ?thesis by simp
  qed
qed simp

text \<open>At least one line is asked for: no more than that many are answered, the last ones in the order of time.\<close>

lemma normalize_log_events_last:
  assumes "1 \<le> limit"
  shows "normalize_log_events es limit =
    map (\<lambda>e. text_at e ''message'') (drop (length es - nat limit) (sort_key log_event_key es))"
  using assms by (auto simp: normalize_log_events_def Let_def)

lemma normalize_log_events_length: "1 \<le> limit \<Longrightarrow> int (length (normalize_log_events es limit)) \<le> limit"
  by (simp add: normalize_log_events_def Let_def)

end
