(* ===== verification/SP_EmrClient.thy ===== *)
theory SP_EmrClient
  imports SP_Trust SP_FullPreflight
begin

text \<open>
  The methods of \<open>EmrEksClient\<close> (\<open>aws_clients.py\<close>) behind the checks of a preflight and the provisioning: sessions, the
  OIDC provider, the trust policy of the execution role, permissions, virtual clusters, node groups, access modes and
  Pod Identity. The calls of boto3 are functions of a record; a paginated listing answers all its items.
\<close>

record aws_api =
  aws_cluster :: "environment \<Rightarrow> string \<Rightarrow> exn + json dict" \<comment> \<open>\<open>cluster\<close> of \<open>describe_cluster\<close>\<close>
  aws_trust_document :: "environment \<Rightarrow> string \<Rightarrow> exn + json" \<comment> \<open>\<open>AssumeRolePolicyDocument\<close> of \<open>get_role\<close>\<close>
  aws_put_trust_document :: "environment \<Rightarrow> string \<Rightarrow> json dict \<Rightarrow> exn + unit" \<comment> \<open>\<open>update_assume_role_policy\<close>\<close>
  aws_oidc_provider :: "environment \<Rightarrow> string \<Rightarrow> exn + unit"
  aws_simulate :: "environment \<Rightarrow> string \<Rightarrow> string list \<Rightarrow> string list \<Rightarrow> exn + json dict list"
  aws_virtual_clusters :: "environment \<Rightarrow> string \<Rightarrow> exn + json dict list"
  aws_virtual_cluster :: "environment \<Rightarrow> string \<Rightarrow> exn + json" \<comment> \<open>\<open>virtualCluster\<close> of \<open>describe_virtual_cluster\<close>\<close>
  aws_create_virtual_cluster :: "environment \<Rightarrow> json dict \<Rightarrow> exn + string"
  aws_nodegroup_names :: "environment \<Rightarrow> string \<Rightarrow> exn + string list"
  aws_nodegroup :: "environment \<Rightarrow> string \<Rightarrow> string \<Rightarrow> exn + json dict"
  aws_addon :: "environment \<Rightarrow> string \<Rightarrow> string \<Rightarrow> exn + json dict"
  aws_pod_identities :: "environment \<Rightarrow> string \<Rightarrow> string \<Rightarrow> exn + json list"
  aws_error_message :: "exn \<Rightarrow> string" \<comment> \<open>the message of an error response\<close>

subsection \<open>Sessions\<close>

definition no_credentials :: exn where
  "no_credentials = \<lparr>exn_class = ''KeyError'', exn_text = quoted ''Credentials'', exn_code = None, exn_aws = False\<rparr>"

definition assume_role_session ::
    "settings \<Rightarrow> sts_services \<Rightarrow> string \<Rightarrow> string \<Rightarrow> string option \<Rightarrow> exn + json" where
  "assume_role_session s sts role_arn region external_id =
     (let ext = py_strip (case external_id of None \<Rightarrow> cfg_assume_role_external_id s | Some x \<Rightarrow> x) in
      rbind (sts_assume sts region role_arn (if ext = [] then None else Some ext)) (\<lambda>response.
        case map_of response ''Credentials'' of None \<Rightarrow> Inl no_credentials | Some creds \<Rightarrow> Inr creds))"

definition session_for_environment :: "settings \<Rightarrow> sts_services \<Rightarrow> environment \<Rightarrow> exn + json" where
  "session_for_environment s sts env =
     (let own = py_strip (case env_assume_role_external_id env of None \<Rightarrow> [] | Some x \<Rightarrow> x) in
      assume_role_session s sts (env_customer_role_arn env) (env_region env) (if own = [] then None else Some own))"

subsection \<open>Refusals\<close>

definition denied_codes :: "string list" where
  "denied_codes = [''AccessDeniedException'', ''AccessDenied'', ''UnauthorizedOperation'']"

text \<open>A \<open>ClientError\<close> with one of the codes becomes a \<open>ValueError\<close> with the message; any other exception passes.\<close>

definition refuse_on :: "string list \<Rightarrow> string \<Rightarrow> exn + 'a \<Rightarrow> exn + 'a" where
  "refuse_on codes msg m =
     (case m of Inl e \<Rightarrow> if is_client_error e \<and> client_code e \<in> set codes then Inl (value_error msg) else Inl e | Inr x \<Rightarrow> Inr x)"

lemma refuse_on_Inr [simp]: "refuse_on codes msg m = Inr x \<longleftrightarrow> m = Inr x"
  by (auto simp: refuse_on_def split: sum.splits)

definition bad_value :: "string \<Rightarrow> exn + 'a" where
  "bad_value msg = Inl (value_error msg)"

definition required :: "string option \<Rightarrow> string \<Rightarrow> exn + string" where
  "required x msg = (if text_empty x then bad_value msg else Inr (the x))"

definition missing_cluster_arn :: string where "missing_cluster_arn = ''Missing EKS cluster ARN.''"
definition missing_namespace :: string where "missing_namespace = ''Missing EKS namespace.''"

definition backquoted :: "string \<Rightarrow> string" where
  "backquoted s = [CHR 0x60] @ s @ [CHR 0x60]"

subsection \<open>Names\<close>

definition role_name_from_arn :: "string \<Rightarrow> exn + string" where
  "role_name_from_arn arn = (case parse_role_name_from_arn (Some arn) of None \<Rightarrow> bad_value ''Invalid IAM role ARN.'' | Some nm \<Rightarrow> Inr nm)"

definition account_id_from_arn :: "string \<Rightarrow> exn + string" where
  "account_id_from_arn arn =
     (let parts = split_at (CHR '':'') arn in if length parts < 6 then bad_value ''Invalid ARN.'' else Inr (parts ! 4))"

definition issuer_of :: "json dict \<Rightarrow> string" where
  "issuer_of cluster = str_or (sub_dict (sub_dict cluster ''identity'') ''oidc'') ''issuer'' []"

definition provider_path_of :: "string \<Rightarrow> string" where
  "provider_path_of issuer = (case drop_prefix ''https://'' issuer of None \<Rightarrow> issuer | Some p \<Rightarrow> p)"

definition provider_arn_of :: "string \<Rightarrow> string \<Rightarrow> string" where
  "provider_arn_of account_id provider_path = ''arn:aws:iam::'' @ account_id @ '':oidc-provider/'' @ provider_path"

definition runtime_settings_ok :: "(string \<Rightarrow> string + json) \<Rightarrow> settings \<Rightarrow> exn + unit" where
  "runtime_settings_ok loads s =
     (case validate_runtime_settings loads s of Inl e \<Rightarrow> Inl (exn_of_policy_error e) | Inr u \<Rightarrow> Inr u)"

subsection \<open>The OIDC provider\<close>

definition check_oidc_provider_association ::
    "settings \<Rightarrow> sts_services \<Rightarrow> aws_api \<Rightarrow> environment \<Rightarrow> exn + json dict" where
  "check_oidc_provider_association s sts api env =
     rbind (required (env_eks_cluster_arn env) missing_cluster_arn) (\<lambda>cluster_arn.
     rbind (eks_cluster_name_from_arn cluster_arn) (\<lambda>cluster_name.
     rbind (account_id_from_arn cluster_arn) (\<lambda>account_id.
     if cfg_dry_run_mode s then
       Inr [(''associated'', JBool True), (''mode'', JStr ''dry_run''), (''cluster_name'', JStr cluster_name),
            (''oidc_issuer'', JNull), (''oidc_provider_arn'', JNull)]
     else
       rbind (session_for_environment s sts env) (\<lambda>_.
       rbind (refuse_on denied_codes
           (''Access denied while checking EKS OIDC association. '' @
            ''Required permissions: eks:DescribeCluster, iam:GetOpenIDConnectProvider. '' @
            ''Remediation: grant permissions above to customer_role_arn or run '' @
            backquoted (''aws eks describe-cluster --name '' @ cluster_name @ '' --region '' @ env_region env) @ '' with an admin role.'')
           (aws_cluster api env cluster_name)) (\<lambda>cluster.
       let issuer = issuer_of cluster in
       if issuer = [] then
         bad_value (''EKS cluster does not report an OIDC issuer. '' @
           ''Remediation: associate the IAM OIDC provider for this cluster with '' @
           backquoted (''eksctl utils associate-iam-oidc-provider --cluster '' @ cluster_name @ '' --region '' @ env_region env @
             '' --approve'') @ '', then retry provisioning.'')
       else
         let provider_arn = provider_arn_of account_id (provider_path_of issuer);
             answer = (\<lambda>found. [(''associated'', JBool found), (''cluster_name'', JStr cluster_name), (''oidc_issuer'', JStr issuer),
               (''oidc_provider_arn'', JStr provider_arn)])
         in case aws_oidc_provider api env provider_arn of
              Inr _ \<Rightarrow> Inr (answer True)
            | Inl e \<Rightarrow>
                if is_client_error e \<and> client_code e \<in> {''NoSuchEntity'', ''InvalidInput''} then Inr (answer False)
                else refuse_on denied_codes
                  (''Access denied while checking IAM OIDC provider. '' @
                   ''Required permissions: eks:DescribeCluster, iam:GetOpenIDConnectProvider. '' @
                   ''Remediation: grant permissions above to customer_role_arn or run '' @
                   backquoted (''aws iam get-open-id-connect-provider --open-id-connect-provider-arn '' @ provider_arn) @
                   '' with an admin role.'') (Inl e))))))"

subsection \<open>The trust policy\<close>

definition trust_policy_required_actions :: "string list" where
  "trust_policy_required_actions = [''eks:DescribeCluster'', ''iam:GetRole'', ''iam:UpdateAssumeRolePolicy'']"

definition trust_command :: "string \<Rightarrow> environment \<Rightarrow> string \<Rightarrow> string" where
  "trust_command cluster_name env role_name =
     backquoted (''aws emr-containers update-role-trust-policy --cluster-name '' @ cluster_name @ '' '' @
       ''--namespace '' @ py_str (jstr_opt (env_eks_namespace env)) @ '' --role-name '' @ role_name @ '' --region '' @ env_region env)"

definition trust_denied :: "string \<Rightarrow> string" where
  "trust_denied what = ''Access denied while '' @ what @ ''. Required permissions: '' @ join '', '' trust_policy_required_actions @ ''. ''"

definition policy_document :: "(string \<Rightarrow> string + json) \<Rightarrow> json \<Rightarrow> exn + json dict" where
  "policy_document loads doc =
     rbind (case doc of JStr t \<Rightarrow> (case loads t of Inl msg \<Rightarrow> bad_value msg | Inr j \<Rightarrow> Inr j) | j \<Rightarrow> Inr j) (\<lambda>j.
       case j of JObj kvs \<Rightarrow> Inr kvs
       | _ \<Rightarrow> Inl \<lparr>exn_class = ''AttributeError'', exn_text = ''object has no attribute get'', exn_code = None, exn_aws = False\<rparr>)"

definition load_execution_role_trust_policy ::
    "(string \<Rightarrow> string + json) \<Rightarrow> aws_api \<Rightarrow> environment \<Rightarrow> string \<Rightarrow> string \<Rightarrow> string \<Rightarrow> exn + json dict" where
  "load_execution_role_trust_policy loads api env role_name account_id cluster_name =
     rbind (refuse_on denied_codes
         (trust_denied ''reading execution role trust policy'' @ ''Remediation: grant iam:GetRole to customer_role_arn, or run '' @
          trust_command cluster_name env role_name @ '' with an admin role.'')
       (refuse_on [''NoSuchEntity'']
         (''Execution role '' @ quoted role_name @ '' not found in account '' @ account_id @ ''. '' @
          ''Remediation: verify SPARKPILOT_EMR_EXECUTION_ROLE_ARN is correct.'')
       (aws_trust_document api env role_name))) (policy_document loads)"

definition update_assume_role_policy ::
    "aws_api \<Rightarrow> environment \<Rightarrow> string \<Rightarrow> string \<Rightarrow> json dict \<Rightarrow> exn + unit" where
  "update_assume_role_policy api env role_name cluster_name trust_policy =
     (case aws_put_trust_document api env role_name trust_policy of
        Inr u \<Rightarrow> Inr u
      | Inl e \<Rightarrow>
          refuse_on [''LimitExceeded'', ''LimitExceededException'']
            (''Execution role trust policy exceeds AWS size quota (ACLSizePerRole=2048). '' @
             ''Role '' @ quoted role_name @ '' cannot accept additional web-identity trust statements. '' @
             ''Remediation: prune stale OIDC trust statements on the execution role, or create a fresh '' @
             ''execution role with a minimal trust policy and set SPARKPILOT_EMR_EXECUTION_ROLE_ARN to it.'')
          (refuse_on [''MalformedPolicyDocument'']
            (''Trust policy update failed: '' @ aws_error_message api e @ ''. '' @
             ''Remediation: verify execution role ARN and EKS cluster name, then run '' @
             trust_command cluster_name env role_name @ ''.'')
          (refuse_on denied_codes
            (trust_denied ''updating execution role trust policy'' @ ''Remediation: run '' @ trust_command cluster_name env role_name @
             '' with an admin role, or grant the permissions above to customer_role_arn.'') (Inl e))))"

text \<open>The answer, and the document that was put, if any.\<close>

definition update_execution_role_trust_policy ::
    "(string \<Rightarrow> string + json) \<Rightarrow> settings \<Rightarrow> sts_services \<Rightarrow> aws_api \<Rightarrow> environment \<Rightarrow> exn + json dict \<times> json dict option" where
  "update_execution_role_trust_policy loads s sts api env =
     rbind (required (env_eks_cluster_arn env) missing_cluster_arn) (\<lambda>cluster_arn.
     rbind (required (env_eks_namespace env) missing_namespace) (\<lambda>namespace.
     rbind (eks_cluster_name_from_arn cluster_arn) (\<lambda>cluster_name.
     if cfg_dry_run_mode s then
       Inr ([(''updated'', JBool True), (''mode'', JStr ''dry_run''), (''cluster_name'', JStr cluster_name),
         (''namespace'', JStr namespace), (''role_name'', JStr ''dry-run''), (''aws_request_id'', JNull)], None)
     else
       rbind (runtime_settings_ok loads s) (\<lambda>_.
       rbind (role_name_from_arn (cfg_emr_execution_role_arn s)) (\<lambda>role_name.
       rbind (account_id_from_arn cluster_arn) (\<lambda>account_id.
       rbind (session_for_environment s sts env) (\<lambda>_.
       rbind (refuse_on denied_codes
           (trust_denied ''describing EKS cluster for trust policy update'' @ ''Remediation: run '' @
            trust_command cluster_name env role_name @ '' with an admin role, or grant the permissions above to customer_role_arn.'')
           (aws_cluster api env cluster_name)) (\<lambda>cluster.
       let issuer = issuer_of cluster in
       if issuer = [] then
         bad_value (''EKS cluster '' @ quoted cluster_name @ '' does not have an OIDC issuer. '' @
           ''Remediation: associate the IAM OIDC provider first with '' @
           backquoted (''eksctl utils associate-iam-oidc-provider --cluster '' @ cluster_name @ '' '' @
             ''--region '' @ env_region env @ '' --approve'') @ ''.'')
       else
         let provider_path = provider_path_of issuer; provider_arn = provider_arn_of account_id provider_path;
             sa_pattern = emr_sa_pattern namespace account_id role_name
         in rbind (load_execution_role_trust_policy loads api env role_name account_id cluster_name) (\<lambda>trust_policy.
            let merged = merge_sparkpilot_trust_statement provider_arn provider_path sa_pattern trust_policy in
            rbind (update_assume_role_policy api env role_name cluster_name (snd merged)) (\<lambda>_.
            Inr ([(''updated'', JBool True), (''already_present'', JBool (fst merged)), (''cluster_name'', JStr cluster_name),
              (''namespace'', JStr namespace), (''role_name'', JStr role_name), (''provider_arn'', JStr provider_arn),
              (''sa_pattern'', JStr sa_pattern)], Some (snd merged))))))))))))"

definition check_execution_role_trust_policy ::
    "(string \<Rightarrow> string + json) \<Rightarrow> settings \<Rightarrow> sts_services \<Rightarrow> aws_api \<Rightarrow> environment \<Rightarrow> exn + json dict" where
  "check_execution_role_trust_policy loads s sts api env =
     rbind (required (env_eks_cluster_arn env) missing_cluster_arn) (\<lambda>cluster_arn.
     rbind (required (env_eks_namespace env) missing_namespace) (\<lambda>namespace.
     if cfg_dry_run_mode s then
       Inr [(''valid'', JBool True), (''mode'', JStr ''dry_run''), (''provider_arn'', JStr []),
            (''service_account_pattern'', JStr []), (''role_name'', JStr ''dry-run'')]
     else
       rbind (runtime_settings_ok loads s) (\<lambda>_.
       rbind (eks_cluster_name_from_arn cluster_arn) (\<lambda>cluster_name.
       rbind (role_name_from_arn (cfg_emr_execution_role_arn s)) (\<lambda>role_name.
       rbind (account_id_from_arn cluster_arn) (\<lambda>account_id.
       rbind (session_for_environment s sts env) (\<lambda>_.
       rbind (refuse_on denied_codes
           (''Access denied while validating execution role trust policy. '' @
            ''Remediation: grant customer_role_arn eks:DescribeCluster and iam:GetRole.'')
           (aws_cluster api env cluster_name)) (\<lambda>cluster.
       let issuer = issuer_of cluster in
       if issuer = [] then
         bad_value (''EKS cluster '' @ quoted cluster_name @ '' does not expose an OIDC issuer. '' @
           ''Remediation: associate OIDC provider and retry.'')
       else
         let provider_path = provider_path_of issuer; provider_arn = provider_arn_of account_id provider_path;
             sa_pattern = emr_sa_pattern namespace account_id role_name
         in rbind (refuse_on denied_codes
               (''Access denied while reading execution role trust policy. '' @ ''Remediation: grant customer_role_arn iam:GetRole.'')
             (refuse_on [''NoSuchEntity'']
               (''Execution role '' @ quoted role_name @ '' not found. '' @ ''Remediation: verify SPARKPILOT_EMR_EXECUTION_ROLE_ARN.'')
             (aws_trust_document api env role_name))) (\<lambda>doc.
            rbind (policy_document loads doc) (\<lambda>trust_policy.
            if policy_trusts provider_arn provider_path sa_pattern trust_policy then
              Inr [(''valid'', JBool True), (''provider_arn'', JStr provider_arn), (''service_account_pattern'', JStr sa_pattern),
                   (''role_name'', JStr role_name)]
            else
              bad_value (''Execution role trust policy is missing required EMR on EKS web-identity statement. '' @
                ''Remediation: run '' @ trust_command cluster_name env role_name @ '' and retry.'')))))))))))"

text \<open>The document of the role after an update that went through.\<close>

definition after_trust_update ::
    "(string \<Rightarrow> string + json) \<Rightarrow> settings \<Rightarrow> sts_services \<Rightarrow> environment \<Rightarrow> aws_api \<Rightarrow> aws_api" where
  "after_trust_update loads s sts env api =
     (case update_execution_role_trust_policy loads s sts api env of
        Inr (_, Some doc) \<Rightarrow> api\<lparr>aws_trust_document := (\<lambda>e r. Inr (JObj doc))\<rparr>
      | _ \<Rightarrow> api)"

text \<open>After an update of an orderly policy the check passes.\<close>

lemma policy_document_JObj [simp]: "policy_document loads (JObj kvs) = Inr kvs"
  by (simp add: policy_document_def)

lemma provider_arn_nonempty [simp]: "provider_arn_of account_id path \<noteq> []"
  by (simp add: provider_arn_of_def)

definition trust_subject :: "settings \<Rightarrow> environment \<Rightarrow> json dict \<Rightarrow> (string \<times> string \<times> string) option" where
  "trust_subject s env cluster =
     (case (required (env_eks_namespace env) missing_namespace, rbind (required (env_eks_cluster_arn env) missing_cluster_arn) account_id_from_arn,
            role_name_from_arn (cfg_emr_execution_role_arn s)) of
        (Inr ns, Inr account_id, Inr role_name) \<Rightarrow>
          let path = provider_path_of (issuer_of cluster) in
          Some (provider_arn_of account_id path, path, emr_sa_pattern ns account_id role_name)
      | _ \<Rightarrow> None)"

lemma update_then_check:
  assumes live: "\<not> cfg_dry_run_mode s"
    and upd: "update_execution_role_trust_policy loads s sts api env = Inr (res, Some doc)"
    and ord: "\<And>cluster_name cluster role_name old pol arn path sa. aws_cluster api env cluster_name = Inr cluster \<Longrightarrow>
      trust_subject s env cluster = Some (arn, path, sa) \<Longrightarrow> aws_trust_document api env role_name = Inr old \<Longrightarrow>
      policy_document loads old = Inr pol \<Longrightarrow> orderly arn path sa (statements_of pol)"
  shows "\<exists>answer. check_execution_role_trust_policy loads s sts (api\<lparr>aws_trust_document := (\<lambda>e r. Inr (JObj doc))\<rparr>) env = Inr answer
    \<and> dget answer ''valid'' JNull = JBool True"
proof -
  from upd live obtain cluster_arn ns cluster_name role_name account_id creds cluster pol present
    where c: "required (env_eks_cluster_arn env) missing_cluster_arn = Inr cluster_arn"
      "required (env_eks_namespace env) missing_namespace = Inr ns" "eks_cluster_name_from_arn cluster_arn = Inr cluster_name"
      "runtime_settings_ok loads s = Inr ()" "role_name_from_arn (cfg_emr_execution_role_arn s) = Inr role_name"
      "account_id_from_arn cluster_arn = Inr account_id" "session_for_environment s sts env = Inr creds"
      "aws_cluster api env cluster_name = Inr cluster" "issuer_of cluster \<noteq> []"
      "load_execution_role_trust_policy loads api env role_name account_id cluster_name = Inr pol"
      "merge_sparkpilot_trust_statement (provider_arn_of account_id (provider_path_of (issuer_of cluster)))
         (provider_path_of (issuer_of cluster)) (emr_sa_pattern ns account_id role_name) pol = (present, doc)"
    by (auto simp: update_execution_role_trust_policy_def rbind_Inr_iff Let_def bad_value_def prod_eq_iff split: if_splits)
  obtain old where old: "aws_trust_document api env role_name = Inr old" "policy_document loads old = Inr pol"
    using c(10) by (auto simp: load_execution_role_trust_policy_def rbind_Inr_iff)
  have "policy_trusts (provider_arn_of account_id (provider_path_of (issuer_of cluster))) (provider_path_of (issuer_of cluster))
      (emr_sa_pattern ns account_id role_name) doc"
  proof (rule merge_trusts [OF sa_pattern_marked provider_arn_nonempty ord [OF c(8) _ old] c(11)])
    show "trust_subject s env cluster = Some (provider_arn_of account_id (provider_path_of (issuer_of cluster)),
        provider_path_of (issuer_of cluster), emr_sa_pattern ns account_id role_name)"
      by (simp add: trust_subject_def c rbind_def Let_def)
  qed
  then show ?thesis
    using live c by (simp add: check_execution_role_trust_policy_def refuse_on_def rbind_def Let_def dget_def)
qed

subsection \<open>Permissions of the customer role\<close>

definition check_customer_role_dispatch_permissions ::
    "(string \<Rightarrow> string + json) \<Rightarrow> settings \<Rightarrow> sts_services \<Rightarrow> aws_api \<Rightarrow> environment \<Rightarrow> exn + json dict" where
  "check_customer_role_dispatch_permissions loads s sts api env =
     (if cfg_dry_run_mode s then
        Inr [(''dispatch_actions_allowed'', JBool True), (''pass_role_allowed'', JBool True), (''mode'', JStr ''dry_run'')]
      else
        rbind (runtime_settings_ok loads s) (\<lambda>_.
        rbind (session_for_environment s sts env) (\<lambda>_.
        rbind (refuse_on denied_codes
            (''Unable to validate customer role dispatch permissions via IAM simulation. '' @
             ''Remediation: grant customer_role_arn iam:SimulatePrincipalPolicy, or '' @
             ''validate emr-containers:*JobRun and iam:PassRole permissions manually.'')
          (rbind (aws_simulate api env (env_customer_role_arn env) dispatch_simulation_actions [''*'']) (\<lambda>dispatch.
           rbind (aws_simulate api env (env_customer_role_arn env) [''iam:PassRole''] [cfg_emr_execution_role_arn s]) (\<lambda>pass_role.
           Inr (dispatch, pass_role))))) (\<lambda>(dispatch, pass_role).
        let decided = (\<lambda>r. dget r ''EvalDecision'' (JStr []) = JStr ''allowed'');
            denied = map (\<lambda>r. text_at r ''EvalActionName'') (filter (\<lambda>r. \<not> decided r) dispatch)
        in Inr [(''dispatch_actions_allowed'', JBool (denied = [])), (''pass_role_allowed'', JBool (decided (first_result pass_role))),
             (''denied_dispatch_actions'', JStr (join '', '' (sort denied))),
             (''execution_role_arn'', JStr (cfg_emr_execution_role_arn s))]))))"

subsection \<open>Virtual clusters\<close>

definition namespace_of_cluster :: "json dict \<Rightarrow> json" where
  "namespace_of_cluster item = dget (sub_dict (sub_dict (sub_dict item ''containerProvider'') ''info'') ''eksInfo'') ''namespace'' JNull"

definition find_namespace_virtual_cluster_collision ::
    "settings \<Rightarrow> sts_services \<Rightarrow> aws_api \<Rightarrow> environment \<Rightarrow> exn + json dict option" where
  "find_namespace_virtual_cluster_collision s sts api env =
     rbind (required (env_eks_cluster_arn env) missing_cluster_arn) (\<lambda>cluster_arn.
     rbind (required (env_eks_namespace env) missing_namespace) (\<lambda>namespace.
     if cfg_dry_run_mode s then Inr None
     else
       rbind (eks_cluster_name_from_arn cluster_arn) (\<lambda>cluster_name.
       rbind (session_for_environment s sts env) (\<lambda>_.
       rbind (refuse_on [''AccessDeniedException'', ''UnauthorizedOperation'']
           (''Unable to evaluate BYOC-Lite namespace collisions. '' @ ''Grant customer_role_arn emr-containers:ListVirtualClusters.'')
         (aws_virtual_clusters api env cluster_name)) (\<lambda>items.
       Inr (map_option (\<lambda>item. [(''id'', dget item ''id'' JNull), (''name'', dget item ''name'' JNull), (''state'', dget item ''state'' JNull)])
         (find (\<lambda>item. namespace_of_cluster item = JStr namespace \<and> dget item ''state'' JNull \<noteq> JStr ''TERMINATED'') items)))))))"

definition create_virtual_cluster ::
    "settings \<Rightarrow> sts_services \<Rightarrow> aws_api \<Rightarrow> string \<Rightarrow> environment \<Rightarrow> exn + string" where
  "create_virtual_cluster s sts api hex_id env =
     rbind (required (env_eks_cluster_arn env) missing_cluster_arn) (\<lambda>cluster_arn.
     rbind (required (env_eks_namespace env) missing_namespace) (\<lambda>namespace.
     if cfg_dry_run_mode s then Inr (''vc-'' @ take 10 hex_id)
     else
       rbind (eks_cluster_name_from_arn cluster_arn) (\<lambda>cluster_name.
       rbind (session_for_environment s sts env) (\<lambda>_.
       case aws_create_virtual_cluster api env
           [(''name'', JStr (''sparkpilot-'' @ take 8 (env_id env))),
            (''containerProvider'', JObj [(''id'', JStr cluster_name), (''type'', JStr ''EKS''),
               (''info'', JObj [(''eksInfo'', JObj [(''namespace'', JStr namespace)])])]),
            (''tags'', JObj [(''sparkpilot:managed'', JStr ''true'')])] of
         Inr i \<Rightarrow> Inr i
       | Inl e \<Rightarrow>
           if is_client_error e \<and> client_code e = ''ValidationException'' \<and>
              contains_sub ''already exists in the given namespace'' (py_lower (aws_error_message api e))
           then bad_value (''Namespace collision detected while creating EMR virtual cluster. '' @
             ''Use a unique namespace or delete the existing virtual cluster in that namespace.'')
           else refuse_on [''AccessDeniedException'', ''UnauthorizedOperation'']
             (''Access denied while creating EMR virtual cluster. '' @
              ''Grant customer_role_arn emr-containers:CreateVirtualCluster and eks:DescribeCluster.'') (Inl e)))))"

definition virtual_cluster_required_actions :: "string list" where
  "virtual_cluster_required_actions = [''emr-containers:DescribeVirtualCluster'', ''eks:DescribeCluster'']"

definition named_cluster :: "string \<Rightarrow> string" where
  "named_cluster vc = ''EMR virtual cluster '' @ quoted vc"

definition describe_virtual_cluster :: "aws_api \<Rightarrow> environment \<Rightarrow> string \<Rightarrow> exn + json dict" where
  "describe_virtual_cluster api env vc =
     rbind (refuse_on denied_codes
         (''Access denied while validating EMR virtual cluster reference. '' @
          ''Required permissions: '' @ join '', '' virtual_cluster_required_actions @ ''. '' @
          ''Remediation: grant permissions above to customer_role_arn and retry provisioning.'')
       (refuse_on [''ResourceNotFoundException'', ''ValidationException'']
         (named_cluster vc @ '' was not found. '' @
          ''Remediation: rerun full-BYOC provisioning_emr stage to recreate and wire the virtual cluster.'')
       (aws_virtual_cluster api env vc))) (\<lambda>j.
     case j of JObj kvs \<Rightarrow> Inr kvs
     | _ \<Rightarrow> bad_value (''EMR virtual cluster validation returned an unexpected response shape. '' @
         ''Remediation: retry; if persistent, verify emr-containers API access in customer account.''))"

definition validate_virtual_cluster_state :: "string \<Rightarrow> string \<Rightarrow> bool \<Rightarrow> exn + unit" where
  "validate_virtual_cluster_state state vc require_running =
     (if require_running \<and> state \<noteq> ''RUNNING'' then
        bad_value (named_cluster vc @ '' is in state '' @ quoted (if state = [] then ''UNKNOWN'' else state) @ ''. '' @
          ''Remediation: wait until RUNNING or rerun provisioning_emr if the cluster does not recover.'')
      else if \<not> require_running \<and> state \<in> {''TERMINATING'', ''TERMINATED'', ''ARRESTED''} then
        bad_value (named_cluster vc @ '' is in terminal state '' @ quoted state @ ''. '' @
          ''Remediation: rerun provisioning_emr to create a healthy virtual cluster.'')
      else Inr ())"

definition validate_virtual_cluster_provider :: "string \<Rightarrow> json dict \<Rightarrow> string \<Rightarrow> exn + string" where
  "validate_virtual_cluster_provider vc provider cluster_name =
     (let provider_type = str_or provider ''type'' []; provider_cluster = py_strip (str_or provider ''id'' []) in
      if provider_type \<noteq> [] \<and> provider_type \<noteq> ''EKS'' then
        bad_value (named_cluster vc @ '' is bound to unsupported provider type '' @ quoted provider_type @ ''. '' @
          ''Remediation: recreate the virtual cluster with container provider type EKS.'')
      else if provider_cluster \<noteq> [] \<and> provider_cluster \<noteq> cluster_name then
        bad_value (named_cluster vc @ '' is bound to EKS cluster '' @ quoted provider_cluster @ '', '' @
          ''expected '' @ quoted cluster_name @ ''. Remediation: rerun provisioning_emr to bind the correct EKS cluster.'')
      else Inr provider_cluster)"

definition virtual_cluster_namespace :: "json dict \<Rightarrow> string" where
  "virtual_cluster_namespace provider = py_strip (str_or (sub_dict (sub_dict provider ''info'') ''eksInfo'') ''namespace'' [])"

definition validate_virtual_cluster_reference ::
    "settings \<Rightarrow> sts_services \<Rightarrow> aws_api \<Rightarrow> bool \<Rightarrow> environment \<Rightarrow> exn + json dict" where
  "validate_virtual_cluster_reference s sts api require_running env =
     rbind (required (env_eks_cluster_arn env) missing_cluster_arn) (\<lambda>cluster_arn.
     rbind (required (env_emr_virtual_cluster_id env) ''Missing EMR virtual cluster id.'') (\<lambda>raw_vc.
     rbind (eks_cluster_name_from_arn cluster_arn) (\<lambda>cluster_name.
     let vc = py_strip raw_vc in
     if cfg_dry_run_mode s then
       Inr [(''valid'', JBool True), (''mode'', JStr ''dry_run''), (''virtual_cluster_id'', JStr vc), (''state'', JStr ''RUNNING''),
            (''cluster_name'', JStr cluster_name),
            (''namespace'', JStr (if text_empty (env_eks_namespace env) then ''sparkpilot-system'' else the (env_eks_namespace env)))]
     else
       rbind (session_for_environment s sts env) (\<lambda>_.
       rbind (describe_virtual_cluster api env vc) (\<lambda>cluster.
       let state = py_upper (str_or cluster ''state'' []) in
       rbind (validate_virtual_cluster_state state vc require_running) (\<lambda>_.
       let provider = sub_dict cluster ''containerProvider'' in
       rbind (validate_virtual_cluster_provider vc provider cluster_name) (\<lambda>provider_cluster.
       let ns = virtual_cluster_namespace provider in
       if \<not> text_empty (env_eks_namespace env) \<and> ns \<noteq> [] \<and> Some ns \<noteq> env_eks_namespace env then
         bad_value (''EMR virtual cluster namespace '' @ quoted ns @ '' does not match environment namespace '' @
           quoted (the (env_eks_namespace env)) @ ''. Remediation: rerun provisioning_emr and align namespace wiring.'')
       else
         Inr [(''valid'', JBool True), (''virtual_cluster_id'', JStr vc), (''state'', JStr (if state = [] then ''UNKNOWN'' else state)),
              (''cluster_name'', JStr (if provider_cluster = [] then cluster_name else provider_cluster)),
              (''namespace'', JStr (if ns \<noteq> [] then ns else opt_text_of (env_eks_namespace env)))])))))))"

subsection \<open>Node groups, access mode and Pod Identity\<close>

definition spot_validation_required_actions :: "string list" where
  "spot_validation_required_actions = [''eks:ListNodegroups'', ''eks:DescribeNodegroup'']"

definition spot_denied :: "string \<Rightarrow> string" where
  "spot_denied what = ''Access denied while '' @ what @ '' EKS node groups for Spot validation. '' @
     ''Required permissions: '' @ join '', '' spot_validation_required_actions @ ''. '' @
     ''Remediation: grant permissions above to customer_role_arn and retry preflight.''"

definition int_or_zero :: "json \<Rightarrow> exn + int" where
  "int_or_zero j = (if truthy j then (case py_int j of Inl e \<Rightarrow> Inl (exn_of_policy_error e) | Inr i \<Rightarrow> Inr i) else Inr 0)"

definition nodegroup_result :: "string \<Rightarrow> json dict \<Rightarrow> exn + json dict" where
  "nodegroup_result nm info =
     rbind (int_or_zero (dget (sub_dict info ''scalingConfig'') ''desiredSize'' JNull)) (\<lambda>size. Inr
       [(''name'', JStr nm), (''capacity_type'', JStr (str_or info ''capacityType'' ''ON_DEMAND'')),
        (''instance_types'', (let j = dget info ''instanceTypes'' JNull in if truthy j then j else JArr [])),
        (''desired_size'', JInt size)])"

definition describe_nodegroups :: "settings \<Rightarrow> sts_services \<Rightarrow> aws_api \<Rightarrow> environment \<Rightarrow> exn + json dict list" where
  "describe_nodegroups s sts api env =
     rbind (required (env_eks_cluster_arn env) missing_cluster_arn) (\<lambda>cluster_arn.
     rbind (eks_cluster_name_from_arn cluster_arn) (\<lambda>cluster_name.
     if cfg_dry_run_mode s then
       Inr [[(''name'', JStr ''dry-run-spot''), (''capacity_type'', JStr ''SPOT''),
             (''instance_types'', JArr (map JStr [''m7g.xlarge'', ''m7i.xlarge'', ''r7g.xlarge''])), (''desired_size'', JInt 2)]]
     else
       rbind (session_for_environment s sts env) (\<lambda>_.
       rbind (refuse_on denied_codes (spot_denied ''listing'') (aws_nodegroup_names api env cluster_name)) (\<lambda>names.
       mapM (\<lambda>nm. rbind (refuse_on denied_codes (spot_denied ''describing'') (aws_nodegroup api env cluster_name nm))
         (nodegroup_result nm)) names))))"

definition check_cluster_access_mode :: "settings \<Rightarrow> sts_services \<Rightarrow> aws_api \<Rightarrow> environment \<Rightarrow> exn + json dict" where
  "check_cluster_access_mode s sts api env =
     rbind (required (env_eks_cluster_arn env) missing_cluster_arn) (\<lambda>cluster_arn.
     rbind (eks_cluster_name_from_arn cluster_arn) (\<lambda>cluster_name.
     if cfg_dry_run_mode s then
       Inr [(''cluster_name'', JStr cluster_name), (''authentication_mode'', JStr ''API_AND_CONFIG_MAP''),
            (''access_entries_supported'', JBool True), (''mode'', JStr ''dry_run'')]
     else
       rbind (session_for_environment s sts env) (\<lambda>_.
       rbind (refuse_on denied_codes
           (''Access denied while checking EKS cluster access mode. '' @
            ''Remediation: grant customer_role_arn eks:DescribeCluster permission.'')
         (aws_cluster api env cluster_name)) (\<lambda>cluster.
       let auth_mode = dget (sub_dict cluster ''accessConfig'') ''authenticationMode'' (JStr ''CONFIG_MAP'') in
       Inr [(''cluster_name'', JStr cluster_name), (''authentication_mode'', auth_mode),
            (''access_entries_supported'', JBool (auth_mode \<in> {JStr ''API'', JStr ''API_AND_CONFIG_MAP''}))]))))"

definition check_pod_identity_agent :: "settings \<Rightarrow> sts_services \<Rightarrow> aws_api \<Rightarrow> environment \<Rightarrow> exn + json dict" where
  "check_pod_identity_agent s sts api env =
     rbind (required (env_eks_cluster_arn env) missing_cluster_arn) (\<lambda>cluster_arn.
     rbind (eks_cluster_name_from_arn cluster_arn) (\<lambda>cluster_name.
     if cfg_dry_run_mode s then
       Inr [(''cluster_name'', JStr cluster_name), (''addon_installed'', JBool True), (''addon_status'', JStr ''ACTIVE''),
            (''mode'', JStr ''dry_run'')]
     else
       rbind (session_for_environment s sts env) (\<lambda>_.
       case aws_addon api env cluster_name ''eks-pod-identity-agent'' of
         Inr addon \<Rightarrow> Inr [(''cluster_name'', JStr cluster_name), (''addon_installed'', JBool True),
           (''addon_status'', dget addon ''status'' (JStr ''UNKNOWN'')), (''addon_version'', dget addon ''addonVersion'' (JStr []))]
       | Inl e \<Rightarrow>
           if is_client_error e \<and> client_code e = ''ResourceNotFoundException'' then
             Inr [(''cluster_name'', JStr cluster_name), (''addon_installed'', JBool False), (''addon_status'', JStr ''NOT_INSTALLED'')]
           else refuse_on denied_codes
             (''Access denied while checking eks-pod-identity-agent addon. '' @
              ''Remediation: grant customer_role_arn eks:DescribeAddon permission.'') (Inl e))))"

definition list_pod_identity_associations :: "settings \<Rightarrow> sts_services \<Rightarrow> aws_api \<Rightarrow> environment \<Rightarrow> exn + json list" where
  "list_pod_identity_associations s sts api env =
     rbind (required (env_eks_cluster_arn env) missing_cluster_arn) (\<lambda>cluster_arn.
     rbind (required (env_eks_namespace env) missing_namespace) (\<lambda>namespace.
     rbind (eks_cluster_name_from_arn cluster_arn) (\<lambda>cluster_name.
     if cfg_dry_run_mode s then Inr []
     else
       rbind (session_for_environment s sts env) (\<lambda>_.
       refuse_on denied_codes
         (''Access denied while listing EKS Pod Identity associations. '' @
          ''Remediation: grant customer_role_arn '' @ ''eks:ListPodIdentityAssociations permission.'')
         (aws_pod_identities api env cluster_name namespace)))))"

subsection \<open>The services of a preflight\<close>

text \<open>The client as the checks of a preflight use it; the check of the trust policy after an update sees its document.\<close>

definition live_services ::
    "(string \<Rightarrow> string + json) \<Rightarrow> settings \<Rightarrow> sts_services \<Rightarrow> aws_api \<Rightarrow> emr_services" where
  "live_services loads s sts api =
     \<lparr>iam_simulate = (\<lambda>env p actions resources. rbind (session_for_environment s sts env) (\<lambda>_. aws_simulate api env p actions resources)),
      eks_describe = (\<lambda>env nm. rbind (session_for_environment s sts env) (\<lambda>_. aws_cluster api env nm)),
      emr_check_trust = (\<lambda>updated env. check_execution_role_trust_policy loads s sts
        (if updated then after_trust_update loads s sts env api else api) env),
      emr_oidc_association = check_oidc_provider_association s sts api,
      emr_update_trust = (\<lambda>env. rbind (update_execution_role_trust_policy loads s sts api env) (\<lambda>(answer, _). Inr answer)),
      emr_pod_identity = check_pod_identity_agent s sts api,
      emr_access_mode = check_cluster_access_mode s sts api,
      emr_dispatch_permissions = check_customer_role_dispatch_permissions loads s sts api,
      emr_find_collision = find_namespace_virtual_cluster_collision s sts api,
      emr_nodegroups = describe_nodegroups s sts api\<rparr>"

text \<open>With an orderly policy the repair of the preflight succeeds as soon as the update goes through.\<close>

lemma live_repair_succeeds:
  assumes live: "\<not> cfg_dry_run_mode s"
    and upd: "update_execution_role_trust_policy loads s sts api env = Inr (res, Some doc)"
    and ord: "\<And>cluster_name cluster role_name old pol arn path sa. aws_cluster api env cluster_name = Inr cluster \<Longrightarrow>
      trust_subject s env cluster = Some (arn, path, sa) \<Longrightarrow> aws_trust_document api env role_name = Inr old \<Longrightarrow>
      policy_document loads old = Inr pol \<Longrightarrow> orderly arn path sa (statements_of pol)"
  shows "\<exists>c. trust_update_checks (live_services loads s sts api) env e = Inr [c] \<and> ck_code c = trust_code \<and> ck_status c = ''pass''"
proof -
  have "\<exists>answer. check_execution_role_trust_policy loads s sts (api\<lparr>aws_trust_document := (\<lambda>e r. Inr (JObj doc))\<rparr>) env = Inr answer
    \<and> dget answer ''valid'' JNull = JBool True"
    by (rule update_then_check [OF live upd]) (rule ord)
  then obtain answer where "check_execution_role_trust_policy loads s sts (api\<lparr>aws_trust_document := (\<lambda>e r. Inr (JObj doc))\<rparr>) env = Inr answer" by blast
  then have "emr_check_trust (live_services loads s sts api) True env = Inr answer"
    by (simp add: live_services_def after_trust_update_def upd)
  moreover have "emr_update_trust (live_services loads s sts api) env = Inr res"
    by (simp add: live_services_def upd rbind_def)
  ultimately show ?thesis
    by (simp add: trust_update_checks_def on_value_error_def rbind_def)
qed

text \<open>What a validated reference says of the virtual cluster.\<close>

lemma validated_reference:
  assumes live: "\<not> cfg_dry_run_mode s" and v: "validate_virtual_cluster_reference s sts api require_running env = Inr answer"
  shows "\<exists>vc cluster. describe_virtual_cluster api env vc = Inr cluster
    \<and> dget answer ''virtual_cluster_id'' JNull = JStr vc
    \<and> (require_running \<longrightarrow> py_upper (str_or cluster ''state'' []) = ''RUNNING'')
    \<and> (virtual_cluster_namespace (sub_dict cluster ''containerProvider'') \<noteq> [] \<and> \<not> text_empty (env_eks_namespace env) \<longrightarrow>
        env_eks_namespace env = Some (virtual_cluster_namespace (sub_dict cluster ''containerProvider'')))
    \<and> str_or (sub_dict cluster ''containerProvider'') ''type'' [] \<in> {[], ''EKS''}"
  using v live
  by (auto simp: validate_virtual_cluster_reference_def rbind_Inr_iff Let_def bad_value_def validate_virtual_cluster_state_def
      validate_virtual_cluster_provider_def dget_def split: if_splits)

end
