(* ===== verification/Spec2Isabelle.thy ===== *)
theory Spec2Isabelle
  imports SP_InviteSamples SP_PreflightSamples SP_Startup SP_ContactSamples SP_EmrJobs SP_EmrClient
begin

text \<open>
  SparkPilot is a control plane for Apache Spark jobs in the cloud accounts of its customers. Tenants and
  teams own environments (a cluster in a customer account), environments have jobs, jobs have runs. An API
  process creates and cancels them; three workers, each any number of processes over one relational database,
  do the rest: the provisioner brings environments to \<open>ready\<close> or \<open>failed\<close>, the scheduler dispatches queued
  runs, and the reconciler follows dispatched runs to their end and bills them. Policies, quotas, golden
  paths, cost centers, a preflight with a cache, and idempotency keys guard the requests. The sources are the
  Python files under \<open>src/src/sparkpilot\<close>; paths below are relative to it.

  \<^bold>\<open>Conventions.\<close> A table is a list of records in insertion order, a row class one record (\<open>SP_Models\<close>), the
  database the record of all tables. A request returns \<open>error + (result \<times> database)\<close>: an exception before the
  commit leaves the database as it was. \<open>_now()\<close> and new UUIDs are arguments (\<open>now\<close>, \<open>i\<close>; in the workers a clock
  \<open>clk\<close> per row). Exceptions are values: \<open>error\<close> for those a handler maps to an HTTP status (\<open>SP_Errors\<close>), \<open>exn\<close> with
  its class and text where the workers inspect them. Python's ints are \<open>int\<close>; floats are exact rationals rounded by
  \<open>f64\<close> to 53 bits after each operation (\<open>SP_Float\<close>), without overflow or subnormals, which prices do not reach.
  JSON values are the datatype \<open>json\<close> (\<open>SP_Json\<close>), with \<open>int()\<close>, truthiness, \<open>str()\<close> and \<open>in\<close> as Python has them,
  TypeErrors included; dicts are association lists in insertion order. Cloud clients, subprocesses, HTTP and
  \<open>json.loads\<close> are parameters, records of functions that may answer or raise anything.

  \<^bold>\<open>Theories and sources.\<close>
  \<^item> \<open>SP_Prelude\<close>, \<open>SP_Store\<close>: strings, dicts, rows of tables, the error monad; \<open>entity_store\<close> is the locale of a table
    (lookup after insert and update), interpreted for each table in \<open>SP_Models\<close>. \<open>SP_StateExn\<close>: commands that keep
    what they wrote before an exception, with rules \<open>skeeps_*\<close> for what they preserve.
  \<^item> \<open>SP_Models\<close> (\<open>models.py\<close>, \<open>schemas.py\<close>), \<open>SP_Helpers\<close> (\<open>services/_helpers.py\<close>, \<open>audit.py\<close>).
  \<^item> \<open>SP_Quota\<close> (\<open>quota.py\<close>), \<open>SP_Policy\<close> and \<open>SP_PolicyRules\<close> (\<open>policy_engine.py\<close>), \<open>SP_GoldenPaths\<close>
    (\<open>services/golden_paths.py\<close>), \<open>SP_CostCenter\<close> (\<open>cost_center.py\<close>), \<open>SP_Idempotency\<close> (\<open>idempotency.py\<close>).
  \<^item> \<open>SP_Usage\<close> (\<open>services/finops.py\<close>: pricing, usage, allocations, budgets, showback), on \<open>SP_Float\<close> and \<open>SP_Time\<close>.
  \<^item> \<open>SP_Runs\<close>, \<open>SP_Environments\<close> (\<open>services/crud.py\<close>): one definition per service function.
  \<^item> \<open>SP_Claims\<close> (\<open>services/workers_common.py\<close>): the conditional update by which a worker claims a row. The locale
    \<open>claim_store\<close> states that a claim excludes others until it expires; it is interpreted for runs and for operations.
  \<^item> \<open>SP_Preflight\<close> (\<open>services/preflight.py\<close>), \<open>SP_Diagnostics\<close> (\<open>services/diagnostics.py\<close>), \<open>SP_Scheduler\<close>
    (\<open>services/workers_scheduling.py\<close>, \<open>databricks_client.py\<close>), \<open>SP_Reconciler\<close>
    (\<open>services/workers_reconciliation.py\<close>), \<open>SP_Terraform\<close> (\<open>terraform_orchestrator.py\<close>), \<open>SP_Provisioning\<close>
    (\<open>services/workers_provisioning.py\<close>).
  \<^item> \<open>SP_Access\<close> (\<open>api.py\<close>, role ARNs of \<open>aws_clients.py\<close>): from the subject of a token to its role, tenant and
    environments, the guards of the endpoints, the bootstrap of the first administrator, and the discovery guard.
    \<open>SP_Wire\<close> (\<open>api.py\<close>): the JSON of requests and rows, stored answers, preflight snapshots, run responses, queue use.
  \<^item> \<open>SP_Api\<close> (\<open>api.py\<close>): one definition per route function (38 of the routes), over a \<open>deployment\<close> (settings and clients) and a
    \<open>call_context\<close> (the outcome of the token check, the clock, UUIDs, headers). \<open>SP_Isolation\<close> collects the routes into
    \<open>api\<close> and proves what an answer may hold; \<open>SP_Writes\<close> which rows a request may change, with the locale
    \<open>idempotent_frame\<close> for laws that pass through \<open>with_idempotency\<close>; \<open>SP_ApiSteps\<close> that every request to them is a sequence
    of steps of the system (the second interpretation of that locale), made by an entitled actor only. \<open>SP_ApiSamples\<close> holds an operator and its scope.
  \<^item> \<open>SP_Oidc\<close> (\<open>oidc.py\<close>): the verifier of access tokens, its cached key set and the throttle on refreshes, as commands over
    a \<open>jwks_state\<close>. \<open>SP_Codec\<close>: the base64 and JSON the signed state uses, with their round trips. \<open>SP_Auth\<close> (\<open>api.py\<close>):
    token pools, identity contexts, internal administrators, the signed state of an invitation. \<open>SP_Email\<close>
    (\<open>invite_email.py\<close>): mails and their retries.
  \<^item> \<open>SP_Invites\<close> (\<open>services/internal_admin.py\<close> and its routes in \<open>api.py\<close>): tenants with an invited administrator, links,
    acceptance, login. \<open>SP_InviteSteps\<close> runs sequences of these requests: token rows only make progress (the third
    interpretation of \<open>idempotent_frame\<close>), so spent links stay spent. \<open>SP_InviteFacts\<close>: the check constraints of the
    columns (the fourth), what a login rests on and which identity it creates. \<open>SP_InviteSamples\<close>: one invitation.
  \<^item> \<open>SP_Settings\<close> (\<open>config.py\<close>): the settings, the values derived from them, \<open>urlparse\<close> and the validators; \<open>SP_Startup\<close>
    (\<open>api.py\<close>) the checks before the API serves. \<open>SP_Releases\<close> (\<open>services/emr_releases.py\<close>, listings of
    \<open>aws_clients.py\<close>): release labels, paginated listings, the catalogue and its synchronisation.
  \<^item> The emitters of the preflight: \<open>SP_Checks\<close> and \<open>SP_Credentials\<close> (\<open>services/preflight.py\<close>,
    \<open>services/iam_validation.py\<close>), \<open>SP_LakeFormation\<close> (\<open>services/lake_formation.py\<close>), \<open>SP_DispatchGate\<close>
    (\<open>services/preflight_checks.py\<close>), \<open>SP_Byoc\<close> and \<open>SP_ByocChecks\<close> (\<open>services/preflight_byoc.py\<close>).
    \<open>SP_FullPreflight\<close> puts them in the order of the code as the emitter parameters of \<open>build_preflight\<close>;
    \<open>SP_PreflightFacts\<close> shows what each of them tells when nothing fails, \<open>SP_PreflightSamples\<close> evaluates two environments.
  \<^item> \<open>SP_Contact\<close> (contact routes of \<open>api.py\<close>, their schemas and table): requests sent by mail, submissions and the
    decisions on them. \<open>SP_ContactSteps\<close> is the step relation of these routes with a clock and its invariants,
    \<open>SP_ContactSamples\<close> an approval.
  \<^item> \<open>SP_Trust\<close>, \<open>SP_EmrClient\<close>, \<open>SP_EmrJobs\<close> (\<open>aws_clients.py\<close>): the statements of a trust policy and their merging;
    \<open>EmrEksClient\<close> behind preflight and provisioning, over a record of the calls of boto3 (\<open>live_services\<close> is the client as the
    emitters use it; \<open>live_repair_succeeds\<close>: after an update the check of the trust policy passes); the request of
    \<open>start_job_run\<close>, whose names and labels are bounded, and the reading of logs, at most 25 pages.
  \<^item> \<open>SP_Lifecycle\<close>: the step relation \<open>sys_step\<close>, one rule per modelled request or worker pass that writes the database
    (invitation, login and contact routes and the release catalogue included; job templates, interactive endpoints and
    security configurations are not modelled), over a database and the preflight cache; \<open>reachable\<close> are the states of its
    executions from an empty database. \<open>SP_AccountSteps\<close>: the account and catalogue steps touch no table of the lifecycle.
    \<open>SP_RunSteps\<close>, \<open>SP_RunInvariant\<close>, \<open>SP_EnvInvariant\<close> and \<open>SP_Reachable\<close> hold the invariants: \<open>runs_ok\<close> (quota,
    billing, attempts, references), \<open>envs_ok\<close> (operations and environment states) and \<open>rows_kept\<close> (what later
    executions keep of a run), one lemma per operation, combined by rule induction.
  \<^item> \<open>SP_Fixtures\<close> and \<open>SP_Samples\<close>: a concrete execution (tenant, environment, provisioning, job, two runs,
    scheduling, cancellation, reconciliation, deletion) and rows that the witnesses apply the theorems to.

  \<^bold>\<open>Groups of lemmas.\<close> \<open>*_Inr\<close> and \<open>*_cases\<close> say what a successful call means and which branches there are; \<open>*_frame\<close>
  what it leaves alone; \<open>touches\<close> that a worker's step changes one run; \<open>*_runs_ok\<close>, \<open>*_envs_ok\<close>, \<open>*_ok\<close> that it keeps an
  invariant; \<open>*_iff\<close> decide a test.

  \<^bold>\<open>Bounds and termination.\<close> Loops are folds over lists and structural recursions, so no fuel is used, but for the reading of
  paginated answers (\<open>collect_pages\<close>), which an endless service keeps waiting: it is a \<open>partial_function\<close> with \<open>None\<close> for
  no answer, and returns exactly when the service ends the listing. The passes are bounded by their \<open>limit\<close> argument. The witnesses evaluate the definitions on their input.

  \<^bold>\<open>Atomicity.\<close> Requests and worker passes are single steps of \<open>sys_step\<close>; the interleavings modelled below that level are
  those the code defends against: competing claims (\<open>race_for_runs\<close>), a concurrent insertion of an idempotency key or
  of a golden path (the function arguments \<open>o1\<close>, \<open>o2\<close>, \<open>other\<close>). The row lock of the quota check is the reason why admission
  is one step.

  \<^bold>\<open>Not modelled.\<close> The FastAPI application itself (routing, request parsing by pydantic, OpenAPI, CORS) and the
  reading of environment variables into the settings, the mock identity provider (\<open>mock_oidc.py\<close>), the webhook
  thread (\<open>crm_webhook.py\<close>), the calls of boto3 (parameters), and of \<open>aws_clients.py\<close> the clients of EMR
  Serverless and EMR on EC2 and the discovery of clusters, the CUR reconciliation through Athena (\<open>finops.py\<close>), job templates, interactive
  endpoints and security configurations (their routes are no constructors of \<open>api_call\<close>), the metrics queries, the command line, and everything outside \<open>src/src/sparkpilot\<close>.
\<close>

section \<open>Reachable states of the control plane\<close>

text \<open>C1: In every reachable state the active runs of an environment stay within its limits: their number within
  \<open>max_concurrent_runs\<close>, their requested vCPUs within \<open>max_vcpu\<close>, whatever the order of requests and worker passes.\<close>

theorem environments_within_quota:
  assumes "reachable s" "get_environment (sy_db s) i = Some env"
  shows "int (length (active_runs_of (sy_db s) i)) \<le> env_max_concurrent_runs env \<and>
    active_vcpu (sy_db s) i \<le> env_max_vcpu env"
  using reachable_runs(4) [OF assms(1)] assms(2) environment_store.get_Some [OF assms(2)]
  by (auto simp: all_within_quota_def within_quota_def)

theorem environments_within_quota_witness:
  "int (length (active_runs_of (sy_db demo_queued) ''e1'')) \<le> 2 \<and> length (db_runs (sy_db demo_queued)) = 2"
proof -
  have "length (db_runs (sy_db demo_queued)) = 2" using arg_cong [OF demo_queued_rows, of length] by simp
  then show ?thesis using environments_within_quota [OF demo_reachable(2)] demo_queued_limits by force
qed

text \<open>C2: Every run that had started and has ended is billed exactly once: one usage record carries its id, and at
  most one cost allocation.\<close>

theorem ended_runs_billed_once:
  assumes "reachable s" "r \<in> set (db_runs (sy_db s))" "terminal (run_state r)" "run_started_at r \<noteq> None"
  shows "length (filter (\<lambda>u. ur_run_id u = run_id r) (db_usage (sy_db s))) = 1 \<and>
    length (filter (\<lambda>a. ca_run_id a = run_id r) (db_allocs (sy_db s))) \<le> 1"
proof -
  note ok = reachable_runs [OF assms(1)]
  have "recorded (sy_db s) (run_id r)" using ok(3) assms(2-4) by (auto simp: run_ok_def run_stage_def)
  then show ?thesis using ok(6) by (auto simp: billing_unique_def recorded_def length_filter_key image_iff)
qed

theorem ended_runs_billed_once_witness:
  "\<exists>r \<in> set (db_runs (sy_db demo_ended)). run_state r = RSucceeded \<and>
     length (filter (\<lambda>u. ur_run_id u = run_id r) (db_usage (sy_db demo_ended))) = 1"
proof -
  obtain r where "r \<in> set (db_runs (sy_db demo_ended))" "run_state r = RSucceeded" "run_started_at r = Some 6000000"
    by (rule demo_ended_second)
  then show ?thesis using ended_runs_billed_once [OF demo_reachable(4), of r] by auto
qed

text \<open>C3: A run that has ended never changes again, in any column, on any later execution.\<close>

theorem ended_runs_final:
  assumes "reachable s" "steps s s'" "get_run (sy_db s) i = Some r" "terminal (run_state r)"
  shows "get_run (sy_db s') i = Some r"
  using steps_rows_kept [OF assms(2,1)] assms(3,4) by (fastforce simp: rows_kept_def row_step_def)

theorem ended_runs_final_witness:
  "map_option run_state (get_run (sy_db (do_schedule demo_ended)) ''r2'') = Some RSucceeded"
proof -
  have "steps demo_ended (do_schedule demo_ended)"
    unfolding do_schedule_def by (auto split: prod.splits intro: steps_more [OF steps_none] step_scheduler)
  moreover obtain r where "get_run (sy_db demo_ended) ''r2'' = Some r" "run_state r = RSucceeded"
    by (rule demo_ended_second)
  ultimately show ?thesis using ended_runs_final [OF demo_reachable(4)] by simp
qed

text \<open>C4: On every execution a run keeps its job, environment, idempotency key, resources, arguments, configuration,
  time limit and author, and a run that has started never goes back to the queue.\<close>

theorem runs_keep_identity:
  assumes "reachable s" "steps s s'" "get_run (sy_db s) i = Some r"
  shows "\<exists>r'. get_run (sy_db s') i = Some r' \<and> frozen r r' \<and>
    (started (run_state r) \<longrightarrow> run_state r' \<notin> {RQueued, RDispatching})"
  using steps_rows_kept [OF assms(2,1)] assms(3) unfolding rows_kept_def row_step_def started_def by fastforce

theorem runs_keep_identity_witness:
  "map_option run_job_id (get_run (sy_db (do_schedule demo_accepted)) ''r1'') = Some ''j1''"
proof -
  have "steps demo_accepted (do_schedule demo_accepted)"
    unfolding do_schedule_def by (auto split: prod.splits intro: steps_more [OF steps_none] step_scheduler)
  moreover obtain r where "get_run (sy_db demo_accepted) ''r1'' = Some r" "run_job_id r = ''j1''"
    by (rule demo_accepted_first)
  ultimately show ?thesis using runs_keep_identity [OF demo_reachable(3)] by (fastforce simp: frozen_def)
qed

text \<open>C16: In every reachable state an environment has at most one active provisioning operation, and its status is
  \<open>provisioning\<close> exactly while it has one.\<close>

theorem one_active_provisioning_operation:
  assumes "reachable s" "get_environment (sy_db s) i = Some env"
  shows "length (active_operations (sy_db s) i) \<le> 1 \<and>
    (env_status env = EProvisioning \<longleftrightarrow> length (active_operations (sy_db s) i) = 1)"
proof -
  note ok = reachable_envs [OF assms(1)]
  have "env_ok (sy_db s) env" "env_id env = i" using ok(5) environment_store.get_Some [OF assms(2)] by auto
  moreover have "length (active_operations (sy_db s) i) \<le> 1" using ok(4) by blast
  ultimately show ?thesis
    by (cases "active_operations (sy_db s) i") (auto simp: env_ok_def has_active_operation_iff le_Suc_eq)
qed

theorem one_active_provisioning_operation_witness:
  "active_operations (sy_db demo_ready) ''e1'' = [] \<and> length (db_ops (sy_db demo_ready)) = 1"
proof -
  obtain env where "get_environment (sy_db demo_ready) ''e1'' = Some env" "env_status env = EReady" using demo_ready_env by auto
  moreover have "length (db_ops (sy_db demo_ready)) = 1" using arg_cong [OF demo_ready_ops, of length] by simp
  ultimately show ?thesis using one_active_provisioning_operation [OF demo_reachable(1)] by (fastforce simp: le_Suc_eq)
qed

text \<open>C17: A deleted environment has no active run and no active provisioning operation.\<close>

theorem deleted_environment_idle:
  assumes "reachable s" "get_environment (sy_db s) i = Some env" "env_status env = EDeleted"
  shows "active_runs_of (sy_db s) i = [] \<and> active_operations (sy_db s) i = []"
proof -
  note ok = reachable_envs [OF assms(1)]
  have "env_ok (sy_db s) env" "env_id env = i" using ok(5) environment_store.get_Some [OF assms(2)] by auto
  then show ?thesis using assms(3)
    by (auto simp: env_ok_def has_active_operation_iff has_active_run_def list_ex_iff active_runs_of_def counted_in_def filter_empty_conv)
qed

theorem deleted_environment_idle_witness:
  "active_runs_of (sy_db demo_deleted) ''e1'' = [] \<and> active_operations (sy_db demo_deleted) ''e1'' = []"
  using deleted_environment_idle [OF demo_deleted_reachable] demo_deleted_env by auto

text \<open>C18: The attempt number of a run is at least one and never exceeds the \<open>retry_max_attempts\<close> of its job
  (one where the job allows none).\<close>

theorem attempts_bounded:
  assumes "reachable s" "r \<in> set (db_runs (sy_db s))"
  shows "1 \<le> run_attempt r \<and> (\<exists>j. get_job (sy_db s) (run_job_id r) = Some j \<and> run_attempt r \<le> max 1 (job_retry_max_attempts j))"
  using reachable_runs(3) [OF assms(1)] assms(2) by (auto simp: run_ok_def attempts_ok_def)

theorem attempts_bounded_witness:
  "\<exists>r \<in> set (db_runs (sy_db demo_accepted)). 1 \<le> run_attempt r"
proof -
  obtain r where "get_run (sy_db demo_accepted) ''r1'' = Some r" by (rule demo_accepted_first)
  then have "r \<in> set (db_runs (sy_db demo_accepted))" by (simp add: run_store.get_Some)
  then show ?thesis using attempts_bounded [OF demo_reachable(3)] by blast
qed

section \<open>Workers\<close>

text \<open>C19: Mutual exclusion of workers: of any number of competing conditional updates, made while no claim expires, at
  most one claims a given run.\<close>

theorem run_claimed_by_one_worker:
  assumes "distinct (map run_id (db_runs d))" "within_ttl_of start as"
  shows "times_claimed i as (fst (race_for_runs states as d)) \<le> 1"
  by (rule race_winners [OF assms])

theorem run_claimed_by_one_worker_witness:
  "times_claimed ''r1'' [(0, ''a'', 5, ''r1''), (3, ''b'', 6, ''r1'')]
     (fst (race_for_runs [RQueued] [(0, ''a'', 5, ''r1''), (3, ''b'', 6, ''r1'')] (sample_db\<lparr>db_runs := [sample_run]\<rparr>))) \<le> 1 \<and>
   fst (race_for_runs [RQueued] [(0, ''a'', 5, ''r1''), (3, ''b'', 6, ''r1'')] (sample_db\<lparr>db_runs := [sample_run]\<rparr>)) = [True, False]"
proof
  show "times_claimed ''r1'' [(0, ''a'', 5, ''r1''), (3, ''b'', 6, ''r1'')]
     (fst (race_for_runs [RQueued] [(0, ''a'', 5, ''r1''), (3, ''b'', 6, ''r1'')] (sample_db\<lparr>db_runs := [sample_run]\<rparr>))) \<le> 1"
    by (rule run_claimed_by_one_worker [where start = 4]) (simp_all add: within_ttl_of_def)
  show "fst (race_for_runs [RQueued] [(0, ''a'', 5, ''r1''), (3, ''b'', 6, ''r1'')] (sample_db\<lparr>db_runs := [sample_run]\<rparr>)) = [True, False]"
    by code_simp
qed

text \<open>C20: One scheduler pass over a reachable state handles at most \<open>limit\<close> queued runs; each run it claims is afterwards
  accepted and dispatched now, or failed or cancelled now, or queued again with one more attempt and only below the
  retries of its job; its claim is released, and every other run is as the claims left it.\<close>

theorem scheduler_pass_outcome:
  assumes "reachable s"
    and "process_scheduler_once cl (cached_preflight key before after clk tick) now clk tk actor lmt (sy_db s, sy_cache s) = (n, d', c')"
  shows "\<exists>rs d1. claim_runs now clk tk [RQueued] lmt run_created_at (sy_db s) = (rs, d1) \<and> n = length rs \<and> n \<le> lmt \<and>
    (\<forall>i. i \<notin> run_id ` set rs \<longrightarrow> get_run d' i = get_run d1 i) \<and>
    (\<forall>r \<in> set rs. \<exists>r' j. get_run d' (run_id r) = Some r' \<and> get_job (sy_db s) (run_job_id r) = Some j \<and>
       claimed_outcome (clk (run_id r)) r j r r')"
  using process_scheduler_once_outcome [OF cached_preflight_audit_only reachable_runs(1,2) [OF assms(1)] assms(2)]
  unfolding scheduled_def by metis

theorem scheduler_pass_outcome_witness:
  "\<exists>n d' c'. process_scheduler_once demo_clients (cached_preflight (\<lambda>e c. env_id e) no_checks no_checks (\<lambda>i. 6) (\<lambda>i. 6)) 6 (\<lambda>i. 6)
     ''tok'' ''worker'' 10 (sy_db demo_queued, sy_cache demo_queued) = (n, d', c') \<and> n \<le> 10"
proof -
  obtain n d' c' where run: "process_scheduler_once demo_clients (cached_preflight (\<lambda>e c. env_id e) no_checks no_checks (\<lambda>i. 6) (\<lambda>i. 6))
     6 (\<lambda>i. 6) ''tok'' ''worker'' 10 (sy_db demo_queued, sy_cache demo_queued) = (n, d', c')" by (metis surj_pair)
  then show ?thesis using scheduler_pass_outcome [OF demo_reachable(2) run] by auto
qed

text \<open>C21: One reconciler pass over a reachable state handles at most \<open>limit\<close> accepted or running runs; each keeps its
  attempt and start time, is still in the state it had, accepted or running, or has ended with an end time, and its
  claim is released; every other run is as the claims left it.\<close>

theorem reconciler_pass_outcome:
  assumes "reachable s"
    and "process_reconciler_once (with_preflight before after t rc) now clk tk actor lmt (sy_db s) = (n, d')"
  shows "\<exists>rs d1. claim_runs now clk tk [RAccepted, RRunning] lmt run_updated_at (sy_db s) = (rs, d1) \<and> n = length rs \<and> n \<le> lmt \<and>
    (\<forall>i. i \<notin> run_id ` set rs \<longrightarrow> get_run d' i = get_run d1 i) \<and>
    (\<forall>r \<in> set rs. \<exists>r'. get_run d' (run_id r) = Some r' \<and> settled (run_id r) r r r')"
  using process_reconciler_once_outcome [OF with_preflight_audit_only reachable_runs(1,2) [OF assms(1)] assms(2)] by metis

theorem reconciler_pass_outcome_witness:
  "\<exists>n d'. process_reconciler_once (with_preflight no_checks no_checks 9 demo_reconciler) 9 demo_clock ''tok'' ''worker'' 3
     (sy_db demo_accepted) = (n, d') \<and> n \<le> 3"
proof -
  obtain n d' where run: "process_reconciler_once (with_preflight no_checks no_checks 9 demo_reconciler) 9 demo_clock
     ''tok'' ''worker'' 3 (sy_db demo_accepted) = (n, d')" by force
  then show ?thesis using reconciler_pass_outcome [OF demo_reachable(3) run] by auto
qed

text \<open>C22: A provisioning pass over a reachable state finishes every operation it claims: it is ready or failed, has an end
  time and no claim, whatever the cloud calls and Terraform answer or raise.\<close>

theorem provisioning_pass_finishes:
  assumes "reachable s"
    and "process_provisioning_once (with_provision_preflight bef aft t pv) now clk tk actor (sy_db s) = (n, d', u)"
  shows "\<exists>rs d1. claim_provisioning_operations now clk tk provisioning_steps (sy_db s) = (rs, d1) \<and> n = length rs \<and>
    (\<forall>r \<in> set rs. \<exists>r'. get_operation d' (op_id r) = Some r' \<and> op_state r' \<in> {PReady, PFailed} \<and>
       op_ended_at r' \<noteq> None \<and> op_claim_token r' = None)"
  using process_provisioning_outcome [OF assms(2) with_provision_preflight_audit_only] system_ok_dest [OF reachable_ok [OF assms(1)]]
  unfolding op_finished_def by metis

theorem provisioning_pass_finishes_witness:
  "\<exists>n d' u. process_provisioning_once (with_provision_preflight (\<lambda>b. no_checks) (\<lambda>b. no_checks) 3 demo_provisioner) 3 (\<lambda>i. 3)
     ''tok'' ''worker'' (sy_db demo_provisioning) = (n, d', u) \<and>
     n = length (fst (claim_provisioning_operations 3 (\<lambda>i. 3) ''tok'' provisioning_steps (sy_db demo_provisioning)))"
proof -
  obtain n d' u where run: "process_provisioning_once (with_provision_preflight (\<lambda>b. no_checks) (\<lambda>b. no_checks) 3 demo_provisioner)
     3 (\<lambda>i. 3) ''tok'' ''worker'' (sy_db demo_provisioning) = (n, d', u)" by (metis surj_pair)
  then show ?thesis using provisioning_pass_finishes [OF demo_provisioning_reachable run] by auto
qed

section \<open>Requests\<close>

text \<open>C23: Admission of a run. With a key already used for the job, \<open>create_run\<close> returns that run and adds none. With a new
  key, the run it adds is queued in a ready environment that stays within its limits, asks for no blocked Spark
  configuration, passes every hard policy that applies to the environment, and its time limit does not exceed that of the
  environment.\<close>

theorem create_run_admission:
  assumes "create_run nulls_first lf now i jid req actor ip ky d = Inr (r, d')"
  shows "case find_run_by_key d jid ky of
      Some x \<Rightarrow> db_runs d' = db_runs d \<and> r \<in> set (db_runs d) \<and> run_job_id r = jid \<and> run_idempotency_key r = ky
    | None \<Rightarrow> (\<exists>j env g requested c. get_job d jid = Some j \<and> get_environment d (job_environment_id j) = Some env \<and>
        env_status env = EReady \<and> resolve_run_configuration nulls_first d env req = Inr (g, requested, c) \<and>
        validate_custom_spark_conf_policy c = [] \<and>
        (\<forall>p f. p \<in> set (db_policies d) \<and> policy_applies env p \<and> pol_enforcement p = ''hard'' \<and>
            map_of rule_evaluators (pol_rule_type p) = Some f \<longrightarrow>
          (\<exists>res. f (pol_config p) (policy_context req requested c) = Inr res \<and> er_passed res)) \<and>
        db_runs d' = db_runs d @ [r] \<and> run_id r = i \<and> run_state r = RQueued \<and> run_environment_id r = env_id env \<and>
        run_requested_resources r = requested \<and> run_spark_conf_overrides r = c \<and>
        within_quota d' env \<and> run_timeout_seconds r \<le> env_max_run_seconds env)"
  using assms
proof (cases rule: create_run_cases)
  case (existing a)
  then have "find_run_by_key d jid ky \<noteq> None" by (auto simp: find_run_by_key_def find_None_iff)
  then show ?thesis using existing by auto
next
  case (created j env g requested c t entries a b)
  have "db_runs d' = db_runs d @ [r]" by (simp add: created(12))
  moreover have "within_quota d' env"
    by (rule admit_within_quota [OF created(8) calculation]) (simp_all add: created(11))
  ultimately show ?thesis using created(1-5,10,11) resolve_timeout_bound [OF created(9)] hard_policies_pass [OF created(6,7)] by auto
qed

theorem create_run_admission_witness:
  "\<exists>r d'. create_run False (\<lambda>e. Inr []) 5 ''r1'' ''j1'' demo_run_request ''dev'' None ''k1'' sample_db = Inr (r, d') \<and>
     run_state r = RQueued \<and> within_quota d' sample_env"
proof -
  have "is_ok (create_run False (\<lambda>e. Inr []) 5 ''r1'' ''j1'' demo_run_request ''dev'' None ''k1'' sample_db)" by code_simp
  then obtain r d' where run: "create_run False (\<lambda>e. Inr []) 5 ''r1'' ''j1'' demo_run_request ''dev'' None ''k1'' sample_db = Inr (r, d')"
    by (auto simp: is_ok_def split: sum.splits)
  have "find_run_by_key sample_db ''j1'' ''k1'' = None" "get_job sample_db ''j1'' = Some sample_job"
    "get_environment sample_db (job_environment_id sample_job) = Some sample_env" by code_simp+
  then show ?thesis using create_run_admission [OF run] run by auto
qed

text \<open>A hard policy that applies to the environment of the job and fails on the requested run refuses the request: no run is
  created.\<close>

theorem hard_policy_refuses_run:
  assumes "p \<in> set (db_policies d)" "policy_applies env p" "pol_enforcement p = ''hard''"
    and "get_job d jid = Some j" "get_environment d (job_environment_id j) = Some env"
    and "resolve_run_configuration nf d env req = Inr (g, requested, c)"
    and "map_of rule_evaluators (pol_rule_type p) = Some f"
    and "f (pol_config p) (policy_context req requested c) = Inr res" "\<not> er_passed res"
    and "find_run_by_key d jid ky = None"
  shows "\<exists>e. create_run nf lf now i jid req actor ip ky d = Inl e"
  by (rule create_run_hard_policy [OF assms])

theorem hard_policy_refuses_run_witness:
  "\<exists>e. create_run False (\<lambda>e. Inr []) 5 ''r1'' ''j1'' demo_run_request ''dev'' None ''k1''
     (sample_db\<lparr>db_policies := [sample_policy ''max_vcpu'' [(''max_vcpu'', JInt 4)]]\<rparr>) = Inl e"
proof -
  let ?p = "sample_policy ''max_vcpu'' [(''max_vcpu'', JInt 4)]" and ?d = "sample_db\<lparr>db_policies := [sample_policy ''max_vcpu'' [(''max_vcpu'', JInt 4)]]\<rparr>"
  have cfg: "resolve_run_configuration False ?d sample_env demo_run_request =
      Inr (None, resources_dump (rq_requested_resources demo_run_request), [])" by code_simp
  have rule: "map_of rule_evaluators ''max_vcpu'' = Some (\<lambda>c x. evaluate_max_vcpu c (ctx_resources x))"
    by (simp add: rule_evaluators_def)
  obtain res where res: "evaluate_max_vcpu [(''max_vcpu'', JInt 4)] (resources_dump (rq_requested_resources demo_run_request)) = Inr res"
    "\<not> er_passed res"
    by (simp add: evaluate_max_vcpu_def dget_def requested_total_vcpu_def resources_dump_def demo_run_request_def fail_res_def)
  have "get_job ?d ''j1'' = Some sample_job" "get_environment ?d (job_environment_id sample_job) = Some sample_env"
    "policy_applies sample_env ?p" "find_run_by_key ?d ''j1'' ''k1'' = None" by code_simp+
  then show ?thesis
    using hard_policy_refuses_run [where p = ?p and d = ?d and env = sample_env and j = sample_job and nf = False, OF _ _ _ _ _ cfg] rule res
    by (simp add: sample_policy_def policy_context_def)
qed

section \<open>Idempotent requests\<close>

text \<open>C24: Exactly-once answers: when a request with an idempotency key has been executed, the same request with the same key
  answers with the status and body of the first one and changes nothing, whatever the second execution would do.\<close>

theorem idempotent_request_replayed:
  assumes "keeps_idem ex" "with_idempotency fp now o1 o2 s k p ex d = (Inr res, d')"
  shows "with_idempotency fp now' o1' o2' s k p ex' d' = (Inr (res\<lparr>ir_replayed := True\<rparr>), d') \<or> ir_replayed res"
proof (cases "ir_replayed res")
  case False
  then obtain r where "load_idempotency_record d' s k = Some r" "idem_fingerprint r = fp p" "idem_status_code r = ir_status_code res"
    "idem_response r = ir_body res" using with_idempotency_stores [OF assms] by blast
  then show ?thesis using with_idempotency_replays [of d' s k r fp p] by simp
qed simp

theorem idempotent_request_replayed_witness:
  "fst (with_idempotency py_str 9 (\<lambda>d. d) (\<lambda>d. d) ''s'' ''k'' JNull (\<lambda>d. Inl (ConflictError ''x''))
     (snd (with_idempotency py_str 5 (\<lambda>d. d) (\<lambda>d. d) ''s'' ''k'' JNull (\<lambda>d. Inr ((201, JStr ''made'', Some ''run'', Some ''r1''), d)) empty_db)))
   = Inr \<lparr>ir_status_code = 201, ir_body = JStr ''made'', ir_replayed = True\<rparr>"
proof -
  let ?ex = "\<lambda>d. Inr ((201, JStr ''made'', Some ''run'', Some ''r1''), d) :: error + exec_result \<times> database"
  obtain d' where "with_idempotency py_str 5 (\<lambda>d. d) (\<lambda>d. d) ''s'' ''k'' JNull ?ex empty_db =
      (Inr \<lparr>ir_status_code = 201, ir_body = JStr ''made'', ir_replayed = False\<rparr>, d')"
    by (simp add: with_idempotency_def load_idempotency_record_def flush_reservation_def empty_db_def Let_def)
  moreover have "keeps_idem ?ex" by (simp add: keeps_idem_def)
  ultimately show ?thesis
    using idempotent_request_replayed [where ex = ?ex and d' = d' and now' = 9 and o1' = "\<lambda>d. d" and o2' = "\<lambda>d. d"
        and ex' = "\<lambda>d. Inl (ConflictError ''x'')"] by force
qed

text \<open>A key used with another payload is refused with status 409, and nothing is executed or changed.\<close>

theorem idempotency_key_conflict:
  assumes "load_idempotency_record d s k = Some r" "idem_fingerprint r \<noteq> fp p"
  shows "\<exists>e. with_idempotency fp now o1 o2 s k p ex d = (Inl e, d) \<and> status_code e = 409"
  using with_idempotency_conflict [where fp = fp and p = p and r = r, OF assms] by simp

theorem idempotency_key_conflict_witness:
  "\<exists>e. with_idempotency (\<lambda>j. if j = JNull then ''f0'' else ''f1'') 9 (\<lambda>d. d) (\<lambda>d. d) ''s'' ''k'' (JInt 1) (\<lambda>d. Inl (ConflictError ''x''))
     (empty_db\<lparr>db_idem := [reservation 0 ''s'' ''k'' ''f0'']\<rparr>) = (Inl e, empty_db\<lparr>db_idem := [reservation 0 ''s'' ''k'' ''f0'']\<rparr>)
     \<and> status_code e = 409"
  by (rule idempotency_key_conflict [where r = "reservation 0 ''s'' ''k'' ''f0''"])
    (simp_all add: load_idempotency_record_def empty_db_def reservation_def)

text \<open>C25: The table of idempotency keys never holds a key twice, even when other requests commit between the lookup and
  the insertion; and when the execution fails, its reservation and changes are rolled back.\<close>

theorem idempotency_keys_unique:
  assumes "keeps_idem ex" "idem_unique d"
    and "\<And>x. idem_unique x \<Longrightarrow> idem_unique (o1 x)" "\<And>x. idem_unique x \<Longrightarrow> idem_unique (o2 x)"
  shows "idem_unique (snd (with_idempotency fp now o1 o2 s k p ex d)) \<and>
    (load_idempotency_record d s k = None \<and> load_idempotency_record (o1 d) s k = None \<and>
     ex ((o1 d)\<lparr>db_idem := db_idem (o1 d) @ [reservation now s k (fp p)]\<rparr>) = Inl e \<longrightarrow>
     with_idempotency fp now o1 o2 s k p ex d = (Inl e, o1 d))"
  using with_idempotency_unique [OF assms(1,2), where ?o1.0 = o1 and ?o2.0 = o2] assms(3,4) with_idempotency_rollback by metis

theorem idempotency_keys_unique_witness:
  "idem_unique (snd (with_idempotency py_str 9 (\<lambda>d. d) (\<lambda>d. d) ''s'' ''k'' JNull (\<lambda>d. Inr ((201, JNull, Some ''run'', Some ''r1''), d)) empty_db))"
proof -
  have "keeps_idem (\<lambda>d. Inr ((201, JNull, Some ''run'', Some ''r1''), d))" "idem_unique empty_db"
    by (simp_all add: keeps_idem_def idem_unique_def empty_db_def)
  then show ?thesis using idempotency_keys_unique [where ?o1.0 = "\<lambda>d. d" and ?o2.0 = "\<lambda>d. d"] by metis
qed

section \<open>Policies\<close>

text \<open>The limit rules: with a limit that parses, each of the three rules answers, and passes exactly when no limit is
  configured or the demand of the run does not exceed it.\<close>

theorem limit_rules_decide:
  assumes "py_int (dget cfg ''max_seconds'' (JInt 0)) = Inr seconds" "py_int (dget cfg ''max_vcpu'' (JInt 0)) = Inr vcpus"
    "py_int (dget cfg ''max_memory_gb'' (JInt 0)) = Inr memory"
  shows "(\<exists>r. evaluate_max_runtime_seconds cfg t = Inr r \<and> (er_passed r \<longleftrightarrow> seconds \<le> 0 \<or> effective_timeout t \<le> seconds)) \<and>
    (\<exists>r. evaluate_max_vcpu cfg res = Inr r \<and> (er_passed r \<longleftrightarrow> vcpus \<le> 0 \<or> requested_total_vcpu res \<le> vcpus)) \<and>
    (\<exists>r. evaluate_max_memory_gb cfg res = Inr r \<and> (er_passed r \<longleftrightarrow> memory \<le> 0 \<or> requested_total_memory res \<le> memory))"
  using max_runtime.ok [OF assms(1), of t] max_vcpu.ok [OF assms(2), of res] max_memory.ok [OF assms(3), of res] by blast

theorem limit_rules_decide_witness:
  "\<exists>r. evaluate_max_vcpu [(''max_vcpu'', JInt 8)] [(''driver_vcpu'', 4), (''executor_vcpu'', 2), (''executor_instances'', 3)] = Inr r
     \<and> \<not> er_passed r"
proof -
  have "py_int (dget [(''max_vcpu'', JInt 8)] ''max_seconds'' (JInt 0)) = Inr 0"
    "py_int (dget [(''max_vcpu'', JInt 8)] ''max_vcpu'' (JInt 0)) = Inr 8"
    "py_int (dget [(''max_vcpu'', JInt 8)] ''max_memory_gb'' (JInt 0)) = Inr 0" by (simp_all add: dget_def)
  from limit_rules_decide [OF this] show ?thesis by (fastforce simp: requested_total_vcpu_def dget_def)
qed

text \<open>The tag rule passes exactly when every required tag is set on the driver label of the Spark configuration, with the
  value the policy names where it names one.\<close>

theorem required_tags_decide:
  assumes "map_of cfg ''tags'' = Some (JObj kvs)"
  shows "\<exists>r. evaluate_required_tags cfg c = Inr r \<and> (er_passed r \<longleftrightarrow>
    (\<forall>(k, v) \<in> set kvs. if truthy v then JStr (dget c (driver_label_key k) []) = v else dget c (driver_label_key k) [] \<noteq> []))"
  using required_tags_passed_iff [OF assms, of c] by (simp add: tag_satisfied_def case_prod_beta)

theorem required_tags_decide_witness:
  "\<exists>r. evaluate_required_tags [(''tags'', JObj [(''team'', JNull)])] [] = Inr r \<and> \<not> er_passed r"
  using required_tags_decide [of "[(''tags'', JObj [(''team'', JNull)])]" "[(''team'', JNull)]" "[]"] by (auto simp: dget_def)

section \<open>Cost centers\<close>

text \<open>C26: The cost center of an environment is looked up by its virtual cluster, then its namespace, then its tenant, then the
  default of the policy, and only then falls back to its namespace or tenant; in every case it is a non-empty string of
  at most the maximal length.\<close>

theorem cost_center_precedence:
  assumes "parse_cost_center_policy loads raw = Inr p"
  shows "let i = normalize_resolution_inputs env in \<exists>c. resolve_cost_center_for_environment loads raw env = Inr c \<and> c \<noteq> [] \<and> length c \<le> max_cost_center_length \<and>
    c = (case map_of (by_virtual_cluster_id p) (in_virtual_cluster_id i) of Some c \<Rightarrow> c
      | None \<Rightarrow> (case map_of (by_namespace p) (in_namespace i) of Some c \<Rightarrow> c
      | None \<Rightarrow> (case map_of (by_team p) (in_tenant_id i) of Some c \<Rightarrow> c
      | None \<Rightarrow> (case default_center p of Some c \<Rightarrow> c | None \<Rightarrow> resolve_cost_center_fallback i))))"
proof -
  obtain c where c: "resolve_cost_center_for_environment loads raw env = Inr c"
    using resolve_precedence [OF assms(1) refl] by blast
  show ?thesis using resolve_cost_center_ok [OF c] c resolve_precedence [OF assms(1) refl, of env]
    by (auto simp: center_ok_def Let_def dom_def split: option.splits if_splits)
qed

theorem cost_center_precedence_witness:
  "\<exists>c. resolve_cost_center_for_environment (\<lambda>s. Inl ''x'') [] sample_env = Inr c \<and> c \<noteq> []"
  using cost_center_precedence [of "\<lambda>s. Inl ''x''" "[]" empty_policy sample_env]
  by (auto simp: parse_cost_center_policy_def py_strip_def Let_def)

section \<open>Preflight\<close>

text \<open>C27: The result of a preflight is ready exactly when no check of any of its three parts fails, although checks of one
  policy are merged.\<close>

theorem preflight_ready_iff_no_failure:
  assumes "build_preflight before after now env rid c d = (Inr p, d')"
    and "before env r c d = Inr xs" "r = (case rid of None \<Rightarrow> None | Some i \<Rightarrow> get_run d i)"
    and "policy_engine_checks now env c r d = (Inr ys, d1)" "after env r c d1 = Inr zs"
    and "\<forall>x \<in> set xs \<union> set zs. ck_status x \<in> {''pass'', ''warning'', ''fail''}"
  shows "pf_ready p \<longleftrightarrow> (\<forall>x \<in> set xs \<union> set ys \<union> set zs. ck_status x \<noteq> ''fail'')"
  by (rule build_preflight_ready_iff [OF assms(1-5)]) (use assms(6) in \<open>simp add: std_status_def\<close>)

theorem preflight_ready_iff_no_failure_witness:
  "\<exists>p. fst (build_preflight no_checks no_checks 0 sample_env None None sample_db) = Inr p \<and> pf_ready p"
proof -
  obtain p d' where run: "build_preflight no_checks no_checks 0 sample_env None None sample_db = (Inr p, d')"
    by (simp add: build_preflight_def no_checks_def policy_engine_checks_def evaluate_policies_def resolve_applicable_policies_def
        sample_db_def empty_db_def Let_def)
  have pol: "policy_engine_checks 0 sample_env None None sample_db = (Inr [], sample_db)"
    by (simp add: policy_engine_checks_def evaluate_policies_def resolve_applicable_policies_def sample_db_def empty_db_def Let_def)
  have "pf_ready p"
    using preflight_ready_iff_no_failure [OF run _ _ pol] by (simp add: no_checks_def)
  then show ?thesis using run by simp
qed

text \<open>The preflight cache never holds more than its maximal number of entries, one per key.\<close>

theorem preflight_cache_bounded:
  assumes "build_preflight_cached key before after now tick env rid c (d, cache) = (res, d', cache')" "distinct (map fst cache)"
  shows "length cache' \<le> preflight_cache_max_entries \<and> distinct (map fst cache')"
  using build_preflight_cached_bound [OF assms(1)] assms(2) by (simp add: wf_dict_def dkeys_def)

theorem preflight_cache_bounded_witness:
  "length (snd (snd (build_preflight_cached (\<lambda>e c. env_id e) no_checks no_checks 0 0 sample_env ''r1'' [] (sample_db, [])))) \<le> 1024"
proof -
  obtain res d' cache' where "build_preflight_cached (\<lambda>e c. env_id e) no_checks no_checks 0 0 sample_env ''r1'' [] (sample_db, []) = (res, d', cache')"
    by (metis surj_pair)
  then show ?thesis using preflight_cache_bounded [of "\<lambda>e c. env_id e" no_checks no_checks 0 0 sample_env "''r1''" "[]" sample_db "[]"]
    by (simp add: preflight_cache_max_entries_def)
qed

text \<open>C28: Within five minutes the cached preflight answers for another run of the environment with the whole earlier result,
  run-level checks included, without evaluating any check or policy again.\<close>

theorem cached_preflight_reused:
  assumes "build_preflight_cached key before after now tick env rid c (d, cache) = (Inr p, d1, cache1)"
    and "map_of (trim_preflight_cache tick cache) (key env c) = None" "distinct (map fst cache)"
    and "tick' - tick < 300 * 1000000" "key env' c' = key env c"
  shows "\<exists>cache3. build_preflight_cached key before' after' now' tick' env' rid' c' (d2, cache1) =
    (Inr (p\<lparr>pf_run_id := Some rid', pf_generated_at := now'\<rparr>), d2, cache3)"
  by (rule build_preflight_cached_reuses [OF assms(1,2)])
    (use assms(3-5) in \<open>simp_all add: wf_dict_def dkeys_def preflight_cache_ttl_seconds_def\<close>)

theorem cached_preflight_reused_witness:
  "\<exists>p cache3. build_preflight_cached (\<lambda>e c. env_id e) no_checks no_checks 9 9 sample_env ''r2'' []
     (sample_db, snd (snd (build_preflight_cached (\<lambda>e c. env_id e) no_checks no_checks 0 0 sample_env ''r1'' [] (sample_db, []))))
   = (Inr p, sample_db, cache3) \<and> pf_run_id p = Some ''r2''"
proof -
  let ?b = "build_preflight_cached (\<lambda>e c. env_id e) no_checks no_checks 0 0 sample_env ''r1'' [] (sample_db, [])"
  have "is_ok (fst ?b)" by code_simp
  then obtain p d1 cache1 where run: "?b = (Inr p, d1, cache1)" by (cases ?b) (auto simp: is_ok_def split: sum.splits)
  have "map_of (trim_preflight_cache 0 []) ((\<lambda>e c. env_id e) sample_env []) = None"
    by (simp add: trim_preflight_cache_def Let_def)
  from cached_preflight_reused [OF run this, where tick' = 9 and env' = sample_env and c' = "[]" and rid' = "''r2''"] show ?thesis
    using run by fastforce
qed

text \<open>C37: A hard policy that requires a golden path out of a non-empty list of names makes no preflight of its environments ready,
  whatever the run, also for a run created from an allowed path: the preflight does not know the name of the path of a run. (With
  an empty list the rule passes.)\<close>

theorem required_golden_path_blocks_every_run:
  assumes "p \<in> set (db_policies d)" "policy_applies env p" "pol_rule_type p = ''allowed_golden_paths''"
      "pol_enforcement p = ''hard''"
    and "map_of (pol_config p) ''allowed'' = Some (JArr (map JStr names))" "names \<noteq> []"
      "map_of (pol_config p) ''require_golden_path'' = Some (JBool True)"
    and run: "full_preflight sv rr rv now env rid c d = (Inr pf, d')"
  shows "\<not> pf_ready pf"
proof
  assume "pf_ready pf"
  from full_preflight_parts [OF run this refl] obtain ys d1 r
    where pol: "policy_engine_checks now env c r d = (Inr ys, d1)" "no_failure ys" by blast
  have "\<exists>x \<in> set ys. ck_status x = ''fail'' \<and> ck_code x = ''policy.allowed_golden_paths''"
    by (rule required_golden_path_never_passes [OF assms(1-6) _ pol(1)]) (simp add: dget_def assms(7))
  then show False using pol(2) by (auto simp: no_failure_def)
qed

theorem required_golden_path_blocks_every_run_witness:
  "\<exists>pf d'. full_preflight sample_services True True 0 plain_env None None (empty_db\<lparr>db_policies := [path_policy]\<rparr>) = (Inr pf, d')
     \<and> \<not> pf_ready pf"
proof -
  obtain pf d' where run: "full_preflight sample_services True True 0 plain_env None None (empty_db\<lparr>db_policies := [path_policy]\<rparr>) = (Inr pf, d')"
    using is_answerE [OF path_policy_answered] by blast
  have "policy_applies plain_env path_policy" by code_simp
  then have "\<not> pf_ready pf"
    using required_golden_path_blocks_every_run [OF _ _ _ _ _ _ _ run, of path_policy "[''small'']"]
    by (auto simp: path_policy_def sample_policy_def)
  then show ?thesis using run by blast
qed

section \<open>Diagnostics\<close>

text \<open>When a known failure pattern occurs in the logs or the error message of a run, the diagnostics name exactly the
  categories of the patterns that occur, each once, in the order of the catalogue, and each quotes a line where one occurs.\<close>

theorem diagnostics_name_the_patterns:
  assumes "\<exists>p \<in> set diagnostic_patterns. \<exists>l \<in> set (analysed_lines lns msg). line_matches (pat_tokens p) l"
  shows "map di_category (diagnostics_from_log_lines lns msg) =
      map pat_category (filter (\<lambda>p. \<exists>l \<in> set (analysed_lines lns msg). line_matches (pat_tokens p) l) diagnostic_patterns) \<and>
    distinct (map di_category (diagnostics_from_log_lines lns msg)) \<and>
    (\<forall>x \<in> set (diagnostics_from_log_lines lns msg). \<exists>l \<in> set (analysed_lines lns msg). di_log_snippet x = Some (take 500 l))"
  using diagnostics_categories [OF assms] distinct_map_filter [OF distinct_pattern_categories] diagnostics_snippet by metis

theorem diagnostics_name_the_patterns_witness:
  "map di_category (diagnostics_from_log_lines [''java.lang.OutOfMemoryError: Java heap space''] None) \<noteq> []"
proof -
  have "list_ex (\<lambda>p. \<exists>l \<in> set (analysed_lines [''java.lang.OutOfMemoryError: Java heap space''] None). line_matches (pat_tokens p) l)
      diagnostic_patterns" by code_simp
  then have ex: "\<exists>p \<in> set diagnostic_patterns. \<exists>l \<in> set (analysed_lines [''java.lang.OutOfMemoryError: Java heap space''] None).
      line_matches (pat_tokens p) l" by (simp add: list_ex_iff)
  from diagnostics_name_the_patterns [OF this] ex show ?thesis by (auto simp: filter_empty_conv)
qed

section \<open>Golden paths\<close>

text \<open>C38: When a global golden path and one of the environment share the requested name, the one of the environment is taken
  where the database sorts nulls last in descending order, and the global one where it sorts them first.\<close>

theorem golden_path_precedence:
  assumes "find_golden_path d (Some (env_id env)) name \<noteq> None" "find_golden_path d None name \<noteq> None"
  shows "\<exists>g. resolve_golden_path_for_run nulls_first d env name = Inr g \<and> gp_name g = name \<and>
    gp_environment_id g = (if nulls_first then None else Some (env_id env))"
proof -
  obtain h where "h \<in> set (db_golden d)" "gp_name h = name" "gp_environment_id h = None"
    using assms(2) by (auto simp: find_golden_path_def find_None_iff)
  then obtain g where "resolve_golden_path_for_run nulls_first d env name = Inr g"
    using resolve_golden_path_fails_iff [of nulls_first d env name] by (cases "resolve_golden_path_for_run nulls_first d env name") auto
  then show ?thesis using resolve_golden_path_precedence [OF _ assms] resolve_golden_path_sound by blast
qed

theorem golden_path_precedence_witness:
  "\<exists>g. resolve_golden_path_for_run False (sample_db\<lparr>db_golden := [sample_path None, sample_path (Some ''e1'')]\<rparr>) sample_env ''small'' = Inr g \<and>
     gp_environment_id g = Some ''e1''"
proof -
  have e: "env_id sample_env = ''e1''" by (simp add: sample_env_def environment_row_def)
  show ?thesis
    using golden_path_precedence [of "sample_db\<lparr>db_golden := [sample_path None, sample_path (Some ''e1'')]\<rparr>" sample_env "''small''" False]
    unfolding e by (auto simp: find_golden_path_def sample_path_def)
qed

text \<open>Seeding the default golden paths is idempotent: whatever other sessions insert meanwhile, all defaults exist
  afterwards, and a second seeding adds nothing.\<close>

theorem golden_path_seeding_idempotent:
  assumes "\<And>n. keeps_golden (other n)"
  shows "(\<forall>spec \<in> set default_golden_path_specs.
      find_golden_path (snd (ensure_default_golden_paths now ids other d)) None (gs_name spec) \<noteq> None) \<and>
    ensure_default_golden_paths now' ids' other' (snd (ensure_default_golden_paths now ids other d)) =
      (0, snd (ensure_default_golden_paths now ids other d))"
  using ensure_golden_paths_complete [where other = other, OF assms] ensure_default_golden_paths_again [where other = other, OF assms]
  unfolding ensure_default_golden_paths_def by blast

theorem golden_path_seeding_idempotent_witness:
  "fst (ensure_default_golden_paths 2 (\<lambda>n. n) (\<lambda>n d. d) (snd (ensure_default_golden_paths 1 (\<lambda>n. n) (\<lambda>n d. d) empty_db))) = 0"
  using golden_path_seeding_idempotent [of "\<lambda>n d. d" 1 "\<lambda>n. n" empty_db 2 "\<lambda>n. n" "\<lambda>n d. d"] by (simp add: keeps_golden_def)

section \<open>Costs\<close>

text \<open>C39: Recording the usage of a run adds its estimated cost to the spend of its team in the month the run ended, and to no
  other team or month; recording it again changes nothing.\<close>

theorem usage_adds_to_team_spend:
  assumes "record_usage_if_needed now pricing cc r env d = Inr d'"
    and "\<not> recorded d (run_id r)" "\<forall>a \<in> set (db_allocs d). ca_run_id a \<noteq> run_id r"
    and "team_spend_for_period d tm period = (e, ac, ef)"
  shows "(\<exists>u \<in> set (db_usage d'). ur_run_id u = run_id r \<and> team_spend_for_period d' tm period =
      (if tm = team_key_for_environment env \<and> period = billing_period (case run_ended_at r of Some t \<Rightarrow> t | None \<Rightarrow> now)
       then (e + ur_estimated_cost_usd_micros u, ac, ef + ur_estimated_cost_usd_micros u) else (e, ac, ef))) \<and>
    record_usage_if_needed now' pricing' cc' r env' d' = Inr d'"
  using record_usage_spend [OF assms] record_usage_once [OF assms(1) refl] by blast

theorem usage_adds_to_team_spend_witness:
  "\<exists>d'. record_usage_if_needed 0 (rc_pricing demo_reconciler ''p'') (\<lambda>e. Inr ''cc'') sample_run sample_env sample_db = Inr d' \<and>
     record_usage_if_needed 1 (rc_pricing demo_reconciler ''q'') (\<lambda>e. Inr ''dd'') sample_run sample_env d' = Inr d'"
proof -
  have "is_ok (record_usage_if_needed 0 (rc_pricing demo_reconciler ''p'') (\<lambda>e. Inr ''cc'') sample_run sample_env sample_db)" by code_simp
  then obtain d' where run: "record_usage_if_needed 0 (rc_pricing demo_reconciler ''p'') (\<lambda>e. Inr ''cc'') sample_run sample_env sample_db = Inr d'"
    by (auto simp: is_ok_def split: sum.splits)
  obtain e ac ef where sp: "team_spend_for_period sample_db ''t1'' ''1970-01'' = (e, ac, ef)" by (metis surj_pair)
  have "\<not> recorded sample_db (run_id sample_run)" "\<forall>a \<in> set (db_allocs sample_db). ca_run_id a \<noteq> run_id sample_run"
    by (simp_all add: recorded_def sample_db_def empty_db_def)
  from usage_adds_to_team_spend [OF run this sp] run show ?thesis by blast
qed

text \<open>A showback page that holds all allocations of a team and month adds up: the effective costs of its items sum to the
  effective total, which is the spend of the team.\<close>

theorem showback_adds_up:
  assumes "length (allocations_for d tm period) \<le> lmt"
  shows "sum_list (map si_effective (sb_items (get_cost_showback d tm period lmt 0))) =
      sb_total_effective (get_cost_showback d tm period lmt 0) \<and>
    (sb_total_estimated (get_cost_showback d tm period lmt 0), sb_total_actual (get_cost_showback d tm period lmt 0),
     sb_total_effective (get_cost_showback d tm period lmt 0)) = team_spend_for_period d tm period"
  using showback_items_sum [OF refl assms] showback_totals [OF refl] by blast

theorem showback_adds_up_witness:
  "sum_list (map si_effective (sb_items (get_cost_showback sample_db ''t1'' ''2024-01'' 10 0))) =
     sb_total_effective (get_cost_showback sample_db ''t1'' ''2024-01'' 10 0)"
  using showback_adds_up [of sample_db "''t1''" "''2024-01''" 10] by (simp add: allocations_for_def sample_db_def empty_db_def)

text \<open>Creating or updating a budget: afterwards the budget of the team has the values of the request, its warning threshold
  is not above its blocking threshold, and no other budget changed.\<close>

theorem budget_upsert:
  assumes "create_or_update_team_budget now tm b w k d = Inr d'"
  shows "(\<exists>x. get_team_budget d' tm = Inr x \<and> tb_monthly_budget_usd_micros x = b \<and> tb_warn_threshold_pct x = w \<and>
      tb_block_threshold_pct x = k \<and> w \<le> k) \<and>
    (\<forall>tm'. tm' \<noteq> tm \<longrightarrow> get_team_budget d' tm' = get_team_budget d tm')"
  using budget_upsert_get [OF assms] budget_upsert_other [OF assms] by blast

theorem budget_upsert_witness:
  "\<exists>d' x. create_or_update_team_budget 5 ''t1'' 1000000 80 100 sample_db = Inr d' \<and> get_team_budget d' ''t1'' = Inr x"
proof -
  have "is_ok (create_or_update_team_budget 5 ''t1'' 1000000 80 100 sample_db)" by code_simp
  then obtain d' where run: "create_or_update_team_budget 5 ''t1'' 1000000 80 100 sample_db = Inr d'"
    by (auto simp: is_ok_def split: sum.splits)
  then show ?thesis using budget_upsert [OF run] by blast
qed

text \<open>The pricing the platform resolves, static, from the cache or from the price list, never yields a negative cost.\<close>

theorem costs_never_negative:
  assumes "resolve_runtime_pricing sample now st cache = (Inr p, cache')" "pricing_settings_ok st" "cache_ok cache"
    and "0 \<le> v" "0 \<le> m"
  shows "0 \<le> estimated_cost_usd_micros p env v m \<and> cache_ok cache'"
  using resolve_runtime_pricing_ok [OF assms(1-3)] estimated_cost_nonneg [OF _ assms(4,5)] by blast

theorem costs_never_negative_witness:
  "\<exists>p cache'. resolve_runtime_pricing (\<lambda>a b. Inl (value_error ''offline'')) 0 sample_pricing [] = (Inr p, cache') \<and>
     0 \<le> estimated_cost_usd_micros p sample_env 100 400"
proof -
  have "is_ok (fst (resolve_runtime_pricing (\<lambda>a b. Inl (value_error ''offline'')) 0 sample_pricing []))" by code_simp
  then obtain p cache' where run: "resolve_runtime_pricing (\<lambda>a b. Inl (value_error ''offline'')) 0 sample_pricing [] = (Inr p, cache')"
    by (cases "resolve_runtime_pricing (\<lambda>a b. Inl (value_error ''offline'')) 0 sample_pricing []") (auto simp: is_ok_def split: sum.splits)
  have "pricing_settings_ok sample_pricing" "cache_ok []"
    by (simp_all add: pricing_settings_ok_def snapshot_ok_def static_pricing_snapshot_def sample_pricing_def clamp_discount_def cache_ok_def)
  from costs_never_negative [OF run this, of 100 400 sample_env] run show ?thesis by simp
qed

section \<open>Provisioning and Terraform\<close>

text \<open>A full environment is made ready only with the ARN of its cluster and the id of its virtual cluster.\<close>

theorem full_environment_ready_is_complete:
  assumes "provision_body pv now actor s = (Inr (), s')" "env_provisioning_mode (ps_env s) = ''full''"
    and "env_engine (ps_env s) = ''emr_on_eks''"
  shows "env_status (ps_env s') = EReady \<and> op_state (ps_op s') = PReady \<and>
    \<not> empty_text (env_eks_cluster_arn (ps_env s')) \<and> \<not> empty_text (env_emr_virtual_cluster_id (ps_env s'))"
proof -
  have "missing_outputs (ps_env s') = []" by (rule full_ready_has_cluster [OF assms(1,2)]) (simp add: assms(3))
  moreover have "settled_as PReady EReady now s'" using provision_body_ready assms(1) unfolding ends_in_def by blast
  ultimately show ?thesis by (simp add: missing_outputs_def settled_as_def split: if_splits)
qed

theorem full_environment_ready_is_complete_witness:
  "\<exists>s'. provision_body checked_provisioner 5 ''worker'' resumed_session = (Inr (), s') \<and> \<not> empty_text (env_emr_virtual_cluster_id (ps_env s'))"
proof -
  have "is_ok (fst (provision_body checked_provisioner 5 ''worker'' resumed_session))" by code_simp
  then obtain s' where run: "provision_body checked_provisioner 5 ''worker'' resumed_session = (Inr (), s')"
    by (cases "provision_body checked_provisioner 5 ''worker'' resumed_session") (auto simp: is_ok_def split: sum.splits)
  have "env_provisioning_mode (ps_env resumed_session) = ''full''" "env_engine (ps_env resumed_session) = ''emr_on_eks''"
    by (simp_all add: resumed_session_def full_session_def)
  then show ?thesis using full_environment_ready_is_complete [OF run] run by blast
qed

text \<open>C40: In live full provisioning a Terraform stage that succeeds with outputs, the virtual cluster not among those known so far,
  fails the whole operation: wherever the operation was resumed, it ends failed now, the environment too, with the message of the
  error. (A stage without any output is passed over. The modules under \<open>infra/terraform\<close> give its id only in the
  stage \<open>provisioning_emr\<close>.)\<close>

theorem stage_without_virtual_cluster_fails:
  assumes "env_provisioning_mode (ps_env s) = ''full''" "prefix ''arn:aws:iam::'' (env_customer_role_arn (ps_env s))"
    and "\<not> pv_dry_run_mode pv"
    and "cp = load_full_byoc_checkpoint (ps_db s) (op_id (ps_op s)) (env_id (ps_env s))"
    and "drop (checkpoint_resume_index cp (ps_op s)) provisioning_steps = earlier @ stage # later"
    and "sfold (provision_step pv now actor) earlier (cp, []) s = (Inr (c, prev), s0)"
    and "run_full_byoc_step pv now actor stage c s0 = (Inr (c', outs), s1)" "outs \<noteq> []"
    and "extract_terraform_output (dmerge prev outs) ''emr_virtual_cluster_id'' = []"
  shows "\<exists>e s'. provision_operation pv now actor s = (Inr (), s') \<and> is_value_error e \<and>
    op_state (ps_op s') = PFailed \<and> op_ended_at (ps_op s') = Some now \<and> op_message (ps_op s') = Some (error_message e True) \<and>
    env_status (ps_env s') = EFailed"
  using stage_fails_operation [OF assms] by blast

theorem stage_without_virtual_cluster_fails_witness:
  "\<exists>s'. provision_operation live_provisioner 5 ''worker'' full_session = (Inr (), s') \<and> op_state (ps_op s') = PFailed \<and>
     env_status (ps_env s') = EFailed"
proof -
  let ?cp = "load_full_byoc_checkpoint (ps_db full_session) (op_id (ps_op full_session)) (env_id (ps_env full_session))"
  let ?at = "drop (checkpoint_resume_index ?cp (ps_op full_session)) provisioning_steps"
  let ?run = "run_full_byoc_step live_provisioner 5 ''worker'' (hd ?at) ?cp full_session"
  have ok: "(case fst ?run of Inl e \<Rightarrow> False | Inr (c, outs) \<Rightarrow> outs \<noteq> [] \<and>
      extract_terraform_output (dmerge [] outs) ''emr_virtual_cluster_id'' = [])" by code_simp
  then obtain c' outs s1 where run: "?run = (Inr (c', outs), s1)"
    by (cases ?run) (auto split: sum.splits prod.splits)
  have "?at \<noteq> []" by code_simp
  then have stages: "?at = [] @ hd ?at # tl ?at" by simp
  have "\<not> pv_dry_run_mode live_provisioner" by (simp add: live_provisioner_def)
  moreover have "env_provisioning_mode (ps_env full_session) = ''full''" by (simp add: full_session_def)
  moreover have "prefix ''arn:aws:iam::'' (env_customer_role_arn (ps_env full_session))" by code_simp
  ultimately show ?thesis
    using stage_without_virtual_cluster_fails [OF _ _ _ refl stages _ run, of "[]"] ok run by (auto simp: sreturn_def)
qed

text \<open>A live Terraform plan runs in the workspace of its environment: whatever commands ran before for it, the last workspace
  selected before the plan command is that of the context, the plan passes every variable of the context, and the apply
  that follows uses the plan's file.\<close>

theorem terraform_plan_in_workspace:
  assumes "tf_plan host tf ctx s = (Inr p, s')" "tfo_enable_subprocess tf"
    and "context_key host ctx \<notin> set (tf_initialized s) \<or> current_workspace host (tf_history s) = Some (sc_workspace ctx)"
  shows "\<exists>h. tf_history s' = h @ [pr_command p] \<and> current_workspace host h = Some (sc_workspace ctx) \<and>
    (\<forall>(k, v) \<in> set (sc_var_overrides ctx). \<exists>l r. pr_command p = l @ [''-var'', k @ ''='' @ v] @ r) \<and>
    last (apply_command tf ctx p) = plan_path_of ctx"
proof -
  have new: "context_key host ctx \<in> set (tf_initialized s) \<Longrightarrow> current_workspace host (tf_history s) = Some (sc_workspace ctx)"
    using assms(3) by blast
  obtain h where "tf_history s' = h @ [pr_command p]" "current_workspace host h = Some (sc_workspace ctx)"
    "pr_command p = build_plan_command tf ctx (plan_path_of ctx)"
    using tf_plan_workspace [OF assms(1,2) new] by metis
  then show ?thesis using plan_passes_variables [of _ _ ctx tf "plan_path_of ctx"] apply_uses_plan_file [OF assms(1)] by auto
qed

theorem terraform_plan_in_workspace_witness:
  "\<exists>p s' h. tf_plan (pv_host live_provisioner) (pv_terraform live_provisioner)
      (build_stage_context (ps_op full_session) (ps_env full_session) ''provisioning_network'' 1) (ps_tf full_session) = (Inr p, s') \<and>
    tf_history s' = h @ [pr_command p] \<and> current_workspace (pv_host live_provisioner) h = Some ''sp-t1-e1''"
proof -
  let ?ctx = "build_stage_context (ps_op full_session) (ps_env full_session) ''provisioning_network'' 1"
  let ?run = "tf_plan (pv_host live_provisioner) (pv_terraform live_provisioner) ?ctx (ps_tf full_session)"
  have "is_ok (fst ?run)" by code_simp
  then obtain p s' where run: "?run = (Inr p, s')" by (cases ?run) (auto simp: is_ok_def split: sum.splits)
  have "sc_workspace ?ctx = ''sp-t1-e1''" by code_simp
  moreover have "tfo_enable_subprocess (pv_terraform live_provisioner)" "tf_initialized (ps_tf full_session) = []"
    by (simp_all add: live_provisioner_def full_session_def)
  ultimately show ?thesis using terraform_plan_in_workspace [OF run] run by fastforce
qed

section \<open>Tenants, teams and identities\<close>

text \<open>Team scopes respect tenants: adding a scope succeeds only for a team and an environment of one tenant, keeps one scope
  per pair, and the pair is afterwards in scope.\<close>

theorem scopes_respect_tenants:
  assumes "add_team_environment_scope now i tid eid actor ip d = Inr (sc, d')" "scopes_in_tenant d" "scopes_unique d"
  shows "scopes_in_tenant d' \<and> scopes_unique d' \<and> find_scope d' tid eid \<noteq> None \<and>
    (\<exists>tm env. get_team d tid = Some tm \<and> get_environment d eid = Some env \<and> team_tenant_id tm = env_tenant_id env)"
proof -
  have "\<exists>tm env. get_team d tid = Some tm \<and> get_environment d eid = Some env \<and> team_tenant_id tm = env_tenant_id env"
    using assms(1)
  proof (cases rule: add_scope_cases)
    case existing
    then show ?thesis using assms(2) find_scope_Some by (fastforce simp: scopes_in_tenant_def)
  next
    case (created tm env a)
    then show ?thesis by blast
  qed
  then show ?thesis using add_scope_keeps [OF assms] by (auto simp: find_scope_None image_iff)
qed

theorem scopes_respect_tenants_witness:
  "\<exists>sc d'. add_team_environment_scope 5 ''s1'' ''tm1'' ''e1'' ''admin'' None (sample_db\<lparr>db_teams := [sample_team]\<rparr>) = Inr (sc, d') \<and>
     find_scope d' ''tm1'' ''e1'' \<noteq> None"
proof -
  let ?d = "sample_db\<lparr>db_teams := [sample_team]\<rparr>"
  have "is_ok (add_team_environment_scope 5 ''s1'' ''tm1'' ''e1'' ''admin'' None ?d)" by code_simp
  then obtain sc d' where run: "add_team_environment_scope 5 ''s1'' ''tm1'' ''e1'' ''admin'' None ?d = Inr (sc, d')"
    by (auto simp: is_ok_def split: sum.splits)
  have "scopes_in_tenant ?d" "scopes_unique ?d" by (simp_all add: scopes_in_tenant_def scopes_unique_def sample_db_def empty_db_def)
  from scopes_respect_tenants [OF run this] run show ?thesis by blast
qed

text \<open>Removing a team scope that does not exist never answers 404: the exception for it cannot be built.\<close>

theorem removing_missing_scope_is_type_error:
  assumes "get_team d tid = Some tm" "find_scope d tid eid = None"
  shows "\<exists>e. remove_team_environment_scope now tid eid actor ip d = Inl e \<and> status_code e = 500"
  using remove_missing_scope [OF assms, of now actor ip] by auto

theorem removing_missing_scope_is_type_error_witness:
  "\<exists>e. remove_team_environment_scope 5 ''tm1'' ''e1'' ''admin'' None (sample_db\<lparr>db_teams := [sample_team]\<rparr>) = Inl e \<and> status_code e = 500"
  by (rule removing_missing_scope_is_type_error [where tm = sample_team])
    (simp_all add: get_team_def find_row_def find_scope_def sample_db_def empty_db_def sample_team_def)

section \<open>The API\<close>



text \<open>C6: A request to one of the 38 routes of \<open>api_call\<close> by an actor that is no administrator changes no row of an environment
  outside its scope, and of the other tables only the audit log and the idempotency keys, whether it succeeds or fails. The
  routes of job templates, interactive endpoints and security configurations are not modelled; those of the invitations and the
  login, which write users, tokens and identities, are the subject of C8 to C10.\<close>

theorem changes_confined:
  assumes "cx_auth cx = Inr actor" "resolve_access_context d actor = Inr a" "ac_role a \<noteq> ''admin''"
    and "cx_other1 cx = (\<lambda>d. d)" "cx_other2 cx = (\<lambda>d. d)" and "distinct (map run_id (db_runs d))"
  shows "same_outside (ac_scoped_environment_ids a) d (snd (api dp cx c d))"
  using assms by (rule api_changes)

theorem changes_confined_witness:
  "let d' = snd (api sample_deployment sample_context (Environments (DeleteEnvironment ''e1'')) sample_access_db)
   in map env_status (db_envs d') = [EDeleted, EReady] \<and> db_identities d' = [sample_identity] \<and>
     filter (\<lambda>e. env_id e \<noteq> ''e1'') (db_envs d') = [other_env]"
proof -
  let ?d' = "snd (api sample_deployment sample_context (Environments (DeleteEnvironment ''e1'')) sample_access_db)"
  have "same_outside [''e1''] sample_access_db ?d'"
    using changes_confined [OF _ sample_access_resolved, of sample_context sample_deployment "Environments (DeleteEnvironment ''e1'')"]
    by (simp add: sample_context_def sample_access_def sample_access_db_def empty_db_def)
  moreover have "map env_status (db_envs ?d') = [EDeleted, EReady]" by code_simp
  ultimately show ?thesis
    by (simp add: same_outside_def outside_def sample_access_db_def sample_env_def other_env_def environment_row_def Let_def)
qed

text \<open>C7: Every request to one of the 38 routes of \<open>api_call\<close> is a sequence of steps of the system, the reservation and the
  stored answer of an idempotent request included: from a reachable state it leads to a reachable state, whether it succeeds
  or fails. It changes the database only for an authenticated actor that is an administrator, or within the scope of the actor,
  or while there is no identity at all, when the first administrator is made.\<close>

theorem api_refines_system:
  assumes "reachable \<lparr>sy_db = d, sy_cache = ca\<rparr>" "call_ok d cx c"
    and "cx_other1 cx = (\<lambda>d. d)" "cx_other2 cx = (\<lambda>d. d)" and d': "d' = snd (api dp cx c d)"
  shows "steps \<lparr>sy_db = d, sy_cache = ca\<rparr> \<lparr>sy_db = d', sy_cache = ca\<rparr> \<and> reachable \<lparr>sy_db = d', sy_cache = ca\<rparr> \<and>
    (d' \<noteq> d \<longrightarrow> (\<exists>actor. cx_auth cx = Inr actor \<and> (\<not> has_any_identities d \<or>
      (\<exists>a. resolve_access_context d actor = Inr a \<and>
         (ac_role a = ''admin'' \<or> same_outside (ac_scoped_environment_ids a) d d')))))"
proof -
  have "steps \<lparr>sy_db = d, sy_cache = ca\<rparr> \<lparr>sy_db = d', sy_cache = ca\<rparr>"
    using api_steps [OF assms(3,4,2)] unfolding db_steps_def d' by blast
  moreover have "distinct (map run_id (db_runs d))" using reachable_runs(1) [OF assms(1)] by simp
  ultimately show ?thesis using steps_reachable [OF _ assms(1)] api_entitled [OF assms(3,4)] unfolding d' by blast
qed

theorem api_refines_system_witness:
  "let d' = snd (api sample_deployment (sample_context\<lparr>cx_bootstrap_secret := Some ''s''\<rparr>)
       (Tenancy PostBootstrapUserIdentity) empty_db)
   in reachable \<lparr>sy_db = d', sy_cache = []\<rparr> \<and> map uid_role (db_identities d') = [''admin'']"
proof -
  have "reachable \<lparr>sy_db = empty_db, sy_cache = []\<rparr>" using reach_initial by (simp add: initial_def)
  note r = api_refines_system [OF this, of "sample_context\<lparr>cx_bootstrap_secret := Some ''s''\<rparr>"
      "Tenancy PostBootstrapUserIdentity" _ sample_deployment]
  have "map uid_role (db_identities (snd (api sample_deployment (sample_context\<lparr>cx_bootstrap_secret := Some ''s''\<rparr>)
       (Tenancy PostBootstrapUserIdentity) empty_db))) = [''admin'']" by code_simp
  then show ?thesis using r by (simp add: sample_context_def)
qed

section \<open>Tokens and invitations\<close>

text \<open>C11: An accepted bearer token was decoded by PyJWT with a supported algorithm and a key of the cached key set, for the
  issuer of the customer pool and with the claims \<open>sub\<close>, \<open>iss\<close> and \<open>exp\<close> required; it is meant for the configured
  audience, and the actor is its subject, which is not empty.\<close>

theorem accepted_token_verified:
  assumes "require_api_auth ag now header st = (Inr actor, st')"
  shows "\<exists>scheme dot token alg key aud req claims. partition_at (CHR '' '') header = (scheme, dot, token) \<and> py_lower scheme = ''bearer'' \<and>
    alg \<in> set supported_algorithms \<and> key \<in> snd ` set (js_cached (st' CustomerPool)) \<and>
    oc_decode (ag_client ag) token key alg aud (vr_issuer (ag_verifier ag CustomerPool)) req = Inr (JObj claims) \<and>
    {''sub'', ''iss'', ''exp''} \<subseteq> set req \<and> claims_match_audience (ag_verifier ag CustomerPool) claims \<and>
    actor = py_strip (header_field claims ''sub'') \<and> actor \<noteq> []"
proof -
  obtain v where v: "require_verified_identity ag now header [CustomerPool] st = (Inr v, st')" "actor = oi_subject (vi_identity v)"
    using assms by (auto simp: require_api_auth_def split: prod.splits sum.splits)
  show ?thesis
  proof (rule require_verified_identity_Inr [OF v(1)])
    fix scheme dot token s
    assume h: "partition_at (CHR '' '') header = (scheme, dot, token)" "py_lower scheme = ''bearer''" "vi_pool v \<in> set [CustomerPool]"
      and "verify_access_token (ag_verifier ag (vi_pool v)) (ag_client ag) now token s = (Inr (vi_identity v), st' (vi_pool v))"
    then have "verify_access_token (ag_verifier ag CustomerPool) (ag_client ag) now token s = (Inr (vi_identity v), st' CustomerPool)"
      by simp
    then show ?thesis by (rule verify_access_token_Inr) (use h v(2) in blast)
  qed simp
qed

theorem accepted_token_verified_witness:
  "\<exists>st. require_api_auth demo_auth 5 ''Bearer abc'' (\<lambda>p. fresh_jwks_state) = (Inr ''subject'', st) \<and> js_cached (st CustomerPool) \<noteq> []"
proof -
  obtain st where run: "require_api_auth demo_auth 5 ''Bearer abc'' (\<lambda>p. fresh_jwks_state) = (Inr ''subject'', st)"
    using demo_authenticates by blast
  show ?thesis using accepted_token_verified [OF run] run by fastforce
qed

text \<open>C12: Over any sequence of token checks, forced refreshes of the key set are at least the minimal interval apart, and no
  window of the configured length contains more than the configured number of them, whatever the tokens and the
  answers of the identity provider.\<close>

theorem forced_refreshes_throttled:
  assumes "v = oidc_token_verifier issuer audience uri cache_ttl min_interval window max_refreshes" "sorted (map fst calls)"
  shows "history_ok v (forced_times v cl calls fresh_jwks_state)"
proof -
  have "0 < vr_min_refresh_interval v" "0 < vr_throttle_window v" by (simp_all add: assms(1) oidc_token_verifier_def)
  moreover have "\<forall>t \<in> set (map fst calls). (case calls of [] \<Rightarrow> 0 | c # _ \<Rightarrow> fst c) \<le> t"
    using assms(2) by (cases calls) auto
  moreover have "history_ok v []" by (simp add: history_ok_def assms(1) oidc_token_verifier_def)
  ultimately show ?thesis
    using forced_times_ok [where h = "[]" and s = fresh_jwks_state and v = v and calls = calls and cl = cl] assms(2)
    by (fastforce simp: recent_def fresh_jwks_state_def)
qed

theorem forced_refreshes_throttled_witness:
  "history_ok demo_verifier (forced_times demo_verifier demo_oidc [(1, ''odd''), (1, ''odd''), (5/2, ''odd''), (9, ''odd'')] fresh_jwks_state)"
  by (rule forced_refreshes_throttled [OF demo_verifier_def]) simp

text \<open>C13: The signed state that carries an invitation through the login reads back as it was written, until it expires.\<close>

theorem invite_state_round_trip:
  assumes "plain_text (is_tenant_id p)" "plain_text (is_user_id p)" "plain_text (is_token_id p)"
    and "now div 1000000 < is_exp p" and "\<And>m. ag_hmac ag (ag_state_secret ag) m \<noteq> []"
  shows "decode_invite_state ag now (Some (encode_invite_state ag p)) = Inr (Some p)"
  by (rule invite_state_decoded [OF assms(1-4) refl]) (rule assms(5))

theorem invite_state_round_trip_witness:
  "decode_invite_state demo_auth 7 (Some (encode_invite_state demo_auth demo_state)) = Inr (Some demo_state)"
  by (rule invite_state_round_trip) (simp_all add: demo_state_def demo_auth_def plain_text_def py_strip_def is_space_def)

text \<open>C15: The routes of the invitations write only roles and purposes that the check constraints of the tables allow.\<close>

theorem invite_rows_typed:
  assumes "column_checks d"
  shows "column_checks (after_invite_requests iv reqs d)"
  using assms by (rule requests_checks)

theorem invite_rows_typed_witness:
  "column_checks (after_invite_requests demo_invites [(demo_invite_call, AcceptInvite ''tokentoken1''),
     (demo_invite_call, AuthCallback (Some (encode_invite_state demo_auth demo_state)))] demo_invite_db)"
  by (rule invite_rows_typed)
    (simp add: column_checks_def demo_invite_db_def demo_invited_def invited_user_def demo_token_def empty_db_def)

text \<open>C8: A link is accepted once: after a successful acceptance, however many requests follow, the same token is refused
  with status 410 and nothing changes.\<close>

theorem invite_link_single_use:
  assumes "unique_digests d" "accept_invite iv vc token d = (Inr url, d1)" "d2 = after_invite_requests iv reqs d1"
  shows "accept_invite iv vc' token d2 = (Inl (GoneError ''Invite token has already been consumed.''), d2)"
proof -
  have "tokens_progress d d1" using request_progress [of d iv vc "AcceptInvite token"] assms(2) by simp
  then have "unique_digests d2" unfolding assms(3)
    by (blast intro: progress_unique requests_progress assms(1))
  moreover have "spent (iv_digest iv token) d2" unfolding assms(3)
    by (rule spent_progress [OF accept_spends [OF assms(2)] requests_progress])
  ultimately have "consume_invite_token (iv_digest iv) (vc_now vc') token d2 = Inl (GoneError ''Invite token has already been consumed.'')"
    by (rule spent_refused [rotated])
  then show ?thesis using assms(2) by (auto simp: accept_invite_def checked_def split: if_splits sum.splits)
qed

theorem invite_link_single_use_witness:
  "\<exists>url d1. accept_invite demo_invites demo_invite_call ''tokentoken1'' demo_invite_db = (Inr url, d1) \<and>
     accept_invite demo_invites demo_invite_call ''tokentoken1'' d1 = (Inl (GoneError ''Invite token has already been consumed.''), d1)"
proof -
  obtain url d1 where run: "accept_invite demo_invites demo_invite_call ''tokentoken1'' demo_invite_db = (Inr url, d1)"
    using demo_accepts by blast
  then show ?thesis
    using invite_link_single_use [OF demo_unique run, of d1 "[]"] by simp
qed

text \<open>C14: A regenerated invitation replaces the earlier ones: every link the user had before is refused with status 410 on every
  later execution.\<close>

theorem replaced_invite_refused:
  assumes "unique_digests d" "regenerate_user_invite iv vc who tid uid d = Inr (r, d1)"
    and "t \<in> set (db_tokens d)" "mlt_user_id t = uid" "mlt_purpose t = invite_accept_purpose" "iv_digest iv token = mlt_token_hash t"
  shows "consume_invite_token (iv_digest iv) now token (after_invite_requests iv reqs d1) =
    Inl (GoneError ''Invite token has already been consumed.'')"
proof (rule spent_refused)
  show "spent (iv_digest iv token) (after_invite_requests iv reqs d1)" unfolding assms(6)
    by (rule spent_progress [OF regenerate_spends [OF assms(2-5)] requests_progress])
  show "unique_digests (after_invite_requests iv reqs d1)"
    by (blast intro: progress_unique requests_progress regenerate_progress [OF assms(2)] assms(1))
qed

theorem replaced_invite_refused_witness:
  "\<exists>r d1. regenerate_user_invite demo_invites demo_invite_call ''root@sp.io'' ''t9'' ''v1'' demo_invite_db = Inr (r, d1) \<and>
     consume_invite_token (iv_digest demo_invites) 6000000 ''tokentoken1'' d1 =
       Inl (GoneError ''Invite token has already been consumed.'')"
proof -
  obtain r d1 where run: "regenerate_user_invite demo_invites demo_invite_call ''root@sp.io'' ''t9'' ''v1'' demo_invite_db = Inr (r, d1)"
    using demo_regenerates by blast
  have "demo_token \<in> set (db_tokens demo_invite_db)" "mlt_user_id demo_token = ''v1''"
    "mlt_purpose demo_token = invite_accept_purpose" "iv_digest demo_invites ''tokentoken1'' = mlt_token_hash demo_token"
    by (simp_all add: demo_invite_db_def demo_token_def invite_accept_purpose_def demo_invites_def)
  then show ?thesis using replaced_invite_refused [OF demo_unique run, where reqs = "[]"] run by auto
qed

text \<open>C9: A login applies an invitation only with a state whose body is signed under the secret of the deployment and reads as an
  invitation that has not expired; the user, tenant and link it applies are those the body names, the verified e-mail of the
  subject is that of the user, and the link was accepted, has not expired, and no login has used it yet.\<close>

theorem invite_login_requires:
  assumes "get_auth_callback iv vc state d = (Inr cb, d')" "cb_invite_applied cb"
  shows "\<exists>ctx fields ex u t body sig. vc_identity vc = Inr ctx \<and>
    state = Some (invite_state_prefix @ ''.'' @ body @ ''.'' @ sig) \<and>
    urlsafe_b64decode sig = Some (ag_hmac (iv_auth iv) (ag_state_secret (iv_auth iv)) body) \<and>
    invite_payload body = Some (JObj fields) \<and> dget fields ''kind'' JNull = JStr ''invite'' \<and>
    py_int (dget fields ''exp'' JNull) = Inr ex \<and> vc_now vc div 1000000 < ex \<and>
    get_user d (text_field fields ''user_id'') = Some u \<and> usr_tenant_id u = text_field fields ''tenant_id'' \<and>
    ix_email ctx = Some (py_lower (py_strip (usr_email u))) \<and> t \<in> set (db_tokens d) \<and>
    callback_open (text_field fields ''token_id'') (text_field fields ''tenant_id'') (text_field fields ''user_id'') (vc_now vc) t"
proof (rule get_auth_callback_applied [OF assms])
  fix ctx p
  assume ctx: "vc_identity vc = Inr ctx" and dec: "decode_invite_state (iv_auth iv) (vc_now vc) state = Inr (Some p)"
    and run: "apply_invite vc ctx p d = Inr (cb, d')"
  obtain u row d1 where u: "get_user d (is_user_id p) = Some u" "usr_tenant_id u = is_tenant_id p"
      "ix_email ctx = Some (py_lower (py_strip (usr_email u)))"
      "consume_invite_callback_state (vc_now vc) (is_token_id p) (is_tenant_id p) (is_user_id p) d = Inr (row, d1)"
    by (rule apply_invite_Inr [OF run])
  obtain t where t: "t \<in> set (db_tokens d)" "callback_open (is_token_id p) (is_tenant_id p) (is_user_id p) (vc_now vc) t"
    using callback_row [OF u(4)] by blast
  obtain body sig fields where s: "state = Some (invite_state_prefix @ ''.'' @ body @ ''.'' @ sig)"
      "urlsafe_b64decode sig = Some (ag_hmac (iv_auth iv) (ag_state_secret (iv_auth iv)) body)"
      "invite_payload body = Some (JObj fields)" "invite_state_of_payload (vc_now vc) fields = Some p"
    using decode_invite_state_Inr [OF dec] by metis
  obtain ex where f: "dget fields ''kind'' JNull = JStr ''invite''" "py_int (dget fields ''exp'' JNull) = Inr ex" "vc_now vc div 1000000 < ex"
      "is_tenant_id p = text_field fields ''tenant_id''" "is_user_id p = text_field fields ''user_id''"
      "is_token_id p = text_field fields ''token_id''"
    using s(4) by (rule invite_state_of_payload_Some)
  show ?thesis using ctx u(1-3) t s(1-3) f by metis
qed

theorem invite_login_requires_witness:
  "\<exists>t \<in> set (db_tokens demo_accepted_db). mlt_callback_consumed_at t = None \<and> mlt_expires_at t > 5000000"
proof -
  obtain cb d where "get_auth_callback demo_invites demo_invite_call (Some (encode_invite_state demo_auth demo_state)) demo_accepted_db
     = (Inr cb, d)" "cb_invite_applied cb" using demo_callback by blast
  from invite_login_requires [OF this] show ?thesis by (auto simp: callback_open_def demo_invite_call_def)
qed

text \<open>C10: The invited administrator of one tenant, who had no identity before, becomes an administrator of the whole control
  plane: the role of the identity is \<open>admin\<close>, which every guard of the API lets through for every tenant.\<close>

theorem invited_admin_unrestricted:
  assumes "get_auth_callback iv vc state d = (Inr cb, d')" "cb_invite_applied cb"
    and "cb_user_id cb = Some uid" "get_user d uid = Some u" "usr_role u = ''admin''" "identity_of_user d uid = None"
    and "distinct (map uid_actor (db_identities d))"
  shows "\<exists>a. resolve_access_context d' (cb_actor cb) = Inr a \<and> ac_role a = ''admin'' \<and> (\<forall>env. can_access_environment a env)"
proof (rule get_auth_callback_applied [OF assms(1,2)])
  fix ctx p assume run: "apply_invite vc ctx p d = Inr (cb, d')"
  then have cb: "is_user_id p = uid" "cb_actor cb = ix_actor ctx"
    using assms(3) by (auto simp: apply_invite_def rbind_Inr_iff split: option.splits if_splits)
  show ?thesis
  proof (rule apply_invite_Inr [OF run])
    fix row d1 i
    assume c: "consume_invite_callback_state (vc_now vc) (is_token_id p) (is_tenant_id p) (is_user_id p) d = Inr (row, d1)"
      and m: "apply_invite_identity_mapping (vc_now vc) (vc_uuid vc 0) (is_tenant_id p) (is_user_id p) (ix_actor ctx)
        (vc_source_ip vc) d1 = Inr (i, d')"
    have "get_user d1 uid = Some u" "identity_of_user d1 uid = None" "distinct (map uid_actor (db_identities d1))"
      using c assms(4,6,7) by (auto elim!: callback_Inr simp: get_user_def identity_of_user_def)
    then obtain x where "active_identity d' (ix_actor ctx) = Some (upd_identity (vc_now vc) (bind_identity u (ix_actor ctx) False) x)"
      using invited_identity_active [OF m] cb(1) by auto
    then show ?thesis using invited_admin_access [OF _ assms(5)] cb(2) by simp
  qed
qed

theorem invited_admin_unrestricted_witness:
  "\<exists>cb d' a. get_auth_callback demo_invites demo_invite_call (Some (encode_invite_state demo_auth demo_state)) demo_accepted_db = (Inr cb, d') \<and>
     resolve_access_context d' ''subject'' = Inr a \<and> can_access_environment a other_env \<and> env_tenant_id other_env \<noteq> ''t9''"
proof -
  obtain cb d' where run: "get_auth_callback demo_invites demo_invite_call (Some (encode_invite_state demo_auth demo_state)) demo_accepted_db
     = (Inr cb, d')" "cb_invite_applied cb" "cb_user_id cb = Some ''v1''" "cb_actor cb = ''subject''" using demo_callback by blast
  have "get_user demo_accepted_db ''v1'' = Some demo_invited" "usr_role demo_invited = ''admin''" "identity_of_user demo_accepted_db ''v1'' = None"
    "distinct (map uid_actor (db_identities demo_accepted_db))" "env_tenant_id other_env \<noteq> ''t9''" by code_simp+
  then show ?thesis using invited_admin_unrestricted [OF run(1-3)] run by metis
qed

section \<open>Settings and the checks of a preflight\<close>

text \<open>
  C33: Settings that pass the validation of a production deployment are safe: no dry run, no SQLite and not the default
  database, no CORS origin on the local host and none with a wildcard, a bootstrap secret of 16 and a contact token of
  32 characters at least, internal administrators that are all e-mail addresses, an issuer URL for both identity pools,
  and a real execution role.
\<close>

theorem production_settings_safe:
  assumes ok: "validate_runtime_settings loads s = Inr ()" and prod: "normal_environment s \<in> {''prod'', ''production''}"
  shows "\<not> cfg_dry_run_mode s \<and> \<not> prefix ''sqlite'' (cfg_database_url s) \<and> cfg_database_url s \<noteq> default_database_url
    \<and> cors_origin_list s \<noteq> []
    \<and> (\<forall>x \<in> set (cors_origin_list s). CHR ''*'' \<notin> set x \<and>
        (\<exists>u. urlparse x = Inr u \<and> http_url u \<and> (\<forall>h. hostname_of u = Some h \<longrightarrow> h \<notin> set localhost_origins)))
    \<and> 16 \<le> length (py_strip (cfg_bootstrap_secret s)) \<and> 32 \<le> length (py_strip (cfg_contact_submit_token s))
    \<and> internal_admin_email_set s \<noteq> [] \<and> (\<forall>e \<in> set (internal_admin_email_set s). email_address_match e)
    \<and> (\<exists>u. urlparse (py_strip (customer_oidc_issuer_effective s)) = Inr u \<and> http_url u)
    \<and> (\<exists>u. urlparse (py_strip (cfg_internal_oidc_issuer s)) = Inr u \<and> http_url u)
    \<and> is_valid_iam_role_arn (cfg_emr_execution_role_arn s)
    \<and> py_strip (cfg_emr_execution_role_arn s) \<noteq> emr_execution_role_placeholder_arn"
proof -
  have nd: "normal_environment s \<notin> set dev_like_names" using prod by (auto simp: dev_like_names_def)
  note v = validate_runtime_parts [OF ok]
  note m = validate_environment_mode_ok [OF v(1) nd] and c = validate_security_ok [OF v(3) nd]
  have dry: "\<not> cfg_dry_run_mode s" by (rule m(4) [OF prod])
  have o: "CHR ''*'' \<notin> set x \<and> (\<exists>u. urlparse x = Inr u \<and> http_url u \<and> (\<forall>h. hostname_of u = Some h \<longrightarrow> h \<notin> set localhost_origins))"
    if "x \<in> set (cors_origin_list s)" for x
    using bspec [OF m(3) that] bspec [OF c(4) that] by (auto simp: is_localhost_origin_def split: option.splits)
  show ?thesis
    using m(1,2) c dry o validate_auth_issuers [OF v(2)] validate_live_role [OF v(4) [OF dry]]
    by (simp add: min_bootstrap_secret_length_def min_contact_submit_token_length_def)
qed

theorem production_settings_safe_witness:
  "\<not> cfg_dry_run_mode sample_settings \<and> cors_origin_list sample_settings \<noteq> []"
proof -
  have "normal_environment sample_settings = ''production''" by code_simp
  then show ?thesis using production_settings_safe [OF sample_settings_valid] by simp
qed

text \<open>
  C31: A preflight that is ready means that the settings are valid, the release is not at its end of life, the environment
  is ready and has its virtual cluster and a well-formed role, the configuration of the run has no blocked key, the spend of
  the team in the current month is below the blocking threshold of its budget, the run fits its queue, every hard policy that
  applies to the environment passes, fine-grained access control, where it is on, has a release that supports it, and outside
  dry-run mode the runtime has an identity and could assume the role of the customer.
\<close>

theorem ready_preflight_guarantees:
  assumes run: "full_preflight sv True True now env rid c d = (Inr p, d')" and ready: "pf_ready p"
    and r: "r = (case rid of None \<Rightarrow> None | Some i \<Rightarrow> get_run d i)"
  shows "validate_runtime_settings (pre_loads sv) (pre_settings sv) = Inr ()
    \<and> (\<exists>row. lookup_release_row d (py_strip (cfg_emr_release_label (pre_settings sv))) = Inr row
        \<and> (\<forall>rel. row = Some rel \<longrightarrow> rel_lifecycle_status rel \<in> {''current'', ''deprecated''}))
    \<and> env_status env = EReady \<and> \<not> text_empty (env_emr_virtual_cluster_id env)
    \<and> is_valid_iam_role_arn (env_customer_role_arn env)
    \<and> (\<forall>k \<in> set (dkeys (conf_or_empty c)). \<not> forbidden_key k)
    \<and> (\<forall>b. find_budget d (env_tenant_id env) = Some b \<longrightarrow>
        snd (snd (team_spend_for_period d (env_tenant_id env) (billing_period now)))
          < threshold (tb_monthly_budget_usd_micros b) (tb_block_threshold_pct b))
    \<and> (\<forall>q m x. queue_limit env = Some (q, m) \<longrightarrow> r = Some x \<longrightarrow> requested_vcpu x \<le> m)
    \<and> (\<forall>q f. q \<in> set (db_policies d) \<and> policy_applies env q \<and> pol_enforcement q = ''hard'' \<and>
          map_of rule_evaluators (pol_rule_type q) = Some f \<longrightarrow>
        (\<exists>res. f (pol_config q) (preflight_policy_context env c r) = Inr res \<and> er_passed res))
    \<and> (env_lake_formation_enabled env \<longrightarrow>
        lake_formation_supported_for_label (py_strip (cfg_emr_release_label (pre_settings sv))))
    \<and> (\<not> cfg_dry_run_mode (pre_settings sv) \<longrightarrow> (\<exists>ident. sts_identity (pre_sts sv) = Inr ident)
        \<and> (\<exists>res. assume_and_identify (pre_sts sv) (env_customer_role_arn env) (env_region env)
             (let x = py_strip (cfg_assume_role_external_id (pre_settings sv)) in if x = [] then None else Some x) = Inr res))"
proof -
  from full_preflight_parts [OF run ready r] obtain xs ys d1 zs
    where xs: "checks_before_policies sv True True now env r c d = Inr xs" "no_failure xs"
      and ys: "policy_engine_checks now env c r d = (Inr ys, d1)" "no_failure ys"
      and zs: "checks_after_policies sv env r c d1 = Inr zs" "no_failure zs" by blast
  have b: "emits_ok (checks_before_policies sv True True now env r c d)" using xs by simp
  note parts = b [unfolded before_ok_iff]
  note rt = runtime_ok [OF conjunct1 [OF parts]]
  have after: "no_failure (lake_formation_fgac_checks (pre_settings sv) (pre_get_role sv) (pre_permissions sv) env)"
      "emits_ok (iam_credential_chain_checks (pre_settings sv) (pre_sts sv) env)"
    using zs after_ok_iff [of sv env r c d1] by simp_all
  have role: "is_valid_iam_role_arn (env_customer_role_arn env)" using parts by simp
  note chain = credential_chain_ok [OF after(2) _ valid_role_ne [OF role]]
  have pol: "\<exists>res. f (pol_config q) (preflight_policy_context env c r) = Inr res \<and> er_passed res"
    if "q \<in> set (db_policies d)" "policy_applies env q" "pol_enforcement q = ''hard''" "map_of rule_evaluators (pol_rule_type q) = Some f" for q f
    by (rule policy_checks_pass [OF ys(1) _ that]) (use ys(2) in \<open>simp add: no_failure_def\<close>)
  show ?thesis
    using rt(1,4) parts after(1) fgac_ok pol chain
    by (auto simp: team_key_for_environment_def validate_custom_spark_conf_policy_Nil)
qed

theorem ready_preflight_guarantees_witness:
  "env_status byoc_env = EReady \<and> validate_runtime_settings (pre_loads sample_services) (pre_settings sample_services) = Inr ()"
proof -
  obtain p d' where "full_preflight sample_services True True 0 byoc_env None None empty_db = (Inr p, d')" "pf_ready p"
    using is_ready_answerE [OF sample_preflight_ready] by blast
  from ready_preflight_guarantees [OF this, of None] show ?thesis by simp
qed

text \<open>
  C32: For an EMR on EKS environment in a customer cluster, a preflight that is ready has asked the cloud and got no refusal,
  however the configuration looks. Outside dry-run mode the role could be assumed with the external id of the environment, the
  simulation allows every dispatch action, the description of the cluster and the hand-over of the execution role, and the
  cluster is active and has an OIDC issuer; in every mode the check of the trust policy did not raise before any repair, the OIDC
  provider is associated, the customer role may dispatch and pass the role, and the namespace belongs to no other virtual
  cluster. The checks of the cloud are skipped, with warnings only, when the configuration is not in order; a ready preflight
  shows that they were not.
\<close>

theorem ready_byoc_preflight_asked_the_cloud:
  assumes run: "full_preflight sv True True now env rid c d = (Inr p, d')" and ready: "pf_ready p"
    and byoc: "env_engine env = ''emr_on_eks''" "env_provisioning_mode env = ''byoc_lite''"
  shows "(\<not> cfg_dry_run_mode (pre_settings sv) \<longrightarrow>
        (\<exists>res. assume_and_identify (pre_sts sv) (env_customer_role_arn env) (env_region env)
           (let x = fst (resolved_external_id (pre_settings sv) env) in if x = [] then None else Some x) = Inr res) \<and>
        (\<exists>a e q. simulate_all (dispatch_services.truncate (pre_emr sv)) env
             (py_strip (cfg_emr_execution_role_arn (pre_settings sv))) = Inr (a, e, q) \<and>
           (\<forall>x \<in> set a. is_allowed x) \<and> is_allowed (first_result e) \<and> is_allowed (first_result q)) \<and>
        (\<exists>nm cluster. eks_cluster_name_from_arn (the (env_eks_cluster_arn env)) = Inr nm \<and>
           eks_describe (pre_emr sv) env nm = Inr cluster \<and> str_or cluster ''status'' ''UNKNOWN'' = ''ACTIVE'' \<and>
           str_or (sub_dict (sub_dict cluster ''identity'') ''oidc'') ''issuer'' [] \<noteq> []))
    \<and> (\<exists>trust. emr_check_trust (pre_emr sv) False env = Inr trust)
    \<and> (\<exists>res. emr_oidc_association (pre_emr sv) env = Inr res \<and> truthy (dget res ''associated'' JNull))
    \<and> (\<exists>res. emr_dispatch_permissions (pre_emr sv) env = Inr res \<and> truthy (dget res ''dispatch_actions_allowed'' JNull)
         \<and> truthy (dget res ''pass_role_allowed'' JNull))
    \<and> (\<forall>col. emr_find_collision (pre_emr sv) env = Inr (Some col) \<longrightarrow> col \<noteq> [] \<longrightarrow>
         env_emr_virtual_cluster_id env = Some (str_or col ''id'' []))"
proof -
  define r where "r = (case rid of None \<Rightarrow> None | Some i \<Rightarrow> get_run d i)"
  from full_preflight_parts [OF run ready r_def] obtain xs
    where xs: "checks_before_policies sv True True now env r c d = Inr xs" "no_failure xs" by blast
  have b: "emits_ok (checks_before_policies sv True True now env r c d)" using xs by simp
  note parts = b [unfolded before_ok_iff]
  have base: "is_valid_iam_role_arn (env_customer_role_arn env)" "env_status env = EReady"
      "\<not> text_empty (env_emr_virtual_cluster_id env)"
    using parts by simp_all
  from parts obtain gs where gs: "dispatch_gate_checks (pre_settings sv) (pre_sts sv)
      (dispatch_services.truncate (pre_emr sv)) env = Inr gs" "no_failure gs" using emits_okE by blast
  note g = dispatch_gate_ok [OF gs byoc]
  have aws: "emits_ok (run_aws_prechecks (preflight_auto_trust_update_enabled (env_var (pre_sts sv))) (pre_emr sv) env c True)"
    using byoc_ok [OF _ byoc(2) base] parts by blast
  have live: "\<exists>nm cluster. eks_cluster_name_from_arn (the (env_eks_cluster_arn env)) = Inr nm \<and>
           eks_describe (pre_emr sv) env nm = Inr cluster \<and> str_or cluster ''status'' ''UNKNOWN'' = ''ACTIVE'' \<and>
           str_or (sub_dict (sub_dict cluster ''identity'') ''oidc'') ''issuer'' [] \<noteq> []" if "\<not> cfg_dry_run_mode (pre_settings sv)"
    using g(3) describe_cluster_ok [OF _ that] truncated_describe by metis
  show ?thesis
    using g(1) sts_gate_assumes simulation_allows g(2) live irsa_trust [OF g(4)] prechecks_ok [OF aws]
      oidc_association_ok [OF prechecks_associated [OF aws]]
    by (simp add: truncated_trust) blast
qed

theorem ready_byoc_preflight_asked_the_cloud_witness:
  "\<exists>trust. emr_check_trust sample_emr False byoc_env = Inr trust"
proof -
  obtain p d' where p: "full_preflight sample_services True True 0 byoc_env None None empty_db = (Inr p, d')" "pf_ready p"
    using is_ready_answerE [OF sample_preflight_ready] by blast
  have "env_engine byoc_env = ''emr_on_eks''" "env_provisioning_mode byoc_env = ''byoc_lite''" by (simp_all add: byoc_env_def)
  from ready_byoc_preflight_asked_the_cloud [OF p this] show ?thesis by (simp add: sample_services_def)
qed

text \<open>
  C34: Outside dry-run mode an environment that has an external id of its own, different from the one of the settings, and whose
  customer role accepts only its own id, is never ready: the dispatch gate assumes the role with the id of the environment
  and passes, but the check of the credential chain uses the id of the settings and is refused.
\<close>

theorem own_external_id_never_ready:
  assumes live: "\<not> cfg_dry_run_mode (pre_settings sv)" and idty: "sts_identity (pre_sts sv) = Inr ident"
    and own: "env_assume_role_external_id env = Some x" "py_strip x \<noteq> []" "py_strip (cfg_assume_role_external_id (pre_settings sv)) \<noteq> py_strip x"
    and role: "env_customer_role_arn env \<noteq> []"
    and accepts: "assume_and_identify (pre_sts sv) (env_customer_role_arn env) (env_region env) (Some (py_strip x)) = Inr res"
    and refuses: "\<And>ext. ext \<noteq> Some (py_strip x) \<Longrightarrow>
      \<exists>e. sts_assume (pre_sts sv) (env_region env) (env_customer_role_arn env) ext = Inl e \<and> is_client_error e"
  shows "(\<exists>y. sts_caller_identity_check (pre_settings sv) (pre_sts sv) env = Inr (y, True))
    \<and> (\<forall>rr rv now rid c d p d'. full_preflight sv rr rv now env rid c d = (Inr p, d') \<longrightarrow> \<not> pf_ready p)"
proof (intro conjI allI impI notI)
  show "\<exists>y. sts_caller_identity_check (pre_settings sv) (pre_sts sv) env = Inr (y, True)"
    by (rule gate_accepts_own_external_id [OF live own(1,2) role accepts])
next
  fix rr rv now rid c d p d'
  assume run: "full_preflight sv rr rv now env rid c d = (Inr p, d')" and ready: "pf_ready p"
  from full_preflight_parts [OF run ready refl] obtain d1 zs r
    where zs: "checks_after_policies sv env r c d1 = Inr zs" "no_failure zs" by blast
  then have "emits_ok (iam_credential_chain_checks (pre_settings sv) (pre_sts sv) env)"
    using after_ok_iff [of sv env r c d1] by simp
  moreover have "\<not> emits_ok (iam_credential_chain_checks (pre_settings sv) (pre_sts sv) env)"
    by (rule chain_refuses_own_external_id [OF live idty own(3) role refuses])
  ultimately show False by blast
qed

theorem own_external_id_never_ready_witness:
  "\<not> is_ready_answer (full_preflight own_id_services True True 0 own_id_env None None empty_db)"
proof
  assume "is_ready_answer (full_preflight own_id_services True True 0 own_id_env None None empty_db)"
  then obtain p d' where p: "full_preflight own_id_services True True 0 own_id_env None None empty_db = (Inr p, d')" "pf_ready p"
    using is_ready_answerE by blast
  obtain ident where i: "sts_identity (pre_sts own_id_services) = Inr ident" using own_id_facts(2) by blast
  obtain res where res: "assume_and_identify (pre_sts own_id_services) (env_customer_role_arn own_id_env) (env_region own_id_env)
      (Some (py_strip ''own'')) = Inr res" using own_id_accepted unfolding own_id_strip by blast
  have ne: "py_strip ''own'' \<noteq> []" "py_strip (cfg_assume_role_external_id (pre_settings own_id_services)) \<noteq> py_strip ''own''"
    unfolding own_id_facts(5) own_id_strip by simp_all
  show False
    using p own_external_id_never_ready [OF own_id_facts(1) i own_id_facts(3) ne own_id_facts(4) res] own_id_facts(6)
    unfolding own_id_strip by blast
qed

text \<open>
  C35: The listing of Lake Formation permissions returns exactly when the service ends it: when one of its answers is an
  error or carries no further token. A service that keeps answering tokens keeps the check waiting for ever; one that draws
  its tokens from a finite set without repeating one is always read to the end.
\<close>

theorem lf_listing_returns_iff:
  "((\<exists>r. check_execution_role_lf_permissions client region arn catalog_id = Some r) \<longleftrightarrow>
      (\<exists>k. ends_at (client region (if text_empty catalog_id then None else catalog_id)) page_token None k))
   \<and> (finite T \<and> (\<forall>k t. token_at (client region (if text_empty catalog_id then None else catalog_id)) page_token None (Suc k) = Some t \<longrightarrow> t \<in> T)
      \<and> (\<forall>j k t. token_at (client region (if text_empty catalog_id then None else catalog_id)) page_token None (Suc j) = Some t \<longrightarrow>
            token_at (client region (if text_empty catalog_id then None else catalog_id)) page_token None (Suc k) = Some t \<longrightarrow> j = k)
      \<longrightarrow> (\<exists>r. check_execution_role_lf_permissions client region arn catalog_id = Some r))"
proof -
  let ?call = "client region (if text_empty catalog_id then None else catalog_id)"
  have "\<exists>k. ends_at ?call page_token None k"
    if "finite T" "\<forall>k t. token_at ?call page_token None (Suc k) = Some t \<longrightarrow> t \<in> T"
      "\<forall>j k t. token_at ?call page_token None (Suc j) = Some t \<longrightarrow> token_at ?call page_token None (Suc k) = Some t \<longrightarrow> j = k"
    by (rule fresh_tokens_end [of T]) (use that in blast)+
  then show ?thesis using check_permissions_terminates_iff [of client region arn catalog_id] by blast
qed

theorem lf_listing_returns_iff_witness:
  "(\<exists>r. check_execution_role_lf_permissions two_pages ''us-east-1'' ''role'' None = Some r)
   \<and> check_execution_role_lf_permissions endless_pages ''us-east-1'' ''role'' None = None"
proof -
  have "ends_at (two_pages ''us-east-1'' None) page_token None 1" by code_simp
  then have "\<exists>r. check_execution_role_lf_permissions two_pages ''us-east-1'' ''role'' None = Some r"
    using lf_listing_returns_iff [of two_pages "''us-east-1''" "''role''" None "{}"] by (auto simp: text_empty_def)
  moreover have "\<not> ends_at (endless_pages ''us-east-1'' None) page_token None k" for k by (rule endless_pages_go_on)
  then have "check_execution_role_lf_permissions endless_pages ''us-east-1'' ''role'' None = None"
    using lf_listing_returns_iff [of endless_pages "''us-east-1''" "''role''" None "{}"] by (simp add: text_empty_def)
  ultimately show ?thesis by blast
qed



section \<open>Contact submissions\<close>

text \<open>
  C29: A contact submission is decided at most once: in every execution of the contact routes a submission that was approved
  or rejected stays in the table unchanged, an approved one names a tenant that is there, and every later decision on it is
  answered with status 409 and changes nothing.
\<close>

theorem contact_decided_once:
  assumes reached: "contact_reached s iv (t, st)" and steps: "(contact_step s iv)\<^sup>*\<^sup>* (t, st) (t', st')"
    and c: "c \<in> set (cs_submissions st)" "csu_status c \<noteq> ''pending''" and admin: "vc_admin vc = Inr ia"
  shows "c \<in> set (cs_submissions st')
    \<and> (csu_status c = ''approved'' \<longrightarrow> (\<exists>tid \<in> tenant_ids (cs_db st'). csu_tenant_id c = Some tid))
    \<and> post_internal_contact_approve iv ok vc (csu_id c) nm st' =
        (Inl (HTTPException 409 (''Submission is already '' @ csu_status c @ ''.'')), st')
    \<and> post_internal_contact_reject vc (csu_id c) st' =
        (Inl (HTTPException 409 (''Submission is already '' @ csu_status c @ ''.'')), st')"
proof -
  from contact_steps_ok [OF steps contact_reached_ok [OF reached]]
  have ok: "contact_ok s (t', st')" and "decided_kept st st'" by simp_all
  then have in': "c \<in> set (cs_submissions st')" using c by (simp add: decided_kept_def)
  have "find_row csu_id (csu_id c) (cs_submissions st') = Some c"
    using ok by (intro find_row_unique in') (simp add: contact_ok_def)
  then have "pending_submission (csu_id c) (cs_submissions st') =
      Inl (HTTPException 409 (''Submission is already '' @ csu_status c @ ''.''))"
    using c(2) by (simp add: pending_submission_def)
  with in' ok show ?thesis
    by (auto simp: post_internal_contact_approve_def post_internal_contact_reject_def admin contact_ok_def rbind_def)
qed

theorem contact_decided_once_witness:
  "map (\<lambda>c. (csu_id c, csu_status c)) (cs_submissions approved_contact) = [(''c1'', ''approved'')]
   \<and> post_internal_contact_reject demo_invite_call ''c1'' approved_contact =
       (Inl (HTTPException 409 ''Submission is already approved.''), approved_contact)"
proof -
  obtain c where c: "c \<in> set (cs_submissions approved_contact)" "csu_id c = ''c1''" "csu_status c = ''approved''"
    using approved_rows by auto
  have "vc_admin demo_invite_call = Inr \<lparr>ia_actor = ''root'', ia_email = ''root@sp.io''\<rparr>" by (simp add: demo_invite_call_def)
  from contact_decided_once [OF approved_reached rtranclp.rtrancl_refl c(1) _ this] c approved_rows show ?thesis by simp
qed

text \<open>
  C30: In every execution of the contact routes no address exceeds its rate: any window of the configured length holds at most
  the configured number of accepted submissions of one address, whichever routes were called in between.
\<close>

theorem contact_rate_bounded:
  assumes reached: "contact_reached s iv (t, st)" and a: "a \<noteq> []"
  shows "int (length (filter (\<lambda>c. csu_source_ip c = Some a
        \<and> u - cfg_contact_submit_rate_limit_window_seconds s * us_per_second \<le> csu_created_at c \<and> csu_created_at c \<le> u)
      (cs_submissions st))) \<le> max 0 (cfg_contact_submit_rate_limit_max s)"
  using contact_reached_ok [OF reached] a unfolding contact_ok_def rate_ok_def from_address_def by (simp add: conj_assoc)

theorem contact_rate_bounded_witness:
  "map csu_source_ip (cs_submissions submitted_contact) = [Some ''9.9.9.9'']
   \<and> int (length (filter (\<lambda>c. csu_source_ip c = Some ''9.9.9.9''
        \<and> 1 - cfg_contact_submit_rate_limit_window_seconds default_settings * us_per_second \<le> csu_created_at c \<and> csu_created_at c \<le> 1)
      (cs_submissions submitted_contact))) \<le> max 0 (cfg_contact_submit_rate_limit_max default_settings)"
proof
  show "map csu_source_ip (cs_submissions submitted_contact) = [Some ''9.9.9.9'']"
    using submitted_rows by (auto simp: map_eq_Cons_conv)
  show "int (length (filter (\<lambda>c. csu_source_ip c = Some ''9.9.9.9''
        \<and> 1 - cfg_contact_submit_rate_limit_window_seconds default_settings * us_per_second \<le> csu_created_at c \<and> csu_created_at c \<le> 1)
      (cs_submissions submitted_contact))) \<le> max 0 (cfg_contact_submit_rate_limit_max default_settings)"
    by (rule contact_rate_bounded [OF submitted_reached]) simp
qed

end
